(* ===== verification/Prelude.thy ===== *)
theory Prelude
  imports Main "HOL-Library.Word"
begin

text \<open>
  Shared vocabulary of the development: names for the C integer types at their widths, the
  named theorem collections, the array-scanning loops that several components of the program
  repeat (find the slot of a key, find a free slot) with their lemmas, and the interface of a
  table that is written slot by slot (\<open>keyed_table\<close>) with the client lemmas proved once.

  C type to HOL type: \<open>uint32_t\<close> is \<open>u32\<close>, \<open>uint64_t\<close> and
  \<open>size_t\<close> are \<open>u64\<close>, \<open>int\<close> and \<open>pid_t\<close> are
  \<open>i32\<close> (32 bits, read as two's complement by \<^const>\<open>sint\<close>),
  \<open>time_t\<close> is \<open>u64\<close>. Arithmetic on words wraps, as it does in C for the
  unsigned types.
\<close>

type_synonym u32 = "32 word"
type_synonym u64 = "64 word"
type_synonym i32 = "32 word"
type_synonym pid_t = "32 word"

named_theorems slot_simps \<open>scanning an array for a slot\<close>
named_theorems lock_simps \<open>effect of an operation on the lock word it takes\<close>
named_theorems frame_simps \<open>parts of the state an operation leaves alone\<close>

section \<open>Scanning loops\<close>

text \<open>
  \<open>for (i = 0; i < n; i++) if (P(a[i])) { ... break; }\<close>: the index the loop stops at.
\<close>

fun find_slot :: "('a \<Rightarrow> bool) \<Rightarrow> 'a list \<Rightarrow> nat option" where
  "find_slot P [] = None"
| "find_slot P (x # xs) = (if P x then Some 0 else map_option Suc (find_slot P xs))"

text \<open>
  The loop that looks for a match and, on the way, remembers the first free slot it passes:
  it stops at the first match. The result is (match, first free slot before the stop).
\<close>

fun scan_slots :: "('a \<Rightarrow> bool) \<Rightarrow> ('a \<Rightarrow> bool) \<Rightarrow> 'a list \<Rightarrow> nat \<Rightarrow> nat option \<Rightarrow> nat option \<times> nat option"
  where
  "scan_slots P E [] i e = (None, e)"
| "scan_slots P E (x # xs) i e =
     (if P x then (Some i, e)
      else scan_slots P E xs (Suc i) (if e = None \<and> E x then Some i else e))"

lemma find_slot_SomeD:
  "find_slot P xs = Some i \<Longrightarrow> i < length xs \<and> P (xs ! i) \<and> (\<forall>j<i. \<not> P (xs ! j))"
proof (induction xs arbitrary: i)
  case Nil
  then show ?case by simp
next
  case (Cons x xs)
  show ?case
  proof (cases "P x")
    case True
    with Cons.prems show ?thesis by simp
  next
    case False
    with Cons.prems obtain k where k: "find_slot P xs = Some k" "i = Suc k" by auto
    from Cons.IH [OF k(1)] False k(2) show ?thesis
      by (auto simp: less_Suc_eq_0_disj)
  qed
qed

lemma find_slot_None_iff [slot_simps]: "find_slot P xs = None \<longleftrightarrow> (\<forall>x\<in>set xs. \<not> P x)"
  by (induction xs) auto

lemma find_slot_None_nth: "find_slot P xs = None \<Longrightarrow> i < length xs \<Longrightarrow> \<not> P (xs ! i)"
  by (simp add: find_slot_None_iff)

lemma find_slot_eqI:
  "i < length xs \<Longrightarrow> P (xs ! i) \<Longrightarrow> (\<And>j. j < i \<Longrightarrow> \<not> P (xs ! j)) \<Longrightarrow> find_slot P xs = Some i"
proof (induction xs arbitrary: i)
  case Nil
  then show ?case by simp
next
  case (Cons x xs)
  show ?case
  proof (cases i)
    case 0
    with Cons.prems show ?thesis by simp
  next
    case (Suc k)
    have "\<not> P x" using Cons.prems(3) [of 0] Suc by simp
    moreover have "find_slot P xs = Some k"
    proof (rule Cons.IH)
      show "k < length xs" and "P (xs ! k)" using Cons.prems(1,2) Suc by simp_all
      show "\<not> P (xs ! j)" if "j < k" for j using Cons.prems(3) [of "Suc j"] that Suc by simp
    qed
    ultimately show ?thesis using Suc by simp
  qed
qed

lemma find_slot_replicate [slot_simps]:
  "find_slot P (replicate n x) = (if P x \<and> 0 < n then Some 0 else None)"
proof (cases n)
  case (Suc m)
  then show ?thesis by (auto simp: find_slot_None_iff)
qed simp

lemma find_slot_map [slot_simps]: "find_slot P (map f xs) = find_slot (\<lambda>x. P (f x)) xs"
  by (induction xs) auto

text \<open>The combined loop is the two simple loops.\<close>

lemma scan_slots_shift:
  "scan_slots P E xs i (Some e) = (map_option (\<lambda>k. i + k) (find_slot P xs), Some e)"
  by (induction xs arbitrary: i) (auto simp: option.map_comp intro!: option.map_cong0)

lemma scan_slots_fst: "fst (scan_slots P E xs i e) = map_option (\<lambda>k. i + k) (find_slot P xs)"
  by (induction xs arbitrary: i e) (auto simp: option.map_comp intro!: option.map_cong0)

lemma scan_slots_snd_no_match:
  "find_slot P xs = None \<Longrightarrow>
   snd (scan_slots P E xs i None) = map_option (\<lambda>k. i + k) (find_slot E xs)"
proof (induction xs arbitrary: i)
  case Nil
  then show ?case by simp
next
  case (Cons x xs)
  then have np: "\<not> P x" "find_slot P xs = None" by (auto split: if_splits)
  show ?case
  proof (cases "E x")
    case True
    with np show ?thesis by (simp add: scan_slots_shift)
  next
    case False
    with np Cons.IH [OF np(2), of "Suc i"] show ?thesis
      by (auto simp: option.map_comp intro!: option.map_cong0)
  qed
qed

lemma scan_slots_match [slot_simps]:
  "find_slot P xs = Some k \<Longrightarrow> fst (scan_slots P E xs 0 None) = Some k"
  by (simp add: scan_slots_fst)

lemma scan_slots_no_match [slot_simps]:
  "find_slot P xs = None \<Longrightarrow> scan_slots P E xs 0 None = (None, find_slot E xs)"
  using scan_slots_fst [of P E xs 0 None] scan_slots_snd_no_match [of P xs E 0]
  by (cases "scan_slots P E xs 0 None") (simp add: option.map_ident)

section \<open>Counting entries of an array\<close>

definition count_slots :: "('a \<Rightarrow> bool) \<Rightarrow> 'a list \<Rightarrow> nat" where
  "count_slots P xs = length (filter P xs)"

lemma count_slots_replicate [slot_simps]:
  "count_slots P (replicate n x) = (if P x then n else 0)"
  by (simp add: count_slots_def)

lemma count_slots_le: "count_slots P xs \<le> length xs"
  by (simp add: count_slots_def)

lemma count_slots_update:
  "i < length xs \<Longrightarrow>
   count_slots P (xs[i := y]) + (if P (xs ! i) then 1 else 0)
     = count_slots P xs + (if P y then 1 else 0)"
proof (induction xs arbitrary: i)
  case Nil
  then show ?case by simp
next
  case (Cons x xs)
  show ?case
  proof (cases i)
    case 0
    then show ?thesis by (simp add: count_slots_def)
  next
    case (Suc k)
    with Cons.prems have "k < length xs" by simp
    from Cons.IH [OF this] Suc show ?thesis by (simp add: count_slots_def)
  qed
qed

lemma count_slots_pos: "i < length xs \<Longrightarrow> P (xs ! i) \<Longrightarrow> 0 < count_slots P xs"
  by (auto simp: count_slots_def filter_empty_conv)

lemma count_slots_add:
  "i < length xs \<Longrightarrow> \<not> P (xs ! i) \<Longrightarrow> P y \<Longrightarrow> count_slots P (xs[i := y]) = Suc (count_slots P xs)"
  using count_slots_update [of i xs P y] by simp

lemma count_slots_remove:
  "i < length xs \<Longrightarrow> P (xs ! i) \<Longrightarrow> \<not> P y \<Longrightarrow> Suc (count_slots P (xs[i := y])) = count_slots P xs"
  using count_slots_update [of i xs P y] by simp

lemma count_slots_same:
  "i < length xs \<Longrightarrow> P (xs ! i) = P y \<Longrightarrow> count_slots P (xs[i := y]) = count_slots P xs"
  using count_slots_update [of i xs P y] by (simp split: if_splits)

lemma count_slots_map: "count_slots P (map f xs) = count_slots (\<lambda>x. P (f x)) xs"
  by (simp add: count_slots_def filter_map comp_def)

lemma count_slots_split:
  "count_slots P xs = count_slots (\<lambda>x. P x \<and> Q x) xs + count_slots (\<lambda>x. P x \<and> \<not> Q x) xs"
  by (induction xs) (auto simp: count_slots_def)

text \<open>A counter of fewer than \<open>2 ^ 32\<close> things as a 32-bit word.\<close>

lemma unat_count32: "n < 4294967296 \<Longrightarrow> unat (of_nat n :: u32) = n"
  by (simp add: unat_of_nat take_bit_nat_eq_self)

lemma count32_pos: "0 < n \<Longrightarrow> n < 4294967296 \<Longrightarrow> 0 < (of_nat n :: u32)"
  by (simp add: word_less_nat_alt unat_count32)

text \<open>A 32-bit unsigned value read at 64 bits.\<close>

lemma unat_ucast_u64: "unat (ucast (n :: u32) :: u64) = unat n"
proof -
  have "unat n < 4294967296" using unsigned_less [of n] by simp
  then show ?thesis by (simp add: unsigned_ucast_eq take_bit_nat_eq_self)
qed

text \<open>One more and one less, away from the bounds.\<close>

lemma unat_add_one: "u < (m :: 32 word) \<Longrightarrow> unat (u + 1) = Suc (unat u)"
proof -
  assume "u < m"
  then have "unat u < unat m" by (simp add: word_less_nat_alt)
  moreover have "unat m < 4294967296" using unsigned_less [of m] by simp
  ultimately show ?thesis by (simp add: unat_word_ariths)
qed

lemma unat_sub_one: "0 < unat (u :: 32 word) \<Longrightarrow> unat (u + (-1)) = unat u - 1"
proof -
  assume "0 < unat u"
  then have "1 \<le> u" by (simp add: word_le_nat_alt)
  then show ?thesis by (simp add: unat_sub)
qed

section \<open>Arrays of keyed slots\<close>

text \<open>
  A fixed array whose entries carry a key, where key 0 marks a free slot. Each non-zero key
  occurs at most once.
\<close>

definition keys_unique :: "('a \<Rightarrow> 'k::zero) \<Rightarrow> 'a list \<Rightarrow> bool" where
  "keys_unique key xs \<longleftrightarrow>
     (\<forall>i<length xs. \<forall>j<length xs. key (xs ! i) = key (xs ! j) \<and> key (xs ! i) \<noteq> 0 \<longrightarrow> i = j)"

lemma keys_unique_replicate: "key x = 0 \<Longrightarrow> keys_unique key (replicate n x)"
  by (simp add: keys_unique_def)

lemma keys_uniqueD:
  "keys_unique key xs \<Longrightarrow> i < length xs \<Longrightarrow> j < length xs \<Longrightarrow> key (xs ! i) = key (xs ! j) \<Longrightarrow>
   key (xs ! i) \<noteq> 0 \<Longrightarrow> i = j"
  by (auto simp: keys_unique_def)

lemma keys_unique_update:
  assumes u: "keys_unique key xs"
    and y: "\<And>j. j < length xs \<Longrightarrow> j \<noteq> i \<Longrightarrow> key (xs ! j) = key y \<Longrightarrow> key y = 0"
  shows "keys_unique key (xs[i := y])"
  unfolding keys_unique_def
proof (intro allI impI)
  fix a b
  assume a: "a < length (xs[i := y])" and b: "b < length (xs[i := y])"
    and e: "key (xs[i := y] ! a) = key (xs[i := y] ! b) \<and> key (xs[i := y] ! a) \<noteq> 0"
  show "a = b"
  proof (rule ccontr)
    assume ne: "a \<noteq> b"
    consider "a = i" | "b = i" | "a \<noteq> i" "b \<noteq> i" by blast
    then show False
    proof cases
      case 1
      with ne a b e y [of b] show False by simp
    next
      case 2
      with ne a b e y [of a] show False by simp
    next
      case 3
      with ne a b e keys_uniqueD [OF u, of a b] show False by auto
    qed
  qed
qed

lemma keys_unique_update_same:
  "keys_unique key xs \<Longrightarrow> i < length xs \<Longrightarrow> key y = key (xs ! i) \<Longrightarrow> keys_unique key (xs[i := y])"
  by (rule keys_unique_update, assumption) (metis keys_uniqueD)

lemma keys_unique_update_zero:
  "keys_unique key xs \<Longrightarrow> key y = 0 \<Longrightarrow> keys_unique key (xs[i := y])"
  by (rule keys_unique_update) auto

lemma keys_unique_update_fresh:
  "keys_unique key xs \<Longrightarrow> find_slot (\<lambda>x. key x = key y) xs = None \<Longrightarrow> keys_unique key (xs[i := y])"
  by (rule keys_unique_update) (auto dest: find_slot_None_nth)

lemma keys_unique_clear:
  assumes u: "keys_unique key xs" and f: "\<And>x. key (f x) = key x \<or> key (f x) = 0"
  shows "keys_unique key (map f xs)"
  unfolding keys_unique_def
proof (intro allI impI)
  fix i j
  assume i: "i < length (map f xs)" and j: "j < length (map f xs)"
    and e: "key (map f xs ! i) = key (map f xs ! j) \<and> key (map f xs ! i) \<noteq> 0"
  with f [of "xs ! i"] f [of "xs ! j"]
  have "key (xs ! i) = key (xs ! j)" "key (xs ! i) \<noteq> 0" by auto
  with keys_uniqueD [OF u] i j show "i = j" by simp
qed

lemma keys_unique_find:
  assumes u: "keys_unique key xs" and i: "i < length xs" "key (xs ! i) = k" and k: "k \<noteq> 0"
  shows "find_slot (\<lambda>x. key x = k) xs = Some i"
proof (rule find_slot_eqI)
  fix j
  assume "j < i"
  with u i k show "key (xs ! j) \<noteq> k" using keys_uniqueD [OF u, of i j] by auto
qed (use i in auto)

lemma keys_unique_Cons:
  assumes "keys_unique key (x # xs)"
  shows "keys_unique key xs \<and> (key x \<noteq> 0 \<longrightarrow> key x \<notin> key ` set xs)"
proof
  show "keys_unique key xs"
    using assms unfolding keys_unique_def
    by (metis Suc_less_eq length_Cons nat.inject nth_Cons_Suc)
  show "key x \<noteq> 0 \<longrightarrow> key x \<notin> key ` set xs"
  proof (intro impI notI)
    assume x: "key x \<noteq> 0" "key x \<in> key ` set xs"
    then obtain j where "j < length xs" "key (xs ! j) = key x" by (auto simp: in_set_conv_nth)
    with x keys_uniqueD [OF assms, of 0 "Suc j"] show False by simp
  qed
qed

lemma keys_unique_distinct: "keys_unique key xs \<Longrightarrow> distinct (filter (\<lambda>k. k \<noteq> 0) (map key xs))"
  by (induction xs) (auto dest: keys_unique_Cons)

text \<open>The number of keys in use.\<close>

lemma card_keys:
  "keys_unique key xs \<Longrightarrow> card {k. k \<noteq> 0 \<and> k \<in> key ` set xs} = count_slots (\<lambda>x. key x \<noteq> 0) xs"
proof -
  assume "keys_unique key xs"
  from distinct_card [OF keys_unique_distinct [OF this]]
  have "card (set (filter (\<lambda>k. k \<noteq> 0) (map key xs))) = count_slots (\<lambda>x. key x \<noteq> 0) xs"
    by (simp add: count_slots_def filter_map comp_def)
  moreover have "set (filter (\<lambda>k. k \<noteq> 0) (map key xs)) = {k. k \<noteq> 0 \<and> k \<in> key ` set xs}" by auto
  ultimately show ?thesis by simp
qed

lemma count_slots_full: "count_slots P xs = length xs \<longleftrightarrow> find_slot (\<lambda>x. \<not> P x) xs = None"
proof
  assume "count_slots P xs = length xs"
  then show "find_slot (\<lambda>x. \<not> P x) xs = None"
    unfolding count_slots_def find_slot_None_iff by (metis filter_False filter_id_conv length_filter_less less_irrefl)
next
  assume "find_slot (\<lambda>x. \<not> P x) xs = None"
  then show "count_slots P xs = length xs" by (simp add: find_slot_None_iff count_slots_def)
qed

text \<open>What the array says about a key: the entry of its slot, if it has one.\<close>

definition slot_entry :: "('a \<Rightarrow> 'k) \<Rightarrow> 'a list \<Rightarrow> 'k \<Rightarrow> 'a option" where
  "slot_entry key xs k = map_option (\<lambda>i. xs ! i) (find_slot (\<lambda>x. key x = k) xs)"

lemma slot_entry_key: "slot_entry key xs k = Some x \<Longrightarrow> key x = k"
  by (auto simp: slot_entry_def dest: find_slot_SomeD)

lemma slot_entry_None: "slot_entry key xs k = None \<longleftrightarrow> find_slot (\<lambda>x. key x = k) xs = None"
  by (simp add: slot_entry_def)

lemma slot_entry_nth:
  "keys_unique key xs \<Longrightarrow> i < length xs \<Longrightarrow> key (xs ! i) = k \<Longrightarrow> k \<noteq> 0 \<Longrightarrow>
   slot_entry key xs k = Some (xs ! i)"
  by (simp add: slot_entry_def keys_unique_find)

lemma slot_entry_update_same:
  "find_slot (\<lambda>x. key x = k) xs = Some i \<Longrightarrow> key y = k \<Longrightarrow> slot_entry key (xs[i := y]) k = Some y"
  unfolding slot_entry_def
  by (subst find_slot_eqI [of i]) (auto dest: find_slot_SomeD)

lemma slot_entry_update_fresh:
  assumes n: "find_slot (\<lambda>x. key x = k) xs = None" and i: "i < length xs" and y: "key y = k"
  shows "slot_entry key (xs[i := y]) k = Some y"
proof -
  have "find_slot (\<lambda>x. key x = k) (xs[i := y]) = Some i"
  proof (rule find_slot_eqI)
    fix j
    assume "j < i"
    with i find_slot_None_nth [OF n, of j] show "key (xs[i := y] ! j) \<noteq> k" by simp
  qed (use i y in auto)
  with i show ?thesis by (simp add: slot_entry_def)
qed

lemma find_slot_update_other:
  "i < length xs \<Longrightarrow> \<not> P (xs ! i) \<Longrightarrow> \<not> P y \<Longrightarrow> find_slot P (xs[i := y]) = find_slot P xs"
proof (induction xs arbitrary: i)
  case Nil
  then show ?case by simp
next
  case (Cons x xs)
  then show ?case by (cases i) auto
qed

lemma slot_entry_update_other:
  assumes "i < length xs" "key (xs ! i) \<noteq> k" "key y \<noteq> k"
  shows "slot_entry key (xs[i := y]) k = slot_entry key xs k"
proof -
  have same: "find_slot (\<lambda>x. key x = k) (xs[i := y]) = find_slot (\<lambda>x. key x = k) xs"
    using assms by (intro find_slot_update_other) auto
  show ?thesis
  proof (cases "find_slot (\<lambda>x. key x = k) xs")
    case None
    with same show ?thesis by (simp add: slot_entry_def)
  next
    case (Some j)
    then have "key (xs ! j) = k" by (auto dest: find_slot_SomeD)
    with assms(2) have "j \<noteq> i" by auto
    with Some same show ?thesis by (simp add: slot_entry_def)
  qed
qed

lemma slot_entry_remove:
  "keys_unique key xs \<Longrightarrow> find_slot (\<lambda>x. key x = k) xs = Some i \<Longrightarrow> k \<noteq> 0 \<Longrightarrow> key y = 0 \<Longrightarrow>
   slot_entry key (xs[i := y]) k = None"
  unfolding slot_entry_def
  by (auto simp: find_slot_None_iff in_set_conv_nth nth_list_update keys_unique_def
      dest!: find_slot_SomeD split: if_splits)

section \<open>The interface of a keyed table\<close>

text \<open>
  Several components keep a table in shared memory that is written one key at a time and may
  be full. The contract the clients rely on: a write that succeeds is seen by the next read of
  its key and leaves the other keys alone, and a key that is present can always be written.
\<close>

locale keyed_table =
  fixes wf :: "'s \<Rightarrow> bool"
    and legal :: "'s \<Rightarrow> 'k \<Rightarrow> 'v \<Rightarrow> bool"
    and view :: "'s \<Rightarrow> 'k \<Rightarrow> 'v option"
    and put :: "'k \<Rightarrow> 'v \<Rightarrow> 's \<Rightarrow> 's option"
  assumes put_wf: "wf s \<Longrightarrow> legal s k v \<Longrightarrow> put k v s = Some s' \<Longrightarrow> wf s'"
    and put_view: "wf s \<Longrightarrow> legal s k v \<Longrightarrow> put k v s = Some s' \<Longrightarrow> view s' = (view s)(k \<mapsto> v)"
    and put_present: "wf s \<Longrightarrow> legal s k v \<Longrightarrow> view s k \<noteq> None \<Longrightarrow> put k v s \<noteq> None"
    and put_legal: "wf s \<Longrightarrow> legal s k v \<Longrightarrow> put k v s = Some s' \<Longrightarrow> legal s k' v' \<Longrightarrow> legal s' k' v'"
begin

text \<open>Writing a list of entries, ignoring the writes that fail.\<close>

fun put_all :: "('k \<times> 'v) list \<Rightarrow> 's \<Rightarrow> 's" where
  "put_all [] s = s"
| "put_all ((k, v) # kvs) s = put_all kvs (case put k v s of None \<Rightarrow> s | Some s' \<Rightarrow> s')"

lemma put_all_wf:
  "wf s \<Longrightarrow> \<forall>(k, v)\<in>set kvs. legal s k v \<Longrightarrow> wf (put_all kvs s)"
proof (induction kvs arbitrary: s)
  case (Cons kv kvs)
  obtain k v where kv: "kv = (k, v)" by (cases kv)
  show ?case
  proof (cases "put k v s")
    case None
    with Cons kv show ?thesis by simp
  next
    case (Some s')
    from Cons.prems kv have l: "legal s k v" by simp
    have "wf s'" by (rule put_wf [OF Cons.prems(1) l Some])
    moreover have "\<forall>(k, v)\<in>set kvs. legal s' k v"
      using Cons.prems(2) kv put_legal [OF Cons.prems(1) l Some] by auto
    ultimately show ?thesis using Cons.IH kv Some by simp
  qed
qed simp

text \<open>A key that is not written keeps its entry.\<close>

lemma put_all_other:
  "wf s \<Longrightarrow> \<forall>(k, v)\<in>set kvs. legal s k v \<Longrightarrow> k \<notin> fst ` set kvs \<Longrightarrow>
   view (put_all kvs s) k = view s k"
proof (induction kvs arbitrary: s)
  case (Cons kv kvs)
  obtain k' v where kv: "kv = (k', v)" by (cases kv)
  show ?case
  proof (cases "put k' v s")
    case None
    with Cons kv show ?thesis by simp
  next
    case (Some s')
    from Cons.prems kv have l: "legal s k' v" by simp
    have "wf s'" by (rule put_wf [OF Cons.prems(1) l Some])
    moreover have "\<forall>(k, v)\<in>set kvs. legal s' k v"
      using Cons.prems(2) kv put_legal [OF Cons.prems(1) l Some] by auto
    ultimately have "view (put_all kvs s') k = view s' k"
      using Cons.IH Cons.prems(3) by simp
    also have "\<dots> = view s k" using put_view [OF Cons.prems(1) l Some] Cons.prems(3) kv by simp
    finally show ?thesis using kv Some by simp
  qed
qed simp

text \<open>
  A batch with distinct keys whose keys are all present: every entry of the batch is read
  back afterwards.
\<close>

lemma put_all_present:
  "wf s \<Longrightarrow> \<forall>(k, v)\<in>set kvs. legal s k v \<Longrightarrow> distinct (map fst kvs) \<Longrightarrow>
   (k, v) \<in> set kvs \<Longrightarrow> \<forall>(k, v)\<in>set kvs. view s k \<noteq> None \<Longrightarrow> view (put_all kvs s) k = Some v"
proof (induction kvs arbitrary: s)
  case (Cons kv kvs)
  obtain k' v' where kv: "kv = (k', v')" by (cases kv)
  from Cons.prems kv have l: "legal s k' v'" and p: "view s k' \<noteq> None" by auto
  obtain s' where s': "put k' v' s = Some s'" using put_present [OF Cons.prems(1) l p] by auto
  note w = put_wf [OF Cons.prems(1) l s'] and vw = put_view [OF Cons.prems(1) l s']
  have l': "\<forall>(k, v)\<in>set kvs. legal s' k v"
    using Cons.prems(2) kv put_legal [OF Cons.prems(1) l s'] by auto
  have p': "\<forall>(k, v)\<in>set kvs. view s' k \<noteq> None" using Cons.prems(5) kv vw by auto
  show ?case
  proof (cases "(k, v) = kv")
    case True
    with Cons.prems(3) kv have "k \<notin> fst ` set kvs" by auto
    from put_all_other [OF w l' this] vw True kv s' show ?thesis by simp
  next
    case False
    with Cons.prems(4) have "(k, v) \<in> set kvs" by simp
    from Cons.IH [OF w l' _ this p'] Cons.prems(3) kv s' show ?thesis by simp
  qed
qed simp

end

section \<open>The interface of an admission-controlled counter\<close>

text \<open>A sequence of operations each of which is legal in the state it is applied to.\<close>

fun legal_run :: "('op \<Rightarrow> 's \<Rightarrow> bool) \<Rightarrow> ('op \<Rightarrow> 's \<Rightarrow> 's) \<Rightarrow> 'op list \<Rightarrow> 's \<Rightarrow> bool" where
  "legal_run legal step [] s = True"
| "legal_run legal step (c # cs) s = (legal c s \<and> legal_run legal step cs (step c s))"

text \<open>
  A resource with a limit: an operation that takes more of it stays within the limit, and no
  operation moves the limit.
\<close>

locale admission =
  fixes wf :: "'s \<Rightarrow> bool" and used :: "'s \<Rightarrow> nat" and limit :: "'s \<Rightarrow> nat"
    and legal :: "'op \<Rightarrow> 's \<Rightarrow> bool" and step :: "'op \<Rightarrow> 's \<Rightarrow> 's"
  assumes step_wf: "wf s \<Longrightarrow> legal c s \<Longrightarrow> wf (step c s)"
    and step_limit: "wf s \<Longrightarrow> legal c s \<Longrightarrow> limit (step c s) = limit s"
    and step_used: "wf s \<Longrightarrow> legal c s \<Longrightarrow>
      used (step c s) \<le> used s \<or> used (step c s) \<le> limit s"
begin

lemma run_within:
  "wf s \<Longrightarrow> used s \<le> limit s \<Longrightarrow> legal_run legal step cs s \<Longrightarrow>
   wf (fold step cs s) \<and> limit (fold step cs s) = limit s \<and> used (fold step cs s) \<le> limit s"
proof (induction cs arbitrary: s)
  case (Cons c cs)
  then have l: "legal c s" and r: "legal_run legal step cs (step c s)" by simp_all
  have "used (step c s) \<le> limit (step c s)"
    using step_used [OF Cons.prems(1) l] step_limit [OF Cons.prems(1) l] Cons.prems(2) by auto
  from Cons.IH [OF step_wf [OF Cons.prems(1) l] this r] step_limit [OF Cons.prems(1) l]
  show ?case by simp
qed simp

end

end
