(* ===== verification/C_Text.thy ===== *)
theory C_Text
  imports Prelude
begin

text \<open>
  The C library text functions the program calls, on strings without NUL: character classes,
  \<open>strtol\<close>, \<open>atoi\<close>, \<open>strtoull\<close>, \<open>strcasecmp\<close>,
  \<open>strchr\<close>, \<open>fgets\<close>, decimal printing; with the round trip between
  printing and parsing a number that the text protocols and configuration files rest on.
\<close>

section \<open>Characters\<close>

definition is_space :: "char \<Rightarrow> bool" where
  "is_space c \<longleftrightarrow> (of_char c :: nat) = 32 \<or> (9 \<le> (of_char c :: nat) \<and> (of_char c :: nat) \<le> 13)"

definition is_digit :: "char \<Rightarrow> bool" where
  "is_digit c \<longleftrightarrow> 48 \<le> (of_char c :: nat) \<and> (of_char c :: nat) \<le> 57"

definition digit_value :: "char \<Rightarrow> nat" where
  "digit_value c = of_char c - 48"

definition to_lower :: "char \<Rightarrow> char" where
  "to_lower c = (if 65 \<le> (of_char c :: nat) \<and> (of_char c :: nat) \<le> 90
                 then char_of ((of_char c :: nat) + 32) else c)"

definition skip_space :: "string \<Rightarrow> string" where
  "skip_space s = dropWhile is_space s"

text \<open>\<open>strcasecmp(a, b) == 0\<close>.\<close>

definition strcaseeq :: "string \<Rightarrow> string \<Rightarrow> bool" where
  "strcaseeq a b \<longleftrightarrow> map to_lower a = map to_lower b"

text \<open>\<open>strchr\<close>: the text before the first occurrence and the text after it.\<close>

fun split_at :: "char \<Rightarrow> string \<Rightarrow> (string \<times> string) option" where
  "split_at c [] = None"
| "split_at c (x # xs) =
     (if x = c then Some ([], xs)
      else case split_at c xs of None \<Rightarrow> None | Some (a, b) \<Rightarrow> Some (x # a, b))"

section \<open>Numbers\<close>

definition digits_value :: "string \<Rightarrow> nat" where
  "digits_value ds = foldl (\<lambda>n c. n * 10 + digit_value c) 0 ds"

definition leading_digits :: "string \<Rightarrow> nat" where
  "leading_digits s = digits_value (takeWhile is_digit s)"

text \<open>White space, an optional sign, digits: the sign and the value of what is read.\<close>

definition signed_prefix :: "string \<Rightarrow> bool \<times> nat" where
  "signed_prefix s =
     (case skip_space s of
        [] \<Rightarrow> (False, 0)
      | c # cs \<Rightarrow> (if c = CHR ''-'' then (True, leading_digits cs)
                   else if c = CHR ''+'' then (False, leading_digits cs)
                   else (False, leading_digits (c # cs))))"

text \<open>\<open>strtol(s, NULL, 10)\<close>, saturating at the bounds of a 64-bit \<open>long\<close>.\<close>

definition strtol :: "string \<Rightarrow> int" where
  "strtol s =
     (case signed_prefix s of
        (neg, n) \<Rightarrow> if neg then max (- (2 ^ 63)) (- int n) else min (2 ^ 63 - 1) (int n))"

text \<open>\<open>atoi\<close> converts the \<open>long\<close> to \<open>int\<close>.\<close>

definition atoi :: "string \<Rightarrow> i32" where
  "atoi s = word_of_int (strtol s)"

definition atoll :: "string \<Rightarrow> u64" where
  "atoll s = word_of_int (strtol s)"

text \<open>\<open>strtoull\<close> saturates at the maximum and negates a number with a minus sign.\<close>

definition strtoull :: "string \<Rightarrow> u64" where
  "strtoull s =
     (case signed_prefix s of
        (neg, n) \<Rightarrow> if n \<ge> 2 ^ 64 then - 1 else if neg then - of_nat n else of_nat n)"

text \<open>Decimal printing (\<open>%u\<close>, \<open>%llu\<close>, \<open>%zu\<close>; with a sign, \<open>%d\<close>).\<close>

definition digit_char :: "nat \<Rightarrow> char" where
  "digit_char d = char_of (48 + d)"

fun dec :: "nat \<Rightarrow> string" where
  "dec n = (if n < 10 then [digit_char n] else dec (n div 10) @ [digit_char (n mod 10)])"

declare dec.simps [simp del]

definition sdec :: "int \<Rightarrow> string" where
  "sdec i = (if i < 0 then CHR ''-'' # dec (nat (- i)) else dec (nat i))"

definition newline :: string where "newline = [CHR 0x0A]"

section \<open>Reading a file by lines\<close>

text \<open>One \<open>fgets\<close> with room for \<open>n\<close> characters: what it reads and the rest.\<close>

fun fgets :: "nat \<Rightarrow> string \<Rightarrow> string \<times> string" where
  "fgets 0 s = ([], s)"
| "fgets (Suc n) [] = ([], [])"
| "fgets (Suc n) (c # cs) =
     (if c = CHR 0x0A then ([c], cs) else case fgets n cs of (l, r) \<Rightarrow> (c # l, r))"

lemma fgets_append: "fst (fgets n s) @ snd (fgets n s) = s"
  by (induction n s rule: fgets.induct) (auto split: prod.splits)

lemma fgets_shorter: "length (snd (fgets (Suc n) (c # cs))) < length (c # cs)"
proof -
  have "length (fst (fgets (Suc n) (c # cs))) > 0" by (simp split: prod.splits)
  moreover have "length (fst (fgets (Suc n) (c # cs))) + length (snd (fgets (Suc n) (c # cs))) = length (c # cs)"
    using fgets_append [of "Suc n" "c # cs"] by (metis length_append)
  ultimately show ?thesis by linarith
qed

text \<open>All the lines of a file read with a buffer of \<open>n + 2\<close> bytes.\<close>

function fgets_all :: "nat \<Rightarrow> string \<Rightarrow> string list" where
  "fgets_all n [] = []"
| "fgets_all n (c # cs) = fst (fgets (Suc n) (c # cs)) # fgets_all n (snd (fgets (Suc n) (c # cs)))"
  by pat_completeness auto
termination
  by (relation "measure (\<lambda>(n, s). length s)") (simp_all only: in_measure prod.case fgets_shorter wf_measure)

section \<open>Printing and parsing\<close>

lemma of_char_digit: "d < 10 \<Longrightarrow> (of_char (digit_char d) :: nat) = 48 + d"
  by (simp add: digit_char_def)

lemma digit_char_digit [simp]: "d < 10 \<Longrightarrow> is_digit (digit_char d)"
  by (simp add: is_digit_def of_char_digit)

lemma digit_char_value [simp]: "d < 10 \<Longrightarrow> digit_value (digit_char d) = d"
  by (simp add: digit_value_def of_char_digit)

lemma dec_digits: "c \<in> set (dec n) \<Longrightarrow> is_digit c"
proof (induction n rule: dec.induct)
  case (1 n)
  then show ?case by (subst (asm) (2) dec.simps) (auto split: if_splits)
qed

lemma dec_not_empty [simp]: "dec n \<noteq> []"
  by (subst dec.simps) simp

lemma digits_value_append: "digits_value (ds @ [d]) = digits_value ds * 10 + digit_value d"
  by (simp add: digits_value_def)

lemma dec_value [simp]: "digits_value (dec n) = n"
proof (induction n rule: dec.induct)
  case (1 n)
  show ?case
  proof (cases "n < 10")
    case True
    then show ?thesis by (subst dec.simps) (simp add: digits_value_def)
  next
    case False
    with 1 show ?thesis by (subst dec.simps) (simp add: digits_value_append)
  qed
qed

text \<open>A printed number followed by something that is not a digit is read back.\<close>

definition no_digit_ahead :: "string \<Rightarrow> bool" where
  "no_digit_ahead s \<longleftrightarrow> (case s of [] \<Rightarrow> True | c # _ \<Rightarrow> \<not> is_digit c)"

lemma no_digit_ahead_simps [simp]:
  "no_digit_ahead []" "no_digit_ahead (c # cs) = (\<not> is_digit c)"
  by (simp_all add: no_digit_ahead_def)

lemma takeWhile_dec: "no_digit_ahead rest \<Longrightarrow> takeWhile is_digit (dec n @ rest) = dec n"
proof -
  assume "no_digit_ahead rest"
  then have "takeWhile is_digit rest = []" by (cases rest) simp_all
  moreover have "takeWhile is_digit (dec n @ rest) = dec n @ takeWhile is_digit rest"
    using dec_digits by (intro takeWhile_append2) auto
  ultimately show ?thesis by simp
qed

lemma leading_digits_dec: "no_digit_ahead rest \<Longrightarrow> leading_digits (dec n @ rest) = n"
  by (simp add: leading_digits_def takeWhile_dec)

lemma digit_facts:
  assumes "is_digit c" shows "\<not> is_space c" "c \<noteq> CHR ''-''" "c \<noteq> CHR ''+''" "c \<noteq> CHR ''=''"
    "c \<noteq> CHR ''#''" "c \<noteq> CHR '';''" "c \<noteq> CHR '':''" "to_lower c = c" "c \<noteq> CHR 0x0A"
  using assms by (auto simp: is_digit_def is_space_def to_lower_def)

lemma dec_Cons: obtains d ds where "dec n = d # ds" "is_digit d"
  using dec_digits [of "hd (dec n)" n] by (cases "dec n") auto

lemma signed_prefix_dec: "no_digit_ahead rest \<Longrightarrow> signed_prefix (dec n @ rest) = (False, n)"
proof -
  assume r: "no_digit_ahead rest"
  obtain d ds where d: "dec n = d # ds" "is_digit d" by (rule dec_Cons)
  then have "signed_prefix (dec n @ rest) = (False, leading_digits (dec n @ rest))"
    by (simp add: signed_prefix_def skip_space_def digit_facts)
  with leading_digits_dec [OF r] show ?thesis by simp
qed

lemma skip_space_dec [simp]: "skip_space (dec n @ rest) = dec n @ rest"
proof -
  obtain d ds where "dec n = d # ds" "is_digit d" by (rule dec_Cons)
  then show ?thesis by (simp add: skip_space_def digit_facts)
qed

lemma signed_prefix_space: "is_space c \<Longrightarrow> signed_prefix (c # s) = signed_prefix s"
  by (simp add: signed_prefix_def skip_space_def)

lemma strtol_dec: "no_digit_ahead rest \<Longrightarrow> n < 2 ^ 63 \<Longrightarrow> strtol (dec n @ rest) = int n"
proof -
  assume r: "no_digit_ahead rest" and n: "n < 2 ^ 63"
  from n have "int n \<le> 2 ^ 63 - 1" by simp
  with signed_prefix_dec [OF r] show ?thesis by (simp add: strtol_def)
qed

lemma atoi_dec: "no_digit_ahead rest \<Longrightarrow> n < 2 ^ 31 \<Longrightarrow> atoi (dec n @ rest) = of_nat n"
  by (simp add: atoi_def strtol_dec)

lemma strtoull_dec: "no_digit_ahead rest \<Longrightarrow> n < 2 ^ 64 \<Longrightarrow> strtoull (dec n @ rest) = of_nat n"
  by (simp add: strtoull_def signed_prefix_dec)

lemma strtol_range: "- (2 ^ 63) \<le> strtol s \<and> strtol s < 2 ^ 63"
  by (auto simp: strtol_def split: prod.splits)

lemma split_at_append: "c \<notin> set a \<Longrightarrow> split_at c (a @ c # b) = Some (a, b)"
  by (induction a) auto

lemma split_at_Some: "split_at c s = Some (a, b) \<Longrightarrow> s = a @ c # b \<and> c \<notin> set a"
  by (induction s arbitrary: a) (auto split: if_splits option.splits)

lemma dec_length: "n < 10 ^ k \<Longrightarrow> 0 < k \<Longrightarrow> length (dec n) \<le> k"
proof (induction n arbitrary: k rule: dec.induct)
  case (1 n)
  show ?case
  proof (cases "n < 10")
    case True
    with 1(3) show ?thesis by (subst dec.simps) simp
  next
    case False
    with 1(2) obtain j where k: "k = Suc j" by (cases k) auto
    with 1(2) False have "n div 10 < 10 ^ j" "0 < j" by (auto intro: less_mult_imp_div_less gr0I)
    with 1(1) [OF False, of j] False k show ?thesis by (subst dec.simps) simp
  qed
qed

text \<open>A line that fits the buffer and has no newline is read whole.\<close>

lemma fgets_whole: "CHR 0x0A \<notin> set l \<Longrightarrow> length l \<le> n \<Longrightarrow> fgets n l = (l, [])"
proof (induction n l rule: fgets.induct)
  case (1 s)
  then show ?case by simp
qed auto

lemma fgets_all_whole: "l \<noteq> [] \<Longrightarrow> CHR 0x0A \<notin> set l \<Longrightarrow> length l \<le> Suc n \<Longrightarrow> fgets_all n l = [l]"
  by (cases l) (simp_all del: fgets.simps add: fgets_whole)

lemma skip_space_append: "\<forall>c\<in>set sp. is_space c \<Longrightarrow> skip_space (sp @ s) = skip_space s"
  by (simp add: skip_space_def)

end
