(* ===== verification/Intercept_Log.thy ===== *)
theory Intercept_Log
  imports C_Text
begin

text \<open>
  The configuration and state of the interception layer (\<open>include/rdma_intercept.h\<close> and
  the static initialiser of \<open>src/intercept_core.c\<close>) and the logger
  (\<open>src/logger.c\<close>): the level filter, the line format, changing the level and the
  file, rotation, the record of a created queue pair.

  The log file is a handle: none, open on a path, or closed but still stored
  (\<open>StaleLog\<close>), which is what the code leaves behind when it closes a file and fails to
  open the next one. Writing through a stale handle is undefined in C and is recorded in the
  flag \<open>st_log_fault\<close>. Text that is written is kept as a list of (path, line).
\<close>

section \<open>State\<close>

definition MAX_LOG_BUFFER_SIZE :: nat where "MAX_LOG_BUFFER_SIZE = 4096"
definition MAX_CONFIG_FILE_PATH :: nat where "MAX_CONFIG_FILE_PATH = 256"

text \<open>\<open>log_level_t\<close> is kept at its integer representation: the code checks its range.\<close>

type_synonym log_level = u32

definition LOG_LEVEL_DEBUG :: log_level where "LOG_LEVEL_DEBUG = 0"
definition LOG_LEVEL_INFO :: log_level where "LOG_LEVEL_INFO = 1"
definition LOG_LEVEL_WARN :: log_level where "LOG_LEVEL_WARN = 2"
definition LOG_LEVEL_ERROR :: log_level where "LOG_LEVEL_ERROR = 3"
definition LOG_LEVEL_FATAL :: log_level where "LOG_LEVEL_FATAL = 4"

lemmas log_levels = LOG_LEVEL_DEBUG_def LOG_LEVEL_INFO_def LOG_LEVEL_WARN_def
  LOG_LEVEL_ERROR_def LOG_LEVEL_FATAL_def

record intercept_config =
  enable_intercept :: bool
  log_qp_creation :: bool
  log_all_operations :: bool
  cfg_log_level :: log_level
  log_file_path :: string
  enable_qp_control :: bool
  max_qp_per_process :: u32
  max_send_wr_limit :: u32
  max_recv_wr_limit :: u32
  allow_rc_qp :: bool
  allow_uc_qp :: bool
  allow_ud_qp :: bool
  allow_rq_qp :: bool
  max_global_qp :: u32
  enable_mr_control :: bool
  max_mr_per_process :: u32
  max_memory_per_process :: u64

datatype log_handle = NoLog | OpenLog string | StaleLog

record intercept_state =
  st_initialized :: bool
  st_config :: intercept_config
  st_log_file :: log_handle
  st_qp_count :: u32
  st_mr_count :: u32
  st_memory_used :: u64
  st_log_lines :: "(string \<times> string) list"
  st_log_fault :: bool

definition default_config :: intercept_config where
  "default_config = \<lparr>enable_intercept = True, log_qp_creation = True, log_all_operations = False,
     cfg_log_level = LOG_LEVEL_INFO, log_file_path = ''/tmp/rdma_intercept.log'',
     enable_qp_control = False, max_qp_per_process = 100, max_send_wr_limit = 1024,
     max_recv_wr_limit = 1024, allow_rc_qp = True, allow_uc_qp = True, allow_ud_qp = True,
     allow_rq_qp = True, max_global_qp = 1000, enable_mr_control = False,
     max_mr_per_process = 1000, max_memory_per_process = 1024 * 1024 * 1024 * 10\<rparr>"

definition g_intercept_state :: intercept_state where
  "g_intercept_state = \<lparr>st_initialized = False, st_config = default_config, st_log_file = NoLog,
     st_qp_count = 0, st_mr_count = 0, st_memory_used = 0, st_log_lines = [], st_log_fault = False\<rparr>"

section \<open>Writing a line\<close>

text \<open>What a log call reads from outside: the formatted time and the process id.\<close>

record log_env =
  lenv_time :: string
  lenv_pid :: pid_t
  lenv_fopen_ok :: "string \<Rightarrow> bool"
  lenv_dir_exists :: "string \<Rightarrow> bool"
  lenv_mkdir_ok :: "string \<Rightarrow> bool" \<comment> \<open>succeeds, or fails with EEXIST\<close>

definition get_log_level_string :: "log_level \<Rightarrow> string" where
  "get_log_level_string level =
     (if level = LOG_LEVEL_DEBUG then ''DEBUG''
      else if level = LOG_LEVEL_INFO then ''INFO''
      else if level = LOG_LEVEL_WARN then ''WARN''
      else if level = LOG_LEVEL_ERROR then ''ERROR''
      else if level = LOG_LEVEL_FATAL then ''FATAL''
      else ''UNKNOWN'')"

text \<open>\<open>fprintf\<close> on the log file.\<close>

definition log_write :: "string \<Rightarrow> intercept_state \<Rightarrow> intercept_state" where
  "log_write line s =
     (case st_log_file s of
        NoLog \<Rightarrow> s
      | OpenLog path \<Rightarrow> s\<lparr>st_log_lines := st_log_lines s @ [(path, line)]\<rparr>
      | StaleLog \<Rightarrow> s\<lparr>st_log_fault := True\<rparr>)"

text \<open>\<open>rdma_intercept_log\<close> on the formatted message (\<open>vsnprintf\<close> cuts it).\<close>

definition rdma_intercept_log :: "log_env \<Rightarrow> log_level \<Rightarrow> string \<Rightarrow> intercept_state \<Rightarrow> intercept_state"
  where
  "rdma_intercept_log env level msg s =
     (if \<not> st_initialized s \<or> level < cfg_log_level (st_config s) then s
      else
        let buffer = take (MAX_LOG_BUFFER_SIZE - 1) msg
        in log_write (''['' @ lenv_time env @ ''] ['' @ get_log_level_string level @ ''] [PID:'' @
             sdec (sint (lenv_pid env)) @ ''] '' @ buffer @ [CHR 0x0A]) s)"

text \<open>The variant with the source position, which also reports fatal errors on stderr.\<close>

definition rdma_intercept_log_internal ::
    "log_env \<Rightarrow> log_level \<Rightarrow> string \<Rightarrow> nat \<Rightarrow> string \<Rightarrow> string \<Rightarrow> intercept_state \<Rightarrow> string list \<times> intercept_state"
  where
  "rdma_intercept_log_internal env level file line func msg s =
     (if \<not> st_initialized s \<or> level < cfg_log_level (st_config s) then ([], s)
      else
        let buffer = take (MAX_LOG_BUFFER_SIZE - 1) msg;
            head = ''['' @ lenv_time env @ ''] ['' @ get_log_level_string level @ ''] [PID:'' @
                   sdec (sint (lenv_pid env)) @ ''] '';
            s = log_write
              (if cfg_log_level (st_config s) \<le> LOG_LEVEL_DEBUG
               then head @ ''['' @ file @ '':'' @ dec line @ ''] '' @ func @ '': '' @ buffer @ [CHR 0x0A]
               else head @ buffer @ [CHR 0x0A]) s
        in (if level = LOG_LEVEL_FATAL
            then [''[RDMA_INTERCEPT] ['' @ get_log_level_string level @ ''] '' @ buffer @ [CHR 0x0A]]
            else [], s))"

section \<open>Level and file\<close>

definition rdma_intercept_set_log_level ::
    "log_env \<Rightarrow> log_level \<Rightarrow> intercept_state \<Rightarrow> int \<times> intercept_state" where
  "rdma_intercept_set_log_level env level s =
     (if level < LOG_LEVEL_DEBUG \<or> level > LOG_LEVEL_FATAL then (-1, s)
      else
        let s = s\<lparr>st_config := (st_config s)\<lparr>cfg_log_level := level\<rparr>\<rparr>
        in (0, rdma_intercept_log env LOG_LEVEL_INFO
                 (''Log level changed to '' @ get_log_level_string level) s))"

definition rdma_intercept_get_log_level :: "intercept_state \<Rightarrow> log_level" where
  "rdma_intercept_get_log_level s = cfg_log_level (st_config s)"

text \<open>The part before the last \<open>/\<close>, if there is one (\<open>strrchr\<close>).\<close>

fun dir_part :: "string \<Rightarrow> string option" where
  "dir_part [] = None"
| "dir_part (c # cs) =
     (case dir_part cs of
        Some d \<Rightarrow> Some (c # d)
      | None \<Rightarrow> if c = CHR ''/'' then Some [] else None)"

definition ensure_log_directory :: "log_env \<Rightarrow> string \<Rightarrow> int" where
  "ensure_log_directory env log_path =
     (case dir_part (take (MAX_CONFIG_FILE_PATH - 1) log_path) of
        None \<Rightarrow> 0
      | Some dir \<Rightarrow>
          if dir \<noteq> [] \<and> \<not> lenv_dir_exists env dir \<and> \<not> lenv_mkdir_ok env dir then -1 else 0)"

text \<open>\<open>fclose\<close> of the stored handle; closing a closed file is a fault.\<close>

definition log_close :: "intercept_state \<Rightarrow> intercept_state" where
  "log_close s =
     (case st_log_file s of
        NoLog \<Rightarrow> s
      | OpenLog _ \<Rightarrow> s\<lparr>st_log_file := StaleLog\<rparr>
      | StaleLog \<Rightarrow> s\<lparr>st_log_fault := True\<rparr>)"

definition rdma_intercept_set_log_file ::
    "log_env \<Rightarrow> string option \<Rightarrow> intercept_state \<Rightarrow> int \<times> intercept_state" where
  "rdma_intercept_set_log_file env path s =
     (case path of
        None \<Rightarrow> (-1, s)
      | Some p \<Rightarrow>
          if length p \<ge> MAX_CONFIG_FILE_PATH then (-1, s)
          else if ensure_log_directory env p \<noteq> 0 then (-1, s)
          else
            let s = (if st_log_file s \<noteq> NoLog then log_close s else s)
            in if \<not> lenv_fopen_ok env p then (-1, s)
               else
                 let s = s\<lparr>st_config := (st_config s)\<lparr>log_file_path := take (MAX_CONFIG_FILE_PATH - 1) p\<rparr>\<rparr>;
                     s = s\<lparr>st_log_file := OpenLog p\<rparr>
                 in (0, rdma_intercept_log env LOG_LEVEL_INFO (''Log file changed to '' @ p) s))"

text \<open>
  Rotation renames the current file to one with the time in its name and opens a new one. The
  renames are outside the model; \<open>stamp\<close> is the formatted time.
\<close>

definition rdma_intercept_rotate_log ::
    "log_env \<Rightarrow> string \<Rightarrow> intercept_state \<Rightarrow> int \<times> intercept_state" where
  "rdma_intercept_rotate_log env stamp s =
     (if st_log_file s = NoLog \<or> log_file_path (st_config s) = [] then (-1, s)
      else
        let s = log_close s;
            backup = take (MAX_CONFIG_FILE_PATH + 31) (log_file_path (st_config s) @ ''.'' @ stamp)
        in if \<not> lenv_fopen_ok env (log_file_path (st_config s)) then (-1, s)
           else
             let s = s\<lparr>st_log_file := OpenLog (log_file_path (st_config s))\<rparr>
             in (0, rdma_intercept_log env LOG_LEVEL_INFO (''Log rotated to '' @ backup) s))"

text \<open>
  The statistics: three counters that nothing in the program increments, and the time of the
  first call. The static variables are the state \<open>log_stats\<close>.
\<close>

record log_stats =
  ls_message_count :: u64
  ls_err_count :: u64
  ls_wrn_count :: u64
  ls_start_time :: u64

definition log_stats_start :: log_stats where
  "log_stats_start = \<lparr>ls_message_count = 0, ls_err_count = 0, ls_wrn_count = 0, ls_start_time = 0\<rparr>"

definition rdma_intercept_get_log_stats :: "u64 \<Rightarrow> log_stats \<Rightarrow> (u64 \<times> u64 \<times> u64 \<times> u64) \<times> log_stats"
  where
  "rdma_intercept_get_log_stats now st =
     (let st = (if ls_start_time st = 0 then st\<lparr>ls_start_time := now\<rparr> else st)
      in ((ls_message_count st, ls_err_count st, ls_wrn_count st, ls_start_time st), st))"

section \<open>The record of a created QP\<close>

text \<open>Pointers are 64-bit words; how \<open>%p\<close> shows one, and the local time of the time
  stamp, are arguments.\<close>

record qp_creation_info =
  qci_timestamp :: u64
  qci_pid :: pid_t
  qci_tid :: u64
  qci_context :: u64
  qci_init_attr :: u64
  qci_pd :: u64
  qci_send_cq :: u64
  qci_recv_cq :: u64
  qci_srq :: u64
  qci_qp_type :: i32
  qci_max_send_wr :: u32
  qci_max_recv_wr :: u32
  qci_max_send_sge :: u32
  qci_max_recv_sge :: u32
  qci_max_inline_data :: u32

definition qp_creation_lines :: "(u64 \<Rightarrow> string) \<Rightarrow> (u64 \<Rightarrow> string) \<Rightarrow> qp_creation_info \<Rightarrow> string list" where
  "qp_creation_lines show_ptr time_str info =
     map (\<lambda>l. l @ [CHR 0x0A])
       [''===== QP Creation Event ====='',
        ''[Timestamp] '' @ time_str (qci_timestamp info),
        ''[PID] '' @ sdec (sint (qci_pid info)),
        ''[TID] '' @ dec (unat (qci_tid info)),
        ''[QP Address] '' @ show_ptr (qci_pd info),
        ''[Context] '' @ show_ptr (qci_context info),
        ''[QP Type] '' @ sdec (sint (qci_qp_type info)),
        ''[Max Send WR] '' @ dec (unat (qci_max_send_wr info)),
        ''[Max Recv WR] '' @ dec (unat (qci_max_recv_wr info)),
        ''[Max Send SGE] '' @ dec (unat (qci_max_send_sge info)),
        ''[Max Recv SGE] '' @ dec (unat (qci_max_recv_sge info)),
        ''[Max Inline Data] '' @ dec (unat (qci_max_inline_data info)) @ '' bytes'',
        ''[Send CQ] '' @ show_ptr (qci_send_cq info),
        ''[Recv CQ] '' @ show_ptr (qci_recv_cq info),
        ''[SRQ] '' @ show_ptr (qci_srq info),
        ''============================='']"

definition rdma_intercept_log_qp_creation ::
    "(u64 \<Rightarrow> string) \<Rightarrow> (u64 \<Rightarrow> string) \<Rightarrow> qp_creation_info option \<Rightarrow> intercept_state \<Rightarrow> intercept_state" where
  "rdma_intercept_log_qp_creation show_ptr time_str info s =
     (case info of
        None \<Rightarrow> s
      | Some i \<Rightarrow>
          if \<not> st_initialized s \<or> \<not> log_qp_creation (st_config s) then s
          else fold log_write (qp_creation_lines show_ptr time_str i) s)"

section \<open>What the logger keeps\<close>

text \<open>The log handle is never stale when the layer is up.\<close>

definition log_ok :: "intercept_state \<Rightarrow> bool" where
  "log_ok s \<longleftrightarrow> st_log_file s \<noteq> StaleLog \<and> \<not> st_log_fault s"

lemma log_write_frame [frame_simps]:
  "st_config (log_write l s) = st_config s"
  "st_initialized (log_write l s) = st_initialized s"
  "st_log_file (log_write l s) = st_log_file s"
  "st_qp_count (log_write l s) = st_qp_count s"
  "st_mr_count (log_write l s) = st_mr_count s"
  "st_memory_used (log_write l s) = st_memory_used s"
  by (simp_all add: log_write_def split: log_handle.splits)

lemma log_frame [frame_simps]:
  "st_config (rdma_intercept_log env lv m s) = st_config s"
  "st_initialized (rdma_intercept_log env lv m s) = st_initialized s"
  "st_log_file (rdma_intercept_log env lv m s) = st_log_file s"
  "st_qp_count (rdma_intercept_log env lv m s) = st_qp_count s"
  "st_mr_count (rdma_intercept_log env lv m s) = st_mr_count s"
  "st_memory_used (rdma_intercept_log env lv m s) = st_memory_used s"
  by (simp_all add: rdma_intercept_log_def frame_simps Let_def)

lemma log_write_fault [frame_simps]:
  "log_ok s \<Longrightarrow> log_ok (log_write l s)"
  by (simp add: log_ok_def log_write_def split: log_handle.splits)

lemma log_keeps_ok: "log_ok s \<Longrightarrow> log_ok (rdma_intercept_log env lv m s)"
  by (simp add: rdma_intercept_log_def Let_def log_write_fault)

text \<open>A level below the configured one writes nothing; at or above it, exactly one line.\<close>

lemma log_filtered:
  "\<not> st_initialized s \<or> level < cfg_log_level (st_config s) \<Longrightarrow> rdma_intercept_log env level m s = s"
  by (simp add: rdma_intercept_log_def)

lemma log_one_line:
  "st_initialized s \<Longrightarrow> cfg_log_level (st_config s) \<le> level \<Longrightarrow> st_log_file s = OpenLog p \<Longrightarrow>
   \<exists>line. st_log_lines (rdma_intercept_log env level m s) = st_log_lines s @ [(p, line)]"
  by (auto simp: rdma_intercept_log_def Let_def log_write_def not_less)

lemma stale_log_faults:
  "st_initialized s \<Longrightarrow> cfg_log_level (st_config s) \<le> level \<Longrightarrow> st_log_file s = StaleLog \<Longrightarrow>
   st_log_fault (rdma_intercept_log env level m s)"
  by (auto simp: rdma_intercept_log_def Let_def log_write_def not_less)

lemma set_log_file_eq:
  assumes "log_ok s"
  shows "rdma_intercept_set_log_file env (Some p) s =
    (if length p \<ge> MAX_CONFIG_FILE_PATH \<or> ensure_log_directory env p \<noteq> 0 then (-1, s)
     else if \<not> lenv_fopen_ok env p
       then (-1, if st_log_file s = NoLog then s else s\<lparr>st_log_file := StaleLog\<rparr>)
     else (0, rdma_intercept_log env LOG_LEVEL_INFO (''Log file changed to '' @ p)
                (s\<lparr>st_config := (st_config s)\<lparr>log_file_path := p\<rparr>, st_log_file := OpenLog p\<rparr>)))"
  using assms
  by (auto simp: rdma_intercept_set_log_file_def log_close_def log_ok_def Let_def
      split: log_handle.splits)

section \<open>Properties\<close>

text \<open>
  Changing the log file. When the new file opens, the handle and the configured path both
  name it and the message goes there; when the path is too long or the directory cannot be made,
  nothing changes; when the file cannot be opened after the old one was closed, the old handle
  stays stored, and the next message at or above the configured level is written through it.
\<close>

theorem set_log_file_outcomes:
  assumes ok: "log_ok s"
  shows "case rdma_intercept_set_log_file env (Some p) s of (rc, s') \<Rightarrow>
    (rc = 0 \<longrightarrow> log_ok s' \<and> st_log_file s' = OpenLog p \<and> log_file_path (st_config s') = p)
    \<and> (rc \<noteq> 0 \<longrightarrow> st_config s' = st_config s \<and>
         (s' = s \<or> st_log_file s' = StaleLog \<and>
            (st_initialized s \<and> cfg_log_level (st_config s) \<le> level
              \<longrightarrow> st_log_fault (rdma_intercept_log env' level m s'))))"
proof -
  have open_ok: "log_ok (s\<lparr>st_config := c, st_log_file := OpenLog p\<rparr>)" for c
    using ok by (simp add: log_ok_def)
  show ?thesis
    by (auto simp: set_log_file_eq [OF ok] frame_simps open_ok
        intro!: log_keeps_ok stale_log_faults split: if_splits)
qed

text \<open>The file cannot be opened: the handle is stale and the next message faults.\<close>

definition log_env0 :: log_env where
  "log_env0 = \<lparr>lenv_time = ''12:00'', lenv_pid = 7, lenv_fopen_ok = (\<lambda>p. p = ''/tmp/a''),
     lenv_dir_exists = (\<lambda>_. True), lenv_mkdir_ok = (\<lambda>_. False)\<rparr>"

theorem set_log_file_outcomes_witness:
  "let s = g_intercept_state\<lparr>st_initialized := True, st_log_file := OpenLog ''/tmp/a''\<rparr>;
       s' = snd (rdma_intercept_set_log_file log_env0 (Some ''/no/b'') s)
   in st_log_file s' = StaleLog \<and> st_log_fault (rdma_intercept_log log_env0 LOG_LEVEL_ERROR ''x'' s')"
proof -
  let ?s = "g_intercept_state\<lparr>st_initialized := True, st_log_file := OpenLog ''/tmp/a''\<rparr>"
  have ok: "log_ok ?s" by (simp add: log_ok_def g_intercept_state_def)
  have rc: "fst (rdma_intercept_set_log_file log_env0 (Some ''/no/b'') ?s) = -1"
    and ne: "snd (rdma_intercept_set_log_file log_env0 (Some ''/no/b'') ?s) \<noteq> ?s"
    by (simp_all add: rdma_intercept_set_log_file_def MAX_CONFIG_FILE_PATH_def
        ensure_log_directory_def log_env0_def log_close_def Let_def g_intercept_state_def)
  have "cfg_log_level (st_config ?s) \<le> LOG_LEVEL_ERROR"
    by (simp add: g_intercept_state_def default_config_def log_levels)
  with set_log_file_outcomes [OF ok, where env = log_env0 and p = "''/no/b''"
      and level = LOG_LEVEL_ERROR and env' = log_env0 and m = "''x''"] rc ne
  show ?thesis by (auto simp: Let_def split: prod.splits)
qed

end
