(* ===== verification/Config.thy ===== *)
theory Config
  imports Intercept_Log
begin

text \<open>
  Loading the configuration (\<open>src/config.c\<close>): the value parsers, the configuration
  table, one line of a file, the environment variables, a whole file, and the set and get
  operations. \<open>getenv\<close> and the contents of the files are arguments.
\<close>

section \<open>Values\<close>

definition parse_bool :: "string \<Rightarrow> bool option" where
  "parse_bool value =
     (let v = skip_space value
      in if strcaseeq v ''true'' \<or> strcaseeq v ''yes'' \<or> strcaseeq v ''on'' \<or> strcaseeq v ''1''
         then Some True
         else if strcaseeq v ''false'' \<or> strcaseeq v ''no'' \<or> strcaseeq v ''off'' \<or> strcaseeq v ''0''
         then Some False
         else None)"

definition parse_log_level_value :: "string \<Rightarrow> log_level option" where
  "parse_log_level_value value =
     (let v = skip_space value
      in if strcaseeq v ''debug'' then Some LOG_LEVEL_DEBUG
         else if strcaseeq v ''info'' then Some LOG_LEVEL_INFO
         else if strcaseeq v ''warn'' \<or> strcaseeq v ''warning'' then Some LOG_LEVEL_WARN
         else if strcaseeq v ''error'' then Some LOG_LEVEL_ERROR
         else if strcaseeq v ''fatal'' then Some LOG_LEVEL_FATAL
         else None)"

definition is_quote :: "char \<Rightarrow> bool" where
  "is_quote c \<longleftrightarrow> c = CHR 0x22 \<or> c = CHR 0x27"

definition drop_trailing :: "(char \<Rightarrow> bool) \<Rightarrow> string \<Rightarrow> string" where
  "drop_trailing P s = rev (dropWhile P (rev s))"

definition parse_string :: "string \<Rightarrow> nat \<Rightarrow> string option" where
  "parse_string value max_len =
     (if max_len = 0 then None
      else
        let v = drop_trailing (\<lambda>c. is_space c \<or> is_quote c)
                  (dropWhile (\<lambda>c. is_space c \<or> is_quote c) value)
        in if length v \<ge> max_len then None else Some v)"

text \<open>\<open>val <= 0 || val > UINT32_MAX\<close> is refused.\<close>

definition parse_limit :: "string \<Rightarrow> u32 option" where
  "parse_limit value =
     (let val = strtol value
      in if val \<le> 0 \<or> val > 4294967295 then None else Some (word_of_int val))"

section \<open>The configuration table\<close>

text \<open>A parser returns the code and the configuration it leaves.\<close>

type_synonym config_parser = "string \<Rightarrow> intercept_config \<Rightarrow> int \<times> intercept_config"

definition set_if :: "'a option \<Rightarrow> ('a \<Rightarrow> intercept_config) \<Rightarrow> intercept_config \<Rightarrow> int \<times> intercept_config"
  where
  "set_if v put c = (case v of None \<Rightarrow> (-1, c) | Some x \<Rightarrow> (0, put x))"

definition parse_enable_intercept :: config_parser where
  "parse_enable_intercept v c = set_if (parse_bool v) (\<lambda>b. c\<lparr>enable_intercept := b\<rparr>) c"
definition parse_log_qp_creation :: config_parser where
  "parse_log_qp_creation v c = set_if (parse_bool v) (\<lambda>b. c\<lparr>log_qp_creation := b\<rparr>) c"
definition parse_log_all_operations :: config_parser where
  "parse_log_all_operations v c = set_if (parse_bool v) (\<lambda>b. c\<lparr>log_all_operations := b\<rparr>) c"
definition parse_log_level_config :: config_parser where
  "parse_log_level_config v c = set_if (parse_log_level_value v) (\<lambda>l. c\<lparr>cfg_log_level := l\<rparr>) c"
definition parse_log_file_path :: config_parser where
  "parse_log_file_path v c = set_if (parse_string v MAX_CONFIG_FILE_PATH) (\<lambda>p. c\<lparr>log_file_path := p\<rparr>) c"
definition parse_enable_qp_control :: config_parser where
  "parse_enable_qp_control v c = set_if (parse_bool v) (\<lambda>b. c\<lparr>enable_qp_control := b\<rparr>) c"
definition parse_max_qp_per_process :: config_parser where
  "parse_max_qp_per_process v c = set_if (parse_limit v) (\<lambda>n. c\<lparr>max_qp_per_process := n\<rparr>) c"
definition parse_max_send_wr_limit :: config_parser where
  "parse_max_send_wr_limit v c = set_if (parse_limit v) (\<lambda>n. c\<lparr>max_send_wr_limit := n\<rparr>) c"
definition parse_max_recv_wr_limit :: config_parser where
  "parse_max_recv_wr_limit v c = set_if (parse_limit v) (\<lambda>n. c\<lparr>max_recv_wr_limit := n\<rparr>) c"
definition parse_allow_rc_qp :: config_parser where
  "parse_allow_rc_qp v c = set_if (parse_bool v) (\<lambda>b. c\<lparr>allow_rc_qp := b\<rparr>) c"
definition parse_allow_uc_qp :: config_parser where
  "parse_allow_uc_qp v c = set_if (parse_bool v) (\<lambda>b. c\<lparr>allow_uc_qp := b\<rparr>) c"
definition parse_allow_ud_qp :: config_parser where
  "parse_allow_ud_qp v c = set_if (parse_bool v) (\<lambda>b. c\<lparr>allow_ud_qp := b\<rparr>) c"
definition parse_max_global_qp :: config_parser where
  "parse_max_global_qp v c = set_if (parse_limit v) (\<lambda>n. c\<lparr>max_global_qp := n\<rparr>) c"

definition config_table :: "(string \<times> config_parser) list" where
  "config_table =
     [(''enable_intercept'', parse_enable_intercept),
      (''log_qp_creation'', parse_log_qp_creation),
      (''log_all_operations'', parse_log_all_operations),
      (''log_level'', parse_log_level_config),
      (''log_file_path'', parse_log_file_path),
      (''enable_qp_control'', parse_enable_qp_control),
      (''max_qp_per_process'', parse_max_qp_per_process),
      (''max_send_wr_limit'', parse_max_send_wr_limit),
      (''max_recv_wr_limit'', parse_max_recv_wr_limit),
      (''allow_rc_qp'', parse_allow_rc_qp),
      (''allow_uc_qp'', parse_allow_uc_qp),
      (''allow_ud_qp'', parse_allow_ud_qp),
      (''max_global_qp'', parse_max_global_qp)]"

text \<open>The first entry whose key matches, ignoring case.\<close>

fun find_parser :: "string \<Rightarrow> (string \<times> config_parser) list \<Rightarrow> config_parser option" where
  "find_parser key [] = None"
| "find_parser key ((k, p) # t) = (if strcaseeq key k then Some p else find_parser key t)"

definition trim_whitespace :: "string \<Rightarrow> string" where
  "trim_whitespace s = drop_trailing is_space (skip_space s)"

definition parse_config_line :: "string \<Rightarrow> intercept_config \<Rightarrow> int \<times> intercept_config" where
  "parse_config_line line c =
     (let line = trim_whitespace line
      in if line = [] \<or> hd line = CHR ''#'' \<or> hd line = CHR '';'' then (0, c)
         else case split_at (CHR ''='') line of
                None \<Rightarrow> (-1, c)
              | Some (before, after) \<Rightarrow>
                  let key = trim_whitespace before; value = trim_whitespace after
                  in (case find_parser key config_table of
                        None \<Rightarrow> (-1, c)
                      | Some p \<Rightarrow> p value c))"

section \<open>Environment variables\<close>

text \<open>A variable that is set is parsed; a value that does not parse leaves the setting.\<close>

definition env_set ::
    "(string \<Rightarrow> string option) \<Rightarrow> string \<Rightarrow> (string \<Rightarrow> 'a option) \<Rightarrow>
     ('a \<Rightarrow> intercept_config \<Rightarrow> intercept_config) \<Rightarrow> intercept_config \<Rightarrow> intercept_config" where
  "env_set getenv name parse put c =
     (case getenv name of
        None \<Rightarrow> c
      | Some v \<Rightarrow> (case parse v of None \<Rightarrow> c | Some x \<Rightarrow> put x c))"

definition parse_memory :: "string \<Rightarrow> u64 option" where
  "parse_memory v = (if strtoull v > 0 then Some (strtoull v) else None)"

definition load_config_from_env :: "(string \<Rightarrow> string option) \<Rightarrow> intercept_config \<Rightarrow> intercept_config"
  where
  "load_config_from_env getenv c =
     (let c = env_set getenv ''RDMA_INTERCEPT_ENABLE_QP_CONTROL'' parse_bool
                (\<lambda>b c. c\<lparr>enable_qp_control := b\<rparr>) c;
          c = env_set getenv ''RDMA_INTERCEPT_MAX_QP_PER_PROCESS'' parse_limit
                (\<lambda>n c. c\<lparr>max_qp_per_process := n\<rparr>) c;
          c = env_set getenv ''RDMA_INTERCEPT_MAX_GLOBAL_QP'' parse_limit
                (\<lambda>n c. c\<lparr>max_global_qp := n\<rparr>) c;
          c = env_set getenv ''RDMA_INTERCEPT_MAX_SEND_WR_LIMIT'' parse_limit
                (\<lambda>n c. c\<lparr>max_send_wr_limit := n\<rparr>) c;
          c = env_set getenv ''RDMA_INTERCEPT_MAX_RECV_WR_LIMIT'' parse_limit
                (\<lambda>n c. c\<lparr>max_recv_wr_limit := n\<rparr>) c;
          c = env_set getenv ''RDMA_INTERCEPT_ALLOW_RC_QP'' parse_bool
                (\<lambda>b c. c\<lparr>allow_rc_qp := b\<rparr>) c;
          c = env_set getenv ''RDMA_INTERCEPT_ALLOW_UC_QP'' parse_bool
                (\<lambda>b c. c\<lparr>allow_uc_qp := b\<rparr>) c;
          c = env_set getenv ''RDMA_INTERCEPT_ALLOW_UD_QP'' parse_bool
                (\<lambda>b c. c\<lparr>allow_ud_qp := b\<rparr>) c;
          c = env_set getenv ''RDMA_INTERCEPT_ENABLE_MR_CONTROL'' parse_bool
                (\<lambda>b c. c\<lparr>enable_mr_control := b\<rparr>) c;
          c = env_set getenv ''RDMA_INTERCEPT_MAX_MR_PER_PROCESS'' parse_limit
                (\<lambda>n c. c\<lparr>max_mr_per_process := n\<rparr>) c;
          c = env_set getenv ''RDMA_INTERCEPT_MAX_MEMORY_PER_PROCESS'' parse_memory
                (\<lambda>n c. c\<lparr>max_memory_per_process := n\<rparr>) c
      in env_set getenv ''RDMA_INTERCEPT_LOG_FILE_PATH'' (\<lambda>v. parse_string v MAX_CONFIG_FILE_PATH)
           (\<lambda>p c. c\<lparr>log_file_path := p\<rparr>) c)"

section \<open>Files\<close>

record config_env =
  cenv_getenv :: "string \<Rightarrow> string option"
  cenv_file :: "string \<Rightarrow> string option" \<comment> \<open>the contents, if fopen for reading succeeds\<close>
  cenv_log :: log_env

definition DEFAULT_CONFIG_FILE :: string where
  "DEFAULT_CONFIG_FILE = ''/etc/rdma_intercept.conf''"

text \<open>\<open>line[strcspn(line, "\r\n")] = 0\<close>.\<close>

definition strip_eol :: "string \<Rightarrow> string" where
  "strip_eol s = takeWhile (\<lambda>c. c \<noteq> CHR 0x0D \<and> c \<noteq> CHR 0x0A) s"

text \<open>The loop over the lines, with the number of the line, the error count and the log.\<close>

fun parse_config_lines ::
    "log_env \<Rightarrow> string list \<Rightarrow> nat \<Rightarrow> nat \<Rightarrow> intercept_config \<Rightarrow> intercept_state
     \<Rightarrow> nat \<times> intercept_config \<times> intercept_state" where
  "parse_config_lines env [] num errors c s = (errors, c, s)"
| "parse_config_lines env (l # ls) num errors c s =
     (let line = strip_eol l
      in case parse_config_line line c of
           (rc, c') \<Rightarrow>
             if rc \<noteq> 0
             then parse_config_lines env ls (Suc num) (Suc errors) c'
                    (rdma_intercept_log env LOG_LEVEL_WARN
                       (''Invalid config line '' @ dec num @ '': '' @ line) s)
             else parse_config_lines env ls (Suc num) errors c' s)"

definition rdma_intercept_load_config ::
    "config_env \<Rightarrow> string option \<Rightarrow> intercept_state \<Rightarrow> int \<times> intercept_state" where
  "rdma_intercept_load_config env config_file s =
     (let config_file = (case config_file of None \<Rightarrow> DEFAULT_CONFIG_FILE | Some f \<Rightarrow> f);
          temp = load_config_from_env (cenv_getenv env) (st_config s);
          opened = (case cenv_file env config_file of
                      Some text \<Rightarrow> Some (config_file, text)
                    | None \<Rightarrow> (case cenv_getenv env ''RDMA_INTERCEPT_CONFIG'' of
                                 None \<Rightarrow> None
                               | Some f \<Rightarrow> map_option (\<lambda>t. (f, t)) (cenv_file env f)))
      in case opened of
           None \<Rightarrow>
             let s = rdma_intercept_log (cenv_log env) LOG_LEVEL_INFO
                       ''Config file not found, using defaults + env'' s
             in (0, s\<lparr>st_config := temp\<rparr>)
         | Some (name, text) \<Rightarrow>
             let s = rdma_intercept_log (cenv_log env) LOG_LEVEL_INFO (''Loading config from: '' @ name) s;
                 (errors, temp, s) = parse_config_lines (cenv_log env) (fgets_all 1022 text) 1 0 temp s;
                 s = (if errors > 0
                      then rdma_intercept_log (cenv_log env) LOG_LEVEL_WARN
                             (''Config parsing completed with '' @ dec errors @ '' errors'') s
                      else s);
                 s = s\<lparr>st_config := temp\<rparr>
             in (0, rdma_intercept_log (cenv_log env) LOG_LEVEL_INFO ''Config loaded successfully'' s))"

definition rdma_intercept_set_config ::
    "log_env \<Rightarrow> intercept_config option \<Rightarrow> intercept_state \<Rightarrow> int \<times> intercept_state" where
  "rdma_intercept_set_config env config s =
     (case config of
        None \<Rightarrow> (-1, s)
      | Some c \<Rightarrow>
          if cfg_log_level c < LOG_LEVEL_DEBUG \<or> cfg_log_level c > LOG_LEVEL_FATAL then (-1, s)
          else if length (log_file_path c) \<ge> MAX_CONFIG_FILE_PATH then (-1, s)
          else
            let s = s\<lparr>st_config := c\<rparr>;
                s = (if length (log_file_path c) > 0
                     then snd (rdma_intercept_set_log_file env (Some (log_file_path c)) s) else s)
            in (0, rdma_intercept_log env LOG_LEVEL_INFO ''Configuration updated'' s))"

definition rdma_intercept_get_config :: "intercept_state \<Rightarrow> intercept_config" where
  "rdma_intercept_get_config s = st_config s"

section \<open>Parsing a printed setting\<close>

lemma dropWhile_all: "\<forall>c\<in>set a. P c \<Longrightarrow> dropWhile P (a @ b) = dropWhile P b"
  by (induction a) auto

lemma drop_trailing_append:
  "\<forall>c\<in>set sp. P c \<Longrightarrow> drop_trailing P (s @ sp) = drop_trailing P s"
  by (simp add: drop_trailing_def dropWhile_all)

lemma drop_trailing_last: "s \<noteq> [] \<Longrightarrow> \<not> P (last s) \<Longrightarrow> drop_trailing P s = s"
  by (cases s rule: rev_cases) (simp_all add: drop_trailing_def)

lemma skip_space_hd: "s \<noteq> [] \<Longrightarrow> \<not> is_space (hd s) \<Longrightarrow> skip_space s = s"
  by (cases s) (simp_all add: skip_space_def)

text \<open>A text that starts and ends with something else than a space, between spaces.\<close>

lemma trim_padded:
  assumes "\<forall>c\<in>set a. is_space c" "\<forall>c\<in>set b. is_space c"
    and "s \<noteq> []" "\<not> is_space (hd s)" "\<not> is_space (last s)"
  shows "trim_whitespace (a @ s @ b) = s"
proof -
  have "skip_space (a @ s @ b) = s @ b"
    using assms by (cases s) (simp_all add: skip_space_append skip_space_def)
  then show ?thesis using assms by (simp add: trim_whitespace_def drop_trailing_append drop_trailing_last)
qed

lemma dec_ends: "\<not> is_space (hd (dec n))" "\<not> is_space (last (dec n))"
  using dec_digits [of "hd (dec n)" n] dec_digits [of "last (dec n)" n] by (simp_all add: digit_facts)

lemma parse_limit_dec:
  "parse_limit (dec n) = (if 0 < n \<and> n \<le> 4294967295 then Some (of_nat n) else None)"
proof -
  have "strtol (dec n) = min (2 ^ 63 - 1) (int n)"
    using signed_prefix_dec [of "[]" n] by (simp add: strtol_def)
  then show ?thesis by (auto simp: parse_limit_def Let_def min_def)
qed

text \<open>A key of the table: its parser is found whatever spaces surround it.\<close>

definition plain_key :: "string \<Rightarrow> bool" where
  "plain_key k \<longleftrightarrow> k \<noteq> [] \<and> \<not> is_space (hd k) \<and> \<not> is_space (last k) \<and> CHR ''='' \<notin> set k
     \<and> hd k \<noteq> CHR ''#'' \<and> hd k \<noteq> CHR '';''"

definition spaces :: "string \<Rightarrow> bool" where
  "spaces s \<longleftrightarrow> (\<forall>c\<in>set s. is_space c)"

lemma spaces_no_equals: "spaces s \<Longrightarrow> CHR ''='' \<notin> set s"
  by (auto simp: spaces_def is_space_def)

lemma parse_setting:
  assumes k: "plain_key k" and p: "find_parser k config_table = Some p"
    and sp: "spaces a" "spaces b" "spaces c" "spaces d"
    and v: "v \<noteq> []" "\<not> is_space (hd v)" "\<not> is_space (last v)"
  shows "parse_config_line (a @ k @ b @ CHR ''='' # c @ v @ d) conf = p v conf"
proof -
  have "trim_whitespace (a @ (k @ b @ CHR ''='' # c @ v) @ d) = k @ b @ CHR ''='' # c @ v"
    using k sp v by (intro trim_padded) (simp_all add: plain_key_def spaces_def)
  then have t: "trim_whitespace (a @ k @ b @ CHR ''='' # c @ v @ d) = k @ b @ CHR ''='' # c @ v" by simp
  have s: "split_at (CHR ''='') (k @ b @ CHR ''='' # c @ v) = Some (k @ b, c @ v)"
    using split_at_append [of "CHR ''=''" "k @ b" "c @ v"] k spaces_no_equals [OF sp(2)]
    by (simp add: plain_key_def)
  have kb: "trim_whitespace (k @ b) = k"
    using trim_padded [of "[]" b k] k sp by (simp add: plain_key_def spaces_def)
  have cv: "trim_whitespace (c @ v) = v"
    using trim_padded [of c "[]" v] v sp by (simp add: spaces_def)
  show ?thesis
    unfolding parse_config_line_def t Let_def s
    using k p by (simp add: plain_key_def kb cv)
qed

lemma numeric_keys:
  "plain_key ''max_qp_per_process'' \<and> find_parser ''max_qp_per_process'' config_table = Some parse_max_qp_per_process"
  "plain_key ''max_send_wr_limit'' \<and> find_parser ''max_send_wr_limit'' config_table = Some parse_max_send_wr_limit"
  "plain_key ''max_recv_wr_limit'' \<and> find_parser ''max_recv_wr_limit'' config_table = Some parse_max_recv_wr_limit"
  "plain_key ''max_global_qp'' \<and> find_parser ''max_global_qp'' config_table = Some parse_max_global_qp"
  by (simp_all add: plain_key_def is_space_def config_table_def strcaseeq_def to_lower_def)

section \<open>Positive limits\<close>

text \<open>The limits that the loader keeps above zero.\<close>

definition limits_positive :: "intercept_config \<Rightarrow> bool" where
  "limits_positive c \<longleftrightarrow> 0 < max_qp_per_process c \<and> 0 < max_send_wr_limit c \<and> 0 < max_recv_wr_limit c
     \<and> 0 < max_global_qp c \<and> 0 < max_mr_per_process c \<and> 0 < max_memory_per_process c"

lemma parse_limit_pos: "parse_limit v = Some n \<Longrightarrow> 0 < n"
proof -
  assume a: "parse_limit v = Some n"
  then have r: "0 < strtol v" "strtol v \<le> 4294967295" and n: "n = word_of_int (strtol v)"
    by (auto simp: parse_limit_def Let_def split: if_splits)
  from r have "uint n = strtol v" unfolding n by (simp add: unsigned_of_int take_bit_int_eq_self)
  with r show "0 < n" by (simp add: word_less_def)
qed

lemma parse_memory_pos: "parse_memory v = Some n \<Longrightarrow> 0 < n"
  by (auto simp: parse_memory_def split: if_splits)

lemmas config_parsers = parse_enable_intercept_def parse_log_qp_creation_def
  parse_log_all_operations_def parse_log_level_config_def parse_log_file_path_def
  parse_enable_qp_control_def parse_max_qp_per_process_def parse_max_send_wr_limit_def
  parse_max_recv_wr_limit_def parse_allow_rc_qp_def parse_allow_uc_qp_def parse_allow_ud_qp_def
  parse_max_global_qp_def

lemma find_parser_mem: "find_parser k t = Some p \<Longrightarrow> p \<in> snd ` set t"
  by (induction t) (auto split: if_splits)

lemma parser_keeps_positive:
  "p \<in> snd ` set config_table \<Longrightarrow> limits_positive c \<Longrightarrow> limits_positive (snd (p v c))"
  unfolding config_table_def
  by (auto simp: config_parsers set_if_def limits_positive_def dest: parse_limit_pos split: option.splits)

lemma line_keeps_positive: "limits_positive c \<Longrightarrow> limits_positive (snd (parse_config_line l c))"
  by (auto simp: parse_config_line_def Let_def intro!: parser_keeps_positive
      intro: find_parser_mem split: option.splits)

lemma env_set_positive:
  "limits_positive c \<Longrightarrow> (\<And>v x c. parse v = Some x \<Longrightarrow> limits_positive c \<Longrightarrow> limits_positive (put x c)) \<Longrightarrow>
   limits_positive (env_set getenv name parse put c)"
  by (auto simp: env_set_def split: option.splits)

lemma env_keeps_positive: "limits_positive c \<Longrightarrow> limits_positive (load_config_from_env getenv c)"
  unfolding load_config_from_env_def Let_def
  by (intro env_set_positive) (auto simp: limits_positive_def dest: parse_limit_pos parse_memory_pos)

lemma lines_keep_positive:
  "limits_positive c \<Longrightarrow> limits_positive (fst (snd (parse_config_lines env ls n e c s)))"
proof (induction ls arbitrary: n e c s)
  case (Cons l ls)
  have "limits_positive (snd (parse_config_line (strip_eol l) c))"
    by (rule line_keeps_positive [OF Cons.prems])
  with Cons.IH show ?case by (auto simp: Let_def split: prod.splits)
qed simp

section \<open>Properties\<close>

lemma numeric_line:
  "plain_key k \<and> find_parser k config_table = Some p \<Longrightarrow> spaces a \<Longrightarrow> spaces b \<Longrightarrow> spaces c \<Longrightarrow>
   spaces d \<Longrightarrow> parse_config_line (a @ k @ b @ CHR ''='' # c @ dec n @ d) conf = p (dec n) conf"
  by (intro parse_setting dec_not_empty dec_ends) simp_all

text \<open>
  C23 (configuration round trip). A line that prints a number for one of the numeric settings,
  with any white space around the key and the value, is parsed back: the setting becomes exactly
  the number when it is between 1 and 4294967295, and otherwise the line is refused and the
  configuration stays as it was.
\<close>

theorem config_number_roundtrip:
  assumes sp: "spaces a" "spaces b" "spaces c" "spaces d"
  shows "parse_config_line (a @ ''max_qp_per_process'' @ b @ CHR ''='' # c @ dec n @ d) conf
      = (if 0 < n \<and> n \<le> 4294967295 then (0, conf\<lparr>max_qp_per_process := of_nat n\<rparr>) else (-1, conf))
    \<and> parse_config_line (a @ ''max_send_wr_limit'' @ b @ CHR ''='' # c @ dec n @ d) conf
      = (if 0 < n \<and> n \<le> 4294967295 then (0, conf\<lparr>max_send_wr_limit := of_nat n\<rparr>) else (-1, conf))
    \<and> parse_config_line (a @ ''max_recv_wr_limit'' @ b @ CHR ''='' # c @ dec n @ d) conf
      = (if 0 < n \<and> n \<le> 4294967295 then (0, conf\<lparr>max_recv_wr_limit := of_nat n\<rparr>) else (-1, conf))
    \<and> parse_config_line (a @ ''max_global_qp'' @ b @ CHR ''='' # c @ dec n @ d) conf
      = (if 0 < n \<and> n \<le> 4294967295 then (0, conf\<lparr>max_global_qp := of_nat n\<rparr>) else (-1, conf))"
proof -
  note line = numeric_line [OF _ sp]
  show ?thesis
    unfolding line [OF numeric_keys(1)] line [OF numeric_keys(2)] line [OF numeric_keys(3)]
      line [OF numeric_keys(4)]
    by (simp add: parse_max_qp_per_process_def parse_max_send_wr_limit_def
        parse_max_recv_wr_limit_def parse_max_global_qp_def set_if_def parse_limit_dec)
qed

theorem config_number_roundtrip_witness:
  "parse_config_line ''  max_global_qp = 250'' default_config
     = (0, default_config\<lparr>max_global_qp := 250\<rparr>)
   \<and> parse_config_line ''  max_global_qp = 0'' default_config = (-1, default_config)"
proof -
  have sp: "spaces ''  ''" "spaces '' ''" "spaces '' ''" "spaces []"
    by (simp_all add: spaces_def is_space_def)
  have d: "dec 250 = ''250''" "dec 0 = ''0''" by code_simp+
  show ?thesis
    using config_number_roundtrip [OF sp, of 250 default_config]
      config_number_roundtrip [OF sp, of 0 default_config] by (simp add: d)
qed

text \<open>
  Limits stay positive. Loading a configuration, whatever the environment variables and
  the contents of the file are, never sets a limit to zero.
\<close>

theorem load_config_limits_positive:
  assumes "limits_positive (st_config s)"
  shows "limits_positive (st_config (snd (rdma_intercept_load_config env file s)))"
proof -
  have e: "limits_positive (load_config_from_env (cenv_getenv env) (st_config s))"
    by (rule env_keeps_positive [OF assms])
  have "limits_positive c'" if "parse_config_lines (cenv_log env) ls 1 0
      (load_config_from_env (cenv_getenv env) (st_config s)) t = (n, c', t')" for ls t n c' t'
    using lines_keep_positive [OF e, of "cenv_log env" ls 1 0 t] that by simp
  with e show ?thesis
    by (auto simp: rdma_intercept_load_config_def Let_def frame_simps split: option.splits prod.splits)
qed

theorem load_config_limits_positive_witness:
  "limits_positive (st_config (snd (rdma_intercept_load_config
     \<lparr>cenv_getenv = (\<lambda>_. Some ''0''), cenv_file = (\<lambda>_. Some ''max_global_qp = -3''), cenv_log = log_env0\<rparr>
     None g_intercept_state)))"
proof (rule load_config_limits_positive)
  show "limits_positive (st_config g_intercept_state)"
    by (simp add: limits_positive_def g_intercept_state_def default_config_def)
qed

text \<open>
  The file wins. When the configuration file sets a limit, that value is in force after
  loading, whatever the environment variable of the same limit says; the variable is used only
  when no file sets it.
\<close>

theorem config_file_overrides_env:
  assumes n: "0 < n" "n \<le> 4294967295"
    and contents: "cenv_file env (case f of None \<Rightarrow> DEFAULT_CONFIG_FILE | Some p \<Rightarrow> p)
      = Some (''max_qp_per_process='' @ dec n)"
  shows "max_qp_per_process (st_config (snd (rdma_intercept_load_config env f s))) = of_nat n"
proof -
  let ?l = "''max_qp_per_process='' @ dec n"
  have sp: "spaces []" by (simp add: spaces_def)
  have len: "length (dec n) \<le> 10" using n by (intro dec_length) simp_all
  have nl: "CHR 0x0A \<notin> set ?l" "CHR 0x0D \<notin> set ?l"
    by (auto simp: is_digit_def dest!: dec_digits)
  have all: "fgets_all 1022 ?l = [?l]" using nl len by (intro fgets_all_whole) simp_all
  have "strip_eol ?l = ?l" using nl by (auto simp: strip_eol_def takeWhile_eq_all_conv)
  moreover have "parse_config_line ?l c = (0, c\<lparr>max_qp_per_process := of_nat n\<rparr>)" for c
    using numeric_line [OF numeric_keys(1) sp sp sp sp, of n c] n
    by (simp add: parse_max_qp_per_process_def set_if_def parse_limit_dec)
  ultimately have "parse_config_lines lenv (fgets_all 1022 ?l) 1 0 c t
      = (0, c\<lparr>max_qp_per_process := of_nat n\<rparr>, t)" for lenv c t
    unfolding all by (simp only: parse_config_lines.simps Let_def prod.case) simp
  then show ?thesis
    by (simp only: rdma_intercept_load_config_def Let_def contents option.case prod.case) (simp add: frame_simps)
qed

theorem config_file_overrides_env_witness:
  "max_qp_per_process (st_config (snd (rdma_intercept_load_config
     \<lparr>cenv_getenv = (\<lambda>v. if v = ''RDMA_INTERCEPT_MAX_QP_PER_PROCESS'' then Some ''5'' else None),
      cenv_file = (\<lambda>_. Some (''max_qp_per_process='' @ dec 7)), cenv_log = log_env0\<rparr>
     None g_intercept_state))) = 7"
  using config_file_overrides_env [of 7] by simp

end
