(* ===== verification/Intercept_Core.thy ===== *)
theory Intercept_Core
  imports Config
begin

text \<open>
  Starting and stopping the interception layer (\<open>src/intercept_core.c\<close>). What the
  dynamic loader answers and how it prints addresses are arguments; \<open>errno\<close> is returned
  where the code sets it.
\<close>

section \<open>Operations\<close>

record core_env =
  ce_config :: config_env
  ce_dlopen_ok :: bool
  ce_dlsym :: "string \<Rightarrow> bool" \<comment> \<open>the symbol is found in libibverbs.so\<close>
  ce_address :: "string \<Rightarrow> string" \<comment> \<open>its address, as printed by \<open>%p\<close>\<close>

definition EIO :: i32 where "EIO = 5"
definition ENOSYS :: i32 where "ENOSYS = 38"
definition EPERM :: i32 where "EPERM = 1"

text \<open>The four lines written to a log file that has just been opened, and the success line.\<close>

definition init_log_lines :: "core_env \<Rightarrow> string list" where
  "init_log_lines env =
     [''[INFO] RDMA Intercept initialized successfully'' @ [CHR 0x0A],
      ''[INFO] ibv_create_qp: '' @ ce_address env ''ibv_create_qp'' @ [CHR 0x0A],
      ''[INFO] ibv_create_qp_ex: '' @ ce_address env ''ibv_create_qp_ex'' @ [CHR 0x0A],
      ''[INFO] ibv_reg_mr: '' @ ce_address env ''ibv_reg_mr'' @ [CHR 0x0A],
      ''[INFO] ibv_dereg_mr: '' @ ce_address env ''ibv_dereg_mr'' @ [CHR 0x0A]]"

definition rdma_intercept_init :: "core_env \<Rightarrow> intercept_state \<Rightarrow> int \<times> i32 option \<times> intercept_state" where
  "rdma_intercept_init env s =
     (if st_initialized s then (0, None, s)
      else
        let s = snd (rdma_intercept_load_config (ce_config env) None s);
            path = log_file_path (st_config s)
        in if \<not> lenv_fopen_ok (cenv_log (ce_config env)) path
             then (-1, Some EIO, s\<lparr>st_log_file := NoLog\<rparr>)
           else
             let s = s\<lparr>st_log_file := OpenLog path\<rparr>
             in if \<not> ce_dlopen_ok env then (-1, Some ENOSYS, log_close s)
                else if \<not> ce_dlsym env ''ibv_create_qp'' then (-1, Some ENOSYS, log_close s)
                else if \<not> ce_dlsym env ''ibv_reg_mr'' then (-1, Some ENOSYS, log_close s)
                else if \<not> ce_dlsym env ''ibv_dereg_mr'' then (-1, Some ENOSYS, log_close s)
                else
                  let s = fold log_write (init_log_lines env) s
                  in (0, Some 0, s\<lparr>st_initialized := True\<rparr>))"

definition init_if_needed :: "core_env \<Rightarrow> intercept_state \<Rightarrow> intercept_state" where
  "init_if_needed env s =
     (case cenv_getenv (ce_config env) ''RDMA_INTERCEPT_ENABLE'' of
        None \<Rightarrow> s
      | Some v \<Rightarrow> if v \<noteq> ''1'' then s else snd (snd (rdma_intercept_init env s)))"

definition rdma_intercept_cleanup :: "intercept_state \<Rightarrow> intercept_state" where
  "rdma_intercept_cleanup s =
     (if \<not> st_initialized s then s
      else
        let s = (if st_log_file s \<noteq> NoLog
                 then (log_close (log_write (''[INFO] RDMA Intercept cleanup'' @ [CHR 0x0A]) s))
                        \<lparr>st_log_file := NoLog\<rparr>
                 else s)
        in s\<lparr>st_initialized := False\<rparr>)"

definition rdma_intercept_is_enabled :: "intercept_state \<Rightarrow> bool" where
  "rdma_intercept_is_enabled s \<longleftrightarrow> st_initialized s \<and> enable_intercept (st_config s)"

definition rdma_intercept_version :: string where
  "rdma_intercept_version = ''1.0.0''"

section \<open>Frame\<close>

text \<open>Loading only logs and replaces the configuration.\<close>

lemma parse_config_lines_inv:
  assumes log: "\<And>lv m t. P t \<Longrightarrow> P (rdma_intercept_log env lv m t)"
  shows "P s \<Longrightarrow> P (snd (snd (parse_config_lines env ls n e c s)))"
proof (induction ls arbitrary: n e c s)
  case (Cons l ls)
  show ?case
    using Cons by (cases "parse_config_line (strip_eol l) c") (simp add: Let_def log)
qed simp

lemma load_config_inv:
  assumes P: "P s" and log: "\<And>lv m t. P t \<Longrightarrow> P (rdma_intercept_log (cenv_log env) lv m t)"
    and conf: "\<And>t c. P t \<Longrightarrow> P (t\<lparr>st_config := c\<rparr>)"
  shows "P (snd (rdma_intercept_load_config env f s))"
proof -
  have "P (snd (snd (parse_config_lines (cenv_log env) ls n e c t)))" if "P t" for ls n e c t
    by (rule parse_config_lines_inv [OF log that])
  with P show ?thesis
    by (simp add: rdma_intercept_load_config_def Let_def split_beta conf log split: option.split)
qed

lemma load_config_frame [frame_simps]:
  "st_initialized (snd (rdma_intercept_load_config env f s)) = st_initialized s"
  "st_log_file (snd (rdma_intercept_load_config env f s)) = st_log_file s"
  "st_qp_count (snd (rdma_intercept_load_config env f s)) = st_qp_count s"
  "st_mr_count (snd (rdma_intercept_load_config env f s)) = st_mr_count s"
  "st_memory_used (snd (rdma_intercept_load_config env f s)) = st_memory_used s"
  by (rule load_config_inv; simp add: frame_simps)+

lemma log_ok_config [simp]: "log_ok (s\<lparr>st_config := c\<rparr>) = log_ok s"
  by (simp add: log_ok_def)

lemma load_config_log_ok: "log_ok s \<Longrightarrow> log_ok (snd (rdma_intercept_load_config env f s))"
  by (rule load_config_inv) (simp_all add: log_keeps_ok)

lemma log_writes_frame [frame_simps]:
  "st_config (fold log_write ls s) = st_config s"
  "st_initialized (fold log_write ls s) = st_initialized s"
  "st_log_file (fold log_write ls s) = st_log_file s"
  "st_qp_count (fold log_write ls s) = st_qp_count s"
  "st_mr_count (fold log_write ls s) = st_mr_count s"
  "st_memory_used (fold log_write ls s) = st_memory_used s"
  by (induction ls arbitrary: s) (simp_all add: frame_simps)

lemma log_close_frame [frame_simps]:
  "st_config (log_close s) = st_config s"
  "st_initialized (log_close s) = st_initialized s"
  "st_qp_count (log_close s) = st_qp_count s"
  "st_mr_count (log_close s) = st_mr_count s"
  "st_memory_used (log_close s) = st_memory_used s"
  by (simp_all add: log_close_def split: log_handle.splits)

lemma init_frame [frame_simps]:
  "st_qp_count (snd (snd (rdma_intercept_init env s))) = st_qp_count s"
  "st_mr_count (snd (snd (rdma_intercept_init env s))) = st_mr_count s"
  "st_memory_used (snd (snd (rdma_intercept_init env s))) = st_memory_used s"
  by (simp_all add: rdma_intercept_init_def Let_def frame_simps)

lemma init_if_needed_frame [frame_simps]:
  "st_qp_count (init_if_needed env s) = st_qp_count s"
  "st_mr_count (init_if_needed env s) = st_mr_count s"
  "st_memory_used (init_if_needed env s) = st_memory_used s"
  by (simp_all add: init_if_needed_def frame_simps split: option.split)

section \<open>Properties\<close>

text \<open>
  C40 (start-up). Initialising a layer that is down loads the configuration and succeeds exactly
  when the log file opens and the library and its three required symbols are found; it then is up
  with an open log on the configured path. A log that does not open is the first failure: it gives
  \<open>EIO\<close> and no log, whatever the library holds. Any later failure gives \<open>ENOSYS\<close>
  and leaves the pointer to a log file that is already closed. On every failure the layer is down;
  interception is in force afterwards exactly when initialisation succeeded and the configuration
  enables it.
\<close>

theorem init_outcome:
  assumes "\<not> st_initialized s" and "rdma_intercept_init env s = (rc, err, s')"
  defines "opens \<equiv> lenv_fopen_ok (cenv_log (ce_config env)) (log_file_path (st_config s'))"
  shows "st_config s' = st_config (snd (rdma_intercept_load_config (ce_config env) None s))
    \<and> rc = (if opens \<and> ce_dlopen_ok env \<and> ce_dlsym env ''ibv_create_qp'' \<and> ce_dlsym env ''ibv_reg_mr''
                \<and> ce_dlsym env ''ibv_dereg_mr'' then 0 else -1)
    \<and> (rc = 0 \<longrightarrow> st_initialized s' \<and> st_log_file s' = OpenLog (log_file_path (st_config s')))
    \<and> (rc \<noteq> 0 \<longrightarrow> \<not> st_initialized s' \<and> err = Some (if opens then ENOSYS else EIO)
          \<and> st_log_file s' = (if opens then StaleLog else NoLog))
    \<and> rdma_intercept_is_enabled s' = (rc = 0 \<and> enable_intercept (st_config s'))"
proof -
  have closed: "st_log_file (log_close t) = StaleLog" if "st_log_file t = OpenLog f" for t f
    using that by (simp add: log_close_def)
  show ?thesis
    using assms(1,2) closed
    by (simp add: opens_def rdma_intercept_init_def rdma_intercept_is_enabled_def Let_def frame_simps
        split: if_splits) (auto simp: frame_simps)
qed

text \<open>All symbols are found and the log opens: the layer is up.\<close>

definition core_env0 :: core_env where
  "core_env0 = \<lparr>ce_config = \<lparr>cenv_getenv = (\<lambda>v. if v = ''RDMA_INTERCEPT_ENABLE'' then Some ''1'' else None),
       cenv_file = (\<lambda>_. None), cenv_log = log_env0\<lparr>lenv_fopen_ok := (\<lambda>_. True)\<rparr>\<rparr>,
     ce_dlopen_ok = True, ce_dlsym = (\<lambda>_. True), ce_address = (\<lambda>_. ''0x1000'')\<rparr>"

theorem init_outcome_witness:
  "fst (rdma_intercept_init core_env0 g_intercept_state) = 0
   \<and> rdma_intercept_is_enabled (snd (snd (rdma_intercept_init core_env0 g_intercept_state)))
     = enable_intercept (st_config (snd (snd (rdma_intercept_init core_env0 g_intercept_state))))"
proof -
  obtain rc err s' where r: "rdma_intercept_init core_env0 g_intercept_state = (rc, err, s')"
    by (cases "rdma_intercept_init core_env0 g_intercept_state")
  have "\<not> st_initialized g_intercept_state" by (simp add: g_intercept_state_def)
  from init_outcome [OF this r] r show ?thesis by (simp add: core_env0_def)
qed

end
