(* ===== verification/Shm.thy ===== *)
theory Shm
  imports Prelude
begin

text \<open>
  The process table in shared memory (\<open>src/shm/shared_memory.c\<close> and its header): the
  shared object with the global and per-process usage, the process's view of it (file
  descriptor, mapping), and the operations, each with the lock it takes.

  What the operating system answers to one call is the argument \<open>shm_env\<close> of the
  operation: the results of \<open>shm_open\<close>, \<open>ftruncate\<close>, \<open>mmap\<close>,
  \<open>shm_unlink\<close> and the monotonic clock. A pointer argument is an option
  (\<^const>\<open>None\<close> is NULL), a C return code is an \<^typ>\<open>int\<close>. A lock
  operation is modelled by the state it leaves behind once it has returned; that it returns
  only when no other process holds the lock is the subject of the theory of the spin locks.
\<close>

section \<open>Data\<close>

definition MAX_PROCESSES :: nat where
  "MAX_PROCESSES = 1024"

record resource_usage =
  qp_count :: i32
  mr_count :: i32
  memory_used :: u64

record shared_memory_data =
  global_stats :: resource_usage
  process_stats :: "resource_usage list"
  process_pids :: "pid_t list"
  shm_max_global_qp :: u32
  shm_max_global_mr :: u32
  shm_max_global_memory :: u64
  shm_lock_word :: i32
  shm_version :: u64
  shm_last_update_time :: u64

text \<open>
  \<open>shm_object\<close> is the object behind the name \<open>SHM_NAME\<close>; it exists
  independently of this process, which reaches it through its mapping.
\<close>

record shm_state =
  shm_fd :: int
  shm_mapped :: bool
  shm_object :: "shared_memory_data option"

record shm_env =
  env_shm_open :: int
  env_ftruncate :: int
  env_mmap_ok :: bool
  env_shm_unlink :: int
  env_tv_sec :: u64
  env_tv_nsec :: u64

definition zero_usage :: resource_usage where
  "zero_usage = \<lparr>qp_count = 0, mr_count = 0, memory_used = 0\<rparr>"

text \<open>A new shared object reads as zero bytes.\<close>

definition zero_shm_data :: shared_memory_data where
  "zero_shm_data =
     \<lparr>global_stats = zero_usage,
      process_stats = replicate MAX_PROCESSES zero_usage,
      process_pids = replicate MAX_PROCESSES 0,
      shm_max_global_qp = 0, shm_max_global_mr = 0, shm_max_global_memory = 0,
      shm_lock_word = 0, shm_version = 0, shm_last_update_time = 0\<rparr>"

definition get_current_time_ns :: "shm_env \<Rightarrow> u64" where
  "get_current_time_ns env = env_tv_sec env * 1000000000 + env_tv_nsec env"

section \<open>Operations\<close>

text \<open>The initialisation \<open>shm_init\<close> performs when the global counters are all zero.\<close>

definition shm_init_data :: "shm_env \<Rightarrow> shared_memory_data \<Rightarrow> shared_memory_data" where
  "shm_init_data env d =
     (if qp_count (global_stats d) = 0 \<and> mr_count (global_stats d) = 0
         \<and> memory_used (global_stats d) = 0
      then d\<lparr>global_stats := \<lparr>qp_count = 0, mr_count = 0, memory_used = 0\<rparr>,
             process_stats := replicate MAX_PROCESSES \<lparr>qp_count = 0, mr_count = 0, memory_used = 0\<rparr>,
             process_pids := replicate MAX_PROCESSES 0,
             shm_max_global_qp := 1000,
             shm_max_global_mr := 1000,
             shm_max_global_memory := 1024 * 1024 * 1024,
             shm_lock_word := 0,
             shm_version := 1,
             shm_last_update_time := get_current_time_ns env\<rparr>
      else d)"

definition shm_init :: "shm_env \<Rightarrow> shm_state \<Rightarrow> int \<times> shm_state" where
  "shm_init env s =
     (if env_shm_open env = -1 then (-1, s\<lparr>shm_fd := env_shm_open env\<rparr>)
      else
        let d = (case shm_object s of None \<Rightarrow> zero_shm_data | Some d \<Rightarrow> d);
            s = s\<lparr>shm_fd := env_shm_open env, shm_object := Some d\<rparr>
        in if env_ftruncate env = -1 then (-1, s\<lparr>shm_fd := -1\<rparr>)
           else if \<not> env_mmap_ok env then (-1, s\<lparr>shm_fd := -1, shm_mapped := False\<rparr>)
           else (0, s\<lparr>shm_mapped := True, shm_object := Some (shm_init_data env d)\<rparr>))"

definition shm_destroy :: "shm_env \<Rightarrow> shm_state \<Rightarrow> int \<times> shm_state" where
  "shm_destroy env s =
     (let s = (if shm_mapped s then s\<lparr>shm_mapped := False\<rparr> else s);
          s = (if shm_fd s \<noteq> -1 then s\<lparr>shm_fd := -1\<rparr> else s)
      in if env_shm_unlink env = -1 then (-1, s)
         else (0, s\<lparr>shm_object := None\<rparr>))"

definition shm_get_ptr :: "shm_state \<Rightarrow> shared_memory_data option" where
  "shm_get_ptr s = (if shm_mapped s then shm_object s else None)"

definition shm_lock :: "shared_memory_data \<Rightarrow> shared_memory_data" where
  "shm_lock d = d\<lparr>shm_lock_word := 1\<rparr>"

definition shm_unlock :: "shared_memory_data \<Rightarrow> shared_memory_data" where
  "shm_unlock d = d\<lparr>shm_lock_word := 0\<rparr>"

text \<open>The out-parameter \<open>usage\<close> is returned; \<^const>\<open>None\<close> on the error return,
  where the code does not write it. \<open>has_usage\<close> says that the pointer is not NULL.\<close>

definition shm_get_global_resources :: "bool \<Rightarrow> shm_state \<Rightarrow> int \<times> resource_usage option" where
  "shm_get_global_resources has_usage s =
     (case shm_get_ptr s of
        None \<Rightarrow> (-1, None)
      | Some d \<Rightarrow>
          if \<not> has_usage then (-1, None)
          else (0, Some \<lparr>qp_count = qp_count (global_stats d),
                         mr_count = mr_count (global_stats d),
                         memory_used = memory_used (global_stats d)\<rparr>))"

definition shm_get_process_resources :: "pid_t \<Rightarrow> bool \<Rightarrow> shm_state \<Rightarrow> int \<times> resource_usage option" where
  "shm_get_process_resources pid has_usage s =
     (case shm_get_ptr s of
        None \<Rightarrow> (-1, None)
      | Some d \<Rightarrow>
          if \<not> has_usage \<or> sint pid \<le> 0 then (-1, None)
          else case find_slot (\<lambda>p. p = pid) (process_pids d) of
                 Some i \<Rightarrow>
                   (0, Some \<lparr>qp_count = qp_count (process_stats d ! i),
                             mr_count = mr_count (process_stats d ! i),
                             memory_used = memory_used (process_stats d ! i)\<rparr>)
               | None \<Rightarrow> (0, Some \<lparr>qp_count = 0, mr_count = 0, memory_used = 0\<rparr>))"

definition shm_update_global_resources ::
    "shm_env \<Rightarrow> resource_usage option \<Rightarrow> shm_state \<Rightarrow> int \<times> shm_state" where
  "shm_update_global_resources env usage s =
     (case (usage, shm_get_ptr s) of
        (Some u, Some d) \<Rightarrow>
          let d = shm_lock d;
              d = d\<lparr>global_stats := \<lparr>qp_count = qp_count u, mr_count = mr_count u,
                                     memory_used = memory_used u\<rparr>\<rparr>;
              d = d\<lparr>shm_version := shm_version d + 1,
                    shm_last_update_time := get_current_time_ns env\<rparr>;
              d = shm_unlock d
          in (0, s\<lparr>shm_object := Some d\<rparr>)
      | _ \<Rightarrow> (-1, s))"

text \<open>
  The loop of \<open>shm_update_process_resources\<close> keeps one variable for both the match and
  the first free slot.
\<close>

fun update_slot :: "pid_t \<Rightarrow> pid_t list \<Rightarrow> nat \<Rightarrow> nat option \<Rightarrow> nat option" where
  "update_slot pid [] i slot = slot"
| "update_slot pid (p # ps) i slot =
     (if p = pid then Some i
      else if p = 0 \<and> slot = None then update_slot pid ps (Suc i) (Some i)
      else update_slot pid ps (Suc i) slot)"

definition shm_update_process_resources ::
    "shm_env \<Rightarrow> pid_t \<Rightarrow> resource_usage option \<Rightarrow> shm_state \<Rightarrow> int \<times> shm_state" where
  "shm_update_process_resources env pid usage s =
     (case (usage, shm_get_ptr s) of
        (Some u, Some d) \<Rightarrow>
          if sint pid \<le> 0 then (-1, s)
          else
            let d = shm_lock d
            in (case update_slot pid (process_pids d) 0 None of
                  None \<Rightarrow> (-1, s\<lparr>shm_object := Some (shm_unlock d)\<rparr>)
                | Some slot \<Rightarrow>
                    let d = (if process_pids d ! slot = 0
                             then d\<lparr>process_pids := (process_pids d)[slot := pid]\<rparr> else d);
                        d = d\<lparr>process_stats := (process_stats d)
                               [slot := \<lparr>qp_count = qp_count u, mr_count = mr_count u,
                                         memory_used = memory_used u\<rparr>]\<rparr>;
                        d = d\<lparr>shm_version := shm_version d + 1,
                              shm_last_update_time := get_current_time_ns env\<rparr>;
                        d = shm_unlock d
                    in (0, s\<lparr>shm_object := Some d\<rparr>))
      | _ \<Rightarrow> (-1, s))"

definition shm_set_global_limits :: "u32 \<Rightarrow> u32 \<Rightarrow> u64 \<Rightarrow> shm_state \<Rightarrow> int \<times> shm_state" where
  "shm_set_global_limits max_qp max_mr max_memory s =
     (case shm_get_ptr s of
        None \<Rightarrow> (-1, s)
      | Some d \<Rightarrow>
          let d = shm_lock d;
              d = d\<lparr>shm_max_global_qp := max_qp, shm_max_global_mr := max_mr,
                    shm_max_global_memory := max_memory\<rparr>;
              d = shm_unlock d
          in (0, s\<lparr>shm_object := Some d\<rparr>))"

section \<open>The invariant and the table view\<close>

text \<open>The arrays have their declared size and no process has two slots.\<close>

definition shm_data_wf :: "shared_memory_data \<Rightarrow> bool" where
  "shm_data_wf d \<longleftrightarrow>
     length (process_pids d) = MAX_PROCESSES \<and> length (process_stats d) = MAX_PROCESSES
     \<and> keys_unique (\<lambda>p. p) (process_pids d)"

definition shm_wf :: "shm_state \<Rightarrow> bool" where
  "shm_wf s \<longleftrightarrow>
     (shm_mapped s \<longrightarrow> shm_object s \<noteq> None) \<and>
     (case shm_object s of None \<Rightarrow> True | Some d \<Rightarrow> shm_data_wf d)"

text \<open>The usage recorded for a process, if it has a slot (pid 0 marks a free slot).\<close>

definition proc_view :: "shm_state \<Rightarrow> pid_t \<Rightarrow> resource_usage option" where
  "proc_view s pid =
     (case shm_get_ptr s of
        None \<Rightarrow> None
      | Some d \<Rightarrow>
          if pid = 0 then None
          else map_option (\<lambda>i. process_stats d ! i) (find_slot (\<lambda>p. p = pid) (process_pids d)))"

definition shm_released :: "shm_state \<Rightarrow> bool" where
  "shm_released s \<longleftrightarrow> (case shm_object s of None \<Rightarrow> True | Some d \<Rightarrow> shm_lock_word d = 0)"

lemmas shm_ops = shm_init_def shm_destroy_def shm_update_global_resources_def
  shm_update_process_resources_def shm_set_global_limits_def

lemma usage_fields [simp]:
  "\<lparr>qp_count = qp_count u, mr_count = mr_count u, memory_used = memory_used u\<rparr> = (u :: resource_usage)"
  by simp

lemma update_slot_Some: "update_slot pid ps i (Some e) =
    Some (case find_slot (\<lambda>p. p = pid) ps of None \<Rightarrow> e | Some k \<Rightarrow> i + k)"
  by (induction ps arbitrary: i) (auto split: option.splits)

text \<open>The loop finds the slot of the process, and a free slot only when it has none.\<close>

lemma update_slot_shift:
  "update_slot pid ps i None =
     map_option (\<lambda>k. i + k)
       (case find_slot (\<lambda>p. p = pid) ps of None \<Rightarrow> find_slot (\<lambda>p. p = 0) ps | Some k \<Rightarrow> Some k)"
proof (induction ps arbitrary: i)
  case (Cons p ps)
  then show ?case
    by (auto simp: update_slot_Some option.map_comp intro!: option.map_cong0 split: option.splits)
qed simp

lemma update_slot_eq [slot_simps]:
  "update_slot pid ps 0 None =
     (case find_slot (\<lambda>p. p = pid) ps of None \<Rightarrow> find_slot (\<lambda>p. p = 0) ps | Some k \<Rightarrow> Some k)"
  by (simp add: update_slot_shift option.map_ident split: option.splits)


section \<open>What the operations do to the object\<close>

lemma length_process_arrays [slot_simps]:
  "shm_data_wf d \<Longrightarrow> length (process_pids d) = MAX_PROCESSES"
  "shm_data_wf d \<Longrightarrow> length (process_stats d) = MAX_PROCESSES"
  by (simp_all add: shm_data_wf_def)

lemma zero_shm_data_wf: "shm_data_wf zero_shm_data"
  by (simp add: shm_data_wf_def zero_shm_data_def keys_unique_replicate)

lemma shm_init_data_wf: "shm_data_wf d \<Longrightarrow> shm_data_wf (shm_init_data env d)"
  by (simp add: shm_data_wf_def shm_init_data_def keys_unique_replicate)

lemma shm_init_wf: "shm_wf s \<Longrightarrow> shm_wf (snd (shm_init env s))"
  by (auto simp: shm_wf_def shm_init_def Let_def zero_shm_data_wf shm_init_data_wf
      split: option.splits)

lemma shm_destroy_wf: "shm_wf s \<Longrightarrow> shm_wf (snd (shm_destroy env s))"
  by (auto simp: shm_wf_def shm_destroy_def Let_def split: option.splits)

lemma shm_update_global_wf: "shm_wf s \<Longrightarrow> shm_wf (snd (shm_update_global_resources env u s))"
  by (auto simp: shm_wf_def shm_update_global_resources_def shm_get_ptr_def shm_data_wf_def
      shm_lock_def shm_unlock_def Let_def split: option.splits)

lemma shm_set_global_limits_wf: "shm_wf s \<Longrightarrow> shm_wf (snd (shm_set_global_limits a b c s))"
  by (auto simp: shm_wf_def shm_set_global_limits_def shm_get_ptr_def shm_data_wf_def
      shm_lock_def shm_unlock_def Let_def split: option.splits)

text \<open>The slot a write goes to, and the object it leaves.\<close>

definition shm_write_slot :: "shm_env \<Rightarrow> pid_t \<Rightarrow> resource_usage \<Rightarrow> nat \<Rightarrow> shared_memory_data \<Rightarrow> shared_memory_data"
  where
  "shm_write_slot env pid u i d =
     d\<lparr>process_pids := (process_pids d)[i := pid],
       process_stats := (process_stats d)[i := u],
       shm_version := shm_version d + 1,
       shm_last_update_time := get_current_time_ns env,
       shm_lock_word := 0\<rparr>"

lemma target_slot:
  assumes "find_slot (\<lambda>p. p = pid) ps = None \<and> find_slot (\<lambda>p. p = 0) ps = Some i
           \<or> find_slot (\<lambda>p. p = pid) ps = Some i"
  shows "i < length ps \<and> (ps ! i = 0 \<or> ps ! i = (pid :: pid_t))"
  using assms by (auto dest: find_slot_SomeD)

lemma shm_update_cases:
  assumes p: "shm_get_ptr s = Some d" and pid: "0 < sint pid"
  shows "shm_update_process_resources env pid (Some u) s =
    (case update_slot pid (process_pids d) 0 None of
       None \<Rightarrow> (-1, s\<lparr>shm_object := Some (d\<lparr>shm_lock_word := 0\<rparr>)\<rparr>)
     | Some i \<Rightarrow> (0, s\<lparr>shm_object := Some (shm_write_slot env pid u i d)\<rparr>))"
proof (cases "update_slot pid (process_pids d) 0 None")
  case None
  with assms show ?thesis
    by (simp add: shm_update_process_resources_def shm_lock_def shm_unlock_def)
next
  case (Some i)
  then have i: "process_pids d ! i = 0 \<or> process_pids d ! i = pid"
    using target_slot [of pid "process_pids d" i] by (auto simp: update_slot_eq split: option.splits)
  have "(process_pids d)[i := pid] = process_pids d" if "process_pids d ! i = pid"
    using that by (metis list_update_id)
  with Some i assms show ?thesis
    by (auto simp: shm_update_process_resources_def shm_lock_def shm_unlock_def
        shm_write_slot_def Let_def)
qed

lemma shm_write_slot_wf:
  assumes w: "shm_data_wf d" and i: "update_slot pid (process_pids d) 0 None = Some i"
  shows "shm_data_wf (shm_write_slot env pid u i d)"
proof -
  have u: "keys_unique (\<lambda>p. p) (process_pids d)" using w by (simp add: shm_data_wf_def)
  have "keys_unique (\<lambda>p. p) ((process_pids d)[i := pid])"
  proof (cases "find_slot (\<lambda>p. p = pid) (process_pids d)")
    case None
    then show ?thesis by (intro keys_unique_update_fresh u) simp
  next
    case (Some k)
    with i have "process_pids d ! i = pid" "i < length (process_pids d)"
      by (auto simp: update_slot_eq dest: find_slot_SomeD)
    then show ?thesis by (intro keys_unique_update_same u) auto
  qed
  with w show ?thesis by (simp add: shm_data_wf_def shm_write_slot_def)
qed

lemma shm_update_null: "shm_get_ptr s = None \<or> sint pid \<le> 0 \<or> u = None \<Longrightarrow>
    shm_update_process_resources env pid u s = (-1, s)"
  by (auto simp: shm_update_process_resources_def split: option.splits)

lemma shm_update_process_wf:
  assumes w: "shm_wf s"
  shows "shm_wf (snd (shm_update_process_resources env pid u s))"
proof (cases "shm_get_ptr s = None \<or> sint pid \<le> 0 \<or> u = None")
  case True
  with w show ?thesis by (simp add: shm_update_null)
next
  case False
  then obtain d v where d: "shm_get_ptr s = Some d" and pid: "0 < sint pid" and v: "u = Some v"
    by auto
  with w have wd: "shm_data_wf d" by (auto simp: shm_wf_def shm_get_ptr_def split: if_splits)
  have "shm_data_wf (d\<lparr>shm_lock_word := 0\<rparr>)" using wd by (simp add: shm_data_wf_def)
  with wd w show ?thesis
    unfolding v shm_update_cases [OF d pid]
    by (auto simp: shm_wf_def intro!: shm_write_slot_wf split: option.splits)
qed

section \<open>The table contract\<close>

definition shm_put :: "shm_env \<Rightarrow> pid_t \<Rightarrow> resource_usage \<Rightarrow> shm_state \<Rightarrow> shm_state option" where
  "shm_put env pid u s =
     (case shm_update_process_resources env pid (Some u) s of
        (rc, s') \<Rightarrow> if rc = 0 then Some s' else None)"

lemma sint_pos_neq_0: "0 < sint (pid :: pid_t) \<Longrightarrow> pid \<noteq> 0"
  by auto

lemma proc_view_write:
  assumes w: "shm_data_wf d" and i: "update_slot pid (process_pids d) 0 None = Some i"
    and pid: "pid \<noteq> 0" and p: "shm_mapped s"
  shows "proc_view (s\<lparr>shm_object := Some (shm_write_slot env pid u i d)\<rparr>)
       = (proc_view (s\<lparr>shm_object := Some d\<rparr>))(pid \<mapsto> u)"
proof
  fix q
  let ?ps = "process_pids d" and ?st = "process_stats d"
  have il: "i < length ?ps" "i < length ?st" and it: "?ps ! i = 0 \<or> ?ps ! i = pid"
    using target_slot [of pid ?ps i] i w
    by (auto simp: update_slot_eq shm_data_wf_def split: option.splits)
  show "proc_view (s\<lparr>shm_object := Some (shm_write_slot env pid u i d)\<rparr>) q
      = ((proc_view (s\<lparr>shm_object := Some d\<rparr>))(pid \<mapsto> u)) q"
  proof (cases "q = pid")
    case True
    have "find_slot (\<lambda>p. p = pid) (?ps[i := pid]) = Some i"
    proof (rule find_slot_eqI)
      fix j
      assume j: "j < i"
      show "?ps[i := pid] ! j \<noteq> pid"
      proof (cases "find_slot (\<lambda>p. p = pid) ?ps")
        case None
        with find_slot_None_nth [OF None, of j] j il show ?thesis by simp
      next
        case (Some k)
        with i j show ?thesis by (auto simp: update_slot_eq dest: find_slot_SomeD)
      qed
    qed (use il in auto)
    with True p il pid show ?thesis
      by (simp add: proc_view_def shm_get_ptr_def shm_write_slot_def)
  next
    case False
    show ?thesis
    proof (cases "q = 0")
      case True
      with False show ?thesis by (simp add: proc_view_def shm_get_ptr_def p)
    next
      case nz: False
      with it False have nq: "?ps ! i \<noteq> q" by auto
      have "find_slot (\<lambda>p. p = q) (?ps[i := pid]) = find_slot (\<lambda>p. p = q) ?ps"
        using nq False il by (intro find_slot_update_other) auto
      moreover have "find_slot (\<lambda>p. p = q) ?ps \<noteq> Some i" using nq by (auto dest: find_slot_SomeD)
      ultimately show ?thesis using False p
        by (cases "find_slot (\<lambda>p. p = q) ?ps")
           (simp_all add: proc_view_def shm_get_ptr_def shm_write_slot_def)
    qed
  qed
qed

lemma shm_put_Some:
  assumes "shm_put env pid u s = Some s'" "0 < sint pid"
  obtains d i where "shm_get_ptr s = Some d" "update_slot pid (process_pids d) 0 None = Some i"
    "s' = s\<lparr>shm_object := Some (shm_write_slot env pid u i d)\<rparr>"
proof (cases "shm_get_ptr s")
  case None
  with assms show ?thesis by (simp add: shm_put_def shm_update_null)
next
  case (Some d)
  with assms that show ?thesis
    by (auto simp: shm_put_def shm_update_cases [OF Some assms(2)] split: option.splits)
qed

lemma get_ptr_object: "shm_get_ptr s = Some d \<Longrightarrow> shm_mapped s \<and> shm_object s = Some d"
  by (simp add: shm_get_ptr_def split: if_splits)

lemma shm_wf_data: "shm_wf s \<Longrightarrow> shm_get_ptr s = Some d \<Longrightarrow> shm_data_wf d"
  by (auto simp: shm_wf_def dest: get_ptr_object)

lemma shm_put_view:
  assumes w: "shm_wf s" and pid: "0 < sint pid" and put: "shm_put env pid u s = Some s'"
  shows "proc_view s' = (proc_view s)(pid \<mapsto> u)"
proof -
  obtain d i where d: "shm_get_ptr s = Some d" "update_slot pid (process_pids d) 0 None = Some i"
    and s': "s' = s\<lparr>shm_object := Some (shm_write_slot env pid u i d)\<rparr>"
    using shm_put_Some [OF put pid] .
  from get_ptr_object [OF d(1)] have "shm_mapped s" "s\<lparr>shm_object := Some d\<rparr> = s" by auto
  with proc_view_write [OF shm_wf_data [OF w d(1)] d(2) sint_pos_neq_0 [OF pid]] s'
  show ?thesis by metis
qed

interpretation shm_table: keyed_table shm_wf "\<lambda>_ pid _. 0 < sint pid" proc_view "shm_put env"
  for env
proof unfold_locales
  fix s pid u s'
  assume *: "shm_wf s" "0 < sint pid" "shm_put env pid u s = Some s'"
  from shm_update_process_wf [OF *(1), of env pid "Some u"] *(3) show "shm_wf s'"
    by (auto simp: shm_put_def split: prod.splits if_splits)
  from shm_put_view [OF *] show "proc_view s' = (proc_view s)(pid \<mapsto> u)" .
next
  fix s pid u
  assume *: "shm_wf s" "0 < sint pid" "proc_view s pid \<noteq> None"
  then obtain d where d: "shm_get_ptr s = Some d" by (auto simp: proc_view_def split: option.splits)
  with * have "find_slot (\<lambda>p. p = pid) (process_pids d) \<noteq> None"
    by (auto simp: proc_view_def split: if_splits)
  with * d show "shm_put env pid u s \<noteq> None"
    by (auto simp: shm_put_def shm_update_cases update_slot_eq split: option.splits)
qed


section \<open>Properties\<close>

text \<open>A call of the interface, and what it does to the state.\<close>

datatype shm_call =
    ShmInit shm_env
  | ShmDestroy shm_env
  | ShmUpdateGlobal shm_env "resource_usage option"
  | ShmUpdateProcess shm_env pid_t "resource_usage option"
  | ShmSetLimits u32 u32 u64

fun shm_exec :: "shm_call \<Rightarrow> shm_state \<Rightarrow> shm_state" where
  "shm_exec (ShmInit env) s = snd (shm_init env s)"
| "shm_exec (ShmDestroy env) s = snd (shm_destroy env s)"
| "shm_exec (ShmUpdateGlobal env u) s = snd (shm_update_global_resources env u s)"
| "shm_exec (ShmUpdateProcess env pid u) s = snd (shm_update_process_resources env pid u s)"
| "shm_exec (ShmSetLimits a b c) s = snd (shm_set_global_limits a b c s)"

text \<open>The static initial values: no descriptor, no mapping, no object.\<close>

definition shm_start :: shm_state where
  "shm_start = \<lparr>shm_fd = -1, shm_mapped = False, shm_object = None\<rparr>"

lemma shm_exec_wf: "shm_wf s \<Longrightarrow> shm_wf (shm_exec c s)"
  by (cases c) (simp_all add: shm_init_wf shm_destroy_wf shm_update_global_wf
      shm_update_process_wf shm_set_global_limits_wf)

lemma shm_update_released:
  "shm_released s \<Longrightarrow> shm_released (snd (shm_update_process_resources env pid u s))"
proof (cases "shm_get_ptr s = None \<or> sint pid \<le> 0 \<or> u = None")
  case True
  then show "shm_released s \<Longrightarrow> ?thesis" by (simp add: shm_update_null)
next
  case False
  then obtain d v where d: "shm_get_ptr s = Some d" and pid: "0 < sint pid" and v: "u = Some v"
    by auto
  show ?thesis
    unfolding v shm_update_cases [OF d pid]
    by (simp add: shm_released_def shm_write_slot_def split: option.splits)
qed

lemma shm_exec_released: "shm_released s \<Longrightarrow> shm_released (shm_exec c s)"
proof (induction c)
  case (ShmUpdateProcess env pid u)
  then show ?case by (simp add: shm_update_released)
qed (auto simp: shm_released_def shm_init_def shm_init_data_def shm_destroy_def
       shm_update_global_resources_def shm_set_global_limits_def shm_unlock_def shm_lock_def
       zero_shm_data_def Let_def split: option.splits)

lemma shm_start_wf: "shm_wf shm_start" and shm_start_released: "shm_released shm_start"
  by (simp_all add: shm_start_def shm_wf_def shm_released_def)

lemma fold_invariant: "P s \<Longrightarrow> (\<And>c s. P s \<Longrightarrow> P (f c s)) \<Longrightarrow> P (fold f cs s)"
  by (induction cs arbitrary: s) auto

text \<open>
  C19 (the process table invariant). Whatever sequence of calls of the interface a process
  makes, in any order and with any answer of the operating system, the arrays keep their size,
  no process ever has two slots, and every call returns with the spin lock released.
\<close>

theorem shm_table_invariant:
  "shm_wf (fold shm_exec calls shm_start) \<and> shm_released (fold shm_exec calls shm_start)"
proof
  show "shm_wf (fold shm_exec calls shm_start)"
    by (rule fold_invariant [where P = shm_wf]) (simp_all add: shm_start_wf shm_exec_wf)
  show "shm_released (fold shm_exec calls shm_start)"
    by (rule fold_invariant [where P = shm_released])
       (simp_all add: shm_start_released shm_exec_released)
qed

lemma get_process_view:
  assumes "shm_get_ptr s \<noteq> None" "0 < sint pid"
  shows "shm_get_process_resources pid True s =
           (0, Some (case proc_view s pid of None \<Rightarrow> zero_usage | Some u \<Rightarrow> u))"
  using assms
  by (auto simp: shm_get_process_resources_def proc_view_def zero_usage_def split: option.splits)

lemma shm_put_ptr: "shm_put env pid u s = Some s' \<Longrightarrow> 0 < sint pid \<Longrightarrow> shm_get_ptr s' \<noteq> None"
  by (erule shm_put_Some) (auto simp: shm_get_ptr_def split: if_splits)

lemma shm_update_put:
  "fst (shm_update_process_resources env pid (Some u) s) = 0 \<Longrightarrow>
   shm_put env pid u s = Some (snd (shm_update_process_resources env pid (Some u) s))"
  by (auto simp: shm_put_def split: prod.splits)

lemma shm_update_pid_pos: "fst (shm_update_process_resources env pid u s) = 0 \<Longrightarrow> 0 < sint pid"
  using shm_update_null [of s pid u env] by force

text \<open>
  C21 (write then read). After a successful update of a process's usage, reading that process
  returns exactly what was written; every other process and the global counters read as before.
\<close>

theorem shm_update_then_get:
  assumes w: "shm_wf s" and ok: "fst (shm_update_process_resources env pid (Some u) s) = 0"
  defines "s' \<equiv> snd (shm_update_process_resources env pid (Some u) s)"
  shows "shm_get_process_resources pid True s' = (0, Some u)
    \<and> (\<forall>q. q \<noteq> pid \<longrightarrow> shm_get_process_resources q True s' = shm_get_process_resources q True s)
    \<and> shm_get_global_resources True s' = shm_get_global_resources True s"
proof -
  have pid: "0 < sint pid" using shm_update_pid_pos ok .
  have put: "shm_put env pid u s = Some s'" using shm_update_put [OF ok] by (simp add: s'_def)
  have v: "proc_view s' = (proc_view s)(pid \<mapsto> u)" by (rule shm_table.put_view [OF w pid put])
  have m: "shm_get_ptr s' \<noteq> None" by (rule shm_put_ptr [OF put pid])
  obtain d i where d: "shm_get_ptr s = Some d"
      and s': "s' = s\<lparr>shm_object := Some (shm_write_slot env pid u i d)\<rparr>"
    using shm_put_Some [OF put pid] by metis
  have "shm_get_process_resources q True s' = shm_get_process_resources q True s" if "q \<noteq> pid" for q
  proof (cases "0 < sint q")
    case True
    with m d that show ?thesis by (simp add: get_process_view v)
  next
    case False
    with m d show ?thesis by (auto simp: shm_get_process_resources_def)
  qed
  moreover have "shm_get_global_resources True s' = shm_get_global_resources True s"
    using m d unfolding s'
    by (auto simp: shm_get_global_resources_def shm_get_ptr_def shm_write_slot_def split: if_splits)
  ultimately show ?thesis using get_process_view [OF m pid] by (simp add: v)
qed

text \<open>A process that has just attached a fresh object.\<close>

definition ok_shm_env :: shm_env where
  "ok_shm_env = \<lparr>env_shm_open = 3, env_ftruncate = 0, env_mmap_ok = True, env_shm_unlink = 0,
     env_tv_sec = 7, env_tv_nsec = 5\<rparr>"

definition fresh_shm :: shm_state where
  "fresh_shm = snd (shm_init ok_shm_env shm_start)"

lemma fresh_shm_wf: "shm_wf fresh_shm"
  by (simp add: fresh_shm_def shm_init_wf shm_start_wf)

lemma fresh_shm_ptr:
  "\<exists>d. shm_get_ptr fresh_shm = Some d \<and> process_pids d = replicate 1024 0
       \<and> process_stats d = replicate 1024 zero_usage \<and> global_stats d = zero_usage"
  by (simp add: fresh_shm_def shm_start_def shm_init_def ok_shm_env_def zero_shm_data_def
      shm_init_data_def MAX_PROCESSES_def shm_get_ptr_def zero_usage_def)

lemma fresh_shm_update_ok:
  "0 < sint pid \<Longrightarrow> fst (shm_update_process_resources env pid (Some u) fresh_shm) = 0"
  using fresh_shm_ptr by (auto simp: shm_update_cases slot_simps split: option.splits)

theorem shm_update_then_get_witness:
  "shm_get_process_resources 42 True
     (snd (shm_update_process_resources ok_shm_env 42 (Some \<lparr>qp_count = 3, mr_count = 1, memory_used = 4096\<rparr>) fresh_shm))
   = (0, Some \<lparr>qp_count = 3, mr_count = 1, memory_used = 4096\<rparr>)"
  using shm_update_then_get [OF fresh_shm_wf fresh_shm_update_ok, of 42 ok_shm_env
      "\<lparr>qp_count = 3, mr_count = 1, memory_used = 4096\<rparr>"] by simp

text \<open>
  When an update is refused. On an attached table, an update of a legal process fails
  exactly when the process has no slot and no slot is free; it then leaves every entry, the
  version and the time stamp as they were.
\<close>

theorem shm_update_refused_iff:
  fixes env :: shm_env and u :: resource_usage
  assumes p: "shm_get_ptr s = Some d" and pid: "0 < sint pid"
  defines "r \<equiv> shm_update_process_resources env pid (Some u) s"
  shows "(fst r \<noteq> 0 \<longleftrightarrow> pid \<notin> set (process_pids d) \<and> 0 \<notin> set (process_pids d))
    \<and> (fst r \<noteq> 0 \<longrightarrow> shm_get_ptr (snd r) = Some (d\<lparr>shm_lock_word := 0\<rparr>))"
proof -
  note r = r_def [unfolded shm_update_cases [OF p pid]]
  have none: "update_slot pid (process_pids d) 0 None = None \<longleftrightarrow>
      pid \<notin> set (process_pids d) \<and> 0 \<notin> set (process_pids d)"
    by (auto simp: update_slot_eq find_slot_None_iff split: option.splits dest: find_slot_SomeD)
  show ?thesis
    using get_ptr_object [OF p] none
    by (auto simp: r shm_get_ptr_def split: option.splits)
qed

text \<open>A table whose 1024 slots all belong to process 9.\<close>

theorem shm_update_refused_iff_witness:
  "fst (shm_update_process_resources ok_shm_env 5 (Some zero_usage)
     \<lparr>shm_fd = 3, shm_mapped = True,
      shm_object = Some (zero_shm_data\<lparr>process_pids := replicate 1024 9\<rparr>)\<rparr>) \<noteq> 0"
  using shm_update_refused_iff
    [of "\<lparr>shm_fd = 3, shm_mapped = True,
          shm_object = Some (zero_shm_data\<lparr>process_pids := replicate 1024 9\<rparr>)\<rparr>"
        "zero_shm_data\<lparr>process_pids := replicate 1024 9\<rparr>" 5 ok_shm_env zero_usage]
  by (simp add: shm_get_ptr_def)

text \<open>
  Re-initialisation erases the table. \<open>shm_init\<close> treats an object as new whenever
  its three global counters are zero, so a process that attaches an object in use whose global
  counters are zero erases the usage of every process and resets the configured limits.
\<close>

theorem shm_init_erases_table:
  assumes "shm_object s = Some d" and "global_stats d = zero_usage"
    and "fst (shm_init env s) = 0"
  shows "proc_view (snd (shm_init env s)) = (\<lambda>_. None)
    \<and> (\<exists>d'. shm_object (snd (shm_init env s)) = Some d' \<and> shm_max_global_qp d' = 1000
          \<and> shm_max_global_mr d' = 1000 \<and> shm_max_global_memory d' = 1073741824)"
proof -
  have "proc_view (snd (shm_init env s)) q = None" for q
    using assms
    by (auto simp: proc_view_def shm_init_def shm_init_data_def zero_usage_def shm_get_ptr_def
        find_slot_replicate Let_def split: if_splits)
  then show ?thesis using assms
    by (auto simp: shm_init_def shm_init_data_def zero_usage_def Let_def split: if_splits)
qed

text \<open>Process 42 had registered three QPs; a second attach forgets them.\<close>

theorem shm_init_erases_table_witness:
  "let s = snd (shm_update_process_resources ok_shm_env 42
                  (Some \<lparr>qp_count = 3, mr_count = 1, memory_used = 4096\<rparr>) fresh_shm)
   in shm_get_process_resources 42 True s = (0, Some \<lparr>qp_count = 3, mr_count = 1, memory_used = 4096\<rparr>)
      \<and> shm_get_process_resources 42 True (snd (shm_init ok_shm_env s)) = (0, Some zero_usage)"
proof -
  let ?u = "\<lparr>qp_count = 3, mr_count = 1, memory_used = 4096\<rparr>"
  let ?s = "snd (shm_update_process_resources ok_shm_env 42 (Some ?u) fresh_shm)"
  have put: "shm_put ok_shm_env 42 ?u fresh_shm = Some ?s"
    by (rule shm_update_put [OF fresh_shm_update_ok]) simp
  have pos: "0 < sint (42 :: pid_t)" by simp
  obtain d i where d: "shm_get_ptr fresh_shm = Some d"
    and s: "?s = fresh_shm\<lparr>shm_object := Some (shm_write_slot ok_shm_env 42 ?u i d)\<rparr>"
    using shm_put_Some [OF put pos] by metis
  have o: "shm_object ?s = Some (shm_write_slot ok_shm_env 42 ?u i d)" by (simp add: s)
  have g: "global_stats (shm_write_slot ok_shm_env 42 ?u i d) = zero_usage"
    using fresh_shm_ptr d by (simp add: shm_write_slot_def)
  have ok: "fst (shm_init ok_shm_env ?s) = 0" by (simp add: shm_init_def ok_shm_env_def Let_def)
  have v: "proc_view (snd (shm_init ok_shm_env ?s)) = (\<lambda>_. None)"
    using shm_init_erases_table [OF o g ok] by blast
  have "shm_get_ptr (snd (shm_init ok_shm_env ?s)) \<noteq> None"
    by (simp add: shm_init_def ok_shm_env_def Let_def shm_get_ptr_def)
  then have "shm_get_process_resources 42 True (snd (shm_init ok_shm_env ?s)) = (0, Some zero_usage)"
    by (simp add: get_process_view v)
  moreover have "shm_get_process_resources 42 True ?s = (0, Some ?u)"
    using shm_table.put_view [OF fresh_shm_wf pos put] shm_put_ptr [OF put pos]
    by (simp add: get_process_view)
  ultimately show ?thesis by (simp add: Let_def)
qed

end
