(* ===== verification/Spin_Locks.thy ===== *)
theory Spin_Locks
  imports Prelude
begin

text \<open>
  The spin locks that guard the shared objects, as interleavings of any number of threads (of
  any processes) over one lock word: the compare-and-swap lock of \<open>src/shm/shared_memory.c\<close>
  and the test-and-set lock of \<open>src/shm/shared_memory_tenant.c\<close> (the same code guards
  the cache entries of \<open>src/performance_optimizer.c\<close>).

  One atomic attempt at the lock word is a function from the word to (acquired, new word); the
  contract of an attempt is the locale \<open>lock_word\<close>, the interleavings are the step
  relation \<open>lock_step\<close>, and mutual exclusion is proved once in the locale.
\<close>

section \<open>The two locks\<close>

text \<open>\<open>__atomic_compare_exchange_n(&lock, &expected, 1, ...)\<close> with \<open>expected = 0\<close>.\<close>

definition shm_lock_try :: "i32 \<Rightarrow> bool \<times> i32" where
  "shm_lock_try w = (if w = 0 then (True, 1) else (False, w))"

text \<open>\<open>__atomic_store_n(&lock, 0, __ATOMIC_RELEASE)\<close>.\<close>

definition shm_lock_release :: "i32 \<Rightarrow> i32" where
  "shm_lock_release w = 0"

text \<open>\<open>__sync_lock_test_and_set(lock, 1)\<close>: writes 1 and yields the old word.\<close>

definition spin_lock_try :: "i32 \<Rightarrow> bool \<times> i32" where
  "spin_lock_try w = (w = 0, 1)"

definition spin_lock_release :: "i32 \<Rightarrow> i32" where
  "spin_lock_release w = 0"

section \<open>Interleavings\<close>

text \<open>
  Where a thread is: outside, about to make an attempt, in the read-only inner loop
  \<open>while (*lock)\<close> that the test-and-set lock enters after a failed attempt, or in the
  critical section.
\<close>

datatype lock_pc = Outside | Trying | Spinning | Inside

record lock_sys =
  lock_word_of :: i32
  thread_pc :: "nat \<Rightarrow> lock_pc"

definition lock_init :: lock_sys where
  "lock_init = \<lparr>lock_word_of = 0, thread_pc = (\<lambda>_. Outside)\<rparr>"

inductive lock_step :: "(i32 \<Rightarrow> bool \<times> i32) \<Rightarrow> lock_pc \<Rightarrow> (i32 \<Rightarrow> i32) \<Rightarrow> lock_sys \<Rightarrow> lock_sys \<Rightarrow> bool"
  for attempt :: "i32 \<Rightarrow> bool \<times> i32" and on_fail :: lock_pc and release :: "i32 \<Rightarrow> i32" where
  request: "thread_pc s t = Outside \<Longrightarrow>
     lock_step attempt on_fail release s (s\<lparr>thread_pc := (thread_pc s)(t := Trying)\<rparr>)"
| acquire: "thread_pc s t = Trying \<Longrightarrow> attempt (lock_word_of s) = (True, w) \<Longrightarrow>
     lock_step attempt on_fail release s
       (s\<lparr>lock_word_of := w, thread_pc := (thread_pc s)(t := Inside)\<rparr>)"
| failed: "thread_pc s t = Trying \<Longrightarrow> attempt (lock_word_of s) = (False, w) \<Longrightarrow>
     lock_step attempt on_fail release s
       (s\<lparr>lock_word_of := w, thread_pc := (thread_pc s)(t := on_fail)\<rparr>)"
| retry: "thread_pc s t = Spinning \<Longrightarrow> lock_word_of s = 0 \<Longrightarrow>
     lock_step attempt on_fail release s (s\<lparr>thread_pc := (thread_pc s)(t := Trying)\<rparr>)"
| unlock: "thread_pc s t = Inside \<Longrightarrow>
     lock_step attempt on_fail release s
       (s\<lparr>lock_word_of := release (lock_word_of s), thread_pc := (thread_pc s)(t := Outside)\<rparr>)"

inductive lock_reach :: "(i32 \<Rightarrow> bool \<times> i32) \<Rightarrow> lock_pc \<Rightarrow> (i32 \<Rightarrow> i32) \<Rightarrow> lock_sys \<Rightarrow> bool"
  for attempt :: "i32 \<Rightarrow> bool \<times> i32" and on_fail :: lock_pc and release :: "i32 \<Rightarrow> i32" where
  start: "lock_reach attempt on_fail release lock_init"
| step: "lock_reach attempt on_fail release s \<Longrightarrow> lock_step attempt on_fail release s s' \<Longrightarrow>
     lock_reach attempt on_fail release s'"

text \<open>The invariant: the word says whether some thread is inside, and at most one is.\<close>

definition lock_inv :: "lock_sys \<Rightarrow> bool" where
  "lock_inv s \<longleftrightarrow>
     (lock_word_of s \<noteq> 0 \<longleftrightarrow> (\<exists>t. thread_pc s t = Inside)) \<and>
     (\<forall>t u. thread_pc s t = Inside \<longrightarrow> thread_pc s u = Inside \<longrightarrow> t = u)"

lemma lock_inv_init: "lock_inv lock_init"
  by (simp add: lock_inv_def lock_init_def)

lemma lock_inv_cong:
  "lock_inv s \<Longrightarrow> (lock_word_of s' = 0) = (lock_word_of s = 0) \<Longrightarrow>
   (\<And>u. (thread_pc s' u = Inside) = (thread_pc s u = Inside)) \<Longrightarrow> lock_inv s'"
  by (simp add: lock_inv_def)

section \<open>The contract of a lock word\<close>

locale lock_word =
  fixes attempt :: "i32 \<Rightarrow> bool \<times> i32" and on_fail :: lock_pc and release :: "i32 \<Rightarrow> i32"
  assumes try_acquires: "fst (attempt w) \<longleftrightarrow> w = 0"
    and try_locks: "snd (attempt w) \<noteq> 0"
    and release_frees: "release w = 0"
    and fail_outside: "on_fail \<noteq> Inside"
begin

lemma step_inv: "lock_step attempt on_fail release s s' \<Longrightarrow> lock_inv s \<Longrightarrow> lock_inv s'"
proof (induction rule: lock_step.induct)
  case (request s t)
  then show ?case by - (rule lock_inv_cong [of s], auto)
next
  case (acquire s t w)
  then have free: "lock_word_of s = 0" using try_acquires [of "lock_word_of s"] by simp
  have "w \<noteq> 0" using try_locks [of "lock_word_of s"] acquire(2) by simp
  moreover have "thread_pc s u \<noteq> Inside" for u
    using free acquire.prems by (auto simp: lock_inv_def)
  ultimately show ?case by (simp add: lock_inv_def)
next
  case (failed s t w)
  have "lock_word_of s \<noteq> 0" "w \<noteq> 0"
    using try_acquires [of "lock_word_of s"] try_locks [of "lock_word_of s"] failed(2) by auto
  with failed(1,3) fail_outside show ?case by - (rule lock_inv_cong [of s], auto)
next
  case (retry s t)
  then show ?case by - (rule lock_inv_cong [of s], auto)
next
  case (unlock s t)
  then show ?case by (auto simp: lock_inv_def release_frees)
qed

lemma reach_inv: "lock_reach attempt on_fail release s \<Longrightarrow> lock_inv s"
  by (induction rule: lock_reach.induct) (auto intro: lock_inv_init step_inv)

lemma exclusion:
  "lock_reach attempt on_fail release s \<Longrightarrow> thread_pc s t = Inside \<Longrightarrow> thread_pc s u = Inside \<Longrightarrow> t = u"
  by (drule reach_inv) (auto simp: lock_inv_def)

text \<open>No lost lock: when nobody is inside, a thread that tries gets in at its next step.\<close>

lemma free_lock_taken:
  assumes "lock_reach attempt on_fail release s" "thread_pc s t = Trying" "\<forall>u. thread_pc s u \<noteq> Inside"
  shows "\<exists>s'. lock_step attempt on_fail release s s' \<and> thread_pc s' t = Inside"
proof -
  have "lock_word_of s = 0" using reach_inv [OF assms(1)] assms(3) by (auto simp: lock_inv_def)
  then obtain w where "attempt (lock_word_of s) = (True, w)"
    using try_acquires [of "lock_word_of s"] by (cases "attempt (lock_word_of s)") auto
  from lock_step.acquire [of s t attempt w on_fail release, OF assms(2) this]
  show ?thesis by (intro exI conjI) (assumption, simp)
qed

end

interpretation shm_spin: lock_word shm_lock_try Trying shm_lock_release
  by unfold_locales (auto simp: shm_lock_try_def shm_lock_release_def)

interpretation tenant_spin: lock_word spin_lock_try Spinning spin_lock_release
  by unfold_locales (auto simp: spin_lock_try_def spin_lock_release_def)

section \<open>Properties\<close>

text \<open>
  C38 (mutual exclusion). In every interleaving of any number of threads, at most one thread
  holds the compare-and-swap lock of the process table, and at most one holds the test-and-set
  lock of the tenant table; and a lock that nobody holds is taken by the next attempt.
\<close>

theorem spin_locks_exclusive:
  assumes "lock_reach shm_lock_try Trying shm_lock_release s
         \<or> lock_reach spin_lock_try Spinning spin_lock_release s"
  shows "(thread_pc s t = Inside \<longrightarrow> thread_pc s u = Inside \<longrightarrow> t = u)
    \<and> (thread_pc s t = Trying \<longrightarrow> (\<forall>u. thread_pc s u \<noteq> Inside) \<longrightarrow>
         fst (shm_lock_try (lock_word_of s)) \<and> fst (spin_lock_try (lock_word_of s)))"
proof -
  have inv: "lock_inv s" using assms shm_spin.reach_inv tenant_spin.reach_inv by blast
  then have "(\<forall>u. thread_pc s u \<noteq> Inside) \<Longrightarrow> lock_word_of s = 0" by (auto simp: lock_inv_def)
  with inv show ?thesis
    by (auto simp: lock_inv_def shm_spin.try_acquires tenant_spin.try_acquires)
qed

text \<open>Thread 1 holds the lock while thread 2 waits in the inner loop.\<close>

lemma contended_state:
  "lock_reach spin_lock_try Spinning spin_lock_release
     \<lparr>lock_word_of = 1, thread_pc = (\<lambda>_. Outside)(1 := Inside, 2 := Spinning)\<rparr>"
proof -
  let ?R = "lock_reach spin_lock_try Spinning spin_lock_release"
  have a: "?R \<lparr>lock_word_of = 0, thread_pc = (\<lambda>_. Outside)(1 := Trying)\<rparr>"
    using lock_reach.step [OF lock_reach.start lock_step.request [of lock_init 1]]
    by (simp add: lock_init_def)
  have b: "?R \<lparr>lock_word_of = 0, thread_pc = (\<lambda>_. Outside)(1 := Trying, 2 := Trying)\<rparr>"
    using lock_reach.step [OF a lock_step.request [of _ 2]] by simp
  have c: "?R \<lparr>lock_word_of = 1, thread_pc = (\<lambda>_. Outside)(1 := Inside, 2 := Trying)\<rparr>"
    using lock_reach.step [OF b lock_step.acquire [of _ 1]]
    by (simp add: spin_lock_try_def fun_upd_twist)
  show ?thesis
    using lock_reach.step [OF c lock_step.failed [of _ 2]] by (simp add: spin_lock_try_def)
qed

theorem spin_locks_exclusive_witness:
  "let s = \<lparr>lock_word_of = 1, thread_pc = (\<lambda>_. Outside)(1 := Inside, 2 := Spinning)\<rparr>
   in thread_pc s 1 = Inside \<and> thread_pc s 2 \<noteq> Inside"
  using spin_locks_exclusive [OF disjI2 [OF contended_state], of 1 2] by simp

end
