(* ===== verification/Tenant_Shm.thy ===== *)
theory Tenant_Shm
  imports Shm Spin_Locks
begin

text \<open>
  The tenant table in shared memory (\<open>src/shm/shared_memory_tenant.c\<close> and its header):
  tenants with their quota, usage and process list, the mapping from processes to tenants, and
  every operation of the interface.

  As in the theory of the process table, an operation takes what the operating system answers
  (\<open>tenant_env\<close>). \<open>tenv_time i\<close> is the reading of \<open>time(NULL)\<close> at the
  \<open>i\<close>-th call site of the operation; site 0 is the initialisation and site 9 the unlock.
  A call site is reached at most once per operation.
\<close>

section \<open>Data\<close>

definition MAX_TENANTS :: nat where
  "MAX_TENANTS = 64"

definition TENANT_NAME_MAX :: nat where
  "TENANT_NAME_MAX = 64"

datatype tenant_status = TENANT_STATUS_INACTIVE | TENANT_STATUS_ACTIVE | TENANT_STATUS_SUSPENDED

record tenant_quota =
  max_qp_per_tenant :: u32
  max_mr_per_tenant :: u32
  max_memory_per_tenant :: u64
  max_cq_per_tenant :: u32
  max_pd_per_tenant :: u32

record tenant_resource_usage =
  tu_qp_count :: i32
  tu_mr_count :: i32
  tu_cq_count :: i32
  tu_pd_count :: i32
  tu_memory_used :: u64
  total_qp_creates :: u64
  total_qp_destroys :: u64
  total_mr_regs :: u64
  total_mr_deregs :: u64

record tenant_info =
  ti_tenant_id :: u32
  ti_tenant_name :: string
  ti_status :: tenant_status
  ti_quota :: tenant_quota
  ti_usage :: tenant_resource_usage
  ti_created_at :: u64
  ti_last_active_at :: u64
  ti_process_count :: u32
  ti_processes :: "pid_t list"

record pid_tenant_mapping =
  pm_pid :: pid_t
  pm_tenant_id :: u32
  pm_mapped_at :: u64

record tenant_shared_memory =
  tenants :: "tenant_info list"
  pid_mappings :: "pid_tenant_mapping list"
  active_tenant_count :: u32
  total_process_count :: u32
  tenant_lock_word :: i32
  tenant_version :: u64
  tenant_last_update_time :: u64

record tenant_state =
  g_tenant_shm_fd :: int
  g_tenant_shm_mapped :: bool
  tenant_object :: "tenant_shared_memory option"

record tenant_env =
  tenv_shm_open :: int
  tenv_ftruncate :: int
  tenv_mmap_ok :: bool
  tenv_fstat_full :: bool \<comment> \<open>fstat succeeds and reports the size of the structure\<close>
  tenv_unlink_ok :: bool
  tenv_time :: "nat \<Rightarrow> u64"

definition zero_tenant_usage :: tenant_resource_usage where
  "zero_tenant_usage = \<lparr>tu_qp_count = 0, tu_mr_count = 0, tu_cq_count = 0, tu_pd_count = 0,
     tu_memory_used = 0, total_qp_creates = 0, total_qp_destroys = 0, total_mr_regs = 0,
     total_mr_deregs = 0\<rparr>"

definition zero_tenant :: tenant_info where
  "zero_tenant = \<lparr>ti_tenant_id = 0, ti_tenant_name = [], ti_status = TENANT_STATUS_INACTIVE,
     ti_quota = \<lparr>max_qp_per_tenant = 0, max_mr_per_tenant = 0, max_memory_per_tenant = 0,
                 max_cq_per_tenant = 0, max_pd_per_tenant = 0\<rparr>,
     ti_usage = zero_tenant_usage, ti_created_at = 0, ti_last_active_at = 0,
     ti_process_count = 0, ti_processes = replicate MAX_PROCESSES 0\<rparr>"

definition zero_mapping :: pid_tenant_mapping where
  "zero_mapping = \<lparr>pm_pid = 0, pm_tenant_id = 0, pm_mapped_at = 0\<rparr>"

definition zero_tenant_data :: tenant_shared_memory where
  "zero_tenant_data = \<lparr>tenants = replicate MAX_TENANTS zero_tenant,
     pid_mappings = replicate MAX_PROCESSES zero_mapping,
     active_tenant_count = 0, total_process_count = 0, tenant_lock_word = 0,
     tenant_version = 0, tenant_last_update_time = 0\<rparr>"

section \<open>Attaching the object\<close>

definition tenant_shm_init :: "tenant_env \<Rightarrow> tenant_state \<Rightarrow> int \<times> tenant_state" where
  "tenant_shm_init env s =
     (if g_tenant_shm_mapped s then (0, s)
      else if tenv_shm_open env < 0 then (-1, s\<lparr>g_tenant_shm_fd := tenv_shm_open env\<rparr>)
      else
        let d = (case tenant_object s of None \<Rightarrow> zero_tenant_data | Some d \<Rightarrow> d);
            s = s\<lparr>g_tenant_shm_fd := tenv_shm_open env, tenant_object := Some d\<rparr>
        in if tenv_ftruncate env < 0 then (-1, s\<lparr>g_tenant_shm_fd := -1\<rparr>)
           else if \<not> tenv_mmap_ok env
             then (-1, s\<lparr>g_tenant_shm_fd := -1, g_tenant_shm_mapped := False\<rparr>)
           else
             let d = (if tenv_fstat_full env \<and> tenant_version d = 0
                      then zero_tenant_data\<lparr>tenant_version := 1,
                             tenant_last_update_time := tenv_time env 0\<rparr>
                      else d)
             in (0, s\<lparr>g_tenant_shm_mapped := True, tenant_object := Some d\<rparr>))"

definition tenant_shm_destroy :: "tenant_env \<Rightarrow> tenant_state \<Rightarrow> int \<times> tenant_state" where
  "tenant_shm_destroy env s =
     (if \<not> g_tenant_shm_mapped s then (0, s)
      else
        let s = s\<lparr>g_tenant_shm_mapped := False\<rparr>;
            s = (if g_tenant_shm_fd s \<ge> 0 then s\<lparr>g_tenant_shm_fd := -1\<rparr> else s);
            s = (if tenv_unlink_ok env then s\<lparr>tenant_object := None\<rparr> else s)
        in (0, s))"

definition tenant_shm_get_ptr ::
    "tenant_env \<Rightarrow> tenant_state \<Rightarrow> tenant_shared_memory option \<times> tenant_state" where
  "tenant_shm_get_ptr env s =
     (let s = (if \<not> g_tenant_shm_mapped s then snd (tenant_shm_init env s) else s)
      in (if g_tenant_shm_mapped s then tenant_object s else None, s))"

definition tenant_shm_lock :: "tenant_shared_memory \<Rightarrow> tenant_shared_memory" where
  "tenant_shm_lock d = d\<lparr>tenant_lock_word := snd (spin_lock_try 0)\<rparr>"

definition tenant_shm_unlock :: "u64 \<Rightarrow> tenant_shared_memory \<Rightarrow> tenant_shared_memory" where
  "tenant_shm_unlock now d =
     d\<lparr>tenant_lock_word := spin_lock_release (tenant_lock_word d),
       tenant_version := tenant_version d + 1,
       tenant_last_update_time := now\<rparr>"

text \<open>
  Every operation attaches the object if needed, returns \<open>err\<close> when it cannot, and
  otherwise runs its body between lock and unlock; each early return of a body unlocks first.
\<close>

definition with_tenant_shm ::
    "tenant_env \<Rightarrow> 'a \<Rightarrow> (tenant_shared_memory \<Rightarrow> 'a \<times> tenant_shared_memory) \<Rightarrow> tenant_state
     \<Rightarrow> 'a \<times> tenant_state" where
  "with_tenant_shm env err body s =
     (case tenant_shm_get_ptr env s of
        (None, s) \<Rightarrow> (err, s)
      | (Some d, s) \<Rightarrow>
          (case body (tenant_shm_lock d) of
             (r, d) \<Rightarrow> (r, s\<lparr>tenant_object := Some (tenant_shm_unlock (tenv_time env 9) d)\<rparr>)))"

text \<open>\<open>tenants[i]\<close> as a pointer: update the entry in place.\<close>

definition upd_tenant ::
    "u32 \<Rightarrow> (tenant_info \<Rightarrow> tenant_info) \<Rightarrow> tenant_shared_memory \<Rightarrow> tenant_shared_memory" where
  "upd_tenant tid f d = d\<lparr>tenants := (tenants d)[unat tid := f (tenants d ! unat tid)]\<rparr>"

definition tenant_at :: "tenant_shared_memory \<Rightarrow> u32 \<Rightarrow> tenant_info" where
  "tenant_at d tid = tenants d ! unat tid"

section \<open>Tenants\<close>

definition default_tenant_quota :: tenant_quota where
  "default_tenant_quota = \<lparr>max_qp_per_tenant = 100, max_mr_per_tenant = 1000,
     max_memory_per_tenant = 1024 * 1024 * 1024, max_cq_per_tenant = 100,
     max_pd_per_tenant = 100\<rparr>"

definition tenant_create ::
    "tenant_env \<Rightarrow> u32 \<Rightarrow> string option \<Rightarrow> tenant_quota option \<Rightarrow> tenant_state \<Rightarrow> int \<times> tenant_state"
  where
  "tenant_create env tenant_id name quota s =
     (if tenant_id = 0 \<or> unat tenant_id \<ge> MAX_TENANTS then (-1, s)
      else with_tenant_shm env (-1) (\<lambda>d.
        if ti_status (tenant_at d tenant_id) \<noteq> TENANT_STATUS_INACTIVE then (-1, d)
        else
          let t = zero_tenant\<lparr>
                ti_tenant_id := tenant_id,
                ti_tenant_name := take (TENANT_NAME_MAX - 1)
                  (case name of Some n \<Rightarrow> n | None \<Rightarrow> ''unnamed''),
                ti_status := TENANT_STATUS_ACTIVE,
                ti_created_at := tenv_time env 1,
                ti_last_active_at := tenv_time env 1,
                ti_quota := (case quota of Some q \<Rightarrow> q | None \<Rightarrow> default_tenant_quota)\<rparr>;
              d = upd_tenant tenant_id (\<lambda>_. t) d
          in (0, d\<lparr>active_tenant_count := active_tenant_count d + 1\<rparr>)) s)"

text \<open>The loop of \<open>tenant_delete\<close> over the mappings, with the process counter.\<close>

fun clear_mappings ::
    "u32 \<Rightarrow> pid_tenant_mapping list \<Rightarrow> u32 \<Rightarrow> pid_tenant_mapping list \<times> u32" where
  "clear_mappings tid [] tot = ([], tot)"
| "clear_mappings tid (m # ms) tot =
     (if pm_tenant_id m = tid
      then (case clear_mappings tid ms (tot - 1) of
              (ms', tot') \<Rightarrow> (m\<lparr>pm_pid := 0, pm_tenant_id := 0\<rparr> # ms', tot'))
      else (case clear_mappings tid ms tot of (ms', tot') \<Rightarrow> (m # ms', tot')))"

definition tenant_delete :: "tenant_env \<Rightarrow> u32 \<Rightarrow> tenant_state \<Rightarrow> int \<times> tenant_state" where
  "tenant_delete env tenant_id s =
     (if tenant_id = 0 \<or> unat tenant_id \<ge> MAX_TENANTS then (-1, s)
      else with_tenant_shm env (-1) (\<lambda>d.
        if ti_status (tenant_at d tenant_id) = TENANT_STATUS_INACTIVE then (-1, d)
        else
          let (ms, total) = clear_mappings tenant_id (pid_mappings d) (total_process_count d);
              d = d\<lparr>pid_mappings := ms, total_process_count := total\<rparr>;
              d = upd_tenant tenant_id
                    (\<lambda>t. t\<lparr>ti_status := TENANT_STATUS_INACTIVE, ti_process_count := 0\<rparr>) d
          in (0, d\<lparr>active_tenant_count := active_tenant_count d - 1\<rparr>)) s)"

text \<open>\<open>tenant_get_info\<close> copies the entry out also when it then returns -1.\<close>

definition tenant_get_info ::
    "tenant_env \<Rightarrow> u32 \<Rightarrow> bool \<Rightarrow> tenant_state \<Rightarrow> (int \<times> tenant_info option) \<times> tenant_state" where
  "tenant_get_info env tenant_id has_info s =
     (if \<not> has_info \<or> unat tenant_id \<ge> MAX_TENANTS then ((-1, None), s)
      else with_tenant_shm env (-1, None) (\<lambda>d.
        ((if ti_status (tenant_at d tenant_id) \<noteq> TENANT_STATUS_INACTIVE then 0 else -1,
          Some (tenant_at d tenant_id)), d)) s)"

definition tenant_set_status ::
    "tenant_env \<Rightarrow> u32 \<Rightarrow> tenant_status \<Rightarrow> tenant_state \<Rightarrow> int \<times> tenant_state" where
  "tenant_set_status env tenant_id status s =
     (if unat tenant_id \<ge> MAX_TENANTS then (-1, s)
      else with_tenant_shm env (-1) (\<lambda>d.
        if ti_status (tenant_at d tenant_id) = TENANT_STATUS_INACTIVE then (-1, d)
        else (0, upd_tenant tenant_id
                   (\<lambda>t. t\<lparr>ti_status := status, ti_last_active_at := tenv_time env 1\<rparr>) d)) s)"

definition tenant_update_quota ::
    "tenant_env \<Rightarrow> u32 \<Rightarrow> tenant_quota option \<Rightarrow> tenant_state \<Rightarrow> int \<times> tenant_state" where
  "tenant_update_quota env tenant_id quota s =
     (case quota of
        None \<Rightarrow> (-1, s)
      | Some q \<Rightarrow>
          if unat tenant_id \<ge> MAX_TENANTS then (-1, s)
          else with_tenant_shm env (-1) (\<lambda>d.
            if ti_status (tenant_at d tenant_id) = TENANT_STATUS_INACTIVE then (-1, d)
            else (0, upd_tenant tenant_id
                       (\<lambda>t. t\<lparr>ti_quota := q, ti_last_active_at := tenv_time env 1\<rparr>) d)) s)"

section \<open>Processes\<close>

text \<open>The first free entry of the process list takes the process; a full list is left alone.\<close>

definition add_process :: "pid_t \<Rightarrow> pid_t list \<Rightarrow> pid_t list" where
  "add_process pid ps = (case find_slot (\<lambda>p. p = 0) ps of None \<Rightarrow> ps | Some i \<Rightarrow> ps[i := pid])"

definition remove_process :: "pid_t \<Rightarrow> pid_t list \<Rightarrow> pid_t list" where
  "remove_process pid ps = (case find_slot (\<lambda>p. p = pid) ps of None \<Rightarrow> ps | Some i \<Rightarrow> ps[i := 0])"

definition tenant_bind_process :: "tenant_env \<Rightarrow> pid_t \<Rightarrow> u32 \<Rightarrow> tenant_state \<Rightarrow> int \<times> tenant_state"
  where
  "tenant_bind_process env pid tenant_id s =
     (if unat tenant_id \<ge> MAX_TENANTS then (-1, s)
      else with_tenant_shm env (-1) (\<lambda>d.
        if ti_status (tenant_at d tenant_id) \<noteq> TENANT_STATUS_ACTIVE then (-1, d)
        else
          let (found, empty_slot) =
                scan_slots (\<lambda>m. pm_pid m = pid) (\<lambda>m. pm_pid m = 0) (pid_mappings d) 0 None
          in case (if found \<noteq> None then found else empty_slot) of
               None \<Rightarrow> (-1, d)
             | Some idx \<Rightarrow>
                 let d = (if found = None
                          then (upd_tenant tenant_id
                                  (\<lambda>t. t\<lparr>ti_process_count := ti_process_count t + 1\<rparr>) d)
                               \<lparr>total_process_count := total_process_count d + 1\<rparr>
                          else d);
                     d = d\<lparr>pid_mappings := (pid_mappings d)
                            [idx := \<lparr>pm_pid = pid, pm_tenant_id = tenant_id,
                                     pm_mapped_at = tenv_time env 1\<rparr>]\<rparr>;
                     d = (if found = None
                          then upd_tenant tenant_id
                                 (\<lambda>t. t\<lparr>ti_processes := add_process pid (ti_processes t)\<rparr>) d
                          else d);
                     d = upd_tenant tenant_id (\<lambda>t. t\<lparr>ti_last_active_at := tenv_time env 2\<rparr>) d
                 in (0, d)) s)"

definition tenant_unbind_process :: "tenant_env \<Rightarrow> pid_t \<Rightarrow> tenant_state \<Rightarrow> int \<times> tenant_state" where
  "tenant_unbind_process env pid s =
     with_tenant_shm env (-1) (\<lambda>d.
       case find_slot (\<lambda>m. pm_pid m = pid) (pid_mappings d) of
         None \<Rightarrow> (-1, d)
       | Some i \<Rightarrow>
           let tenant_id = pm_tenant_id (pid_mappings d ! i);
               d = upd_tenant tenant_id
                     (\<lambda>t. t\<lparr>ti_processes := remove_process pid (ti_processes t)\<rparr>) d;
               d = (if ti_process_count (tenant_at d tenant_id) > 0
                    then upd_tenant tenant_id
                           (\<lambda>t. t\<lparr>ti_process_count := ti_process_count t - 1\<rparr>) d
                    else d);
               d = d\<lparr>pid_mappings := (pid_mappings d)
                      [i := (pid_mappings d ! i)\<lparr>pm_pid := 0, pm_tenant_id := 0\<rparr>]\<rparr>;
               d = (if total_process_count d > 0
                    then d\<lparr>total_process_count := total_process_count d - 1\<rparr> else d)
           in (0, d)) s"

definition tenant_get_process_tenant ::
    "tenant_env \<Rightarrow> pid_t \<Rightarrow> bool \<Rightarrow> tenant_state \<Rightarrow> (int \<times> u32 option) \<times> tenant_state" where
  "tenant_get_process_tenant env pid has_out s =
     (if \<not> has_out then ((-1, None), s)
      else with_tenant_shm env (-1, Some 0) (\<lambda>d.
        case find_slot (\<lambda>m. pm_pid m = pid) (pid_mappings d) of
          Some i \<Rightarrow> ((0, Some (pm_tenant_id (pid_mappings d ! i))), d)
        | None \<Rightarrow> ((-1, Some 0), d)) s)"

section \<open>Usage and limits\<close>

definition tenant_update_resource_usage ::
    "tenant_env \<Rightarrow> u32 \<Rightarrow> tenant_resource_usage option \<Rightarrow> tenant_state \<Rightarrow> int \<times> tenant_state" where
  "tenant_update_resource_usage env tenant_id usage s =
     (case usage of
        None \<Rightarrow> (-1, s)
      | Some u \<Rightarrow>
          if unat tenant_id \<ge> MAX_TENANTS then (-1, s)
          else with_tenant_shm env (-1) (\<lambda>d.
            if ti_status (tenant_at d tenant_id) \<noteq> TENANT_STATUS_ACTIVE then (-1, d)
            else (0, upd_tenant tenant_id
                       (\<lambda>t. t\<lparr>ti_usage := u, ti_last_active_at := tenv_time env 1\<rparr>) d)) s)"

definition tenant_get_resource_usage ::
    "tenant_env \<Rightarrow> u32 \<Rightarrow> bool \<Rightarrow> tenant_state \<Rightarrow> (int \<times> tenant_resource_usage option) \<times> tenant_state"
  where
  "tenant_get_resource_usage env tenant_id has_out s =
     (if \<not> has_out \<or> unat tenant_id \<ge> MAX_TENANTS then ((-1, None), s)
      else with_tenant_shm env (-1, None) (\<lambda>d.
        if ti_status (tenant_at d tenant_id) \<noteq> TENANT_STATUS_ACTIVE then ((-1, None), d)
        else ((0, Some (ti_usage (tenant_at d tenant_id))), d)) s)"

text \<open>
  The comparison of \<open>tenant_check_resource_limit\<close>. The \<open>int\<close> counters are
  converted to \<open>uint32_t\<close> and the sum is taken at 32 bits, the memory sum at 64 bits.
\<close>

definition limit_exceeded :: "tenant_info \<Rightarrow> i32 \<Rightarrow> u32 \<Rightarrow> bool" where
  "limit_exceeded t resource_type requested =
     (if resource_type = 0
        then tu_qp_count (ti_usage t) + requested > max_qp_per_tenant (ti_quota t)
      else if resource_type = 1
        then tu_mr_count (ti_usage t) + requested > max_mr_per_tenant (ti_quota t)
      else if resource_type = 2
        then tu_memory_used (ti_usage t) + ucast requested > max_memory_per_tenant (ti_quota t)
      else if resource_type = 3
        then tu_cq_count (ti_usage t) + requested > max_cq_per_tenant (ti_quota t)
      else if resource_type = 4
        then tu_pd_count (ti_usage t) + requested > max_pd_per_tenant (ti_quota t)
      else False)"

definition tenant_check_resource_limit ::
    "tenant_env \<Rightarrow> u32 \<Rightarrow> i32 \<Rightarrow> u32 \<Rightarrow> tenant_state \<Rightarrow> bool \<times> tenant_state" where
  "tenant_check_resource_limit env tenant_id resource_type requested s =
     (if unat tenant_id \<ge> MAX_TENANTS then (False, s)
      else with_tenant_shm env False (\<lambda>d.
        if ti_status (tenant_at d tenant_id) \<noteq> TENANT_STATUS_ACTIVE then (True, d)
        else (limit_exceeded (tenant_at d tenant_id) resource_type requested, d)) s)"

text \<open>The entries the loop copies out, stopping at \<open>max_count\<close>.\<close>

fun active_list :: "tenant_info list \<Rightarrow> nat \<Rightarrow> tenant_info list" where
  "active_list [] room = []"
| "active_list (t # ts) room =
     (if room = 0 then []
      else if ti_status t = TENANT_STATUS_ACTIVE then t # active_list ts (room - 1)
      else active_list ts room)"

definition tenant_get_active_list ::
    "tenant_env \<Rightarrow> bool \<Rightarrow> i32 \<Rightarrow> tenant_state \<Rightarrow> (int \<times> tenant_info list) \<times> tenant_state" where
  "tenant_get_active_list env has_out max_count s =
     (if \<not> has_out \<or> sint max_count \<le> 0 then ((-1, []), s)
      else with_tenant_shm env (-1, []) (\<lambda>d.
        let l = active_list (tenants d) (nat (sint max_count))
        in ((int (length l), l), d)) s)"

definition tenant_get_statistics ::
    "tenant_env \<Rightarrow> u32 \<Rightarrow> bool \<Rightarrow> tenant_state \<Rightarrow> (int \<times> (u64 \<times> u64) option) \<times> tenant_state" where
  "tenant_get_statistics env tenant_id has_out s =
     (if \<not> has_out \<or> unat tenant_id \<ge> MAX_TENANTS then ((-1, None), s)
      else with_tenant_shm env (-1, None) (\<lambda>d.
        if ti_status (tenant_at d tenant_id) \<noteq> TENANT_STATUS_ACTIVE then ((-1, None), d)
        else ((0, Some (total_qp_creates (ti_usage (tenant_at d tenant_id)),
                        total_mr_regs (ti_usage (tenant_at d tenant_id)))), d)) s)"

section \<open>Invariants\<close>

text \<open>
  Memory safety of the table: the arrays have their declared size, every name fits its field with
  the NUL that ends it, every tenant id stored in a mapping is an index of the tenant array, and no
  process has two mappings.
\<close>

definition entry_typed :: "tenant_info \<Rightarrow> bool" where
  "entry_typed t \<longleftrightarrow> length (ti_processes t) = MAX_PROCESSES \<and> length (ti_tenant_name t) < TENANT_NAME_MAX"

declare entry_typed_def [simp]

definition tenant_safe :: "tenant_shared_memory \<Rightarrow> bool" where
  "tenant_safe d \<longleftrightarrow>
     length (tenants d) = MAX_TENANTS \<and> (\<forall>t\<in>set (tenants d). entry_typed t)
     \<and> length (pid_mappings d) = MAX_PROCESSES \<and> keys_unique pm_pid (pid_mappings d)
     \<and> (\<forall>m\<in>set (pid_mappings d). unat (pm_tenant_id m) < MAX_TENANTS)"

text \<open>
  Exactness of the counters: tenant 0 is never in use, a free mapping belongs to tenant 0, a
  bound process belongs to a tenant in use, and the two counters are the number of bound
  processes and of tenants in use.
\<close>

definition tenant_exact :: "tenant_shared_memory \<Rightarrow> bool" where
  "tenant_exact d \<longleftrightarrow>
     tenant_safe d \<and> ti_status (tenant_at d 0) = TENANT_STATUS_INACTIVE
     \<and> (\<forall>m\<in>set (pid_mappings d). pm_pid m = 0 \<longrightarrow> pm_tenant_id m = 0)
     \<and> (\<forall>m\<in>set (pid_mappings d). pm_pid m \<noteq> 0 \<longrightarrow>
          ti_status (tenant_at d (pm_tenant_id m)) \<noteq> TENANT_STATUS_INACTIVE)
     \<and> total_process_count d = of_nat (count_slots (\<lambda>m. pm_pid m \<noteq> 0) (pid_mappings d))
     \<and> active_tenant_count d
         = of_nat (count_slots (\<lambda>t. ti_status t \<noteq> TENANT_STATUS_INACTIVE) (tenants d))"

text \<open>An invariant of the shared data, lifted to the state of a process.\<close>

definition tenant_inv :: "(tenant_shared_memory \<Rightarrow> bool) \<Rightarrow> tenant_state \<Rightarrow> bool" where
  "tenant_inv P s \<longleftrightarrow>
     (g_tenant_shm_mapped s \<longrightarrow> tenant_object s \<noteq> None) \<and> (\<forall>d. tenant_object s = Some d \<longrightarrow> P d)"

text \<open>
  The contract of a data invariant: a fresh object has it, and the header fields (lock, version,
  time stamp) do not matter. Then every locked operation keeps it when its body does.
\<close>

locale tenant_invariant =
  fixes P :: "tenant_shared_memory \<Rightarrow> bool"
  assumes fresh: "P (zero_tenant_data\<lparr>tenant_version := v, tenant_last_update_time := t\<rparr>)"
    and header: "P d \<Longrightarrow> P (d\<lparr>tenant_lock_word := w, tenant_version := v, tenant_last_update_time := t\<rparr>)"
begin

lemma zero_data: "P zero_tenant_data"
proof -
  have "zero_tenant_data\<lparr>tenant_version := 0, tenant_last_update_time := 0\<rparr> = zero_tenant_data"
    by (simp add: zero_tenant_data_def)
  with fresh [of 0 0] show ?thesis by simp
qed

lemma init_inv: "tenant_inv P s \<Longrightarrow> tenant_inv P (snd (tenant_shm_init env s))"
  by (auto simp: tenant_inv_def tenant_shm_init_def Let_def zero_data fresh split: option.splits)

lemma destroy_inv: "tenant_inv P s \<Longrightarrow> tenant_inv P (snd (tenant_shm_destroy env s))"
  by (auto simp: tenant_inv_def tenant_shm_destroy_def Let_def)

lemma lock_unlock:
  "P d \<Longrightarrow> P (tenant_shm_lock d)" "P d \<Longrightarrow> P (tenant_shm_unlock now d)"
  using header [where d = d and w = 1 and v = "tenant_version d" and t = "tenant_last_update_time d"]
    header [where d = d]
  by (simp_all add: tenant_shm_lock_def tenant_shm_unlock_def spin_lock_try_def spin_lock_release_def)

lemma get_ptr_inv: "tenant_inv P s \<Longrightarrow> tenant_inv P (snd (tenant_shm_get_ptr env s))"
  using init_inv by (simp add: tenant_shm_get_ptr_def Let_def)

lemma get_ptr_data:
  "tenant_inv P s \<Longrightarrow> tenant_shm_get_ptr env s = (Some d, s') \<Longrightarrow> P d \<and> g_tenant_shm_mapped s' \<and> tenant_object s' = Some d"
  using get_ptr_inv [of s env] by (auto simp: tenant_shm_get_ptr_def tenant_inv_def Let_def split: if_splits)

lemma with_inv:
  assumes "tenant_inv P s" and body: "\<And>d. P d \<Longrightarrow> P (snd (body d))"
  shows "tenant_inv P (snd (with_tenant_shm env err body s))"
proof (cases "tenant_shm_get_ptr env s")
  case (Pair p s')
  show ?thesis
  proof (cases p)
    case None
    with Pair get_ptr_inv [OF assms(1), of env] show ?thesis by (simp add: with_tenant_shm_def)
  next
    case (Some d)
    with Pair get_ptr_data [OF assms(1)] have "P d" by blast
    then have "P (snd (body (tenant_shm_lock d)))" by (intro body lock_unlock)
    then show ?thesis
      using Pair Some
      by (auto simp: with_tenant_shm_def tenant_inv_def lock_unlock split: prod.splits)
  qed
qed

end

lemma tenant_safe_zero: "tenant_safe (zero_tenant_data\<lparr>tenant_version := v, tenant_last_update_time := t\<rparr>)"
  by (simp add: tenant_safe_def zero_tenant_data_def zero_tenant_def zero_mapping_def TENANT_NAME_MAX_def
      keys_unique_replicate MAX_TENANTS_def)

interpretation safe: tenant_invariant tenant_safe
  by unfold_locales (simp_all add: tenant_safe_zero, simp add: tenant_safe_def)

interpretation exact: tenant_invariant tenant_exact
proof unfold_locales
  show "tenant_exact (zero_tenant_data\<lparr>tenant_version := v, tenant_last_update_time := t\<rparr>)" for v t
    unfolding tenant_exact_def
    by (intro conjI tenant_safe_zero)
       (simp_all add: zero_tenant_data_def zero_tenant_def zero_mapping_def
        tenant_at_def count_slots_replicate MAX_TENANTS_def)
  show "tenant_exact d \<Longrightarrow>
    tenant_exact (d\<lparr>tenant_lock_word := w, tenant_version := v, tenant_last_update_time := t\<rparr>)" for d w v t
    by (simp add: tenant_exact_def tenant_safe_def tenant_at_def)
qed


section \<open>Every operation keeps memory safety\<close>

lemma tenant_at_mem: "tenant_safe d \<Longrightarrow> unat tid < MAX_TENANTS \<Longrightarrow> tenant_at d tid \<in> set (tenants d)"
  by (simp add: tenant_safe_def tenant_at_def)

lemma upd_tenant_safe:
  assumes "tenant_safe d" "unat tid < MAX_TENANTS \<Longrightarrow> entry_typed (f (tenant_at d tid))"
  shows "tenant_safe (upd_tenant tid f d)"
proof (cases "unat tid < MAX_TENANTS")
  case True
  with assms show ?thesis
    by (auto simp: tenant_safe_def upd_tenant_def tenant_at_def dest!: set_update_subset_insert [THEN subsetD])
next
  case False
  with assms show ?thesis by (simp add: tenant_safe_def upd_tenant_def list_update_beyond)
qed

lemma tenant_processes_length [slot_simps]:
  "tenant_safe d \<Longrightarrow> unat tid < MAX_TENANTS \<Longrightarrow> length (ti_processes (tenant_at d tid)) = MAX_PROCESSES"
  using tenant_at_mem by (auto simp: tenant_safe_def)

lemma tenant_at_typed: "tenant_safe d \<Longrightarrow> unat tid < MAX_TENANTS \<Longrightarrow> entry_typed (tenant_at d tid)"
  using tenant_at_mem unfolding tenant_safe_def by blast

lemma upd_tenant_safe_same:
  "tenant_safe d \<Longrightarrow> (\<And>t. entry_typed (f t) = entry_typed t) \<Longrightarrow>
   tenant_safe (upd_tenant tid f d)"
  using tenant_at_typed [of d tid] by (intro upd_tenant_safe) (simp_all del: entry_typed_def)

lemma add_process_length [simp]: "length (add_process pid ps) = length ps"
  by (simp add: add_process_def split: option.splits)

lemma remove_process_length [simp]: "length (remove_process pid ps) = length ps"
  by (simp add: remove_process_def split: option.splits)

lemma tenant_safe_counters [simp]:
  "tenant_safe (d\<lparr>active_tenant_count := a\<rparr>) = tenant_safe d"
  "tenant_safe (d\<lparr>total_process_count := a\<rparr>) = tenant_safe d"
  by (simp_all add: tenant_safe_def)

lemma tenant_at_frame [simp]:
  "tenant_at (d\<lparr>active_tenant_count := a\<rparr>) tid = tenant_at d tid"
  "tenant_at (d\<lparr>total_process_count := a\<rparr>) tid = tenant_at d tid"
  "tenant_at (d\<lparr>pid_mappings := ms\<rparr>) tid = tenant_at d tid"
  "tenant_at (d\<lparr>tenant_lock_word := w\<rparr>) tid = tenant_at d tid"
  by (simp_all add: tenant_at_def)

lemma upd_tenant_frame [simp]:
  "pid_mappings (upd_tenant tid f d) = pid_mappings d"
  "total_process_count (upd_tenant tid f d) = total_process_count d"
  "active_tenant_count (upd_tenant tid f d) = active_tenant_count d"
  "length (tenants (upd_tenant tid f d)) = length (tenants d)"
  by (simp_all add: upd_tenant_def)

lemma clear_mappings_eq [slot_simps]:
  "clear_mappings tid ms tot =
     (map (\<lambda>m. if pm_tenant_id m = tid then m\<lparr>pm_pid := 0, pm_tenant_id := 0\<rparr> else m) ms,
      tot - of_nat (count_slots (\<lambda>m. pm_tenant_id m = tid) ms))"
  by (induction ms arbitrary: tot) (auto simp: count_slots_def algebra_simps)

lemma tenant_safe_clear:
  assumes "tenant_safe d"
  shows "tenant_safe (d\<lparr>pid_mappings := map (\<lambda>m. if pm_tenant_id m = tid
           then m\<lparr>pm_pid := 0, pm_tenant_id := 0\<rparr> else m) (pid_mappings d)\<rparr>)"
proof -
  have "keys_unique pm_pid (map (\<lambda>m. if pm_tenant_id m = tid
           then m\<lparr>pm_pid := 0, pm_tenant_id := 0\<rparr> else m) (pid_mappings d))"
    using assms by (intro keys_unique_clear) (auto simp: tenant_safe_def)
  with assms show ?thesis by (auto simp: tenant_safe_def MAX_TENANTS_def)
qed

text \<open>The slot a binding goes to: the one of the process, or a free one.\<close>

lemma bind_slot:
  assumes "scan_slots (\<lambda>m. pm_pid m = pid) (\<lambda>m. pm_pid m = 0) ms 0 None = (found, free)"
    and "(if found \<noteq> None then found else free) = Some i"
  shows "(found = Some i \<and> find_slot (\<lambda>m. pm_pid m = pid) ms = Some i)
       \<or> (found = None \<and> find_slot (\<lambda>m. pm_pid m = pid) ms = None
          \<and> find_slot (\<lambda>m. pm_pid m = 0) ms = Some i)"
proof (cases "find_slot (\<lambda>m. pm_pid m = pid) ms")
  case None
  with assms show ?thesis by (simp add: scan_slots_no_match)
next
  case (Some k)
  with scan_slots_match [OF Some, of "\<lambda>m. pm_pid m = 0"] assms show ?thesis by (auto split: if_splits)
qed

lemma tenant_safe_bind_slot:
  assumes s: "tenant_safe d" and t: "unat tid < MAX_TENANTS"
    and i: "find_slot (\<lambda>m. pm_pid m = pid) (pid_mappings d) = Some i
      \<or> find_slot (\<lambda>m. pm_pid m = pid) (pid_mappings d) = None"
  shows "tenant_safe (d\<lparr>pid_mappings := (pid_mappings d)[i := \<lparr>pm_pid = pid, pm_tenant_id = tid, pm_mapped_at = now\<rparr>]\<rparr>)"
proof -
  let ?y = "\<lparr>pm_pid = pid, pm_tenant_id = tid, pm_mapped_at = now\<rparr>"
  have u: "keys_unique pm_pid (pid_mappings d)" using s by (simp add: tenant_safe_def)
  have "keys_unique pm_pid ((pid_mappings d)[i := ?y])"
    using i
  proof
    assume "find_slot (\<lambda>m. pm_pid m = pid) (pid_mappings d) = Some i"
    then have "i < length (pid_mappings d)" "pm_pid (pid_mappings d ! i) = pid"
      by (auto dest: find_slot_SomeD)
    then show ?thesis by (intro keys_unique_update_same u) auto
  next
    assume "find_slot (\<lambda>m. pm_pid m = pid) (pid_mappings d) = None"
    then show ?thesis by (intro keys_unique_update_fresh u) simp
  qed
  with s t show ?thesis
    by (auto simp: tenant_safe_def dest!: set_update_subset_insert [THEN subsetD])
qed

lemma tenant_create_safe:
  "tenant_inv tenant_safe s \<Longrightarrow> tenant_inv tenant_safe (snd (tenant_create env tid name q s))"
  unfolding tenant_create_def
  by (auto intro!: safe.with_inv upd_tenant_safe simp: zero_tenant_def TENANT_NAME_MAX_def Let_def)

lemma tenant_delete_safe:
  "tenant_inv tenant_safe s \<Longrightarrow> tenant_inv tenant_safe (snd (tenant_delete env tid s))"
  unfolding tenant_delete_def
  by (auto intro!: safe.with_inv upd_tenant_safe_same tenant_safe_clear simp: Let_def clear_mappings_eq)

lemma tenant_set_status_safe:
  "tenant_inv tenant_safe s \<Longrightarrow> tenant_inv tenant_safe (snd (tenant_set_status env tid st s))"
  unfolding tenant_set_status_def by (auto intro!: safe.with_inv upd_tenant_safe_same)

lemma tenant_update_quota_safe:
  "tenant_inv tenant_safe s \<Longrightarrow> tenant_inv tenant_safe (snd (tenant_update_quota env tid q s))"
  unfolding tenant_update_quota_def
  by (auto intro!: safe.with_inv upd_tenant_safe_same split: option.splits)

lemma tenant_update_usage_safe:
  "tenant_inv tenant_safe s \<Longrightarrow> tenant_inv tenant_safe (snd (tenant_update_resource_usage env tid u s))"
  unfolding tenant_update_resource_usage_def
  by (auto intro!: safe.with_inv upd_tenant_safe_same split: option.splits)

text \<open>The body of a successful binding, as one update of the data.\<close>

definition bind_data :: "tenant_env \<Rightarrow> pid_t \<Rightarrow> u32 \<Rightarrow> bool \<Rightarrow> nat \<Rightarrow> tenant_shared_memory \<Rightarrow> tenant_shared_memory"
  where
  "bind_data env pid tid fresh i d =
     upd_tenant tid
       (\<lambda>t. t\<lparr>ti_process_count := (if fresh then ti_process_count t + 1 else ti_process_count t),
              ti_processes := (if fresh then add_process pid (ti_processes t) else ti_processes t),
              ti_last_active_at := tenv_time env 2\<rparr>)
       (d\<lparr>pid_mappings := (pid_mappings d)
            [i := \<lparr>pm_pid = pid, pm_tenant_id = tid, pm_mapped_at = tenv_time env 1\<rparr>],
          total_process_count := (if fresh then total_process_count d + 1 else total_process_count d)\<rparr>)"

lemma upd_tenant_fields:
  "upd_tenant tid f (d\<lparr>pid_mappings := ms\<rparr>) = (upd_tenant tid f d)\<lparr>pid_mappings := ms\<rparr>"
  "upd_tenant tid f (d\<lparr>total_process_count := n\<rparr>) = (upd_tenant tid f d)\<lparr>total_process_count := n\<rparr>"
  by (simp_all add: upd_tenant_def)

lemma upd_tenant_twice:
  "unat tid < length (tenants d) \<Longrightarrow> upd_tenant tid f (upd_tenant tid g d) = upd_tenant tid (\<lambda>t. f (g t)) d"
  by (simp add: upd_tenant_def)

definition bind_body ::
    "tenant_env \<Rightarrow> pid_t \<Rightarrow> u32 \<Rightarrow> tenant_shared_memory \<Rightarrow> int \<times> tenant_shared_memory" where
  "bind_body env pid tid d =
     (if ti_status (tenant_at d tid) \<noteq> TENANT_STATUS_ACTIVE then (-1, d)
      else case find_slot (\<lambda>m. pm_pid m = pid) (pid_mappings d) of
        Some i \<Rightarrow> (0, bind_data env pid tid False i d)
      | None \<Rightarrow> (case find_slot (\<lambda>m. pm_pid m = 0) (pid_mappings d) of
                   None \<Rightarrow> (-1, d)
                 | Some i \<Rightarrow> (0, bind_data env pid tid True i d)))"

lemma with_tenant_shm_cong:
  assumes "tenant_inv tenant_safe s" and "\<And>d. tenant_safe d \<Longrightarrow> body d = body' d"
  shows "with_tenant_shm env err body s = with_tenant_shm env err body' s"
  using assms safe.get_ptr_data [OF assms(1)] safe.lock_unlock
  by (auto simp: with_tenant_shm_def split: option.splits prod.splits)

lemma tenant_bind_eq:
  assumes "tenant_inv tenant_safe s"
  shows "tenant_bind_process env pid tid s =
    (if unat tid \<ge> MAX_TENANTS then (-1, s) else with_tenant_shm env (-1) (bind_body env pid tid) s)"
proof (cases "unat tid \<ge> MAX_TENANTS")
  case False
  show ?thesis
    unfolding tenant_bind_process_def
    apply (simp only: False if_False)
    apply (rule with_tenant_shm_cong [OF assms])
    subgoal for d
    proof (cases "find_slot (\<lambda>m. pm_pid m = pid) (pid_mappings d)")
      case None
      assume "tenant_safe d"
      with False None show ?thesis
        by (simp add: bind_body_def scan_slots_no_match bind_data_def upd_tenant_fields
            upd_tenant_twice tenant_safe_def Let_def split: option.splits)
    next
      case (Some k)
      assume "tenant_safe d"
      with False Some scan_slots_match [OF Some, of "\<lambda>m. pm_pid m = 0"] show ?thesis
        by (auto simp: bind_body_def bind_data_def upd_tenant_fields
            upd_tenant_twice tenant_safe_def Let_def split: prod.splits)
    qed
    done
qed (simp add: tenant_bind_process_def)

lemma bind_data_safe:
  assumes "tenant_safe d" "unat tid < MAX_TENANTS"
    and "find_slot (\<lambda>m. pm_pid m = pid) (pid_mappings d) = Some i
      \<or> find_slot (\<lambda>m. pm_pid m = pid) (pid_mappings d) = None"
  shows "tenant_safe (bind_data env pid tid fresh i d)"
  unfolding bind_data_def using tenant_safe_bind_slot [OF assms]
  by (intro upd_tenant_safe_same) simp_all

lemma tenant_bind_safe:
  "tenant_inv tenant_safe s \<Longrightarrow> tenant_inv tenant_safe (snd (tenant_bind_process env pid tid s))"
  by (auto simp: tenant_bind_eq bind_body_def intro!: safe.with_inv bind_data_safe split: option.splits)

text \<open>The body of a successful release.\<close>

definition unbind_data :: "pid_t \<Rightarrow> nat \<Rightarrow> tenant_shared_memory \<Rightarrow> tenant_shared_memory" where
  "unbind_data pid i d =
     (upd_tenant (pm_tenant_id (pid_mappings d ! i))
       (\<lambda>t. t\<lparr>ti_processes := remove_process pid (ti_processes t),
              ti_process_count := (if ti_process_count t > 0 then ti_process_count t - 1
                                   else ti_process_count t)\<rparr>) d)
     \<lparr>pid_mappings := (pid_mappings d)[i := (pid_mappings d ! i)\<lparr>pm_pid := 0, pm_tenant_id := 0\<rparr>],
      total_process_count := (if total_process_count d > 0 then total_process_count d - 1
                              else total_process_count d)\<rparr>"

definition unbind_body :: "pid_t \<Rightarrow> tenant_shared_memory \<Rightarrow> int \<times> tenant_shared_memory" where
  "unbind_body pid d =
     (case find_slot (\<lambda>m. pm_pid m = pid) (pid_mappings d) of
        None \<Rightarrow> (-1, d)
      | Some i \<Rightarrow> (0, unbind_data pid i d))"

lemma mapping_tenant_bound:
  "tenant_safe d \<Longrightarrow> i < length (pid_mappings d) \<Longrightarrow> unat (pm_tenant_id (pid_mappings d ! i)) < MAX_TENANTS"
  by (simp add: tenant_safe_def)

lemma tenant_at_upd [simp]:
  "unat tid < length (tenants d) \<Longrightarrow> tenant_at (upd_tenant tid f d) tid = f (tenant_at d tid)"
  "tid' \<noteq> tid \<Longrightarrow> tenant_at (upd_tenant tid f d) tid' = tenant_at d tid'"
  by (simp_all add: upd_tenant_def tenant_at_def word_unat_eq_iff)

lemma tenant_unbind_eq:
  assumes "tenant_inv tenant_safe s"
  shows "tenant_unbind_process env pid s = with_tenant_shm env (-1) (unbind_body pid) s"
  unfolding tenant_unbind_process_def
proof (rule with_tenant_shm_cong [OF assms], goal_cases)
  case (1 d)
  show ?case
  proof (cases "find_slot (\<lambda>m. pm_pid m = pid) (pid_mappings d)")
    case (Some i)
    let ?tid = "pm_tenant_id (pid_mappings d ! i)"
    have b: "unat ?tid < length (tenants d)"
      using Some 1 mapping_tenant_bound [OF 1] by (auto simp: tenant_safe_def dest: find_slot_SomeD)
    show ?thesis
    proof (cases "0 < ti_process_count (tenant_at d ?tid)")
      case True
      with Some b show ?thesis
        by (simp add: unbind_body_def unbind_data_def upd_tenant_def tenant_at_def Let_def)
    next
      case False
      with Some b show ?thesis
        by (simp add: unbind_body_def unbind_data_def upd_tenant_def tenant_at_def Let_def)
    qed
  qed (simp add: unbind_body_def)
qed

lemma tenant_unbind_safe:
  "tenant_inv tenant_safe s \<Longrightarrow> tenant_inv tenant_safe (snd (tenant_unbind_process env pid s))"
proof (simp add: tenant_unbind_eq, rule safe.with_inv, assumption)
  fix d
  assume d: "tenant_safe d"
  show "tenant_safe (snd (unbind_body pid d))"
  proof (cases "find_slot (\<lambda>m. pm_pid m = pid) (pid_mappings d)")
    case (Some i)
    let ?y = "(pid_mappings d ! i)\<lparr>pm_pid := 0, pm_tenant_id := 0\<rparr>"
    have "keys_unique pm_pid ((pid_mappings d)[i := ?y])"
      using d by (intro keys_unique_update_zero) (simp_all add: tenant_safe_def)
    with d have "tenant_safe (d\<lparr>pid_mappings := (pid_mappings d)[i := ?y]\<rparr>)"
      by (auto simp: tenant_safe_def MAX_TENANTS_def dest!: set_update_subset_insert [THEN subsetD])
    then show ?thesis
      unfolding unbind_body_def unbind_data_def Some
      by (simp add: upd_tenant_fields [symmetric] upd_tenant_safe_same)
  qed (simp add: unbind_body_def d)
qed

text \<open>The calls that change the table, and the ones that only read it.\<close>

datatype tenant_call =
    TenantInit tenant_env
  | TenantDestroy tenant_env
  | TenantCreate tenant_env u32 "string option" "tenant_quota option"
  | TenantDelete tenant_env u32
  | TenantSetStatus tenant_env u32 tenant_status
  | TenantUpdateQuota tenant_env u32 "tenant_quota option"
  | TenantBind tenant_env pid_t u32
  | TenantUnbind tenant_env pid_t
  | TenantUpdateUsage tenant_env u32 "tenant_resource_usage option"
  | TenantGetInfo tenant_env u32 bool
  | TenantGetProcess tenant_env pid_t bool
  | TenantGetUsage tenant_env u32 bool
  | TenantCheckLimit tenant_env u32 i32 u32
  | TenantActiveList tenant_env bool i32
  | TenantStatistics tenant_env u32 bool

text \<open>The return code and the state after a call (of a reader, the code without the data read;
  of the limit check, 1 for "exceeded").\<close>

fun tenant_run :: "tenant_call \<Rightarrow> tenant_state \<Rightarrow> int \<times> tenant_state" where
  "tenant_run (TenantInit env) s = tenant_shm_init env s"
| "tenant_run (TenantDestroy env) s = tenant_shm_destroy env s"
| "tenant_run (TenantCreate env tid name q) s = tenant_create env tid name q s"
| "tenant_run (TenantDelete env tid) s = tenant_delete env tid s"
| "tenant_run (TenantSetStatus env tid st) s = tenant_set_status env tid st s"
| "tenant_run (TenantUpdateQuota env tid q) s = tenant_update_quota env tid q s"
| "tenant_run (TenantBind env pid tid) s = tenant_bind_process env pid tid s"
| "tenant_run (TenantUnbind env pid) s = tenant_unbind_process env pid s"
| "tenant_run (TenantUpdateUsage env tid u) s = tenant_update_resource_usage env tid u s"
| "tenant_run (TenantGetInfo env tid b) s = map_prod fst id (tenant_get_info env tid b s)"
| "tenant_run (TenantGetProcess env pid b) s = map_prod fst id (tenant_get_process_tenant env pid b s)"
| "tenant_run (TenantGetUsage env tid b) s = map_prod fst id (tenant_get_resource_usage env tid b s)"
| "tenant_run (TenantCheckLimit env tid ty n) s =
     map_prod (\<lambda>b. if b then 1 else 0) id (tenant_check_resource_limit env tid ty n s)"
| "tenant_run (TenantActiveList env b n) s = map_prod fst id (tenant_get_active_list env b n s)"
| "tenant_run (TenantStatistics env tid b) s = map_prod fst id (tenant_get_statistics env tid b s)"

definition tenant_exec :: "tenant_call \<Rightarrow> tenant_state \<Rightarrow> tenant_state" where
  "tenant_exec c s = snd (tenant_run c s)"

text \<open>A reader leaves the data alone.\<close>

lemmas tenant_readers = tenant_get_info_def tenant_get_process_tenant_def
  tenant_get_resource_usage_def tenant_check_resource_limit_def tenant_get_active_list_def
  tenant_get_statistics_def

lemma tenant_exec_safe: "tenant_inv tenant_safe s \<Longrightarrow> tenant_inv tenant_safe (tenant_exec c s)"
  by (cases c)
     (simp_all add: tenant_exec_def safe.init_inv safe.destroy_inv tenant_create_safe tenant_delete_safe
      tenant_set_status_safe tenant_update_quota_safe tenant_bind_safe tenant_unbind_safe
      tenant_update_usage_safe tenant_readers Let_def,
      auto intro!: safe.with_inv split: option.splits)

definition tenant_start :: tenant_state where
  "tenant_start = \<lparr>g_tenant_shm_fd = -1, g_tenant_shm_mapped = False, tenant_object = None\<rparr>"

lemma tenant_start_inv: "tenant_inv P tenant_start"
  by (simp add: tenant_start_def tenant_inv_def)

section \<open>Well-behaved calls keep the counters exact\<close>

lemma upd_tenant_exact_same:
  assumes e: "tenant_exact d" and f: "\<And>t. ti_status (f t) = ti_status t"
    "\<And>t. entry_typed (f t) = entry_typed t"
  shows "tenant_exact (upd_tenant tid f d)"
proof -
  have st: "ti_status (tenant_at (upd_tenant tid f d) t) = ti_status (tenant_at d t)" for t
    by (cases "t = tid"; cases "unat tid < length (tenants d)")
       (simp_all add: f, simp add: upd_tenant_def list_update_beyond)
  have "count_slots (\<lambda>t. ti_status t \<noteq> TENANT_STATUS_INACTIVE) (tenants (upd_tenant tid f d))
      = count_slots (\<lambda>t. ti_status t \<noteq> TENANT_STATUS_INACTIVE) (tenants d)"
    by (cases "unat tid < length (tenants d)")
       (simp_all add: upd_tenant_def count_slots_same f list_update_beyond)
  with e st show ?thesis by (simp add: tenant_exact_def upd_tenant_safe_same f del: entry_typed_def)
qed

lemma create_data_exact:
  assumes e: "tenant_exact d" and tid: "tid \<noteq> 0" "unat tid < MAX_TENANTS"
    and new: "ti_status (tenant_at d tid) = TENANT_STATUS_INACTIVE"
    and t: "ti_status t \<noteq> TENANT_STATUS_INACTIVE" "entry_typed t"
  shows "tenant_exact (upd_tenant tid (\<lambda>_. t) d\<lparr>active_tenant_count := active_tenant_count d + 1\<rparr>)"
proof -
  from e have s: "tenant_safe d" and l: "unat tid < length (tenants d)"
    using tid by (simp_all add: tenant_exact_def tenant_safe_def)
  have "tenant_safe (upd_tenant tid (\<lambda>_. t) d)" using s t by (intro upd_tenant_safe) simp_all
  moreover have "count_slots (\<lambda>t. ti_status t \<noteq> TENANT_STATUS_INACTIVE) (tenants (upd_tenant tid (\<lambda>_. t) d))
      = Suc (count_slots (\<lambda>t. ti_status t \<noteq> TENANT_STATUS_INACTIVE) (tenants d))"
    using l new t unfolding upd_tenant_def by (simp add: tenant_at_def count_slots_add)
  moreover have "ti_status (tenant_at (upd_tenant tid (\<lambda>_. t) d) x) \<noteq> TENANT_STATUS_INACTIVE"
    if "ti_status (tenant_at d x) \<noteq> TENANT_STATUS_INACTIVE" for x
    using that l t by (cases "x = tid") simp_all
  ultimately show ?thesis using e tid by (auto simp: tenant_exact_def)
qed

lemma delete_data_exact:
  assumes e: "tenant_exact d" and tid: "tid \<noteq> 0" "unat tid < MAX_TENANTS"
    and old: "ti_status (tenant_at d tid) \<noteq> TENANT_STATUS_INACTIVE"
    and f: "\<And>t. ti_status (f t) = TENANT_STATUS_INACTIVE" "\<And>t. entry_typed (f t) = entry_typed t"
  shows "tenant_exact ((upd_tenant tid f (d\<lparr>
      pid_mappings := map (\<lambda>m. if pm_tenant_id m = tid then m\<lparr>pm_pid := 0, pm_tenant_id := 0\<rparr> else m) (pid_mappings d),
      total_process_count := total_process_count d - of_nat (count_slots (\<lambda>m. pm_tenant_id m = tid) (pid_mappings d))\<rparr>))
      \<lparr>active_tenant_count := active_tenant_count d - 1\<rparr>)"
    (is "tenant_exact ((upd_tenant tid f (d\<lparr>pid_mappings := map ?g ?ms, total_process_count := ?n\<rparr>))\<lparr>active_tenant_count := ?a\<rparr>)")
proof -
  from e have s: "tenant_safe d" and l: "unat tid < length (tenants d)"
    using tid by (simp_all add: tenant_exact_def tenant_safe_def)
  have free: "pm_tenant_id m = 0" if "m \<in> set ?ms" "pm_pid m = 0" for m
    using e that by (auto simp: tenant_exact_def)
  have safe': "tenant_safe (upd_tenant tid f (d\<lparr>pid_mappings := map ?g ?ms\<rparr>))"
    using s f by (intro upd_tenant_safe_same tenant_safe_clear) (simp_all del: entry_typed_def)
  have "Suc (count_slots (\<lambda>t. ti_status t \<noteq> TENANT_STATUS_INACTIVE) (tenants (upd_tenant tid f d)))
      = count_slots (\<lambda>t. ti_status t \<noteq> TENANT_STATUS_INACTIVE) (tenants d)"
    using l old f unfolding upd_tenant_def by (simp add: tenant_at_def count_slots_remove)
  then have active: "of_nat (count_slots (\<lambda>t. ti_status t \<noteq> TENANT_STATUS_INACTIVE) (tenants (upd_tenant tid f d)))
      = (of_nat (count_slots (\<lambda>t. ti_status t \<noteq> TENANT_STATUS_INACTIVE) (tenants d)) - 1 :: u32)"
    by (metis add_diff_cancel_left' of_nat_Suc)
  have eq: "count_slots (\<lambda>m. pm_pid m \<noteq> 0) ?ms
      = count_slots (\<lambda>m. pm_pid m \<noteq> 0) (map ?g ?ms) + count_slots (\<lambda>m. pm_tenant_id m = tid) ?ms"
  proof -
    have "count_slots (\<lambda>m. pm_pid m \<noteq> 0 \<and> pm_tenant_id m = tid) ?ms = count_slots (\<lambda>m. pm_tenant_id m = tid) ?ms"
      using free tid unfolding count_slots_def by (intro arg_cong [where f = length] filter_cong) auto
    moreover have "count_slots (\<lambda>m. pm_pid m \<noteq> 0) (map ?g ?ms)
        = count_slots (\<lambda>m. pm_pid m \<noteq> 0 \<and> pm_tenant_id m \<noteq> tid) ?ms"
      unfolding count_slots_map
      unfolding count_slots_def by (intro arg_cong [where f = length] filter_cong) auto
    ultimately show ?thesis
      using count_slots_split [of "\<lambda>m. pm_pid m \<noteq> 0" ?ms "\<lambda>m. pm_tenant_id m = tid"] by simp
  qed
  have total: "of_nat (count_slots (\<lambda>m. pm_pid m \<noteq> 0) (map ?g ?ms))
      = (of_nat (count_slots (\<lambda>m. pm_pid m \<noteq> 0) ?ms) - of_nat (count_slots (\<lambda>m. pm_tenant_id m = tid) ?ms) :: u32)"
    unfolding eq by (simp only: of_nat_add add_diff_cancel_right')
  have bound: "ti_status (tenant_at (upd_tenant tid f d) (pm_tenant_id (?g m))) \<noteq> TENANT_STATUS_INACTIVE"
    if "m \<in> set ?ms" "pm_pid (?g m) \<noteq> 0" for m
    using that e by (auto simp: tenant_exact_def split: if_splits)
  have zero: "ti_status (tenant_at (upd_tenant tid f d) 0) = TENANT_STATUS_INACTIVE"
    using e tid by (simp add: tenant_exact_def)
  have clear: "pm_tenant_id (?g m) = 0" if "m \<in> set ?ms" "pm_pid (?g m) = 0" for m
    using that free by (auto split: if_splits)
  have counts: "total_process_count d = of_nat (count_slots (\<lambda>m. pm_pid m \<noteq> 0) ?ms)"
    "active_tenant_count d = of_nat (count_slots (\<lambda>t. ti_status t \<noteq> TENANT_STATUS_INACTIVE) (tenants d))"
    using e by (simp_all add: tenant_exact_def)
  show ?thesis
    unfolding tenant_exact_def upd_tenant_fields
  proof (intro conjI ballI impI, goal_cases)
    case 1 show ?case using safe' by (simp add: upd_tenant_fields)
  next
    case 2 show ?case using zero by simp
  next
    case (3 m)
    then obtain m' where "m' \<in> set ?ms" "m = ?g m'" by auto
    with 3 clear show ?case by blast
  next
    case (4 m)
    then obtain m' where m': "m' \<in> set ?ms" "m = ?g m'" by auto
    show ?case using bound [OF m'(1)] 4(2) unfolding m'(2) tenant_at_frame by blast
  next
    case 5 show ?case using total counts(1) by simp
  next
    case 6 show ?case using active counts(2) by simp
  qed
qed

lemma count_bound_fresh:
  "find_slot (\<lambda>m. pm_pid m = 0) ms = Some i \<Longrightarrow> pm_pid y \<noteq> 0 \<Longrightarrow>
   count_slots (\<lambda>m. pm_pid m \<noteq> 0) (ms[i := y]) = Suc (count_slots (\<lambda>m. pm_pid m \<noteq> 0) ms)"
  by (auto dest!: find_slot_SomeD intro: count_slots_add)

lemma bind_data_exact:
  assumes e: "tenant_exact d" and pid: "pid \<noteq> 0" and tid: "unat tid < MAX_TENANTS"
    and st: "ti_status (tenant_at d tid) = TENANT_STATUS_ACTIVE"
    and i: "if fresh then find_slot (\<lambda>m. pm_pid m = pid) (pid_mappings d) = None
                      \<and> find_slot (\<lambda>m. pm_pid m = 0) (pid_mappings d) = Some i
            else find_slot (\<lambda>m. pm_pid m = pid) (pid_mappings d) = Some i"
  shows "tenant_exact (bind_data env pid tid fresh i d)"
  unfolding bind_data_def
proof (rule upd_tenant_exact_same)
  let ?y = "\<lparr>pm_pid = pid, pm_tenant_id = tid, pm_mapped_at = tenv_time env 1\<rparr>"
  let ?n = "if fresh then total_process_count d + 1 else total_process_count d"
  have s: "tenant_safe d" using e by (simp add: tenant_exact_def)
  have il: "i < length (pid_mappings d)" using i by (auto dest: find_slot_SomeD split: if_splits)
  have "tenant_safe (d\<lparr>pid_mappings := (pid_mappings d)[i := ?y]\<rparr>)"
    using i by (intro tenant_safe_bind_slot s tid) (auto split: if_splits)
  moreover have "count_slots (\<lambda>m. pm_pid m \<noteq> 0) ((pid_mappings d)[i := ?y])
      = (if fresh then Suc (count_slots (\<lambda>m. pm_pid m \<noteq> 0) (pid_mappings d))
         else count_slots (\<lambda>m. pm_pid m \<noteq> 0) (pid_mappings d))"
  proof (cases fresh)
    case True
    with i pid show ?thesis by (simp add: count_bound_fresh)
  next
    case False
    with i have "pm_pid (pid_mappings d ! i) = pid" by (auto dest: find_slot_SomeD)
    with False il show ?thesis by (simp add: count_slots_same)
  qed
  moreover have "pm_pid m = 0 \<longrightarrow> pm_tenant_id m = 0"
    "pm_pid m \<noteq> 0 \<longrightarrow> ti_status (tenant_at d (pm_tenant_id m)) \<noteq> TENANT_STATUS_INACTIVE"
    if "m \<in> set ((pid_mappings d)[i := ?y])" for m
    using that [THEN set_update_subset_insert [THEN subsetD]] e pid st by (auto simp: tenant_exact_def)
  ultimately show "tenant_exact (d\<lparr>pid_mappings := (pid_mappings d)[i := ?y], total_process_count := ?n\<rparr>)"
    using e by (simp add: tenant_exact_def)
qed (simp_all split: if_splits)

lemma unbind_data_exact:
  assumes e: "tenant_exact d" and pid: "pid \<noteq> 0"
    and i: "find_slot (\<lambda>m. pm_pid m = pid) (pid_mappings d) = Some i"
  shows "tenant_exact (unbind_data pid i d)"
proof -
  let ?y = "(pid_mappings d ! i)\<lparr>pm_pid := 0, pm_tenant_id := 0\<rparr>"
  have s: "tenant_safe d" using e by (simp add: tenant_exact_def)
  have il: "i < length (pid_mappings d)" "pm_pid (pid_mappings d ! i) = pid"
    using i by (auto dest: find_slot_SomeD)
  have "keys_unique pm_pid ((pid_mappings d)[i := ?y])"
    using s by (intro keys_unique_update_zero) (simp_all add: tenant_safe_def)
  with s have "tenant_safe (d\<lparr>pid_mappings := (pid_mappings d)[i := ?y]\<rparr>)"
    by (auto simp: tenant_safe_def MAX_TENANTS_def dest!: set_update_subset_insert [THEN subsetD])
  moreover have c: "Suc (count_slots (\<lambda>m. pm_pid m \<noteq> 0) ((pid_mappings d)[i := ?y]))
      = count_slots (\<lambda>m. pm_pid m \<noteq> 0) (pid_mappings d)"
    using il pid by (intro count_slots_remove) simp_all
  have "count_slots (\<lambda>m. pm_pid m \<noteq> 0) (pid_mappings d) \<le> 1024"
    using count_slots_le [of "\<lambda>m. pm_pid m \<noteq> 0" "pid_mappings d"] s
    by (simp add: tenant_safe_def MAX_PROCESSES_def)
  with c have "total_process_count d > 0
      \<and> total_process_count d - 1 = of_nat (count_slots (\<lambda>m. pm_pid m \<noteq> 0) ((pid_mappings d)[i := ?y]))"
    using e count32_pos [of "count_slots (\<lambda>m. pm_pid m \<noteq> 0) (pid_mappings d)"]
    by (simp add: tenant_exact_def flip: c)
  ultimately have "tenant_exact (d\<lparr>pid_mappings := (pid_mappings d)[i := ?y],
      total_process_count := total_process_count d - 1\<rparr>)" and n: "total_process_count d > 0"
    using e set_update_subset_insert [of "pid_mappings d" i ?y] by (auto simp: tenant_exact_def)
  then show ?thesis
    unfolding unbind_data_def
    by (simp add: upd_tenant_fields [symmetric] upd_tenant_exact_same)
qed

text \<open>
  What the counters rely on: process 0 is never bound or released (0 marks a free slot), and a
  tenant is taken out of use by deleting it, not by setting its status.
\<close>

fun tenant_legal :: "tenant_call \<Rightarrow> bool" where
  "tenant_legal (TenantBind env pid tid) = (pid \<noteq> 0)"
| "tenant_legal (TenantUnbind env pid) = (pid \<noteq> 0)"
| "tenant_legal (TenantSetStatus env tid st) = (st \<noteq> TENANT_STATUS_INACTIVE)"
| "tenant_legal _ = True"

lemma tenant_exact_safe: "tenant_exact d \<Longrightarrow> tenant_safe d"
  by (simp add: tenant_exact_def)

lemma tenant_inv_exact_safe: "tenant_inv tenant_exact s \<Longrightarrow> tenant_inv tenant_safe s"
  by (simp add: tenant_inv_def tenant_exact_safe)

lemma tenant_create_exact:
  "tenant_inv tenant_exact s \<Longrightarrow> tenant_inv tenant_exact (snd (tenant_create env tid name q s))"
  unfolding tenant_create_def
  by (auto intro!: exact.with_inv create_data_exact simp: zero_tenant_def TENANT_NAME_MAX_def Let_def)

lemma tenant_delete_exact:
  "tenant_inv tenant_exact s \<Longrightarrow> tenant_inv tenant_exact (snd (tenant_delete env tid s))"
  unfolding tenant_delete_def
  by (auto intro!: exact.with_inv delete_data_exact simp: Let_def clear_mappings_eq)

lemma upd_tenant_exact_status:
  assumes e: "tenant_exact d" and old: "ti_status (tenant_at d tid) \<noteq> TENANT_STATUS_INACTIVE"
    and st: "st \<noteq> TENANT_STATUS_INACTIVE" and tid: "unat tid < MAX_TENANTS"
  shows "tenant_exact (upd_tenant tid (\<lambda>t. t\<lparr>ti_status := st, ti_last_active_at := now\<rparr>) d)"
proof -
  let ?d = "upd_tenant tid (\<lambda>t. t\<lparr>ti_status := st, ti_last_active_at := now\<rparr>) d"
  from e have s: "tenant_safe d" and l: "unat tid < length (tenants d)"
    using tid by (simp_all add: tenant_exact_def tenant_safe_def)
  have "(ti_status (tenant_at ?d x) = TENANT_STATUS_INACTIVE) = (ti_status (tenant_at d x) = TENANT_STATUS_INACTIVE)" for x
    using l old st by (cases "x = tid") simp_all
  moreover have "count_slots (\<lambda>t. ti_status t \<noteq> TENANT_STATUS_INACTIVE) (tenants ?d)
      = count_slots (\<lambda>t. ti_status t \<noteq> TENANT_STATUS_INACTIVE) (tenants d)"
    using l old st by (simp add: upd_tenant_def tenant_at_def count_slots_same)
  ultimately show ?thesis using e s by (simp add: tenant_exact_def upd_tenant_safe_same)
qed

lemma tenant_set_status_exact:
  "tenant_inv tenant_exact s \<Longrightarrow> st \<noteq> TENANT_STATUS_INACTIVE \<Longrightarrow>
   tenant_inv tenant_exact (snd (tenant_set_status env tid st s))"
  unfolding tenant_set_status_def by (auto intro!: exact.with_inv upd_tenant_exact_status)

lemma tenant_update_quota_exact:
  "tenant_inv tenant_exact s \<Longrightarrow> tenant_inv tenant_exact (snd (tenant_update_quota env tid q s))"
  unfolding tenant_update_quota_def
  by (auto intro!: exact.with_inv upd_tenant_exact_same split: option.splits)

lemma tenant_update_usage_exact:
  "tenant_inv tenant_exact s \<Longrightarrow> tenant_inv tenant_exact (snd (tenant_update_resource_usage env tid u s))"
  unfolding tenant_update_resource_usage_def
  by (auto intro!: exact.with_inv upd_tenant_exact_same split: option.splits)

lemma tenant_bind_exact:
  "tenant_inv tenant_exact s \<Longrightarrow> pid \<noteq> 0 \<Longrightarrow>
   tenant_inv tenant_exact (snd (tenant_bind_process env pid tid s))"
  by (auto simp: tenant_bind_eq tenant_inv_exact_safe bind_body_def
      intro!: exact.with_inv bind_data_exact split: option.splits)

lemma tenant_unbind_exact:
  "tenant_inv tenant_exact s \<Longrightarrow> pid \<noteq> 0 \<Longrightarrow>
   tenant_inv tenant_exact (snd (tenant_unbind_process env pid s))"
  by (auto simp: tenant_unbind_eq tenant_inv_exact_safe unbind_body_def
      intro!: exact.with_inv unbind_data_exact split: option.splits)

lemma tenant_exec_exact:
  "tenant_inv tenant_exact s \<Longrightarrow> tenant_legal c \<Longrightarrow> tenant_inv tenant_exact (tenant_exec c s)"
  by (cases c)
     (simp_all add: tenant_exec_def exact.init_inv exact.destroy_inv tenant_create_exact
      tenant_delete_exact tenant_set_status_exact tenant_update_quota_exact tenant_bind_exact
      tenant_unbind_exact tenant_update_usage_exact tenant_readers Let_def,
      auto intro!: exact.with_inv split: option.splits)

end
