(* ===== verification/Tenant_Daemon.thy ===== *)
theory Tenant_Daemon
  imports C_Text Tenant_Shm
begin

text \<open>
  The tenant manager daemon (\<open>src/tenant_manager_daemon.c\<close>): the JSON commands that
  change the tenant table while applications run, and the answers.

  The JSON library is outside the repository and a parameter (\<open>json_lib\<close>): what the parser
  and the accessors return, on values of any type, and how an answer is printed. A NULL pointer,
  which is how the library represents the JSON value null, is \<^const>\<open>None\<close>. The answers
  the daemon constructs are trees of the constructors it calls (\<open>json_out\<close>). The sockets and
  the messages on the terminal are left out; a request is the bytes received. A request whose
  handling dereferences NULL has no result.
\<close>

section \<open>The JSON library\<close>

datatype json_out =
    JBoolean bool
  | JInt i32
  | JInt64 u64
  | JString string
  | JArray "json_out list"
  | JObject "(string \<times> json_out) list"

record 'j json_lib =
  tokener_parse :: "string \<Rightarrow> 'j option"
  object_get_ex :: "'j \<Rightarrow> string \<Rightarrow> 'j option option"
  get_int :: "'j option \<Rightarrow> i32"
  get_int64 :: "'j option \<Rightarrow> u64"
  get_string :: "'j option \<Rightarrow> string option"
  to_json_string :: "json_out \<Rightarrow> string"

text \<open>The table operations at the call sites of a handler, and \<open>clock_gettime\<close>.\<close>

record daemon_env =
  de_tenant :: "nat \<Rightarrow> tenant_env"
  de_tv_sec :: u64
  de_tv_nsec :: u64

definition BUFFER_SIZE :: nat where "BUFFER_SIZE = 4096"

fun status_code :: "tenant_status \<Rightarrow> i32" where
  "status_code TENANT_STATUS_INACTIVE = 0"
| "status_code TENANT_STATUS_ACTIVE = 1"
| "status_code TENANT_STATUS_SUSPENDED = 2"

section \<open>Answers\<close>

definition response_object :: "bool \<Rightarrow> string option \<Rightarrow> json_out option \<Rightarrow> json_out" where
  "response_object success message data =
     JObject ([(''success'', JBoolean success),
               (''message'', JString (case message of None \<Rightarrow> [] | Some m \<Rightarrow> m))]
              @ (case data of None \<Rightarrow> [] | Some d \<Rightarrow> [(''data'', d)]))"

definition build_response :: "'j json_lib \<Rightarrow> bool \<Rightarrow> string option \<Rightarrow> json_out option \<Rightarrow> string" where
  "build_response lib success message data = to_json_string lib (response_object success message data)"

definition int_field :: "'j json_lib \<Rightarrow> 'j \<Rightarrow> string \<Rightarrow> i32 \<Rightarrow> i32" where
  "int_field lib cmd_obj key dflt =
     (case object_get_ex lib cmd_obj key of Some v \<Rightarrow> get_int lib v | None \<Rightarrow> dflt)"

definition memory_field :: "'j json_lib \<Rightarrow> 'j \<Rightarrow> u64" where
  "memory_field lib cmd_obj =
     (case object_get_ex lib cmd_obj ''memory'' of Some v \<Rightarrow> get_int64 lib v | None \<Rightarrow> 1073741824)"

definition daemon_quota :: "i32 \<Rightarrow> i32 \<Rightarrow> u64 \<Rightarrow> tenant_quota" where
  "daemon_quota qp mr mem =
     \<lparr>max_qp_per_tenant = qp, max_mr_per_tenant = mr, max_memory_per_tenant = mem,
      max_cq_per_tenant = qp, max_pd_per_tenant = 10\<rparr>"

section \<open>Handlers\<close>

definition handle_update_quota ::
    "'j json_lib \<Rightarrow> daemon_env \<Rightarrow> 'j \<Rightarrow> tenant_state \<Rightarrow> string \<times> tenant_state" where
  "handle_update_quota lib env cmd_obj s =
     (case (object_get_ex lib cmd_obj ''tenant'', object_get_ex lib cmd_obj ''qp'') of
        (Some tenant_obj, Some qp_obj) \<Rightarrow>
          let tenant_id = get_int lib tenant_obj;
              qp = get_int lib qp_obj;
              mr = int_field lib cmd_obj ''mr'' qp;
              mem = memory_field lib cmd_obj
          in (case tenant_update_quota (de_tenant env 0) tenant_id (Some (daemon_quota qp mr mem)) s of
                (rc, s) \<Rightarrow>
                  if rc \<noteq> 0 then (build_response lib False (Some ''Failed to update quota'') None, s)
                  else
                    let (shm, s) = tenant_shm_get_ptr (de_tenant env 1) s;
                        s = (case shm of
                               None \<Rightarrow> s
                             | Some d \<Rightarrow> s\<lparr>tenant_object := Some (d\<lparr>
                                 tenant_last_update_time := de_tv_sec env * 1000000000 + de_tv_nsec env,
                                 tenant_version := tenant_version d + 1\<rparr>)\<rparr>)
                    in (build_response lib True
                          (Some (''Quota updated for tenant '' @ dec (unat tenant_id))) None, s))
      | _ \<Rightarrow> (build_response lib False (Some ''Missing required fields: tenant, qp'') None, s))"

definition handle_create ::
    "'j json_lib \<Rightarrow> daemon_env \<Rightarrow> 'j \<Rightarrow> tenant_state \<Rightarrow> string \<times> tenant_state" where
  "handle_create lib env cmd_obj s =
     (case object_get_ex lib cmd_obj ''tenant'' of
        None \<Rightarrow> (build_response lib False (Some ''Missing required field: tenant'') None, s)
      | Some tenant_obj \<Rightarrow>
          let tenant_id = get_int lib tenant_obj;
              name = (case object_get_ex lib cmd_obj ''name'' of
                        Some v \<Rightarrow> get_string lib v | None \<Rightarrow> Some ''unnamed'');
              qp = int_field lib cmd_obj ''qp'' 100;
              mr = int_field lib cmd_obj ''mr'' 100;
              mem = memory_field lib cmd_obj
          in (case tenant_create (de_tenant env 0) tenant_id name (Some (daemon_quota qp mr mem)) s of
                (rc, s) \<Rightarrow>
                  if rc \<noteq> 0 then (build_response lib False (Some ''Failed to create tenant'') None, s)
                  else (build_response lib True (Some (''Tenant '' @ dec (unat tenant_id) @ '' created'')) None, s)))"

definition handle_delete ::
    "'j json_lib \<Rightarrow> daemon_env \<Rightarrow> 'j \<Rightarrow> tenant_state \<Rightarrow> string \<times> tenant_state" where
  "handle_delete lib env cmd_obj s =
     (case object_get_ex lib cmd_obj ''tenant'' of
        None \<Rightarrow> (build_response lib False (Some ''Missing required field: tenant'') None, s)
      | Some tenant_obj \<Rightarrow>
          let tenant_id = get_int lib tenant_obj
          in (case tenant_delete (de_tenant env 0) tenant_id s of
                (rc, s) \<Rightarrow>
                  if rc \<noteq> 0 then (build_response lib False (Some ''Failed to delete tenant'') None, s)
                  else (build_response lib True (Some (''Tenant '' @ dec (unat tenant_id) @ '' deleted'')) None, s)))"

text \<open>The fields of the tenants in use, as the two lists print them.\<close>

definition status_entry :: "tenant_info \<Rightarrow> (string \<times> json_out) list" where
  "status_entry t =
     [(''id'', JInt (ti_tenant_id t)),
      (''name'', JString (ti_tenant_name t)),
      (''status'', JInt (status_code (ti_status t))),
      (''qp_used'', JInt (tu_qp_count (ti_usage t))),
      (''qp_limit'', JInt (max_qp_per_tenant (ti_quota t))),
      (''mr_used'', JInt (tu_mr_count (ti_usage t))),
      (''mr_limit'', JInt (max_mr_per_tenant (ti_quota t))),
      (''memory_used'', JInt64 (tu_memory_used (ti_usage t))),
      (''memory_limit'', JInt64 (max_memory_per_tenant (ti_quota t)))]"

definition list_entry :: "tenant_info \<Rightarrow> (string \<times> json_out) list" where
  "list_entry t =
     [(''id'', JInt (ti_tenant_id t)),
      (''name'', JString (ti_tenant_name t)),
      (''qp_used'', JInt (tu_qp_count (ti_usage t))),
      (''qp_limit'', JInt (max_qp_per_tenant (ti_quota t))),
      (''mr_used'', JInt (tu_mr_count (ti_usage t))),
      (''mr_limit'', JInt (max_mr_per_tenant (ti_quota t)))]"

definition tenants_in_use :: "tenant_shared_memory option \<Rightarrow> tenant_info list" where
  "tenants_in_use shm =
     (case shm of None \<Rightarrow> []
      | Some d \<Rightarrow> filter (\<lambda>t. ti_status t \<noteq> TENANT_STATUS_INACTIVE) (take MAX_TENANTS (tenants d)))"

definition handle_status ::
    "'j json_lib \<Rightarrow> daemon_env \<Rightarrow> 'j \<Rightarrow> tenant_state \<Rightarrow> string \<times> tenant_state" where
  "handle_status lib env cmd_obj s =
     (case object_get_ex lib cmd_obj ''tenant'' of
        None \<Rightarrow>
          (case tenant_shm_get_ptr (de_tenant env 0) s of
             (shm, s) \<Rightarrow>
               (build_response lib True (Some ''All tenants status'')
                  (Some (JArray (map (\<lambda>t. JObject (status_entry t)) (tenants_in_use shm)))), s))
      | Some tenant_obj \<Rightarrow>
          let tenant_id = get_int lib tenant_obj
          in (case tenant_get_info (de_tenant env 0) tenant_id True s of
                ((rc, info), s) \<Rightarrow>
                  (case (rc = 0, info) of
                     (True, Some t) \<Rightarrow>
                       (build_response lib True (Some ''Tenant status'')
                          (Some (JObject (status_entry t @
                             [(''total_qp_creates'', JInt64 (total_qp_creates (ti_usage t))),
                              (''total_mr_regs'', JInt64 (total_mr_regs (ti_usage t)))]))), s)
                   | _ \<Rightarrow> (build_response lib False (Some ''Tenant not found'') None, s))))"

definition handle_list_tenants ::
    "'j json_lib \<Rightarrow> daemon_env \<Rightarrow> tenant_state \<Rightarrow> string \<times> tenant_state" where
  "handle_list_tenants lib env s =
     (case tenant_shm_get_ptr (de_tenant env 0) s of
        (shm, s) \<Rightarrow>
          let ts = map (\<lambda>t. JObject (list_entry t)) (tenants_in_use shm)
          in (build_response lib True (Some ''Tenant list'')
                (Some (JObject
                   [(''count'', JInt (of_nat (length ts))),
                    (''version'', JInt64 (case shm of None \<Rightarrow> 0 | Some d \<Rightarrow> tenant_version d)),
                    (''tenants'', JArray ts)])), s))"

section \<open>Requests\<close>

text \<open>The command is compared with \<open>strcmp\<close>, which dereferences it: a request whose
  \<open>cmd\<close> is null has no result.\<close>

definition process_command ::
    "'j json_lib \<Rightarrow> daemon_env \<Rightarrow> string \<Rightarrow> tenant_state \<Rightarrow> (string \<times> tenant_state) option" where
  "process_command lib env json_str s =
     (case tokener_parse lib json_str of
        None \<Rightarrow> Some (build_response lib False (Some ''Invalid JSON'') None, s)
      | Some cmd_obj \<Rightarrow>
          (case object_get_ex lib cmd_obj ''cmd'' of
             None \<Rightarrow> Some (build_response lib False (Some ''Missing 'cmd' field'') None, s)
           | Some cmd_type_obj \<Rightarrow>
               (case get_string lib cmd_type_obj of
                  None \<Rightarrow> None
                | Some cmd \<Rightarrow>
                    Some (if cmd = ''UPDATE_QUOTA'' then handle_update_quota lib env cmd_obj s
                          else if cmd = ''CREATE'' then handle_create lib env cmd_obj s
                          else if cmd = ''DELETE'' then handle_delete lib env cmd_obj s
                          else if cmd = ''STATUS'' then handle_status lib env cmd_obj s
                          else if cmd = ''LIST_TENANTS'' then handle_list_tenants lib env s
                          else (build_response lib False (Some ''Unknown command'') None, s)))))"

text \<open>What is sent back on one connection; nothing when nothing was received.\<close>

definition handle_client ::
    "'j json_lib \<Rightarrow> daemon_env \<Rightarrow> string option \<Rightarrow> tenant_state \<Rightarrow> (string \<times> tenant_state) option" where
  "handle_client lib env received s =
     (case received of
        None \<Rightarrow> Some ([], s)
      | Some [] \<Rightarrow> Some ([], s)
      | Some bytes \<Rightarrow>
          map_option (\<lambda>(response, s). (response @ [CHR 0x0A], s))
            (process_command lib env
               (takeWhile (\<lambda>c. c \<noteq> CHR 0x00) (take (BUFFER_SIZE - 1) bytes)) s))"

text \<open>The start of \<open>main\<close>: the daemon only serves requests over an attached table.\<close>

definition daemon_start :: "tenant_env \<Rightarrow> tenant_state \<Rightarrow> int \<times> tenant_state" where
  "daemon_start env s = (case tenant_shm_init env s of (rc, s) \<Rightarrow> if rc \<noteq> 0 then (1, s) else (0, s))"

end
