(* ===== verification/Tenant_Spec.thy ===== *)
theory Tenant_Spec
  imports Tenant_Shm
begin

text \<open>
  What the tenant table promises: an abstract table of tenants and bindings, and the proof that
  the operations of \<open>src/shm/shared_memory_tenant.c\<close> implement it; the binding of
  processes as an instance of the keyed table interface; and the properties of the component.
\<close>

section \<open>The abstract table\<close>

record tenant_table =
  members :: "u32 \<Rightarrow> (tenant_status \<times> tenant_quota \<times> tenant_resource_usage) option"
  binding :: "pid_t \<Rightarrow> u32 option"

definition empty_table :: tenant_table where
  "empty_table = \<lparr>members = (\<lambda>_. None), binding = (\<lambda>_. None)\<rparr>"

definition spec_create :: "u32 \<Rightarrow> tenant_quota option \<Rightarrow> tenant_table \<Rightarrow> int \<times> tenant_table" where
  "spec_create tid q T =
     (if tid = 0 \<or> unat tid \<ge> MAX_TENANTS \<or> members T tid \<noteq> None then (-1, T)
      else (0, T\<lparr>members := (members T)(tid \<mapsto>
                 (TENANT_STATUS_ACTIVE,
                  case q of Some q \<Rightarrow> q | None \<Rightarrow> default_tenant_quota,
                  zero_tenant_usage))\<rparr>))"

definition spec_delete :: "u32 \<Rightarrow> tenant_table \<Rightarrow> int \<times> tenant_table" where
  "spec_delete tid T =
     (if tid = 0 \<or> members T tid = None then (-1, T)
      else (0, T\<lparr>members := (members T)(tid := None),
                 binding := (\<lambda>p. if binding T p = Some tid then None else binding T p)\<rparr>))"

definition spec_set_status :: "u32 \<Rightarrow> tenant_status \<Rightarrow> tenant_table \<Rightarrow> int \<times> tenant_table" where
  "spec_set_status tid st T =
     (case members T tid of
        None \<Rightarrow> (-1, T)
      | Some (_, q, u) \<Rightarrow> (0, T\<lparr>members := (members T)
          (tid := (if st = TENANT_STATUS_INACTIVE then None else Some (st, q, u)))\<rparr>))"

definition spec_update_quota :: "u32 \<Rightarrow> tenant_quota option \<Rightarrow> tenant_table \<Rightarrow> int \<times> tenant_table" where
  "spec_update_quota tid q T =
     (case (q, members T tid) of
        (Some q, Some (st, _, u)) \<Rightarrow> (0, T\<lparr>members := (members T)(tid \<mapsto> (st, q, u))\<rparr>)
      | _ \<Rightarrow> (-1, T))"

definition spec_update_usage ::
    "u32 \<Rightarrow> tenant_resource_usage option \<Rightarrow> tenant_table \<Rightarrow> int \<times> tenant_table" where
  "spec_update_usage tid u T =
     (case (u, members T tid) of
        (Some u, Some (st, q, _)) \<Rightarrow>
          if st = TENANT_STATUS_ACTIVE then (0, T\<lparr>members := (members T)(tid \<mapsto> (st, q, u))\<rparr>)
          else (-1, T)
      | _ \<Rightarrow> (-1, T))"

text \<open>Binding fails on a tenant that is not active, and when a new process finds the table full.\<close>

definition spec_bind :: "pid_t \<Rightarrow> u32 \<Rightarrow> tenant_table \<Rightarrow> int \<times> tenant_table" where
  "spec_bind pid tid T =
     (case members T tid of
        Some (TENANT_STATUS_ACTIVE, _, _) \<Rightarrow>
          if binding T pid = None \<and> card (dom (binding T)) = MAX_PROCESSES then (-1, T)
          else (0, T\<lparr>binding := (binding T)(pid \<mapsto> tid)\<rparr>)
      | _ \<Rightarrow> (-1, T))"

definition spec_unbind :: "pid_t \<Rightarrow> tenant_table \<Rightarrow> int \<times> tenant_table" where
  "spec_unbind pid T =
     (if binding T pid = None then (-1, T) else (0, T\<lparr>binding := (binding T)(pid := None)\<rparr>))"

fun spec_run :: "tenant_call \<Rightarrow> tenant_table \<Rightarrow> int \<times> tenant_table" where
  "spec_run (TenantCreate env tid name q) T = spec_create tid q T"
| "spec_run (TenantDelete env tid) T = spec_delete tid T"
| "spec_run (TenantSetStatus env tid st) T = spec_set_status tid st T"
| "spec_run (TenantUpdateQuota env tid q) T = spec_update_quota tid q T"
| "spec_run (TenantBind env pid tid) T = spec_bind pid tid T"
| "spec_run (TenantUnbind env pid) T = spec_unbind pid T"
| "spec_run (TenantUpdateUsage env tid u) T = spec_update_usage tid u T"
| "spec_run _ T = (0, T)"

text \<open>The calls the abstract table describes: the ones that change it.\<close>

fun tenant_mutator :: "tenant_call \<Rightarrow> bool" where
  "tenant_mutator (TenantCreate _ _ _ _) = True"
| "tenant_mutator (TenantDelete _ _) = True"
| "tenant_mutator (TenantSetStatus _ _ _) = True"
| "tenant_mutator (TenantUpdateQuota _ _ _) = True"
| "tenant_mutator (TenantBind _ pid _) = (pid \<noteq> 0)"
| "tenant_mutator (TenantUnbind _ pid) = (pid \<noteq> 0)"
| "tenant_mutator (TenantUpdateUsage _ _ _) = True"
| "tenant_mutator _ = False"

section \<open>The abstraction\<close>

definition tenant_members ::
    "tenant_shared_memory \<Rightarrow> u32 \<Rightarrow> (tenant_status \<times> tenant_quota \<times> tenant_resource_usage) option"
  where
  "tenant_members d tid =
     (if unat tid < MAX_TENANTS \<and> ti_status (tenant_at d tid) \<noteq> TENANT_STATUS_INACTIVE
      then Some (ti_status (tenant_at d tid), ti_quota (tenant_at d tid), ti_usage (tenant_at d tid))
      else None)"

definition tenant_binding :: "pid_tenant_mapping list \<Rightarrow> pid_t \<Rightarrow> u32 option" where
  "tenant_binding ms pid = (if pid = 0 then None else map_option pm_tenant_id (slot_entry pm_pid ms pid))"

definition tenant_abs :: "tenant_shared_memory \<Rightarrow> tenant_table" where
  "tenant_abs d = \<lparr>members = tenant_members d, binding = tenant_binding (pid_mappings d)\<rparr>"

definition tenant_state_abs :: "tenant_state \<Rightarrow> tenant_table" where
  "tenant_state_abs s = (case tenant_object s of None \<Rightarrow> empty_table | Some d \<Rightarrow> tenant_abs d)"

lemma tenant_abs_header [simp]:
  "tenant_abs (tenant_shm_lock d) = tenant_abs d"
  "tenant_abs (tenant_shm_unlock now d) = tenant_abs d"
  "tenant_abs (d\<lparr>active_tenant_count := a\<rparr>) = tenant_abs d"
  "tenant_abs (d\<lparr>total_process_count := a\<rparr>) = tenant_abs d"
  by (simp_all add: tenant_abs_def tenant_members_def tenant_at_def tenant_shm_lock_def
      tenant_shm_unlock_def fun_eq_iff)

lemma tenant_abs_mappings:
  "tenant_abs (d\<lparr>pid_mappings := ms\<rparr>) = (tenant_abs d)\<lparr>binding := tenant_binding ms\<rparr>"
  by (simp add: tenant_abs_def tenant_members_def fun_eq_iff)

lemma tenant_abs_upd:
  assumes "tenant_safe d" "unat tid < MAX_TENANTS"
  shows "tenant_abs (upd_tenant tid f d) = (tenant_abs d)\<lparr>members := (members (tenant_abs d))
    (tid := (let t = f (tenant_at d tid) in if ti_status t = TENANT_STATUS_INACTIVE then None
             else Some (ti_status t, ti_quota t, ti_usage t)))\<rparr>"
proof -
  have "unat tid < length (tenants d)" using assms by (simp add: tenant_safe_def)
  then have "tenant_members (upd_tenant tid f d) x =
    ((tenant_members d)(tid := (let t = f (tenant_at d tid) in
       if ti_status t = TENANT_STATUS_INACTIVE then None else Some (ti_status t, ti_quota t, ti_usage t)))) x" for x
    using assms by (cases "x = tid") (simp_all add: tenant_members_def Let_def)
  then show ?thesis by (simp add: tenant_abs_def fun_eq_iff)
qed

lemma binding_abs: "binding (tenant_abs d) = tenant_binding (pid_mappings d)"
  by (simp add: tenant_abs_def)

lemma members_abs: "\<not> MAX_TENANTS \<le> unat tid \<Longrightarrow>
   members (tenant_abs d) tid
     = (if ti_status (tenant_at d tid) = TENANT_STATUS_INACTIVE then None
        else Some (ti_status (tenant_at d tid), ti_quota (tenant_at d tid), ti_usage (tenant_at d tid)))"
  by (simp add: tenant_abs_def tenant_members_def)

lemma members_abs_beyond: "unat tid \<ge> MAX_TENANTS \<Longrightarrow> members (tenant_abs d) tid = None"
  by (simp add: tenant_abs_def tenant_members_def)

text \<open>Bindings under the writes the operations make.\<close>

lemma binding_write:
  assumes pid: "pm_pid y \<noteq> 0"
    and i: "find_slot (\<lambda>m. pm_pid m = pm_pid y) ms = Some i
      \<or> find_slot (\<lambda>m. pm_pid m = pm_pid y) ms = None \<and> find_slot (\<lambda>m. pm_pid m = 0) ms = Some i"
  shows "tenant_binding (ms[i := y]) = (tenant_binding ms)(pm_pid y \<mapsto> pm_tenant_id y)"
proof
  fix q
  have il: "i < length ms" "pm_pid (ms ! i) = pm_pid y \<or> pm_pid (ms ! i) = 0"
    using i by (auto dest: find_slot_SomeD)
  show "tenant_binding (ms[i := y]) q = ((tenant_binding ms)(pm_pid y \<mapsto> pm_tenant_id y)) q"
  proof (cases "q = pm_pid y")
    case True
    have "slot_entry pm_pid (ms[i := y]) (pm_pid y) = Some y"
      using i il by (auto intro: slot_entry_update_same slot_entry_update_fresh)
    with True pid show ?thesis by (simp add: tenant_binding_def)
  next
    case False
    with il pid have "q = 0 \<or> slot_entry pm_pid (ms[i := y]) q = slot_entry pm_pid ms q"
      by (cases "q = 0") (auto intro: slot_entry_update_other)
    with False show ?thesis by (auto simp: tenant_binding_def)
  qed
qed

lemma binding_clear:
  assumes u: "keys_unique pm_pid ms" and i: "find_slot (\<lambda>m. pm_pid m = pid) ms = Some i"
    and pid: "pid \<noteq> 0" and y: "pm_pid y = 0"
  shows "tenant_binding (ms[i := y]) = (tenant_binding ms)(pid := None)"
proof
  fix q
  have il: "i < length ms" "pm_pid (ms ! i) = pid" using i by (auto dest: find_slot_SomeD)
  show "tenant_binding (ms[i := y]) q = ((tenant_binding ms)(pid := None)) q"
  proof (cases "q = pid")
    case True
    with slot_entry_remove [OF u i pid y] show ?thesis by (simp add: tenant_binding_def)
  next
    case False
    with il y have "q = 0 \<or> slot_entry pm_pid (ms[i := y]) q = slot_entry pm_pid ms q"
      by (cases "q = 0") (auto intro: slot_entry_update_other)
    with False show ?thesis by (auto simp: tenant_binding_def)
  qed
qed

lemma slot_entry_map_clear:
  fixes ms :: "pid_tenant_mapping list"
  assumes "keys_unique pm_pid ms" "p \<noteq> 0"
  shows "slot_entry pm_pid (map (\<lambda>m. if Q m then m\<lparr>pm_pid := 0, pm_tenant_id := 0\<rparr> else m) ms) p
    = (case slot_entry pm_pid ms p of None \<Rightarrow> None | Some m \<Rightarrow> if Q m then None else Some m)"
  using assms
proof (induction ms)
  case (Cons m ms)
  have u: "keys_unique pm_pid ms" "pm_pid m \<noteq> 0 \<longrightarrow> pm_pid m \<notin> pm_pid ` set ms"
    using keys_unique_Cons [OF Cons.prems(1)] by auto
  have shift: "slot_entry pm_pid (x # xs) p = (if pm_pid x = p then Some x else slot_entry pm_pid xs p)"
    for x :: pid_tenant_mapping and xs
    by (simp add: slot_entry_def option.map_comp comp_def)
  have none: "slot_entry pm_pid ms p = None" if "pm_pid m = p"
    using that u(2) Cons.prems(2)
    by (simp add: slot_entry_None find_slot_None_iff) (metis image_eqI)
  show ?case
    using Cons.IH [OF u(1) Cons.prems(2)] Cons.prems(2) none by (simp add: shift)
qed (simp add: slot_entry_def)

lemma binding_delete:
  fixes ms :: "pid_tenant_mapping list"
  assumes "keys_unique pm_pid ms"
  shows "tenant_binding (map (\<lambda>m. if pm_tenant_id m = tid then m\<lparr>pm_pid := 0, pm_tenant_id := 0\<rparr> else m) ms)
    = (\<lambda>p. if tenant_binding ms p = Some tid then None else tenant_binding ms p)"
  using slot_entry_map_clear [OF assms]
  by (auto simp: tenant_binding_def fun_eq_iff split: option.splits)

lemma binding_dom: "tenant_binding ms p \<noteq> None \<longleftrightarrow> p \<noteq> 0 \<and> p \<in> pm_pid ` set ms"
proof -
  have "slot_entry pm_pid ms p \<noteq> None \<longleftrightarrow> p \<in> pm_pid ` set ms"
    by (auto simp: slot_entry_None find_slot_None_iff)
  then show ?thesis by (simp add: tenant_binding_def)
qed

lemma binding_full:
  assumes "tenant_safe d"
  shows "(card (dom (binding (tenant_abs d))) = MAX_PROCESSES)
    = (find_slot (\<lambda>m. pm_pid m = 0) (pid_mappings d) = None)"
proof -
  have "dom (binding (tenant_abs d)) = {p. p \<noteq> 0 \<and> p \<in> pm_pid ` set (pid_mappings d)}"
    using binding_dom by (auto simp: tenant_abs_def dom_def)
  then show ?thesis
    using assms card_keys [of pm_pid "pid_mappings d"] count_slots_full [of "\<lambda>m. pm_pid m \<noteq> 0" "pid_mappings d"]
    by (simp add: tenant_safe_def)
qed

section \<open>Refinement\<close>

text \<open>The process has the object mapped.\<close>

definition tenant_attached :: "tenant_state \<Rightarrow> bool" where
  "tenant_attached s \<longleftrightarrow> tenant_inv tenant_safe s \<and> g_tenant_shm_mapped s"

lemma attachedD:
  "tenant_attached s \<Longrightarrow> \<exists>d. tenant_object s = Some d \<and> tenant_safe d \<and> tenant_shm_get_ptr env s = (Some d, s)"
  by (auto simp: tenant_attached_def tenant_inv_def tenant_shm_get_ptr_def Let_def)

lemma attached_abs: "tenant_object s = Some d \<Longrightarrow> tenant_state_abs s = tenant_abs d"
  by (simp add: tenant_state_abs_def)

text \<open>A locked operation on an attached table is its body.\<close>

lemma with_attached:
  assumes "tenant_attached s"
    and body: "\<And>d. tenant_safe d \<Longrightarrow>
      map_prod id tenant_abs (body d) = spec (tenant_abs d)"
  shows "map_prod id tenant_state_abs (with_tenant_shm env err body s) = spec (tenant_state_abs s)"
proof -
  obtain d where d: "tenant_object s = Some d" "tenant_safe d" "tenant_shm_get_ptr env s = (Some d, s)"
    using attachedD [OF assms(1)] by metis
  have "map_prod id tenant_abs (body (tenant_shm_lock d)) = spec (tenant_state_abs s)"
    using body [of "tenant_shm_lock d"] d safe.lock_unlock by (simp add: attached_abs)
  then show ?thesis
    using d by (auto simp: with_tenant_shm_def tenant_state_abs_def split: prod.splits)
qed

lemma create_refines:
  "tenant_attached s \<Longrightarrow>
   map_prod id tenant_state_abs (tenant_create env tid name q s) = spec_create tid q (tenant_state_abs s)"
proof (cases "tid = 0 \<or> unat tid \<ge> MAX_TENANTS")
  case False
  assume "tenant_attached s"
  then show ?thesis
    using False unfolding tenant_create_def
    by (simp only: if_False, intro with_attached)
       (auto simp: spec_create_def members_abs tenant_abs_upd zero_tenant_def Let_def)
qed (auto simp: tenant_create_def spec_create_def)

lemma delete_refines:
  assumes "tenant_attached s"
  shows "map_prod id tenant_state_abs (tenant_delete env tid s) = spec_delete tid (tenant_state_abs s)"
proof (cases "tid = 0 \<or> unat tid \<ge> MAX_TENANTS")
  case True
  then show ?thesis
    by (auto simp: tenant_delete_def spec_delete_def tenant_state_abs_def members_abs_beyond
        empty_table_def split: option.splits)
next
  case False
  show ?thesis
    using False unfolding tenant_delete_def
  proof (simp only: if_False, intro with_attached assms, goal_cases)
    case (1 d)
    then have "keys_unique pm_pid (pid_mappings d)" by (simp add: tenant_safe_def)
    note b = binding_delete [OF this]
    have "tenant_safe (d\<lparr>pid_mappings := map (\<lambda>m. if pm_tenant_id m = tid
           then m\<lparr>pm_pid := 0, pm_tenant_id := 0\<rparr> else m) (pid_mappings d)\<rparr>)"
      using 1 by (intro tenant_safe_clear)
    with 1 show ?case
      by (auto simp: spec_delete_def members_abs clear_mappings_eq Let_def tenant_abs_upd
          tenant_abs_mappings upd_tenant_fields b binding_abs cong: if_cong)
  qed
qed

lemma set_status_refines:
  assumes "tenant_attached s"
  shows "map_prod id tenant_state_abs (tenant_set_status env tid st s) = spec_set_status tid st (tenant_state_abs s)"
proof (cases "unat tid \<ge> MAX_TENANTS")
  case True
  then show ?thesis
    by (auto simp: tenant_set_status_def spec_set_status_def tenant_state_abs_def members_abs_beyond
        empty_table_def split: option.splits)
next
  case False
  then show ?thesis
    unfolding tenant_set_status_def
    by (simp only: if_False, intro with_attached assms)
       (auto simp: spec_set_status_def members_abs tenant_abs_upd Let_def split: option.splits)
qed

lemma update_quota_refines:
  assumes "tenant_attached s"
  shows "map_prod id tenant_state_abs (tenant_update_quota env tid q s) = spec_update_quota tid q (tenant_state_abs s)"
proof (cases "unat tid \<ge> MAX_TENANTS \<or> q = None")
  case True
  then show ?thesis
    by (auto simp: tenant_update_quota_def spec_update_quota_def tenant_state_abs_def members_abs_beyond
        empty_table_def split: option.splits)
next
  case False
  then obtain q' where q: "q = Some q'" and tid: "\<not> MAX_TENANTS \<le> unat tid" by auto
  show ?thesis
    using tid unfolding tenant_update_quota_def q option.case
    by (simp only: if_False, intro with_attached assms)
       (auto simp: spec_update_quota_def members_abs tenant_abs_upd Let_def split: option.splits)
qed

lemma update_usage_refines:
  assumes "tenant_attached s"
  shows "map_prod id tenant_state_abs (tenant_update_resource_usage env tid u s) = spec_update_usage tid u (tenant_state_abs s)"
proof (cases "unat tid \<ge> MAX_TENANTS \<or> u = None")
  case True
  then show ?thesis
    by (auto simp: tenant_update_resource_usage_def spec_update_usage_def tenant_state_abs_def
        members_abs_beyond empty_table_def split: option.splits)
next
  case False
  then obtain u' where u: "u = Some u'" and tid: "\<not> MAX_TENANTS \<le> unat tid" by auto
  show ?thesis
    using tid unfolding tenant_update_resource_usage_def u option.case
    by (simp only: if_False, intro with_attached assms)
       (auto simp: spec_update_usage_def members_abs tenant_abs_upd Let_def
        split: option.splits if_splits)
qed

lemma tenant_abs_upd_same:
  assumes "\<And>t. ti_status (f t) = ti_status t" "\<And>t. ti_quota (f t) = ti_quota t" "\<And>t. ti_usage (f t) = ti_usage t"
  shows "tenant_abs (upd_tenant tid f d) = tenant_abs d"
proof -
  have "tenant_members (upd_tenant tid f d) x = tenant_members d x" for x
    by (cases "x = tid"; cases "unat tid < length (tenants d)")
       (simp_all add: tenant_members_def assms, simp add: upd_tenant_def list_update_beyond)
  then show ?thesis by (simp add: tenant_abs_def fun_eq_iff)
qed

lemma bind_data_abs:
  assumes "pid \<noteq> 0"
    and "find_slot (\<lambda>m. pm_pid m = pid) (pid_mappings d) = Some i
      \<or> find_slot (\<lambda>m. pm_pid m = pid) (pid_mappings d) = None
        \<and> find_slot (\<lambda>m. pm_pid m = 0) (pid_mappings d) = Some i"
  shows "tenant_abs (bind_data env pid tid fresh i d)
    = (tenant_abs d)\<lparr>binding := (binding (tenant_abs d))(pid \<mapsto> tid)\<rparr>"
  using binding_write [of "\<lparr>pm_pid = pid, pm_tenant_id = tid, pm_mapped_at = tenv_time env 1\<rparr>" "pid_mappings d" i] assms
  unfolding bind_data_def
  by (subst tenant_abs_upd_same) (simp_all add: tenant_abs_mappings binding_abs)

lemma bind_refines:
  assumes a: "tenant_attached s" and pid: "pid \<noteq> 0"
  shows "map_prod id tenant_state_abs (tenant_bind_process env pid tid s) = spec_bind pid tid (tenant_state_abs s)"
proof (cases "unat tid \<ge> MAX_TENANTS")
  case True
  with a show ?thesis
    by (auto simp: tenant_attached_def tenant_bind_eq spec_bind_def tenant_state_abs_def
        members_abs_beyond empty_table_def split: option.splits)
next
  case False
  have "tenant_inv tenant_safe s" using a by (simp add: tenant_attached_def)
  from tenant_bind_eq [OF this] False
  have "tenant_bind_process env pid tid s = with_tenant_shm env (-1) (bind_body env pid tid) s" by simp
  also have "map_prod id tenant_state_abs \<dots> = spec_bind pid tid (tenant_state_abs s)"
  proof (rule with_attached [OF a])
    fix d
    assume d: "tenant_safe d"
    show "map_prod id tenant_abs (bind_body env pid tid d) = spec_bind pid tid (tenant_abs d)"
    proof (cases "find_slot (\<lambda>m. pm_pid m = pid) (pid_mappings d)")
      case None
      then have "binding (tenant_abs d) pid = None"
        by (simp add: binding_abs tenant_binding_def slot_entry_def)
      with None d False pid show ?thesis
        by (auto simp: bind_body_def spec_bind_def members_abs bind_data_abs binding_full
            split: option.splits tenant_status.splits)
    next
      case (Some i)
      then have "binding (tenant_abs d) pid \<noteq> None"
        using pid by (simp add: binding_abs tenant_binding_def slot_entry_def)
      with Some d False pid show ?thesis
        by (auto simp: bind_body_def spec_bind_def members_abs bind_data_abs
            split: option.splits tenant_status.splits)
    qed
  qed
  finally show ?thesis .
qed

lemma unbind_refines:
  assumes a: "tenant_attached s" and pid: "pid \<noteq> 0"
  shows "map_prod id tenant_state_abs (tenant_unbind_process env pid s) = spec_unbind pid (tenant_state_abs s)"
proof -
  have "tenant_inv tenant_safe s" using a by (simp add: tenant_attached_def)
  from tenant_unbind_eq [OF this]
  have "tenant_unbind_process env pid s = with_tenant_shm env (-1) (unbind_body pid) s" by simp
  also have "map_prod id tenant_state_abs \<dots> = spec_unbind pid (tenant_state_abs s)"
  proof (rule with_attached [OF a])
    fix d
    assume d: "tenant_safe d"
    show "map_prod id tenant_abs (unbind_body pid d) = spec_unbind pid (tenant_abs d)"
    proof (cases "find_slot (\<lambda>m. pm_pid m = pid) (pid_mappings d)")
      case None
      then show ?thesis
        by (simp add: unbind_body_def spec_unbind_def binding_abs tenant_binding_def slot_entry_def)
    next
      case (Some i)
      then have b: "binding (tenant_abs d) pid \<noteq> None"
        using pid by (simp add: binding_abs tenant_binding_def slot_entry_def)
      have "keys_unique pm_pid (pid_mappings d)" using d by (simp add: tenant_safe_def)
      then have "tenant_abs (unbind_data pid i d) = (tenant_abs d)\<lparr>binding := (binding (tenant_abs d))(pid := None)\<rparr>"
        unfolding unbind_data_def using Some pid
        by (simp add: tenant_abs_mappings tenant_abs_upd_same binding_clear binding_abs)
      with Some b show ?thesis by (simp add: unbind_body_def spec_unbind_def)
    qed
  qed
  finally show ?thesis .
qed

section \<open>The binding as a keyed table\<close>

definition tenant_binding_view :: "tenant_state \<Rightarrow> pid_t \<Rightarrow> u32 option" where
  "tenant_binding_view s = binding (tenant_state_abs s)"

text \<open>A binding the table accepts when it has room: a process id, and an active tenant.\<close>

definition bindable :: "tenant_state \<Rightarrow> pid_t \<Rightarrow> u32 \<Rightarrow> bool" where
  "bindable s pid tid \<longleftrightarrow> pid \<noteq> 0 \<and>
     (case members (tenant_state_abs s) tid of Some (TENANT_STATUS_ACTIVE, _, _) \<Rightarrow> True | _ \<Rightarrow> False)"

definition bind_put :: "tenant_env \<Rightarrow> pid_t \<Rightarrow> u32 \<Rightarrow> tenant_state \<Rightarrow> tenant_state option" where
  "bind_put env pid tid s =
     (case tenant_bind_process env pid tid s of (rc, s') \<Rightarrow> if rc = 0 then Some s' else None)"

lemma with_attached_stays:
  assumes "tenant_attached s" "\<And>d. tenant_safe d \<Longrightarrow> tenant_safe (snd (body d))"
  shows "tenant_attached (snd (with_tenant_shm env err body s))"
  using assms safe.with_inv [of s body env err] attachedD [OF assms(1), of env]
  by (auto simp: tenant_attached_def with_tenant_shm_def split: prod.splits)

lemma bind_attached: "tenant_attached s \<Longrightarrow> tenant_attached (snd (tenant_bind_process env pid tid s))"
  by (frule tenant_attached_def [THEN iffD1], drule conjunct1)
     (auto simp: tenant_bind_eq bind_body_def intro!: with_attached_stays bind_data_safe split: option.splits)

lemma bind_put_abs:
  assumes "tenant_attached s" "bindable s pid tid"
  shows "bind_put env pid tid s = None \<longleftrightarrow>
     binding (tenant_state_abs s) pid = None \<and> card (dom (binding (tenant_state_abs s))) = MAX_PROCESSES"
    and "bind_put env pid tid s = Some s' \<Longrightarrow>
     tenant_state_abs s' = (tenant_state_abs s)\<lparr>binding := (binding (tenant_state_abs s))(pid \<mapsto> tid)\<rparr>"
  using assms bind_refines [OF assms(1), of pid env tid]
  by (auto simp: bind_put_def bindable_def spec_bind_def split: option.splits prod.splits if_splits
      tenant_status.splits)

interpretation tenant_binding_table: keyed_table tenant_attached bindable tenant_binding_view "bind_put env"
  for env
proof (unfold_locales, goal_cases)
  case (1 s pid tid s')
  then show ?case using bind_attached [of s env pid tid] by (auto simp: bind_put_def split: prod.splits if_splits)
next
  case (2 s pid tid s')
  then show ?case using bind_put_abs(2) [OF 2] by (simp add: tenant_binding_view_def)
next
  case (3 s pid tid)
  then show ?case using bind_put_abs(1) [OF 3(1,2)] by (simp add: tenant_binding_view_def)
next
  case (4 s pid tid s' q u)
  then show ?case using bind_put_abs(2) [OF 4(1-3)] by (simp add: bindable_def)
qed

section \<open>Sequences of calls\<close>

lemma run_refines:
  "tenant_attached s \<Longrightarrow> tenant_mutator c \<Longrightarrow>
   map_prod id tenant_state_abs (tenant_run c s) = spec_run c (tenant_state_abs s)"
  by (cases c) (simp_all add: create_refines delete_refines set_status_refines
      update_quota_refines bind_refines unbind_refines update_usage_refines)

lemma exec_abs:
  "tenant_attached s \<Longrightarrow> tenant_mutator c \<Longrightarrow>
   tenant_state_abs (tenant_exec c s) = snd (spec_run c (tenant_state_abs s))"
  using arg_cong [OF run_refines [of s c], of snd] by (simp add: tenant_exec_def)

text \<open>Only \<open>tenant_shm_destroy\<close> unmaps the object.\<close>

lemma with_mapped:
  "tenant_attached s \<Longrightarrow> g_tenant_shm_mapped (snd (with_tenant_shm env err body s))"
  using attachedD [of s env] by (auto simp: tenant_attached_def with_tenant_shm_def split: prod.splits)

lemma exec_attached:
  assumes "tenant_attached s" "case c of TenantDestroy _ \<Rightarrow> False | _ \<Rightarrow> True"
  shows "tenant_attached (tenant_exec c s)"
proof -
  have m: "g_tenant_shm_mapped s" using assms(1) by (simp add: tenant_attached_def)
  have "g_tenant_shm_mapped (tenant_exec c s)"
    using assms(2) m
    by (cases c)
       (simp_all add: with_mapped [OF assms(1)] tenant_exec_def tenant_shm_init_def tenant_create_def tenant_delete_def
        tenant_set_status_def tenant_update_quota_def tenant_bind_process_def
        tenant_unbind_process_def tenant_update_resource_usage_def tenant_readers split: option.split)
  with assms(1) tenant_exec_safe show ?thesis by (simp add: tenant_attached_def)
qed

text \<open>A concrete environment, and the table it attaches.\<close>

definition ok_tenant_env :: tenant_env where
  "ok_tenant_env = \<lparr>tenv_shm_open = 4, tenv_ftruncate = 0, tenv_mmap_ok = True,
     tenv_fstat_full = True, tenv_unlink_ok = True, tenv_time = (\<lambda>_. 7)\<rparr>"

definition fresh_tenants :: tenant_state where
  "fresh_tenants = tenant_exec (TenantInit ok_tenant_env) tenant_start"

lemma fresh_tenants_attached: "tenant_attached fresh_tenants"
  using tenant_exec_safe [OF tenant_start_inv, of "TenantInit ok_tenant_env"]
  by (simp add: tenant_attached_def fresh_tenants_def tenant_exec_def tenant_shm_init_def
      tenant_start_def ok_tenant_env_def Let_def)

lemma tenant_at_zero: "unat tid < MAX_TENANTS \<Longrightarrow> tenant_at zero_tenant_data tid = zero_tenant"
  by (simp add: tenant_at_def zero_tenant_data_def)

lemma zero_abs: "tenant_abs (zero_tenant_data\<lparr>tenant_version := v, tenant_last_update_time := t\<rparr>) = empty_table"
proof -
  have "tenant_members zero_tenant_data tid = None" for tid
    by (simp add: tenant_members_def tenant_at_zero zero_tenant_def)
  moreover have "tenant_binding (pid_mappings zero_tenant_data) p = None" for p
    by (simp add: tenant_binding_def zero_tenant_data_def zero_mapping_def slot_entry_def
        find_slot_replicate)
  moreover have "tenant_abs (zero_tenant_data\<lparr>tenant_version := v, tenant_last_update_time := t\<rparr>) = tenant_abs zero_tenant_data"
    by (simp add: tenant_abs_def tenant_members_def tenant_at_def fun_eq_iff)
  ultimately show ?thesis by (simp add: tenant_abs_def empty_table_def fun_eq_iff)
qed

lemma fresh_tenants_abs: "tenant_state_abs fresh_tenants = empty_table"
  by (simp add: fresh_tenants_def tenant_exec_def tenant_shm_init_def tenant_start_def
      ok_tenant_env_def Let_def tenant_state_abs_def zero_abs)
     (simp add: zero_tenant_data_def)

text \<open>Tenants 1 and 2 with the default quota, process 42 bound to tenant 1.\<close>

definition two_tenants :: tenant_state where
  "two_tenants = fold tenant_exec
     [TenantCreate ok_tenant_env 1 (Some ''one'') None, TenantCreate ok_tenant_env 2 None None,
      TenantBind ok_tenant_env 42 1] fresh_tenants"

lemma two_tenants_attached: "tenant_attached two_tenants"
  by (simp add: two_tenants_def exec_attached fresh_tenants_attached)

lemma two_tenants_abs:
  "tenant_state_abs two_tenants =
     \<lparr>members = [1 \<mapsto> (TENANT_STATUS_ACTIVE, default_tenant_quota, zero_tenant_usage),
                2 \<mapsto> (TENANT_STATUS_ACTIVE, default_tenant_quota, zero_tenant_usage)],
      binding = [42 \<mapsto> 1]\<rparr>"
  by (simp add: two_tenants_def exec_attached fresh_tenants_attached exec_abs fresh_tenants_abs
      spec_create_def spec_bind_def empty_table_def MAX_TENANTS_def MAX_PROCESSES_def)

section \<open>Properties\<close>

text \<open>
  Memory safety of the tenant table. Whatever sequence of calls is made, with any arguments
  and any answer of the operating system, the arrays keep their size, no process has two mappings,
  and every tenant id stored in a mapping indexes the tenant array, so that the access
  \<open>tenants[tenant_id]\<close> of \<open>tenant_unbind_process\<close> stays inside it.
\<close>

theorem tenant_table_safe:
  "tenant_inv tenant_safe (fold tenant_exec calls tenant_start)"
  by (rule fold_invariant [where P = "tenant_inv tenant_safe"])
     (simp_all add: tenant_start_inv tenant_exec_safe)

text \<open>
  C22 (exact counters). As long as process 0 is never bound or released and no tenant is given
  the status INACTIVE, the two counters are exactly the number of bound processes and of tenants
  in use, and every bound process belongs to a tenant in use.
\<close>

theorem tenant_counters_exact:
  assumes "\<forall>c\<in>set calls. tenant_legal c"
    and "tenant_object (fold tenant_exec calls tenant_start) = Some d"
  shows "unat (total_process_count d) = count_slots (\<lambda>m. pm_pid m \<noteq> 0) (pid_mappings d)
    \<and> unat (active_tenant_count d)
        = count_slots (\<lambda>t. ti_status t \<noteq> TENANT_STATUS_INACTIVE) (tenants d)
    \<and> (\<forall>m\<in>set (pid_mappings d). pm_pid m \<noteq> 0 \<longrightarrow>
         ti_status (tenant_at d (pm_tenant_id m)) \<noteq> TENANT_STATUS_INACTIVE)"
proof -
  have "tenant_inv tenant_exact s \<Longrightarrow> \<forall>c\<in>set calls. tenant_legal c \<Longrightarrow>
      tenant_inv tenant_exact (fold tenant_exec calls s)" for s
    by (induction calls arbitrary: s) (simp_all add: tenant_exec_exact)
  from this [OF tenant_start_inv assms(1)] assms(2) have e: "tenant_exact d" by (simp add: tenant_inv_def)
  then have s: "length (pid_mappings d) = 1024" "length (tenants d) = 64"
    by (simp_all add: tenant_exact_def tenant_safe_def MAX_PROCESSES_def MAX_TENANTS_def)
  have "count_slots (\<lambda>m. pm_pid m \<noteq> 0) (pid_mappings d) < 4294967296"
    "count_slots (\<lambda>t. ti_status t \<noteq> TENANT_STATUS_INACTIVE) (tenants d) < 4294967296"
    using count_slots_le [of "\<lambda>m. pm_pid m \<noteq> 0" "pid_mappings d"]
      count_slots_le [of "\<lambda>t. ti_status t \<noteq> TENANT_STATUS_INACTIVE" "tenants d"] s by simp_all
  with e show ?thesis by (simp add: tenant_exact_def unat_count32)
qed

text \<open>Two tenants and one bound process: the counters read 2 and 1.\<close>

definition two_tenants_calls :: "tenant_call list" where
  "two_tenants_calls = [TenantInit ok_tenant_env, TenantCreate ok_tenant_env 1 (Some ''one'') None,
     TenantCreate ok_tenant_env 2 None None, TenantBind ok_tenant_env 42 1]"

lemma two_tenants_fold: "fold tenant_exec two_tenants_calls tenant_start = two_tenants"
  by (simp add: two_tenants_calls_def two_tenants_def fresh_tenants_def)

theorem tenant_counters_exact_witness:
  "\<exists>d. tenant_object two_tenants = Some d \<and>
     unat (total_process_count d) = count_slots (\<lambda>m. pm_pid m \<noteq> 0) (pid_mappings d) \<and>
     binding (tenant_abs d) 42 = Some 1"
proof -
  obtain d where d: "tenant_object two_tenants = Some d"
    using attachedD [OF two_tenants_attached] by blast
  have l: "\<forall>c\<in>set two_tenants_calls. tenant_legal c" by (simp add: two_tenants_calls_def)
  have o: "tenant_object (fold tenant_exec two_tenants_calls tenant_start) = Some d"
    using d by (simp add: two_tenants_fold)
  have "binding (tenant_abs d) 42 = Some 1"
    using two_tenants_abs d by (simp add: tenant_state_abs_def)
  with d tenant_counters_exact [OF l o] show ?thesis by blast
qed

text \<open>
  C16 (refinement). On an attached table every call that creates, deletes, suspends, configures or
  binds returns the code and leaves the table that the abstract specification gives: tenants are
  a partial map with status, quota and usage, bindings a partial map from processes to tenants;
  deleting a tenant releases exactly its processes, and a binding is refused exactly when the
  tenant is not active or a new process finds 1024 bound ones.
\<close>

theorem tenant_table_refines:
  assumes "tenant_attached s" and "tenant_mutator c"
  shows "fst (tenant_run c s) = fst (spec_run c (tenant_state_abs s))
    \<and> tenant_state_abs (snd (tenant_run c s)) = snd (spec_run c (tenant_state_abs s))
    \<and> tenant_attached (snd (tenant_run c s))"
  using run_refines [OF assms] exec_attached [OF assms(1), of c] assms(2)
  by (cases "tenant_run c s"; cases c) (auto simp: tenant_exec_def prod_eq_iff)

text \<open>Deleting tenant 1 releases process 42.\<close>

theorem tenant_table_refines_witness:
  "fst (tenant_run (TenantDelete ok_tenant_env 1) two_tenants) = 0
   \<and> binding (tenant_state_abs (snd (tenant_run (TenantDelete ok_tenant_env 1) two_tenants))) 42 = None"
  using tenant_table_refines [OF two_tenants_attached, of "TenantDelete ok_tenant_env 1"]
  by (simp add: two_tenants_abs spec_delete_def)

text \<open>What a reader of the binding returns.\<close>

lemma get_process_tenant_view:
  assumes "tenant_attached s" "pid \<noteq> 0"
  shows "fst (tenant_get_process_tenant env pid True s) =
    (case tenant_binding_view s pid of None \<Rightarrow> (-1, Some 0) | Some tid \<Rightarrow> (0, Some tid))"
proof -
  obtain d where d: "tenant_object s = Some d" "tenant_shm_get_ptr env s = (Some d, s)"
    using attachedD [OF assms(1)] by metis
  have "pid_mappings (tenant_shm_lock d) = pid_mappings d" by (simp add: tenant_shm_lock_def)
  with d assms(2) show ?thesis
    by (auto simp: tenant_get_process_tenant_def with_tenant_shm_def tenant_binding_view_def
        tenant_state_abs_def binding_abs tenant_binding_def slot_entry_def split: option.splits)
qed

text \<open>
  Bind then look up. After a successful binding, looking the process up gives the tenant it
  was bound to, and every other process is looked up as before.
\<close>

theorem tenant_bind_then_get:
  assumes "tenant_attached s" "bindable s pid tid" and "fst (tenant_bind_process env pid tid s) = 0"
  shows "fst (tenant_get_process_tenant env' pid True (snd (tenant_bind_process env pid tid s))) = (0, Some tid)
    \<and> (\<forall>q. q \<noteq> pid \<and> q \<noteq> 0 \<longrightarrow>
         fst (tenant_get_process_tenant env' q True (snd (tenant_bind_process env pid tid s)))
           = fst (tenant_get_process_tenant env' q True s))"
proof -
  let ?s = "snd (tenant_bind_process env pid tid s)"
  have put: "bind_put env pid tid s = Some ?s" using assms(3) by (auto simp: bind_put_def split: prod.splits)
  have "pid \<noteq> 0" using assms(2) by (simp add: bindable_def)
  with tenant_binding_table.put_view [OF assms(1,2) put] tenant_binding_table.put_wf [OF assms(1,2) put] assms(1)
  show ?thesis by (simp add: get_process_tenant_view)
qed

text \<open>Process 43 is bound to tenant 2 and found there; process 42 stays with tenant 1.\<close>

theorem tenant_bind_then_get_witness:
  "let s = snd (tenant_bind_process ok_tenant_env 43 2 two_tenants)
   in fst (tenant_get_process_tenant ok_tenant_env 43 True s) = (0, Some 2)
      \<and> fst (tenant_get_process_tenant ok_tenant_env 42 True s) = (0, Some 1)"
proof -
  have b: "bindable two_tenants 43 2" by (simp add: bindable_def two_tenants_abs)
  have ok: "fst (tenant_bind_process ok_tenant_env 43 2 two_tenants) = 0"
    using arg_cong [OF bind_refines [OF two_tenants_attached, of 43 ok_tenant_env 2], of fst]
    by (simp add: two_tenants_abs spec_bind_def MAX_PROCESSES_def)
  show ?thesis
    using tenant_bind_then_get [OF two_tenants_attached b ok, of ok_tenant_env]
      get_process_tenant_view [OF two_tenants_attached, of 42 ok_tenant_env]
    by (simp add: tenant_binding_view_def two_tenants_abs)
qed

text \<open>A locked operation on an attached table, computed.\<close>

lemma with_attached_eq:
  assumes "tenant_attached s" "tenant_object s = Some d"
  shows "with_tenant_shm env err body s =
    (fst (body (tenant_shm_lock d)),
     s\<lparr>tenant_object := Some (tenant_shm_unlock (tenv_time env 9) (snd (body (tenant_shm_lock d))))\<rparr>)"
  using assms attachedD [OF assms(1), of env]
  by (auto simp: with_tenant_shm_def split: prod.splits)

lemma tenant_at_lock [simp]:
  "tenant_at (tenant_shm_lock d) tid = tenant_at d tid"
  "tenant_at (tenant_shm_unlock now d) tid = tenant_at d tid"
  "pid_mappings (tenant_shm_lock d) = pid_mappings d"
  "tenants (tenant_shm_lock d) = tenants d"
  "active_tenant_count (tenant_shm_lock d) = active_tenant_count d"
  "active_tenant_count (tenant_shm_unlock now d) = active_tenant_count d"
  by (simp_all add: tenant_shm_lock_def tenant_shm_unlock_def tenant_at_def)

text \<open>
  Rebinding leaves stale bookkeeping. Binding a process that is already bound moves its
  mapping to the new tenant, but no tenant's process count or process list changes: the old tenant
  still lists the process and the new one does not count it.
\<close>

theorem tenant_rebind_stale:
  assumes a: "tenant_attached s" and d: "tenant_object s = Some d"
    and old: "tenant_binding_view s pid \<noteq> None" and new: "bindable s pid tid"
  shows "\<exists>d'. tenant_object (snd (tenant_bind_process env pid tid s)) = Some d'
    \<and> fst (tenant_bind_process env pid tid s) = 0
    \<and> binding (tenant_abs d') pid = Some tid
    \<and> (\<forall>t. ti_process_count (tenant_at d' t) = ti_process_count (tenant_at d t)
           \<and> ti_processes (tenant_at d' t) = ti_processes (tenant_at d t))"
proof -
  have sf: "tenant_safe d" "tenant_inv tenant_safe s"
    using a d by (simp_all add: tenant_attached_def tenant_inv_def)
  have tid: "unat tid < MAX_TENANTS" "ti_status (tenant_at d tid) = TENANT_STATUS_ACTIVE" "pid \<noteq> 0"
    using new d by (cases "ti_status (tenant_at d tid)"; auto simp: bindable_def
        tenant_state_abs_def tenant_abs_def tenant_members_def split: option.splits if_splits)+
  obtain i where i: "find_slot (\<lambda>m. pm_pid m = pid) (pid_mappings d) = Some i"
    using old d tid by (auto simp: tenant_binding_view_def tenant_state_abs_def binding_abs
        tenant_binding_def slot_entry_def)
  let ?d = "bind_data env pid tid False i (tenant_shm_lock d)"
  have r: "tenant_bind_process env pid tid s = (0, s\<lparr>tenant_object := Some (tenant_shm_unlock (tenv_time env 9) ?d)\<rparr>)"
    using tid i by (simp add: tenant_bind_eq [OF sf(2)] with_attached_eq [OF a d] bind_body_def)
  have "ti_process_count (tenant_at ?d t) = ti_process_count (tenant_at d t)
      \<and> ti_processes (tenant_at ?d t) = ti_processes (tenant_at d t)" for t
    using sf(1) tid unfolding bind_data_def
    by (cases "t = tid") (simp_all add: tenant_safe_def)
  moreover have "binding (tenant_abs ?d) pid = Some tid"
    using bind_data_abs [of pid "tenant_shm_lock d" i] i tid by simp
  ultimately show ?thesis by (simp add: r)
qed

text \<open>Process 42 moves from tenant 1 to tenant 2.\<close>

theorem tenant_rebind_stale_witness:
  "tenant_binding_view two_tenants 42 = Some 1
   \<and> fst (tenant_bind_process ok_tenant_env 42 2 two_tenants) = 0"
proof -
  obtain d where d: "tenant_object two_tenants = Some d"
    using attachedD [OF two_tenants_attached] by blast
  have v: "tenant_binding_view two_tenants 42 = Some 1"
    by (simp add: tenant_binding_view_def two_tenants_abs)
  have b: "bindable two_tenants 42 2" by (simp add: bindable_def two_tenants_abs)
  from tenant_rebind_stale [OF two_tenants_attached d _ b] v show ?thesis by auto
qed

text \<open>
  A tenant set to INACTIVE is still counted. Setting the status of a tenant in use to
  INACTIVE succeeds without decrementing the number of active tenants; creating the tenant again
  succeeds and increments it once more, although no other tenant came into use.
\<close>

theorem tenant_inactive_counted_twice:
  fixes env env' :: tenant_env and name :: "string option" and q :: "tenant_quota option"
  assumes a: "tenant_attached s" and d: "tenant_object s = Some d"
    and use: "members (tenant_abs d) tid \<noteq> None" and tid: "tid \<noteq> 0"
  defines "s1 \<equiv> snd (tenant_set_status env tid TENANT_STATUS_INACTIVE s)"
  defines "s2 \<equiv> snd (tenant_create env' tid name q s1)"
  shows "\<exists>d2. tenant_object s2 = Some d2 \<and> active_tenant_count d2 = active_tenant_count d + 1
    \<and> (\<forall>t. (members (tenant_abs d2) t = None) = (members (tenant_abs d) t = None))"
proof -
  have sf: "tenant_safe d" using a d by (simp add: tenant_attached_def tenant_inv_def)
  have t: "\<not> unat tid \<ge> MAX_TENANTS" "ti_status (tenant_at d tid) \<noteq> TENANT_STATUS_INACTIVE"
    using use by (auto simp: tenant_abs_def tenant_members_def split: if_splits)
  let ?f = "\<lambda>t. t\<lparr>ti_status := TENANT_STATUS_INACTIVE, ti_last_active_at := tenv_time env 1\<rparr>"
  let ?d1 = "tenant_shm_unlock (tenv_time env 9) (upd_tenant tid ?f (tenant_shm_lock d))"
  have s1: "s1 = s\<lparr>tenant_object := Some ?d1\<rparr>"
    using t by (simp add: s1_def tenant_set_status_def with_attached_eq [OF a d])
  have a1: "tenant_attached s1"
    using exec_attached [OF a, of "TenantSetStatus env tid TENANT_STATUS_INACTIVE"]
    by (simp add: s1_def tenant_exec_def)
  have o1: "tenant_object s1 = Some ?d1" by (simp add: s1)
  have l: "unat tid < length (tenants d)" using t sf by (simp add: tenant_safe_def)
  have i1: "ti_status (tenant_at ?d1 tid) = TENANT_STATUS_INACTIVE" using l by simp
  obtain d2 where d2: "tenant_object s2 = Some d2" "active_tenant_count d2 = active_tenant_count ?d1 + 1"
    using t(1) tid i1
    by (simp add: s2_def tenant_create_def with_attached_eq [OF a1 o1] Let_def)
  have m: "members (tenant_state_abs s2) = (members (tenant_state_abs s1))(tid \<mapsto>
      (TENANT_STATUS_ACTIVE, case q of None \<Rightarrow> default_tenant_quota | Some q \<Rightarrow> q, zero_tenant_usage))"
    using arg_cong [OF create_refines [OF a1, of env' tid name q], of snd] t(1) tid i1
    by (simp add: s2_def spec_create_def attached_abs [OF o1] members_abs)
  have "members (tenant_state_abs s1) = (members (tenant_abs d))(tid := None)"
    using t sf safe.lock_unlock(1) [OF sf] by (simp add: attached_abs [OF o1] tenant_abs_upd)
  with m d2 use show ?thesis by (auto simp: attached_abs [OF d2(1)] tenant_state_abs_def)
qed

text \<open>Tenant 2 of the example.\<close>

theorem tenant_inactive_counted_twice_witness:
  "\<exists>d d2. tenant_object two_tenants = Some d
    \<and> tenant_object (snd (tenant_create ok_tenant_env 2 None None
        (snd (tenant_set_status ok_tenant_env 2 TENANT_STATUS_INACTIVE two_tenants)))) = Some d2
    \<and> active_tenant_count d2 = active_tenant_count d + 1"
proof -
  obtain d where d: "tenant_object two_tenants = Some d"
    using attachedD [OF two_tenants_attached] by blast
  have "members (tenant_abs d) 2 \<noteq> None" using two_tenants_abs d by (simp add: tenant_state_abs_def)
  from tenant_inactive_counted_twice [OF two_tenants_attached d this,
    where env = ok_tenant_env and env' = ok_tenant_env and name = None and q = None] d
  show ?thesis by auto
qed

end
