(* ===== verification/Hooks_Tenant.thy ===== *)
theory Hooks_Tenant
  imports Intercept_Core Tenant_Spec
begin

text \<open>
  The verbs hooks with tenant admission (\<open>src/rdma_hooks_tenant.c\<close>, the hook file of
  the build): lazy initialisation, the restriction checks, and the intercepted
  \<open>ibv_create_qp\<close>, \<open>ibv_destroy_qp\<close>, \<open>ibv_reg_mr\<close>,
  \<open>ibv_dereg_mr\<close>, \<open>ibv_create_cq\<close>, \<open>ibv_destroy_cq\<close>,
  \<open>ibv_alloc_pd\<close>, \<open>ibv_dealloc_pd\<close>.

  The RDMA driver is outside the repository: what it answers to the one call a hook makes is in
  the argument \<open>hook_env\<close>, and every call that reaches it is recorded in
  \<open>hk_trace\<close>. A pointer is a 64-bit word, 0 is NULL. The eBPF monitor is outside too:
  its return code and its effect on this process's view of the process table are arguments. The
  adjustment of the local policy limit at initialisation is left out: no hook of this file reads
  it.

  \<open>he_tenant i\<close> is what the operating system answers to the \<open>i\<close>-th tenant table
  operation of the hook: 0 the initialisation, 1 the binding, 2 the tenant look-up of the check,
  3 the reading of the tenant, 4 the look-up of the update, 5 and 6 the reading and writing of
  its usage.
\<close>

section \<open>State and environment\<close>

record qp_init_attr =
  qp_type :: i32

definition IBV_QPT_RC :: i32 where "IBV_QPT_RC = 2"
definition IBV_QPT_UC :: i32 where "IBV_QPT_UC = 3"
definition IBV_QPT_UD :: i32 where "IBV_QPT_UD = 4"

datatype driver_call =
    DCreateQp u64 qp_init_attr
  | DDestroyQp u64
  | DRegMr u64 u64 u64 i32
  | DDeregMr u64
  | DCreateCq u64 i32 u64 u64 i32
  | DDestroyCq u64
  | DAllocPd u64
  | DDeallocPd u64

record hook_state =
  hk_core :: intercept_state
  hk_shm :: shm_state
  hk_tenants :: tenant_state
  hk_init_done :: bool
  hk_ptrs :: "string \<Rightarrow> bool"
  hk_ebpf_initialized :: bool
  hk_tenant_initialized :: bool
  hk_trace :: "driver_call list"

record hook_env =
  he_core :: core_env
  he_shm :: shm_env
  he_tenant :: "nat \<Rightarrow> tenant_env"
  he_pid :: pid_t
  he_dlopen_ok :: bool
  he_dlsym :: "string \<Rightarrow> bool"
  he_ebpf_init :: i32
  he_ebpf_attach :: "shm_state \<Rightarrow> shm_state"
  he_tenant_id :: "string option" \<comment> \<open>RDMA_TENANT_ID\<close>
  he_driver_ptr :: u64
  he_driver_rc :: i32

section \<open>Resources and tenant\<close>

definition get_process_resources_via_shared_memory ::
    "pid_t \<Rightarrow> hook_state \<Rightarrow> int \<times> resource_usage" where
  "get_process_resources_via_shared_memory pid h =
     (case shm_get_process_resources pid True (hk_shm h) of
        (rc, Some u) \<Rightarrow> (rc, u)
      | (rc, None) \<Rightarrow> (rc, zero_usage))"

definition get_global_resources_via_shared_memory :: "hook_state \<Rightarrow> int \<times> resource_usage" where
  "get_global_resources_via_shared_memory h =
     (case shm_get_global_resources True (hk_shm h) of
        (rc, Some u) \<Rightarrow> (rc, u)
      | (rc, None) \<Rightarrow> (rc, zero_usage))"

definition get_current_tenant_id :: "tenant_env \<Rightarrow> pid_t \<Rightarrow> hook_state \<Rightarrow> u32 \<times> hook_state" where
  "get_current_tenant_id env pid h =
     (if \<not> hk_tenant_initialized h then (0, h)
      else case tenant_get_process_tenant env pid True (hk_tenants h) of
             ((rc, tid), ts) \<Rightarrow>
               (if rc \<noteq> 0 then 0 else case tid of None \<Rightarrow> 0 | Some t \<Rightarrow> t, h\<lparr>hk_tenants := ts\<rparr>))"

definition init_function_pointers :: "hook_env \<Rightarrow> hook_state \<Rightarrow> hook_state" where
  "init_function_pointers env h =
     (let h = h\<lparr>hk_core := init_if_needed (he_core env) (hk_core h)\<rparr>
      in if \<not> he_dlopen_ok env then h
         else
           let h = h\<lparr>hk_ptrs := he_dlsym env\<rparr>;
               h = h\<lparr>hk_shm := he_ebpf_attach env (hk_shm h),
                     hk_ebpf_initialized := (he_ebpf_init env = 0)\<rparr>;
               (rc, ts) = tenant_shm_init (he_tenant env 0) (hk_tenants h);
               h = h\<lparr>hk_tenants := ts, hk_tenant_initialized := (rc = 0)\<rparr>
           in case he_tenant_id env of
                None \<Rightarrow> h
              | Some v \<Rightarrow>
                  if \<not> hk_tenant_initialized h then h
                  else
                    let tenant_id = atoi v
                    in if tenant_id > 0
                       then h\<lparr>hk_tenants := snd (tenant_bind_process (he_tenant env 1) (he_pid env)
                                                   tenant_id (hk_tenants h))\<rparr>
                       else h)"

text \<open>\<open>pthread_once(&hooks_init_once, init_function_pointers)\<close>.\<close>

definition hooks_once :: "hook_env \<Rightarrow> hook_state \<Rightarrow> hook_state" where
  "hooks_once env h =
     (if hk_init_done h then h else (init_function_pointers env h)\<lparr>hk_init_done := True\<rparr>)"

text \<open>The change the update makes to a usage record; there is no case for memory (2).\<close>

definition count_resource :: "int \<Rightarrow> i32 \<Rightarrow> tenant_resource_usage \<Rightarrow> tenant_resource_usage" where
  "count_resource resource_type delta u =
     (if resource_type = 0 then
        u\<lparr>tu_qp_count := tu_qp_count u + delta,
          total_qp_creates := (if sint delta > 0 then total_qp_creates u + 1 else total_qp_creates u),
          total_qp_destroys := (if sint delta < 0 then total_qp_destroys u + 1 else total_qp_destroys u)\<rparr>
      else if resource_type = 1 then
        u\<lparr>tu_mr_count := tu_mr_count u + delta,
          total_mr_regs := (if sint delta > 0 then total_mr_regs u + 1 else total_mr_regs u),
          total_mr_deregs := (if sint delta < 0 then total_mr_deregs u + 1 else total_mr_deregs u)\<rparr>
      else if resource_type = 3 then u\<lparr>tu_cq_count := tu_cq_count u + delta\<rparr>
      else if resource_type = 4 then u\<lparr>tu_pd_count := tu_pd_count u + delta\<rparr>
      else u)"

definition update_tenant_resource_count ::
    "tenant_env \<Rightarrow> tenant_env \<Rightarrow> u32 \<Rightarrow> int \<Rightarrow> i32 \<Rightarrow> hook_state \<Rightarrow> hook_state" where
  "update_tenant_resource_count env env' tenant_id resource_type delta h =
     (if tenant_id = 0 \<or> \<not> hk_tenant_initialized h then h
      else case tenant_get_resource_usage env tenant_id True (hk_tenants h) of
             ((rc, usage), ts) \<Rightarrow>
               (case (rc = 0, usage) of
                  (True, Some u) \<Rightarrow>
                    h\<lparr>hk_tenants := snd (tenant_update_resource_usage env' tenant_id
                                           (Some (count_resource resource_type delta u)) ts)\<rparr>
                | _ \<Rightarrow> h\<lparr>hk_tenants := ts\<rparr>))"

section \<open>Checks\<close>

definition check_tenant_qp_limit :: "tenant_env \<Rightarrow> u32 \<Rightarrow> hook_state \<Rightarrow> bool \<times> hook_state" where
  "check_tenant_qp_limit env tenant_id h =
     (if tenant_id = 0 \<or> \<not> hk_tenant_initialized h then (True, h)
      else case tenant_get_info env tenant_id True (hk_tenants h) of
             ((rc, info), ts) \<Rightarrow>
               (case (rc = 0, info) of
                  (True, Some t) \<Rightarrow>
                    (\<not> tu_qp_count (ti_usage t) \<ge> max_qp_per_tenant (ti_quota t), h\<lparr>hk_tenants := ts\<rparr>)
                | _ \<Rightarrow> (False, h\<lparr>hk_tenants := ts\<rparr>)))"

definition check_tenant_mr_limit_inline ::
    "tenant_env \<Rightarrow> u32 \<Rightarrow> u64 \<Rightarrow> hook_state \<Rightarrow> bool \<times> hook_state" where
  "check_tenant_mr_limit_inline env tenant_id len h =
     (if tenant_id = 0 \<or> \<not> hk_tenant_initialized h then (True, h)
      else case tenant_get_info env tenant_id True (hk_tenants h) of
             ((rc, info), ts) \<Rightarrow>
               (case (rc = 0, info) of
                  (True, Some t) \<Rightarrow>
                    (if tu_mr_count (ti_usage t) \<ge> max_mr_per_tenant (ti_quota t) then False
                     else if max_memory_per_tenant (ti_quota t) > 0
                             \<and> tu_memory_used (ti_usage t) + len > max_memory_per_tenant (ti_quota t)
                       then False
                     else True, h\<lparr>hk_tenants := ts\<rparr>)
                | _ \<Rightarrow> (False, h\<lparr>hk_tenants := ts\<rparr>)))"

definition qp_type_allowed :: "intercept_config \<Rightarrow> qp_init_attr \<Rightarrow> bool" where
  "qp_type_allowed c attr =
     (if qp_type attr = IBV_QPT_RC then allow_rc_qp c
      else if qp_type attr = IBV_QPT_UC then allow_uc_qp c
      else if qp_type attr = IBV_QPT_UD then allow_ud_qp c
      else True)"

definition check_qp_creation_restrictions ::
    "hook_env \<Rightarrow> qp_init_attr \<Rightarrow> hook_state \<Rightarrow> bool \<times> hook_state" where
  "check_qp_creation_restrictions env attr h =
     (let c = st_config (hk_core h)
      in if \<not> enable_qp_control c then (True, h)
         else if \<not> qp_type_allowed c attr then (False, h)
         else
           let (tenant_id, h) = get_current_tenant_id (he_tenant env 2) (he_pid env) h;
               (tenant_ok, h) = check_tenant_qp_limit (he_tenant env 3) tenant_id h
           in if \<not> tenant_ok then (False, h)
              else
                let (proc_rc, proc) = get_process_resources_via_shared_memory (he_pid env) h
                in if proc_rc = 0 \<and> qp_count proc + 1 > max_qp_per_process c then (False, h)
                   else
                     let (glob_rc, glob) = get_global_resources_via_shared_memory h
                     in if glob_rc = 0 \<and> qp_count glob \<ge> max_global_qp c then (False, h)
                        else (True, h))"

section \<open>Hooks\<close>

text \<open>The call to the driver, recorded.\<close>

definition reach_driver :: "driver_call \<Rightarrow> hook_state \<Rightarrow> hook_state" where
  "reach_driver c h = h\<lparr>hk_trace := hk_trace h @ [c]\<rparr>"

text \<open>
  The prologue all hooks share: when the layer is not enabled or the symbol is not resolved, the
  driver is called if it can be and otherwise \<open>errno\<close> is \<open>ENOSYS\<close>.
\<close>

definition bypass :: "string \<Rightarrow> hook_state \<Rightarrow> bool" where
  "bypass name h \<longleftrightarrow> \<not> rdma_intercept_is_enabled (hk_core h) \<or> \<not> hk_ptrs h name"

definition pass_ptr :: "hook_env \<Rightarrow> string \<Rightarrow> driver_call \<Rightarrow> hook_state \<Rightarrow> u64 \<times> i32 option \<times> hook_state"
  where
  "pass_ptr env name c h =
     (if hk_ptrs h name then (he_driver_ptr env, None, reach_driver c h) else (0, Some ENOSYS, h))"

definition pass_rc :: "hook_env \<Rightarrow> string \<Rightarrow> driver_call \<Rightarrow> hook_state \<Rightarrow> i32 \<times> i32 option \<times> hook_state"
  where
  "pass_rc env name c h =
     (if hk_ptrs h name then (he_driver_rc env, None, reach_driver c h) else (-1, Some ENOSYS, h))"

definition count_tenant :: "hook_env \<Rightarrow> int \<Rightarrow> i32 \<Rightarrow> hook_state \<Rightarrow> hook_state" where
  "count_tenant env resource_type delta h =
     (let (tenant_id, h) = get_current_tenant_id (he_tenant env 4) (he_pid env) h
      in update_tenant_resource_count (he_tenant env 5) (he_tenant env 6) tenant_id resource_type delta h)"

definition ibv_create_qp :: "hook_env \<Rightarrow> u64 \<Rightarrow> qp_init_attr \<Rightarrow> hook_state \<Rightarrow> u64 \<times> i32 option \<times> hook_state"
  where
  "ibv_create_qp env pd attr h =
     (let h = hooks_once env h
      in if bypass ''ibv_create_qp'' h then pass_ptr env ''ibv_create_qp'' (DCreateQp pd attr) h
         else
           let (allowed, h) = check_qp_creation_restrictions env attr h
           in if \<not> allowed then (0, Some EPERM, h)
              else
                let h = reach_driver (DCreateQp pd attr) h; qp = he_driver_ptr env
                in if qp = 0 then (0, None, h)
                   else
                     let h = h\<lparr>hk_core := (hk_core h)\<lparr>st_qp_count := st_qp_count (hk_core h) + 1\<rparr>\<rparr>;
                         usage = \<lparr>qp_count = st_qp_count (hk_core h),
                                  mr_count = st_mr_count (hk_core h),
                                  memory_used = st_memory_used (hk_core h)\<rparr>;
                         h = h\<lparr>hk_shm := snd (shm_update_process_resources (he_shm env) (he_pid env)
                                                (Some usage) (hk_shm h))\<rparr>
                     in (qp, None, count_tenant env 0 1 h))"

definition ibv_destroy_qp :: "hook_env \<Rightarrow> u64 \<Rightarrow> hook_state \<Rightarrow> i32 \<times> i32 option \<times> hook_state" where
  "ibv_destroy_qp env qp h =
     (let h = hooks_once env h
      in if bypass ''ibv_destroy_qp'' h then pass_rc env ''ibv_destroy_qp'' (DDestroyQp qp) h
         else
           let h = reach_driver (DDestroyQp qp) h; result = he_driver_rc env
           in if result \<noteq> 0 then (result, None, h)
              else
                let h = (if st_qp_count (hk_core h) > 0
                         then h\<lparr>hk_core := (hk_core h)\<lparr>st_qp_count := st_qp_count (hk_core h) - 1\<rparr>\<rparr>
                         else h)
                in (result, None, count_tenant env 0 (-1) h))"

definition ibv_reg_mr ::
    "hook_env \<Rightarrow> u64 \<Rightarrow> u64 \<Rightarrow> u64 \<Rightarrow> i32 \<Rightarrow> hook_state \<Rightarrow> u64 \<times> i32 option \<times> hook_state" where
  "ibv_reg_mr env pd addr len access h =
     (let h = hooks_once env h
      in if bypass ''ibv_reg_mr'' h then pass_ptr env ''ibv_reg_mr'' (DRegMr pd addr len access) h
         else
           let (tenant_id, h) = get_current_tenant_id (he_tenant env 2) (he_pid env) h;
               (allowed, h) = check_tenant_mr_limit_inline (he_tenant env 3) tenant_id len h
           in if \<not> allowed then (0, Some EPERM, h)
              else
                let h = reach_driver (DRegMr pd addr len access) h; mr = he_driver_ptr env
                in if mr = 0 then (0, None, h)
                   else
                     let h = h\<lparr>hk_core := (hk_core h)
                                \<lparr>st_mr_count := st_mr_count (hk_core h) + 1,
                                 st_memory_used := st_memory_used (hk_core h) + len\<rparr>\<rparr>
                     in (mr, None, update_tenant_resource_count (he_tenant env 5) (he_tenant env 6)
                                     tenant_id 1 1 h))"

text \<open>A memory region is its handle with the length field the hook reads; None is NULL.\<close>

definition ibv_dereg_mr ::
    "hook_env \<Rightarrow> (u64 \<times> u64) option \<Rightarrow> hook_state \<Rightarrow> i32 \<times> i32 option \<times> hook_state" where
  "ibv_dereg_mr env mr h =
     (let h = hooks_once env h; handle = (case mr of None \<Rightarrow> 0 | Some (p, _) \<Rightarrow> p)
      in if bypass ''ibv_dereg_mr'' h then pass_rc env ''ibv_dereg_mr'' (DDeregMr handle) h
         else
           let mr_length = (case mr of None \<Rightarrow> 0 | Some (_, l) \<Rightarrow> l);
               h = reach_driver (DDeregMr handle) h; result = he_driver_rc env
           in if result \<noteq> 0 then (result, None, h)
              else
                let core = hk_core h;
                    core = (if st_mr_count core > 0 then core\<lparr>st_mr_count := st_mr_count core - 1\<rparr> else core);
                    core = (if st_memory_used core \<ge> mr_length
                            then core\<lparr>st_memory_used := st_memory_used core - mr_length\<rparr> else core)
                in (result, None, count_tenant env 1 (-1) (h\<lparr>hk_core := core\<rparr>)))"

text \<open>The hooks that only count: completion queues and protection domains.\<close>

definition counted_create ::
    "string \<Rightarrow> int \<Rightarrow> hook_env \<Rightarrow> driver_call \<Rightarrow> hook_state \<Rightarrow> u64 \<times> i32 option \<times> hook_state" where
  "counted_create name resource_type env c h =
     (let h = hooks_once env h
      in if bypass name h then pass_ptr env name c h
         else
           let h = reach_driver c h; p = he_driver_ptr env
           in (p, None, if p \<noteq> 0 then count_tenant env resource_type 1 h else h))"

definition counted_destroy ::
    "string \<Rightarrow> int \<Rightarrow> hook_env \<Rightarrow> driver_call \<Rightarrow> hook_state \<Rightarrow> i32 \<times> i32 option \<times> hook_state" where
  "counted_destroy name resource_type env c h =
     (let h = hooks_once env h
      in if bypass name h then pass_rc env name c h
         else
           let h = reach_driver c h; result = he_driver_rc env
           in (result, None, if result = 0 then count_tenant env resource_type (-1) h else h))"

definition ibv_create_cq ::
    "hook_env \<Rightarrow> u64 \<Rightarrow> i32 \<Rightarrow> u64 \<Rightarrow> u64 \<Rightarrow> i32 \<Rightarrow> hook_state \<Rightarrow> u64 \<times> i32 option \<times> hook_state" where
  "ibv_create_cq env ctx cqe cq_ctx channel vec h =
     counted_create ''ibv_create_cq'' 3 env (DCreateCq ctx cqe cq_ctx channel vec) h"

definition ibv_destroy_cq :: "hook_env \<Rightarrow> u64 \<Rightarrow> hook_state \<Rightarrow> i32 \<times> i32 option \<times> hook_state" where
  "ibv_destroy_cq env cq h = counted_destroy ''ibv_destroy_cq'' 3 env (DDestroyCq cq) h"

definition ibv_alloc_pd :: "hook_env \<Rightarrow> u64 \<Rightarrow> hook_state \<Rightarrow> u64 \<times> i32 option \<times> hook_state" where
  "ibv_alloc_pd env ctx h = counted_create ''ibv_alloc_pd'' 4 env (DAllocPd ctx) h"

definition ibv_dealloc_pd :: "hook_env \<Rightarrow> u64 \<Rightarrow> hook_state \<Rightarrow> i32 \<times> i32 option \<times> hook_state" where
  "ibv_dealloc_pd env pd h = counted_destroy ''ibv_dealloc_pd'' 4 env (DDeallocPd pd) h"

end
