(* ===== verification/Hooks_Spec.thy ===== *)
theory Hooks_Spec
  imports Hooks_Tenant
begin

text \<open>
  What the tenant hooks (\<open>src/rdma_hooks_tenant.c\<close>) promise: the admission decision
  as a predicate on the state, the effect of each hook, and the quota of a tenant along any
  sequence of hooks.
\<close>

section \<open>Reading the tenant table\<close>

text \<open>The table as the hooks see it: unchanged by readers, up to version and time stamp.\<close>

definition same_tenants :: "tenant_state \<Rightarrow> tenant_state \<Rightarrow> bool" where
  "same_tenants ts ts' \<longleftrightarrow> tenant_attached ts' \<and> tenant_state_abs ts' = tenant_state_abs ts"

lemma same_tenants_refl: "tenant_attached ts \<Longrightarrow> same_tenants ts ts"
  by (simp add: same_tenants_def)

lemma same_tenants_trans: "same_tenants a b \<Longrightarrow> same_tenants b c \<Longrightarrow> same_tenants a c"
  by (simp add: same_tenants_def)

lemma with_reader:
  assumes a: "tenant_attached ts" and r: "\<And>d. snd (body d) = d"
  shows "same_tenants ts (snd (with_tenant_shm env err body ts))"
proof -
  obtain d where d: "tenant_object ts = Some d" using attachedD [OF a] by blast
  have "tenant_attached (snd (with_tenant_shm env err body ts))"
    by (rule with_attached_stays [OF a]) (simp add: r)
  with d show ?thesis
    by (simp add: same_tenants_def with_attached_eq [OF a d] r tenant_state_abs_def)
qed

lemma tenant_readers_same:
  assumes "tenant_attached ts"
  shows "same_tenants ts (snd (tenant_get_process_tenant env pid b ts))"
    and "same_tenants ts (snd (tenant_get_info env tid b ts))"
    and "same_tenants ts (snd (tenant_get_resource_usage env tid b ts))"
proof -
  show "same_tenants ts (snd (tenant_get_process_tenant env pid b ts))"
    using assms by (auto simp: tenant_get_process_tenant_def same_tenants_refl intro!: with_reader
        split: option.split)
  show "same_tenants ts (snd (tenant_get_info env tid b ts))"
    using assms by (auto simp: tenant_get_info_def same_tenants_refl intro!: with_reader)
  show "same_tenants ts (snd (tenant_get_resource_usage env tid b ts))"
    using assms by (auto simp: tenant_get_resource_usage_def same_tenants_refl intro!: with_reader)
qed

lemma get_info_members:
  assumes a: "tenant_attached ts"
  shows "case members (tenant_state_abs ts) tid of
      None \<Rightarrow> fst (fst (tenant_get_info env tid True ts)) = -1
    | Some (st, q, u) \<Rightarrow> \<exists>t. fst (tenant_get_info env tid True ts) = (0, Some t)
        \<and> ti_quota t = q \<and> ti_usage t = u \<and> ti_status t = st"
proof -
  obtain d where d: "tenant_object ts = Some d" using attachedD [OF a] by blast
  show ?thesis
  proof (cases "MAX_TENANTS \<le> unat tid")
    case True
    with d show ?thesis by (simp add: tenant_get_info_def tenant_state_abs_def members_abs_beyond)
  next
    case False
    with d show ?thesis
      by (simp add: tenant_get_info_def with_attached_eq [OF a d] tenant_state_abs_def members_abs)
  qed
qed

lemma get_usage_members:
  assumes a: "tenant_attached ts"
  shows "fst (tenant_get_resource_usage env tid True ts) =
    (case members (tenant_state_abs ts) tid of
       Some (st, q, u) \<Rightarrow> if st = TENANT_STATUS_ACTIVE then (0, Some u) else (-1, None)
     | None \<Rightarrow> (-1, None))"
proof -
  obtain d where d: "tenant_object ts = Some d" using attachedD [OF a] by blast
  show ?thesis
  proof (cases "MAX_TENANTS \<le> unat tid")
    case True
    with d show ?thesis
      by (simp add: tenant_get_resource_usage_def tenant_state_abs_def members_abs_beyond)
  next
    case False
    with d show ?thesis
      by (auto simp: tenant_get_resource_usage_def with_attached_eq [OF a d] tenant_state_abs_def members_abs)
  qed
qed

section \<open>The tenant of a process and the admission decision\<close>

definition hook_tenant :: "pid_t \<Rightarrow> hook_state \<Rightarrow> u32" where
  "hook_tenant pid h =
     (if \<not> hk_tenant_initialized h then 0
      else case binding (tenant_state_abs (hk_tenants h)) pid of None \<Rightarrow> 0 | Some t \<Rightarrow> t)"

definition hook_members ::
    "hook_state \<Rightarrow> u32 \<Rightarrow> (tenant_status \<times> tenant_quota \<times> tenant_resource_usage) option" where
  "hook_members h = members (tenant_state_abs (hk_tenants h))"

text \<open>Initialised, enabled, symbol resolved; the tenant table attached if it is used.\<close>

definition hook_ready :: "string \<Rightarrow> hook_state \<Rightarrow> bool" where
  "hook_ready name h \<longleftrightarrow> hk_init_done h \<and> rdma_intercept_is_enabled (hk_core h) \<and> hk_ptrs h name"

definition hook_attached :: "hook_state \<Rightarrow> bool" where
  "hook_attached h \<longleftrightarrow> hk_tenant_initialized h \<longrightarrow> tenant_attached (hk_tenants h)"

text \<open>Two states that differ at most in version and time stamp of the tenant table.\<close>

definition same_hook :: "hook_state \<Rightarrow> hook_state \<Rightarrow> bool" where
  "same_hook h h' \<longleftrightarrow> (\<exists>ts. h' = h\<lparr>hk_tenants := ts\<rparr> \<and>
     (hk_tenant_initialized h \<longrightarrow> same_tenants (hk_tenants h) ts))"

lemma same_hook_refl: "hook_attached h \<Longrightarrow> same_hook h h"
  unfolding same_hook_def hook_attached_def
  by (intro exI [of _ "hk_tenants h"]) (simp add: same_tenants_refl)

lemma same_hook_trans: "same_hook a b \<Longrightarrow> same_hook b c \<Longrightarrow> same_hook a c"
proof -
  assume "same_hook a b" and bc: "same_hook b c"
  then obtain ts where ts: "b = a\<lparr>hk_tenants := ts\<rparr>"
      "hk_tenant_initialized a \<longrightarrow> same_tenants (hk_tenants a) ts"
    unfolding same_hook_def by blast
  from bc obtain ts' where ts': "c = b\<lparr>hk_tenants := ts'\<rparr>"
      "hk_tenant_initialized b \<longrightarrow> same_tenants (hk_tenants b) ts'"
    unfolding same_hook_def by blast
  have "c = a\<lparr>hk_tenants := ts'\<rparr>" using ts(1) ts'(1) by simp
  moreover have "hk_tenant_initialized a \<longrightarrow> same_tenants (hk_tenants a) ts'"
    using ts ts'(2) by (auto intro: same_tenants_trans)
  ultimately show ?thesis unfolding same_hook_def by blast
qed

lemma same_hookD:
  assumes "same_hook h h'"
  shows "hk_core h' = hk_core h" "hk_shm h' = hk_shm h" "hk_trace h' = hk_trace h"
    "hk_ptrs h' = hk_ptrs h" "hk_init_done h' = hk_init_done h"
    "hk_tenant_initialized h' = hk_tenant_initialized h" "hook_tenant pid h' = hook_tenant pid h"
    "hook_attached h'" "hk_tenant_initialized h \<Longrightarrow> hook_members h' = hook_members h"
  using assms by (auto simp: same_hook_def same_tenants_def hook_tenant_def hook_attached_def hook_members_def)

lemma get_current_tenant:
  assumes "hook_attached h" "pid \<noteq> 0"
  shows "fst (get_current_tenant_id env pid h) = hook_tenant pid h"
    and "same_hook h (snd (get_current_tenant_id env pid h))"
proof -
  have "fst (get_current_tenant_id env pid h) = hook_tenant pid h
      \<and> same_hook h (snd (get_current_tenant_id env pid h))"
  proof (cases "hk_tenant_initialized h")
    case False
    with assms same_hook_refl show ?thesis by (simp add: get_current_tenant_id_def hook_tenant_def)
  next
    case True
    with assms have a: "tenant_attached (hk_tenants h)" by (simp add: hook_attached_def)
    show ?thesis
      using True get_process_tenant_view [OF a assms(2), of env] tenant_readers_same(1) [OF a, of env pid True]
      by (auto simp: get_current_tenant_id_def hook_tenant_def tenant_binding_view_def same_hook_def
          split: prod.splits option.splits)
  qed
  then show "fst (get_current_tenant_id env pid h) = hook_tenant pid h"
    and "same_hook h (snd (get_current_tenant_id env pid h))" by simp_all
qed

text \<open>Room for one more QP (MR) in the quota of a tenant; tenant 0 has no quota.\<close>

definition tenant_qp_room :: "u32 \<Rightarrow> hook_state \<Rightarrow> bool" where
  "tenant_qp_room tid h \<longleftrightarrow> tid = 0 \<or> \<not> hk_tenant_initialized h \<or>
     (case hook_members h tid of
        None \<Rightarrow> False
      | Some (st, q, u) \<Rightarrow> tu_qp_count u < max_qp_per_tenant q)"

definition tenant_mr_room :: "u32 \<Rightarrow> u64 \<Rightarrow> hook_state \<Rightarrow> bool" where
  "tenant_mr_room tid len h \<longleftrightarrow> tid = 0 \<or> \<not> hk_tenant_initialized h \<or>
     (case hook_members h tid of
        None \<Rightarrow> False
      | Some (st, q, u) \<Rightarrow> tu_mr_count u < max_mr_per_tenant q
          \<and> (max_memory_per_tenant q = 0 \<or> tu_memory_used u + len \<le> max_memory_per_tenant q))"

lemma check_qp_limit:
  assumes "hook_attached h"
  shows "fst (check_tenant_qp_limit env tid h) = tenant_qp_room tid h
    \<and> same_hook h (snd (check_tenant_qp_limit env tid h))"
proof (cases "tid = 0 \<or> \<not> hk_tenant_initialized h")
  case True
  with assms same_hook_refl show ?thesis by (auto simp: check_tenant_qp_limit_def tenant_qp_room_def)
next
  case False
  with assms have a: "tenant_attached (hk_tenants h)" by (simp add: hook_attached_def)
  show ?thesis
    using False get_info_members [OF a, where tid = tid and env = env] tenant_readers_same(2) [OF a, where tid = tid and env = env and b = True]
    by (auto simp: check_tenant_qp_limit_def tenant_qp_room_def hook_members_def same_hook_def
        not_le split: prod.splits option.splits bool.splits)
qed

lemma check_mr_limit:
  assumes "hook_attached h"
  shows "fst (check_tenant_mr_limit_inline env tid len h) = tenant_mr_room tid len h
    \<and> same_hook h (snd (check_tenant_mr_limit_inline env tid len h))"
proof (cases "tid = 0 \<or> \<not> hk_tenant_initialized h")
  case True
  with assms same_hook_refl show ?thesis
    by (auto simp: check_tenant_mr_limit_inline_def tenant_mr_room_def)
next
  case False
  with assms have a: "tenant_attached (hk_tenants h)" by (simp add: hook_attached_def)
  show ?thesis
    using False get_info_members [OF a, where tid = tid and env = env] tenant_readers_same(2) [OF a, where tid = tid and env = env and b = True]
    by (auto simp: check_tenant_mr_limit_inline_def tenant_mr_room_def hook_members_def same_hook_def
        not_le not_less word_gt_0 split: prod.splits option.splits bool.splits)
qed

text \<open>The decision of \<open>check_qp_creation_restrictions\<close> as a predicate on the state.\<close>

definition qp_admissible :: "pid_t \<Rightarrow> qp_init_attr \<Rightarrow> hook_state \<Rightarrow> bool" where
  "qp_admissible pid attr h \<longleftrightarrow>
     (let c = st_config (hk_core h) in
      \<not> enable_qp_control c \<or>
      (qp_type_allowed c attr \<and> tenant_qp_room (hook_tenant pid h) h
       \<and> (case shm_get_process_resources pid True (hk_shm h) of
            (rc, u) \<Rightarrow> rc = 0 \<longrightarrow> (case u of None \<Rightarrow> True | Some u \<Rightarrow> qp_count u + 1 \<le> max_qp_per_process c))
       \<and> (case shm_get_global_resources True (hk_shm h) of
            (rc, u) \<Rightarrow> rc = 0 \<longrightarrow> (case u of None \<Rightarrow> True | Some u \<Rightarrow> qp_count u < max_global_qp c))))"

lemma shm_read_some:
  "shm_get_process_resources pid True s \<noteq> (0, None)" "shm_get_global_resources True s \<noteq> (0, None)"
  by (auto simp: shm_get_process_resources_def shm_get_global_resources_def split: option.splits if_splits)

lemma room_same: "same_hook h h' \<Longrightarrow> tenant_qp_room tid h' = tenant_qp_room tid h"
  "same_hook h h' \<Longrightarrow> tenant_mr_room tid len h' = tenant_mr_room tid len h"
  by (auto simp: tenant_qp_room_def tenant_mr_room_def same_hookD)

lemma check_restrictions:
  assumes a: "hook_attached h" and pid: "he_pid env \<noteq> 0"
  shows "fst (check_qp_creation_restrictions env attr h) = qp_admissible (he_pid env) attr h"
    and "same_hook h (snd (check_qp_creation_restrictions env attr h))"
proof -
  obtain t h1 where g: "get_current_tenant_id (he_tenant env 2) (he_pid env) h = (t, h1)" by fastforce
  obtain ok h2 where c: "check_tenant_qp_limit (he_tenant env 3) t h1 = (ok, h2)" by fastforce
  have t: "t = hook_tenant (he_pid env) h" and s1: "same_hook h h1"
    using get_current_tenant [OF a pid, of "he_tenant env 2"] g by simp_all
  have ok: "ok = tenant_qp_room t h" and s2: "same_hook h h2"
    using check_qp_limit [OF same_hookD(8) [OF s1], of "he_tenant env 3" t] c room_same [OF s1] same_hook_trans [OF s1]
    by auto
  note r = check_qp_creation_restrictions_def [of env attr h, unfolded Let_def g prod.case c]
  show "same_hook h (snd (check_qp_creation_restrictions env attr h))"
    using s2 same_hook_refl [OF a] by (simp add: r split_beta)
  show "fst (check_qp_creation_restrictions env attr h) = qp_admissible (he_pid env) attr h"
    by (auto simp: shm_read_some r qp_admissible_def ok [symmetric] t [symmetric] same_hookD [OF s2] Let_def
        get_process_resources_via_shared_memory_def get_global_resources_via_shared_memory_def
        not_less not_le split: prod.splits option.splits)
qed

section \<open>Counting\<close>

definition count_members :: "int \<Rightarrow> i32 \<Rightarrow> u32 \<Rightarrow> tenant_table \<Rightarrow> tenant_table" where
  "count_members ty delta tid T =
     (case members T tid of
        Some (TENANT_STATUS_ACTIVE, q, u) \<Rightarrow>
          T\<lparr>members := (members T)(tid \<mapsto> (TENANT_STATUS_ACTIVE, q, count_resource ty delta u))\<rparr>
      | _ \<Rightarrow> T)"

text \<open>Counting for the tenant of the process, on the abstract table.\<close>

definition count_for :: "pid_t \<Rightarrow> int \<Rightarrow> i32 \<Rightarrow> tenant_table \<Rightarrow> tenant_table" where
  "count_for pid ty delta T =
     (case binding T pid of
        None \<Rightarrow> T
      | Some tid \<Rightarrow> if tid = 0 then T else count_members ty delta tid T)"

lemma update_count_effect:
  assumes a: "hook_attached h"
  shows "\<exists>ts. update_tenant_resource_count e e' tid ty delta h = h\<lparr>hk_tenants := ts\<rparr>
    \<and> (hk_tenant_initialized h \<longrightarrow> tenant_attached ts \<and> tenant_state_abs ts =
         (if tid = 0 then tenant_state_abs (hk_tenants h)
          else count_members ty delta tid (tenant_state_abs (hk_tenants h))))"
proof (cases "tid = 0 \<or> \<not> hk_tenant_initialized h")
  case True
  with a show ?thesis
    by (intro exI [of _ "hk_tenants h"]) (auto simp: update_tenant_resource_count_def hook_attached_def)
next
  case False
  with a have at: "tenant_attached (hk_tenants h)" by (simp add: hook_attached_def)
  obtain rc u ts where g: "tenant_get_resource_usage e tid True (hk_tenants h) = ((rc, u), ts)" by (metis surj_pair)
  have s: "same_tenants (hk_tenants h) ts"
    using tenant_readers_same(3) [OF at, where env = e and tid = tid and b = True] g by simp
  then have at': "tenant_attached ts" and abs: "tenant_state_abs ts = tenant_state_abs (hk_tenants h)"
    by (simp_all add: same_tenants_def)
  note v = get_usage_members [OF at, where env = e and tid = tid, unfolded g fst_conv]
  show ?thesis
  proof (cases "rc = 0 \<and> u \<noteq> None")
    case True
    then obtain q x where m: "members (tenant_state_abs ts) tid = Some (TENANT_STATUS_ACTIVE, q, x)" "u = Some x"
      using v abs by (auto split: option.splits if_splits)
    let ?ts = "snd (tenant_update_resource_usage e' tid (Some (count_resource ty delta x)) ts)"
    have "tenant_state_abs ?ts = count_members ty delta tid (tenant_state_abs (hk_tenants h))"
      using arg_cong [OF update_usage_refines [OF at', of e' tid "Some (count_resource ty delta x)"], of snd] m
      by (simp add: spec_update_usage_def count_members_def abs)
    moreover have "tenant_attached ?ts"
      using exec_attached [OF at', of "TenantUpdateUsage e' tid (Some (count_resource ty delta x))"]
      by (simp add: tenant_exec_def)
    ultimately show ?thesis
      using False True g m by (intro exI [of _ ?ts]) (simp add: update_tenant_resource_count_def)
  next
    case nz: False
    then have "count_members ty delta tid (tenant_state_abs (hk_tenants h)) = tenant_state_abs (hk_tenants h)"
      using v by (auto simp: count_members_def split: option.splits tenant_status.splits if_splits)
    moreover have "update_tenant_resource_count e e' tid ty delta h = h\<lparr>hk_tenants := ts\<rparr>"
      using False nz g by (auto simp: update_tenant_resource_count_def split: option.splits bool.splits)
    ultimately show ?thesis using at' abs by (intro exI [of _ ts]) simp
  qed
qed

text \<open>The tenant table after counting, and what counting leaves alone.\<close>

definition counted :: "pid_t \<Rightarrow> int \<Rightarrow> i32 \<Rightarrow> hook_state \<Rightarrow> hook_state \<Rightarrow> bool" where
  "counted pid ty delta h h' \<longleftrightarrow> (\<exists>ts. h' = h\<lparr>hk_tenants := ts\<rparr> \<and>
     (hk_tenant_initialized h \<longrightarrow> tenant_attached ts
        \<and> tenant_state_abs ts = count_for pid ty delta (tenant_state_abs (hk_tenants h))))"

lemma count_tenant_effect:
  assumes a: "hook_attached h" and pid: "he_pid env \<noteq> 0"
  shows "counted (he_pid env) ty delta h (count_tenant env ty delta h)"
proof -
  obtain t h1 where g: "get_current_tenant_id (he_tenant env 4) (he_pid env) h = (t, h1)" by fastforce
  have t: "t = hook_tenant (he_pid env) h" and s1: "same_hook h h1"
    using get_current_tenant [OF a pid, of "he_tenant env 4"] g by simp_all
  obtain ts1 where ts1: "h1 = h\<lparr>hk_tenants := ts1\<rparr>"
      "hk_tenant_initialized h \<longrightarrow> same_tenants (hk_tenants h) ts1"
    using s1 unfolding same_hook_def by blast
  from update_count_effect [OF same_hookD(8) [OF s1], of "he_tenant env 5" "he_tenant env 6" t ty delta]
  obtain ts where "count_tenant env ty delta h = h1\<lparr>hk_tenants := ts\<rparr>"
    and "hk_tenant_initialized h1 \<longrightarrow> tenant_attached ts \<and> tenant_state_abs ts =
         (if t = 0 then tenant_state_abs (hk_tenants h1)
          else count_members ty delta t (tenant_state_abs (hk_tenants h1)))"
    by (auto simp: count_tenant_def g)
  then show ?thesis
    using ts1 t unfolding counted_def
    by (intro exI [of _ ts]) (auto simp: same_tenants_def hook_tenant_def count_for_def split: option.splits)
qed

lemma countedD:
  assumes "counted pid ty delta h h'"
  shows "hk_core h' = hk_core h" "hk_shm h' = hk_shm h" "hk_trace h' = hk_trace h" "hk_ptrs h' = hk_ptrs h"
    "hk_init_done h' = hk_init_done h" "hk_tenant_initialized h' = hk_tenant_initialized h" "hook_attached h'"
    "hk_tenant_initialized h \<Longrightarrow>
       tenant_state_abs (hk_tenants h') = count_for pid ty delta (tenant_state_abs (hk_tenants h))"
  using assms by (auto simp: counted_def hook_attached_def)

lemma hooks_once_ready: "hook_ready name h \<Longrightarrow> hooks_once env h = h"
  by (simp add: hooks_once_def hook_ready_def)

lemma bypass_ready: "hook_ready name h \<Longrightarrow> \<not> bypass name h"
  by (simp add: bypass_def hook_ready_def)

section \<open>The effect of each hook\<close>

text \<open>What every hook leaves alone once the layer is initialised.\<close>

definition hook_keeps :: "hook_state \<Rightarrow> hook_state \<Rightarrow> bool" where
  "hook_keeps h h' \<longleftrightarrow> hk_init_done h' = hk_init_done h \<and> hk_ptrs h' = hk_ptrs h
     \<and> hk_tenant_initialized h' = hk_tenant_initialized h
     \<and> st_config (hk_core h') = st_config (hk_core h)
     \<and> st_initialized (hk_core h') = st_initialized (hk_core h) \<and> hook_attached h'"

lemma same_hook_keeps: "same_hook h h' \<Longrightarrow> hook_keeps h h'"
  by (simp add: hook_keeps_def same_hookD)

lemma attached_reach [simp]:
  "hook_attached (reach_driver c h) = hook_attached h"
  "hk_tenants (reach_driver c h) = hk_tenants h"
  "hk_tenant_initialized (reach_driver c h) = hk_tenant_initialized h"
  "hk_core (reach_driver c h) = hk_core h"
  "hk_shm (reach_driver c h) = hk_shm h"
  "hk_trace (reach_driver c h) = hk_trace h @ [c]"
  "hk_ptrs (reach_driver c h) = hk_ptrs h"
  "hk_init_done (reach_driver c h) = hk_init_done h"
  by (simp_all add: reach_driver_def hook_attached_def)

lemma attached_core [simp]:
  "hook_attached (h\<lparr>hk_core := c\<rparr>) = hook_attached h"
  "hook_attached (h\<lparr>hk_shm := m\<rparr>) = hook_attached h"
  by (simp_all add: hook_attached_def)

definition tenant_table_of :: "hook_state \<Rightarrow> tenant_table" where
  "tenant_table_of h = tenant_state_abs (hk_tenants h)"

lemma same_hook_table: "same_hook h h' \<Longrightarrow> hk_tenant_initialized h \<Longrightarrow> tenant_table_of h' = tenant_table_of h"
  by (auto simp: same_hook_def same_tenants_def tenant_table_of_def)

lemma counted_table: "counted pid ty delta h h' \<Longrightarrow> hk_tenant_initialized h \<Longrightarrow>
  tenant_table_of h' = count_for pid ty delta (tenant_table_of h)"
  by (simp add: countedD tenant_table_of_def)

text \<open>The usage record written for the process, after the counter was incremented.\<close>

definition core_usage :: "intercept_state \<Rightarrow> resource_usage" where
  "core_usage c = \<lparr>qp_count = st_qp_count c, mr_count = st_mr_count c, memory_used = st_memory_used c\<rparr>"

definition one_more_qp :: "intercept_state \<Rightarrow> intercept_state" where
  "one_more_qp c = c\<lparr>st_qp_count := st_qp_count c + 1\<rparr>"

lemma create_qp_effect:
  assumes ready: "hook_ready ''ibv_create_qp'' h" and a: "hook_attached h" and pid: "he_pid env \<noteq> 0"
    and r: "ibv_create_qp env pd attr h = (qp, err, h')"
  shows "if \<not> qp_admissible (he_pid env) attr h
    then qp = 0 \<and> err = Some EPERM \<and> same_hook h h'
    else qp = he_driver_ptr env \<and> err = None \<and> hk_trace h' = hk_trace h @ [DCreateQp pd attr]
      \<and> hook_keeps h h'
      \<and> (if qp = 0
         then hk_core h' = hk_core h \<and> hk_shm h' = hk_shm h
              \<and> (hk_tenant_initialized h \<longrightarrow> tenant_table_of h' = tenant_table_of h)
         else hk_core h' = one_more_qp (hk_core h)
              \<and> hk_shm h' = snd (shm_update_process_resources (he_shm env) (he_pid env)
                                  (Some (core_usage (one_more_qp (hk_core h)))) (hk_shm h))
              \<and> (hk_tenant_initialized h \<longrightarrow>
                   tenant_table_of h' = count_for (he_pid env) 0 1 (tenant_table_of h)))"
proof -
  obtain ok h1 where c: "check_qp_creation_restrictions env attr h = (ok, h1)" by fastforce
  have ok: "ok = qp_admissible (he_pid env) attr h" and s1: "same_hook h h1"
    using check_restrictions [OF a pid, of attr] c by simp_all
  note d = r [unfolded ibv_create_qp_def hooks_once_ready [OF ready] Let_def c prod.case, simplified bypass_ready [OF ready] if_False]
  note S = same_hookD [OF s1]
  show ?thesis
  proof (cases "ok \<and> he_driver_ptr env \<noteq> 0")
    case False
    with d s1 ok S same_hook_keeps [OF s1] same_hook_table [OF s1] show ?thesis
      by (auto simp: hook_keeps_def tenant_table_of_def)
  next
    case True
    let ?h2 = "(reach_driver (DCreateQp pd attr) h1)\<lparr>hk_core := one_more_qp (hk_core h1),
      hk_shm := snd (shm_update_process_resources (he_shm env) (he_pid env)
                  (Some (core_usage (one_more_qp (hk_core h1)))) (hk_shm h1))\<rparr>"
    have h': "h' = count_tenant env 0 1 ?h2" "qp = he_driver_ptr env" "err = None"
      using d True by (auto simp: core_usage_def one_more_qp_def)
    have "hook_attached ?h2" using S(8) by simp
    from count_tenant_effect [OF this pid, of 0 1] have ct: "counted (he_pid env) 0 1 ?h2 h'" by (simp add: h')
    show ?thesis
      using True ok h'(2,3) countedD [OF ct] counted_table [OF ct] S same_hook_table [OF s1]
      by (simp add: hook_keeps_def one_more_qp_def tenant_table_of_def)
  qed
qed

lemma destroy_qp_effect:
  assumes ready: "hook_ready ''ibv_destroy_qp'' h" and a: "hook_attached h" and pid: "he_pid env \<noteq> 0"
    and r: "ibv_destroy_qp env qp h = (rc, err, h')"
  shows "rc = he_driver_rc env \<and> err = None \<and> hk_trace h' = hk_trace h @ [DDestroyQp qp]
    \<and> hook_keeps h h' \<and> hk_shm h' = hk_shm h
    \<and> (if rc \<noteq> 0 then hk_core h' = hk_core h \<and> tenant_table_of h' = tenant_table_of h
       else st_qp_count (hk_core h') = (if st_qp_count (hk_core h) > 0 then st_qp_count (hk_core h) - 1 else 0)
         \<and> (hk_tenant_initialized h \<longrightarrow>
              tenant_table_of h' = count_for (he_pid env) 0 (-1) (tenant_table_of h)))"
proof -
  note d = r [unfolded ibv_destroy_qp_def hooks_once_ready [OF ready] Let_def, simplified bypass_ready [OF ready] if_False]
  show ?thesis
  proof (cases "he_driver_rc env = 0")
    case False
    with d a show ?thesis by (auto simp: hook_keeps_def tenant_table_of_def)
  next
    case True
    let ?h2 = "if st_qp_count (hk_core h) > 0
      then (reach_driver (DDestroyQp qp) h)\<lparr>hk_core := (hk_core h)\<lparr>st_qp_count := st_qp_count (hk_core h) - 1\<rparr>\<rparr>
      else reach_driver (DDestroyQp qp) h"
    have h': "h' = count_tenant env 0 (-1) ?h2" "rc = 0" "err = None" using d True by auto
    have "hook_attached ?h2" using a by simp
    from count_tenant_effect [OF this pid, of 0 "-1"] have ct: "counted (he_pid env) 0 (-1) ?h2 h'"
      by (simp add: h')
    show ?thesis
      using True h'(2,3) countedD [OF ct] counted_table [OF ct]
      by (simp add: hook_keeps_def tenant_table_of_def word_gt_0 split: if_splits)
  qed
qed

lemma reg_mr_effect:
  assumes ready: "hook_ready ''ibv_reg_mr'' h" and a: "hook_attached h" and pid: "he_pid env \<noteq> 0"
    and r: "ibv_reg_mr env pd addr len acc h = (mr, err, h')"
  shows "if \<not> tenant_mr_room (hook_tenant (he_pid env) h) len h
    then mr = 0 \<and> err = Some EPERM \<and> same_hook h h'
    else mr = he_driver_ptr env \<and> err = None \<and> hk_trace h' = hk_trace h @ [DRegMr pd addr len acc]
      \<and> hook_keeps h h' \<and> hk_shm h' = hk_shm h
      \<and> (if mr = 0
         then hk_core h' = hk_core h \<and> (hk_tenant_initialized h \<longrightarrow> tenant_table_of h' = tenant_table_of h)
         else hk_core h' = (hk_core h)\<lparr>st_mr_count := st_mr_count (hk_core h) + 1,
                                        st_memory_used := st_memory_used (hk_core h) + len\<rparr>
              \<and> (hk_tenant_initialized h \<longrightarrow>
                   tenant_table_of h' = count_for (he_pid env) 1 1 (tenant_table_of h)))"
proof -
  obtain t h1 where g: "get_current_tenant_id (he_tenant env 2) (he_pid env) h = (t, h1)" by fastforce
  obtain ok h2 where c: "check_tenant_mr_limit_inline (he_tenant env 3) t len h1 = (ok, h2)" by fastforce
  have t: "t = hook_tenant (he_pid env) h" and s1: "same_hook h h1"
    using get_current_tenant [OF a pid, of "he_tenant env 2"] g by simp_all
  have ok: "ok = tenant_mr_room t len h" and s2: "same_hook h h2"
    using check_mr_limit [OF same_hookD(8) [OF s1], of "he_tenant env 3" t len] c room_same [OF s1]
      same_hook_trans [OF s1] by auto
  note d = r [unfolded ibv_reg_mr_def hooks_once_ready [OF ready] Let_def g c prod.case, simplified bypass_ready [OF ready] if_False]
  note S = same_hookD [OF s2]
  show ?thesis
  proof (cases "ok \<and> he_driver_ptr env \<noteq> 0")
    case False
    with d s2 ok t S same_hook_keeps [OF s2] same_hook_table [OF s2] show ?thesis
      by (auto simp: hook_keeps_def tenant_table_of_def)
  next
    case True
    let ?h3 = "(reach_driver (DRegMr pd addr len acc) h2)\<lparr>hk_core := (hk_core h2)
      \<lparr>st_mr_count := st_mr_count (hk_core h2) + 1, st_memory_used := st_memory_used (hk_core h2) + len\<rparr>\<rparr>"
    have h': "h' = update_tenant_resource_count (he_tenant env 5) (he_tenant env 6) t 1 1 ?h3"
      "mr = he_driver_ptr env" "err = None" using d True by auto
    have at: "hook_attached ?h3" using S(8) by simp
    obtain ts where ts: "h' = ?h3\<lparr>hk_tenants := ts\<rparr>"
      "hk_tenant_initialized ?h3 \<longrightarrow> tenant_attached ts \<and> tenant_state_abs ts =
         (if t = 0 then tenant_state_abs (hk_tenants ?h3)
          else count_members 1 1 t (tenant_state_abs (hk_tenants ?h3)))"
      using update_count_effect [OF at, of "he_tenant env 5" "he_tenant env 6" t 1 1] unfolding h'(1) by blast
    have "tenant_table_of h' = count_for (he_pid env) 1 1 (tenant_table_of h)" if i: "hk_tenant_initialized h"
      using ts i S same_hook_table [OF s2 i] t
      by (simp add: tenant_table_of_def count_for_def hook_tenant_def split: option.splits)
    then show ?thesis
      using True ok t h'(2,3) ts S by (simp add: hook_keeps_def hook_attached_def)
  qed
qed

lemma dereg_mr_effect:
  assumes ready: "hook_ready ''ibv_dereg_mr'' h" and a: "hook_attached h" and pid: "he_pid env \<noteq> 0"
    and r: "ibv_dereg_mr env (Some (p, len)) h = (rc, err, h')"
  shows "rc = he_driver_rc env \<and> err = None \<and> hk_trace h' = hk_trace h @ [DDeregMr p]
    \<and> hook_keeps h h' \<and> hk_shm h' = hk_shm h
    \<and> (if rc \<noteq> 0 then hk_core h' = hk_core h \<and> tenant_table_of h' = tenant_table_of h
       else st_mr_count (hk_core h') = (if st_mr_count (hk_core h) > 0 then st_mr_count (hk_core h) - 1 else 0)
         \<and> st_memory_used (hk_core h') = (if st_memory_used (hk_core h) \<ge> len
              then st_memory_used (hk_core h) - len else st_memory_used (hk_core h))
         \<and> (hk_tenant_initialized h \<longrightarrow>
              tenant_table_of h' = count_for (he_pid env) 1 (-1) (tenant_table_of h)))"
proof -
  note d = r [unfolded ibv_dereg_mr_def hooks_once_ready [OF ready] Let_def option.case prod.case, simplified bypass_ready [OF ready] if_False]
  show ?thesis
  proof (cases "he_driver_rc env = 0")
    case False
    with d a show ?thesis by (auto simp: hook_keeps_def tenant_table_of_def)
  next
    case True
    let ?c1 = "if st_mr_count (hk_core h) > 0 then (hk_core h)\<lparr>st_mr_count := st_mr_count (hk_core h) - 1\<rparr> else hk_core h"
    let ?c2 = "if st_memory_used ?c1 \<ge> len then ?c1\<lparr>st_memory_used := st_memory_used ?c1 - len\<rparr> else ?c1"
    let ?h2 = "(reach_driver (DDeregMr p) h)\<lparr>hk_core := ?c2\<rparr>"
    have h': "h' = count_tenant env 1 (-1) ?h2" "rc = 0" "err = None" using d True by auto
    have "hook_attached ?h2" using a by simp
    from count_tenant_effect [OF this pid, of 1 "-1"] have ct: "counted (he_pid env) 1 (-1) ?h2 h'"
      by (simp add: h')
    show ?thesis
      using True h'(2,3) countedD [OF ct] counted_table [OF ct]
      by (simp add: hook_keeps_def tenant_table_of_def word_gt_0 split: if_splits)
  qed
qed

lemma counted_create_effect:
  assumes ready: "hook_ready name h" and a: "hook_attached h" and pid: "he_pid env \<noteq> 0"
    and r: "counted_create name ty env c h = (p, err, h')"
  shows "p = he_driver_ptr env \<and> hk_trace h' = hk_trace h @ [c] \<and> hook_keeps h h'
    \<and> hk_core h' = hk_core h \<and> hk_shm h' = hk_shm h
    \<and> (hk_tenant_initialized h \<longrightarrow> tenant_table_of h' =
         (if p = 0 then tenant_table_of h else count_for (he_pid env) ty 1 (tenant_table_of h)))"
proof -
  note d = r [unfolded counted_create_def hooks_once_ready [OF ready] Let_def, simplified bypass_ready [OF ready] if_False]
  have "hook_attached (reach_driver c h)" using a by simp
  note ct = count_tenant_effect [OF this pid, of ty 1]
  show ?thesis
    using d a countedD [OF ct] counted_table [OF ct] by (auto simp: hook_keeps_def tenant_table_of_def)
qed

lemma counted_destroy_effect:
  assumes ready: "hook_ready name h" and a: "hook_attached h" and pid: "he_pid env \<noteq> 0"
    and r: "counted_destroy name ty env c h = (rc, err, h')"
  shows "rc = he_driver_rc env \<and> hk_trace h' = hk_trace h @ [c] \<and> hook_keeps h h'
    \<and> hk_core h' = hk_core h \<and> hk_shm h' = hk_shm h
    \<and> (hk_tenant_initialized h \<longrightarrow> tenant_table_of h' =
         (if rc \<noteq> 0 then tenant_table_of h else count_for (he_pid env) ty (-1) (tenant_table_of h)))"
proof -
  note d = r [unfolded counted_destroy_def hooks_once_ready [OF ready] Let_def, simplified bypass_ready [OF ready] if_False]
  have "hook_attached (reach_driver c h)" using a by simp
  note ct = count_tenant_effect [OF this pid, of ty "-1"]
  show ?thesis
    using d a countedD [OF ct] counted_table [OF ct] by (auto simp: hook_keeps_def tenant_table_of_def)
qed

section \<open>Sequences of hooks and the quota of a tenant\<close>

datatype hook_op =
    HCreateQp hook_env u64 qp_init_attr
  | HDestroyQp hook_env u64
  | HRegMr hook_env u64 u64 u64 i32
  | HDeregMr hook_env u64 u64
  | HCreateCq hook_env u64 i32 u64 u64 i32
  | HDestroyCq hook_env u64
  | HAllocPd hook_env u64
  | HDeallocPd hook_env u64

fun op_env :: "hook_op \<Rightarrow> hook_env" where
  "op_env (HCreateQp env _ _) = env"
| "op_env (HDestroyQp env _) = env"
| "op_env (HRegMr env _ _ _ _) = env"
| "op_env (HDeregMr env _ _) = env"
| "op_env (HCreateCq env _ _ _ _ _) = env"
| "op_env (HDestroyCq env _) = env"
| "op_env (HAllocPd env _) = env"
| "op_env (HDeallocPd env _) = env"

fun op_name :: "hook_op \<Rightarrow> string" where
  "op_name (HCreateQp _ _ _) = ''ibv_create_qp''"
| "op_name (HDestroyQp _ _) = ''ibv_destroy_qp''"
| "op_name (HRegMr _ _ _ _ _) = ''ibv_reg_mr''"
| "op_name (HDeregMr _ _ _) = ''ibv_dereg_mr''"
| "op_name (HCreateCq _ _ _ _ _ _) = ''ibv_create_cq''"
| "op_name (HDestroyCq _ _) = ''ibv_destroy_cq''"
| "op_name (HAllocPd _ _) = ''ibv_alloc_pd''"
| "op_name (HDeallocPd _ _) = ''ibv_dealloc_pd''"

fun hook_exec :: "hook_op \<Rightarrow> hook_state \<Rightarrow> hook_state" where
  "hook_exec (HCreateQp env pd attr) h = snd (snd (ibv_create_qp env pd attr h))"
| "hook_exec (HDestroyQp env qp) h = snd (snd (ibv_destroy_qp env qp h))"
| "hook_exec (HRegMr env pd addr len acc) h = snd (snd (ibv_reg_mr env pd addr len acc h))"
| "hook_exec (HDeregMr env p len) h = snd (snd (ibv_dereg_mr env (Some (p, len)) h))"
| "hook_exec (HCreateCq env a b c d e) h = snd (snd (ibv_create_cq env a b c d e h))"
| "hook_exec (HDestroyCq env cq) h = snd (snd (ibv_destroy_cq env cq h))"
| "hook_exec (HAllocPd env ctx) h = snd (snd (ibv_alloc_pd env ctx h))"
| "hook_exec (HDeallocPd env pd) h = snd (snd (ibv_dealloc_pd env pd h))"

text \<open>How one hook may change the tenant table, by the kind of hook.\<close>

fun op_change :: "hook_op \<Rightarrow> hook_state \<Rightarrow> tenant_table \<Rightarrow> bool" where
  "op_change (HCreateQp env pd attr) h T = (qp_admissible (he_pid env) attr h
     \<and> T = count_for (he_pid env) 0 1 (tenant_table_of h))"
| "op_change (HDestroyQp env qp) h T = (he_driver_rc env = 0
     \<and> T = count_for (he_pid env) 0 (-1) (tenant_table_of h))"
| "op_change (HRegMr env _ _ len _) h T = (tenant_mr_room (hook_tenant (he_pid env) h) len h
     \<and> T = count_for (he_pid env) 1 1 (tenant_table_of h))"
| "op_change (HDeregMr env _ _) h T = (he_driver_rc env = 0
     \<and> T = count_for (he_pid env) 1 (-1) (tenant_table_of h))"
| "op_change (HCreateCq env _ _ _ _ _) h T = (T = count_for (he_pid env) 3 1 (tenant_table_of h))"
| "op_change (HDestroyCq env _) h T = (T = count_for (he_pid env) 3 (-1) (tenant_table_of h))"
| "op_change (HAllocPd env _) h T = (T = count_for (he_pid env) 4 1 (tenant_table_of h))"
| "op_change (HDeallocPd env _) h T = (T = count_for (he_pid env) 4 (-1) (tenant_table_of h))"

lemma hook_exec_ready:
  assumes ready: "hook_ready (op_name c) h" and a: "hook_attached h" and i: "hk_tenant_initialized h"
    and pid: "he_pid (op_env c) \<noteq> 0"
  shows "hook_keeps h (hook_exec c h) \<and>
    (tenant_table_of (hook_exec c h) = tenant_table_of h \<or> op_change c h (tenant_table_of (hook_exec c h)))"
proof (cases c)
  case (HCreateQp env pd attr)
  then show ?thesis
    using create_qp_effect [of h env pd attr, OF _ a] ready pid i
    by (cases "ibv_create_qp env pd attr h") (auto simp: same_hook_keeps same_hook_table split: if_splits)
next
  case (HDestroyQp env qp)
  then show ?thesis
    using destroy_qp_effect [of h env qp, OF _ a] ready pid i
    by (cases "ibv_destroy_qp env qp h") (auto split: if_splits)
next
  case (HRegMr env pd addr len acc)
  then show ?thesis
    using reg_mr_effect [of h env pd addr len acc, OF _ a] ready pid i
    by (cases "ibv_reg_mr env pd addr len acc h") (auto simp: same_hook_keeps same_hook_table split: if_splits)
next
  case (HDeregMr env p len)
  then show ?thesis
    using dereg_mr_effect [of h env p len, OF _ a] ready pid i
    by (cases "ibv_dereg_mr env (Some (p, len)) h") (auto split: if_splits)
next
  case (HCreateCq env a b c d e)
  then show ?thesis
    using counted_create_effect [of "''ibv_create_cq''" h env 3 "DCreateCq a b c d e", OF _ \<open>hook_attached h\<close>] ready pid i
    by (cases "ibv_create_cq env a b c d e h") (auto simp: ibv_create_cq_def split: if_splits)
next
  case (HDestroyCq env cq)
  then show ?thesis
    using counted_destroy_effect [of "''ibv_destroy_cq''" h env 3 "DDestroyCq cq", OF _ a] ready pid i
    by (cases "ibv_destroy_cq env cq h") (auto simp: ibv_destroy_cq_def split: if_splits)
next
  case (HAllocPd env ctx)
  then show ?thesis
    using counted_create_effect [of "''ibv_alloc_pd''" h env 4 "DAllocPd ctx", OF _ a] ready pid i
    by (cases "ibv_alloc_pd env ctx h") (auto simp: ibv_alloc_pd_def split: if_splits)
next
  case (HDeallocPd env pd)
  then show ?thesis
    using counted_destroy_effect [of "''ibv_dealloc_pd''" h env 4 "DDeallocPd pd", OF _ a] ready pid i
    by (cases "ibv_dealloc_pd env pd h") (auto simp: ibv_dealloc_pd_def split: if_splits)
qed

lemma hook_exec_unresolved:
  assumes "hk_init_done h" "rdma_intercept_is_enabled (hk_core h)" "\<not> hk_ptrs h (op_name c)"
  shows "hook_exec c h = h"
proof -
  have o: "hooks_once env h = h" for env using assms by (simp add: hooks_once_def)
  have b: "bypass (op_name c) h" using assms by (simp add: bypass_def)
  show ?thesis
    using o b assms(3)
    by (cases c) (simp_all add: ibv_create_qp_def ibv_destroy_qp_def ibv_reg_mr_def ibv_dereg_mr_def
        ibv_create_cq_def ibv_destroy_cq_def ibv_alloc_pd_def ibv_dealloc_pd_def counted_create_def
        counted_destroy_def pass_ptr_def pass_rc_def Let_def)
qed

text \<open>A process bound to an active tenant, with QP control on.\<close>

definition tenant_usage :: "u32 \<Rightarrow> hook_state \<Rightarrow> (tenant_quota \<times> tenant_resource_usage) option" where
  "tenant_usage t h =
     (case members (tenant_table_of h) t of
        Some (TENANT_STATUS_ACTIVE, q, u) \<Rightarrow> Some (q, u)
      | _ \<Rightarrow> None)"

definition quota_wf :: "pid_t \<Rightarrow> u32 \<Rightarrow> hook_state \<Rightarrow> bool" where
  "quota_wf p t h \<longleftrightarrow> hk_init_done h \<and> rdma_intercept_is_enabled (hk_core h) \<and> hook_attached h
     \<and> hk_tenant_initialized h \<and> enable_qp_control (st_config (hk_core h))
     \<and> binding (tenant_table_of h) p = Some t \<and> t \<noteq> 0 \<and> tenant_usage t h \<noteq> None"

definition qp_used :: "u32 \<Rightarrow> hook_state \<Rightarrow> nat" where
  "qp_used t h = (case tenant_usage t h of None \<Rightarrow> 0 | Some (q, u) \<Rightarrow> unat (tu_qp_count u))"

definition qp_quota :: "u32 \<Rightarrow> hook_state \<Rightarrow> nat" where
  "qp_quota t h = (case tenant_usage t h of None \<Rightarrow> 0 | Some (q, u) \<Rightarrow> unat (max_qp_per_tenant q))"

text \<open>A hook of process \<open>p\<close>; a QP is destroyed only when one is counted.\<close>

fun quota_legal :: "pid_t \<Rightarrow> u32 \<Rightarrow> hook_op \<Rightarrow> hook_state \<Rightarrow> bool" where
  "quota_legal p t (HDestroyQp env qp) h = (he_pid env = p \<and> p \<noteq> 0 \<and> qp_used t h > 0)"
| "quota_legal p t c h = (he_pid (op_env c) = p \<and> p \<noteq> 0)"

lemma quota_legal_pid: "quota_legal p t c h \<Longrightarrow> he_pid (op_env c) = p \<and> p \<noteq> 0"
  by (cases c) simp_all

lemma count_for_usage:
  assumes "binding T p = Some t" "t \<noteq> 0" "members T t = Some (TENANT_STATUS_ACTIVE, q, u)"
  shows "count_for p ty delta T = T\<lparr>members := (members T)(t \<mapsto> (TENANT_STATUS_ACTIVE, q, count_resource ty delta u))\<rparr>"
  using assms by (simp add: count_for_def count_members_def)

lemma count_resource_qp [simp]:
  "tu_qp_count (count_resource 0 d u) = tu_qp_count u + d"
  "ty \<noteq> 0 \<Longrightarrow> tu_qp_count (count_resource ty d u) = tu_qp_count u"
  by (simp_all add: count_resource_def)

lemma tenant_usage_Some:
  "tenant_usage t h = Some (q, u) \<longleftrightarrow> members (tenant_table_of h) t = Some (TENANT_STATUS_ACTIVE, q, u)"
  by (auto simp: tenant_usage_def split: option.splits tenant_status.splits)

lemma quota_count:
  assumes w: "quota_wf p t h" and l: "quota_legal p t c h" and ch: "op_change c h T"
    and m: "members (tenant_table_of h) t = Some (TENANT_STATUS_ACTIVE, q, u)"
  shows "\<forall>st q' u'. members T t = Some (st, q', u') \<longrightarrow>
    unat (tu_qp_count u') \<le> unat (tu_qp_count u)
    \<or> unat (tu_qp_count u) < unat (max_qp_per_tenant q) \<and> unat (tu_qp_count u') = Suc (unat (tu_qp_count u))"
proof -
  have b: "binding (tenant_table_of h) p = Some t" "t \<noteq> 0" using w by (auto simp: quota_wf_def)
  have pid: "he_pid (op_env c) = p" using quota_legal_pid [OF l] by simp
  note T = count_for_usage [OF b m]
  show ?thesis
  proof (cases c)
    case (HCreateQp env pd attr)
    with ch pid w have "tenant_qp_room t h"
      by (auto simp: quota_wf_def qp_admissible_def Let_def hook_tenant_def tenant_table_of_def)
    with m w b have "tu_qp_count u < max_qp_per_tenant q"
      by (simp add: tenant_qp_room_def quota_wf_def hook_members_def tenant_table_of_def)
    then show ?thesis
      using ch pid HCreateQp by (simp add: T unat_add_one word_less_nat_alt)
  next
    case (HDestroyQp env qp)
    then have "0 < unat (tu_qp_count u)" using l m by (simp add: qp_used_def tenant_usage_def)
    with unat_sub_one [OF this] show ?thesis using ch pid HDestroyQp by (simp add: T)
  qed (use ch pid in \<open>simp_all add: T\<close>)
qed

lemma quota_step:
  assumes w: "quota_wf p t h" and l: "quota_legal p t c h"
  shows "quota_wf p t (hook_exec c h) \<and> qp_quota t (hook_exec c h) = qp_quota t h
    \<and> (qp_used t (hook_exec c h) \<le> qp_used t h
       \<or> qp_used t h < qp_quota t h \<and> qp_used t (hook_exec c h) = Suc (qp_used t h))"
proof (cases "hk_ptrs h (op_name c)")
  case False
  with w have "hook_exec c h = h" by (intro hook_exec_unresolved) (simp_all add: quota_wf_def)
  with w show ?thesis by simp
next
  case True
  let ?h = "hook_exec c h"
  have ready: "hook_ready (op_name c) h" "hook_attached h" "hk_tenant_initialized h"
    and b: "binding (tenant_table_of h) p = Some t" "t \<noteq> 0"
    using w True by (auto simp: quota_wf_def hook_ready_def)
  have pid: "he_pid (op_env c) = p" "p \<noteq> 0" using quota_legal_pid [OF l] by simp_all
  obtain q u where m: "members (tenant_table_of h) t = Some (TENANT_STATUS_ACTIVE, q, u)"
    using w by (auto simp: quota_wf_def tenant_usage_Some)
  have e: "hook_keeps h ?h"
    "tenant_table_of ?h = tenant_table_of h \<or> op_change c h (tenant_table_of ?h)"
    using hook_exec_ready [OF ready] pid by simp_all
  have used: "qp_used t h = unat (tu_qp_count u)" and quota: "qp_quota t h = unat (max_qp_per_tenant q)"
    using m by (simp_all add: qp_used_def qp_quota_def tenant_usage_def)
  show ?thesis
  proof (cases "tenant_table_of ?h = tenant_table_of h")
    case True
    with w e show ?thesis
      by (simp add: quota_wf_def hook_keeps_def rdma_intercept_is_enabled_def qp_used_def qp_quota_def tenant_usage_def)
  next
    case False
    with e have ch: "op_change c h (tenant_table_of ?h)" by simp
    obtain ty d where T: "tenant_table_of ?h = count_for p ty d (tenant_table_of h)"
      using ch pid by (cases c) auto
    note T' = T [unfolded count_for_usage [OF b m]]
    have m': "members (tenant_table_of ?h) t = Some (TENANT_STATUS_ACTIVE, q, count_resource ty d u)"
      "binding (tenant_table_of ?h) p = Some t" using T' b by simp_all
    have w': "quota_wf p t ?h"
      using w e m' by (auto simp: quota_wf_def hook_keeps_def rdma_intercept_is_enabled_def tenant_usage_def)
    have q': "qp_quota t ?h = qp_quota t h" and u': "qp_used t ?h = unat (tu_qp_count (count_resource ty d u))"
      using m' quota by (simp_all add: qp_quota_def qp_used_def tenant_usage_def)
    have "qp_used t ?h \<le> qp_used t h \<or> qp_used t h < qp_quota t h \<and> qp_used t ?h = Suc (qp_used t h)"
      using quota_count [OF w l ch m] used quota m' by (simp add: qp_used_def tenant_usage_def)
    with w' q' show ?thesis by simp
  qed
qed

interpretation tenant_qp: admission "quota_wf p t" "qp_used t" "qp_quota t" "quota_legal p t" hook_exec
  for p t
  by unfold_locales (use quota_step Suc_leI in metis)+

section \<open>Properties\<close>

text \<open>
  A process 42 of tenant 1 (quota 100, nothing used), with QP control on and the process table
  freshly attached.
\<close>

definition demo_env :: hook_env where
  "demo_env = \<lparr>he_core = core_env0, he_shm = ok_shm_env, he_tenant = (\<lambda>_. ok_tenant_env), he_pid = 42,
     he_dlopen_ok = True, he_dlsym = (\<lambda>_. True), he_ebpf_init = 0, he_ebpf_attach = id,
     he_tenant_id = None, he_driver_ptr = 4096, he_driver_rc = 0\<rparr>"

definition demo_hooks :: hook_state where
  "demo_hooks = \<lparr>hk_core = g_intercept_state\<lparr>st_initialized := True,
       st_config := default_config\<lparr>enable_qp_control := True\<rparr>\<rparr>,
     hk_shm = fresh_shm, hk_tenants = two_tenants, hk_init_done = True, hk_ptrs = (\<lambda>_. True),
     hk_ebpf_initialized = True, hk_tenant_initialized = True, hk_trace = []\<rparr>"

lemma demo_ready: "hook_ready name demo_hooks" "hook_attached demo_hooks" "he_pid demo_env \<noteq> 0"
  by (simp_all add: hook_ready_def demo_hooks_def rdma_intercept_is_enabled_def default_config_def
      hook_attached_def two_tenants_attached demo_env_def)

lemma demo_table: "tenant_table_of demo_hooks =
     \<lparr>members = [1 \<mapsto> (TENANT_STATUS_ACTIVE, default_tenant_quota, zero_tenant_usage),
                2 \<mapsto> (TENANT_STATUS_ACTIVE, default_tenant_quota, zero_tenant_usage)],
      binding = [42 \<mapsto> 1]\<rparr>"
  by (simp add: tenant_table_of_def demo_hooks_def two_tenants_abs)

lemma demo_quota: "quota_wf 42 1 demo_hooks" "qp_used 1 demo_hooks = 0" "qp_quota 1 demo_hooks = 100"
  using demo_ready
  by (simp_all add: quota_wf_def demo_table tenant_usage_def qp_used_def qp_quota_def zero_tenant_usage_def
      default_tenant_quota_def hook_ready_def)
     (simp add: demo_hooks_def)

text \<open>
  C1 (QP admission). With the layer in force, \<open>ibv_create_qp\<close> asks the driver exactly when
  the request is admissible (QP control off; or the type allowed, and room in the tenant's quota, in
  the per-process limit and in the global limit). A refused request returns NULL with
  \<open>EPERM\<close>, never reaches the driver, and leaves counters, process table and tenant table
  alone; an admitted one that the driver fulfils is counted in all three.
\<close>

theorem create_qp_admission:
  assumes ready: "hook_ready ''ibv_create_qp'' h" and a: "hook_attached h" and pid: "he_pid env \<noteq> 0"
    and i: "hk_tenant_initialized h" and r: "ibv_create_qp env pd attr h = (qp, err, h')"
  shows "(\<not> qp_admissible (he_pid env) attr h \<longrightarrow>
        qp = 0 \<and> err = Some EPERM \<and> hk_trace h' = hk_trace h \<and> hk_core h' = hk_core h
        \<and> hk_shm h' = hk_shm h \<and> tenant_table_of h' = tenant_table_of h)
    \<and> (qp_admissible (he_pid env) attr h \<longrightarrow>
        qp = he_driver_ptr env \<and> err = None \<and> hk_trace h' = hk_trace h @ [DCreateQp pd attr]
        \<and> (qp \<noteq> 0 \<longrightarrow> st_qp_count (hk_core h') = st_qp_count (hk_core h) + 1
             \<and> hk_shm h' = snd (shm_update_process_resources (he_shm env) (he_pid env)
                  (Some \<lparr>qp_count = st_qp_count (hk_core h) + 1, mr_count = st_mr_count (hk_core h),
                         memory_used = st_memory_used (hk_core h)\<rparr>) (hk_shm h))
             \<and> tenant_table_of h' = count_for (he_pid env) 0 1 (tenant_table_of h)))"
  using create_qp_effect [OF ready a pid r] i
  by (auto simp: same_hookD same_hook_table one_more_qp_def core_usage_def split: if_splits)

lemma demo_admissible: "qp_admissible 42 \<lparr>qp_type = IBV_QPT_RC\<rparr> demo_hooks"
  using fresh_shm_ptr
  by (auto simp: qp_admissible_def Let_def demo_hooks_def qp_type_allowed_def default_config_def
      tenant_qp_room_def hook_tenant_def two_tenants_abs hook_members_def zero_tenant_usage_def
      default_tenant_quota_def shm_get_process_resources_def shm_get_global_resources_def
      find_slot_replicate zero_usage_def split: option.splits)

theorem create_qp_admission_witness:
  "case ibv_create_qp demo_env 7 \<lparr>qp_type = IBV_QPT_RC\<rparr> demo_hooks of (qp, err, h') \<Rightarrow>
     qp = 4096 \<and> st_qp_count (hk_core h') = 1"
proof -
  obtain qp err h' where r: "ibv_create_qp demo_env 7 \<lparr>qp_type = IBV_QPT_RC\<rparr> demo_hooks = (qp, err, h')"
    by (metis prod_cases3)
  have i: "hk_tenant_initialized demo_hooks" by (simp add: demo_hooks_def)
  have "he_pid demo_env = 42" "he_driver_ptr demo_env = 4096" "st_qp_count (hk_core demo_hooks) = 0"
    by (simp_all add: demo_env_def demo_hooks_def g_intercept_state_def)
  with create_qp_admission [OF demo_ready(1) demo_ready(2) demo_ready(3) i r] demo_admissible r
  show ?thesis by simp
qed

text \<open>
  C2 (the quota of a tenant). Whatever sequence of hooks an initialised process of an active tenant
  runs, with QP control on and the tenant within its quota at the start, the tenant never uses more
  QPs than its quota, which stays what it is, provided a QP is only destroyed while some are counted
  (an uncounted one takes the count below zero).
\<close>

theorem tenant_quota_respected:
  assumes "quota_wf p t h" "qp_used t h \<le> qp_quota t h" "legal_run (quota_legal p t) hook_exec ops h"
  shows "qp_used t (fold hook_exec ops h) \<le> qp_quota t h
    \<and> qp_quota t (fold hook_exec ops h) = qp_quota t h"
  using tenant_qp.run_within [OF assms] by simp

theorem tenant_quota_respected_witness:
  "qp_used 1 (fold hook_exec (replicate 200 (HCreateQp demo_env 7 \<lparr>qp_type = IBV_QPT_RC\<rparr>)) demo_hooks) \<le> 100"
proof -
  let ?c = "HCreateQp demo_env 7 \<lparr>qp_type = IBV_QPT_RC\<rparr>"
  have "legal_run (quota_legal 42 1) hook_exec (replicate n ?c) h" for n h
    by (induction n arbitrary: h) (simp_all add: demo_env_def)
  then have l: "legal_run (quota_legal 42 1) hook_exec (replicate 200 ?c) demo_hooks" .
  have "qp_used 1 demo_hooks \<le> qp_quota 1 demo_hooks" by (simp add: demo_quota)
  from tenant_quota_respected [OF demo_quota(1) this l] show ?thesis by (simp add: demo_quota)
qed

text \<open>The driver call a hook stands for.\<close>

fun op_driver_call :: "hook_op \<Rightarrow> driver_call" where
  "op_driver_call (HCreateQp env pd attr) = DCreateQp pd attr"
| "op_driver_call (HDestroyQp env qp) = DDestroyQp qp"
| "op_driver_call (HRegMr env pd addr len acc) = DRegMr pd addr len acc"
| "op_driver_call (HDeregMr env p len) = DDeregMr p"
| "op_driver_call (HCreateCq env a b c d e) = DCreateCq a b c d e"
| "op_driver_call (HDestroyCq env cq) = DDestroyCq cq"
| "op_driver_call (HAllocPd env ctx) = DAllocPd ctx"
| "op_driver_call (HDeallocPd env pd) = DDeallocPd pd"

text \<open>
  The per-process limit is not given back. Destroying a QP updates the counter of the process
  and its tenant but not the process table, which the per-process check reads: a process refused
  by that check is refused again after any successful destroy.
\<close>

theorem destroy_keeps_process_limit:
  assumes ready: "hook_ready ''ibv_destroy_qp'' h" and ready': "hook_ready ''ibv_create_qp'' h"
    and a: "hook_attached h" and i: "hk_tenant_initialized h"
    and pid: "he_pid env \<noteq> 0" "he_pid env' = he_pid env"
    and ctl: "enable_qp_control (st_config (hk_core h))"
    and full: "shm_get_process_resources (he_pid env) True (hk_shm h) = (0, Some u)"
      "qp_count u + 1 > max_qp_per_process (st_config (hk_core h))"
  shows "case ibv_destroy_qp env qp h of (rc, err, h1) \<Rightarrow>
    case ibv_create_qp env' pd attr h1 of (qp', err', h2) \<Rightarrow>
      hk_shm h1 = hk_shm h \<and> qp' = 0 \<and> err' = Some EPERM \<and> hk_trace h2 = hk_trace h @ [DDestroyQp qp]"
proof -
  obtain rc err h1 where d: "ibv_destroy_qp env qp h = (rc, err, h1)" by (metis prod_cases3)
  obtain qp' err' h2 where c: "ibv_create_qp env' pd attr h1 = (qp', err', h2)" by (metis prod_cases3)
  note e = destroy_qp_effect [OF ready a pid(1) d]
  then have k: "hook_keeps h h1" "hk_shm h1 = hk_shm h" "hk_trace h1 = hk_trace h @ [DDestroyQp qp]"
    by simp_all
  have r1: "hook_ready ''ibv_create_qp'' h1" "hook_attached h1"
    using k(1) ready' by (simp_all add: hook_keeps_def hook_ready_def rdma_intercept_is_enabled_def)
  have "\<not> qp_admissible (he_pid env') attr h1"
    using ctl full k pid(2) by (auto simp: qp_admissible_def Let_def hook_keeps_def not_le)
  with create_qp_effect [OF r1 _ c] pid k show ?thesis by (auto simp: c d dest: same_hookD(3))
qed

text \<open>A process whose limit is one, after it created its one QP.\<close>

definition one_qp_hooks :: hook_state where
  "one_qp_hooks = demo_hooks\<lparr>
     hk_core := (hk_core demo_hooks)\<lparr>st_qp_count := 1,
       st_config := (st_config (hk_core demo_hooks))\<lparr>max_qp_per_process := 1\<rparr>\<rparr>,
     hk_shm := snd (shm_update_process_resources ok_shm_env 42
       (Some \<lparr>qp_count = 1, mr_count = 0, memory_used = 0\<rparr>) fresh_shm)\<rparr>"

lemma one_qp_usage: "shm_get_process_resources 42 True (hk_shm one_qp_hooks)
    = (0, Some \<lparr>qp_count = 1, mr_count = 0, memory_used = 0\<rparr>)"
proof -
  let ?u = "\<lparr>qp_count = 1, mr_count = 0, memory_used = 0\<rparr>"
  have pos: "0 < sint (42 :: pid_t)" by simp
  have put: "shm_put ok_shm_env 42 ?u fresh_shm = Some (hk_shm one_qp_hooks)"
    using shm_update_put [OF fresh_shm_update_ok, of 42 ok_shm_env ?u] by (simp add: one_qp_hooks_def)
  from shm_table.put_view [OF fresh_shm_wf pos put] shm_put_ptr [OF put pos] pos show ?thesis
    by (simp add: get_process_view)
qed

theorem destroy_keeps_process_limit_witness:
  "case ibv_destroy_qp demo_env 4096 one_qp_hooks of (rc, err, h1) \<Rightarrow>
     rc = 0 \<and> st_qp_count (hk_core h1) = 0 \<and>
     fst (snd (ibv_create_qp demo_env 7 \<lparr>qp_type = IBV_QPT_RC\<rparr> h1)) = Some EPERM"
proof -
  have r: "hook_ready n one_qp_hooks" for n
    using demo_ready(1) [of n]
    by (simp add: one_qp_hooks_def hook_ready_def rdma_intercept_is_enabled_def)
  have a: "hook_attached one_qp_hooks" "hk_tenant_initialized one_qp_hooks"
    using demo_ready(2) by (simp_all add: one_qp_hooks_def hook_attached_def demo_hooks_def)
  have p: "he_pid demo_env = 42" by (simp add: demo_env_def)
  have c: "enable_qp_control (st_config (hk_core one_qp_hooks))"
    "qp_count \<lparr>qp_count = 1, mr_count = 0, memory_used = 0\<rparr> + 1 > max_qp_per_process (st_config (hk_core one_qp_hooks))"
    by (simp_all add: one_qp_hooks_def demo_hooks_def)
  obtain rc err h1 where d: "ibv_destroy_qp demo_env 4096 one_qp_hooks = (rc, err, h1)" by (metis prod_cases3)
  have "rc = 0 \<and> st_qp_count (hk_core h1) = 0"
    using destroy_qp_effect [OF r a(1) demo_ready(3) d] by (simp add: demo_env_def one_qp_hooks_def)
  moreover have "fst (snd (ibv_create_qp demo_env 7 \<lparr>qp_type = IBV_QPT_RC\<rparr> h1)) = Some EPERM"
    using destroy_keeps_process_limit [OF r r a demo_ready(3) refl c(1) _ c(2), of 4096 7 "\<lparr>qp_type = IBV_QPT_RC\<rparr>"]
      one_qp_usage d by (auto simp: p split: prod.splits)
  ultimately show ?thesis by (simp add: d)
qed

text \<open>
  The memory of a tenant is never counted. No hook changes the memory recorded for any
  tenant: the memory quota is compared with a sum that only ever contains the one registration
  being made.
\<close>

lemma count_resource_memory: "tu_memory_used (count_resource ty d u) = tu_memory_used u"
  by (simp add: count_resource_def)

lemma count_for_memory:
  "map_option (\<lambda>(st, q, u). tu_memory_used u) (members (count_for p ty d T) t)
   = map_option (\<lambda>(st, q, u). tu_memory_used u) (members T t)"
  by (auto simp: count_for_def count_members_def count_resource_memory
      split: option.splits tenant_status.splits)

theorem tenant_memory_never_counted:
  assumes ready: "hook_ready (op_name c) h" and a: "hook_attached h" and i: "hk_tenant_initialized h"
    and pid: "he_pid (op_env c) \<noteq> 0"
  shows "map_option (\<lambda>(st, q, u). tu_memory_used u) (members (tenant_table_of (hook_exec c h)) t)
    = map_option (\<lambda>(st, q, u). tu_memory_used u) (members (tenant_table_of h) t)"
proof -
  have "tenant_table_of (hook_exec c h) = tenant_table_of h
      \<or> (\<exists>p ty d. tenant_table_of (hook_exec c h) = count_for p ty d (tenant_table_of h))"
    using hook_exec_ready [OF ready a i pid] by (cases c) auto
  then show ?thesis by (auto simp: count_for_memory)
qed

text \<open>Registering a gigabyte leaves the tenant at zero.\<close>

theorem tenant_memory_never_counted_witness:
  "map_option (\<lambda>(st, q, u). tu_memory_used u)
     (members (tenant_table_of (hook_exec (HRegMr demo_env 7 0 1073741824 0) demo_hooks)) 1) = Some 0"
  using tenant_memory_never_counted [OF demo_ready(1) demo_ready(2), of "HRegMr demo_env 7 0 1073741824 0" 1]
    demo_ready(3)
  by (simp add: demo_table zero_tenant_usage_def) (simp add: demo_hooks_def)

text \<open>
  An uncounted destroy locks the tenant out. When the driver destroys a QP while the tenant
  counts none (it was created before the process was bound), the count becomes 4294967295: no
  quota leaves room for another QP, and every later request of the tenant is refused.
\<close>

theorem uncounted_destroy_locks_tenant:
  assumes w: "quota_wf p t h" and ready: "hook_ready ''ibv_destroy_qp'' h"
    and zero: "qp_used t h = 0" and pid: "he_pid env = p" "p \<noteq> 0" and rc: "he_driver_rc env = 0"
  shows "qp_used t (hook_exec (HDestroyQp env qp) h) = 4294967295
    \<and> \<not> qp_admissible p attr (hook_exec (HDestroyQp env qp) h)"
proof -
  obtain rc' err h1 where d: "ibv_destroy_qp env qp h = (rc', err, h1)" by (metis prod_cases3)
  have a: "hook_attached h" "hk_tenant_initialized h" and b: "binding (tenant_table_of h) p = Some t" "t \<noteq> 0"
    using w by (simp_all add: quota_wf_def)
  obtain q u where m: "members (tenant_table_of h) t = Some (TENANT_STATUS_ACTIVE, q, u)"
    using w by (auto simp: quota_wf_def tenant_usage_Some)
  have u0: "tu_qp_count u = 0" using zero m by (simp add: qp_used_def tenant_usage_def unat_eq_0)
  note e = destroy_qp_effect [OF ready a(1) _ d]
  have T: "tenant_table_of h1 = count_for p 0 (-1) (tenant_table_of h)" and k: "hook_keeps h h1"
    using e pid rc a by simp_all
  have m': "members (tenant_table_of h1) t = Some (TENANT_STATUS_ACTIVE, q, count_resource 0 (-1) u)"
    "binding (tenant_table_of h1) p = Some t"
    using b by (simp_all add: T count_for_usage [OF b m])
  have top: "unat (-1 :: u32) = 4294967295" "\<not> (-1 :: u32) < x" for x
    by (simp_all add: unsigned_minus_1_eq_mask mask_eq_exp_minus_1 word_order.extremum linorder_not_less)
  have "qp_used t h1 = 4294967295" using m' u0 by (simp add: qp_used_def tenant_usage_def top)
  moreover have "\<not> tenant_qp_room (hook_tenant p h1) h1"
    using m' u0 k a b by (simp add: hook_keeps_def hook_tenant_def tenant_qp_room_def
        hook_members_def tenant_table_of_def top)
  moreover have "enable_qp_control (st_config (hk_core h1))" using w k by (simp add: quota_wf_def hook_keeps_def)
  ultimately show ?thesis using d by (simp add: qp_admissible_def Let_def)
qed

theorem uncounted_destroy_locks_tenant_witness:
  "qp_used 1 (hook_exec (HDestroyQp demo_env 4096) demo_hooks) = 4294967295"
  using uncounted_destroy_locks_tenant [OF demo_quota(1) demo_ready(1) demo_quota(2), of demo_env 4096]
  by (simp add: demo_env_def)

text \<open>
  Register and deregister. Registering a memory region and deregistering it restores the
  region count and the memory total of the process, when the total does not wrap.
\<close>

theorem reg_dereg_restores:
  assumes ready: "hook_ready ''ibv_reg_mr'' h" "hook_ready ''ibv_dereg_mr'' h" and a: "hook_attached h"
    and pid: "he_pid env \<noteq> 0" "he_pid env' \<noteq> 0"
    and r: "ibv_reg_mr env pd addr len acc h = (mr, err, h1)" "mr \<noteq> 0"
    and d: "ibv_dereg_mr env' (Some (mr, len)) h1 = (0, err', h2)"
    and wrap: "unat (st_memory_used (hk_core h)) + unat len < 2 ^ 64"
      "unat (st_mr_count (hk_core h)) + 1 < 2 ^ 32"
  shows "st_mr_count (hk_core h2) = st_mr_count (hk_core h)
    \<and> st_memory_used (hk_core h2) = st_memory_used (hk_core h)
    \<and> hk_trace h2 = hk_trace h @ [DRegMr pd addr len acc, DDeregMr mr]"
proof -
  have e: "hk_trace h1 = hk_trace h @ [DRegMr pd addr len acc]" "hook_keeps h h1"
    "hk_core h1 = (hk_core h)\<lparr>st_mr_count := st_mr_count (hk_core h) + 1,
                               st_memory_used := st_memory_used (hk_core h) + len\<rparr>"
    using reg_mr_effect [OF ready(1) a pid(1) r(1)] r(2) by (auto split: if_splits)
  have r1: "hook_ready ''ibv_dereg_mr'' h1" "hook_attached h1"
    using e(2) ready(2) by (simp_all add: hook_keeps_def hook_ready_def rdma_intercept_is_enabled_def)
  have "unat (st_memory_used (hk_core h) + len) = unat (st_memory_used (hk_core h)) + unat len"
    using wrap(1) by (simp add: unat_word_ariths)
  then have "len \<le> st_memory_used (hk_core h) + len" by (simp add: word_le_nat_alt)
  moreover have "0 < st_mr_count (hk_core h) + 1"
    using wrap(2) by (simp add: word_less_nat_alt unat_word_ariths)
  ultimately show ?thesis
    using dereg_mr_effect [OF r1 pid(2) d] e by simp
qed

theorem reg_dereg_restores_witness:
  "case ibv_reg_mr demo_env 7 0 65536 0 demo_hooks of (mr, err, h1) \<Rightarrow>
     st_memory_used (hk_core h1) = 65536 \<and>
     (case ibv_dereg_mr demo_env (Some (mr, 65536)) h1 of (rc, err', h2) \<Rightarrow> st_memory_used (hk_core h2) = 0)"
proof -
  obtain mr err h1 where r: "ibv_reg_mr demo_env 7 0 65536 0 demo_hooks = (mr, err, h1)" by (metis prod_cases3)
  obtain rc err' h2 where d: "ibv_dereg_mr demo_env (Some (mr, 65536)) h1 = (rc, err', h2)" by (metis prod_cases3)
  have "tenant_mr_room (hook_tenant (he_pid demo_env) demo_hooks) 65536 demo_hooks"
    by (simp add: tenant_mr_room_def hook_tenant_def demo_hooks_def demo_env_def two_tenants_abs
        hook_members_def zero_tenant_usage_def default_tenant_quota_def)
  with reg_mr_effect [OF demo_ready(1) demo_ready(2) demo_ready(3) r]
  have mr: "mr = 4096" "hook_keeps demo_hooks h1" "st_memory_used (hk_core h1) = 65536"
    by (auto simp: demo_env_def demo_hooks_def g_intercept_state_def split: if_splits)
  have r1: "hook_ready ''ibv_dereg_mr'' h1" "hook_attached h1"
    using mr(2) demo_ready(1) [of "''ibv_dereg_mr''"]
    by (simp_all add: hook_keeps_def hook_ready_def rdma_intercept_is_enabled_def)
  have "rc = 0" using dereg_mr_effect [OF r1 demo_ready(3) d] by (simp add: demo_env_def)
  with d have d': "ibv_dereg_mr demo_env (Some (mr, 65536)) h1 = (0, err', h2)" by simp
  have "mr \<noteq> 0" "unat (st_memory_used (hk_core demo_hooks)) + unat (65536 :: u64) < 2 ^ 64"
    "unat (st_mr_count (hk_core demo_hooks)) + 1 < 2 ^ 32"
    using mr(1) by (simp_all add: demo_hooks_def g_intercept_state_def)
  from reg_dereg_restores [OF demo_ready(1) demo_ready(1) demo_ready(2) demo_ready(3) demo_ready(3) r this(1) d' this(2,3)]
  have "st_memory_used (hk_core h2) = 0" by (simp add: demo_hooks_def g_intercept_state_def)
  with mr(3) show ?thesis by (simp add: r d)
qed

end
