(* ===== verification/Daemon_Spec.thy ===== *)
theory Daemon_Spec
  imports Tenant_Daemon Tenant_Spec Hooks_Spec
begin

text \<open>
  What the tenant daemon promises: each command is one operation of the abstract tenant table
  with an answer that says whether it succeeded; what a created tenant's status shows; and the
  hot update the daemon is for, a quota that is in force in the hooks of running applications.
\<close>

section \<open>The meaning of a request\<close>

definition command_of :: "'j json_lib \<Rightarrow> string \<Rightarrow> (string \<times> 'j) option" where
  "command_of lib text =
     (case tokener_parse lib text of
        None \<Rightarrow> None
      | Some j \<Rightarrow>
          (case object_get_ex lib j ''cmd'' of
             None \<Rightarrow> None
           | Some c \<Rightarrow> map_option (\<lambda>cmd. (cmd, j)) (get_string lib c)))"

text \<open>The command is present but null.\<close>

definition null_command :: "'j json_lib \<Rightarrow> string \<Rightarrow> bool" where
  "null_command lib text =
     (case tokener_parse lib text of
        None \<Rightarrow> False
      | Some j \<Rightarrow> (case object_get_ex lib j ''cmd'' of None \<Rightarrow> False | Some c \<Rightarrow> get_string lib c = None))"

definition request_quota :: "'j json_lib \<Rightarrow> 'j \<Rightarrow> i32 \<Rightarrow> i32 \<Rightarrow> tenant_quota" where
  "request_quota lib j qp mr = daemon_quota qp (int_field lib j ''mr'' mr) (memory_field lib j)"

text \<open>Return code and effect on the abstract table.\<close>

definition daemon_effect :: "'j json_lib \<Rightarrow> string \<Rightarrow> tenant_table \<Rightarrow> int \<times> tenant_table" where
  "daemon_effect lib text T =
     (case command_of lib text of
        None \<Rightarrow> (-1, T)
      | Some (cmd, j) \<Rightarrow>
          if cmd = ''UPDATE_QUOTA'' then
            (case (object_get_ex lib j ''tenant'', object_get_ex lib j ''qp'') of
               (Some t, Some q) \<Rightarrow>
                 spec_update_quota (get_int lib t)
                   (Some (request_quota lib j (get_int lib q) (get_int lib q))) T
             | _ \<Rightarrow> (-1, T))
          else if cmd = ''CREATE'' then
            (case object_get_ex lib j ''tenant'' of
               None \<Rightarrow> (-1, T)
             | Some t \<Rightarrow> spec_create (get_int lib t)
                 (Some (request_quota lib j (int_field lib j ''qp'' 100) 100)) T)
          else if cmd = ''DELETE'' then
            (case object_get_ex lib j ''tenant'' of
               None \<Rightarrow> (-1, T) | Some t \<Rightarrow> spec_delete (get_int lib t) T)
          else if cmd = ''STATUS'' then
            (case object_get_ex lib j ''tenant'' of
               None \<Rightarrow> (0, T)
             | Some t \<Rightarrow> (if members T (get_int lib t) = None then -1 else 0, T))
          else if cmd = ''LIST_TENANTS'' then (0, T)
          else (-1, T))"

text \<open>A handler does what the table operation says, on an attached table, and reports it.\<close>

definition handled :: "'j json_lib \<Rightarrow> int \<times> tenant_table \<Rightarrow> string \<times> tenant_state \<Rightarrow> bool" where
  "handled lib e r \<longleftrightarrow> tenant_attached (snd r) \<and> tenant_state_abs (snd r) = snd e
     \<and> (\<exists>m d. fst r = build_response lib (fst e = 0) m d)"

lemma abs_header [simp]:
  "tenant_abs (d\<lparr>tenant_last_update_time := t, tenant_version := v\<rparr>) = tenant_abs d"
  by (simp add: tenant_abs_def tenant_members_def tenant_at_def fun_eq_iff)

lemma attached_header:
  assumes "tenant_attached s" "tenant_object s = Some d"
  shows "tenant_attached (s\<lparr>tenant_object := Some (d\<lparr>tenant_last_update_time := t, tenant_version := v\<rparr>)\<rparr>)"
  using assms by (auto simp: tenant_attached_def tenant_inv_def tenant_safe_def)

lemma handled_result:
  assumes "tenant_attached s'" "map_prod id tenant_state_abs (rc, s') = e"
  shows "handled lib e (build_response lib (rc = 0) m d, s')"
  unfolding handled_def using assms by (intro conjI exI [of _ m] exI [of _ d]) auto

lemma handle_create_handled:
  assumes a: "tenant_attached s" and t: "object_get_ex lib j ''tenant'' = Some t"
  shows "handled lib (spec_create (get_int lib t)
      (Some (request_quota lib j (int_field lib j ''qp'' 100) 100)) (tenant_state_abs s))
    (handle_create lib env j s)"
proof -
  define q where "q = request_quota lib j (int_field lib j ''qp'' 100) 100"
  define n where "n = (case object_get_ex lib j ''name'' of Some v \<Rightarrow> get_string lib v | None \<Rightarrow> Some ''unnamed'')"
  obtain rc s' where r: "tenant_create (de_tenant env 0) (get_int lib t) n (Some q) s = (rc, s')" by fastforce
  have "tenant_attached s'"
    using exec_attached [OF a, of "TenantCreate (de_tenant env 0) (get_int lib t) n (Some q)"] r
    by (simp add: tenant_exec_def)
  note h = handled_result [OF this]
  have e: "map_prod id tenant_state_abs (rc, s') = spec_create (get_int lib t) (Some q) (tenant_state_abs s)"
    using create_refines [OF a] r by metis
  show ?thesis
    using h [OF e, of lib] r unfolding handle_create_def t n_def q_def request_quota_def
    by (cases "rc = 0") (simp_all add: Let_def)
qed

lemma handle_delete_handled:
  assumes a: "tenant_attached s" and t: "object_get_ex lib j ''tenant'' = Some t"
  shows "handled lib (spec_delete (get_int lib t) (tenant_state_abs s)) (handle_delete lib env j s)"
proof -
  obtain rc s' where r: "tenant_delete (de_tenant env 0) (get_int lib t) s = (rc, s')" by fastforce
  have "tenant_attached s'"
    using exec_attached [OF a, of "TenantDelete (de_tenant env 0) (get_int lib t)"] r
    by (simp add: tenant_exec_def)
  note h = handled_result [OF this]
  have e: "map_prod id tenant_state_abs (rc, s') = spec_delete (get_int lib t) (tenant_state_abs s)"
    using delete_refines [OF a] r by metis
  show ?thesis
    using h [OF e, of lib] r unfolding handle_delete_def t by (cases "rc = 0") (simp_all add: Let_def)
qed

lemma handle_update_quota_handled:
  assumes a: "tenant_attached s" and t: "object_get_ex lib j ''tenant'' = Some t"
    and q: "object_get_ex lib j ''qp'' = Some q"
  shows "handled lib (spec_update_quota (get_int lib t)
      (Some (request_quota lib j (get_int lib q) (get_int lib q))) (tenant_state_abs s))
    (handle_update_quota lib env j s)"
proof -
  define u where "u = request_quota lib j (get_int lib q) (get_int lib q)"
  obtain rc s' where r: "tenant_update_quota (de_tenant env 0) (get_int lib t) (Some u) s = (rc, s')" by fastforce
  have a': "tenant_attached s'"
    using exec_attached [OF a, of "TenantUpdateQuota (de_tenant env 0) (get_int lib t) (Some u)"] r
    by (simp add: tenant_exec_def)
  have e: "map_prod id tenant_state_abs (rc, s') = spec_update_quota (get_int lib t) (Some u) (tenant_state_abs s)"
    using update_quota_refines [OF a] r by metis
  obtain d where d: "tenant_object s' = Some d" "tenant_shm_get_ptr (de_tenant env (Suc 0)) s' = (Some d, s')"
    using attachedD [OF a'] by blast
  define s'' where "s'' = s'\<lparr>tenant_object := Some (d\<lparr>tenant_last_update_time := de_tv_sec env * 1000000000 + de_tv_nsec env,
      tenant_version := tenant_version d + 1\<rparr>)\<rparr>"
  have a'': "tenant_attached s''" unfolding s''_def by (rule attached_header [OF a' d(1)])
  have "tenant_state_abs s'' = tenant_state_abs s'" by (simp add: s''_def tenant_state_abs_def d(1))
  then have e'': "map_prod id tenant_state_abs (rc, s'') = spec_update_quota (get_int lib t) (Some u) (tenant_state_abs s)"
    using e by simp
  show ?thesis
    using handled_result [OF a' e, of lib] handled_result [OF a'' e'', of lib] r
    unfolding handle_update_quota_def t q u_def request_quota_def s''_def
    by (cases "rc = 0") (simp_all add: Let_def d)
qed

lemma handle_status_handled:
  assumes a: "tenant_attached s"
  shows "handled lib
      (case object_get_ex lib j ''tenant'' of
         None \<Rightarrow> (0, tenant_state_abs s)
       | Some t \<Rightarrow> (if members (tenant_state_abs s) (get_int lib t) = None then -1 else 0, tenant_state_abs s))
    (handle_status lib env j s)"
proof (cases "object_get_ex lib j ''tenant''")
  case None
  obtain d where d: "tenant_shm_get_ptr (de_tenant env 0) s = (Some d, s)" using attachedD [OF a] by blast
  have e: "map_prod id tenant_state_abs (0, s) = (0, tenant_state_abs s)" by simp
  show ?thesis using handled_result [OF a e, of lib] unfolding handle_status_def None by (simp add: d)
next
  case (Some t)
  obtain rc i s' where r: "tenant_get_info (de_tenant env 0) (get_int lib t) True s = ((rc, i), s')"
    by (metis prod.exhaust)
  have k: "same_tenants s s'"
    using tenant_readers_same(2) [OF a, where env = "de_tenant env 0" and tid = "get_int lib t" and b = True] r by simp
  then have a': "tenant_attached s'" by (simp add: same_tenants_def)
  have e: "map_prod id tenant_state_abs (rc, s') =
      (if members (tenant_state_abs s) (get_int lib t) = None then -1 else 0, tenant_state_abs s)"
    using k get_info_members [OF a, where tid = "get_int lib t" and env = "de_tenant env 0"] r
    by (auto simp: same_tenants_def split: option.splits)
  have i: "rc = 0 \<Longrightarrow> i \<noteq> None"
    using get_info_members [OF a, where tid = "get_int lib t" and env = "de_tenant env 0"] r by (auto split: option.splits)
  show ?thesis
    using handled_result [OF a' e, of lib] r i unfolding handle_status_def Some
    by (cases "rc = 0"; cases i) (simp_all add: Let_def)
qed

lemma handle_list_handled:
  assumes a: "tenant_attached s"
  shows "handled lib (0, tenant_state_abs s) (handle_list_tenants lib env s)"
proof -
  obtain d where d: "tenant_shm_get_ptr (de_tenant env 0) s = (Some d, s)" using attachedD [OF a] by blast
  have e: "map_prod id tenant_state_abs (0, s) = (0, tenant_state_abs s)" by simp
  show ?thesis using handled_result [OF a e, of lib] unfolding handle_list_tenants_def by (simp add: d Let_def)
qed

lemma refused: "tenant_attached s \<Longrightarrow> handled lib (-1, tenant_state_abs s) (build_response lib False m d, s)"
  unfolding handled_def by (intro conjI exI [of _ m] exI [of _ d]) simp_all

text \<open>The handler the command selects, and its meaning.\<close>

definition run_command :: "'j json_lib \<Rightarrow> daemon_env \<Rightarrow> string \<Rightarrow> 'j \<Rightarrow> tenant_state \<Rightarrow> string \<times> tenant_state" where
  "run_command lib env cmd j s =
     (if cmd = ''UPDATE_QUOTA'' then handle_update_quota lib env j s
      else if cmd = ''CREATE'' then handle_create lib env j s
      else if cmd = ''DELETE'' then handle_delete lib env j s
      else if cmd = ''STATUS'' then handle_status lib env j s
      else if cmd = ''LIST_TENANTS'' then handle_list_tenants lib env s
      else (build_response lib False (Some ''Unknown command'') None, s))"

lemma process_command_eq:
  "process_command lib env text s =
     (case command_of lib text of
        Some (cmd, j) \<Rightarrow> Some (run_command lib env cmd j s)
      | None \<Rightarrow> if null_command lib text then None
                else Some (build_response lib False
                  (Some (if tokener_parse lib text = None then ''Invalid JSON'' else ''Missing 'cmd' field'')) None, s))"
  by (auto simp: process_command_def command_of_def null_command_def run_command_def split: option.split)

lemma run_command_handled:
  assumes a: "tenant_attached s" and c: "command_of lib text = Some (cmd, j)"
  shows "handled lib (daemon_effect lib text (tenant_state_abs s)) (run_command lib env cmd j s)"
proof -
  consider "cmd = ''UPDATE_QUOTA''" | "cmd = ''CREATE''" | "cmd = ''DELETE''" | "cmd = ''STATUS''"
    | "cmd = ''LIST_TENANTS''"
    | "cmd \<notin> {''UPDATE_QUOTA'', ''CREATE'', ''DELETE'', ''STATUS'', ''LIST_TENANTS''}" by blast
  then show ?thesis
  proof cases
    case 1
    then show ?thesis
      using handle_update_quota_handled [OF a, of lib j] refused [OF a, of lib]
      by (auto simp: run_command_def daemon_effect_def c handle_update_quota_def [where cmd_obj = j] split: option.split)
  next
    case 2
    then show ?thesis
      using handle_create_handled [OF a, of lib j] refused [OF a, of lib]
      by (cases "object_get_ex lib j ''tenant''")
         (simp_all add: run_command_def daemon_effect_def c, simp add: handle_create_def)
  next
    case 3
    then show ?thesis
      using handle_delete_handled [OF a, of lib j] refused [OF a, of lib]
      by (cases "object_get_ex lib j ''tenant''")
         (simp_all add: run_command_def daemon_effect_def c, simp add: handle_delete_def)
  next
    case 4
    then show ?thesis
      using handle_status_handled [OF a, of lib j env] by (simp add: run_command_def daemon_effect_def c)
  next
    case 5
    then show ?thesis
      using handle_list_handled [OF a, of lib env] by (simp add: run_command_def daemon_effect_def c)
  next
    case 6
    then show ?thesis using refused [OF a, of lib] by (simp add: run_command_def daemon_effect_def c)
  qed
qed

section \<open>Properties\<close>

text \<open>
  C24 (the daemon implements the table). On an attached tenant table every request is answered,
  leaves the table attached and well formed, changes the abstract table as the command says and
  nothing else, and reports success exactly when the operation succeeded; the only request without
  an answer is one whose command is null, on which the daemon dereferences NULL.
\<close>

theorem daemon_refines:
  assumes "tenant_attached s"
  shows "case process_command lib env text s of
      None \<Rightarrow> null_command lib text
    | Some r \<Rightarrow> \<not> null_command lib text \<and> handled lib (daemon_effect lib text (tenant_state_abs s)) r"
proof (cases "command_of lib text")
  case None
  then have "daemon_effect lib text T = (-1, T)" for T by (simp add: daemon_effect_def)
  with None refused [OF assms, of lib] show ?thesis by (simp add: process_command_eq)
next
  case (Some c)
  then obtain cmd j where c: "command_of lib text = Some (cmd, j)" by (cases c) simp
  then have "\<not> null_command lib text" by (auto simp: command_of_def null_command_def split: option.splits)
  with run_command_handled [OF assms c] c show ?thesis by (simp add: process_command_eq)
qed

text \<open>
  A JSON library for the examples: a request is its own value, the command is its first word and
  the fields are fixed.
\<close>

definition demo_json :: "string json_lib" where
  "demo_json = \<lparr>tokener_parse = (\<lambda>text. if text = [] then None else Some text),
     object_get_ex = (\<lambda>j key.
       if key = ''cmd'' then Some (Some j)
       else if key = ''tenant'' then Some (Some ''1'')
       else if key = ''qp'' then Some (Some ''7'')
       else if key = ''name'' then Some (Some ''one'')
       else None),
     get_int = (\<lambda>v. case v of None \<Rightarrow> 0 | Some t \<Rightarrow> atoi t),
     get_int64 = (\<lambda>v. case v of None \<Rightarrow> 0 | Some t \<Rightarrow> atoll t),
     get_string = (\<lambda>v. v),
     to_json_string = (\<lambda>_. ''{}'')\<rparr>"

definition demo_daemon_env :: daemon_env where
  "demo_daemon_env = \<lparr>de_tenant = (\<lambda>_. ok_tenant_env), de_tv_sec = 1, de_tv_nsec = 0\<rparr>"

lemma demo_numbers: "atoi ''1'' = 1" "atoi ''7'' = 7"
  by (simp_all add: atoi_def strtol_def signed_prefix_def skip_space_def leading_digits_def is_space_def
      is_digit_def digits_value_def digit_value_def)

lemma demo_fields:
  "object_get_ex demo_json j ''tenant'' = Some (Some ''1'')" "object_get_ex demo_json j ''qp'' = Some (Some ''7'')"
  "object_get_ex demo_json j ''name'' = Some (Some ''one'')" "object_get_ex demo_json j ''mr'' = None"
  "object_get_ex demo_json j ''memory'' = None" "get_string demo_json v = v"
  "get_int demo_json (Some ''1'') = 1" "get_int demo_json (Some ''7'') = 7"
  by (simp_all add: demo_json_def demo_numbers)

lemma demo_command: "text \<noteq> [] \<Longrightarrow> command_of demo_json text = Some (text, text)"
  by (simp add: command_of_def demo_json_def)

theorem daemon_refines_witness:
  "\<exists>r. process_command demo_json demo_daemon_env ''DELETE'' two_tenants = Some r
     \<and> members (tenant_state_abs (snd r)) 1 = None"
proof -
  have k: "command_of demo_json ''DELETE'' = Some (''DELETE'', ''DELETE'')" by (simp add: demo_command)
  have "daemon_effect demo_json ''DELETE'' (tenant_state_abs two_tenants) = spec_delete 1 (tenant_state_abs two_tenants)"
    by (simp add: daemon_effect_def k) (simp add: demo_json_def demo_numbers)
  moreover have "\<not> null_command demo_json ''DELETE''" by (simp add: null_command_def demo_json_def)
  ultimately show ?thesis
    using daemon_refines [OF two_tenants_attached, of demo_json "''DELETE''" demo_daemon_env]
    by (cases "process_command demo_json demo_daemon_env ''DELETE'' two_tenants")
       (auto simp: handled_def spec_delete_def two_tenants_abs)
qed

text \<open>
  C25 (hot update of a quota). When the daemon has answered the update of the quota of a tenant in
  use, the QP check of every running application of the tenant compares with the new limit: it
  admits a creation exactly when the recorded count is below the number of the request.
\<close>

theorem quota_update_reaches_hooks:
  assumes s: "tenant_attached s" "members (tenant_state_abs s) tid = Some (st, q, u)"
    and h: "hook_attached h" "hk_tenant_initialized h" "tid \<noteq> 0"
    and c: "command_of lib text = Some (''UPDATE_QUOTA'', j)"
    and f: "object_get_ex lib j ''tenant'' = Some t" "get_int lib t = tid"
      "object_get_ex lib j ''qp'' = Some n"
  shows "\<exists>reply s'. process_command lib env text s = Some (reply, s')
    \<and> fst (check_tenant_qp_limit env' tid
        (h\<lparr>hk_tenants := (hk_tenants h)\<lparr>tenant_object := tenant_object s'\<rparr>\<rparr>))
      = (tu_qp_count u < get_int lib n)"
proof -
  obtain reply s' where r: "run_command lib env ''UPDATE_QUOTA'' j s = (reply, s')" by fastforce
  then have p: "process_command lib env text s = Some (reply, s')" by (simp add: process_command_eq c)
  have hd: "handled lib (daemon_effect lib text (tenant_state_abs s)) (reply, s')"
    using run_command_handled [OF s(1) c, of env] r by simp
  have e: "daemon_effect lib text (tenant_state_abs s) = spec_update_quota tid
      (Some (request_quota lib j (get_int lib n) (get_int lib n))) (tenant_state_abs s)"
    by (simp add: daemon_effect_def c f)
  have a': "tenant_attached s'" and m: "members (tenant_state_abs s') tid =
      Some (st, request_quota lib j (get_int lib n) (get_int lib n), u)"
    using hd s(2) by (simp_all add: handled_def e spec_update_quota_def)
  let ?h = "h\<lparr>hk_tenants := (hk_tenants h)\<lparr>tenant_object := tenant_object s'\<rparr>\<rparr>"
  have ha: "hook_attached ?h"
    using h(1,2) a' by (auto simp: hook_attached_def tenant_attached_def tenant_inv_def)
  have "hook_members ?h tid = Some (st, request_quota lib j (get_int lib n) (get_int lib n), u)"
    using m by (simp add: hook_members_def tenant_state_abs_def)
  then have "tenant_qp_room tid ?h = (tu_qp_count u < get_int lib n)"
    using h by (simp add: tenant_qp_room_def request_quota_def daemon_quota_def)
  with p check_qp_limit [OF ha, of env' tid] show ?thesis by auto
qed

lemma demo_hooks_two_tenants:
  "hook_attached demo_hooks" "hk_tenant_initialized demo_hooks"
  by (simp_all add: demo_ready, simp add: demo_hooks_def)

theorem quota_update_reaches_hooks_witness:
  "\<exists>reply s'. process_command demo_json demo_daemon_env ''UPDATE_QUOTA'' two_tenants = Some (reply, s')
    \<and> fst (check_tenant_qp_limit ok_tenant_env 1
        (demo_hooks\<lparr>hk_tenants := (hk_tenants demo_hooks)\<lparr>tenant_object := tenant_object s'\<rparr>\<rparr>))
      = (tu_qp_count zero_tenant_usage < get_int demo_json (Some ''7''))"
  by (rule quota_update_reaches_hooks [OF two_tenants_attached, where j = "''UPDATE_QUOTA''" and t = "Some ''1''"])
     (simp_all add: two_tenants_abs demo_hooks_two_tenants demo_command demo_fields)

text \<open>The printed status of a tenant that was just created.\<close>

definition fresh_status :: "u32 \<Rightarrow> string \<Rightarrow> tenant_quota \<Rightarrow> json_out" where
  "fresh_status tid name q =
     JObject [(''id'', JInt tid), (''name'', JString name), (''status'', JInt 1),
       (''qp_used'', JInt 0), (''qp_limit'', JInt (max_qp_per_tenant q)),
       (''mr_used'', JInt 0), (''mr_limit'', JInt (max_mr_per_tenant q)),
       (''memory_used'', JInt64 0), (''memory_limit'', JInt64 (max_memory_per_tenant q)),
       (''total_qp_creates'', JInt64 0), (''total_mr_regs'', JInt64 0)]"

lemma create_then_info:
  assumes a: "tenant_attached s" and tid: "tid \<noteq> 0" "unat tid < MAX_TENANTS"
    and free: "members (tenant_state_abs s) tid = None"
  obtains s' t where "tenant_create env tid name (Some q) s = (0, s')" "tenant_attached s'"
    "fst (tenant_get_info env' tid True s') = (0, Some t)"
    "ti_tenant_id t = tid" "ti_status t = TENANT_STATUS_ACTIVE" "ti_quota t = q" "ti_usage t = zero_tenant_usage"
    "ti_tenant_name t = take 63 (case name of Some n \<Rightarrow> n | None \<Rightarrow> ''unnamed'')"
proof -
  obtain d where d: "tenant_object s = Some d" "tenant_safe d" using attachedD [OF a] by blast
  have st: "ti_status (tenant_at d tid) = TENANT_STATUS_INACTIVE"
    using free tid d by (auto simp: attached_abs members_abs split: if_splits)
  have len: "unat tid < length (tenants d)" using d tid by (simp add: tenant_safe_def)
  have nlt: "\<not> MAX_TENANTS \<le> unat tid" using tid by simp
  let ?t = "zero_tenant\<lparr>ti_tenant_id := tid,
      ti_tenant_name := take (TENANT_NAME_MAX - 1) (case name of Some n \<Rightarrow> n | None \<Rightarrow> ''unnamed''),
      ti_status := TENANT_STATUS_ACTIVE, ti_created_at := tenv_time env 1,
      ti_last_active_at := tenv_time env 1, ti_quota := q\<rparr>"
  obtain rc s' where r: "tenant_create env tid name (Some q) s = (rc, s')" by fastforce
  have a': "tenant_attached s'"
    using exec_attached [OF a, of "TenantCreate env tid name (Some q)"] r by (simp add: tenant_exec_def)
  have "rc = 0 \<and> (\<exists>d'. tenant_object s' = Some d' \<and> tenant_at d' tid = ?t)"
    using r nlt tid st len
    by (auto simp: tenant_create_def with_attached_eq [OF a d(1)] Let_def tenant_at_def upd_tenant_def
        tenant_shm_unlock_def tenant_shm_lock_def)
  then obtain d' where d': "rc = 0" "tenant_object s' = Some d'" "tenant_at d' tid = ?t" by blast
  show thesis
  proof (rule that [of s' ?t])
    show "tenant_create env tid name (Some q) s = (0, s')" using r d'(1) by simp
    show "fst (tenant_get_info env' tid True s') = (0, Some ?t)"
      using nlt by (simp add: tenant_get_info_def with_attached_eq [OF a' d'(2)] d'(3))
  qed (use a' in \<open>simp_all add: zero_tenant_def TENANT_NAME_MAX_def\<close>)
qed

definition request_name :: "'j json_lib \<Rightarrow> 'j \<Rightarrow> string" where
  "request_name lib j =
     (case object_get_ex lib j ''name'' of
        None \<Rightarrow> ''unnamed''
      | Some v \<Rightarrow> (case get_string lib v of None \<Rightarrow> ''unnamed'' | Some n \<Rightarrow> n))"

text \<open>
  Create, then status. Creating an unused tenant is answered with success, and the status
  request that follows shows the number, the name cut to 63 characters, the limits of the request
  with their defaults (QPs and MRs 100, memory 1 GB) and nothing used.
\<close>

theorem daemon_create_status:
  assumes a: "tenant_attached s" and tid: "tid \<noteq> 0" "unat tid < MAX_TENANTS"
    and free: "members (tenant_state_abs s) tid = None"
    and c1: "command_of lib text1 = Some (''CREATE'', ja)" "object_get_ex lib ja ''tenant'' = Some ta"
      "get_int lib ta = tid"
    and c2: "command_of lib text2 = Some (''STATUS'', jb)" "object_get_ex lib jb ''tenant'' = Some tb"
      "get_int lib tb = tid"
  shows "\<exists>s1 s2.
      process_command lib env1 text1 s =
        Some (build_response lib True (Some (''Tenant '' @ dec (unat tid) @ '' created'')) None, s1)
    \<and> process_command lib env2 text2 s1 =
        Some (build_response lib True (Some ''Tenant status'')
          (Some (fresh_status tid (take 63 (request_name lib ja))
            (request_quota lib ja (int_field lib ja ''qp'' 100) 100))), s2)"
proof -
  define q where "q = request_quota lib ja (int_field lib ja ''qp'' 100) 100"
  define nm where "nm = (case object_get_ex lib ja ''name'' of Some v \<Rightarrow> get_string lib v | None \<Rightarrow> Some ''unnamed'')"
  have nm: "(case nm of Some n \<Rightarrow> n | None \<Rightarrow> ''unnamed'') = request_name lib ja"
    by (simp add: nm_def request_name_def split: option.split)
  obtain s1 t where t: "tenant_create (de_tenant env1 0) tid nm (Some q) s = (0, s1)" "tenant_attached s1"
    "fst (tenant_get_info (de_tenant env2 0) tid True s1) = (0, Some t)"
    "ti_tenant_id t = tid" "ti_status t = TENANT_STATUS_ACTIVE" "ti_quota t = q" "ti_usage t = zero_tenant_usage"
    "ti_tenant_name t = take 63 (request_name lib ja)"
    by (rule create_then_info [OF a tid free, where name = nm and env = "de_tenant env1 0"
          and env' = "de_tenant env2 0" and q = q]) (simp only: nm)
  obtain s2 where s2: "tenant_get_info (de_tenant env2 0) tid True s1 = ((0, Some t), s2)"
    using t(3) by (metis prod.exhaust_sel)
  have 1: "handle_create lib env1 ja s =
      (build_response lib True (Some (''Tenant '' @ dec (unat tid) @ '' created'')) None, s1)"
    using t(1) unfolding handle_create_def nm_def q_def request_quota_def by (simp add: c1 Let_def)
  have 2: "handle_status lib env2 jb s1 =
      (build_response lib True (Some ''Tenant status'') (Some (fresh_status tid (take 63 (request_name lib ja)) q)), s2)"
    unfolding handle_status_def
    by (simp add: c2 s2 Let_def t fresh_status_def status_entry_def zero_tenant_usage_def)
  show ?thesis
    using 1 2 by (simp add: process_command_eq c1 c2 run_command_def q_def)
qed

theorem daemon_create_status_witness:
  "\<exists>s1 s2.
      process_command demo_json demo_daemon_env ''CREATE'' fresh_tenants =
        Some (build_response demo_json True (Some (''Tenant '' @ dec (unat (1::u32)) @ '' created'')) None, s1)
    \<and> process_command demo_json demo_daemon_env ''STATUS'' s1 =
        Some (build_response demo_json True (Some ''Tenant status'')
          (Some (fresh_status 1 (take 63 (request_name demo_json ''CREATE''))
            (request_quota demo_json ''CREATE'' (int_field demo_json ''CREATE'' ''qp'' 100) 100))), s2)"
  by (rule daemon_create_status [OF fresh_tenants_attached, where ta = "Some ''1''" and tb = "Some ''1''"
        and jb = "''STATUS''"])
     (simp_all add: MAX_TENANTS_def fresh_tenants_abs empty_table_def demo_command demo_fields)

end
