(* ===== verification/C_Scan.thy ===== *)
theory C_Scan
  imports C_Text
begin

text \<open>
  The scanning side of the C library that the policy file, the collector protocol and the
  commands use: the \<open>sscanf\<close> conversions \<open>%63s\<close>, \<open>%u\<close> and
  \<open>%zu\<close>, \<open>strstr\<close>, and the comparison of a prefix with \<open>strncmp\<close>;
  with the facts that a printed word or number is scanned back.
\<close>

section \<open>Conversions\<close>

text \<open>\<open>%<n>s\<close>: skip white space, then at least one and at most \<open>n\<close> other
  characters; the word and the rest.\<close>

definition scan_word :: "nat \<Rightarrow> string \<Rightarrow> (string \<times> string) option" where
  "scan_word n s =
     (let s = skip_space s; w = take n (takeWhile (\<lambda>c. \<not> is_space c) s)
      in if w = [] then None else Some (w, drop (length w) s))"

text \<open>White space, an optional sign and at least one digit.\<close>

definition number_ahead :: "string \<Rightarrow> bool" where
  "number_ahead s \<longleftrightarrow>
     (case skip_space s of
        [] \<Rightarrow> False
      | c # cs \<Rightarrow> if c = CHR ''-'' \<or> c = CHR ''+'' then cs \<noteq> [] \<and> is_digit (hd cs) else is_digit c)"

text \<open>\<open>%u\<close> stores the \<open>unsigned long\<close> it reads into 32 bits; \<open>%zu\<close>
  keeps it.\<close>

definition scan_u32 :: "string \<Rightarrow> u32 option" where
  "scan_u32 s = (if number_ahead s then Some (ucast (strtoull s)) else None)"

definition scan_u64 :: "string \<Rightarrow> u64 option" where
  "scan_u64 s = (if number_ahead s then Some (strtoull s) else None)"

section \<open>Searching\<close>

definition has_prefix :: "string \<Rightarrow> string \<Rightarrow> bool" where
  "has_prefix p s \<longleftrightarrow> take (length p) s = p"

text \<open>\<open>strstr\<close>: the text from the first occurrence on.\<close>

fun strstr :: "string \<Rightarrow> string \<Rightarrow> string option" where
  "strstr p [] = (if p = [] then Some [] else None)"
| "strstr p (c # cs) = (if has_prefix p (c # cs) then Some (c # cs) else strstr p cs)"

lemma has_prefix_append [simp]: "has_prefix p (p @ s)"
  by (simp add: has_prefix_def)

lemma strstr_here: "strstr p (p @ s) = Some (p @ s)"
proof (cases "p @ s")
  case (Cons c cs)
  with has_prefix_append [of p s] show ?thesis by simp
qed simp

lemma strstr_has_prefix: "strstr p s = Some t \<Longrightarrow> has_prefix p t"
  by (induction s) (auto simp: has_prefix_def split: if_splits)

text \<open>The first characters that cannot start an occurrence are passed over.\<close>

lemma strstr_skip: "hd p \<notin> set a \<Longrightarrow> p \<noteq> [] \<Longrightarrow> strstr p (a @ s) = strstr p s"
proof (induction a)
  case (Cons x a)
  then have "\<not> has_prefix p (x # a @ s)" by (cases p) (auto simp: has_prefix_def)
  with Cons show ?case by simp
qed simp

section \<open>Scanning what was printed\<close>

lemma number_ahead_dec: "number_ahead (dec n @ rest)"
proof -
  obtain d ds where "dec n = d # ds" "is_digit d" by (rule dec_Cons)
  then show ?thesis by (simp add: number_ahead_def skip_space_def digit_facts)
qed

lemma number_ahead_space: "is_space c \<Longrightarrow> number_ahead (c # s) = number_ahead s"
  by (simp add: number_ahead_def skip_space_def)

lemma strtoull_space: "is_space c \<Longrightarrow> strtoull (c # s) = strtoull s"
  by (simp add: strtoull_def signed_prefix_space)

lemma scan_u64_dec: "no_digit_ahead rest \<Longrightarrow> n < 2 ^ 64 \<Longrightarrow> scan_u64 (dec n @ rest) = Some (of_nat n)"
  by (simp add: scan_u64_def number_ahead_dec strtoull_dec)

lemma scan_u32_dec: "no_digit_ahead rest \<Longrightarrow> n < 2 ^ 64 \<Longrightarrow> scan_u32 (dec n @ rest) = Some (of_nat n)"
  by (simp add: scan_u32_def number_ahead_dec strtoull_dec unsigned_of_nat take_bit_nat_eq_self)

lemma scan_u32_space: "is_space c \<Longrightarrow> scan_u32 (c # s) = scan_u32 s"
  by (simp add: scan_u32_def number_ahead_space strtoull_space)

lemma scan_word_plain:
  assumes "w \<noteq> []" "\<forall>c\<in>set w. \<not> is_space c" "length w \<le> n" "is_space c"
  shows "scan_word n (w @ c # rest) = Some (w, c # rest)"
proof -
  have "skip_space (w @ c # rest) = w @ c # rest"
    using assms(1,2) by (cases w) (simp_all add: skip_space_def)
  moreover have "takeWhile (\<lambda>c. \<not> is_space c) (w @ c # rest) = w"
    using assms(2,4) by (subst takeWhile_append2) auto
  ultimately show ?thesis using assms(1,3) by (cases n) (simp_all add: scan_word_def)
qed

section \<open>Files of short lines\<close>

text \<open>A file of lines that fit the buffer is read back line by line.\<close>

lemma fgets_line: "CHR 0x0A \<notin> set l \<Longrightarrow> length l < n \<Longrightarrow> fgets n (l @ CHR 0x0A # s) = (l @ [CHR 0x0A], s)"
proof (induction l arbitrary: n)
  case Nil
  then show ?case by (cases n) auto
next
  case (Cons c l)
  then show ?case by (cases n) auto
qed

definition text_line :: "nat \<Rightarrow> string \<Rightarrow> bool" where
  "text_line n l \<longleftrightarrow> l \<noteq> [] \<and> last l = CHR 0x0A \<and> CHR 0x0A \<notin> set (butlast l) \<and> length l \<le> n"

lemma text_lineI: "CHR 0x0A \<notin> set l \<Longrightarrow> length l < n \<Longrightarrow> text_line n (l @ [CHR 0x0A])"
  by (simp add: text_line_def)

lemma fgets_all_lines: "\<forall>l\<in>set ls. text_line (Suc n) l \<Longrightarrow> fgets_all n (concat ls) = ls"
proof (induction ls)
  case (Cons l ls)
  then have l: "l = butlast l @ [CHR 0x0A]" "CHR 0x0A \<notin> set (butlast l)" "length (butlast l) < Suc n"
    by (auto simp: text_line_def) (metis append_butlast_last_id)
  obtain c cs where c: "concat (l # ls) = c # cs" using Cons.prems by (cases l) (auto simp: text_line_def)
  have "fgets (Suc n) (concat (l # ls)) = (l, concat ls)"
    using fgets_line [OF l(2,3), of "concat ls"] l(1) by (metis append.assoc append_Cons append_Nil concat.simps(2))
  with c Cons show ?case by (simp del: fgets.simps)
qed simp

end
