(* ===== verification/C_Float.thy ===== *)
theory C_Float
  imports Prelude Complex_Main
begin

text \<open>
  Single-precision arithmetic. A \<open>float\<close> is the rational it denotes: a value is rounded to 24
  significant bits, to the even neighbour when it lies in the middle. The quotients of the program
  are neither so small nor so large that the range of the exponents matters.
\<close>

section \<open>Single precision\<close>

definition round_even :: "rat \<Rightarrow> int" where
  "round_even x =
     (let n = \<lfloor>x\<rfloor>; r = x - of_int n
      in if r < 1 / 2 \<or> r = 1 / 2 \<and> even n then n else n + 1)"

text \<open>The distance of neighbouring floats at \<open>x\<close>, reached from \<open>u\<close> by doubling
  or halving; 64 steps cover every quotient of two 32-bit numbers.\<close>

fun float_ulp :: "nat \<Rightarrow> rat \<Rightarrow> rat \<Rightarrow> rat" where
  "float_ulp 0 x u = u"
| "float_ulp (Suc n) x u =
     (if x \<ge> 16777216 * u then float_ulp n x (2 * u)
      else if x < 8388608 * u then float_ulp n x (u / 2)
      else u)"

definition round_float :: "rat \<Rightarrow> rat" where
  "round_float x =
     (if x = 0 then 0
      else let u = float_ulp 64 \<bar>x\<bar> 1 in of_int (round_even (x / u)) * u)"

text \<open>The conversion \<open>(float)n\<close>: numbers below \<open>2 ^ 24\<close> are floats.\<close>

definition float_of_u32 :: "u32 \<Rightarrow> rat" where
  "float_of_u32 n =
     (if unat n < 16777216 then of_nat (unat n) else round_float (of_nat (unat n)))"

definition float_of_i32 :: "i32 \<Rightarrow> rat" where
  "float_of_i32 n = (if sint n < 0 then - float_of_u32 (- n) else float_of_u32 n)"

definition float_div :: "rat \<Rightarrow> rat \<Rightarrow> rat" where
  "float_div a b = round_float (a / b)"

section \<open>Rounding\<close>

lemma round_even_error: "\<bar>of_int (round_even x) - x\<bar> \<le> 1 / 2"
proof -
  have "0 \<le> x - of_int \<lfloor>x\<rfloor>" "x - of_int \<lfloor>x\<rfloor> < 1" by linarith+
  then show ?thesis by (auto simp: round_even_def Let_def abs_le_iff)
qed

lemma float_ulp_range:
  "0 < u \<Longrightarrow> 8388608 * u / 2 ^ n \<le> x \<Longrightarrow> x < 16777216 * u \<Longrightarrow>
   0 < float_ulp n x u \<and> 8388608 * float_ulp n x u \<le> x"
proof (induction n arbitrary: u)
  case (Suc n)
  show ?case
  proof (cases "x < 8388608 * u")
    case True
    have "8388608 * (u / 2) / 2 ^ n \<le> x" using Suc.prems(2) by (simp add: field_simps)
    with Suc.IH [of "u / 2"] Suc.prems True show ?thesis by simp
  next
    case False
    with Suc.prems show ?thesis by simp
  qed
qed simp

lemma round_float_error:
  assumes "1 / 1048576 \<le> x" "x < 16777216"
  shows "\<bar>round_float x - x\<bar> \<le> x / 16777216"
proof -
  have xp: "\<bar>x\<bar> = x" using assms(1) by (simp add: order_trans [rotated, OF assms(1)])
  define u where "u = float_ulp 64 x 1"
  have "8388608 * 1 / 2 ^ 64 \<le> x" using assms(1) by (rule order_trans [rotated]) simp
  with float_ulp_range [of 1 64 x] assms(2) have u: "0 < u" "8388608 * u \<le> x" by (simp_all add: u_def)
  have x: "x \<noteq> 0" using assms(1) by auto
  have "round_float x - x = (of_int (round_even (x / u)) - x / u) * u"
    using x u(1) by (simp add: round_float_def xp u_def [symmetric] Let_def field_simps)
  then have "\<bar>round_float x - x\<bar> \<le> 1 / 2 * u"
    using round_even_error [of "x / u"] u(1) by (simp add: abs_mult)
  also have "\<dots> \<le> x / 16777216" using u(2) by simp
  finally show ?thesis .
qed

end
