(* ===== verification/Dyn_Policy.thy ===== *)
theory Dyn_Policy
  imports C_Scan Shm Tenant_Shm C_Float
begin

text \<open>
  The dynamic policy manager (\<open>src/dynamic_policy_manager.c\<close>,
  \<open>include/dynamic_policy.h\<close>): the limits per resource, their publication in the process
  table, the configuration file, the per-tenant policies and the adjustment thread.

  A call returns \<^const>\<open>None\<close> when it does not return: it waits for a mutex that the
  calling thread holds itself (the mutexes are of the default kind, which a thread cannot take
  twice), or for a thread that does not end, or it joins a thread that was never created, for which
  the standard defines no result. The adjustment thread is a part of the state, at the places where
  it stands between its steps; of several threads started by repeated initialisations it is the last,
  the one the handle \<open>g_adjust_thread\<close> names. A watermark is a float; the model keeps its value as a rational, \<^const>\<open>None\<close>
  standing for a value that is not a number. The printing of the configuration is not modelled.
\<close>

section \<open>Data\<close>

definition POLICY_TYPE_STATIC :: int where "POLICY_TYPE_STATIC = 0"

definition RESOURCE_QP :: int where "RESOURCE_QP = 0"
definition RESOURCE_MR :: int where "RESOURCE_MR = 1"
definition RESOURCE_CQ :: int where "RESOURCE_CQ = 2"
definition RESOURCE_PD :: int where "RESOURCE_PD = 3"
definition RESOURCE_MEMORY :: int where "RESOURCE_MEMORY = 4"

lemmas resource_defs = RESOURCE_QP_def RESOURCE_MR_def RESOURCE_CQ_def RESOURCE_PD_def RESOURCE_MEMORY_def

record resource_limit =
  rl_max_per_process :: u32
  rl_max_global :: u32
  rl_max_memory :: u64

record policy_rule =
  rule_id :: u32
  rule_type :: int
  rule_resource :: int
  rule_limit :: resource_limit
  rule_priority :: u32
  created_at :: u64
  expires_at :: u64
  rule_enabled :: bool

record dynamic_policy_config =
  qp_policy :: policy_rule
  mr_policy :: policy_rule
  cq_policy :: policy_rule
  pd_policy :: policy_rule
  memory_policy :: policy_rule
  auto_adjust :: bool
  adjust_interval :: u32
  high_watermark :: "rat option"
  low_watermark :: "rat option"

record tenant_policy =
  tp_tenant_id :: u32
  tp_tenant_name :: string
  tp_policy :: dynamic_policy_config
  tp_last_updated :: u64

text \<open>Where the adjustment thread stands: in its sleep, or past the test that follows it.\<close>

datatype adjust_thread = NoThread | ThreadSleeping | ThreadAwake | ThreadEnded

record policy_state =
  g_policy_config :: dynamic_policy_config
  policy_locked :: bool        \<comment> \<open>g_policy_mutex\<close>
  policy_running :: bool       \<comment> \<open>g_running\<close>
  g_tenant_policies :: "tenant_policy list"
  tenants_locked :: bool       \<comment> \<open>g_tenant_mutex\<close>
  policy_shm :: shm_state
  policy_thread :: adjust_thread \<comment> \<open>g_adjust_thread\<close>

record policy_env =
  pl_time :: u64
  pl_thread_ok :: bool
  pl_shm :: shm_env
  pl_fopen :: "string \<Rightarrow> string option" \<comment> \<open>the contents of a file that opens for reading\<close>
  pl_create_ok :: "string \<Rightarrow> bool"      \<comment> \<open>a file opens for writing\<close>
  pl_stack :: resource_usage              \<comment> \<open>an uninitialised local\<close>

definition zero_limit :: resource_limit where
  "zero_limit = \<lparr>rl_max_per_process = 0, rl_max_global = 0, rl_max_memory = 0\<rparr>"

definition zero_rule :: policy_rule where
  "zero_rule = \<lparr>rule_id = 0, rule_type = 0, rule_resource = 0, rule_limit = zero_limit, rule_priority = 0,
     created_at = 0, expires_at = 0, rule_enabled = False\<rparr>"

definition zero_policy_config :: dynamic_policy_config where
  "zero_policy_config = \<lparr>qp_policy = zero_rule, mr_policy = zero_rule, cq_policy = zero_rule,
     pd_policy = zero_rule, memory_policy = zero_rule, auto_adjust = False, adjust_interval = 0,
     high_watermark = Some 0, low_watermark = Some 0\<rparr>"

definition zero_tenant_policy :: tenant_policy where
  "zero_tenant_policy = \<lparr>tp_tenant_id = 0, tp_tenant_name = [], tp_policy = zero_policy_config,
     tp_last_updated = 0\<rparr>"

text \<open>The static initial values.\<close>

definition policy_start :: "shm_state \<Rightarrow> policy_state" where
  "policy_start m = \<lparr>g_policy_config = zero_policy_config, policy_locked = False, policy_running = False,
     g_tenant_policies = replicate MAX_TENANTS zero_tenant_policy, tenants_locked = False, policy_shm = m,
     policy_thread = NoThread\<rparr>"

section \<open>Locks\<close>

definition lock_policy :: "policy_state \<Rightarrow> policy_state option" where
  "lock_policy s = (if policy_locked s then None else Some (s\<lparr>policy_locked := True\<rparr>))"

definition unlock_policy :: "policy_state \<Rightarrow> policy_state" where
  "unlock_policy s = s\<lparr>policy_locked := False\<rparr>"

definition lock_tenants :: "policy_state \<Rightarrow> policy_state option" where
  "lock_tenants s = (if tenants_locked s then None else Some (s\<lparr>tenants_locked := True\<rparr>))"

definition unlock_tenants :: "policy_state \<Rightarrow> policy_state" where
  "unlock_tenants s = s\<lparr>tenants_locked := False\<rparr>"

section \<open>Defaults\<close>

definition init_default_rule :: "policy_env \<Rightarrow> int \<Rightarrow> policy_rule" where
  "init_default_rule env resource =
     zero_rule\<lparr>rule_id := word_of_int resource, rule_type := POLICY_TYPE_STATIC, rule_resource := resource,
       rule_priority := 1, created_at := pl_time env, expires_at := 0, rule_enabled := True\<rparr>"

definition default_rule :: "policy_env \<Rightarrow> int \<Rightarrow> u32 \<Rightarrow> u32 \<Rightarrow> policy_rule" where
  "default_rule env resource per_process global =
     (init_default_rule env resource)\<lparr>rule_limit := zero_limit\<lparr>rl_max_per_process := per_process, rl_max_global := global\<rparr>\<rparr>"

text \<open>The floats nearest to 0.8 and 0.2.\<close>

definition float_0_8 :: rat where "float_0_8 = 13421773 / 16777216"
definition float_0_2 :: rat where "float_0_2 = 13421773 / 67108864"

definition set_default_config :: "policy_env \<Rightarrow> dynamic_policy_config" where
  "set_default_config env =
     \<lparr>qp_policy = default_rule env RESOURCE_QP 100 1000,
      mr_policy = default_rule env RESOURCE_MR 1000 10000,
      cq_policy = default_rule env RESOURCE_CQ 100 1000,
      pd_policy = default_rule env RESOURCE_PD 100 1000,
      memory_policy = (init_default_rule env RESOURCE_MEMORY)
        \<lparr>rule_limit := zero_limit\<lparr>rl_max_memory := 10 * 1024 * 1024 * 1024\<rparr>\<rparr>,
      auto_adjust = False, adjust_interval = 60,
      high_watermark = Some float_0_8, low_watermark = Some float_0_2\<rparr>"

definition publish_limits :: "policy_state \<Rightarrow> policy_state" where
  "publish_limits s =
     (let c = g_policy_config s
      in s\<lparr>policy_shm := snd (shm_set_global_limits
             (rl_max_global (rule_limit (qp_policy c))) (rl_max_global (rule_limit (mr_policy c)))
             (rl_max_memory (rule_limit (memory_policy c))) (policy_shm s))\<rparr>)"

definition dynamic_policy_init :: "policy_env \<Rightarrow> policy_state \<Rightarrow> (int \<times> policy_state) option" where
  "dynamic_policy_init env s =
     (case lock_policy s of
        None \<Rightarrow> None
      | Some s \<Rightarrow>
          let s = s\<lparr>g_policy_config := set_default_config env\<rparr>;
              (rc, m) = shm_init (pl_shm env) (policy_shm s);
              s = s\<lparr>policy_shm := m\<rparr>
          in if rc \<noteq> 0 then Some (-1, unlock_policy s)
             else
               let s = (unlock_policy (publish_limits s))\<lparr>policy_running := True\<rparr>
               in if \<not> pl_thread_ok env then Some (-1, s\<lparr>policy_thread := NoThread\<rparr>)
                  else Some (0, s\<lparr>policy_thread := ThreadSleeping\<rparr>))"

definition dynamic_policy_set_default :: "policy_env \<Rightarrow> policy_state \<Rightarrow> (int \<times> policy_state) option" where
  "dynamic_policy_set_default env s =
     (case lock_policy s of
        None \<Rightarrow> None
      | Some s \<Rightarrow> Some (0, unlock_policy (s\<lparr>g_policy_config := set_default_config env\<rparr>)))"

section \<open>The configuration file\<close>

definition set_rule_limit :: "(resource_limit \<Rightarrow> resource_limit) \<Rightarrow> policy_rule \<Rightarrow> policy_rule" where
  "set_rule_limit f r = r\<lparr>rule_limit := f (rule_limit r)\<rparr>"

definition policy_setting :: "string \<Rightarrow> u32 \<Rightarrow> dynamic_policy_config \<Rightarrow> dynamic_policy_config" where
  "policy_setting key val c =
     (if key = ''max_qp_per_process'' then
        c\<lparr>qp_policy := set_rule_limit (\<lambda>l. l\<lparr>rl_max_per_process := val\<rparr>) (qp_policy c)\<rparr>
      else if key = ''max_global_qp'' then
        c\<lparr>qp_policy := set_rule_limit (\<lambda>l. l\<lparr>rl_max_global := val\<rparr>) (qp_policy c)\<rparr>
      else if key = ''max_mr_per_process'' then
        c\<lparr>mr_policy := set_rule_limit (\<lambda>l. l\<lparr>rl_max_per_process := val\<rparr>) (mr_policy c)\<rparr>
      else if key = ''max_global_mr'' then
        c\<lparr>mr_policy := set_rule_limit (\<lambda>l. l\<lparr>rl_max_global := val\<rparr>) (mr_policy c)\<rparr>
      else if key = ''max_memory_mb'' then
        c\<lparr>memory_policy := set_rule_limit (\<lambda>l. l\<lparr>rl_max_memory := ucast val * 1024 * 1024\<rparr>) (memory_policy c)\<rparr>
      else if key = ''auto_adjust'' then c\<lparr>auto_adjust := (val \<noteq> 0)\<rparr>
      else if key = ''adjust_interval'' then c\<lparr>adjust_interval := val\<rparr>
      else c)"

text \<open>One line: comments and empty lines are skipped, then \<open>sscanf(line, "%63s %u", key, &val)\<close>.\<close>

definition policy_line :: "string \<Rightarrow> dynamic_policy_config \<Rightarrow> dynamic_policy_config" where
  "policy_line line c =
     (if line \<noteq> [] \<and> (hd line = CHR ''#'' \<or> hd line = CHR 0x0A) then c
      else case scan_word 63 line of
             None \<Rightarrow> c
           | Some (key, rest) \<Rightarrow>
               (case scan_u32 rest of None \<Rightarrow> c | Some val \<Rightarrow> policy_setting key val c))"

definition dynamic_policy_load_config ::
    "policy_env \<Rightarrow> string \<Rightarrow> policy_state \<Rightarrow> (int \<times> policy_state) option" where
  "dynamic_policy_load_config env path s =
     (case pl_fopen env path of
        None \<Rightarrow> Some (-1, s)
      | Some contents \<Rightarrow>
          (case lock_policy s of
             None \<Rightarrow> None
           | Some s \<Rightarrow>
               Some (0, unlock_policy
                 (s\<lparr>g_policy_config := fold policy_line (fgets_all 254 contents) (g_policy_config s)\<rparr>))))"

definition policy_text_line :: "string \<Rightarrow> nat \<Rightarrow> string" where
  "policy_text_line key n = key @ CHR '' '' # dec n @ [CHR 0x0A]"

definition policy_file_lines :: "dynamic_policy_config \<Rightarrow> string list" where
  "policy_file_lines c =
     [''# RDMA Dynamic Policy Configuration'' @ [CHR 0x0A],
      policy_text_line ''max_qp_per_process'' (unat (rl_max_per_process (rule_limit (qp_policy c)))),
      policy_text_line ''max_global_qp'' (unat (rl_max_global (rule_limit (qp_policy c)))),
      policy_text_line ''max_mr_per_process'' (unat (rl_max_per_process (rule_limit (mr_policy c)))),
      policy_text_line ''max_global_mr'' (unat (rl_max_global (rule_limit (mr_policy c)))),
      policy_text_line ''max_memory_mb'' (unat (rl_max_memory (rule_limit (memory_policy c)) div (1024 * 1024))),
      policy_text_line ''auto_adjust'' (if auto_adjust c then 1 else 0),
      policy_text_line ''adjust_interval'' (unat (adjust_interval c))]"

text \<open>Saving returns the text written to the file, if it could be created.\<close>

definition dynamic_policy_save_config ::
    "policy_env \<Rightarrow> string \<Rightarrow> policy_state \<Rightarrow> (int \<times> string option \<times> policy_state) option" where
  "dynamic_policy_save_config env path s =
     (case lock_policy s of
        None \<Rightarrow> None
      | Some s \<Rightarrow>
          if \<not> pl_create_ok env path then Some (-1, None, unlock_policy s)
          else Some (0, Some (concat (policy_file_lines (g_policy_config s))), unlock_policy s))"

section \<open>Limits\<close>

text \<open>The rule of a resource; None is the default branch of the switch.\<close>

definition rule_of :: "int \<Rightarrow> dynamic_policy_config \<Rightarrow> policy_rule option" where
  "rule_of resource c =
     (if resource = RESOURCE_QP then Some (qp_policy c)
      else if resource = RESOURCE_MR then Some (mr_policy c)
      else if resource = RESOURCE_CQ then Some (cq_policy c)
      else if resource = RESOURCE_PD then Some (pd_policy c)
      else if resource = RESOURCE_MEMORY then Some (memory_policy c)
      else None)"

definition change_rule ::
    "int \<Rightarrow> (policy_rule \<Rightarrow> policy_rule) \<Rightarrow> dynamic_policy_config \<Rightarrow> dynamic_policy_config option" where
  "change_rule resource f c =
     (if resource = RESOURCE_QP then Some (c\<lparr>qp_policy := f (qp_policy c)\<rparr>)
      else if resource = RESOURCE_MR then Some (c\<lparr>mr_policy := f (mr_policy c)\<rparr>)
      else if resource = RESOURCE_CQ then Some (c\<lparr>cq_policy := f (cq_policy c)\<rparr>)
      else if resource = RESOURCE_PD then Some (c\<lparr>pd_policy := f (pd_policy c)\<rparr>)
      else if resource = RESOURCE_MEMORY then Some (c\<lparr>memory_policy := f (memory_policy c)\<rparr>)
      else None)"

definition dynamic_policy_set_limit ::
    "int \<Rightarrow> resource_limit option \<Rightarrow> policy_state \<Rightarrow> (int \<times> policy_state) option" where
  "dynamic_policy_set_limit resource limit s =
     (case limit of
        None \<Rightarrow> Some (-1, s)
      | Some l \<Rightarrow>
          (case lock_policy s of
             None \<Rightarrow> None
           | Some s \<Rightarrow>
               (case change_rule resource (set_rule_limit (\<lambda>_. l)) (g_policy_config s) of
                  None \<Rightarrow> Some (-1, unlock_policy s)
                | Some c \<Rightarrow> Some (0, unlock_policy (publish_limits (s\<lparr>g_policy_config := c\<rparr>))))))"

definition dynamic_policy_get_limit ::
    "int \<Rightarrow> bool \<Rightarrow> policy_state \<Rightarrow> (int \<times> resource_limit option \<times> policy_state) option" where
  "dynamic_policy_get_limit resource has_limit s =
     (if \<not> has_limit then Some (-1, None, s)
      else case lock_policy s of
             None \<Rightarrow> None
           | Some s \<Rightarrow>
               (case rule_of resource (g_policy_config s) of
                  None \<Rightarrow> Some (-1, None, unlock_policy s)
                | Some r \<Rightarrow> Some (0, Some (rule_limit r), unlock_policy s)))"

text \<open>True means that the request exceeds a limit.\<close>

definition dynamic_policy_check_limit ::
    "policy_env \<Rightarrow> int \<Rightarrow> u32 \<Rightarrow> u32 \<Rightarrow> policy_state \<Rightarrow> (bool \<times> policy_state) option" where
  "dynamic_policy_check_limit env resource current requested s =
     (case dynamic_policy_get_limit resource True s of
        None \<Rightarrow> None
      | Some (rc, None, s) \<Rightarrow> Some (False, s)
      | Some (rc, Some limit, s) \<Rightarrow>
          if rc \<noteq> 0 then Some (False, s)
          else
            let usage = (case snd (shm_get_global_resources True (policy_shm s)) of
                           None \<Rightarrow> pl_stack env | Some u \<Rightarrow> u);
                global = (if resource = RESOURCE_QP then qp_count usage
                          else if resource = RESOURCE_MR then mr_count usage else 0)
            in if global + requested > rl_max_global limit then Some (True, s)
               else if current + requested > rl_max_per_process limit then Some (True, s)
               else Some (False, s))"

definition dynamic_policy_update ::
    "dynamic_policy_config option \<Rightarrow> policy_state \<Rightarrow> (int \<times> policy_state) option" where
  "dynamic_policy_update config s =
     (case config of
        None \<Rightarrow> Some (-1, s)
      | Some c \<Rightarrow>
          (case lock_policy s of
             None \<Rightarrow> None
           | Some s \<Rightarrow> Some (0, unlock_policy (publish_limits (s\<lparr>g_policy_config := c\<rparr>)))))"

definition dynamic_policy_get_config ::
    "bool \<Rightarrow> policy_state \<Rightarrow> (int \<times> dynamic_policy_config option \<times> policy_state) option" where
  "dynamic_policy_get_config has_config s =
     (if \<not> has_config then Some (-1, None, s)
      else case lock_policy s of
             None \<Rightarrow> None
           | Some s \<Rightarrow> Some (0, Some (g_policy_config s), unlock_policy s))"

definition dynamic_policy_set_auto_adjust ::
    "bool \<Rightarrow> u32 \<Rightarrow> rat option \<Rightarrow> rat option \<Rightarrow> policy_state \<Rightarrow> (int \<times> policy_state) option" where
  "dynamic_policy_set_auto_adjust enable interval high low s =
     (case lock_policy s of
        None \<Rightarrow> None
      | Some s \<Rightarrow>
          let c = (g_policy_config s)\<lparr>auto_adjust := enable\<rparr>;
              c = (if interval > 0 then c\<lparr>adjust_interval := interval\<rparr> else c);
              c = (case high of None \<Rightarrow> c
                   | Some h \<Rightarrow> if h > 0 \<and> h \<le> 1 then c\<lparr>high_watermark := Some h\<rparr> else c);
              c = (case low of None \<Rightarrow> c
                   | Some l \<Rightarrow> if l \<ge> 0 \<and> l < 1 then c\<lparr>low_watermark := Some l\<rparr> else c)
          in Some (0, unlock_policy (s\<lparr>g_policy_config := c\<rparr>)))"

definition dynamic_policy_enable_rule :: "int \<Rightarrow> bool \<Rightarrow> policy_state \<Rightarrow> (int \<times> policy_state) option" where
  "dynamic_policy_enable_rule resource enable s =
     (case lock_policy s of
        None \<Rightarrow> None
      | Some s \<Rightarrow>
          (case change_rule resource (\<lambda>r. r\<lparr>rule_enabled := enable\<rparr>) (g_policy_config s) of
             None \<Rightarrow> Some (-1, unlock_policy s)
           | Some c \<Rightarrow> Some (0, unlock_policy (s\<lparr>g_policy_config := c\<rparr>))))"

section \<open>Adjustment\<close>

text \<open>The adjustment only advises: which message it prints, with the usage rate. A watermark that is
  not a number is neither below nor above a rate.\<close>

datatype adjust_advice = NoAdvice | RaiseAdvice rat | LowerAdvice rat

definition adjust_advice_for :: "dynamic_policy_config \<Rightarrow> resource_usage \<Rightarrow> adjust_advice" where
  "adjust_advice_for c usage =
     (if rl_max_global (rule_limit (qp_policy c)) > 0 then
        let qp_usage_rate = float_div (float_of_i32 (qp_count usage))
              (float_of_u32 (rl_max_global (rule_limit (qp_policy c))))
        in if (case high_watermark c of None \<Rightarrow> False | Some h \<Rightarrow> qp_usage_rate > h) then RaiseAdvice qp_usage_rate
           else if (case low_watermark c of None \<Rightarrow> False | Some l \<Rightarrow> qp_usage_rate < l) then LowerAdvice qp_usage_rate
           else NoAdvice
      else NoAdvice)"

definition dynamic_policy_adjust :: "policy_env \<Rightarrow> policy_state \<Rightarrow> (int \<times> adjust_advice \<times> policy_state) option" where
  "dynamic_policy_adjust env s =
     (case lock_policy s of
        None \<Rightarrow> None
      | Some s \<Rightarrow>
          let global_usage = (case snd (shm_get_global_resources True (policy_shm s)) of
                                None \<Rightarrow> pl_stack env | Some u \<Rightarrow> u)
          in Some (0, adjust_advice_for (g_policy_config s) global_usage, unlock_policy s))"

text \<open>
  The adjustment thread. It wakes from its sleep and stops when the module is stopped; the rest of
  its turn adjusts, when automatic adjustment is on, and ends with the test of the loop. Between
  the two another thread may change the state.
\<close>

definition thread_wakes :: "policy_state \<Rightarrow> policy_state" where
  "thread_wakes s =
     (if policy_thread s \<noteq> ThreadSleeping then s
      else if \<not> policy_running s then s\<lparr>policy_thread := ThreadEnded\<rparr>
      else s\<lparr>policy_thread := ThreadAwake\<rparr>)"

definition thread_loops :: "policy_state \<Rightarrow> policy_state" where
  "thread_loops s = s\<lparr>policy_thread := (if policy_running s then ThreadSleeping else ThreadEnded)\<rparr>"

definition adjust_thread_turn :: "policy_env \<Rightarrow> policy_state \<Rightarrow> policy_state option" where
  "adjust_thread_turn env s =
     (if policy_thread s \<noteq> ThreadAwake then Some s
      else if \<not> auto_adjust (g_policy_config s) then Some (thread_loops s)
      else case lock_policy s of
             None \<Rightarrow> None
           | Some s \<Rightarrow>
               (case dynamic_policy_adjust env s of
                  None \<Rightarrow> None
                | Some (rc, advice, s) \<Rightarrow> Some (thread_loops (unlock_policy s))))"

text \<open>\<open>pthread_join(g_adjust_thread)\<close>: the thread runs while the caller waits for its end.\<close>

partial_function (option) join_adjust_thread :: "policy_env \<Rightarrow> policy_state \<Rightarrow> policy_state option" where
  "join_adjust_thread env s =
     (case policy_thread s of
        NoThread \<Rightarrow> None
      | ThreadEnded \<Rightarrow> Some (s\<lparr>policy_thread := NoThread\<rparr>)
      | ThreadSleeping \<Rightarrow> join_adjust_thread env (thread_wakes s)
      | ThreadAwake \<Rightarrow>
          (case adjust_thread_turn env s of
             None \<Rightarrow> None
           | Some s \<Rightarrow> join_adjust_thread env s))"

definition dynamic_policy_cleanup :: "policy_env \<Rightarrow> policy_state \<Rightarrow> policy_state option" where
  "dynamic_policy_cleanup env s =
     (case join_adjust_thread env (s\<lparr>policy_running := False\<rparr>) of
        None \<Rightarrow> None
      | Some s \<Rightarrow>
          (case lock_policy s of
             None \<Rightarrow> None
           | Some s \<Rightarrow> Some (unlock_policy (s\<lparr>g_policy_config := zero_policy_config\<rparr>))))"

section \<open>Policies of tenants\<close>

definition dynamic_policy_set_tenant_policy ::
    "policy_env \<Rightarrow> u32 \<Rightarrow> tenant_policy option \<Rightarrow> policy_state \<Rightarrow> (int \<times> policy_state) option" where
  "dynamic_policy_set_tenant_policy env tenant_id policy s =
     (case policy of
        None \<Rightarrow> Some (-1, s)
      | Some p \<Rightarrow>
          if unat tenant_id \<ge> MAX_TENANTS then Some (-1, s)
          else case lock_tenants s of
                 None \<Rightarrow> None
               | Some s \<Rightarrow> Some (0, unlock_tenants (s\<lparr>g_tenant_policies :=
                   (g_tenant_policies s)[unat tenant_id := p\<lparr>tp_last_updated := pl_time env\<rparr>]\<rparr>)))"

definition dynamic_policy_get_tenant_policy ::
    "u32 \<Rightarrow> bool \<Rightarrow> policy_state \<Rightarrow> (int \<times> tenant_policy option \<times> policy_state) option" where
  "dynamic_policy_get_tenant_policy tenant_id has_policy s =
     (if \<not> has_policy \<or> unat tenant_id \<ge> MAX_TENANTS then Some (-1, None, s)
      else case lock_tenants s of
             None \<Rightarrow> None
           | Some s \<Rightarrow> Some (0, Some (g_tenant_policies s ! unat tenant_id), unlock_tenants s))"

definition dynamic_policy_delete_tenant_policy :: "u32 \<Rightarrow> policy_state \<Rightarrow> (int \<times> policy_state) option" where
  "dynamic_policy_delete_tenant_policy tenant_id s =
     (if unat tenant_id \<ge> MAX_TENANTS then Some (-1, s)
      else case lock_tenants s of
             None \<Rightarrow> None
           | Some s \<Rightarrow> Some (0, unlock_tenants (s\<lparr>g_tenant_policies :=
               (g_tenant_policies s)[unat tenant_id := zero_tenant_policy]\<rparr>)))"

definition dynamic_policy_check_tenant_limit ::
    "u32 \<Rightarrow> int \<Rightarrow> u32 \<Rightarrow> u32 \<Rightarrow> policy_state \<Rightarrow> (bool \<times> policy_state) option" where
  "dynamic_policy_check_tenant_limit tenant_id resource current requested s =
     (if unat tenant_id \<ge> MAX_TENANTS then Some (False, s)
      else case dynamic_policy_get_tenant_policy tenant_id True s of
             None \<Rightarrow> None
           | Some (rc, None, s) \<Rightarrow> Some (False, s)
           | Some (rc, Some policy, s) \<Rightarrow>
               if rc \<noteq> 0 then Some (False, s)
               else case rule_of resource (tp_policy policy) of
                      None \<Rightarrow> Some (False, s)
                    | Some r \<Rightarrow> Some (current + requested > rl_max_per_process (rule_limit r), s))"

text \<open>The loop over the table stops when \<open>max_count\<close> policies are copied.\<close>

definition dynamic_policy_get_all_tenant_policies ::
    "bool \<Rightarrow> int \<Rightarrow> policy_state \<Rightarrow> (int \<times> tenant_policy list \<times> policy_state) option" where
  "dynamic_policy_get_all_tenant_policies has_policies max_count s =
     (if \<not> has_policies \<or> max_count \<le> 0 then Some (-1, [], s)
      else case lock_tenants s of
             None \<Rightarrow> None
           | Some s \<Rightarrow>
               let ps = take (nat max_count) (filter (\<lambda>p. tp_tenant_id p \<noteq> 0) (g_tenant_policies s))
               in Some (int (length ps), ps, unlock_tenants s))"

end
