(* ===== verification/Tenant_Cli.thy ===== *)
theory Tenant_Cli
  imports C_Scan Tenant_Shm Dyn_Policy
begin

text \<open>
  The tenant manager's command line (\<open>src/tenant_manager.c\<close>): its options, the commands on
  the tenant table and the policy manager, what they print, and the exit code.

  What \<open>getopt_long\<close> returns, option by option with its argument, is the input. The tool has
  the policy manager's state of its own process. A call that does not return has no result. The
  time texts of \<open>ctime\<close> and the number of turns the monitor makes before it is interrupted are
  arguments; the messages on \<open>stderr\<close> and the help are left out.
\<close>

record cli_state =
  cli_tenants :: tenant_state
  cli_policy :: policy_state

record cli_env =
  ce_tenant :: "nat \<Rightarrow> tenant_env" \<comment> \<open>at the calls of a command\<close>
  ce_policy :: policy_env
  ce_ctime :: "u64 \<Rightarrow> string"
  ce_turns :: nat

section \<open>Quotas\<close>

text \<open>\<open>%u\<close> with what is left behind the number.\<close>

definition after_number :: "string \<Rightarrow> string" where
  "after_number s =
     (let s = skip_space s
      in dropWhile is_digit (if s \<noteq> [] \<and> (hd s = CHR ''-'' \<or> hd s = CHR ''+'') then tl s else s))"

text \<open>\<open>sscanf(quota_str, "%u,%u,%u", ...)\<close> with all three numbers read.\<close>

definition scan_quota :: "string \<Rightarrow> (u32 \<times> u32 \<times> u32) option" where
  "scan_quota s =
     (case scan_u32 s of
        None \<Rightarrow> None
      | Some qp \<Rightarrow>
          (case after_number s of
             CHR '','' # s \<Rightarrow>
               (case scan_u32 s of
                  None \<Rightarrow> None
                | Some mr \<Rightarrow>
                    (case after_number s of
                       CHR '','' # s \<Rightarrow> map_option (\<lambda>mem_mb. (qp, mr, mem_mb)) (scan_u32 s)
                     | _ \<Rightarrow> None))
           | _ \<Rightarrow> None))"

definition quota_of_string :: "string option \<Rightarrow> tenant_quota option" where
  "quota_of_string quota_str =
     (let quota = \<lparr>max_qp_per_tenant = 100, max_mr_per_tenant = 1000,
                   max_memory_per_tenant = 1024 * 1024 * 1024,
                   max_cq_per_tenant = 100, max_pd_per_tenant = 100\<rparr>
      in case quota_str of
           None \<Rightarrow> Some quota
         | Some str \<Rightarrow>
             map_option (\<lambda>(qp, mr, mem_mb). quota\<lparr>max_qp_per_tenant := qp, max_mr_per_tenant := mr,
                 max_memory_per_tenant := ucast mem_mb * 1024 * 1024\<rparr>) (scan_quota str))"

section \<open>Commands\<close>

definition quota_policy :: "u32 \<Rightarrow> string option \<Rightarrow> tenant_quota \<Rightarrow> tenant_policy" where
  "quota_policy tenant_id name quota =
     (let limit = (\<lambda>n. set_rule_limit (\<lambda>l. l\<lparr>rl_max_per_process := n, rl_max_global := n\<rparr>) zero_rule)
      in zero_tenant_policy\<lparr>tp_tenant_id := tenant_id,
           tp_tenant_name := take 63 (case name of None \<Rightarrow> ''unnamed'' | Some n \<Rightarrow> n),
           tp_policy := zero_policy_config\<lparr>
             qp_policy := limit (max_qp_per_tenant quota),
             mr_policy := limit (max_mr_per_tenant quota),
             memory_policy := set_rule_limit (\<lambda>l. l\<lparr>rl_max_memory := max_memory_per_tenant quota\<rparr>) zero_rule\<rparr>\<rparr>)"

definition cmd_create_tenant ::
    "cli_env \<Rightarrow> u32 \<Rightarrow> string option \<Rightarrow> string option \<Rightarrow> cli_state \<Rightarrow> (int \<times> cli_state) option" where
  "cmd_create_tenant env tenant_id name quota_str s =
     (case quota_of_string quota_str of
        None \<Rightarrow> Some (-1, s)
      | Some quota \<Rightarrow>
          (case dynamic_policy_set_tenant_policy (ce_policy env) tenant_id
                  (Some (quota_policy tenant_id name quota)) (cli_policy s) of
             None \<Rightarrow> None
           | Some (_, p) \<Rightarrow>
               let (rc, ts) = tenant_create (ce_tenant env 0) tenant_id name (Some quota) (cli_tenants s)
               in Some (rc, \<lparr>cli_tenants = ts, cli_policy = p\<rparr>)))"

definition cmd_delete_tenant :: "cli_env \<Rightarrow> u32 \<Rightarrow> cli_state \<Rightarrow> (int \<times> cli_state) option" where
  "cmd_delete_tenant env tenant_id s =
     (case dynamic_policy_delete_tenant_policy tenant_id (cli_policy s) of
        None \<Rightarrow> None
      | Some (_, p) \<Rightarrow>
          let (rc, ts) = tenant_delete (ce_tenant env 0) tenant_id (cli_tenants s)
          in Some (rc, \<lparr>cli_tenants = ts, cli_policy = p\<rparr>))"

fun status_word :: "tenant_status \<Rightarrow> string" where
  "status_word TENANT_STATUS_ACTIVE = ''ACTIVE''"
| "status_word TENANT_STATUS_SUSPENDED = ''SUSPENDED''"
| "status_word TENANT_STATUS_INACTIVE = ''INACTIVE''"

definition megabytes :: "u64 \<Rightarrow> string" where
  "megabytes n = dec (unat (n div (1024 * 1024)))"

definition used_of :: "string \<Rightarrow> i32 \<Rightarrow> u32 \<Rightarrow> string" where
  "used_of label n limit = label @ sdec (sint n) @ '' / '' @ dec (unat limit) @ newline"

definition status_text :: "(u64 \<Rightarrow> string) \<Rightarrow> u32 \<Rightarrow> tenant_info \<Rightarrow> string" where
  "status_text ctime tenant_id info =
     newline @ ''========== Tenant '' @ dec (unat tenant_id) @ '' =========='' @ newline
     @ ''Name: '' @ ti_tenant_name info @ newline
     @ ''Status: '' @ status_word (ti_status info) @ newline
     @ newline @ ''Resource Quota:'' @ newline
     @ used_of ''  QP:  '' (tu_qp_count (ti_usage info)) (max_qp_per_tenant (ti_quota info))
     @ used_of ''  MR:  '' (tu_mr_count (ti_usage info)) (max_mr_per_tenant (ti_quota info))
     @ used_of ''  CQ:  '' (tu_cq_count (ti_usage info)) (max_cq_per_tenant (ti_quota info))
     @ used_of ''  PD:  '' (tu_pd_count (ti_usage info)) (max_pd_per_tenant (ti_quota info))
     @ ''  Memory: '' @ megabytes (tu_memory_used (ti_usage info)) @ '' / ''
       @ megabytes (max_memory_per_tenant (ti_quota info)) @ '' MB'' @ newline
     @ newline @ ''Process Count: '' @ dec (unat (ti_process_count info)) @ newline
     @ ''Total QP Creates: '' @ dec (unat (total_qp_creates (ti_usage info))) @ newline
     @ ''Total MR Registrations: '' @ dec (unat (total_mr_regs (ti_usage info))) @ newline
     @ ''Created At: '' @ ctime (ti_created_at info)
     @ ''Last Active: '' @ ctime (ti_last_active_at info)
     @ ''================================'' @ newline @ newline"

text \<open>The commands that only read return their code, what they print, and the tenant table.\<close>

definition cmd_show_status :: "cli_env \<Rightarrow> u32 \<Rightarrow> tenant_state \<Rightarrow> int \<times> string \<times> tenant_state" where
  "cmd_show_status env tenant_id ts =
     (case tenant_get_info (ce_tenant env 0) tenant_id True ts of
        ((rc, info), ts) \<Rightarrow>
          (case (rc = 0, info) of
             (True, Some t) \<Rightarrow> (0, status_text (ce_ctime env) tenant_id t, ts)
           | _ \<Rightarrow> (-1, [], ts)))"

text \<open>\<open>%-<n>s\<close>: at least \<open>n\<close> characters, filled with blanks on the right.\<close>

definition pad :: "nat \<Rightarrow> string \<Rightarrow> string" where
  "pad n s = s @ replicate (n - length s) CHR '' ''"

definition list_row :: "tenant_info \<Rightarrow> string" where
  "list_row t =
     pad 8 (dec (unat (ti_tenant_id t))) @ '' '' @ pad 20 (ti_tenant_name t) @ '' ''
     @ pad 10 (if ti_status t = TENANT_STATUS_ACTIVE then ''ACTIVE'' else ''SUSPENDED'') @ '' ''
     @ pad 3 (sdec (sint (tu_qp_count (ti_usage t)))) @ ''/'' @ pad 6 (dec (unat (max_qp_per_tenant (ti_quota t)))) @ '' ''
     @ pad 3 (sdec (sint (tu_mr_count (ti_usage t)))) @ ''/'' @ pad 6 (dec (unat (max_mr_per_tenant (ti_quota t)))) @ '' ''
     @ pad 12 (dec (unat (ti_process_count t))) @ newline"

definition list_header :: string where
  "list_header =
     newline @ ''========== Active Tenants =========='' @ newline
     @ pad 8 ''ID'' @ '' '' @ pad 20 ''Name'' @ '' '' @ pad 10 ''Status'' @ '' '' @ pad 10 ''QP'' @ '' ''
     @ pad 10 ''MR'' @ '' '' @ pad 12 ''Processes'' @ newline
     @ ''------------------------------------'' @ newline"

definition cmd_list_tenants :: "cli_env \<Rightarrow> tenant_state \<Rightarrow> int \<times> string \<times> tenant_state" where
  "cmd_list_tenants env ts =
     (case tenant_get_active_list (ce_tenant env 0) True (of_nat MAX_TENANTS) ts of
        ((count, found), ts) \<Rightarrow>
          if count \<le> 0 then (0, ''No active tenants found.'' @ newline, ts)
          else (0, list_header @ concat (map list_row (take (nat count) found))
                  @ ''===================================='' @ newline
                  @ ''Total: '' @ sdec count @ '' active tenants'' @ newline @ newline, ts))"

definition cmd_bind_process :: "cli_env \<Rightarrow> pid_t \<Rightarrow> u32 \<Rightarrow> cli_state \<Rightarrow> int \<times> cli_state" where
  "cmd_bind_process env pid tenant_id s =
     (let (rc, ts) = tenant_bind_process (ce_tenant env 0) pid tenant_id (cli_tenants s)
      in (rc, s\<lparr>cli_tenants := ts\<rparr>))"

definition cmd_unbind_process :: "cli_env \<Rightarrow> pid_t \<Rightarrow> cli_state \<Rightarrow> int \<times> cli_state" where
  "cmd_unbind_process env pid s =
     (let (rc, ts) = tenant_unbind_process (ce_tenant env 0) pid (cli_tenants s)
      in (rc, s\<lparr>cli_tenants := ts\<rparr>))"

definition monitor_row :: "tenant_info \<Rightarrow> string" where
  "monitor_row t =
     pad 8 (dec (unat (ti_tenant_id t))) @ '' '' @ pad 20 (ti_tenant_name t) @ '' ''
     @ pad 3 (sdec (sint (tu_qp_count (ti_usage t)))) @ ''/'' @ pad 4 (dec (unat (max_qp_per_tenant (ti_quota t)))) @ '' ''
     @ pad 3 (sdec (sint (tu_mr_count (ti_usage t)))) @ ''/'' @ pad 4 (dec (unat (max_mr_per_tenant (ti_quota t)))) @ '' ''
     @ pad 6 (megabytes (tu_memory_used (ti_usage t))) @ ''/'' @ pad 5 (megabytes (max_memory_per_tenant (ti_quota t))) @ '' ''
     @ pad 10 (dec (unat (ti_process_count t))) @ newline"

text \<open>One turn; the sequences of the terminal (clear the line, cursor up) are part of the text.\<close>

definition monitor_turn :: "tenant_env \<Rightarrow> tenant_state \<Rightarrow> string \<times> tenant_state" where
  "monitor_turn env ts =
     (case tenant_get_active_list env True (of_nat MAX_TENANTS) ts of
        ((count, found), ts) \<Rightarrow>
          (CHR 0x1B # ''[2K'' @ [CHR 0x0D] @ concat (map monitor_row (take (nat count) found))
           @ (if count = 0 then ''No active tenants.'' else [])
           @ (if count > 0 then CHR 0x1B # ''['' @ sdec count @ ''A'' else []), ts))"

fun monitor_turns :: "(nat \<Rightarrow> tenant_env) \<Rightarrow> nat \<Rightarrow> nat \<Rightarrow> tenant_state \<Rightarrow> string \<times> tenant_state" where
  "monitor_turns env i 0 ts = ([], ts)"
| "monitor_turns env i (Suc n) ts =
     (let (shown, ts) = monitor_turn (env i) ts; (rest, ts) = monitor_turns env (Suc i) n ts
      in (shown @ rest, ts))"

definition cmd_monitor :: "cli_env \<Rightarrow> tenant_state \<Rightarrow> int \<times> string \<times> tenant_state" where
  "cmd_monitor env ts =
     (let (shown, ts) = monitor_turns (ce_tenant env) 0 (ce_turns env) ts
      in (0, newline @ ''========== Tenant Resource Monitor =========='' @ newline
             @ ''Press Ctrl+C to stop'' @ newline @ newline
             @ pad 8 ''ID'' @ '' '' @ pad 20 ''Name'' @ '' '' @ pad 8 ''QP'' @ '' '' @ pad 8 ''MR'' @ '' ''
             @ pad 12 ''Memory(MB)'' @ '' '' @ pad 10 ''Procs'' @ newline
             @ ''---------------------------------------------'' @ newline
             @ shown @ newline @ newline @ ''Monitoring stopped.'' @ newline, ts))"

section \<open>The program\<close>

record cli_args =
  ca_tenant_id :: u32
  ca_pid :: pid_t
  ca_name :: "string option"
  ca_quota :: "string option"
  ca_interval :: i32
  ca_create :: bool
  ca_delete :: bool
  ca_status :: bool
  ca_list :: bool
  ca_bind :: bool
  ca_unbind :: bool
  ca_monitor :: bool

definition no_args :: cli_args where
  "no_args = \<lparr>ca_tenant_id = 0, ca_pid = 0, ca_name = None, ca_quota = None, ca_interval = 5,
     ca_create = False, ca_delete = False, ca_status = False, ca_list = False, ca_bind = False,
     ca_unbind = False, ca_monitor = False\<rparr>"

text \<open>The loop over the options; \<open>Inl\<close> is the exit code of an early return.\<close>

fun parse_options :: "(char \<times> string) list \<Rightarrow> cli_args \<Rightarrow> int + cli_args" where
  "parse_options [] a = Inr a"
| "parse_options ((c, optarg) # opts) a =
     (if c = CHR ''c'' then parse_options opts (a\<lparr>ca_create := True, ca_tenant_id := atoi optarg\<rparr>)
      else if c = CHR ''n'' then parse_options opts (a\<lparr>ca_name := Some optarg\<rparr>)
      else if c = CHR ''d'' then parse_options opts (a\<lparr>ca_delete := True, ca_tenant_id := atoi optarg\<rparr>)
      else if c = CHR ''s'' then parse_options opts (a\<lparr>ca_status := True, ca_tenant_id := atoi optarg\<rparr>)
      else if c = CHR ''l'' then parse_options opts (a\<lparr>ca_list := True\<rparr>)
      else if c = CHR ''b'' then parse_options opts (a\<lparr>ca_bind := True, ca_pid := atoi optarg\<rparr>)
      else if c = CHR ''u'' then parse_options opts (a\<lparr>ca_unbind := True, ca_pid := atoi optarg\<rparr>)
      else if c = CHR ''t'' then parse_options opts (a\<lparr>ca_tenant_id := atoi optarg\<rparr>)
      else if c = CHR ''q'' then parse_options opts (a\<lparr>ca_quota := Some optarg\<rparr>)
      else if c = CHR ''m'' then parse_options opts (a\<lparr>ca_monitor := True\<rparr>)
      else if c = CHR ''i'' then parse_options opts (a\<lparr>ca_interval := atoi optarg\<rparr>)
      else if c = CHR ''h'' then Inl 0
      else Inl 1)"

text \<open>A command that only reads the table.\<close>

definition reading ::
    "(tenant_state \<Rightarrow> int \<times> string \<times> tenant_state) \<Rightarrow> cli_state \<Rightarrow> (int \<times> string \<times> cli_state) option" where
  "reading f s = (case f (cli_tenants s) of (rc, shown, ts) \<Rightarrow> Some (rc, shown, s\<lparr>cli_tenants := ts\<rparr>))"

definition silent :: "int \<times> cli_state \<Rightarrow> int \<times> string \<times> cli_state" where
  "silent r = (fst r, [], snd r)"

definition run_cli :: "cli_env \<Rightarrow> cli_args \<Rightarrow> cli_state \<Rightarrow> (int \<times> string \<times> cli_state) option" where
  "run_cli env a s =
     (if ca_create a then
        (if ca_tenant_id a = 0 then Some (1, [], s)
         else map_option silent (cmd_create_tenant env (ca_tenant_id a) (ca_name a) (ca_quota a) s))
      else if ca_delete a then map_option silent (cmd_delete_tenant env (ca_tenant_id a) s)
      else if ca_status a then reading (cmd_show_status env (ca_tenant_id a)) s
      else if ca_list a then reading (cmd_list_tenants env) s
      else if ca_bind a then
        (if ca_tenant_id a = 0 then Some (1, [], s)
         else Some (silent (cmd_bind_process env (ca_pid a) (ca_tenant_id a) s)))
      else if ca_unbind a then Some (silent (cmd_unbind_process env (ca_pid a) s))
      else if ca_monitor a then reading (cmd_monitor env) s
      else Some (0, [], s))"

definition tenant_manager_main ::
    "cli_env \<Rightarrow> tenant_env \<Rightarrow> (char \<times> string) list \<Rightarrow> cli_state \<Rightarrow> (int \<times> string \<times> cli_state) option" where
  "tenant_manager_main env init_env opts s =
     (case tenant_shm_init init_env (cli_tenants s) of
        (rc, ts) \<Rightarrow>
          let s = s\<lparr>cli_tenants := ts\<rparr>
          in if rc \<noteq> 0 then Some (1, [], s)
             else case dynamic_policy_init (ce_policy env) (cli_policy s) of
                    None \<Rightarrow> None
                  | Some (rc, p) \<Rightarrow>
                      let s = s\<lparr>cli_policy := p\<rparr>
                      in if rc \<noteq> 0 then Some (1, [], s)
                         else case parse_options opts no_args of
                                Inl code \<Rightarrow> Some (code, [], s)
                              | Inr a \<Rightarrow> run_cli env a s)"

end
