(* ===== verification/Policy_Spec.thy ===== *)
theory Policy_Spec
  imports Dyn_Policy
begin

text \<open>
  The properties of the dynamic policy manager: which calls return, what saving and loading the
  configuration keeps, what is published to the process table, the decision of the checks and
  the table of tenant policies.
\<close>

section \<open>Which calls return\<close>

definition policy_unlocked :: "policy_state \<Rightarrow> bool" where
  "policy_unlocked s \<longleftrightarrow> \<not> policy_locked s \<and> \<not> tenants_locked s"

datatype policy_call =
    PolInit policy_env
  | PolCleanup policy_env
  | PolSetDefault policy_env
  | PolLoad policy_env string
  | PolSave policy_env string
  | PolSetLimit int "resource_limit option"
  | PolGetLimit int
  | PolCheck policy_env int u32 u32
  | PolUpdate "dynamic_policy_config option"
  | PolGetConfig
  | PolAuto bool u32 "rat option" "rat option"
  | PolAdjust policy_env
  | PolEnable int bool
  | PolSetTenant policy_env u32 "tenant_policy option"
  | PolGetTenant u32
  | PolDeleteTenant u32
  | PolCheckTenant u32 int u32 u32
  | PolAllTenants int
  | PolWake
  | PolTurn policy_env

fun policy_exec :: "policy_call \<Rightarrow> policy_state \<Rightarrow> policy_state option" where
  "policy_exec (PolInit env) s = map_option snd (dynamic_policy_init env s)"
| "policy_exec (PolCleanup env) s = dynamic_policy_cleanup env s"
| "policy_exec (PolSetDefault env) s = map_option snd (dynamic_policy_set_default env s)"
| "policy_exec (PolLoad env path) s = map_option snd (dynamic_policy_load_config env path s)"
| "policy_exec (PolSave env path) s = map_option (\<lambda>r. snd (snd r)) (dynamic_policy_save_config env path s)"
| "policy_exec (PolSetLimit r l) s = map_option snd (dynamic_policy_set_limit r l s)"
| "policy_exec (PolGetLimit r) s = map_option (\<lambda>r. snd (snd r)) (dynamic_policy_get_limit r True s)"
| "policy_exec (PolCheck env r c q) s = map_option snd (dynamic_policy_check_limit env r c q s)"
| "policy_exec (PolUpdate c) s = map_option snd (dynamic_policy_update c s)"
| "policy_exec PolGetConfig s = map_option (\<lambda>r. snd (snd r)) (dynamic_policy_get_config True s)"
| "policy_exec (PolAuto b i h l) s = map_option snd (dynamic_policy_set_auto_adjust b i h l s)"
| "policy_exec (PolAdjust env) s = map_option (\<lambda>r. snd (snd r)) (dynamic_policy_adjust env s)"
| "policy_exec (PolEnable r b) s = map_option snd (dynamic_policy_enable_rule r b s)"
| "policy_exec (PolSetTenant env t p) s = map_option snd (dynamic_policy_set_tenant_policy env t p s)"
| "policy_exec (PolGetTenant t) s = map_option (\<lambda>r. snd (snd r)) (dynamic_policy_get_tenant_policy t True s)"
| "policy_exec (PolDeleteTenant t) s = map_option snd (dynamic_policy_delete_tenant_policy t s)"
| "policy_exec (PolCheckTenant t r c q) s = map_option snd (dynamic_policy_check_tenant_limit t r c q s)"
| "policy_exec (PolAllTenants n) s = map_option (\<lambda>r. snd (snd r)) (dynamic_policy_get_all_tenant_policies True n s)"
| "policy_exec PolWake s = Some (thread_wakes s)"
| "policy_exec (PolTurn env) s = adjust_thread_turn env s"

lemmas policy_lock_defs = lock_policy_def unlock_policy_def lock_tenants_def unlock_tenants_def
  policy_unlocked_def publish_limits_def Let_def

lemma get_limit_unlocked:
  "policy_unlocked s \<Longrightarrow> dynamic_policy_get_limit r True s =
     (case rule_of r (g_policy_config s) of None \<Rightarrow> Some (-1, None, s) | Some x \<Rightarrow> Some (0, Some (rule_limit x), s))"
  by (simp add: dynamic_policy_get_limit_def policy_lock_defs split: option.split)

lemma get_tenant_policy_unlocked:
  "policy_unlocked s \<Longrightarrow> dynamic_policy_get_tenant_policy t True s =
     (if unat t \<ge> MAX_TENANTS then Some (-1, None, s) else Some (0, Some (g_tenant_policies s ! unat t), s))"
  by (simp add: dynamic_policy_get_tenant_policy_def policy_lock_defs)

lemma check_limit_unlocked:
  fixes env :: policy_env
  assumes "policy_unlocked s"
  defines "u \<equiv> (case snd (shm_get_global_resources True (policy_shm s)) of None \<Rightarrow> pl_stack env | Some u \<Rightarrow> u)"
  shows "dynamic_policy_check_limit env r cur req s =
    Some (case rule_of r (g_policy_config s) of
            None \<Rightarrow> False
          | Some x \<Rightarrow> (if r = RESOURCE_QP then qp_count u else if r = RESOURCE_MR then mr_count u else 0) + req
                        > rl_max_global (rule_limit x)
                     \<or> cur + req > rl_max_per_process (rule_limit x), s)"
  using assms by (simp add: dynamic_policy_check_limit_def get_limit_unlocked Let_def split: option.split)

lemma check_tenant_unlocked:
  "policy_unlocked s \<Longrightarrow> dynamic_policy_check_tenant_limit t r cur req s =
    Some (if unat t \<ge> MAX_TENANTS then False
          else case rule_of r (tp_policy (g_tenant_policies s ! unat t)) of
                 None \<Rightarrow> False
               | Some x \<Rightarrow> cur + req > rl_max_per_process (rule_limit x), s)"
  by (simp add: dynamic_policy_check_tenant_limit_def get_tenant_policy_unlocked split: option.split)

text \<open>The turn of the adjustment thread, and the join, which waits for its remaining turns.\<close>

lemma thread_turn_unlocked:
  "policy_unlocked s \<Longrightarrow> adjust_thread_turn env s =
     (if policy_thread s \<noteq> ThreadAwake then Some s
      else if auto_adjust (g_policy_config s) then None else Some (thread_loops s))"
  by (simp add: adjust_thread_turn_def dynamic_policy_adjust_def policy_lock_defs)

lemma join_stopped:
  assumes u: "policy_unlocked s" and stop: "\<not> policy_running s"
  shows "join_adjust_thread env s =
     (if policy_thread s = NoThread \<or> policy_thread s = ThreadAwake \<and> auto_adjust (g_policy_config s) then None
      else Some (s\<lparr>policy_thread := NoThread\<rparr>))"
proof -
  have e: "join_adjust_thread env t = Some (t\<lparr>policy_thread := NoThread\<rparr>)" if "policy_thread t = ThreadEnded" for t
    using that by (simp add: join_adjust_thread.simps)
  show ?thesis
    by (cases "policy_thread s")
       (simp_all add: join_adjust_thread.simps [of env s] thread_turn_unlocked [OF u] e stop thread_wakes_def
         thread_loops_def)
qed

lemma cleanup_unlocked:
  assumes "policy_unlocked s"
  shows "dynamic_policy_cleanup env s =
     (if policy_thread s = NoThread \<or> policy_thread s = ThreadAwake \<and> auto_adjust (g_policy_config s) then None
      else Some (s\<lparr>policy_running := False, policy_thread := NoThread, g_policy_config := zero_policy_config\<rparr>))"
proof -
  have "policy_unlocked (s\<lparr>policy_running := False\<rparr>)" using assms by (simp add: policy_unlocked_def)
  from join_stopped [OF this] assms show ?thesis
    by (simp add: dynamic_policy_cleanup_def policy_lock_defs)
qed

text \<open>
  The calls that never return: the turn of the thread with automatic adjustment on, the clean-up
  while the thread is in such a turn, and the clean-up with no thread to wait for.
\<close>

definition never_returns :: "policy_call \<Rightarrow> policy_state \<Rightarrow> bool" where
  "never_returns c s \<longleftrightarrow>
     (case c of
        PolTurn env \<Rightarrow> policy_thread s = ThreadAwake \<and> auto_adjust (g_policy_config s)
      | PolCleanup env \<Rightarrow> policy_thread s = NoThread
          \<or> policy_thread s = ThreadAwake \<and> auto_adjust (g_policy_config s)
      | _ \<Rightarrow> False)"

text \<open>
  C32 (which calls return). When no call is in progress, every operation returns with both mutexes
  free again, on its error paths too, except in three cases. A turn of the adjustment thread that
  finds automatic adjustment on takes the policy mutex and then calls the adjustment, which takes
  it again, and never returns. The clean-up waits for the thread: it never returns when the thread
  is in such a turn, while a thread in its sleep ends at the test that follows, with automatic
  adjustment on as well. And the clean-up has no thread to wait for when none was created, or when
  it was called before.
\<close>

theorem policy_calls_return:
  assumes "policy_unlocked s"
  shows "case policy_exec c s of
      None \<Rightarrow> never_returns c s
    | Some s' \<Rightarrow> \<not> never_returns c s \<and> policy_unlocked s'"
  using assms
proof (cases c)
  case (PolInit env)
  with assms show ?thesis
    by (cases "shm_init (pl_shm env) (policy_shm s)")
       (simp add: dynamic_policy_init_def policy_lock_defs never_returns_def)
next
  case (PolCleanup env)
  with assms show ?thesis by (simp add: cleanup_unlocked never_returns_def) (simp add: policy_unlocked_def)
next
  case (PolCheck env r x q)
  with assms show ?thesis by (simp add: check_limit_unlocked never_returns_def)
next
  case (PolCheckTenant t r x q)
  with assms show ?thesis by (simp add: check_tenant_unlocked never_returns_def)
next
  case (PolGetLimit r)
  with assms show ?thesis by (simp add: get_limit_unlocked never_returns_def split: option.split)
next
  case (PolGetTenant t)
  with assms show ?thesis by (simp add: get_tenant_policy_unlocked never_returns_def)
next
  case (PolSetLimit r l)
  with assms show ?thesis
    by (simp add: dynamic_policy_set_limit_def policy_lock_defs never_returns_def split: option.split)
next
  case (PolLoad env path)
  with assms show ?thesis
    by (simp add: dynamic_policy_load_config_def policy_lock_defs never_returns_def split: option.split)
next
  case (PolUpdate x)
  with assms show ?thesis
    by (simp add: dynamic_policy_update_def policy_lock_defs never_returns_def split: option.split)
next
  case (PolAuto b i h l)
  with assms show ?thesis by (simp add: dynamic_policy_set_auto_adjust_def policy_lock_defs never_returns_def)
next
  case (PolEnable r b)
  with assms show ?thesis
    by (simp add: dynamic_policy_enable_rule_def policy_lock_defs never_returns_def split: option.split)
next
  case (PolSetTenant env t p)
  with assms show ?thesis
    by (simp add: dynamic_policy_set_tenant_policy_def policy_lock_defs never_returns_def split: option.split)
next
  case PolWake
  with assms show ?thesis by (simp add: thread_wakes_def policy_unlocked_def never_returns_def)
next
  case (PolTurn env)
  with assms show ?thesis
    by (simp add: thread_turn_unlocked thread_loops_def policy_unlocked_def never_returns_def)
qed (simp_all add: dynamic_policy_set_default_def dynamic_policy_save_config_def
       dynamic_policy_get_config_def dynamic_policy_adjust_def dynamic_policy_delete_tenant_policy_def
       dynamic_policy_get_all_tenant_policies_def policy_lock_defs never_returns_def)

text \<open>
  After a start with automatic adjustment switched on the clean-up returns while the thread sleeps,
  and neither the turn nor the clean-up does once the thread is awake.
\<close>

definition pol_env :: policy_env where
  "pol_env = \<lparr>pl_time = 5, pl_thread_ok = True, pl_shm = ok_shm_env, pl_fopen = (\<lambda>_. None),
     pl_create_ok = (\<lambda>_. True), pl_stack = zero_usage\<rparr>"

definition pol_started :: policy_state where
  "pol_started = snd (the (dynamic_policy_init pol_env (policy_start fresh_shm)))"

lemma pol_init: "dynamic_policy_init pol_env (policy_start fresh_shm) = Some (0, pol_started)"
proof -
  have "fst (shm_init ok_shm_env fresh_shm) = 0" by (simp add: shm_init_def ok_shm_env_def Let_def)
  then show ?thesis
    by (cases "shm_init ok_shm_env fresh_shm")
       (simp add: pol_started_def dynamic_policy_init_def policy_start_def pol_env_def policy_lock_defs)
qed

lemma pol_started_sel:
  "policy_unlocked pol_started" "g_policy_config pol_started = set_default_config pol_env"
  "policy_running pol_started" "g_tenant_policies pol_started = replicate 64 zero_tenant_policy"
  "policy_thread pol_started = ThreadSleeping"
  by (simp_all add: pol_started_def dynamic_policy_init_def policy_start_def pol_env_def policy_lock_defs
      shm_init_def ok_shm_env_def MAX_TENANTS_def)

theorem policy_calls_return_witness:
  "let s = pol_started\<lparr>g_policy_config := (set_default_config pol_env)\<lparr>auto_adjust := True\<rparr>\<rparr>
   in policy_exec (PolCleanup pol_env) s \<noteq> None
    \<and> policy_exec (PolTurn pol_env) (thread_wakes s) = None
    \<and> policy_exec (PolCleanup pol_env) (thread_wakes s) = None"
proof -
  let ?s = "pol_started\<lparr>g_policy_config := (set_default_config pol_env)\<lparr>auto_adjust := True\<rparr>\<rparr>"
  have u: "policy_unlocked ?s" "policy_unlocked (thread_wakes ?s)"
    using pol_started_sel(1,3,5) by (simp_all add: policy_unlocked_def thread_wakes_def)
  have "\<not> never_returns (PolCleanup pol_env) ?s" "never_returns (PolTurn pol_env) (thread_wakes ?s)"
    "never_returns (PolCleanup pol_env) (thread_wakes ?s)"
    using pol_started_sel(3,5) by (simp_all add: never_returns_def thread_wakes_def)
  with policy_calls_return [OF u(1), of "PolCleanup pol_env"]
    policy_calls_return [OF u(2), of "PolTurn pol_env"] policy_calls_return [OF u(2), of "PolCleanup pol_env"]
  show ?thesis unfolding Let_def by (auto split: option.splits simp del: policy_exec.simps)
qed

section \<open>Saving and loading\<close>

lemma dec_plain: "CHR 0x0A \<notin> set (dec n)" "\<forall>c\<in>set (dec n). \<not> is_space c"
  using dec_digits digit_facts(1,9) by blast+

lemma policy_text_line_fits:
  "CHR 0x0A \<notin> set key \<Longrightarrow> length key \<le> 32 \<Longrightarrow> n < 10 ^ 20 \<Longrightarrow> text_line 255 (policy_text_line key n)"
proof -
  assume k: "CHR 0x0A \<notin> set key" "length key \<le> 32" and n: "n < 10 ^ 20"
  from dec_length [OF n] have "length (dec n) \<le> 20" by simp
  with k dec_plain(1) [of n] have "text_line 255 ((key @ CHR '' '' # dec n) @ [CHR 0x0A])"
    by (intro text_lineI) auto
  then show ?thesis by (simp add: policy_text_line_def)
qed

lemma policy_line_setting:
  assumes k: "key \<noteq> []" "\<forall>c\<in>set key. \<not> is_space c" "length key \<le> 63" "hd key \<noteq> CHR ''#''" "hd key \<noteq> CHR 0x0A"
    and n: "n < 2 ^ 64"
  shows "policy_line (policy_text_line key n) c = policy_setting key (of_nat n) c"
proof -
  have sp: "is_space (CHR '' '')" and nl: "\<not> is_digit (CHR 0x0A)" by (simp_all add: is_space_def is_digit_def)
  have "scan_word 63 (policy_text_line key n) = Some (key, CHR '' '' # dec n @ [CHR 0x0A])"
    unfolding policy_text_line_def by (rule scan_word_plain [OF k(1-3) sp])
  moreover have "scan_u32 (CHR '' '' # dec n @ [CHR 0x0A]) = Some (of_nat n)"
    using scan_u32_dec [of "[CHR 0x0A]" n] n by (simp add: scan_u32_space [OF sp] nl)
  moreover have "policy_text_line key n \<noteq> []" "hd (policy_text_line key n) = hd key"
    using k(1) by (cases key; simp add: policy_text_line_def)+
  ultimately show ?thesis using k(4,5) by (simp add: policy_line_def)
qed

definition policy_keys :: "string list" where
  "policy_keys = [''max_qp_per_process'', ''max_global_qp'', ''max_mr_per_process'', ''max_global_mr'',
     ''max_memory_mb'', ''auto_adjust'', ''adjust_interval'']"

lemma policy_keys_plain:
  "\<forall>key\<in>set policy_keys. key \<noteq> [] \<and> (\<forall>c\<in>set key. \<not> is_space c) \<and> length key \<le> 32
     \<and> hd key \<noteq> CHR ''#'' \<and> hd key \<noteq> CHR 0x0A \<and> CHR 0x0A \<notin> set key"
  by (simp add: policy_keys_def is_space_def)

lemma policy_line_key: "key \<in> set policy_keys \<Longrightarrow> n < 2 ^ 64 \<Longrightarrow>
    policy_line (policy_text_line key n) c = policy_setting key (of_nat n) c"
  using policy_keys_plain by (intro policy_line_setting) auto

lemma u32_small: "unat (x :: u32) < 18446744073709551616" "unat (x :: u32) < 100000000000000000000"
  by (rule order_less_le_trans [OF unsigned_less], simp)+

lemma u64_small: "unat (x :: u64) div 1048576 < 18446744073709551616"
    "unat (x :: u64) div 1048576 < 100000000000000000000"
  by (rule le_less_trans [OF div_le_dividend order_less_le_trans [OF unsigned_less]], simp)+

lemma unat_mb: "unat ((x :: u64) div 1048576) = unat x div 1048576"
  by (simp add: unat_div)

lemma policy_file_reads: "fgets_all 254 (concat (policy_file_lines c)) = policy_file_lines c"
proof (rule fgets_all_lines)
  have k: "text_line 255 (policy_text_line key n)" if "key \<in> set policy_keys" "n < 10 ^ 20" for key n
    using policy_keys_plain that by (intro policy_text_line_fits) auto
  have m: "text_line 255 (policy_text_line ''max_memory_mb'' (unat (x :: u64) div 1048576))" for x
    by (rule k) (use u64_small(2) [of x] in \<open>simp_all add: policy_keys_def\<close>)
  have "text_line 255 (''# RDMA Dynamic Policy Configuration'' @ [CHR 0x0A])" by (rule text_lineI) simp_all
  then show "\<forall>l\<in>set (policy_file_lines c). text_line (Suc 254) l"
    by (simp add: policy_file_lines_def unat_mb k m policy_keys_def u32_small del: append.simps)
qed

text \<open>What loading a saved configuration does to the one in force.\<close>

definition loaded_config :: "dynamic_policy_config \<Rightarrow> dynamic_policy_config \<Rightarrow> dynamic_policy_config" where
  "loaded_config saved c =
     c\<lparr>qp_policy := set_rule_limit (\<lambda>l. l\<lparr>rl_max_per_process := rl_max_per_process (rule_limit (qp_policy saved)),
                                         rl_max_global := rl_max_global (rule_limit (qp_policy saved))\<rparr>) (qp_policy c),
       mr_policy := set_rule_limit (\<lambda>l. l\<lparr>rl_max_per_process := rl_max_per_process (rule_limit (mr_policy saved)),
                                         rl_max_global := rl_max_global (rule_limit (mr_policy saved))\<rparr>) (mr_policy c),
       memory_policy := set_rule_limit (\<lambda>l. l\<lparr>rl_max_memory :=
          of_nat (unat (rl_max_memory (rule_limit (memory_policy saved))) div 1048576 mod 4294967296 * 1048576)\<rparr>)
          (memory_policy c),
       auto_adjust := auto_adjust saved, adjust_interval := adjust_interval saved\<rparr>"

lemma memory_mb: "1048576 * ucast (of_nat n :: u32) = (of_nat (n mod 4294967296) * 1048576 :: u64)"
proof -
  have "ucast (of_nat n :: u32) = (of_nat (n mod 4294967296) :: u64)"
    by (simp add: unsigned_of_nat take_bit_eq_mod)
  then show ?thesis by simp
qed

lemma fold_policy_file: "fold policy_line (policy_file_lines saved) c = loaded_config saved c"
proof -
  have r: "policy_line (''# RDMA Dynamic Policy Configuration'' @ [CHR 0x0A]) c = c" for c
    by (simp add: policy_line_def)
  have k: "policy_line (policy_text_line key n) c = policy_setting key (of_nat n) c"
    if "key \<in> set policy_keys" "n < 18446744073709551616" for key n c
    using policy_line_key that by simp
  have m: "policy_line (policy_text_line ''max_memory_mb'' (unat (x :: u64) div 1048576)) c =
      policy_setting ''max_memory_mb'' (of_nat (unat x div 1048576)) c" for x c
    by (rule k) (use u64_small(1) [of x] in \<open>simp_all add: policy_keys_def\<close>)
  show ?thesis
    by (simp add: policy_file_lines_def unat_mb r k m policy_keys_def u32_small policy_setting_def
        memory_mb loaded_config_def set_rule_limit_def del: append.simps)
qed

text \<open>
  C35 (save, then load). Loading a file that another state saved brings its QP and MR limits, the
  adjustment switch and the interval over exactly; the memory limit is cut to whole megabytes and
  to a 32-bit number of them; the rules of the other resources and the watermarks stay as they are,
  and nothing is published to the process table.
\<close>

theorem policy_save_load:
  assumes u: "policy_unlocked s1" "policy_unlocked s2"
    and saved: "dynamic_policy_save_config env path s1 = Some (rc, Some contents, s1')"
    and found: "pl_fopen env' path' = Some contents"
  shows "dynamic_policy_load_config env' path' s2 =
    Some (0, s2\<lparr>g_policy_config := loaded_config (g_policy_config s1) (g_policy_config s2)\<rparr>)"
proof -
  have "contents = concat (policy_file_lines (g_policy_config s1))"
    using saved u(1) by (auto simp: dynamic_policy_save_config_def policy_lock_defs split: if_splits)
  with u(2) found show ?thesis
    by (simp add: dynamic_policy_load_config_def policy_lock_defs policy_file_reads fold_policy_file)
qed

text \<open>A memory limit of 3 MB and a half comes back as 3 MB.\<close>

theorem policy_save_load_witness:
  "let s1 = pol_started\<lparr>g_policy_config := (set_default_config pol_env)
         \<lparr>memory_policy := set_rule_limit (\<lambda>l. l\<lparr>rl_max_memory := 3670016\<rparr>) zero_rule\<rparr>\<rparr>;
       contents = concat (policy_file_lines (g_policy_config s1))
   in map_option (\<lambda>(rc, s). rl_max_memory (rule_limit (memory_policy (g_policy_config s))))
        (dynamic_policy_load_config (pol_env\<lparr>pl_fopen := (\<lambda>_. Some contents)\<rparr>) ''p'' pol_started) = Some 3145728"
proof -
  define s1 where "s1 = pol_started\<lparr>g_policy_config := (set_default_config pol_env)
      \<lparr>memory_policy := set_rule_limit (\<lambda>l. l\<lparr>rl_max_memory := 3670016\<rparr>) zero_rule\<rparr>\<rparr>"
  define contents where "contents = concat (policy_file_lines (g_policy_config s1))"
  have u: "policy_unlocked s1" using pol_started_sel(1) by (simp add: s1_def policy_unlocked_def)
  have sv: "dynamic_policy_save_config pol_env ''p'' s1 = Some (0, Some contents, s1)"
    using u by (simp add: dynamic_policy_save_config_def policy_lock_defs pol_env_def contents_def)
  have "dynamic_policy_load_config (pol_env\<lparr>pl_fopen := (\<lambda>_. Some contents)\<rparr>) ''p'' pol_started =
      Some (0, pol_started\<lparr>g_policy_config := loaded_config (g_policy_config s1) (g_policy_config pol_started)\<rparr>)"
    by (rule policy_save_load [OF u pol_started_sel(1) sv]) simp
  moreover have "rl_max_memory (rule_limit (memory_policy (loaded_config (g_policy_config s1) c))) = 3145728" for c
    by (simp add: loaded_config_def s1_def set_rule_limit_def)
  ultimately show ?thesis unfolding Let_def s1_def [symmetric] contents_def [symmetric] by simp
qed

section \<open>Limits\<close>

definition global_usage_of :: "int \<Rightarrow> resource_usage \<Rightarrow> u32" where
  "global_usage_of r u = (if r = RESOURCE_QP then qp_count u else if r = RESOURCE_MR then mr_count u else 0)"

lemma u32_sum_exceeds: "unat (a :: u32) + unat b < 4294967296 \<Longrightarrow> a + b > m \<longleftrightarrow> unat a + unat b > unat m"
  by (simp add: word_less_nat_alt unat_word_ariths)

text \<open>
  The policy check. For a known resource the check answers "exceeded" exactly when the global
  usage plus the request is above the global limit or the process's usage plus the request above
  the limit per process, as long as the two sums fit in 32 bits. The limit on memory is not among
  the two: the answer for memory does not depend on it, and under the default configuration every
  request for memory is answered "exceeded".
\<close>

theorem policy_check_decision:
  assumes u: "policy_unlocked s" and r: "rule_of r (g_policy_config s) = Some x"
    and g: "shm_get_global_resources True (policy_shm s) = (0, Some g)"
    and fits: "unat (global_usage_of r g) + unat req < 4294967296" "unat cur + unat req < 4294967296"
  shows "dynamic_policy_check_limit env r cur req s =
      Some (unat (global_usage_of r g) + unat req > unat (rl_max_global (rule_limit x))
            \<or> unat cur + unat req > unat (rl_max_per_process (rule_limit x)), s)
    \<and> (rule_limit x = rule_limit (memory_policy (set_default_config env')) \<and> req \<noteq> 0 \<longrightarrow>
         dynamic_policy_check_limit env r cur req s = Some (True, s))"
proof -
  have "dynamic_policy_check_limit env r cur req s =
      Some (unat (global_usage_of r g) + unat req > unat (rl_max_global (rule_limit x))
            \<or> unat cur + unat req > unat (rl_max_per_process (rule_limit x)), s)"
    by (simp add: check_limit_unlocked [OF u] r g u32_sum_exceeds [OF fits(1)] u32_sum_exceeds [OF fits(2)]
        flip: global_usage_of_def)
  moreover have "0 < unat req" if "req \<noteq> 0" using that by (simp add: unat_gt_0)
  ultimately show ?thesis by (simp add: set_default_config_def init_default_rule_def zero_limit_def)
qed

lemma pol_started_shm: "shm_get_global_resources True (policy_shm pol_started) = (0, Some zero_usage)"
  using fresh_shm_ptr
  by (auto simp: pol_started_def dynamic_policy_init_def policy_start_def pol_env_def policy_lock_defs
      shm_init_def ok_shm_env_def shm_get_global_resources_def shm_get_ptr_def shm_set_global_limits_def
      shm_init_data_def shm_lock_def shm_unlock_def zero_usage_def split: if_splits)

lemma resource_values: "RESOURCE_QP = 0" "RESOURCE_MR = 1" "RESOURCE_CQ = 2" "RESOURCE_PD = 3" "RESOURCE_MEMORY = 4"
  by (simp_all add: resource_defs)

theorem policy_check_decision_witness:
  "dynamic_policy_check_limit pol_env RESOURCE_QP 100 1 pol_started = Some (True, pol_started)
   \<and> dynamic_policy_check_limit pol_env RESOURCE_QP 99 1 pol_started = Some (False, pol_started)
   \<and> dynamic_policy_check_limit pol_env RESOURCE_MEMORY 0 1 pol_started = Some (True, pol_started)"
proof -
  have q: "rule_of RESOURCE_QP (g_policy_config pol_started) = Some (default_rule pol_env RESOURCE_QP 100 1000)"
    and m: "rule_of RESOURCE_MEMORY (g_policy_config pol_started) = Some (memory_policy (set_default_config pol_env))"
    by (simp_all add: rule_of_def resource_values pol_started_sel set_default_config_def)
  note D = policy_check_decision [OF pol_started_sel(1) _ pol_started_shm]
  have "dynamic_policy_check_limit pol_env RESOURCE_QP 100 1 pol_started = Some (True, pol_started)"
    "dynamic_policy_check_limit pol_env RESOURCE_QP 99 1 pol_started = Some (False, pol_started)"
    by (subst conjunct1 [OF D [OF q]];
        simp add: default_rule_def global_usage_of_def zero_usage_def zero_limit_def resource_values)+
  moreover have "dynamic_policy_check_limit pol_env RESOURCE_MEMORY 0 1 pol_started = Some (True, pol_started)"
    by (rule conjunct2 [OF D [OF m], rule_format]) (simp_all add: global_usage_of_def resource_values)
  ultimately show ?thesis by simp
qed

text \<open>The global limits in the process table are those of the configuration.\<close>

definition published :: "dynamic_policy_config \<Rightarrow> shared_memory_data \<Rightarrow> bool" where
  "published c d \<longleftrightarrow> shm_max_global_qp d = rl_max_global (rule_limit (qp_policy c))
     \<and> shm_max_global_mr d = rl_max_global (rule_limit (mr_policy c))
     \<and> shm_max_global_memory d = rl_max_memory (rule_limit (memory_policy c))"

lemma publish_published:
  "shm_get_ptr (policy_shm s) = Some d \<Longrightarrow>
   \<exists>d'. shm_get_ptr (policy_shm (publish_limits s)) = Some d' \<and> published (g_policy_config s) d'"
  by (auto simp: publish_limits_def shm_set_global_limits_def shm_get_ptr_def shm_lock_def shm_unlock_def
      published_def Let_def split: if_splits)

lemma publish_frame [frame_simps]:
  "g_policy_config (publish_limits s) = g_policy_config s" "policy_locked (publish_limits s) = policy_locked s"
  "tenants_locked (publish_limits s) = tenants_locked s"
  by (simp_all add: publish_limits_def Let_def)

lemma change_rule_eq:
  "change_rule r f c = (case rule_of r c of None \<Rightarrow> None | Some _ \<Rightarrow> Some (the (change_rule r f c)))"
  by (simp add: change_rule_def rule_of_def)

lemma rule_of_change:
  "rule_of r c = Some x \<Longrightarrow> rule_of q (the (change_rule r f c)) = (if q = r then Some (f x) else rule_of q c)"
  by (auto simp: change_rule_def rule_of_def resource_values split: if_splits)

lemma unlock_policy_sel [frame_simps]:
  "g_policy_config (unlock_policy s) = g_policy_config s" "policy_shm (unlock_policy s) = policy_shm s"
  "policy_unlocked (unlock_policy s) = (\<not> tenants_locked s)"
  by (simp_all add: unlock_policy_def policy_unlocked_def)

text \<open>
  A limit that is set is published. Setting the limit of a known resource returns 0; the limit
  is what is read back, the limits of the other resources are as before, and the global limits in
  the process table are those of the configuration. Loading a file or restoring the defaults
  leaves the process table as it was.
\<close>

theorem policy_set_limit_published:
  assumes u: "policy_unlocked s" and r: "rule_of r (g_policy_config s) = Some x"
    and d: "shm_get_ptr (policy_shm s) = Some d"
  shows "\<exists>s' d'. dynamic_policy_set_limit r (Some l) s = Some (0, s')
    \<and> dynamic_policy_get_limit r True s' = Some (0, Some l, s')
    \<and> (\<forall>q. q \<noteq> r \<longrightarrow> rule_of q (g_policy_config s') = rule_of q (g_policy_config s))
    \<and> shm_get_ptr (policy_shm s') = Some d' \<and> published (g_policy_config s') d'
    \<and> (\<forall>env path t. dynamic_policy_load_config env path s' = Some t \<longrightarrow> policy_shm (snd t) = policy_shm s')
    \<and> (\<forall>env t. dynamic_policy_set_default env s' = Some t \<longrightarrow> policy_shm (snd t) = policy_shm s')"
proof -
  obtain c where c: "change_rule r (set_rule_limit (\<lambda>_. l)) (g_policy_config s) = Some c"
    using r change_rule_eq [of r "set_rule_limit (\<lambda>_. l)" "g_policy_config s"] by auto
  note rc = rule_of_change [OF r, of _ "set_rule_limit (\<lambda>_. l)", unfolded c option.sel]
  let ?s = "s\<lparr>policy_locked := True, g_policy_config := c\<rparr>"
  let ?t = "unlock_policy (publish_limits ?s)"
  have set: "dynamic_policy_set_limit r (Some l) s = Some (0, ?t)"
    using u by (simp add: dynamic_policy_set_limit_def lock_policy_def policy_unlocked_def c)
  have t: "policy_unlocked ?t" "g_policy_config ?t = c"
    using u by (simp_all add: unlock_policy_def publish_limits_def policy_unlocked_def Let_def)
  have get: "dynamic_policy_get_limit r True ?t = Some (0, Some l, ?t)"
    unfolding get_limit_unlocked [OF t(1)] t(2) rc by (simp add: set_rule_limit_def)
  obtain d' where d': "shm_get_ptr (policy_shm ?t) = Some d'" "published c d'"
    using publish_published [of ?s d] d by (auto simp: frame_simps)
  have "policy_shm (snd t) = policy_shm ?t" if "dynamic_policy_load_config env path ?t = Some t" for env path t
    using that by (auto simp: dynamic_policy_load_config_def policy_lock_defs split: option.splits if_splits)
  moreover have "policy_shm (snd t) = policy_shm ?t" if "dynamic_policy_set_default env ?t = Some t" for env t
    using that by (auto simp: dynamic_policy_set_default_def policy_lock_defs split: option.splits if_splits)
  moreover have "rule_of q (g_policy_config ?t) = rule_of q (g_policy_config s)" if "q \<noteq> r" for q
    using that unfolding t(2) rc by simp
  ultimately show ?thesis using set get d' t(2)
    by (intro exI [of _ ?t] exI [of _ d'] conjI) simp_all
qed

theorem policy_set_limit_published_witness:
  "\<exists>s'. dynamic_policy_set_limit RESOURCE_QP (Some \<lparr>rl_max_per_process = 4, rl_max_global = 8, rl_max_memory = 0\<rparr>)
         pol_started = Some (0, s')
     \<and> dynamic_policy_get_limit RESOURCE_QP True s' =
         Some (0, Some \<lparr>rl_max_per_process = 4, rl_max_global = 8, rl_max_memory = 0\<rparr>, s')"
proof -
  have r: "rule_of RESOURCE_QP (g_policy_config pol_started) = Some (qp_policy (g_policy_config pol_started))"
    by (simp add: rule_of_def)
  obtain d where d: "shm_get_ptr (policy_shm pol_started) = Some d"
    using pol_started_shm by (auto simp: shm_get_global_resources_def split: option.splits)
  show ?thesis using policy_set_limit_published [OF pol_started_sel(1) r d] by blast
qed

section \<open>Policies of tenants\<close>

text \<open>
  Tenant policies. A policy that is set for a tenant is what is read back, stamped with the
  time, and the policies of the other tenants are as before. After it is deleted, as before it was
  ever set, the check of a known resource answers "exceeded" for every request of at least one
  unit: a tenant without a policy has a limit of zero.
\<close>

theorem tenant_policy_lifecycle:
  assumes u: "policy_unlocked s" and n: "length (g_tenant_policies s) = MAX_TENANTS" and t: "unat t < MAX_TENANTS"
    and r: "rule_of r c \<noteq> None" and fits: "unat cur + unat req < 4294967296" and pos: "req \<noteq> 0"
  shows "\<exists>s1 s2. dynamic_policy_set_tenant_policy env t (Some p) s = Some (0, s1)
    \<and> dynamic_policy_get_tenant_policy t True s1 = Some (0, Some (p\<lparr>tp_last_updated := pl_time env\<rparr>), s1)
    \<and> (\<forall>q<MAX_TENANTS. q \<noteq> unat t \<longrightarrow> g_tenant_policies s1 ! q = g_tenant_policies s ! q)
    \<and> dynamic_policy_delete_tenant_policy t s1 = Some (0, s2)
    \<and> dynamic_policy_check_tenant_limit t r cur req s2 = Some (True, s2)"
proof -
  let ?s1 = "s\<lparr>g_tenant_policies := (g_tenant_policies s)[unat t := p\<lparr>tp_last_updated := pl_time env\<rparr>]\<rparr>"
  let ?s2 = "s\<lparr>g_tenant_policies := (g_tenant_policies s)[unat t := zero_tenant_policy]\<rparr>"
  have un: "policy_unlocked ?s1" "policy_unlocked ?s2" using u by (simp_all add: policy_unlocked_def)
  have free: "\<not> tenants_locked s" using u by (simp add: policy_unlocked_def)
  have "dynamic_policy_set_tenant_policy env t (Some p) s = Some (0, ?s1)"
    using t free by (simp add: dynamic_policy_set_tenant_policy_def policy_lock_defs)
  moreover have "dynamic_policy_get_tenant_policy t True ?s1 = Some (0, Some (p\<lparr>tp_last_updated := pl_time env\<rparr>), ?s1)"
    using t n by (simp add: get_tenant_policy_unlocked [OF un(1)])
  moreover have "dynamic_policy_delete_tenant_policy t ?s1 = Some (0, ?s2)"
    using t free by (simp add: dynamic_policy_delete_tenant_policy_def policy_lock_defs)
  moreover have "dynamic_policy_check_tenant_limit t r cur req ?s2 = Some (True, ?s2)"
  proof -
    have "0 < cur + req" using u32_sum_exceeds [OF fits, of 0] pos by (simp add: unat_gt_0)
    moreover obtain x where "rule_of r zero_policy_config = Some x" "rule_limit x = zero_limit"
      using r by (auto simp: rule_of_def zero_policy_config_def zero_rule_def split: if_splits)
    ultimately show ?thesis
      using t n by (subst check_tenant_unlocked [OF un(2)]) (simp add: zero_tenant_policy_def zero_limit_def)
  qed
  ultimately show ?thesis by (intro exI [of _ ?s1] exI [of _ ?s2]) simp
qed

theorem tenant_policy_lifecycle_witness:
  "\<exists>s1 s2. dynamic_policy_set_tenant_policy pol_env 7 (Some zero_tenant_policy) pol_started = Some (0, s1)
     \<and> dynamic_policy_delete_tenant_policy 7 s1 = Some (0, s2)
     \<and> dynamic_policy_check_tenant_limit 7 RESOURCE_QP 0 1 s2 = Some (True, s2)"
proof -
  have "rule_of RESOURCE_QP zero_policy_config \<noteq> None" by (simp add: rule_of_def)
  from tenant_policy_lifecycle [OF pol_started_sel(1) _ _ this, of 7 0 1 pol_env zero_tenant_policy]
  show ?thesis by (auto simp: pol_started_sel MAX_TENANTS_def)
qed

end
