(* ===== verification/Cli_Spec.thy ===== *)
theory Cli_Spec
  imports Tenant_Cli Hooks_Spec Policy_Spec
begin

text \<open>
  What the command line of the tenant manager does: each command is one operation of the abstract
  tenant table with its return code, and what every start of the tool does to the process table.
\<close>

section \<open>Commands\<close>

definition cli_effect :: "cli_args \<Rightarrow> tenant_table \<Rightarrow> int \<times> tenant_table" where
  "cli_effect a T =
     (if ca_create a then
        (if ca_tenant_id a = 0 then (1, T)
         else case quota_of_string (ca_quota a) of
                None \<Rightarrow> (-1, T)
              | Some q \<Rightarrow> spec_create (ca_tenant_id a) (Some q) T)
      else if ca_delete a then spec_delete (ca_tenant_id a) T
      else if ca_status a then (if members T (ca_tenant_id a) = None then -1 else 0, T)
      else if ca_list a then (0, T)
      else if ca_bind a then
        (if ca_tenant_id a = 0 then (1, T) else spec_bind (ca_pid a) (ca_tenant_id a) T)
      else if ca_unbind a then spec_unbind (ca_pid a) T
      else (0, T))"

text \<open>A result of the tool on attached tables: the code and effect \<open>e\<close>, mutexes free, process
  table untouched.\<close>

definition cli_done :: "cli_state \<Rightarrow> int \<times> tenant_table \<Rightarrow> (int \<times> string \<times> cli_state) option \<Rightarrow> bool" where
  "cli_done s e r \<longleftrightarrow> (\<exists>shown s'. r = Some (fst e, shown, s') \<and> tenant_attached (cli_tenants s')
     \<and> tenant_state_abs (cli_tenants s') = snd e \<and> policy_unlocked (cli_policy s')
     \<and> policy_shm (cli_policy s') = policy_shm (cli_policy s))"

lemma active_list_same:
  "tenant_attached ts \<Longrightarrow> same_tenants ts (snd (tenant_get_active_list env b n ts))"
  by (auto simp: tenant_get_active_list_def same_tenants_refl Let_def intro!: with_reader)

lemma monitor_turns_same:
  "tenant_attached ts \<Longrightarrow> same_tenants ts (snd (monitor_turns envs i n ts))"
proof (induction n arbitrary: i ts)
  case 0
  then show ?case by (simp add: same_tenants_refl)
next
  case (Suc n)
  have a: "same_tenants ts (snd (monitor_turn (envs i) ts))"
    using active_list_same [OF Suc.prems, of "envs i" True "of_nat MAX_TENANTS"]
    by (auto simp: monitor_turn_def split: prod.splits)
  then have "tenant_attached (snd (monitor_turn (envs i) ts))" by (simp add: same_tenants_def)
  from same_tenants_trans [OF a Suc.IH [OF this]] show ?case by (simp add: case_prod_beta Let_def)
qed

lemma reading_done:
  assumes "policy_unlocked (cli_policy s)" "same_tenants (cli_tenants s) (snd (snd (f (cli_tenants s))))"
    "fst (f (cli_tenants s)) = rc"
  shows "cli_done s (rc, tenant_state_abs (cli_tenants s)) (reading f s)"
  using assms by (auto simp: cli_done_def reading_def same_tenants_def split: prod.splits)

lemma list_done:
  "tenant_attached ts \<Longrightarrow> same_tenants ts (snd (snd (cmd_list_tenants env ts))) \<and> fst (cmd_list_tenants env ts) = 0"
  using active_list_same [of ts "ce_tenant env 0" True "of_nat MAX_TENANTS"]
  by (auto simp: cmd_list_tenants_def split: prod.splits)

lemma monitor_done:
  "tenant_attached ts \<Longrightarrow> same_tenants ts (snd (snd (cmd_monitor env ts))) \<and> fst (cmd_monitor env ts) = 0"
  using monitor_turns_same [of ts "ce_tenant env" 0 "ce_turns env"]
  by (auto simp: cmd_monitor_def split: prod.splits)

lemma status_done:
  assumes a: "tenant_attached ts"
  shows "same_tenants ts (snd (snd (cmd_show_status env tid ts)))"
    and "fst (cmd_show_status env tid ts) = (if members (tenant_state_abs ts) tid = None then -1 else 0)"
  using tenant_readers_same(2) [OF a, where env = "ce_tenant env 0" and tid = tid and b = True]
    get_info_members [OF a, where env = "ce_tenant env 0" and tid = tid]
  by (auto simp: cmd_show_status_def split: prod.splits option.splits bool.splits)

lemma create_done:
  assumes a: "tenant_attached (cli_tenants s)" and u: "policy_unlocked (cli_policy s)"
    and q: "quota_of_string qs = Some q"
  shows "cli_done s (spec_create tid (Some q) (tenant_state_abs (cli_tenants s)))
    (map_option silent (cmd_create_tenant env tid name qs s))"
proof -
  obtain rc ts where r: "tenant_create (ce_tenant env 0) tid name (Some q) (cli_tenants s) = (rc, ts)" by fastforce
  have "tenant_attached ts"
    using exec_attached [OF a, of "TenantCreate (ce_tenant env 0) tid name (Some q)"] r by (simp add: tenant_exec_def)
  moreover have "spec_create tid (Some q) (tenant_state_abs (cli_tenants s)) = (rc, tenant_state_abs ts)"
    using create_refines [OF a] r by (metis id_apply map_prod_simp)
  ultimately show ?thesis using u
    by (auto simp: cli_done_def cmd_create_tenant_def q r silent_def dynamic_policy_set_tenant_policy_def policy_lock_defs)
qed

lemma delete_done:
  assumes a: "tenant_attached (cli_tenants s)" and u: "policy_unlocked (cli_policy s)"
  shows "cli_done s (spec_delete tid (tenant_state_abs (cli_tenants s)))
    (map_option silent (cmd_delete_tenant env tid s))"
proof -
  obtain rc ts where r: "tenant_delete (ce_tenant env 0) tid (cli_tenants s) = (rc, ts)" by fastforce
  have "tenant_attached ts"
    using exec_attached [OF a, of "TenantDelete (ce_tenant env 0) tid"] r by (simp add: tenant_exec_def)
  moreover have "spec_delete tid (tenant_state_abs (cli_tenants s)) = (rc, tenant_state_abs ts)"
    using delete_refines [OF a] r by (metis id_apply map_prod_simp)
  ultimately show ?thesis using u
    by (auto simp: cli_done_def cmd_delete_tenant_def r silent_def dynamic_policy_delete_tenant_policy_def policy_lock_defs)
qed

lemma bind_done:
  assumes a: "tenant_attached (cli_tenants s)" and u: "policy_unlocked (cli_policy s)" and p: "pid \<noteq> 0"
  shows "cli_done s (spec_bind pid tid (tenant_state_abs (cli_tenants s)))
      (Some (silent (cmd_bind_process env pid tid s)))"
    and "cli_done s (spec_unbind pid (tenant_state_abs (cli_tenants s)))
      (Some (silent (cmd_unbind_process env pid s)))"
proof -
  obtain rc ts where r: "tenant_bind_process (ce_tenant env 0) pid tid (cli_tenants s) = (rc, ts)" by fastforce
  have "tenant_attached ts" using bind_attached [OF a, of "ce_tenant env 0" pid tid] r by simp
  moreover have "spec_bind pid tid (tenant_state_abs (cli_tenants s)) = (rc, tenant_state_abs ts)"
    using bind_refines [OF a p] r by (metis id_apply map_prod_simp)
  ultimately show "cli_done s (spec_bind pid tid (tenant_state_abs (cli_tenants s)))
      (Some (silent (cmd_bind_process env pid tid s)))"
    using u by (auto simp: cli_done_def cmd_bind_process_def r silent_def)
next
  obtain rc ts where r: "tenant_unbind_process (ce_tenant env 0) pid (cli_tenants s) = (rc, ts)" by fastforce
  have "tenant_attached ts"
    using exec_attached [OF a, of "TenantUnbind (ce_tenant env 0) pid"] r by (simp add: tenant_exec_def)
  moreover have "spec_unbind pid (tenant_state_abs (cli_tenants s)) = (rc, tenant_state_abs ts)"
    using unbind_refines [OF a p] r by (metis id_apply map_prod_simp)
  ultimately show "cli_done s (spec_unbind pid (tenant_state_abs (cli_tenants s)))
      (Some (silent (cmd_unbind_process env pid s)))"
    using u by (auto simp: cli_done_def cmd_unbind_process_def r silent_def)
qed

text \<open>The process table and the mutexes also without a condition on the process number.\<close>

lemma run_cli_frame:
  assumes u: "policy_unlocked (cli_policy s)"
  shows "\<exists>rc shown s'. run_cli env a s = Some (rc, shown, s') \<and> policy_shm (cli_policy s') = policy_shm (cli_policy s)"
  using u by (auto simp: run_cli_def cmd_create_tenant_def cmd_delete_tenant_def silent_def reading_def
      cmd_bind_process_def cmd_unbind_process_def dynamic_policy_set_tenant_policy_def
      dynamic_policy_delete_tenant_policy_def policy_lock_defs split: prod.split option.split)

section \<open>Properties\<close>

text \<open>
  C28 (the commands). On an attached tenant table and with the mutexes of the policy manager free,
  every command of the tool returns, with the code and the table of the abstract operation it
  selects: the first of create, delete, status, list, bind, unbind and monitor among its options. Only
  the binding and unbinding of process 0, which an argument that is no number is read as, is
  excluded: the table marks its free entries with 0.
\<close>

theorem tenant_manager_commands:
  assumes a: "tenant_attached (cli_tenants s)" and u: "policy_unlocked (cli_policy s)" 
    and p: "ca_bind x \<or> ca_unbind x \<longrightarrow> ca_pid x \<noteq> 0"
  shows "cli_done s (cli_effect x (tenant_state_abs (cli_tenants s))) (run_cli env x s)"
proof -
  let ?T = "tenant_state_abs (cli_tenants s)"
  have same: "cli_done s (rc, ?T) (Some (rc, [], s))" for rc using a u by (simp add: cli_done_def)
  note r = reading_done [OF u]
  show ?thesis
  proof (cases "ca_create x")
    case True
    show ?thesis
    proof (cases "quota_of_string (ca_quota x)")
      case None
      then show ?thesis using True same by (simp add: run_cli_def cli_effect_def cmd_create_tenant_def silent_def)
    next
      case (Some q)
      then show ?thesis using True same create_done [OF a u] by (simp add: run_cli_def cli_effect_def)
    qed
  next
    case False
    have b: "ca_bind x \<or> ca_unbind x \<Longrightarrow> ca_pid x \<noteq> 0" using p by blast
    from False show ?thesis
      using delete_done [OF a u] same bind_done [OF a u b] r [where f = "cmd_show_status env (ca_tenant_id x)", OF status_done [OF a]]
        r [where f = "cmd_list_tenants env" and rc = 0] r [where f = "cmd_monitor env" and rc = 0]
        list_done [OF a] monitor_done [OF a]
      by (simp add: run_cli_def cli_effect_def)
  qed
qed

definition demo_cli_env :: cli_env where
  "demo_cli_env = \<lparr>ce_tenant = (\<lambda>_. ok_tenant_env), ce_policy = pol_env, ce_ctime = (\<lambda>_. []), ce_turns = 0\<rparr>"

definition demo_cli :: cli_state where
  "demo_cli = \<lparr>cli_tenants = two_tenants, cli_policy = policy_start fresh_shm\<rparr>"

lemma demo_cli_ready: "tenant_attached (cli_tenants demo_cli)" "policy_unlocked (cli_policy demo_cli)"
  by (simp_all add: demo_cli_def two_tenants_attached policy_start_def policy_unlocked_def)

lemma demo_42: "atoi ''42'' = 42" "atoi ''2'' = 2"
  by (simp_all add: atoi_def strtol_def signed_prefix_def skip_space_def leading_digits_def is_space_def
      is_digit_def digits_value_def digit_value_def)

text \<open>\<open>tenant_manager --bind 42 --tenant 2\<close>: the process moves from tenant 1 to tenant 2.\<close>

theorem tenant_manager_commands_witness:
  "\<exists>a s'. parse_options [(CHR ''b'', ''42''), (CHR ''t'', ''2'')] no_args = Inr a
     \<and> run_cli demo_cli_env a demo_cli = Some (0, s') \<and> binding (tenant_state_abs (cli_tenants (snd s'))) 42 = Some 2"
proof -
  define x where "x = no_args\<lparr>ca_bind := True, ca_pid := 42, ca_tenant_id := 2\<rparr>"
  have p: "parse_options [(CHR ''b'', ''42''), (CHR ''t'', ''2'')] no_args = Inr x"
    by (simp add: x_def demo_42)
  have "cli_effect x (tenant_state_abs two_tenants) = spec_bind 42 2 (tenant_state_abs two_tenants)"
    by (simp add: x_def cli_effect_def no_args_def)
  also have "\<dots> = (0, (tenant_state_abs two_tenants)\<lparr>binding := [42 \<mapsto> 2]\<rparr>)"
    by (simp add: two_tenants_abs spec_bind_def)
  finally have e: "cli_effect x (tenant_state_abs (cli_tenants demo_cli)) = (0, (tenant_state_abs two_tenants)\<lparr>binding := [42 \<mapsto> 2]\<rparr>)"
    by (simp add: demo_cli_def)
  have "ca_bind x \<or> ca_unbind x \<longrightarrow> ca_pid x \<noteq> 0" by (simp add: x_def)
  from tenant_manager_commands [OF demo_cli_ready this, of demo_cli_env]
  obtain shown s' where "run_cli demo_cli_env x demo_cli = Some (0, shown, s')"
      "tenant_state_abs (cli_tenants s') = (tenant_state_abs two_tenants)\<lparr>binding := [42 \<mapsto> 2]\<rparr>"
    by (auto simp: cli_done_def e)
  with p show ?thesis by (intro exI [of _ x] exI [of _ "(shown, s')"]) simp
qed

text \<open>
  C27 (what a start does to the process table). Whatever the options, also for the commands that only
  read, once the tenant table is attached and the process table can be opened, the tool sets the
  global limits of the process table to the defaults of the policy manager; and when the global
  counters of the table are zero it removes the usage of every process.
\<close>

theorem tenant_manager_start_resets:
  assumes t: "fst (tenant_shm_init ienv (cli_tenants s)) = 0" and u: "policy_unlocked (cli_policy s)"
    and o: "env_shm_open (pl_shm (ce_policy env)) \<noteq> -1" "env_ftruncate (pl_shm (ce_policy env)) \<noteq> -1"
      "env_mmap_ok (pl_shm (ce_policy env))"
    and d: "shm_object (policy_shm (cli_policy s)) = Some d"
  shows "\<exists>rc shown s' d'. tenant_manager_main env ienv opts s = Some (rc, shown, s')
    \<and> shm_get_ptr (policy_shm (cli_policy s')) = Some d'
    \<and> published (set_default_config (ce_policy env)) d'
    \<and> process_pids d' = (if global_stats d = zero_usage then replicate MAX_PROCESSES 0 else process_pids d)"
proof -
  obtain ts where ts: "tenant_shm_init ienv (cli_tenants s) = (0, ts)" using t by (cases "tenant_shm_init ienv (cli_tenants s)") simp
  let ?env = "ce_policy env" and ?m = "policy_shm (cli_policy s)"
  let ?m1 = "?m\<lparr>shm_fd := env_shm_open (pl_shm ?env), shm_mapped := True,
      shm_object := Some (shm_init_data (pl_shm ?env) d)\<rparr>"
  have i: "shm_init (pl_shm ?env) ?m = (0, ?m1)" using o d by (simp add: shm_init_def Let_def)
  obtain rc p where p: "dynamic_policy_init ?env (cli_policy s) = Some (rc, p)" "policy_unlocked p"
      "policy_shm p = snd (shm_set_global_limits 1000 10000 (10 * 1024 * 1024 * 1024) ?m1)"
    using u i by (cases "pl_thread_ok ?env")
      (simp_all add: dynamic_policy_init_def policy_lock_defs set_default_config_def default_rule_def)
  obtain d' where d': "shm_get_ptr (policy_shm p) = Some d'" "published (set_default_config ?env) d'"
      "process_pids d' = process_pids (shm_init_data (pl_shm ?env) d)"
    by (auto simp: p(3) shm_set_global_limits_def shm_get_ptr_def Let_def shm_lock_def shm_unlock_def published_def
        set_default_config_def default_rule_def)
  have e: "process_pids d' = (if global_stats d = zero_usage then replicate MAX_PROCESSES 0 else process_pids d)"
    unfolding d'(3) by (cases "global_stats d") (auto simp: shm_init_data_def zero_usage_def)
  define s1 where "s1 = s\<lparr>cli_tenants := ts, cli_policy := p\<rparr>"
  have s1: "policy_unlocked (cli_policy s1)" "policy_shm (cli_policy s1) = policy_shm p" by (simp_all add: s1_def p)
  have "\<exists>rc shown s'. tenant_manager_main env ienv opts s = Some (rc, shown, s')
      \<and> policy_shm (cli_policy s') = policy_shm p"
  proof (cases "rc = 0 \<and> (\<exists>x. parse_options opts no_args = Inr x)")
    case True
    then obtain x where "rc = 0" "parse_options opts no_args = Inr x" by blast
    then show ?thesis using run_cli_frame [OF s1(1), of env x] s1(2)
      by (simp add: tenant_manager_main_def ts p s1_def)
  next
    case False
    then show ?thesis by (cases "rc = 0"; cases "parse_options opts no_args") (auto simp: tenant_manager_main_def ts p(1) Let_def)
  qed
  with d' e show ?thesis by auto
qed

text \<open>A list of the tenants, with an application of one QP recorded in the process table.\<close>

definition one_app_shm :: shm_state where
  "one_app_shm = snd (shm_update_process_resources ok_shm_env 42
     (Some \<lparr>qp_count = 1, mr_count = 0, memory_used = 0\<rparr>) fresh_shm)"

definition start_cli :: cli_state where
  "start_cli = \<lparr>cli_tenants = two_tenants, cli_policy = policy_start one_app_shm\<rparr>"

theorem tenant_manager_start_resets_witness:
  "\<exists>d rc shown s' d'. shm_object one_app_shm = Some d \<and> 42 \<in> set (process_pids d)
    \<and> tenant_manager_main demo_cli_env ok_tenant_env [(CHR ''l'', [])] start_cli = Some (rc, shown, s')
    \<and> shm_get_ptr (policy_shm (cli_policy s')) = Some d' \<and> process_pids d' = replicate 1024 0"
proof -
  let ?u = "\<lparr>qp_count = 1, mr_count = 0, memory_used = 0\<rparr>"
  have pos: "0 < sint (42 :: pid_t)" by simp
  have put: "shm_put ok_shm_env 42 ?u fresh_shm = Some one_app_shm"
    unfolding one_app_shm_def by (rule shm_update_put [OF fresh_shm_update_ok]) simp
  obtain d0 i where i: "shm_get_ptr fresh_shm = Some d0" "update_slot 42 (process_pids d0) 0 None = Some i"
    and s: "one_app_shm = fresh_shm\<lparr>shm_object := Some (shm_write_slot ok_shm_env 42 ?u i d0)\<rparr>"
    using shm_put_Some [OF put pos] .
  have d0: "process_pids d0 = replicate 1024 0" "global_stats d0 = zero_usage" using fresh_shm_ptr i(1) by auto
  have "i < 1024" using i(2) by (auto simp: d0 update_slot_eq find_slot_replicate split: option.splits)
  then obtain d where d: "shm_object one_app_shm = Some d" "42 \<in> set (process_pids d)" "global_stats d = zero_usage"
    using d0 by (simp add: s shm_write_slot_def set_update_memI)
  have "fst (tenant_shm_init ok_tenant_env (cli_tenants start_cli)) = 0"
    using two_tenants_attached by (simp add: start_cli_def tenant_shm_init_def tenant_attached_def)
  from tenant_manager_start_resets [OF this, of demo_cli_env d "[(CHR ''l'', [])]"]
  show ?thesis using d
    by (auto simp: start_cli_def policy_start_def policy_unlocked_def demo_cli_env_def pol_env_def ok_shm_env_def
        MAX_PROCESSES_def)
qed

end
