(* ===== verification/Collector.thy ===== *)
theory Collector
  imports C_Scan Shm
begin

text \<open>
  The collector service (\<open>src/collector_server.c\<close>): the global counters and limits, the
  hash table of process usage, the synchronisation with the eBPF maps and the text protocol the
  service answers over its socket.

  The eBPF maps are outside the repository: what one iteration over the process map yields (each
  key with the result of its look-up) and the entry of the global map are arguments
  (\<open>map_env\<close>); that an iteration ends is the kernel's. The socket calls, the messages on the
  terminal and the creation of the synchronisation thread's loop are left out; a request is the
  bytes the service has read.
\<close>

section \<open>State\<close>

record process_resource_usage =
  pru_qp_count :: u32
  pru_mr_count :: u32
  pru_memory_used :: u64

type_synonym process_node = "u32 \<times> process_resource_usage"

record collector_state =
  col_running :: bool
  global_qp_count :: u32
  col_max_global_qp :: u32
  global_mr_count :: u32
  global_memory_used :: u64
  max_global_memory :: u64
  process_resources :: "process_node list list" \<comment> \<open>the chain of each bucket\<close>
  process_resources_map_fd :: int
  global_resources_map_fd :: int

record map_env =
  me_process_keys :: "(u32 \<times> resource_usage option) list"
  me_global :: "resource_usage option"
  me_malloc_ok :: "u32 \<Rightarrow> bool"

record service_env =
  se_max_qp :: "string option"      \<comment> \<open>RDMA_INTERCEPT_MAX_GLOBAL_QP\<close>
  se_max_memory :: "string option"  \<comment> \<open>RDMA_INTERCEPT_MAX_GLOBAL_MEMORY\<close>
  se_process_fd :: int
  se_global_fd :: int
  se_thread_ok :: bool

definition zero_process_usage :: process_resource_usage where
  "zero_process_usage = \<lparr>pru_qp_count = 0, pru_mr_count = 0, pru_memory_used = 0\<rparr>"

definition PROCESS_BUCKETS :: nat where "PROCESS_BUCKETS = 1024"

text \<open>The static initial values.\<close>

definition collector_start :: collector_state where
  "collector_start = \<lparr>col_running = True, global_qp_count = 0, col_max_global_qp = 10, global_mr_count = 0,
     global_memory_used = 0, max_global_memory = 1024 * 1024 * 1024 * 10,
     process_resources = replicate PROCESS_BUCKETS [], process_resources_map_fd = -1, global_resources_map_fd = -1\<rparr>"

section \<open>Limits from the environment\<close>

definition update_max_global_qp :: "string option \<Rightarrow> collector_state \<Rightarrow> collector_state" where
  "update_max_global_qp max_qp_str s =
     (case max_qp_str of
        None \<Rightarrow> s
      | Some v \<Rightarrow> let new_max = atoi v in if new_max > 0 then s\<lparr>col_max_global_qp := new_max\<rparr> else s)"

definition update_max_global_memory :: "string option \<Rightarrow> collector_state \<Rightarrow> collector_state" where
  "update_max_global_memory max_memory_str s =
     (case max_memory_str of
        None \<Rightarrow> s
      | Some v \<Rightarrow> let new_max = atoll v in if new_max > 0 then s\<lparr>max_global_memory := new_max\<rparr> else s)"

definition initialize_service :: "service_env \<Rightarrow> collector_state \<Rightarrow> int \<times> collector_state" where
  "initialize_service env s =
     (let s = s\<lparr>global_qp_count := 0, global_mr_count := 0, global_memory_used := 0,
                process_resources := replicate PROCESS_BUCKETS []\<rparr>;
          s = update_max_global_memory (se_max_memory env) (update_max_global_qp (se_max_qp env) s);
          s = s\<lparr>process_resources_map_fd := se_process_fd env, global_resources_map_fd := se_global_fd env\<rparr>
      in if \<not> se_thread_ok env then (-1, s) else (0, s))"

text \<open>The part of \<open>main\<close> that reads the environment before and applies it after.\<close>

definition service_main_start :: "service_env \<Rightarrow> collector_state \<Rightarrow> int \<times> collector_state" where
  "service_main_start env s =
     (case initialize_service env s of
        (rc, s) \<Rightarrow>
          if rc \<noteq> 0 then (1, s)
          else (0, update_max_global_memory (se_max_memory env) (update_max_global_qp (se_max_qp env) s)))"

section \<open>Process usage\<close>

definition usage_of_map :: "resource_usage \<Rightarrow> process_resource_usage" where
  "usage_of_map u = \<lparr>pru_qp_count = qp_count u, pru_mr_count = mr_count u, pru_memory_used = memory_used u\<rparr>"

text \<open>The first node of the process in its chain.\<close>

fun chain_update :: "u32 \<Rightarrow> process_resource_usage \<Rightarrow> process_node list \<Rightarrow> process_node list option" where
  "chain_update pid u [] = None"
| "chain_update pid u ((p, v) # ns) =
     (if p = pid then Some ((p, u) # ns) else map_option (\<lambda>r. (p, v) # r) (chain_update pid u ns))"

definition store_process :: "map_env \<Rightarrow> u32 \<Rightarrow> resource_usage \<Rightarrow> collector_state \<Rightarrow> collector_state" where
  "store_process env pid u s =
     (let hash_index = unat pid mod PROCESS_BUCKETS; chain = process_resources s ! hash_index
      in case chain_update pid (usage_of_map u) chain of
           Some chain \<Rightarrow> s\<lparr>process_resources := (process_resources s)[hash_index := chain]\<rparr>
         | None \<Rightarrow>
             if me_malloc_ok env pid
             then s\<lparr>process_resources := (process_resources s)[hash_index := (pid, usage_of_map u) # chain]\<rparr>
             else s)"

fun sync_processes :: "map_env \<Rightarrow> (u32 \<times> resource_usage option) list \<Rightarrow> collector_state \<Rightarrow> collector_state" where
  "sync_processes env [] s = s"
| "sync_processes env ((pid, None) # ks) s = sync_processes env ks s"
| "sync_processes env ((pid, Some u) # ks) s = sync_processes env ks (store_process env pid u s)"

definition sync_ebpf_data :: "map_env \<Rightarrow> collector_state \<Rightarrow> collector_state" where
  "sync_ebpf_data env s =
     (let s = (if process_resources_map_fd s \<ge> 0 then sync_processes env (me_process_keys env) s else s)
      in if global_resources_map_fd s \<ge> 0
         then case me_global env of
                None \<Rightarrow> s
              | Some g \<Rightarrow> s\<lparr>global_qp_count := qp_count g, global_mr_count := mr_count g,
                            global_memory_used := memory_used g\<rparr>
         else s)"

definition get_process_resource_usage :: "u32 \<Rightarrow> collector_state \<Rightarrow> process_resource_usage" where
  "get_process_resource_usage pid s =
     (case map_of (process_resources s ! (unat pid mod PROCESS_BUCKETS)) pid of
        Some u \<Rightarrow> u | None \<Rightarrow> zero_process_usage)"

section \<open>Protocol\<close>

text \<open>The text of a request: what was read, up to a NUL byte or the first newline.\<close>

definition request_text :: "string \<Rightarrow> string" where
  "request_text bytes = takeWhile (\<lambda>c. c \<noteq> CHR 0x00 \<and> c \<noteq> CHR 0x0A) (take 1023 bytes)"

definition stats_response :: "collector_state \<Rightarrow> string" where
  "stats_response s =
     ''Total QP: '' @ dec (unat (global_qp_count s)) @ [CHR 0x0A] @
     ''Max QP: '' @ dec (unat (col_max_global_qp s)) @ [CHR 0x0A] @
     ''Total MR: '' @ dec (unat (global_mr_count s)) @ [CHR 0x0A] @
     ''Total Memory Used: '' @ dec (unat (global_memory_used s)) @ '' bytes'' @ [CHR 0x0A] @
     ''Max Memory: '' @ dec (unat (max_global_memory s)) @ '' bytes'' @ [CHR 0x0A]"

definition proc_stats_response :: "process_resource_usage \<Rightarrow> string" where
  "proc_stats_response u = ''QP:'' @ dec (unat (pru_qp_count u)) @ '',MR:'' @ dec (unat (pru_mr_count u)) @
     '',Memory:'' @ dec (unat (pru_memory_used u))"

definition serve_qp_create :: "collector_state \<Rightarrow> string \<times> collector_state" where
  "serve_qp_create s =
     (if global_qp_count s \<ge> col_max_global_qp s then (''Error: QP limit reached'' @ [CHR 0x0A], s)
      else (''Success: QP created'' @ [CHR 0x0A], s\<lparr>global_qp_count := global_qp_count s + 1\<rparr>))"

definition serve_qp_destroy :: "collector_state \<Rightarrow> string \<times> collector_state" where
  "serve_qp_destroy s =
     (''Success: QP destroyed'' @ [CHR 0x0A],
      if global_qp_count s > 0 then s\<lparr>global_qp_count := global_qp_count s - 1\<rparr> else s)"

definition serve_mr_create :: "string \<Rightarrow> collector_state \<Rightarrow> string \<times> collector_state" where
  "serve_mr_create arg s =
     (case scan_u64 arg of
        None \<Rightarrow> (''Error: Invalid MR_CREATE request'' @ [CHR 0x0A], s)
      | Some len \<Rightarrow>
          if global_memory_used s + len > max_global_memory s
          then (''Error: Memory limit reached'' @ [CHR 0x0A], s)
          else (''Success: MR created'' @ [CHR 0x0A],
                s\<lparr>global_mr_count := global_mr_count s + 1, global_memory_used := global_memory_used s + len\<rparr>))"

definition serve_check_memory :: "string \<Rightarrow> collector_state \<Rightarrow> string \<times> collector_state" where
  "serve_check_memory arg s =
     (case scan_u64 arg of
        None \<Rightarrow> (''Error: Invalid CHECK_MEMORY request'' @ [CHR 0x0A], s)
      | Some len \<Rightarrow>
          if global_memory_used s + len > max_global_memory s
          then (''Error: Memory limit reached'' @ [CHR 0x0A], s)
          else (''Success: Memory check passed'' @ [CHR 0x0A], s))"

definition serve_mr_destroy :: "string \<Rightarrow> collector_state \<Rightarrow> string \<times> collector_state" where
  "serve_mr_destroy arg s =
     (case scan_u64 arg of
        None \<Rightarrow> (''Error: Invalid MR_DESTROY request'' @ [CHR 0x0A], s)
      | Some len \<Rightarrow>
          let s = (if global_mr_count s > 0 then s\<lparr>global_mr_count := global_mr_count s - 1\<rparr> else s);
              s = (if len > 0 \<and> global_memory_used s \<ge> len
                   then s\<lparr>global_memory_used := global_memory_used s - len\<rparr> else s)
          in (''Success: MR destroyed'' @ [CHR 0x0A], s))"

text \<open>The body of the main loop for the bytes of one connection (at least one byte).\<close>

definition serve_request :: "map_env \<Rightarrow> string \<Rightarrow> collector_state \<Rightarrow> string \<times> collector_state" where
  "serve_request env bytes s =
     (let buffer = request_text bytes
      in if has_prefix ''GET_PROC_STATS:'' buffer then
           let s = sync_ebpf_data env s; pid = atoi (drop 15 buffer)
           in (proc_stats_response (get_process_resource_usage pid s), s)
         else if buffer = ''GET_STATS'' then
           let s = sync_ebpf_data env s in (stats_response s, s)
         else if buffer = ''QP_CREATE'' then serve_qp_create s
         else if buffer = ''QP_DESTROY'' then serve_qp_destroy s
         else if has_prefix ''MR_CREATE '' buffer then serve_mr_create (drop 10 buffer) s
         else if has_prefix ''CHECK_MEMORY '' buffer then serve_check_memory (drop 13 buffer) s
         else if has_prefix ''MR_DESTROY '' buffer then serve_mr_destroy (drop 11 buffer) s
         else (''Error: Unknown request'' @ [CHR 0x0A], s))"

text \<open>One connection: nothing is answered when the client sends nothing or the read fails.\<close>

definition serve_connection :: "map_env \<Rightarrow> string option \<Rightarrow> collector_state \<Rightarrow> string option \<times> collector_state" where
  "serve_connection env received s =
     (case received of
        None \<Rightarrow> (None, s)
      | Some [] \<Rightarrow> (None, s)
      | Some bytes \<Rightarrow> (case serve_request env bytes s of (r, s) \<Rightarrow> (Some r, s)))"

end
