(* ===== verification/Collector_Client.thy ===== *)
theory Collector_Client
  imports C_Scan
begin

text \<open>
  The client of the collector (\<open>src/collector_client.c\<close>). A connection is a
  \<open>channel\<close>: the bytes the service answers to a request, or \<^const>\<open>None\<close> when the
  socket cannot be created, connected, written or read. The messages of the log are left out.
\<close>

type_synonym channel = "string \<Rightarrow> string option"

record collector_client =
  cl_global_qp_count :: u32
  cl_max_global_qp :: u32

definition client_start :: collector_client where
  "client_start = \<lparr>cl_global_qp_count = 0, cl_max_global_qp = 1000\<rparr>"

text \<open>A reply read into a buffer of \<open>n\<close> bytes with a NUL behind it.\<close>

definition reply_text :: "nat \<Rightarrow> string \<Rightarrow> string" where
  "reply_text n bytes = takeWhile (\<lambda>c. c \<noteq> CHR 0x00) (take (n - 1) bytes)"

text \<open>The code scans the maximum into a local variable without an initial value: \<open>stack\<close>.\<close>

definition get_global_qp_stats :: "channel \<Rightarrow> u32 \<Rightarrow> collector_client \<Rightarrow> int \<times> collector_client" where
  "get_global_qp_stats ch stack c =
     (case ch ''GET_STATS'' of
        None \<Rightarrow> (-1, c)
      | Some bytes \<Rightarrow>
          let buffer = reply_text 1024 bytes;
              c = (case strstr ''Total QP:'' buffer of
                     None \<Rightarrow> c
                   | Some total_line \<Rightarrow>
                       (case scan_u32 (drop 9 total_line) of None \<Rightarrow> c | Some n \<Rightarrow> c\<lparr>cl_global_qp_count := n\<rparr>));
              c = (case strstr ''Max QP:'' buffer of
                     None \<Rightarrow> c
                   | Some max_line \<Rightarrow>
                       let new_max = (case scan_u32 (drop 7 max_line) of None \<Rightarrow> stack | Some n \<Rightarrow> n)
                       in if new_max > 0 then c\<lparr>cl_max_global_qp := new_max\<rparr> else c)
          in (0, c))"

definition collector_get_global_qp_count :: "channel \<Rightarrow> u32 \<Rightarrow> collector_client \<Rightarrow> u32 \<times> collector_client" where
  "collector_get_global_qp_count ch stack c =
     (let c = snd (get_global_qp_stats ch stack c) in (cl_global_qp_count c, c))"

definition collector_get_max_global_qp :: "channel \<Rightarrow> u32 \<Rightarrow> collector_client \<Rightarrow> u32 \<times> collector_client" where
  "collector_get_max_global_qp ch stack c =
     (let c = snd (get_global_qp_stats ch stack c) in (cl_max_global_qp c, c))"

text \<open>The two queries are separate connections. True means that the limit is reached.\<close>

definition collector_check_global_qp_limit ::
    "channel \<Rightarrow> channel \<Rightarrow> u32 \<Rightarrow> collector_client \<Rightarrow> bool \<times> collector_client" where
  "collector_check_global_qp_limit ch1 ch2 stack c =
     (let (global_count, c) = collector_get_global_qp_count ch1 stack c;
          (max_global, c) = collector_get_max_global_qp ch2 stack c
      in if max_global = 0 then (False, c)
         else if global_count = 0 \<and> max_global > 0 then (False, c)
         else if global_count < max_global then (False, c)
         else (True, c))"

definition success_reply :: "string \<Rightarrow> bool" where
  "success_reply bytes \<longleftrightarrow> strstr ''Success'' (reply_text 64 bytes) \<noteq> None"

definition collector_send_qp_create_event :: "channel \<Rightarrow> bool" where
  "collector_send_qp_create_event ch =
     (case ch ''QP_CREATE'' of None \<Rightarrow> False | Some bytes \<Rightarrow> success_reply bytes)"

text \<open>Eleven bytes are written: the ten letters and the NUL behind them. The reply is only read.\<close>

definition qp_destroy_request :: string where
  "qp_destroy_request = ''QP_DESTROY'' @ [CHR 0x00]"

definition collector_send_qp_destroy_event :: "channel \<Rightarrow> string option" where
  "collector_send_qp_destroy_event ch = ch qp_destroy_request"

definition collector_send_mr_create_event :: "channel \<Rightarrow> u64 \<Rightarrow> bool" where
  "collector_send_mr_create_event ch len =
     (case ch (take 63 (''MR_CREATE '' @ dec (unat len))) of None \<Rightarrow> False | Some bytes \<Rightarrow> success_reply bytes)"

definition collector_send_mr_destroy_event :: "channel \<Rightarrow> u64 \<Rightarrow> string option" where
  "collector_send_mr_destroy_event ch len = ch (take 63 (''MR_DESTROY '' @ dec (unat len)))"

text \<open>True means that the limit is reached; a service that cannot be reached does not deny.\<close>

definition collector_check_global_memory_limit :: "channel \<Rightarrow> u64 \<Rightarrow> bool" where
  "collector_check_global_memory_limit ch requested_size =
     (case ch (take 63 (''CHECK_MEMORY '' @ dec (unat requested_size))) of
        None \<Rightarrow> False
      | Some bytes \<Rightarrow> \<not> success_reply bytes)"

end
