(* ===== verification/Collector_Spec.thy ===== *)
theory Collector_Spec
  imports Collector Collector_Client
begin

text \<open>
  The collector service together with its client: every event the client sends has its effect on
  the service and the client learns the service's decision; the statistics the service prints are
  the ones the client parses; the service never lets its counters pass the limits; what the hash
  table of process usage holds after a synchronisation.
\<close>

section \<open>Client and service connected\<close>

definition served :: "map_env \<Rightarrow> collector_state \<Rightarrow> channel" where
  "served env s = (\<lambda>request. fst (serve_connection env (Some request) s))"

definition after_request :: "map_env \<Rightarrow> string \<Rightarrow> collector_state \<Rightarrow> collector_state" where
  "after_request env request s = snd (serve_connection env (Some request) s)"

lemma serve_nonempty:
  "bytes \<noteq> [] \<Longrightarrow> served env s bytes = Some (fst (serve_request env bytes s))"
  "bytes \<noteq> [] \<Longrightarrow> after_request env bytes s = snd (serve_request env bytes s)"
  by (cases bytes; simp add: served_def after_request_def serve_connection_def split: prod.split)+

definition one_line :: "string \<Rightarrow> bool" where
  "one_line s \<longleftrightarrow> CHR 0x00 \<notin> set s \<and> CHR 0x0A \<notin> set s"

lemma request_text_line: "one_line s \<Longrightarrow> length s \<le> 1023 \<Longrightarrow> request_text s = s"
  by (auto simp: request_text_def one_line_def intro!: takeWhile_eq_all_conv [THEN iffD2])

lemma request_text_nul: "one_line s \<Longrightarrow> length s \<le> 1022 \<Longrightarrow> request_text (s @ [CHR 0x00]) = s"
  by (auto simp: request_text_def one_line_def takeWhile_append intro!: takeWhile_eq_all_conv [THEN iffD2])

lemma digit_not_control: "is_digit c \<Longrightarrow> c \<noteq> CHR 0x00 \<and> c \<noteq> CHR 0x0A"
  by (auto simp: is_digit_def)

lemma dec_one_line: "one_line (dec n)"
  using dec_digits digit_not_control unfolding one_line_def by blast

lemma one_line_append: "one_line (a @ b) \<longleftrightarrow> one_line a \<and> one_line b"
  by (auto simp: one_line_def)

lemma dec_u64_length: "length (dec (unat (n :: u64))) \<le> 20"
proof (rule dec_length)
  show "unat n < 10 ^ 20" by (rule order_less_le_trans [OF unsigned_less]) simp
qed simp

lemma scan_u64_printed: "scan_u64 (dec (unat (n :: u64))) = Some n"
proof -
  have "unat n < 2 ^ 64" by (rule order_less_le_trans [OF unsigned_less]) simp
  with scan_u64_dec [of "[]" "unat n"] show ?thesis by simp
qed

text \<open>A request made of a command word and a printed number arrives whole.\<close>

lemma sized_request:
  assumes "one_line p" "length p \<le> 20"
  shows "take 63 (p @ dec (unat (n :: u64))) = p @ dec (unat n)"
    and "request_text (p @ dec (unat n)) = p @ dec (unat n)"
  using assms dec_u64_length [of n]
  by (simp_all add: request_text_line one_line_append dec_one_line)

lemma replies:
  "success_reply (''Success: QP created'' @ [CHR 0x0A])"
  "success_reply (''Success: QP destroyed'' @ [CHR 0x0A])"
  "success_reply (''Success: MR created'' @ [CHR 0x0A])"
  "success_reply (''Success: MR destroyed'' @ [CHR 0x0A])"
  "success_reply (''Success: Memory check passed'' @ [CHR 0x0A])"
  "\<not> success_reply (''Error: QP limit reached'' @ [CHR 0x0A])"
  "\<not> success_reply (''Error: Memory limit reached'' @ [CHR 0x0A])"
  by (simp_all add: success_reply_def reply_text_def has_prefix_def)

lemma request_qp_create: "serve_request env ''QP_CREATE'' s = serve_qp_create s"
  by (simp add: serve_request_def request_text_line one_line_def has_prefix_def)

lemma request_qp_destroy: "serve_request env qp_destroy_request s = serve_qp_destroy s"
  unfolding qp_destroy_request_def serve_request_def
  by (subst request_text_nul) (simp_all add: one_line_def has_prefix_def)

lemma request_mr_create:
  "serve_request env (''MR_CREATE '' @ dec (unat (n :: u64))) s = serve_mr_create (dec (unat n)) s"
  unfolding serve_request_def
  by (subst sized_request(2)) (simp_all add: one_line_def has_prefix_def)

lemma request_check_memory:
  "serve_request env (''CHECK_MEMORY '' @ dec (unat (n :: u64))) s = serve_check_memory (dec (unat n)) s"
  unfolding serve_request_def
  by (subst sized_request(2)) (simp_all add: one_line_def has_prefix_def)

lemma request_mr_destroy:
  "serve_request env (''MR_DESTROY '' @ dec (unat (n :: u64))) s = serve_mr_destroy (dec (unat n)) s"
  unfolding serve_request_def
  by (subst sized_request(2)) (simp_all add: one_line_def has_prefix_def)

lemma command_words: "one_line ''MR_CREATE ''" "one_line ''MR_DESTROY ''" "one_line ''CHECK_MEMORY ''"
  by (simp_all add: one_line_def)

lemma check_memory_exact:
  "collector_check_global_memory_limit (served env s) n = (max_global_memory s < global_memory_used s + n)"
  unfolding collector_check_global_memory_limit_def
  by (subst sized_request(1) [OF command_words(3)])
     (simp_all add: serve_nonempty request_check_memory serve_check_memory_def scan_u64_printed replies del: append.simps)

lemma check_memory_keeps: "after_request env (''CHECK_MEMORY '' @ dec (unat (n :: u64))) s = s"
  by (simp add: serve_nonempty request_check_memory serve_check_memory_def scan_u64_printed del: append.simps)

text \<open>
  C30 (client and service agree). Over a working connection the client's creation event succeeds
  exactly when the service is below its QP limit, and then counts one QP; the destruction event
  takes one away, never below zero; a registration of \<open>n\<close> bytes succeeds exactly when the
  memory in use plus \<open>n\<close> (modulo \<open>2 ^ 64\<close>) does not exceed the limit, and then adds
  one region and \<open>n\<close> bytes; a deregistration takes them away; the memory check answers
  "reached" exactly when a registration would be refused, and changes nothing.
\<close>

theorem collector_events_exact:
  fixes env :: map_env and s :: collector_state and n :: u64
  defines "full \<equiv> max_global_memory s < global_memory_used s + n"
  shows "collector_send_qp_create_event (served env s) = (global_qp_count s < col_max_global_qp s)
    \<and> after_request env ''QP_CREATE'' s =
        (if global_qp_count s < col_max_global_qp s then s\<lparr>global_qp_count := global_qp_count s + 1\<rparr> else s)
    \<and> after_request env qp_destroy_request s =
        (if global_qp_count s > 0 then s\<lparr>global_qp_count := global_qp_count s - 1\<rparr> else s)
    \<and> collector_send_mr_create_event (served env s) n = (\<not> full)
    \<and> after_request env (''MR_CREATE '' @ dec (unat n)) s =
        (if full then s
         else s\<lparr>global_mr_count := global_mr_count s + 1, global_memory_used := global_memory_used s + n\<rparr>)
    \<and> after_request env (''MR_DESTROY '' @ dec (unat n)) s =
        s\<lparr>global_mr_count := (if global_mr_count s > 0 then global_mr_count s - 1 else 0),
          global_memory_used := (if global_memory_used s \<ge> n then global_memory_used s - n else global_memory_used s)\<rparr>
    \<and> collector_check_global_memory_limit (served env s) n = full
    \<and> after_request env (''CHECK_MEMORY '' @ dec (unat n)) s = s"
proof (intro conjI)
  show "collector_send_qp_create_event (served env s) = (global_qp_count s < col_max_global_qp s)"
    by (cases "col_max_global_qp s \<le> global_qp_count s")
       (simp_all add: collector_send_qp_create_event_def serve_nonempty request_qp_create serve_qp_create_def
          replies leD not_le del: append.simps)
  show "after_request env ''QP_CREATE'' s =
        (if global_qp_count s < col_max_global_qp s then s\<lparr>global_qp_count := global_qp_count s + 1\<rparr> else s)"
    by (cases "col_max_global_qp s \<le> global_qp_count s")
       (simp_all add: serve_nonempty request_qp_create serve_qp_create_def leD not_le)
  show "after_request env qp_destroy_request s =
        (if global_qp_count s > 0 then s\<lparr>global_qp_count := global_qp_count s - 1\<rparr> else s)"
    using request_qp_destroy [of env s] by (simp add: serve_nonempty qp_destroy_request_def serve_qp_destroy_def)
  show "collector_send_mr_create_event (served env s) n = (\<not> full)"
    unfolding collector_send_mr_create_event_def full_def
    by (subst sized_request(1) [OF command_words(1)])
       (simp_all add: serve_nonempty request_mr_create serve_mr_create_def scan_u64_printed replies del: append.simps)
  show "after_request env (''MR_CREATE '' @ dec (unat n)) s =
        (if full then s
         else s\<lparr>global_mr_count := global_mr_count s + 1, global_memory_used := global_memory_used s + n\<rparr>)"
    by (simp add: serve_nonempty request_mr_create serve_mr_create_def scan_u64_printed full_def del: append.simps)
  show "after_request env (''MR_DESTROY '' @ dec (unat n)) s =
        s\<lparr>global_mr_count := (if global_mr_count s > 0 then global_mr_count s - 1 else 0),
          global_memory_used := (if global_memory_used s \<ge> n then global_memory_used s - n else global_memory_used s)\<rparr>"
    by (simp add: serve_nonempty request_mr_destroy serve_mr_destroy_def scan_u64_printed word_gt_0 del: append.simps)
  show "collector_check_global_memory_limit (served env s) n = full"
    unfolding full_def by (rule check_memory_exact)
  show "after_request env (''CHECK_MEMORY '' @ dec (unat n)) s = s" by (rule check_memory_keeps)
qed

lemma collector_events_exact_witness:
  "collector_send_mr_create_event (served \<lparr>me_process_keys = [], me_global = None, me_malloc_ok = \<lambda>_. True\<rparr>
     collector_start) 4096"
  using collector_events_exact [of "\<lparr>me_process_keys = [], me_global = None, me_malloc_ok = \<lambda>_. True\<rparr>"
      collector_start 4096]
  by (simp add: collector_start_def)

section \<open>Statistics\<close>

lemma dec_u32_length: "length (dec (unat (n :: u32))) \<le> 10"
proof (rule dec_length)
  show "unat n < 10 ^ 10" by (rule order_less_le_trans [OF unsigned_less]) simp
qed simp

lemma stats_response_length: "length (stats_response s) \<le> 200"
  using dec_u32_length [of "global_qp_count s"] dec_u32_length [of "col_max_global_qp s"]
    dec_u32_length [of "global_mr_count s"] dec_u64_length [of "global_memory_used s"]
    dec_u64_length [of "max_global_memory s"]
  by (simp add: stats_response_def)

lemma digits_not_in: "\<not> is_digit c \<Longrightarrow> c \<notin> set (dec n)"
  using dec_digits by blast

lemma no_nul: "CHR 0x00 \<notin> set (stats_response s)"
  by (simp add: stats_response_def digits_not_in is_digit_def)

lemma stats_reply: "reply_text 1024 (stats_response s) = stats_response s"
  using stats_response_length [of s] no_nul [of s]
  by (auto simp: reply_text_def intro!: takeWhile_eq_all_conv [THEN iffD2])

lemma stats_total:
  "\<exists>rest. strstr ''Total QP:'' (stats_response s) =
     Some (''Total QP:'' @ CHR '' '' # dec (unat (global_qp_count s)) @ CHR 0x0A # rest)"
  using strstr_here [of "''Total QP:''"] by (simp add: stats_response_def has_prefix_def)

lemma stats_max:
  "\<exists>rest. strstr ''Max QP:'' (stats_response s) =
     Some (''Max QP:'' @ CHR '' '' # dec (unat (col_max_global_qp s)) @ CHR 0x0A # rest)"
proof -
  have a: "CHR ''M'' \<notin> set (''Total QP: '' @ dec (unat (global_qp_count s)) @ [CHR 0x0A])"
    by (simp add: digits_not_in is_digit_def)
  define r where "r = ''Total MR: '' @ dec (unat (global_mr_count s)) @ [CHR 0x0A] @
     ''Total Memory Used: '' @ dec (unat (global_memory_used s)) @ '' bytes'' @ [CHR 0x0A] @
     ''Max Memory: '' @ dec (unat (max_global_memory s)) @ '' bytes'' @ [CHR 0x0A]"
  have "stats_response s = (''Total QP: '' @ dec (unat (global_qp_count s)) @ [CHR 0x0A]) @
     (''Max QP:'' @ CHR '' '' # dec (unat (col_max_global_qp s)) @ CHR 0x0A # r)"
    by (simp add: stats_response_def r_def)
  moreover have "strstr ''Max QP:'' ((''Total QP: '' @ dec (unat (global_qp_count s)) @ [CHR 0x0A]) @
     (''Max QP:'' @ CHR '' '' # dec (unat (col_max_global_qp s)) @ CHR 0x0A # r)) =
     Some (''Max QP:'' @ CHR '' '' # dec (unat (col_max_global_qp s)) @ CHR 0x0A # r)"
    using a by (subst strstr_skip) (simp_all only: strstr_here list.sel list.distinct not_False_eq_True)
  ultimately show ?thesis by metis
qed

lemma scan_u32_printed: "scan_u32 (CHR '' '' # dec (unat (n :: u32)) @ CHR 0x0A # rest) = Some n"
proof -
  have "unat n < 2 ^ 64" by (rule order_less_le_trans [OF unsigned_less]) simp
  then have "scan_u32 (dec (unat n) @ CHR 0x0A # rest) = Some (of_nat (unat n))"
    by (intro scan_u32_dec) (simp_all add: is_digit_def)
  then show ?thesis by (simp add: scan_u32_space is_space_def)
qed

lemma request_get_stats:
  "serve_request env ''GET_STATS'' s = (stats_response (sync_ebpf_data env s), sync_ebpf_data env s)"
  by (simp add: serve_request_def request_text_line one_line_def has_prefix_def Let_def)

lemma query_stats:
  "get_global_qp_stats (served env s) stack c =
     (0, c\<lparr>cl_global_qp_count := global_qp_count (sync_ebpf_data env s),
           cl_max_global_qp := (if col_max_global_qp (sync_ebpf_data env s) = 0 then cl_max_global_qp c
                                else col_max_global_qp (sync_ebpf_data env s))\<rparr>)"
proof -
  let ?s = "sync_ebpf_data env s"
  obtain r1 where 1: "strstr ''Total QP:'' (stats_response ?s) =
      Some (''Total QP:'' @ CHR '' '' # dec (unat (global_qp_count ?s)) @ CHR 0x0A # r1)"
    using stats_total by blast
  obtain r2 where 2: "strstr ''Max QP:'' (stats_response ?s) =
      Some (''Max QP:'' @ CHR '' '' # dec (unat (col_max_global_qp ?s)) @ CHR 0x0A # r2)"
    using stats_max by blast
  show ?thesis
    by (simp add: get_global_qp_stats_def serve_nonempty request_get_stats stats_reply 1 2 Let_def
        scan_u32_printed word_neq_0_conv [symmetric])
qed

text \<open>
  Statistics round trip. Over a working connection the client's query stores exactly the QP
  count and the QP limit that the service has after synchronising with the eBPF maps; a limit of
  zero is not taken over.
\<close>

theorem collector_stats_round_trip:
  "get_global_qp_stats (served env s) stack c =
     (0, c\<lparr>cl_global_qp_count := global_qp_count (sync_ebpf_data env s),
           cl_max_global_qp := (if col_max_global_qp (sync_ebpf_data env s) = 0 then cl_max_global_qp c
                                else col_max_global_qp (sync_ebpf_data env s))\<rparr>)"
  by (rule query_stats)

text \<open>A synchronisation of the processes touches only the hash table.\<close>

lemma store_process_only: "\<exists>r. store_process env pid u s = s\<lparr>process_resources := r\<rparr>"
proof -
  have "s = s\<lparr>process_resources := process_resources s\<rparr>" by simp
  then have "\<exists>r. s = s\<lparr>process_resources := r\<rparr>" by blast
  then show ?thesis unfolding store_process_def Let_def by (simp split: option.split) blast
qed

lemma sync_processes_only: "\<exists>r. sync_processes env ks s = s\<lparr>process_resources := r\<rparr>"
proof (induction env ks s rule: sync_processes.induct)
  case (1 env s)
  have "s = s\<lparr>process_resources := process_resources s\<rparr>" by simp
  then show ?case unfolding sync_processes.simps by blast
next
  case (3 env pid u ks s)
  obtain r where r: "store_process env pid u s = s\<lparr>process_resources := r\<rparr>"
    using store_process_only by blast
  with 3 show ?case by auto
qed simp

lemma sync_keeps [simp]:
  "col_max_global_qp (sync_ebpf_data env s) = col_max_global_qp s"
  "max_global_memory (sync_ebpf_data env s) = max_global_memory s"
  "process_resources_map_fd (sync_ebpf_data env s) = process_resources_map_fd s"
  "global_resources_map_fd (sync_ebpf_data env s) = global_resources_map_fd s"
  "global_qp_count (sync_ebpf_data env s) =
     (if global_resources_map_fd s \<ge> 0
      then case me_global env of None \<Rightarrow> global_qp_count s | Some g \<Rightarrow> qp_count g else global_qp_count s)"
  "global_memory_used (sync_ebpf_data env s) =
     (if global_resources_map_fd s \<ge> 0
      then case me_global env of None \<Rightarrow> global_memory_used s | Some g \<Rightarrow> memory_used g
      else global_memory_used s)"
proof -
  obtain r where r: "sync_processes env (me_process_keys env) s = s\<lparr>process_resources := r\<rparr>"
    using sync_processes_only by blast
  show
    "col_max_global_qp (sync_ebpf_data env s) = col_max_global_qp s"
    "max_global_memory (sync_ebpf_data env s) = max_global_memory s"
    "process_resources_map_fd (sync_ebpf_data env s) = process_resources_map_fd s"
    "global_resources_map_fd (sync_ebpf_data env s) = global_resources_map_fd s"
    "global_qp_count (sync_ebpf_data env s) =
       (if global_resources_map_fd s \<ge> 0
        then case me_global env of None \<Rightarrow> global_qp_count s | Some g \<Rightarrow> qp_count g else global_qp_count s)"
    "global_memory_used (sync_ebpf_data env s) =
       (if global_resources_map_fd s \<ge> 0
        then case me_global env of None \<Rightarrow> global_memory_used s | Some g \<Rightarrow> memory_used g
        else global_memory_used s)"
    by (simp_all add: sync_ebpf_data_def r Let_def split: option.split)
qed

lemma check_reached:
  assumes "col_max_global_qp s > 0"
  shows "fst (collector_check_global_qp_limit (served env s) (served env (sync_ebpf_data env s)) stack c)
     = (\<not> global_qp_count (sync_ebpf_data env s) < col_max_global_qp s)"
proof -
  have "col_max_global_qp s \<noteq> 0" using assms by (simp add: word_neq_0_conv)
  with assms show ?thesis
    by (simp add: collector_check_global_qp_limit_def collector_get_global_qp_count_def
        collector_get_max_global_qp_def query_stats Let_def)
qed

text \<open>
  The client's QP check. Two queries to a service with a positive limit: the check reports
  "reached" exactly when the creation event that follows would be refused.
\<close>

theorem collector_qp_check_agrees:
  assumes "col_max_global_qp s > 0"
  shows "fst (collector_check_global_qp_limit (served env s) (served env (sync_ebpf_data env s)) stack c)
     = (\<not> collector_send_qp_create_event (served env (sync_ebpf_data env s)))"
proof -
  let ?s = "sync_ebpf_data env s"
  have "collector_send_qp_create_event (served env ?s) = (global_qp_count ?s < col_max_global_qp s)"
    by (cases "col_max_global_qp s \<le> global_qp_count ?s")
       (simp_all add: collector_send_qp_create_event_def serve_nonempty request_qp_create serve_qp_create_def
          replies leD not_le del: append.simps)
  with check_reached [OF assms] show ?thesis by simp
qed

lemma collector_qp_check_agrees_witness:
  "fst (collector_check_global_qp_limit
     (served \<lparr>me_process_keys = [], me_global = None, me_malloc_ok = \<lambda>_. True\<rparr>
        (collector_start\<lparr>global_qp_count := 10\<rparr>))
     (served \<lparr>me_process_keys = [], me_global = None, me_malloc_ok = \<lambda>_. True\<rparr>
        (sync_ebpf_data \<lparr>me_process_keys = [], me_global = None, me_malloc_ok = \<lambda>_. True\<rparr>
          (collector_start\<lparr>global_qp_count := 10\<rparr>))) 0 client_start) =
   (\<not> collector_send_qp_create_event
     (served \<lparr>me_process_keys = [], me_global = None, me_malloc_ok = \<lambda>_. True\<rparr>
        (sync_ebpf_data \<lparr>me_process_keys = [], me_global = None, me_malloc_ok = \<lambda>_. True\<rparr>
          (collector_start\<lparr>global_qp_count := 10\<rparr>))))"
  by (rule collector_qp_check_agrees) (simp add: collector_start_def)

section \<open>The limits hold\<close>

text \<open>One step of the service: a connection with the eBPF maps it would find.\<close>

definition connection_step :: "map_env \<times> string option \<Rightarrow> collector_state \<Rightarrow> collector_state" where
  "connection_step c s = snd (serve_connection (fst c) (snd c) s)"

text \<open>The total a connection reads from the eBPF maps: only the two statistics requests read any.\<close>

definition stats_request :: "string \<Rightarrow> bool" where
  "stats_request bytes \<longleftrightarrow> bytes \<noteq> []
     \<and> (has_prefix ''GET_PROC_STATS:'' (request_text bytes) \<or> request_text bytes = ''GET_STATS'')"

definition map_read :: "map_env \<times> string option \<Rightarrow> collector_state \<Rightarrow> resource_usage option" where
  "map_read c s =
     (case snd c of
        None \<Rightarrow> None
      | Some bytes \<Rightarrow> if stats_request bytes \<and> global_resources_map_fd s \<ge> 0 then me_global (fst c) else None)"

definition own_total :: "collector_state \<Rightarrow> resource_usage" where
  "own_total s = \<lparr>qp_count = global_qp_count s, mr_count = global_mr_count s, memory_used = global_memory_used s\<rparr>"

text \<open>The total read last, and \<open>g\<close> when none is read.\<close>

fun last_read :: "collector_state \<Rightarrow> (map_env \<times> string option) list \<Rightarrow> resource_usage \<Rightarrow> resource_usage" where
  "last_read s [] g = g"
| "last_read s (c # cs) g = last_read s cs (case map_read c s of None \<Rightarrow> g | Some g' \<Rightarrow> g')"

lemma request_effect:
  assumes "bytes \<noteq> []"
  shows "stats_request bytes \<Longrightarrow> snd (serve_request env bytes s) = sync_ebpf_data env s"
    and "\<not> stats_request bytes \<Longrightarrow>
      snd (serve_request env bytes s) \<in> {s, snd (serve_qp_create s), snd (serve_qp_destroy s)}
      \<or> (\<exists>a. snd (serve_request env bytes s) = snd (serve_mr_create a s))
      \<or> (\<exists>a. snd (serve_request env bytes s) = snd (serve_mr_destroy a s))"
proof -
  show "stats_request bytes \<Longrightarrow> snd (serve_request env bytes s) = sync_ebpf_data env s"
    by (auto simp: stats_request_def serve_request_def Let_def assms)
  have "snd (serve_check_memory a s) = s" for a
    by (simp add: serve_check_memory_def split: option.split)
  then show "\<not> stats_request bytes \<Longrightarrow>
      snd (serve_request env bytes s) \<in> {s, snd (serve_qp_create s), snd (serve_qp_destroy s)}
      \<or> (\<exists>a. snd (serve_request env bytes s) = snd (serve_mr_create a s))
      \<or> (\<exists>a. snd (serve_request env bytes s) = snd (serve_mr_destroy a s))"
    unfolding serve_request_def Let_def stats_request_def using assms by (simp split: if_split) blast
qed

lemma connection_cases:
  obtains (sync) "connection_step c s = sync_ebpf_data (fst c) s" "\<exists>bytes. snd c = Some bytes \<and> stats_request bytes"
  | (keep) "connection_step c s = s" "map_read c s = None"
  | (qp_create) "connection_step c s = snd (serve_qp_create s)" "map_read c s = None"
  | (qp_destroy) "connection_step c s = snd (serve_qp_destroy s)" "map_read c s = None"
  | (mr_create) a where "connection_step c s = snd (serve_mr_create a s)" "map_read c s = None"
  | (mr_destroy) a where "connection_step c s = snd (serve_mr_destroy a s)" "map_read c s = None"
proof (cases "snd c = None \<or> snd c = Some []")
  case True
  then show thesis by (intro keep) (auto simp: connection_step_def serve_connection_def map_read_def stats_request_def)
next
  case False
  then obtain b bs where c: "snd c = Some (b # bs)" by (cases "snd c"; cases "the (snd c)") auto
  then have e: "connection_step c s = snd (serve_request (fst c) (b # bs) s)"
    by (simp add: connection_step_def serve_connection_def split: prod.split)
  show thesis
  proof (cases "stats_request (b # bs)")
    case True
    with e c request_effect(1) [of "b # bs"] show thesis by (intro sync) auto
  next
    case False
    with c have "map_read c s = None" by (simp add: map_read_def)
    with e request_effect(2) [OF list.distinct(2) False, of "fst c" s] show thesis
      using keep qp_create qp_destroy mr_create mr_destroy
      by (elim disjE exE) (simp_all only: insert_iff empty_iff, blast)
  qed
qed

lemmas serve_defs = serve_qp_create_def serve_qp_destroy_def serve_mr_create_def serve_mr_destroy_def Let_def

lemma step_keeps:
  "col_max_global_qp (connection_step c s) = col_max_global_qp s"
  "max_global_memory (connection_step c s) = max_global_memory s"
  "global_resources_map_fd (connection_step c s) = global_resources_map_fd s"
  by (cases rule: connection_cases [of c s]; simp add: serve_defs split: option.split)+

lemma map_read_keeps: "map_read d (connection_step c s) = map_read d s"
  by (simp add: map_read_def step_keeps split: option.split)

lemma last_read_keeps: "last_read (connection_step c s) cs g = last_read s cs g"
  by (induction cs arbitrary: g) (simp_all add: map_read_keeps)

text \<open>One connection: the total read replaces the counters; otherwise only an admission raises them.\<close>

lemma step_qp:
  assumes "global_qp_count s \<le> max (col_max_global_qp s) (qp_count g)"
  shows "global_qp_count (connection_step c s)
    \<le> max (col_max_global_qp s) (qp_count (case map_read c s of None \<Rightarrow> g | Some g' \<Rightarrow> g'))"
proof (cases rule: connection_cases [of c s])
  case sync
  with assms show ?thesis by (auto simp: map_read_def split: option.splits)
next
  case qp_create
  with assms show ?thesis
    by (auto simp: serve_defs not_le le_max_iff_disj intro: inc_le)
next
  case qp_destroy
  have "global_qp_count s - 1 \<le> global_qp_count s" if "global_qp_count s > 0"
    using that by (simp add: word_gt_0 word_le_nat_alt unat_minus_one)
  from qp_destroy assms order_trans [OF this] show ?thesis by (auto simp: serve_defs)
qed (use assms in \<open>simp_all add: serve_defs split: option.split\<close>)

lemma step_memory:
  assumes "global_memory_used s \<le> max (max_global_memory s) (memory_used g)"
  shows "global_memory_used (connection_step c s)
    \<le> max (max_global_memory s) (memory_used (case map_read c s of None \<Rightarrow> g | Some g' \<Rightarrow> g'))"
proof (cases rule: connection_cases [of c s])
  case sync
  with assms show ?thesis by (auto simp: map_read_def split: option.splits)
next
  case (mr_create a)
  with assms show ?thesis by (auto simp: serve_defs not_less le_max_iff_disj split: option.split)
next
  case (mr_destroy a)
  with assms show ?thesis
    by (auto simp: serve_defs unat_sub word_le_nat_alt le_max_iff_disj split: option.split)
qed (use assms in \<open>simp_all add: serve_defs\<close>)

lemma connections_within:
  "global_qp_count s \<le> max (col_max_global_qp s) (qp_count g) \<Longrightarrow>
   global_memory_used s \<le> max (max_global_memory s) (memory_used g) \<Longrightarrow>
   global_qp_count (fold connection_step cs s) \<le> max (col_max_global_qp s) (qp_count (last_read s cs g))
   \<and> global_memory_used (fold connection_step cs s) \<le> max (max_global_memory s) (memory_used (last_read s cs g))
   \<and> col_max_global_qp (fold connection_step cs s) = col_max_global_qp s
   \<and> max_global_memory (fold connection_step cs s) = max_global_memory s"
proof (induction cs arbitrary: s g)
  case (Cons c cs)
  from Cons.IH [of "connection_step c s" "case map_read c s of None \<Rightarrow> g | Some g' \<Rightarrow> g'"]
    step_qp [OF Cons.prems(1), of c] step_memory [OF Cons.prems(2), of c]
  show ?case by (simp add: step_keeps last_read_keeps)
qed simp

text \<open>
  C31 (the service keeps its limits). Whatever the clients send, in any number and order, and
  whatever the eBPF maps hold, the global QP count and the memory in use never pass the larger of
  the limit of the service and the total read last from the maps, or the counters at the start
  when none was read: the service itself admits nothing past its limits. The limits do not change.
\<close>

theorem collector_limits_hold:
  "let g = last_read s cs (own_total s)
   in global_qp_count (fold connection_step cs s) \<le> max (col_max_global_qp s) (qp_count g)
    \<and> global_memory_used (fold connection_step cs s) \<le> max (max_global_memory s) (memory_used g)
    \<and> col_max_global_qp (fold connection_step cs s) = col_max_global_qp s
    \<and> max_global_memory (fold connection_step cs s) = max_global_memory s"
  using connections_within [of s "own_total s" cs] by (simp add: own_total_def)

text \<open>A map total of 70 is above the limit of 10: the next creation is refused.\<close>

definition map_above_limit :: map_env where
  "map_above_limit = \<lparr>me_process_keys = [], me_global = Some \<lparr>qp_count = 70, mr_count = 0, memory_used = 0\<rparr>,
     me_malloc_ok = \<lambda>_. True\<rparr>"

lemma collector_limits_hold_witness:
  "global_qp_count (fold connection_step
      [(map_above_limit, Some ''GET_STATS''), (map_above_limit, Some ''QP_CREATE''),
       (map_above_limit, Some ''MR_CREATE 4096'')] (collector_start\<lparr>global_resources_map_fd := 3\<rparr>)) \<le> 70"
proof -
  let ?cs = "[(map_above_limit, Some ''GET_STATS''), (map_above_limit, Some ''QP_CREATE''),
      (map_above_limit, Some ''MR_CREATE 4096'')]" and ?s = "collector_start\<lparr>global_resources_map_fd := 3\<rparr>"
  have r: "stats_request ''GET_STATS''" "\<not> stats_request ''QP_CREATE''" "\<not> stats_request ''MR_CREATE 4096''"
    by code_simp+
  have "qp_count (last_read ?s ?cs (own_total ?s)) = 70"
    by (simp add: map_read_def r map_above_limit_def)
  moreover have "col_max_global_qp ?s = 10" by (simp add: collector_start_def)
  ultimately show ?thesis using collector_limits_hold [where s = ?s and cs = ?cs] by (simp only: Let_def) simp
qed

text \<open>
  The sum wraps. The memory check adds the request to the memory in use modulo
  \<open>2 ^ 64\<close>: registering \<open>2 ^ 64\<close> less the memory in use is always accepted and leaves
  the counter at zero.
\<close>

theorem collector_memory_wraps:
  "collector_send_mr_create_event (served env s) (- global_memory_used s)
   \<and> global_memory_used (after_request env (''MR_CREATE '' @ dec (unat (- global_memory_used s))) s) = 0"
proof
  have req: "serve_request env (''MR_CREATE '' @ dec (unat (- global_memory_used s))) s =
      (''Success: MR created'' @ [CHR 0x0A],
       s\<lparr>global_mr_count := global_mr_count s + 1, global_memory_used := 0\<rparr>)"
    by (simp add: request_mr_create serve_mr_create_def scan_u64_printed del: append.simps)
  then show "collector_send_mr_create_event (served env s) (- global_memory_used s)"
    unfolding collector_send_mr_create_event_def
    by (subst sized_request(1) [OF command_words(1)])
       (simp_all add: serve_nonempty replies del: append.simps)
  from req show "global_memory_used (after_request env (''MR_CREATE '' @ dec (unat (- global_memory_used s))) s) = 0"
    by (simp add: serve_nonempty del: append.simps)
qed

section \<open>The usage of a process\<close>

definition process_view :: "collector_state \<Rightarrow> u32 \<Rightarrow> process_resource_usage option" where
  "process_view s pid = map_of (process_resources s ! (unat pid mod PROCESS_BUCKETS)) pid"

definition buckets_ok :: "collector_state \<Rightarrow> bool" where
  "buckets_ok s \<longleftrightarrow> length (process_resources s) = PROCESS_BUCKETS"

lemma chain_update_None: "chain_update pid u ns = None \<longleftrightarrow> map_of ns pid = None"
  by (induction ns) auto

lemma chain_update_Some: "chain_update pid u ns = Some ns' \<Longrightarrow> map_of ns' = (map_of ns)(pid \<mapsto> u)"
  by (induction ns arbitrary: ns') (auto split: if_splits simp: fun_eq_iff)

lemma store_process_chain:
  assumes "buckets_ok s" "process_view s pid \<noteq> None \<or> me_malloc_ok env pid"
  obtains ns where "store_process env pid u s =
      s\<lparr>process_resources := (process_resources s)[unat pid mod PROCESS_BUCKETS := ns]\<rparr>"
    "map_of ns = (map_of (process_resources s ! (unat pid mod PROCESS_BUCKETS)))(pid \<mapsto> usage_of_map u)"
proof (cases "chain_update pid (usage_of_map u) (process_resources s ! (unat pid mod PROCESS_BUCKETS))")
  case None
  then have m: "me_malloc_ok env pid" using assms(2) by (simp add: process_view_def chain_update_None)
  show thesis
    by (rule that [of "(pid, usage_of_map u) # process_resources s ! (unat pid mod PROCESS_BUCKETS)"])
       (simp_all add: store_process_def Let_def None m fun_eq_iff)
next
  case (Some ns)
  show thesis
    by (rule that [of ns]) (simp_all add: store_process_def Let_def Some chain_update_Some [OF Some])
qed

lemma store_process_view:
  assumes "buckets_ok s" "process_view s pid \<noteq> None \<or> me_malloc_ok env pid"
  shows "process_view (store_process env pid u s) = (process_view s)(pid \<mapsto> usage_of_map u)"
    and "buckets_ok (store_process env pid u s)"
proof -
  obtain ns where ns: "store_process env pid u s =
      s\<lparr>process_resources := (process_resources s)[unat pid mod PROCESS_BUCKETS := ns]\<rparr>"
    "map_of ns = (map_of (process_resources s ! (unat pid mod PROCESS_BUCKETS)))(pid \<mapsto> usage_of_map u)"
    using store_process_chain [OF assms] .
  have len: "unat p mod PROCESS_BUCKETS < length (process_resources s)" for p :: u32
    using assms(1) by (simp add: buckets_ok_def PROCESS_BUCKETS_def)
  show "process_view (store_process env pid u s) = (process_view s)(pid \<mapsto> usage_of_map u)"
  proof
    fix p
    show "process_view (store_process env pid u s) p = ((process_view s)(pid \<mapsto> usage_of_map u)) p"
      using ns(2) len by (cases "unat p mod PROCESS_BUCKETS = unat pid mod PROCESS_BUCKETS")
        (auto simp: process_view_def ns(1))
  qed
  from assms(1) show "buckets_ok (store_process env pid u s)" by (simp add: buckets_ok_def ns(1))
qed

lemma store_process_full: "process_view s pid = None \<Longrightarrow> \<not> me_malloc_ok env pid \<Longrightarrow> store_process env pid u s = s"
  using chain_update_None [of pid "usage_of_map u" "process_resources s ! (unat pid mod PROCESS_BUCKETS)"]
  by (simp add: store_process_def process_view_def Let_def)

text \<open>The entries one iteration over the process map yields with a value.\<close>

fun present :: "(u32 \<times> resource_usage option) list \<Rightarrow> (u32 \<times> resource_usage) list" where
  "present [] = []"
| "present ((pid, None) # ks) = present ks"
| "present ((pid, Some u) # ks) = (pid, u) # present ks"

lemma sync_processes_view:
  assumes "buckets_ok s" "\<forall>pid\<in>fst ` set (present ks). process_view s pid \<noteq> None \<or> me_malloc_ok env pid"
  shows "process_view (sync_processes env ks s) pid =
    (case map_of (rev (present ks)) pid of None \<Rightarrow> process_view s pid | Some u \<Rightarrow> Some (usage_of_map u))"
  using assms
proof (induction ks arbitrary: s)
  case (Cons k ks)
  obtain p ou where k: "k = (p, ou)" by (cases k)
  show ?case
  proof (cases ou)
    case None
    with Cons k show ?thesis by simp
  next
    case (Some u)
    with Cons.prems k have m: "process_view s p \<noteq> None \<or> me_malloc_ok env p" by simp
    note st = store_process_view [OF Cons.prems(1) m, of u]
    have "\<forall>pid\<in>fst ` set (present ks).
        process_view (store_process env p u s) pid \<noteq> None \<or> me_malloc_ok env pid"
      using Cons.prems(2) k Some by (auto simp: st(1))
    with Cons.IH [OF st(2)] k Some show ?thesis
      by (auto simp: st(1) map_add_def split: option.split)
  qed
qed simp

lemma usage_view:
  "get_process_resource_usage pid s = (case process_view s pid of Some u \<Rightarrow> u | None \<Rightarrow> zero_process_usage)"
  by (simp add: get_process_resource_usage_def process_view_def)

lemma sync_view: "process_view (sync_ebpf_data env s) =
    (if process_resources_map_fd s \<ge> 0 then process_view (sync_processes env (me_process_keys env) s)
     else process_view s)"
  by (auto simp: sync_ebpf_data_def process_view_def fun_eq_iff Let_def split: option.split)

text \<open>
  Process statistics. With the process map open and memory for every new node, the request
  \<open>GET_PROC_STATS:<pid>\<close> is answered with the last usage the iteration over the map yields
  for the process; when the map has no entry for it, with what an earlier synchronisation left (a
  process that is gone keeps its last usage), and zeros when there is none.
\<close>

theorem collector_process_stats:
  assumes "buckets_ok s" "process_resources_map_fd s \<ge> 0" "n < 2 ^ 31"
    and "\<forall>pid\<in>fst ` set (present (me_process_keys env)). process_view s pid \<noteq> None \<or> me_malloc_ok env pid"
  shows "fst (serve_request env (''GET_PROC_STATS:'' @ dec n) s) =
    proc_stats_response (case map_of (rev (present (me_process_keys env))) (of_nat n) of
        Some u \<Rightarrow> usage_of_map u | None \<Rightarrow> get_process_resource_usage (of_nat n) s)"
proof -
  have "length (dec n) \<le> 10" by (rule dec_length) (use assms(3) in simp_all)
  then have "request_text (''GET_PROC_STATS:'' @ dec n) = ''GET_PROC_STATS:'' @ dec n"
    using dec_one_line [of n] by (intro request_text_line) (simp_all add: one_line_def)
  moreover have "atoi (dec n) = of_nat n" using atoi_dec [of "[]" n] assms(3) by simp
  ultimately show ?thesis
    unfolding serve_request_def
    using sync_processes_view [OF assms(1,4), of "of_nat n"] assms(2)
    by (simp add: Let_def has_prefix_def usage_view sync_view split: option.split)
qed

lemma collector_process_stats_witness:
  "fst (serve_request
      \<lparr>me_process_keys = [(42, Some \<lparr>qp_count = 3, mr_count = 1, memory_used = 4096\<rparr>)],
       me_global = None, me_malloc_ok = \<lambda>_. True\<rparr> (''GET_PROC_STATS:'' @ dec 42)
      (collector_start\<lparr>process_resources_map_fd := 7\<rparr>)) =
   proc_stats_response \<lparr>pru_qp_count = 3, pru_mr_count = 1, pru_memory_used = 4096\<rparr>"
  by (subst collector_process_stats)
     (simp_all add: buckets_ok_def collector_start_def usage_of_map_def)

end
