(* ===== verification/Collector_Shm.thy ===== *)
theory Collector_Shm
  imports Collector_Spec
begin

text \<open>
  The collector over shared memory (\<open>src/collector_server_shm.c\<close>): no requests, but the
  eBPF maps copied into the process table that the hooks read, and the limits published there.
  As in the collector service the maps are an argument; the environment of each table update is
  the clock it reads.
\<close>

section \<open>The service\<close>

record shm_collector =
  sc_running :: bool
  sc_max_global_qp :: u32
  sc_max_global_memory :: u64
  sc_process_fd :: int
  sc_global_fd :: int
  sc_shm :: shm_state

definition shm_collector_start :: "shm_state \<Rightarrow> shm_collector" where
  "shm_collector_start m = \<lparr>sc_running = True, sc_max_global_qp = 10,
     sc_max_global_memory = 1024 * 1024 * 1024 * 10, sc_process_fd = -1, sc_global_fd = -1, sc_shm = m\<rparr>"

definition shm_update_max_global_qp :: "string option \<Rightarrow> shm_collector \<Rightarrow> shm_collector" where
  "shm_update_max_global_qp max_qp_str s =
     (case max_qp_str of
        None \<Rightarrow> s
      | Some v \<Rightarrow> let new_max = atoi v in if new_max > 0 then s\<lparr>sc_max_global_qp := new_max\<rparr> else s)"

definition shm_update_max_global_memory :: "string option \<Rightarrow> shm_collector \<Rightarrow> shm_collector" where
  "shm_update_max_global_memory max_memory_str s =
     (case max_memory_str of
        None \<Rightarrow> s
      | Some v \<Rightarrow> let new_max = atoll v in if new_max > 0 then s\<lparr>sc_max_global_memory := new_max\<rparr> else s)"

definition shm_initialize_service :: "shm_env \<Rightarrow> service_env \<Rightarrow> shm_collector \<Rightarrow> int \<times> shm_collector" where
  "shm_initialize_service menv env s =
     (case shm_init menv (sc_shm s) of
        (rc, m) \<Rightarrow>
          let s = s\<lparr>sc_shm := m\<rparr>
          in if rc \<noteq> 0 then (-1, s)
             else
               let s = shm_update_max_global_memory (se_max_memory env) (shm_update_max_global_qp (se_max_qp env) s);
                   s = s\<lparr>sc_shm := snd (shm_set_global_limits (sc_max_global_qp s) 1000
                                     (sc_max_global_memory s) (sc_shm s))\<rparr>;
                   s = s\<lparr>sc_process_fd := se_process_fd env, sc_global_fd := se_global_fd env\<rparr>
               in if \<not> se_thread_ok env then (-1, s) else (0, s))"

text \<open>The global counters, written under the lock; the time stamp stays.\<close>

definition sync_global :: "resource_usage \<Rightarrow> shared_memory_data \<Rightarrow> shared_memory_data" where
  "sync_global g d =
     (let d = shm_lock d;
          d = d\<lparr>global_stats := \<lparr>qp_count = qp_count g, mr_count = mr_count g, memory_used = memory_used g\<rparr>\<rparr>;
          d = d\<lparr>shm_version := shm_version d + 1\<rparr>
      in shm_unlock d)"

fun sync_table :: "(nat \<Rightarrow> shm_env) \<Rightarrow> nat \<Rightarrow> (u32 \<times> resource_usage option) list \<Rightarrow> shm_state \<Rightarrow> shm_state" where
  "sync_table menv i [] m = m"
| "sync_table menv i ((pid, None) # ks) m = sync_table menv (Suc i) ks m"
| "sync_table menv i ((pid, Some u) # ks) m =
     sync_table menv (Suc i) ks (snd (shm_update_process_resources (menv i) pid (Some u) m))"

definition sync_ebpf_data_to_shared_memory ::
    "(nat \<Rightarrow> shm_env) \<Rightarrow> map_env \<Rightarrow> shm_collector \<Rightarrow> shm_collector" where
  "sync_ebpf_data_to_shared_memory menv env s =
     (case shm_get_ptr (sc_shm s) of
        None \<Rightarrow> s
      | Some d \<Rightarrow>
          let s = (if sc_global_fd s \<ge> 0
                   then case me_global env of
                          None \<Rightarrow> s
                        | Some g \<Rightarrow> s\<lparr>sc_shm := (sc_shm s)\<lparr>shm_object := Some (sync_global g d)\<rparr>\<rparr>
                   else s)
          in if sc_process_fd s \<ge> 0
             then s\<lparr>sc_shm := sync_table menv 0 (me_process_keys env) (sc_shm s)\<rparr>
             else s)"

text \<open>One turn of the synchronisation thread.\<close>

definition sync_thread_turn :: "(nat \<Rightarrow> shm_env) \<Rightarrow> map_env \<Rightarrow> shm_collector \<Rightarrow> shm_collector" where
  "sync_thread_turn menv env s = (if sc_running s then sync_ebpf_data_to_shared_memory menv env s else s)"

section \<open>What a synchronisation leaves in the table\<close>

lemma proc_view_dom: "shm_get_ptr m = Some d \<Longrightarrow> dom (proc_view m) = {p. p \<noteq> 0 \<and> p \<in> set (process_pids d)}"
proof -
  assume d: "shm_get_ptr m = Some d"
  have "find_slot (\<lambda>q. q = p) (process_pids d) \<noteq> None \<longleftrightarrow> p \<in> set (process_pids d)" for p
    by (auto simp: find_slot_None_iff)
  then have "proc_view m p \<noteq> None \<longleftrightarrow> p \<noteq> 0 \<and> p \<in> set (process_pids d)" for p
    by (simp add: proc_view_def d)
  then show ?thesis by (simp add: dom_def)
qed

text \<open>A process has room when the processes of the table and itself fit it.\<close>

lemma put_room:
  assumes w: "shm_wf m" and d: "shm_get_ptr m = Some d" and pid: "0 < sint pid"
    and room: "card (insert pid (dom (proc_view m))) \<le> MAX_PROCESSES"
  shows "shm_put env pid u m \<noteq> None"
proof
  assume "shm_put env pid u m = None"
  then have "fst (shm_update_process_resources env pid (Some u) m) \<noteq> 0"
    by (auto simp: shm_put_def split: prod.splits if_splits)
  then have n: "pid \<notin> set (process_pids d)" "0 \<notin> set (process_pids d)"
    using d pid by (auto simp: shm_update_cases [OF d pid] update_slot_eq find_slot_None_iff split: option.splits)
  have wd: "shm_data_wf d" by (rule shm_wf_data [OF w d])
  have nz: "\<forall>p\<in>set (process_pids d). p \<noteq> 0" using n(2) by metis
  from wd have "card {p. p \<noteq> 0 \<and> p \<in> (\<lambda>p. p) ` set (process_pids d)} = MAX_PROCESSES"
    using card_keys [of "\<lambda>p. p" "process_pids d"] count_slots_full [of "\<lambda>p. p \<noteq> 0" "process_pids d"] nz
    by (simp add: shm_data_wf_def find_slot_None_iff)
  then have "card (dom (proc_view m)) = MAX_PROCESSES" by (simp add: proc_view_dom [OF d])
  moreover have "pid \<notin> dom (proc_view m)" "finite (dom (proc_view m))"
    using n by (auto simp: proc_view_dom [OF d])
  ultimately show False using room by simp
qed

text \<open>The entries are written one after the other; of two for one process the last stays.\<close>

lemma sync_table_view:
  assumes "shm_wf m" "shm_get_ptr m \<noteq> None" "\<forall>p\<in>fst ` set (present ks). 0 < sint p"
    and "card (dom (proc_view m) \<union> fst ` set (present ks)) \<le> MAX_PROCESSES"
  shows "shm_wf (sync_table menv i ks m) \<and> shm_get_ptr (sync_table menv i ks m) \<noteq> None
    \<and> proc_view (sync_table menv i ks m) =
        (\<lambda>p. case map_of (rev (present ks)) p of None \<Rightarrow> proc_view m p | Some u \<Rightarrow> Some u)"
  using assms
proof (induction ks arbitrary: i m)
  case (Cons k ks)
  obtain p ou where k: "k = (p, ou)" by (cases k)
  show ?case
  proof (cases ou)
    case None
    with Cons k show ?thesis by simp
  next
    case (Some u)
    with Cons.prems k have p: "0 < sint p" and r: "\<forall>p\<in>fst ` set (present ks). 0 < sint p"
      and c: "card (insert p (dom (proc_view m) \<union> fst ` set (present ks))) \<le> MAX_PROCESSES" by simp_all
    obtain d where d: "shm_get_ptr m = Some d" using Cons.prems(2) by blast
    have "finite (dom (proc_view m))" by (simp add: proc_view_dom [OF d])
    then have "card (insert p (dom (proc_view m))) \<le> MAX_PROCESSES"
      by (intro order_trans [OF card_mono c]) auto
    then obtain m' where put: "shm_put (menv i) p u m = Some m'"
      using put_room [OF Cons.prems(1) d p] by auto
    have m': "snd (shm_update_process_resources (menv i) p (Some u) m) = m'"
      using put by (auto simp: shm_put_def split: prod.splits if_splits)
    note w = shm_table.put_wf [OF Cons.prems(1) p put]
    note v = shm_table.put_view [OF Cons.prems(1) p put]
    have "card (dom (proc_view m') \<union> fst ` set (present ks)) \<le> MAX_PROCESSES" using c by (simp add: v)
    note ih = Cons.IH [OF w shm_put_ptr [OF put p] r this, of "Suc i"]
    then show ?thesis
      unfolding k Some sync_table.simps m'
      by (auto simp: v fun_eq_iff map_add_def split: option.split)
  qed
qed simp

lemma sync_table_frame:
  "shm_get_ptr m \<noteq> None \<Longrightarrow>
   \<exists>d d'. shm_get_ptr m = Some d \<and> shm_get_ptr (sync_table menv i ks m) = Some d'
     \<and> global_stats d' = global_stats d \<and> shm_max_global_qp d' = shm_max_global_qp d
     \<and> shm_max_global_mr d' = shm_max_global_mr d \<and> shm_max_global_memory d' = shm_max_global_memory d"
proof (induction ks arbitrary: i m)
  case (Cons k ks)
  obtain p ou where k: "k = (p, ou)" by (cases k)
  obtain d where d: "shm_get_ptr m = Some d" using Cons.prems by blast
  have step: "\<exists>d'. shm_get_ptr (snd (shm_update_process_resources e p u m)) = Some d'
     \<and> global_stats d' = global_stats d \<and> shm_max_global_qp d' = shm_max_global_qp d
     \<and> shm_max_global_mr d' = shm_max_global_mr d \<and> shm_max_global_memory d' = shm_max_global_memory d" for e u
    using d by (auto simp: shm_update_process_resources_def shm_get_ptr_def shm_lock_def shm_unlock_def Let_def
        split: option.splits if_splits)
  show ?case
  proof (cases ou)
    case None
    with Cons k show ?thesis by simp
  next
    case (Some u)
    obtain d' where d': "shm_get_ptr (snd (shm_update_process_resources (menv i) p (Some u) m)) = Some d'"
      "global_stats d' = global_stats d" "shm_max_global_qp d' = shm_max_global_qp d"
      "shm_max_global_mr d' = shm_max_global_mr d" "shm_max_global_memory d' = shm_max_global_memory d"
      using step by blast
    with Cons.IH [of "snd (shm_update_process_resources (menv i) p (Some u) m)" "Suc i"] d
    show ?thesis unfolding k Some sync_table.simps by auto
  qed
qed auto

section \<open>Properties\<close>

text \<open>
  The shared-memory collector. With both maps open, legal process ids and room for all
  processes, one synchronisation leaves in the process table the last usage the iteration yields for
  every process of the map, the old entries of all others, and the global counters of the map; the
  limits the service published stay in force.
\<close>

theorem shm_collector_sync:
  fixes menv :: "nat \<Rightarrow> shm_env" and env :: map_env
  assumes w: "shm_wf (sc_shm s)" and d: "shm_get_ptr (sc_shm s) = Some d"
    and fds: "sc_global_fd s \<ge> 0" "sc_process_fd s \<ge> 0"
    and legal: "\<forall>p\<in>fst ` set (present (me_process_keys env)). 0 < sint p"
    and room: "card (dom (proc_view (sc_shm s)) \<union> fst ` set (present (me_process_keys env))) \<le> MAX_PROCESSES"
  defines "m \<equiv> sc_shm (sync_ebpf_data_to_shared_memory menv env s)"
  shows "shm_wf m
    \<and> proc_view m = (\<lambda>p. case map_of (rev (present (me_process_keys env))) p of
        None \<Rightarrow> proc_view (sc_shm s) p | Some u \<Rightarrow> Some u)
    \<and> shm_get_global_resources True m =
        (0, Some (case me_global env of None \<Rightarrow> global_stats d | Some g \<Rightarrow> g))
    \<and> (\<exists>d'. shm_get_ptr m = Some d' \<and> shm_max_global_qp d' = shm_max_global_qp d
        \<and> shm_max_global_mr d' = shm_max_global_mr d \<and> shm_max_global_memory d' = shm_max_global_memory d)"
proof -
  define m1 where "m1 = (case me_global env of None \<Rightarrow> sc_shm s
      | Some g \<Rightarrow> (sc_shm s)\<lparr>shm_object := Some (sync_global g d)\<rparr>)"
  have m: "m = sync_table menv 0 (me_process_keys env) m1"
    using d fds by (simp add: m_def sync_ebpf_data_to_shared_memory_def m1_def Let_def split: option.split)
  define d1 where "d1 = (case me_global env of None \<Rightarrow> d | Some g \<Rightarrow> sync_global g d)"
  have o: "shm_mapped (sc_shm s)" "shm_object (sc_shm s) = Some d" using get_ptr_object [OF d] by simp_all
  have d1: "shm_get_ptr m1 = Some d1"
    using o by (simp add: m1_def d1_def shm_get_ptr_def split: option.split)
  have same: "process_pids d1 = process_pids d" "process_stats d1 = process_stats d"
    "shm_max_global_qp d1 = shm_max_global_qp d" "shm_max_global_mr d1 = shm_max_global_mr d"
    "shm_max_global_memory d1 = shm_max_global_memory d"
    "global_stats d1 = (case me_global env of None \<Rightarrow> global_stats d | Some g \<Rightarrow> g)"
    by (simp_all add: d1_def sync_global_def shm_lock_def shm_unlock_def Let_def split: option.split)
  have "shm_data_wf d1" using shm_wf_data [OF w d] by (simp add: shm_data_wf_def same)
  then have w1: "shm_wf m1" using w o get_ptr_object [OF d1] by (auto simp: shm_wf_def)
  have v1: "proc_view m1 = proc_view (sc_shm s)" by (simp add: proc_view_def d1 d same fun_eq_iff)
  have "shm_wf m \<and> shm_get_ptr m \<noteq> None \<and> proc_view m =
      (\<lambda>p. case map_of (rev (present (me_process_keys env))) p of None \<Rightarrow> proc_view (sc_shm s) p | Some u \<Rightarrow> Some u)"
    unfolding m v1 [symmetric] by (rule sync_table_view [OF w1 _ legal]) (simp_all add: d1 v1 room)
  moreover obtain d' where d': "shm_get_ptr m = Some d'" "global_stats d' = global_stats d1"
      "shm_max_global_qp d' = shm_max_global_qp d1" "shm_max_global_mr d' = shm_max_global_mr d1"
      "shm_max_global_memory d' = shm_max_global_memory d1"
    using sync_table_frame [of m1 menv 0 "me_process_keys env"] d1 unfolding m by auto
  ultimately show ?thesis by (simp add: v1 same shm_get_global_resources_def)
qed

theorem shm_collector_sync_witness:
  "shm_get_global_resources True
     (sc_shm (sync_ebpf_data_to_shared_memory (\<lambda>_. ok_shm_env)
        \<lparr>me_process_keys = [(42, Some \<lparr>qp_count = 3, mr_count = 1, memory_used = 4096\<rparr>)],
         me_global = Some \<lparr>qp_count = 3, mr_count = 1, memory_used = 4096\<rparr>, me_malloc_ok = \<lambda>_. True\<rparr>
        ((shm_collector_start fresh_shm)\<lparr>sc_global_fd := 5, sc_process_fd := 6\<rparr>)))
   = (0, Some \<lparr>qp_count = 3, mr_count = 1, memory_used = 4096\<rparr>)"
proof -
  obtain d where d: "shm_get_ptr fresh_shm = Some d" "process_pids d = replicate 1024 0" using fresh_shm_ptr by blast
  have "dom (proc_view fresh_shm) = {}" using d by (simp add: proc_view_dom)
  then show ?thesis
    using shm_collector_sync [of "(shm_collector_start fresh_shm)\<lparr>sc_global_fd := 5, sc_process_fd := 6\<rparr>" d
        "\<lparr>me_process_keys = [(42, Some \<lparr>qp_count = 3, mr_count = 1, memory_used = 4096\<rparr>)],
         me_global = Some \<lparr>qp_count = 3, mr_count = 1, memory_used = 4096\<rparr>, me_malloc_ok = \<lambda>_. True\<rparr>"
        "\<lambda>_. ok_shm_env"]
    by (simp add: shm_collector_start_def fresh_shm_wf d(1) MAX_PROCESSES_def)
qed

end
