(* ===== verification/Rdma_System.thy ===== *)
theory Rdma_System
  imports Daemon_Spec Cli_Spec Collector_Shm
begin

text \<open>
  The parts put together: the two shared objects, the processes with their hooks, the tenant
  daemon, the command line tool and the collector over shared memory, each with its own view of
  the objects. A step is one hook of one process, one request to the daemon, one run of the tool or
  one turn of the collector; steps interleave freely. What happens when the parts of one hook
  interleave with those of another is the subject of the theory \<open>Hook_Race\<close>.

  The objects exist from the start and their names are not unlinked while the system runs (the
  daemon and the collector do that when they stop).
\<close>

section \<open>State and steps\<close>

record rdma_system =
  sy_shm :: "shared_memory_data option"
  sy_tenants :: "tenant_shared_memory option"
  sy_process :: "pid_t \<Rightarrow> hook_state"
  sy_daemon :: tenant_state
  sy_collector :: shm_collector

text \<open>The state of a component with the shared objects as they are now.\<close>

definition view_shm :: "rdma_system \<Rightarrow> shm_state \<Rightarrow> shm_state" where
  "view_shm sy m = m\<lparr>shm_object := sy_shm sy\<rparr>"

definition view_tenants :: "rdma_system \<Rightarrow> tenant_state \<Rightarrow> tenant_state" where
  "view_tenants sy ts = ts\<lparr>tenant_object := sy_tenants sy\<rparr>"

definition app_view :: "rdma_system \<Rightarrow> pid_t \<Rightarrow> hook_state" where
  "app_view sy p =
     (let h = sy_process sy p in h\<lparr>hk_shm := view_shm sy (hk_shm h), hk_tenants := view_tenants sy (hk_tenants h)\<rparr>)"

definition process_step :: "hook_op \<Rightarrow> rdma_system \<Rightarrow> rdma_system" where
  "process_step c sy =
     (let p = he_pid (op_env c); h = hook_exec c (app_view sy p)
      in sy\<lparr>sy_shm := shm_object (hk_shm h), sy_tenants := tenant_object (hk_tenants h),
           sy_process := (sy_process sy)(p := h)\<rparr>)"

text \<open>A request without an answer is one on which the daemon dies; the table stays.\<close>

definition daemon_step :: "'j json_lib \<Rightarrow> daemon_env \<Rightarrow> string \<Rightarrow> rdma_system \<Rightarrow> rdma_system" where
  "daemon_step lib env text sy =
     (case process_command lib env text (view_tenants sy (sy_daemon sy)) of
        None \<Rightarrow> sy
      | Some (reply, ts) \<Rightarrow> sy\<lparr>sy_tenants := tenant_object ts, sy_daemon := ts\<rparr>)"

text \<open>The tool is a new process at every run.\<close>

definition cli_start :: "rdma_system \<Rightarrow> cli_state" where
  "cli_start sy = \<lparr>cli_tenants = view_tenants sy tenant_start, cli_policy = policy_start (view_shm sy shm_start)\<rparr>"

definition cli_step :: "cli_env \<Rightarrow> tenant_env \<Rightarrow> (char \<times> string) list \<Rightarrow> rdma_system \<Rightarrow> rdma_system" where
  "cli_step env ienv opts sy =
     (case tenant_manager_main env ienv opts (cli_start sy) of
        None \<Rightarrow> sy
      | Some (rc, shown, s) \<Rightarrow> sy\<lparr>sy_tenants := tenant_object (cli_tenants s),
            sy_shm := shm_object (policy_shm (cli_policy s))\<rparr>)"

definition collector_step :: "(nat \<Rightarrow> shm_env) \<Rightarrow> map_env \<Rightarrow> rdma_system \<Rightarrow> rdma_system" where
  "collector_step menv env sy =
     (let c = sy_collector sy; c' = sync_thread_turn menv env (c\<lparr>sc_shm := view_shm sy (sc_shm c)\<rparr>)
      in sy\<lparr>sy_shm := shm_object (sc_shm c'), sy_collector := c'\<rparr>)"

text \<open>
  The eBPF monitor attaches the process to the table; it is outside the repository and is relied on
  to leave the object well formed and in place.
\<close>

definition attach_ok :: "hook_op \<Rightarrow> bool" where
  "attach_ok c \<longleftrightarrow> (\<forall>m. shm_wf m \<and> shm_object m \<noteq> None \<longrightarrow>
     shm_wf (he_ebpf_attach (op_env c) m) \<and> shm_object (he_ebpf_attach (op_env c) m) \<noteq> None)"

inductive system_step :: "rdma_system \<Rightarrow> rdma_system \<Rightarrow> bool" where
  hook: "attach_ok c \<Longrightarrow> system_step sy (process_step c sy)"
| daemon: "system_step sy (daemon_step (lib :: string json_lib) denv text sy)"
| tool: "system_step sy (cli_step cenv ienv opts sy)"
| collector: "system_step sy (collector_step menv env sy)"

inductive system_reach :: "rdma_system \<Rightarrow> rdma_system \<Rightarrow> bool" for sy :: rdma_system where
  start: "system_reach sy sy"
| step: "system_reach sy a \<Longrightarrow> system_step a b \<Longrightarrow> system_reach sy b"

inductive_cases system_stepE: "system_step sy sy'"

section \<open>The types of the shared objects\<close>

definition shm_typed :: "shm_state \<Rightarrow> bool" where
  "shm_typed m \<longleftrightarrow> shm_wf m \<and> shm_object m \<noteq> None"

definition tenants_typed :: "tenant_state \<Rightarrow> bool" where
  "tenants_typed ts \<longleftrightarrow> tenant_inv tenant_safe ts \<and> tenant_object ts \<noteq> None"

definition hook_typed :: "hook_state \<Rightarrow> bool" where
  "hook_typed h \<longleftrightarrow> shm_typed (hk_shm h) \<and> tenants_typed (hk_tenants h)"

text \<open>Both objects exist and are well formed; the daemon is attached.\<close>

definition system_typed :: "rdma_system \<Rightarrow> bool" where
  "system_typed sy \<longleftrightarrow> (\<exists>d. sy_shm sy = Some d \<and> shm_data_wf d) \<and> (\<exists>d. sy_tenants sy = Some d \<and> tenant_safe d)
     \<and> g_tenant_shm_mapped (sy_daemon sy)"

text \<open>Only unlinking removes an object.\<close>

lemma with_tenant_present:
  "tenant_object s \<noteq> None \<Longrightarrow> tenant_object (snd (with_tenant_shm env err body s)) \<noteq> None"
  by (auto simp: with_tenant_shm_def tenant_shm_get_ptr_def tenant_shm_init_def Let_def split: prod.splits option.splits)

lemma tenant_exec_typed:
  assumes "tenants_typed s" "case c of TenantDestroy _ \<Rightarrow> False | _ \<Rightarrow> True"
  shows "tenants_typed (tenant_exec c s)"
proof -
  have o: "tenant_object s \<noteq> None" using assms(1) by (simp add: tenants_typed_def)
  have "tenant_object (tenant_exec c s) \<noteq> None"
    using assms(2) o
    by (cases c)
       (simp_all add: with_tenant_present tenant_exec_def tenant_shm_init_def tenant_create_def tenant_delete_def Let_def
        tenant_set_status_def tenant_update_quota_def tenant_bind_process_def
        tenant_unbind_process_def tenant_update_resource_usage_def tenant_readers del: not_None_eq split: option.split)
  with assms(1) tenant_exec_safe show ?thesis by (simp add: tenants_typed_def)
qed

lemma shm_update_typed: "shm_typed m \<Longrightarrow> shm_typed (snd (shm_update_process_resources env pid u m))"
  by (auto simp: shm_typed_def shm_update_process_wf)
     (auto simp: shm_update_process_resources_def Let_def split: option.splits if_splits)

lemma shm_limits_typed: "shm_typed m \<Longrightarrow> shm_typed (snd (shm_set_global_limits a b c m))"
  by (auto simp: shm_typed_def shm_set_global_limits_wf)
     (auto simp: shm_set_global_limits_def Let_def split: option.splits)

lemma shm_init_typed: "shm_typed m \<Longrightarrow> shm_typed (snd (shm_init env m))"
  by (auto simp: shm_typed_def shm_init_wf) (auto simp: shm_init_def Let_def split: if_splits)

section \<open>Every hook keeps the types\<close>

named_theorems typed_intros \<open>operations that keep the shared objects typed\<close>

lemma tenant_calls_typed [typed_intros]:
  assumes "tenants_typed s"
  shows "tenants_typed (snd (tenant_shm_init env s))" "tenants_typed (snd (tenant_bind_process env pid tid s))"
    "tenants_typed (snd (tenant_unbind_process env pid s))"
    "tenants_typed (snd (tenant_create env tid name q s))" "tenants_typed (snd (tenant_delete env tid s))"
    "tenants_typed (snd (tenant_get_process_tenant env pid b s))" "tenants_typed (snd (tenant_get_info env tid b s))"
    "tenants_typed (snd (tenant_get_resource_usage env tid b s))"
    "tenants_typed (snd (tenant_get_active_list env b n s))"
    "tenants_typed (snd (tenant_update_resource_usage env tid u s))"
  using tenant_exec_typed [OF assms, of "TenantInit env"] tenant_exec_typed [OF assms, of "TenantBind env pid tid"]
    tenant_exec_typed [OF assms, of "TenantUnbind env pid"] tenant_exec_typed [OF assms, of "TenantCreate env tid name q"]
    tenant_exec_typed [OF assms, of "TenantDelete env tid"] tenant_exec_typed [OF assms, of "TenantGetProcess env pid b"]
    tenant_exec_typed [OF assms, of "TenantGetInfo env tid b"] tenant_exec_typed [OF assms, of "TenantGetUsage env tid b"]
    tenant_exec_typed [OF assms, of "TenantActiveList env b n"] tenant_exec_typed [OF assms, of "TenantUpdateUsage env tid u"]
  by (simp_all add: tenant_exec_def)

lemma hook_typed_fields [simp]:
  "hook_typed (h\<lparr>hk_tenants := ts\<rparr>) = (shm_typed (hk_shm h) \<and> tenants_typed ts)"
  "hook_typed (h\<lparr>hk_shm := m\<rparr>) = (shm_typed m \<and> tenants_typed (hk_tenants h))"
  "hook_typed (h\<lparr>hk_core := c\<rparr>) = hook_typed h" "hook_typed (h\<lparr>hk_ptrs := ps\<rparr>) = hook_typed h"
  "hook_typed (h\<lparr>hk_init_done := b\<rparr>) = hook_typed h" "hook_typed (h\<lparr>hk_ebpf_initialized := b\<rparr>) = hook_typed h"
  "hook_typed (h\<lparr>hk_tenant_initialized := b\<rparr>) = hook_typed h" "hook_typed (reach_driver d h) = hook_typed h"
  by (simp_all add: hook_typed_def reach_driver_def)

lemma hook_typedD: "hook_typed h \<Longrightarrow> shm_typed (hk_shm h) \<and> tenants_typed (hk_tenants h)"
  by (simp add: hook_typed_def)

lemma get_current_typed [typed_intros]: "hook_typed h \<Longrightarrow> hook_typed (snd (get_current_tenant_id env pid h))"
  using hook_typedD [of h] by (simp add: get_current_tenant_id_def split_beta tenant_calls_typed)

lemma qp_limit_typed [typed_intros]: "hook_typed h \<Longrightarrow> hook_typed (snd (check_tenant_qp_limit env tid h))"
  using hook_typedD [of h] tenant_calls_typed(7) [of "hk_tenants h" env tid True]
  by (cases "tenant_get_info env tid True (hk_tenants h)")
     (auto simp: check_tenant_qp_limit_def split: option.splits bool.splits)

lemma mr_limit_typed [typed_intros]: "hook_typed h \<Longrightarrow> hook_typed (snd (check_tenant_mr_limit_inline env tid len h))"
  using hook_typedD [of h] tenant_calls_typed(7) [of "hk_tenants h" env tid True]
  by (cases "tenant_get_info env tid True (hk_tenants h)")
     (auto simp: check_tenant_mr_limit_inline_def split: option.splits bool.splits)

lemma update_count_typed [typed_intros]:
  assumes "hook_typed h"
  shows "hook_typed (update_tenant_resource_count env env' tid ty delta h)"
proof -
  obtain rc u ts where r: "tenant_get_resource_usage env tid True (hk_tenants h) = ((rc, u), ts)" by (metis surj_pair)
  have "tenants_typed ts"
    using tenant_calls_typed(8) [of "hk_tenants h" env tid True] hook_typedD [OF assms] r by simp
  with r hook_typedD [OF assms] tenant_calls_typed(10) [OF this] show ?thesis
    by (simp add: update_tenant_resource_count_def assms split: option.split bool.split)
qed

lemma count_tenant_typed [typed_intros]: "hook_typed h \<Longrightarrow> hook_typed (count_tenant env ty delta h)"
  using get_current_typed [of h] by (simp add: count_tenant_def split_beta update_count_typed)

lemma restrictions_typed [typed_intros]: "hook_typed h \<Longrightarrow> hook_typed (snd (check_qp_creation_restrictions env attr h))"
  using qp_limit_typed [OF get_current_typed [of h]]
  by (simp add: check_qp_creation_restrictions_def Let_def split_beta)

lemma init_pointers_typed:
  assumes t: "hook_typed h"
    and a: "\<forall>m. shm_wf m \<and> shm_object m \<noteq> None \<longrightarrow> shm_wf (he_ebpf_attach env m) \<and> shm_object (he_ebpf_attach env m) \<noteq> None"
  shows "hook_typed (init_function_pointers env h)"
proof -
  have m: "shm_typed (he_ebpf_attach env (hk_shm h))" and ts: "tenants_typed (hk_tenants h)"
    using t a by (auto simp: hook_typed_def shm_typed_def)
  note i = tenant_calls_typed(1) [OF ts]
  show ?thesis
    using t m i tenant_calls_typed(2) [OF i]
    by (simp add: init_function_pointers_def Let_def split_beta split: option.split)
qed

lemma hooks_once_typed:
  "hook_typed h \<Longrightarrow>
   \<forall>m. shm_wf m \<and> shm_object m \<noteq> None \<longrightarrow> shm_wf (he_ebpf_attach env m) \<and> shm_object (he_ebpf_attach env m) \<noteq> None \<Longrightarrow>
   hook_typed (hooks_once env h)"
  by (simp add: hooks_once_def init_pointers_typed)

lemma pass_typed: "hook_typed h \<Longrightarrow> hook_typed (snd (snd (pass_ptr env name c h)))"
  "hook_typed h \<Longrightarrow> hook_typed (snd (snd (pass_rc env name c h)))"
  by (simp_all add: pass_ptr_def pass_rc_def)

lemma counted_create_typed:
  "hook_typed (hooks_once env h) \<Longrightarrow> hook_typed (snd (snd (counted_create name ty env c h)))"
  by (simp add: counted_create_def Let_def pass_typed count_tenant_typed)

lemma counted_destroy_typed:
  "hook_typed (hooks_once env h) \<Longrightarrow> hook_typed (snd (snd (counted_destroy name ty env c h)))"
  by (simp add: counted_destroy_def Let_def pass_typed count_tenant_typed)

lemma create_qp_typed:
  "hook_typed (hooks_once env h) \<Longrightarrow> hook_typed (snd (snd (ibv_create_qp env pd attr h)))"
  using restrictions_typed [of "hooks_once env h" env attr]
    hook_typedD [OF restrictions_typed [of "hooks_once env h" env attr]]
  by (simp add: ibv_create_qp_def Let_def split_beta pass_typed count_tenant_typed shm_update_typed)

lemma destroy_qp_typed:
  "hook_typed (hooks_once env h) \<Longrightarrow> hook_typed (snd (snd (ibv_destroy_qp env qp h)))"
  by (simp add: ibv_destroy_qp_def Let_def pass_typed count_tenant_typed)

lemma reg_mr_typed:
  "hook_typed (hooks_once env h) \<Longrightarrow> hook_typed (snd (snd (ibv_reg_mr env pd addr len acc h)))"
  using mr_limit_typed [OF get_current_typed [of "hooks_once env h"]]
  by (simp add: ibv_reg_mr_def Let_def split_beta pass_typed update_count_typed)

lemma dereg_mr_typed:
  "hook_typed (hooks_once env h) \<Longrightarrow> hook_typed (snd (snd (ibv_dereg_mr env mr h)))"
  by (simp add: ibv_dereg_mr_def Let_def pass_typed count_tenant_typed split: option.split)

lemma hook_exec_typed:
  assumes "hook_typed h" "attach_ok c"
  shows "hook_typed (hook_exec c h)"
proof -
  have "hook_typed (hooks_once (op_env c) h)"
    using assms by (intro hooks_once_typed) (simp_all add: attach_ok_def)
  then show ?thesis
    by (cases c) (simp_all add: create_qp_typed destroy_qp_typed reg_mr_typed dereg_mr_typed
        ibv_create_cq_def ibv_destroy_cq_def ibv_alloc_pd_def ibv_dealloc_pd_def
        counted_create_typed counted_destroy_typed)
qed

section \<open>The daemon, the tool and the collector keep the types\<close>

lemma monitor_turns_typed [typed_intros]: "tenants_typed ts \<Longrightarrow> tenants_typed (snd (monitor_turns envs i n ts))"
proof (induction n arbitrary: i ts)
  case (Suc n)
  have "tenants_typed (snd (monitor_turn (envs i) ts))"
    using tenant_calls_typed(9) [OF Suc.prems, of "envs i" True "of_nat MAX_TENANTS"]
    by (simp add: monitor_turn_def split_beta)
  from Suc.IH [OF this] show ?case by (simp add: split_beta)
qed simp

definition cli_typed :: "cli_state \<Rightarrow> bool" where
  "cli_typed s \<longleftrightarrow> tenants_typed (cli_tenants s) \<and> shm_typed (policy_shm (cli_policy s))"

lemma show_status_typed: "tenants_typed ts \<Longrightarrow> tenants_typed (snd (snd (cmd_show_status env tid ts)))"
  using tenant_calls_typed(7) [of ts "ce_tenant env 0" tid True]
  by (cases "tenant_get_info (ce_tenant env 0) tid True ts")
     (auto simp: cmd_show_status_def split: option.splits bool.splits)

lemma list_tenants_typed: "tenants_typed ts \<Longrightarrow> tenants_typed (snd (snd (cmd_list_tenants env ts)))"
  using tenant_calls_typed(9) [of ts "ce_tenant env 0" True "of_nat MAX_TENANTS"]
  by (simp add: cmd_list_tenants_def split_beta)

lemma reading_typed:
  "cli_typed s \<Longrightarrow> tenants_typed (snd (snd (f (cli_tenants s)))) \<Longrightarrow> reading f s = Some (rc, shown, s') \<Longrightarrow> cli_typed s'"
  by (auto simp: reading_def cli_typed_def split: prod.splits)

lemma tenant_policy_shm:
  "dynamic_policy_set_tenant_policy env tid p s = Some r \<Longrightarrow> policy_shm (snd r) = policy_shm s"
  "dynamic_policy_delete_tenant_policy tid s = Some r \<Longrightarrow> policy_shm (snd r) = policy_shm s"
  by (auto simp: dynamic_policy_set_tenant_policy_def dynamic_policy_delete_tenant_policy_def policy_lock_defs
      split: option.splits if_splits)

lemma run_cli_typed:
  assumes t: "cli_typed s" and r: "run_cli env a s = Some (rc, shown, s')"
  shows "cli_typed s'"
proof -
  have ts: "tenants_typed (cli_tenants s)" and m: "shm_typed (policy_shm (cli_policy s))"
    using t by (simp_all add: cli_typed_def)
  have create: "cli_typed s'" if "map_option silent (cmd_create_tenant env tid name q s) = Some (rc, shown, s')" for tid name q
    using that t ts m tenant_policy_shm(1)
    by (force simp: cmd_create_tenant_def silent_def cli_typed_def split_beta tenant_calls_typed split: option.splits prod.splits)
  have delete: "cli_typed s'" if "map_option silent (cmd_delete_tenant env tid s) = Some (rc, shown, s')" for tid
    using that ts m tenant_policy_shm(2)
    by (force simp: cmd_delete_tenant_def silent_def cli_typed_def split_beta tenant_calls_typed split: option.splits prod.splits)
  have read: "cli_typed s'" if "reading f s = Some (rc, shown, s')"
    "f \<in> {cmd_show_status env (ca_tenant_id a), cmd_list_tenants env, cmd_monitor env}" for f
    using that show_status_typed [OF ts] list_tenants_typed [OF ts] monitor_turns_typed [OF ts]
    by (intro reading_typed [OF t _ that(1)]) (auto simp: cmd_monitor_def split_beta)
  show ?thesis
    using r create delete read t ts m
    by (auto simp: run_cli_def cmd_bind_process_def cmd_unbind_process_def silent_def cli_typed_def split_beta
        tenant_calls_typed split: if_splits)
qed

lemma policy_init_typed:
  "shm_typed (policy_shm p) \<Longrightarrow> dynamic_policy_init env p = Some (rc, p') \<Longrightarrow> shm_typed (policy_shm p')"
  using shm_init_typed [of "policy_shm p" "pl_shm env"]
  by (auto simp: dynamic_policy_init_def publish_limits_def policy_lock_defs Let_def shm_limits_typed
      split: prod.splits if_splits)

lemma main_typed:
  assumes t: "cli_typed s" and r: "tenant_manager_main env ienv opts s = Some (rc, shown, s')"
  shows "cli_typed s'"
proof -
  let ?s = "s\<lparr>cli_tenants := snd (tenant_shm_init ienv (cli_tenants s))\<rparr>"
  have t1: "cli_typed ?s" using t by (simp add: cli_typed_def tenant_calls_typed)
  have t2: "cli_typed (?s\<lparr>cli_policy := p\<rparr>)" if "dynamic_policy_init (ce_policy env) (cli_policy s) = Some (c, p)" for c p
    using t1 policy_init_typed [OF _ that] by (simp add: cli_typed_def)
  show ?thesis
    using r t1 t2 run_cli_typed [OF t2]
    by (auto simp: tenant_manager_main_def split_beta Let_def split: if_splits option.splits sum.splits)
qed

lemma sync_table_typed: "shm_typed m \<Longrightarrow> shm_typed (sync_table menv i ks m)"
  by (induction menv i ks m rule: sync_table.induct) (simp_all add: shm_update_typed)

lemma sync_typed: "shm_typed (sc_shm s) \<Longrightarrow> shm_typed (sc_shm (sync_thread_turn menv env s))"
proof -
  assume t: "shm_typed (sc_shm s)"
  have "shm_typed ((sc_shm s)\<lparr>shm_object := Some (sync_global g d)\<rparr>)" if "shm_get_ptr (sc_shm s) = Some d" for g d
    using t that by (auto simp: shm_typed_def shm_wf_def shm_data_wf_def sync_global_def Let_def shm_lock_def
        shm_unlock_def dest: get_ptr_object)
  with t show ?thesis
    by (simp add: sync_thread_turn_def sync_ebpf_data_to_shared_memory_def Let_def sync_table_typed split: option.split)
qed

section \<open>The system keeps the types\<close>

lemma view_typed:
  assumes "system_typed sy"
  shows "shm_typed (view_shm sy m)" "tenants_typed (view_tenants sy ts)" "tenant_attached (view_tenants sy (sy_daemon sy))"
  using assms by (auto simp: system_typed_def view_shm_def view_tenants_def shm_typed_def tenants_typed_def shm_wf_def
      tenant_inv_def tenant_attached_def)

lemma shm_typedD: "shm_typed m \<Longrightarrow> \<exists>d. shm_object m = Some d \<and> shm_data_wf d"
  by (auto simp: shm_typed_def shm_wf_def)

lemma tenants_typedD: "tenants_typed ts \<Longrightarrow> \<exists>d. tenant_object ts = Some d \<and> tenant_safe d"
  by (auto simp: tenants_typed_def tenant_inv_def)

lemma system_step_typed:
  assumes "system_step sy sy'" and t: "system_typed sy"
  shows "system_typed sy'"
  using assms(1)
proof cases
  case (hook c)
  have "hook_typed (app_view sy (he_pid (op_env c)))"
    by (simp add: app_view_def Let_def hook_typed_def view_typed [OF t])
  from hook_typedD [OF hook_exec_typed [OF this]] hook t show ?thesis
    by (auto simp: process_step_def Let_def system_typed_def dest: shm_typedD tenants_typedD)
next
  case (daemon lib denv req)
  have "tenant_attached ts" if "process_command lib denv req (view_tenants sy (sy_daemon sy)) = Some (reply, ts)"
    for reply ts
    using run_command_handled [OF view_typed(3) [OF t], of lib req] that view_typed(3) [OF t]
    by (auto simp: process_command_eq handled_def split: option.splits if_splits prod.splits) (metis snd_conv)
  with daemon t show ?thesis
    by (auto simp: daemon_step_def system_typed_def tenant_attached_def tenant_inv_def split: option.splits)
next
  case (tool cenv ienv opts)
  have "cli_typed (cli_start sy)" by (simp add: cli_typed_def cli_start_def policy_start_def view_typed [OF t])
  note m = main_typed [OF this]
  show ?thesis
  proof (cases "tenant_manager_main cenv ienv opts (cli_start sy)")
    case None
    with tool t show ?thesis by (simp add: cli_step_def)
  next
    case (Some r)
    obtain rc shown s where "r = (rc, shown, s)" by (cases r)
    with m [of cenv ienv opts rc shown s] Some have "cli_typed s" by simp
    with shm_typedD tenants_typedD Some \<open>r = _\<close> tool t show ?thesis
      by (simp add: cli_step_def system_typed_def cli_typed_def)
  qed
next
  case (collector menv env)
  have "shm_typed (sc_shm ((sy_collector sy)\<lparr>sc_shm := view_shm sy (sc_shm (sy_collector sy))\<rparr>))"
    by (simp add: view_typed [OF t])
  from sync_typed [OF this, of menv env] collector t show ?thesis
    by (auto simp: collector_step_def Let_def system_typed_def dest: shm_typedD)
qed

section \<open>Property\<close>

text \<open>
  C5 (the shared objects keep their types). Start from existing, well formed objects and an
  attached daemon. Whatever hooks of whatever processes (uninitialised ones included), requests to
  the daemon, runs of the command line tool and synchronisations of the collector follow, in any
  order and with any answers of the operating system and of the driver, both objects stay well
  formed: arrays of the declared sizes, no process with two slots or two mappings, tenant names of at
  most 63 characters, every stored tenant id an index of the tenant array.
\<close>

theorem system_objects_typed:
  "system_reach sy sy' \<Longrightarrow> system_typed sy \<Longrightarrow> system_typed sy'"
  by (induction rule: system_reach.induct) (simp_all add: system_step_typed)

text \<open>All processes run the demonstration program, on the demonstration tables.\<close>

definition demo_system :: rdma_system where
  "demo_system = \<lparr>sy_shm = shm_object fresh_shm, sy_tenants = tenant_object two_tenants,
     sy_process = (\<lambda>_. demo_hooks), sy_daemon = two_tenants,
     sy_collector = (shm_collector_start fresh_shm)\<lparr>sc_global_fd := 5, sc_process_fd := 6\<rparr>\<rparr>"

lemma demo_system_typed: "system_typed demo_system"
proof -
  obtain d where d: "shm_get_ptr fresh_shm = Some d" using fresh_shm_ptr by blast
  have "shm_typed fresh_shm" using get_ptr_object [OF d] fresh_shm_wf by (simp add: shm_typed_def)
  moreover have "tenants_typed two_tenants" "g_tenant_shm_mapped two_tenants"
    using two_tenants_attached by (auto simp: tenants_typed_def tenant_attached_def tenant_inv_def)
  ultimately show ?thesis
    using shm_typedD tenants_typedD by (simp add: system_typed_def demo_system_def)
qed

text \<open>A hook, then a deletion of the tenant by the daemon, then a run of the tool.\<close>

theorem system_objects_typed_witness:
  "system_typed (cli_step demo_cli_env ok_tenant_env [(CHR ''l'', [])]
     (daemon_step demo_json demo_daemon_env ''DELETE''
       (process_step (HCreateQp demo_env 7 \<lparr>qp_type = IBV_QPT_RC\<rparr>) demo_system)))"
proof -
  have "attach_ok (HCreateQp demo_env 7 \<lparr>qp_type = IBV_QPT_RC\<rparr>)" by (simp add: attach_ok_def demo_env_def)
  note r = system_reach.step [OF system_reach.step [OF system_reach.step [OF system_reach.start
      system_step.hook [OF this]] system_step.daemon] system_step.tool]
  show ?thesis by (rule system_objects_typed [OF r demo_system_typed])
qed

end
