(* ===== verification/Isolation_Spec.thy ===== *)
theory Isolation_Spec
  imports Rdma_System
begin

text \<open>
  Isolation of tenants, which is what the interception layer is for. The answers the processes of
  one tenant get from their hooks are the answers they would get if nobody else ran: the hooks of
  other tenants' processes and the daemon's requests about other tenants can be deleted from the run.
  The argument is the unwinding of non-interference, made once in a locale. What does couple tenants
  is the global count the collector copies into the process table.
\<close>

section \<open>Non-interference\<close>

fun outputs :: "('e \<Rightarrow> 's \<Rightarrow> 's) \<Rightarrow> ('e \<Rightarrow> 's \<Rightarrow> 'o) \<Rightarrow> ('e \<Rightarrow> bool) \<Rightarrow> 'e list \<Rightarrow> 's \<Rightarrow> 'o list" where
  "outputs step out mine [] s = []"
| "outputs step out mine (e # es) s =
     (if mine e then out e s # outputs step out mine es (step e s) else outputs step out mine es (step e s))"

locale noninterference =
  fixes good :: "'s \<Rightarrow> bool"
    and legal :: "'e \<Rightarrow> bool"
    and mine :: "'e \<Rightarrow> bool"
    and sim :: "'s \<Rightarrow> 's \<Rightarrow> bool"
    and step :: "'e \<Rightarrow> 's \<Rightarrow> 's"
    and out :: "'e \<Rightarrow> 's \<Rightarrow> 'o"
  assumes good_step: "good s \<Longrightarrow> legal e \<Longrightarrow> good (step e s)"
    and out_same: "good s \<Longrightarrow> good t \<Longrightarrow> sim s t \<Longrightarrow> legal e \<Longrightarrow> mine e \<Longrightarrow> out e s = out e t"
    and step_mine: "good s \<Longrightarrow> good t \<Longrightarrow> sim s t \<Longrightarrow> legal e \<Longrightarrow> mine e \<Longrightarrow> sim (step e s) (step e t)"
    and step_other: "good s \<Longrightarrow> good t \<Longrightarrow> sim s t \<Longrightarrow> legal e \<Longrightarrow> \<not> mine e \<Longrightarrow> sim (step e s) t"
begin

lemma purge:
  "good s \<Longrightarrow> good t \<Longrightarrow> sim s t \<Longrightarrow> \<forall>e\<in>set es. legal e \<Longrightarrow>
   outputs step out mine es s = outputs step out mine (filter mine es) t"
  by (induction es arbitrary: s t) (auto simp: good_step out_same step_mine step_other)

lemma purge_state:
  "good s \<Longrightarrow> good t \<Longrightarrow> sim s t \<Longrightarrow> \<forall>e\<in>set es. legal e \<Longrightarrow>
   sim (fold step es s) (fold step (filter mine es) t)"
  by (induction es arbitrary: s t) (auto simp: good_step step_mine step_other)

end

section \<open>Answers and effects of a hook\<close>

datatype answer = APtr u64 "i32 option" | ACode i32 "i32 option"

fun ptr_answer :: "u64 \<times> i32 option \<times> hook_state \<Rightarrow> answer" where
  "ptr_answer (p, err, h) = APtr p err"

fun code_answer :: "i32 \<times> i32 option \<times> hook_state \<Rightarrow> answer" where
  "code_answer (rc, err, h) = ACode rc err"

fun hook_answer :: "hook_op \<Rightarrow> hook_state \<Rightarrow> answer" where
  "hook_answer (HCreateQp env pd attr) h = ptr_answer (ibv_create_qp env pd attr h)"
| "hook_answer (HDestroyQp env qp) h = code_answer (ibv_destroy_qp env qp h)"
| "hook_answer (HRegMr env pd addr len acc) h = ptr_answer (ibv_reg_mr env pd addr len acc h)"
| "hook_answer (HDeregMr env p len) h = code_answer (ibv_dereg_mr env (Some (p, len)) h)"
| "hook_answer (HCreateCq env a b c d e) h = ptr_answer (ibv_create_cq env a b c d e h)"
| "hook_answer (HDestroyCq env cq) h = code_answer (ibv_destroy_cq env cq h)"
| "hook_answer (HAllocPd env ctx) h = ptr_answer (ibv_alloc_pd env ctx h)"
| "hook_answer (HDeallocPd env pd) h = code_answer (ibv_dealloc_pd env pd h)"



text \<open>What a hook may look at: its own counters and configuration, its row, its slot and the
  global counts.\<close>

record hook_view =
  hv_core :: intercept_state
  hv_row :: "(tenant_status \<times> tenant_quota \<times> tenant_resource_usage) option"
  hv_slot :: "resource_usage option"
  hv_global :: "int \<times> resource_usage option"

definition hook_view_of :: "pid_t \<Rightarrow> u32 \<Rightarrow> hook_state \<Rightarrow> hook_view" where
  "hook_view_of p t h = \<lparr>hv_core = hk_core h, hv_row = members (tenant_table_of h) t,
     hv_slot = proc_view (hk_shm h) p, hv_global = shm_get_global_resources True (hk_shm h)\<rparr>"

text \<open>A running process of tenant \<open>t\<close>: initialised, every symbol resolved, both tables attached;
  and room for its slot in the process table.\<close>

definition process_ready :: "hook_state \<Rightarrow> bool" where
  "process_ready h \<longleftrightarrow> (\<forall>name. hook_ready name h) \<and> hook_attached h \<and> hk_tenant_initialized h
     \<and> shm_wf (hk_shm h) \<and> shm_get_ptr (hk_shm h) \<noteq> None"

definition tenant_process :: "pid_t \<Rightarrow> u32 \<Rightarrow> hook_state \<Rightarrow> bool" where
  "tenant_process p t h \<longleftrightarrow> process_ready h \<and> binding (tenant_table_of h) p = Some t \<and> t \<noteq> 0
     \<and> 0 < sint p"

definition slot_room :: "pid_t \<Rightarrow> shm_state \<Rightarrow> bool" where
  "slot_room p m \<longleftrightarrow> card (insert p (dom (proc_view m))) \<le> MAX_PROCESSES"

lemma process_readyD:
  "process_ready h \<Longrightarrow> hook_ready name h" "process_ready h \<Longrightarrow> hook_attached h"
  "process_ready h \<Longrightarrow> hk_tenant_initialized h" "process_ready h \<Longrightarrow> shm_wf (hk_shm h)"
  "process_ready h \<Longrightarrow> shm_get_ptr (hk_shm h) \<noteq> None"
  by (simp_all add: process_ready_def)

text \<open>The update of a slot: what it does to the other slots and to the global counts.\<close>

lemma update_process_frame:
  fixes env :: shm_env and p :: pid_t and u :: resource_usage and m :: shm_state
  assumes w: "shm_wf m" and a: "shm_get_ptr m \<noteq> None"
  defines "m' \<equiv> snd (shm_update_process_resources env p (Some u) m)"
  shows "shm_get_ptr m' \<noteq> None \<and> (\<forall>q. q \<noteq> p \<longrightarrow> proc_view m' q = proc_view m q)
    \<and> shm_get_global_resources True m' = shm_get_global_resources True m
    \<and> (0 < sint p \<and> slot_room p m \<longrightarrow> proc_view m' p = Some u)"
proof (cases "0 < sint p")
  case False
  then have "m' = m" by (simp add: m'_def shm_update_null)
  with a False show ?thesis by simp
next
  case True
  obtain d where d: "shm_get_ptr m = Some d" using a by blast
  note o = get_ptr_object [OF d]
  show ?thesis
  proof (cases "shm_put env p u m")
    case None
    then have "m' = m\<lparr>shm_object := Some (d\<lparr>shm_lock_word := 0\<rparr>)\<rparr>"
      by (auto simp: m'_def shm_put_def shm_update_cases [OF d True] split: prod.splits option.splits if_splits)
    moreover have "\<not> slot_room p m" using put_room [OF w d True, of env u] None by (auto simp: slot_room_def)
    ultimately show ?thesis
      using o by (auto simp: proc_view_def shm_get_ptr_def shm_get_global_resources_def)
  next
    case (Some m1)
    then have m1: "m1 = m'" by (auto simp: m'_def shm_put_def split: prod.splits if_splits)
    obtain d0 i where s: "shm_get_ptr m = Some d0" "m' = m\<lparr>shm_object := Some (shm_write_slot env p u i d0)\<rparr>"
      using shm_put_Some [OF Some True] m1 by metis
    then have "shm_get_global_resources True m' = shm_get_global_resources True m"
      using o by (auto simp: shm_get_global_resources_def shm_get_ptr_def shm_write_slot_def)
    with shm_table.put_view [OF w True Some] shm_put_ptr [OF Some True] m1 show ?thesis by simp
  qed
qed

section \<open>A hook as a function of its view\<close>

text \<open>The row of the tenant after counting; only an active tenant is counted.\<close>

fun count_row :: "int \<Rightarrow> i32 \<Rightarrow> (tenant_status \<times> tenant_quota \<times> tenant_resource_usage) option \<Rightarrow>
    (tenant_status \<times> tenant_quota \<times> tenant_resource_usage) option" where
  "count_row ty delta (Some (TENANT_STATUS_ACTIVE, q, u)) = Some (TENANT_STATUS_ACTIVE, q, count_resource ty delta u)"
| "count_row ty delta r = r"

definition view_qp_room :: "qp_init_attr \<Rightarrow> hook_view \<Rightarrow> bool" where
  "view_qp_room attr v \<longleftrightarrow>
     (let c = st_config (hv_core v) in
      \<not> enable_qp_control c \<or>
      (qp_type_allowed c attr
       \<and> (case hv_row v of None \<Rightarrow> False | Some (st, q, u) \<Rightarrow> tu_qp_count u < max_qp_per_tenant q)
       \<and> (case hv_slot v of None \<Rightarrow> 1 \<le> max_qp_per_process c | Some u \<Rightarrow> qp_count u + 1 \<le> max_qp_per_process c)
       \<and> (case hv_global v of (rc, u) \<Rightarrow>
            rc = 0 \<longrightarrow> (case u of None \<Rightarrow> True | Some u \<Rightarrow> qp_count u < max_global_qp c))))"

definition view_mr_room :: "u64 \<Rightarrow> hook_view \<Rightarrow> bool" where
  "view_mr_room len v \<longleftrightarrow>
     (case hv_row v of
        None \<Rightarrow> False
      | Some (st, q, u) \<Rightarrow> tu_mr_count u < max_mr_per_tenant q
          \<and> (max_memory_per_tenant q = 0 \<or> tu_memory_used u + len \<le> max_memory_per_tenant q))"

definition less_one_qp :: "intercept_state \<Rightarrow> intercept_state" where
  "less_one_qp c = (if st_qp_count c > 0 then c\<lparr>st_qp_count := st_qp_count c - 1\<rparr> else c)"

definition one_more_mr :: "u64 \<Rightarrow> intercept_state \<Rightarrow> intercept_state" where
  "one_more_mr len c = c\<lparr>st_mr_count := st_mr_count c + 1, st_memory_used := st_memory_used c + len\<rparr>"

definition less_one_mr :: "u64 \<Rightarrow> intercept_state \<Rightarrow> intercept_state" where
  "less_one_mr len c =
     (let c = (if st_mr_count c > 0 then c\<lparr>st_mr_count := st_mr_count c - 1\<rparr> else c)
      in if st_memory_used c \<ge> len then c\<lparr>st_memory_used := st_memory_used c - len\<rparr> else c)"

definition count_view :: "int \<Rightarrow> i32 \<Rightarrow> hook_view \<Rightarrow> hook_view" where
  "count_view ty delta v = v\<lparr>hv_row := count_row ty delta (hv_row v)\<rparr>"

text \<open>The four hooks that only count.\<close>

definition view_create :: "hook_env \<Rightarrow> int \<Rightarrow> hook_view \<Rightarrow> answer \<times> hook_view" where
  "view_create env ty v =
     (APtr (he_driver_ptr env) None, if he_driver_ptr env = 0 then v else count_view ty 1 v)"

definition view_destroy :: "hook_env \<Rightarrow> int \<Rightarrow> hook_view \<Rightarrow> answer \<times> hook_view" where
  "view_destroy env ty v =
     (ACode (he_driver_rc env) None, if he_driver_rc env = 0 then count_view ty (-1) v else v)"

fun view_hook :: "hook_op \<Rightarrow> hook_view \<Rightarrow> answer \<times> hook_view" where
  "view_hook (HCreateQp env pd attr) v =
     (if \<not> view_qp_room attr v then (APtr 0 (Some EPERM), v)
      else if he_driver_ptr env = 0 then (APtr 0 None, v)
      else (APtr (he_driver_ptr env) None,
            (count_view 0 1 v)\<lparr>hv_core := one_more_qp (hv_core v), hv_slot := Some (core_usage (one_more_qp (hv_core v)))\<rparr>))"
| "view_hook (HDestroyQp env qp) v =
     (ACode (he_driver_rc env) None,
      if he_driver_rc env = 0 then (count_view 0 (-1) v)\<lparr>hv_core := less_one_qp (hv_core v)\<rparr> else v)"
| "view_hook (HRegMr env pd addr len acc) v =
     (if \<not> view_mr_room len v then (APtr 0 (Some EPERM), v)
      else if he_driver_ptr env = 0 then (APtr 0 None, v)
      else (APtr (he_driver_ptr env) None, (count_view 1 1 v)\<lparr>hv_core := one_more_mr len (hv_core v)\<rparr>))"
| "view_hook (HDeregMr env p len) v =
     (ACode (he_driver_rc env) None,
      if he_driver_rc env = 0 then (count_view 1 (-1) v)\<lparr>hv_core := less_one_mr len (hv_core v)\<rparr> else v)"
| "view_hook (HCreateCq env a b c d e) v = view_create env 3 v"
| "view_hook (HDestroyCq env cq) v = view_destroy env 3 v"
| "view_hook (HAllocPd env ctx) v = view_create env 4 v"
| "view_hook (HDeallocPd env pd) v = view_destroy env 4 v"

text \<open>The counters of the process: no tenant operation touches them.\<close>

lemma tenant_ops_core [simp]:
  "hk_core (snd (get_current_tenant_id env pid h)) = hk_core h"
  "hk_core (update_tenant_resource_count env1 env2 tid ty delta h) = hk_core h"
  by (simp_all add: get_current_tenant_id_def update_tenant_resource_count_def split_beta split: bool.split option.split)

lemma count_tenant_core [simp]: "hk_core (count_tenant env ty delta h) = hk_core h"
  by (simp add: count_tenant_def split_beta)

lemma destroy_cores:
  assumes "hook_ready ''ibv_destroy_qp'' h" "hook_ready ''ibv_dereg_mr'' h"
  shows "hk_core (snd (snd (ibv_destroy_qp env qp h))) = (if he_driver_rc env = 0 then less_one_qp (hk_core h) else hk_core h)"
    and "hk_core (snd (snd (ibv_dereg_mr env (Some (p, len)) h)))
      = (if he_driver_rc env = 0 then less_one_mr len (hk_core h) else hk_core h)"
  using bypass_ready [OF assms(1)] bypass_ready [OF assms(2)]
  by (simp_all add: ibv_destroy_qp_def ibv_dereg_mr_def hooks_once_ready [OF assms(1)] less_one_qp_def less_one_mr_def Let_def)

lemma count_for_row:
  "binding T p = Some t \<Longrightarrow> t \<noteq> 0 \<Longrightarrow>
   members (count_for p ty delta T) t = count_row ty delta (members T t)
   \<and> (\<forall>t'. t' \<noteq> t \<longrightarrow> members (count_for p ty delta T) t' = members T t')"
  by (auto simp: count_for_def count_members_def split: option.split tenant_status.split)

lemma count_for_binding: "binding (count_for p ty delta T) = binding T"
  by (simp add: count_for_def count_members_def split: option.split tenant_status.split)

text \<open>What a hook of a running process leaves alone.\<close>

lemma hook_exec_shm:
  assumes r: "process_ready h" and p: "he_pid (op_env c) \<noteq> 0"
  shows "hk_shm (hook_exec c h) = hk_shm h
    \<or> (\<exists>env u. hk_shm (hook_exec c h) = snd (shm_update_process_resources env (he_pid (op_env c)) (Some u) (hk_shm h)))"
proof -
  note R = process_readyD [OF r]
  show ?thesis
  proof (cases c)
    case (HCreateQp env pd attr)
    with create_qp_effect [OF R(1) R(2), of env pd attr] p show ?thesis
      by (cases "ibv_create_qp env pd attr h") (auto simp: same_hookD split: if_splits)
  next
    case (HDestroyQp env qp)
    with destroy_qp_effect [OF R(1) R(2), of env qp] p show ?thesis
      by (cases "ibv_destroy_qp env qp h") auto
  next
    case (HRegMr env pd addr len acc)
    with reg_mr_effect [OF R(1) R(2), of env pd addr len acc] p show ?thesis
      by (cases "ibv_reg_mr env pd addr len acc h") (auto simp: same_hookD split: if_splits)
  next
    case (HDeregMr env q len)
    with dereg_mr_effect [OF R(1) R(2), of env q len] p show ?thesis
      by (cases "ibv_dereg_mr env (Some (q, len)) h") auto
  next
    case (HCreateCq env a b c' d e)
    with counted_create_effect [OF R(1) R(2), of env "''ibv_create_cq''" 3 "DCreateCq a b c' d e"] p show ?thesis
      by (cases "ibv_create_cq env a b c' d e h") (auto simp: ibv_create_cq_def)
  next
    case (HDestroyCq env cq)
    with counted_destroy_effect [OF R(1) R(2), of env "''ibv_destroy_cq''" 3 "DDestroyCq cq"] p show ?thesis
      by (cases "ibv_destroy_cq env cq h") (auto simp: ibv_destroy_cq_def)
  next
    case (HAllocPd env ctx)
    with counted_create_effect [OF R(1) R(2), of env "''ibv_alloc_pd''" 4 "DAllocPd ctx"] p show ?thesis
      by (cases "ibv_alloc_pd env ctx h") (auto simp: ibv_alloc_pd_def)
  next
    case (HDeallocPd env pd)
    with counted_destroy_effect [OF R(1) R(2), of env "''ibv_dealloc_pd''" 4 "DDeallocPd pd"] p show ?thesis
      by (cases "ibv_dealloc_pd env pd h") (auto simp: ibv_dealloc_pd_def)
  qed
qed

lemma hook_exec_frame:
  fixes c :: hook_op and h :: hook_state
  assumes r: "process_ready h" and p: "he_pid (op_env c) \<noteq> 0"
  defines "h' \<equiv> hook_exec c h"
  shows "process_ready h' \<and> binding (tenant_table_of h') = binding (tenant_table_of h)
    \<and> (\<forall>t. t \<noteq> 0 \<and> binding (tenant_table_of h) (he_pid (op_env c)) \<noteq> Some t \<longrightarrow>
         members (tenant_table_of h') t = members (tenant_table_of h) t)
    \<and> (\<forall>q. q \<noteq> he_pid (op_env c) \<longrightarrow> proc_view (hk_shm h') q = proc_view (hk_shm h) q)
    \<and> shm_get_global_resources True (hk_shm h') = shm_get_global_resources True (hk_shm h)
    \<and> dom (proc_view (hk_shm h')) \<subseteq> insert (he_pid (op_env c)) (dom (proc_view (hk_shm h)))"
proof -
  let ?p = "he_pid (op_env c)"
  note R = process_readyD [OF r]
  have e: "hook_keeps h h'" "tenant_table_of h' = tenant_table_of h \<or> op_change c h (tenant_table_of h')"
    using hook_exec_ready [OF R(1) R(2) R(3) p] by (simp_all add: h'_def)
  have T: "tenant_table_of h' = tenant_table_of h \<or> (\<exists>ty d. tenant_table_of h' = count_for ?p ty d (tenant_table_of h))"
    using e(2) by (cases c) auto
  have m: "shm_wf (hk_shm h') \<and> shm_get_ptr (hk_shm h') \<noteq> None
    \<and> (\<forall>q. q \<noteq> ?p \<longrightarrow> proc_view (hk_shm h') q = proc_view (hk_shm h) q)
    \<and> shm_get_global_resources True (hk_shm h') = shm_get_global_resources True (hk_shm h)"
    using hook_exec_shm [OF r p] update_process_frame [OF R(4) R(5)] R(4,5) shm_update_process_wf [OF R(4)]
    unfolding h'_def by auto
  have "process_ready h'"
    using r e(1) m by (simp add: process_ready_def hook_keeps_def hook_ready_def rdma_intercept_is_enabled_def)
  moreover have "members (count_for ?p ty d (tenant_table_of h)) t = members (tenant_table_of h) t"
    if "t \<noteq> 0" "binding (tenant_table_of h) ?p \<noteq> Some t" for ty d t
    using that count_for_row [of "tenant_table_of h" ?p] by (auto simp: count_for_def split: option.splits)
  moreover have "dom (proc_view (hk_shm h')) \<subseteq> insert ?p (dom (proc_view (hk_shm h)))"
  proof
    fix q assume "q \<in> dom (proc_view (hk_shm h'))"
    then show "q \<in> insert ?p (dom (proc_view (hk_shm h)))" using m by (cases "q = ?p") auto
  qed
  ultimately show ?thesis using T m count_for_binding by auto
qed

lemma counted_errno:
  assumes "hook_ready name h"
  shows "counted_create name ty env d h = (q, err, h') \<Longrightarrow> err = None"
    and "counted_destroy name ty env d h = (rc, err, h') \<Longrightarrow> err = None"
  using bypass_ready [OF assms]
  by (auto simp: counted_create_def counted_destroy_def hooks_once_ready [OF assms] Let_def)

text \<open>A hook of a process of the tenant is the function of its view.\<close>

lemma view_rooms:
  assumes t: "tenant_process p t h"
  shows "qp_admissible p attr h = view_qp_room attr (hook_view_of p t h)"
    and "tenant_mr_room (hook_tenant p h) len h = view_mr_room len (hook_view_of p t h)"
proof -
  have i: "hk_tenant_initialized h" and b: "hook_tenant p h = t" "t \<noteq> 0"
    and m: "hook_members h = members (tenant_table_of h)"
    using t by (auto simp: tenant_process_def process_ready_def hook_tenant_def hook_members_def tenant_table_of_def)
  have "shm_get_process_resources p True (hk_shm h) =
      (0, Some (case proc_view (hk_shm h) p of None \<Rightarrow> zero_usage | Some u \<Rightarrow> u))"
    using t by (intro get_process_view) (auto simp: tenant_process_def process_ready_def)
  then show "qp_admissible p attr h = view_qp_room attr (hook_view_of p t h)"
    using i b m
    by (auto simp: qp_admissible_def view_qp_room_def hook_view_of_def tenant_qp_room_def zero_usage_def Let_def
        split: option.splits)
  show "tenant_mr_room (hook_tenant p h) len h = view_mr_room len (hook_view_of p t h)"
    using i b m by (simp add: view_mr_room_def hook_view_of_def tenant_mr_room_def)
qed

lemma hook_is_view_hook:
  fixes c :: hook_op and h :: hook_state
  assumes t: "tenant_process p t h" and p: "he_pid (op_env c) = p"
  defines "v \<equiv> hook_view_of p t h"
  shows "hook_answer c h = fst (view_hook c v)"
    and "slot_room p (hk_shm h) \<Longrightarrow> hook_view_of p t (hook_exec c h) = snd (view_hook c v)"
proof -
  have r: "process_ready h" and b: "binding (tenant_table_of h) p = Some t" "t \<noteq> 0"
    and s: "0 < sint p"
    using t by (simp_all add: tenant_process_def)
  have nz: "p \<noteq> 0" using s by auto
  note R = process_readyD [OF r]
  note row = count_for_row [OF b, THEN conjunct1]
  note upd = update_process_frame [OF R(4) R(5), where p = p]
  note defs = hook_view_of_def v_def count_view_def
  have core: "hk_core (hook_exec c h) = hv_core (snd (view_hook c v))" if "case c of HDestroyQp _ _ \<Rightarrow> True | HDeregMr _ _ _ \<Rightarrow> True | _ \<Rightarrow> False"
    using that destroy_cores [OF R(1) R(1)] by (cases c) (simp_all add: defs)
  have "hook_answer c h = fst (view_hook c v)
    \<and> (slot_room p (hk_shm h) \<longrightarrow> hook_view_of p t (hook_exec c h) = snd (view_hook c v))"
  proof (cases c)
    case (HCreateQp env pd attr)
    with create_qp_effect [OF R(1) R(2), of env pd attr] p nz view_rooms(1) [OF t, of attr] R(3) s upd show ?thesis
      by (cases "ibv_create_qp env pd attr h")
         (auto simp: defs same_hookD same_hook_table row split: if_splits)
  next
    case (HDestroyQp env qp)
    with destroy_qp_effect [OF R(1) R(2), of env qp] p nz R(3) core show ?thesis
      by (cases "ibv_destroy_qp env qp h") (auto simp: defs row split: if_splits)
  next
    case (HRegMr env pd addr len acc)
    with reg_mr_effect [OF R(1) R(2), of env pd addr len acc] p nz view_rooms(2) [OF t, of len] R(3) show ?thesis
      by (cases "ibv_reg_mr env pd addr len acc h")
         (auto simp: defs same_hookD same_hook_table row one_more_mr_def split: if_splits)
  next
    case (HDeregMr env q len)
    with dereg_mr_effect [OF R(1) R(2), of env q len] p nz R(3) core show ?thesis
      by (cases "ibv_dereg_mr env (Some (q, len)) h") (auto simp: defs row split: if_splits)
  next
    case (HCreateCq env a b' c' d e)
    with counted_create_effect [OF R(1) R(2), of env "''ibv_create_cq''" 3 "DCreateCq a b' c' d e"] p nz R(3) counted_errno [OF R(1)] show ?thesis
      by (cases "ibv_create_cq env a b' c' d e h") (auto simp: defs row ibv_create_cq_def view_create_def split: if_splits)
  next
    case (HDestroyCq env cq)
    with counted_destroy_effect [OF R(1) R(2), of env "''ibv_destroy_cq''" 3 "DDestroyCq cq"] p nz R(3) counted_errno [OF R(1)] show ?thesis
      by (cases "ibv_destroy_cq env cq h") (auto simp: defs row ibv_destroy_cq_def view_destroy_def split: if_splits)
  next
    case (HAllocPd env ctx)
    with counted_create_effect [OF R(1) R(2), of env "''ibv_alloc_pd''" 4 "DAllocPd ctx"] p nz R(3) counted_errno [OF R(1)] show ?thesis
      by (cases "ibv_alloc_pd env ctx h") (auto simp: defs row ibv_alloc_pd_def view_create_def split: if_splits)
  next
    case (HDeallocPd env pd)
    with counted_destroy_effect [OF R(1) R(2), of env "''ibv_dealloc_pd''" 4 "DDeallocPd pd"] p nz R(3) counted_errno [OF R(1)] show ?thesis
      by (cases "ibv_dealloc_pd env pd h") (auto simp: defs row ibv_dealloc_pd_def view_destroy_def split: if_splits)
  qed
  then show "hook_answer c h = fst (view_hook c v)"
    and "slot_room p (hk_shm h) \<Longrightarrow> hook_view_of p t (hook_exec c h) = snd (view_hook c v)"
    by simp_all
qed

section \<open>The system seen by one tenant\<close>

datatype 'j system_event = EHook hook_op | EDaemon "'j json_lib" daemon_env string

fun event_step :: "'j system_event \<Rightarrow> rdma_system \<Rightarrow> rdma_system" where
  "event_step (EHook c) sy = process_step c sy"
| "event_step (EDaemon lib env text) sy = daemon_step lib env text sy"

fun event_answer :: "'j system_event \<Rightarrow> rdma_system \<Rightarrow> answer option" where
  "event_answer (EHook c) sy = Some (hook_answer c (app_view sy (he_pid (op_env c))))"
| "event_answer (EDaemon lib env text) sy = None"

text \<open>A hook of one of the processes \<open>P\<close>.\<close>

fun event_of :: "pid_t set \<Rightarrow> 'j system_event \<Rightarrow> bool" where
  "event_of P (EHook c) = (he_pid (op_env c) \<in> P)"
| "event_of P (EDaemon _ _ _) = False"

definition daemon_tenant :: "'j json_lib \<Rightarrow> string \<Rightarrow> u32 option" where
  "daemon_tenant lib text =
     (case command_of lib text of
        None \<Rightarrow> None
      | Some (cmd, j) \<Rightarrow> map_option (get_int lib) (object_get_ex lib j ''tenant''))"

text \<open>Any hook of the running processes \<open>A\<close>, and any request that is not about tenant \<open>t\<close>.\<close>

fun event_legal :: "pid_t set \<Rightarrow> u32 \<Rightarrow> 'j system_event \<Rightarrow> bool" where
  "event_legal A t (EHook c) = (he_pid (op_env c) \<in> A)"
| "event_legal A t (EDaemon lib env text) = (daemon_tenant lib text \<noteq> Some t)"

definition system_table :: "rdma_system \<Rightarrow> tenant_table" where
  "system_table sy = tenant_state_abs (view_tenants sy (sy_daemon sy))"

text \<open>
  The processes \<open>A\<close> run, at most as many as the process table has slots; \<open>P\<close> are those
  bound to tenant \<open>t\<close>.
\<close>

definition tenant_running :: "pid_t set \<Rightarrow> pid_t set \<Rightarrow> u32 \<Rightarrow> rdma_system \<Rightarrow> bool" where
  "tenant_running A P t sy \<longleftrightarrow> t \<noteq> 0 \<and> P \<subseteq> A \<and> finite A \<and> card A \<le> MAX_PROCESSES
     \<and> (\<forall>p\<in>A. 0 < sint p \<and> process_ready (app_view sy p)
          \<and> dom (proc_view (hk_shm (app_view sy p))) \<subseteq> A)
     \<and> tenant_attached (view_tenants sy (sy_daemon sy))
     \<and> (\<forall>p. binding (system_table sy) p = Some t \<longleftrightarrow> p \<in> P)"

definition same_to_tenant :: "pid_t set \<Rightarrow> u32 \<Rightarrow> rdma_system \<Rightarrow> rdma_system \<Rightarrow> bool" where
  "same_to_tenant P t sy sy' \<longleftrightarrow>
     members (system_table sy) t = members (system_table sy') t
     \<and> (\<forall>p\<in>P. hook_view_of p t (app_view sy p) = hook_view_of p t (app_view sy' p))"

lemma table_by_object: "tenant_object a = tenant_object b \<Longrightarrow> tenant_state_abs a = tenant_state_abs b"
  by (simp add: tenant_state_abs_def)

lemma view_table: "tenant_table_of (app_view sy p) = system_table sy"
  by (simp add: tenant_table_of_def app_view_def view_tenants_def system_table_def Let_def tenant_state_abs_def)

lemma slots_by_object:
  "shm_get_ptr m \<noteq> None \<Longrightarrow> shm_get_ptr m' \<noteq> None \<Longrightarrow> shm_object m = shm_object m' \<Longrightarrow>
   proc_view m = proc_view m' \<and> shm_get_global_resources True m = shm_get_global_resources True m'"
  by (auto simp: proc_view_def shm_get_global_resources_def shm_get_ptr_def fun_eq_iff split: if_splits)

lemma views_share:
  assumes "process_ready (app_view sy p)" "process_ready (app_view sy q)"
  shows "proc_view (hk_shm (app_view sy p)) = proc_view (hk_shm (app_view sy q))
    \<and> shm_get_global_resources True (hk_shm (app_view sy p)) = shm_get_global_resources True (hk_shm (app_view sy q))"
  by (rule slots_by_object [OF process_readyD(5) [OF assms(1)] process_readyD(5) [OF assms(2)]])
     (simp add: app_view_def view_shm_def Let_def)

text \<open>A running process sees the objects another component has left.\<close>

lemma process_sees:
  fixes h :: hook_state and m :: shm_state and ts :: tenant_state
  assumes r: "process_ready h" and m: "shm_wf m" "shm_get_ptr m \<noteq> None" and ts: "tenant_attached ts"
  defines "h' \<equiv> h\<lparr>hk_shm := (hk_shm h)\<lparr>shm_object := shm_object m\<rparr>,
                   hk_tenants := (hk_tenants h)\<lparr>tenant_object := tenant_object ts\<rparr>\<rparr>"
  shows "process_ready h' \<and> tenant_table_of h' = tenant_state_abs ts \<and> proc_view (hk_shm h') = proc_view m
    \<and> shm_get_global_resources True (hk_shm h') = shm_get_global_resources True m \<and> hk_core h' = hk_core h"
proof -
  obtain d where d: "shm_get_ptr m = Some d" using m(2) by blast
  have o: "shm_object m = Some d" "shm_mapped (hk_shm h)"
    using get_ptr_object [OF d] r by (auto simp: process_ready_def shm_get_ptr_def split: if_splits)
  have a: "shm_get_ptr (hk_shm h') \<noteq> None" "shm_wf (hk_shm h')"
    using o m(1) by (simp_all add: h'_def shm_get_ptr_def shm_wf_def)
  have ta: "tenant_attached (hk_tenants h')"
    using r ts by (auto simp: h'_def process_ready_def hook_attached_def tenant_attached_def tenant_inv_def)
  have "process_ready h'"
    using r a ta by (simp add: process_ready_def hook_attached_def) (simp add: h'_def hook_ready_def)
  moreover have "tenant_table_of h' = tenant_state_abs ts"
    by (simp add: h'_def tenant_table_of_def tenant_state_abs_def)
  moreover have "shm_object (hk_shm h') = shm_object m" "hk_core h' = hk_core h" by (simp_all add: h'_def)
  ultimately show ?thesis using slots_by_object [OF a(1) m(2)] by simp
qed

text \<open>The system when process \<open>p\<close> has moved to the state \<open>h\<close>, seen by every process.\<close>

definition install :: "pid_t \<Rightarrow> hook_state \<Rightarrow> rdma_system \<Rightarrow> rdma_system" where
  "install p h sy = sy\<lparr>sy_shm := shm_object (hk_shm h), sy_tenants := tenant_object (hk_tenants h),
     sy_process := (sy_process sy)(p := h)\<rparr>"

lemma process_step_install: "process_step c sy = install (he_pid (op_env c)) (hook_exec c (app_view sy (he_pid (op_env c)))) sy"
  by (simp add: process_step_def install_def Let_def)

lemma install_own: "app_view (install p h sy) p = h" "system_table (install p h sy) = tenant_table_of h"
proof -
  show v: "app_view (install p h sy) p = h"
    by (simp add: app_view_def install_def view_shm_def view_tenants_def Let_def)
  show "system_table (install p h sy) = tenant_table_of h"
    using view_table [of "install p h sy" p] by (simp add: v)
qed

lemma install_other:
  assumes h: "process_ready h" and q: "process_ready (app_view sy q)" "q \<noteq> p"
  shows "process_ready (app_view (install p h sy) q)
    \<and> proc_view (hk_shm (app_view (install p h sy) q)) = proc_view (hk_shm h)
    \<and> shm_get_global_resources True (hk_shm (app_view (install p h sy) q)) = shm_get_global_resources True (hk_shm h)
    \<and> hk_core (app_view (install p h sy) q) = hk_core (app_view sy q)
    \<and> hk_trace (app_view (install p h sy) q) = hk_trace (app_view sy q)"
proof -
  note H = process_readyD [OF h]
  have ta: "tenant_attached (hk_tenants h)" using H(2,3) by (simp add: hook_attached_def)
  have "app_view (install p h sy) q = (app_view sy q)\<lparr>hk_shm := (hk_shm (app_view sy q))\<lparr>shm_object := shm_object (hk_shm h)\<rparr>,
      hk_tenants := (hk_tenants (app_view sy q))\<lparr>tenant_object := tenant_object (hk_tenants h)\<rparr>\<rparr>"
    using q(2) by (simp add: app_view_def install_def view_shm_def view_tenants_def Let_def)
  with process_sees [OF q(1) H(4) H(5) ta] show ?thesis by simp
qed

text \<open>The system after a hook, seen by the daemon and by every running process.\<close>

lemma process_step_views:
  fixes c :: hook_op and sy :: rdma_system
  assumes run: "tenant_running A P t sy" and p: "he_pid (op_env c) \<in> A"
  defines "sy' \<equiv> process_step c sy" and "h' \<equiv> hook_exec c (app_view sy (he_pid (op_env c)))"
  shows "tenant_attached (view_tenants sy' (sy_daemon sy')) \<and> system_table sy' = tenant_table_of h'
    \<and> app_view sy' (he_pid (op_env c)) = h'"
    and "q \<in> A \<Longrightarrow> process_ready (app_view sy' q)
      \<and> proc_view (hk_shm (app_view sy' q)) = proc_view (hk_shm h')
      \<and> shm_get_global_resources True (hk_shm (app_view sy' q)) = shm_get_global_resources True (hk_shm h')
      \<and> (q \<noteq> he_pid (op_env c) \<longrightarrow> hk_core (app_view sy' q) = hk_core (app_view sy q))"
proof -
  let ?p = "he_pid (op_env c)"
  have r: "process_ready (app_view sy ?p)" and nz: "?p \<noteq> 0"
    using run p by (auto simp: tenant_running_def dest: sint_pos_neq_0)
  have h': "process_ready h'" using hook_exec_frame [OF r nz] by (simp add: h'_def)
  have ta: "tenant_attached (hk_tenants h')" using process_readyD(2,3) [OF h'] by (simp add: hook_attached_def)
  have sy': "sy' = install ?p h' sy" by (simp add: sy'_def process_step_install h'_def)
  show "tenant_attached (view_tenants sy' (sy_daemon sy')) \<and> system_table sy' = tenant_table_of h'
    \<and> app_view sy' ?p = h'"
  proof (intro conjI)
    show "tenant_attached (view_tenants sy' (sy_daemon sy'))"
      using run ta by (auto simp: sy' tenant_running_def view_tenants_def install_def tenant_attached_def tenant_inv_def)
  qed (simp_all add: sy' install_own)
  assume "q \<in> A"
  then have "process_ready (app_view sy q)" using run by (auto simp: tenant_running_def)
  then show "process_ready (app_view sy' q)
      \<and> proc_view (hk_shm (app_view sy' q)) = proc_view (hk_shm h')
      \<and> shm_get_global_resources True (hk_shm (app_view sy' q)) = shm_get_global_resources True (hk_shm h')
      \<and> (q \<noteq> ?p \<longrightarrow> hk_core (app_view sy' q) = hk_core (app_view sy q))"
    using install_other [OF h', of sy q ?p] h' by (cases "q = ?p") (simp_all add: sy' install_own)
qed

lemma spec_other:
  assumes "tid \<noteq> t"
  shows "members (snd (spec_create tid q T)) t = members T t \<and> binding (snd (spec_create tid q T)) = binding T"
    and "members (snd (spec_update_quota tid q T)) t = members T t \<and> binding (snd (spec_update_quota tid q T)) = binding T"
    and "members (snd (spec_delete tid T)) t = members T t
      \<and> (binding (snd (spec_delete tid T)) p = Some t \<longleftrightarrow> binding T p = Some t)"
  using assms
  by (simp add: spec_create_def, simp add: spec_update_quota_def split: option.split prod.split,
      auto simp: spec_delete_def)

lemma daemon_effect_other:
  assumes "daemon_tenant lib req \<noteq> Some t"
  shows "members (snd (daemon_effect lib req T)) t = members T t
    \<and> (binding (snd (daemon_effect lib req T)) p = Some t \<longleftrightarrow> binding T p = Some t)"
proof (cases "command_of lib req")
  case None
  then show ?thesis by (simp add: daemon_effect_def)
next
  case (Some c)
  obtain cmd j where c: "c = (cmd, j)" by (cases c)
  show ?thesis
  proof (cases "object_get_ex lib j ''tenant''")
    case None
    then show ?thesis by (simp add: daemon_effect_def Some c del: list.inject list.distinct)
  next
    case tenant: (Some v)
    with assms have "get_int lib v \<noteq> t" by (simp add: daemon_tenant_def Some c)
    note o = spec_other [OF this]
    show ?thesis
      unfolding daemon_effect_def Some c option.case prod.case tenant
      using o by (auto split: option.split)
  qed
qed

lemma daemon_step_views:
  fixes lib :: "'j json_lib" and env :: daemon_env and req :: string and sy :: rdma_system
  assumes run: "tenant_running A P t sy"
  defines "sy' \<equiv> daemon_step lib env req sy"
  shows "tenant_attached (view_tenants sy' (sy_daemon sy'))
    \<and> (system_table sy' = system_table sy \<or> system_table sy' = snd (daemon_effect lib req (system_table sy)))"
    and "q \<in> A \<Longrightarrow> process_ready (app_view sy' q)
      \<and> proc_view (hk_shm (app_view sy' q)) = proc_view (hk_shm (app_view sy q))
      \<and> shm_get_global_resources True (hk_shm (app_view sy' q)) = shm_get_global_resources True (hk_shm (app_view sy q))
      \<and> hk_core (app_view sy' q) = hk_core (app_view sy q)"
proof -
  have a: "tenant_attached (view_tenants sy (sy_daemon sy))" using run by (simp add: tenant_running_def)
  have "tenant_attached (view_tenants sy' (sy_daemon sy'))
    \<and> (system_table sy' = system_table sy \<or> system_table sy' = snd (daemon_effect lib req (system_table sy)))
    \<and> sy_shm sy' = sy_shm sy \<and> sy_process sy' = sy_process sy"
  proof (cases "process_command lib env req (view_tenants sy (sy_daemon sy))")
    case None
    with a show ?thesis by (simp add: sy'_def daemon_step_def)
  next
    case (Some r)
    then obtain reply ts where r: "process_command lib env req (view_tenants sy (sy_daemon sy)) = Some (reply, ts)"
      by (cases r) simp
    have "tenant_attached ts \<and> (tenant_state_abs ts = system_table sy
        \<or> tenant_state_abs ts = snd (daemon_effect lib req (system_table sy)))"
      using run_command_handled [OF a, of lib req] r a
      by (auto simp: process_command_eq handled_def system_table_def split: option.splits if_splits prod.splits)
         (metis snd_conv)+
    then show ?thesis
      using r by (simp add: sy'_def daemon_step_def system_table_def view_tenants_def)
  qed
  note s = this
  then show "tenant_attached (view_tenants sy' (sy_daemon sy'))
    \<and> (system_table sy' = system_table sy \<or> system_table sy' = snd (daemon_effect lib req (system_table sy)))" by simp
  assume "q \<in> A"
  then have r: "process_ready (app_view sy q)" using run by (simp add: tenant_running_def)
  have "app_view sy' q = (app_view sy q)\<lparr>hk_shm := (hk_shm (app_view sy q))\<lparr>shm_object := shm_object (hk_shm (app_view sy q))\<rparr>,
      hk_tenants := (hk_tenants (app_view sy q))\<lparr>tenant_object := tenant_object (view_tenants sy' (sy_daemon sy'))\<rparr>\<rparr>"
    using s by (simp add: app_view_def view_shm_def view_tenants_def Let_def)
  with process_sees [OF r process_readyD(4) [OF r] process_readyD(5) [OF r] conjunct1 [OF s]]
  show "process_ready (app_view sy' q)
      \<and> proc_view (hk_shm (app_view sy' q)) = proc_view (hk_shm (app_view sy q))
      \<and> shm_get_global_resources True (hk_shm (app_view sy' q)) = shm_get_global_resources True (hk_shm (app_view sy q))
      \<and> hk_core (app_view sy' q) = hk_core (app_view sy q)" by simp
qed

text \<open>The four conditions of the unwinding.\<close>

lemma event_keeps_running:
  assumes run: "tenant_running A P t sy" and l: "event_legal A t e"
  shows "tenant_running A P t (event_step e sy)"
proof (cases e)
  case (EHook c)
  let ?p = "he_pid (op_env c)" and ?sy = "process_step c sy"
  have p: "?p \<in> A" using l EHook by simp
  have r: "process_ready (app_view sy ?p)" and nz: "?p \<noteq> 0"
    using run p by (auto simp: tenant_running_def dest: sint_pos_neq_0)
  note f = hook_exec_frame [OF r nz]
  note v = process_step_views [OF run p]
  have b: "binding (system_table ?sy) = binding (system_table sy)" using v(1) f by (simp add: view_table)
  have s: "dom (proc_view (hk_shm (app_view ?sy q))) \<subseteq> A" if q: "q \<in> A" for q
  proof -
    have "dom (proc_view (hk_shm (app_view sy ?p))) \<subseteq> A" using run p by (simp add: tenant_running_def)
    then have "insert ?p (dom (proc_view (hk_shm (app_view sy ?p)))) \<subseteq> A" using p by blast
    moreover have "dom (proc_view (hk_shm (hook_exec c (app_view sy ?p))))
        \<subseteq> insert ?p (dom (proc_view (hk_shm (app_view sy ?p))))" using f by blast
    ultimately show ?thesis using v(2) [OF q] by (metis subset_trans)
  qed
  show ?thesis
    using run v(1) v(2) b s by (simp add: EHook tenant_running_def)
next
  case (EDaemon lib env req)
  with l have o: "daemon_tenant lib req \<noteq> Some t" by simp
  note v = daemon_step_views [OF run, where lib = lib and env = env and req = req]
  have "binding (system_table (daemon_step lib env req sy)) p = Some t \<longleftrightarrow> p \<in> P" for p
    using v(1) daemon_effect_other [OF o, where T = "system_table sy" and p = p] run by (auto simp: tenant_running_def)
  with run v(1) v(2) show ?thesis by (auto simp: EDaemon tenant_running_def)
qed

lemma tenant_process_running:
  assumes "tenant_running A P t sy" "p \<in> P"
  shows "tenant_process p t (app_view sy p)"
  using assms by (auto simp: tenant_running_def tenant_process_def view_table)

lemma running_room:
  assumes "tenant_running A P t sy" "p \<in> A"
  shows "slot_room p (hk_shm (app_view sy p))"
proof -
  have "insert p (dom (proc_view (hk_shm (app_view sy p)))) \<subseteq> A" "finite A" "card A \<le> MAX_PROCESSES"
    using assms by (auto simp: tenant_running_def)
  with card_mono [of A] show ?thesis unfolding slot_room_def by (meson le_trans)
qed

lemma tenant_event_same:
  assumes run: "tenant_running A P t sy" "tenant_running A P t sy'" and s: "same_to_tenant P t sy sy'"
    and p: "he_pid (op_env c) \<in> P"
  shows "hook_answer c (app_view sy (he_pid (op_env c))) = hook_answer c (app_view sy' (he_pid (op_env c)))"
    and "same_to_tenant P t (process_step c sy) (process_step c sy')"
proof -
  let ?p = "he_pid (op_env c)"
  have e: "hook_view_of ?p t (app_view sy ?p) = hook_view_of ?p t (app_view sy' ?p)"
    using s p by (simp add: same_to_tenant_def)
  note h = hook_is_view_hook [OF tenant_process_running [OF run(1) p] refl]
    and h' = hook_is_view_hook [OF tenant_process_running [OF run(2) p] refl]
  show "hook_answer c (app_view sy ?p) = hook_answer c (app_view sy' ?p)" using h(1) h'(1) e by simp
  have PA: "P \<subseteq> A" using run(1) by (simp add: tenant_running_def)
  with p have pA: "?p \<in> A" by blast
  note v = process_step_views [OF run(1) pA] and v' = process_step_views [OF run(2) pA]
  have new: "hook_view_of ?p t (hook_exec c (app_view sy ?p)) = hook_view_of ?p t (hook_exec c (app_view sy' ?p))"
    using h(2) [OF running_room [OF run(1) pA]] h'(2) [OF running_room [OF run(2) pA]] e by simp
  have r: "process_ready (app_view sy ?p)" "process_ready (app_view sy' ?p)" and nz: "?p \<noteq> 0"
    using run pA by (auto simp: tenant_running_def dest: sint_pos_neq_0)
  note f = hook_exec_frame [OF r(1) nz] and f' = hook_exec_frame [OF r(2) nz]
  show "same_to_tenant P t (process_step c sy) (process_step c sy')"
    unfolding same_to_tenant_def
  proof (intro conjI ballI)
    show "members (system_table (process_step c sy)) t = members (system_table (process_step c sy')) t"
      using v(1) v'(1) new by (simp add: hook_view_of_def)
    fix q assume q: "q \<in> P"
    then have qA: "q \<in> A" using PA by blast
    have rq: "process_ready (app_view sy q)" "process_ready (app_view sy' q)"
      using run qA by (auto simp: tenant_running_def)
    have sl: "proc_view (hk_shm (app_view sy q)) = proc_view (hk_shm (app_view sy ?p))"
      "proc_view (hk_shm (app_view sy' q)) = proc_view (hk_shm (app_view sy' ?p))"
      using views_share [OF rq(1) r(1)] views_share [OF rq(2) r(2)] by simp_all
    have eq: "hook_view_of q t (app_view sy q) = hook_view_of q t (app_view sy' q)"
      using s q by (simp add: same_to_tenant_def)
    show "hook_view_of q t (app_view (process_step c sy) q) = hook_view_of q t (app_view (process_step c sy') q)"
    proof (cases "q = ?p")
      case True
      with v(1) v'(1) new show ?thesis by simp
    next
      case False
      with v(1) v'(1) v(2) [OF qA] v'(2) [OF qA] f f' sl eq new show ?thesis
        by (simp add: hook_view_of_def view_table)
    qed
  qed
qed

text \<open>An event of somebody else changes nothing the tenant can see.\<close>

lemma other_event_row:
  assumes run: "tenant_running A P t sy" and l: "event_legal A t e" and o: "\<not> event_of P e"
  shows "members (system_table (event_step e sy)) t = members (system_table sy) t"
proof (cases e)
  case (EHook c)
  let ?p = "he_pid (op_env c)"
  have p: "?p \<in> A" "?p \<notin> P" using l o EHook by simp_all
  have r: "process_ready (app_view sy ?p)" and nz: "?p \<noteq> 0" and t: "t \<noteq> 0"
    using run p by (auto simp: tenant_running_def dest: sint_pos_neq_0)
  have b: "binding (tenant_table_of (app_view sy ?p)) ?p \<noteq> Some t"
    using run p by (auto simp: tenant_running_def view_table)
  from hook_exec_frame [OF r nz] b t process_step_views(1) [OF run p(1)]
  show ?thesis by (simp add: EHook view_table)
next
  case (EDaemon lib env req)
  with l have "daemon_tenant lib req \<noteq> Some t" by simp
  from daemon_effect_other [OF this, where T = "system_table sy"]
    daemon_step_views(1) [OF run, where lib = lib and env = env and req = req]
  show ?thesis by (auto simp: EDaemon)
qed

lemma other_event_unseen:
  assumes run: "tenant_running A P t sy" and l: "event_legal A t e" and o: "\<not> event_of P e"
  shows "same_to_tenant P t (event_step e sy) sy"
  unfolding same_to_tenant_def
proof (intro conjI ballI)
  show "members (system_table (event_step e sy)) t = members (system_table sy) t"
    by (rule other_event_row [OF run l o])
  fix q assume q: "q \<in> P"
  have t: "t \<noteq> 0" and qA: "q \<in> A" and nz: "\<forall>p\<in>A. p \<noteq> 0 \<and> process_ready (app_view sy p)"
    using run q by (auto simp: tenant_running_def dest: sint_pos_neq_0)
  show "hook_view_of q t (app_view (event_step e sy) q) = hook_view_of q t (app_view sy q)"
  proof (cases e)
    case (EHook c)
    let ?p = "he_pid (op_env c)"
    have p: "?p \<in> A" "?p \<notin> P" using l o EHook by simp_all
    then have ne: "q \<noteq> ?p" using q by blast
    have r: "process_ready (app_view sy ?p)" "process_ready (app_view sy q)" using nz p qA by auto
    have b: "binding (tenant_table_of (app_view sy ?p)) ?p \<noteq> Some t"
      using run p by (auto simp: tenant_running_def view_table)
    have sl: "proc_view (hk_shm (app_view sy ?p)) = proc_view (hk_shm (app_view sy q))
      \<and> shm_get_global_resources True (hk_shm (app_view sy ?p)) = shm_get_global_resources True (hk_shm (app_view sy q))"
      using views_share [OF r] .
    have "?p \<noteq> 0" using nz p(1) by blast
    from hook_exec_frame [OF r(1) this] b t ne sl process_step_views [OF run p(1)] qA
    show ?thesis by (simp add: EHook hook_view_of_def view_table)
  next
    case (EDaemon lib env req)
    with l have "daemon_tenant lib req \<noteq> Some t" by simp
    from daemon_effect_other [OF this, where T = "system_table sy"]
      daemon_step_views [OF run, where lib = lib and env = env and req = req] qA
    show ?thesis by (auto simp: EDaemon hook_view_of_def view_table)
  qed
qed

lemma same_to_tenant_trans: "same_to_tenant P t a b \<Longrightarrow> same_to_tenant P t b c \<Longrightarrow> same_to_tenant P t a c"
  by (simp add: same_to_tenant_def)

interpretation tenant_isolation: noninterference "tenant_running A P t" "event_legal A t" "event_of P"
  "same_to_tenant P t" event_step event_answer for A P t
proof unfold_locales
  fix s t' and e :: "'j system_event"
  assume r: "tenant_running A P t s" "tenant_running A P t t'" and s: "same_to_tenant P t s t'"
    and l: "event_legal A t e"
  show "event_answer e s = event_answer e t'" if "event_of P e"
    using that tenant_event_same(1) [OF r s] by (cases e) simp_all
  show "same_to_tenant P t (event_step e s) (event_step e t')" if "event_of P e"
    using that tenant_event_same(2) [OF r s] by (cases e) simp_all
  show "same_to_tenant P t (event_step e s) t'" if "\<not> event_of P e"
    using same_to_tenant_trans [OF other_event_unseen [OF r(1) l that] s] .
qed (rule event_keeps_running)

section \<open>Properties\<close>

text \<open>
  C3 (isolation of tenants). Let the processes \<open>A\<close>, all initialised, run, those of \<open>P\<close>
  bound to tenant \<open>t\<close>. In every run of hooks of these processes and of daemon requests that
  are not about \<open>t\<close>, the processes of \<open>t\<close> get exactly the answers (result and
  \<open>errno\<close>) they get when all other events are deleted from the run, and the row of
  \<open>t\<close> in the tenant table (status, quota and usage) ends as it ends there: however many
  queue pairs and memory regions other tenants create, and whatever the daemon does to other
  tenants, no creation of \<open>t\<close> is refused for it, and none is admitted. Steps of the
  collector, which do couple tenants, are no events of these runs.
\<close>

theorem tenant_isolation_purge:
  fixes es :: "'j system_event list"
  assumes r: "tenant_running A P t sy" and l: "\<forall>e\<in>set es. event_legal A t e"
  shows "outputs event_step event_answer (event_of P) es sy
      = outputs event_step event_answer (event_of P) (filter (event_of P) es) sy
    \<and> members (system_table (fold event_step es sy)) t
      = members (system_table (fold event_step (filter (event_of P) es) sy)) t"
proof -
  have s: "same_to_tenant P t sy sy" by (simp add: same_to_tenant_def)
  show ?thesis
    using tenant_isolation.purge [OF r r s l] tenant_isolation.purge_state [OF r r s l]
    by (simp add: same_to_tenant_def)
qed

text \<open>Process 42 of tenant 1 and process 43 of tenant 2.\<close>

definition two_processes :: rdma_system where
  "two_processes = demo_system\<lparr>sy_tenants := tenant_object (snd (tenant_bind_process ok_tenant_env 43 2 two_tenants))\<rparr>"

lemma two_processes_running: "tenant_running {42, 43} {42} 1 two_processes"
proof -
  let ?ts = "snd (tenant_bind_process ok_tenant_env 43 2 two_tenants)"
  obtain d where d: "shm_get_ptr fresh_shm = Some d" "process_pids d = replicate 1024 0" using fresh_shm_ptr by blast
  then have m: "shm_wf fresh_shm" "shm_get_ptr fresh_shm \<noteq> None" "dom (proc_view fresh_shm) = {}"
    by (simp_all add: fresh_shm_wf proc_view_dom)
  have ta: "tenant_attached ?ts" by (rule bind_attached [OF two_tenants_attached])
  have b: "binding (tenant_state_abs ?ts) = [42 \<mapsto> 1, 43 \<mapsto> 2]"
    using arg_cong [OF bind_refines [OF two_tenants_attached, of 43 ok_tenant_env 2], of snd]
    by (simp add: spec_bind_def two_tenants_abs MAX_PROCESSES_def)
  have "process_ready demo_hooks"
    using demo_ready fresh_shm_wf fresh_shm_ptr by (auto simp: process_ready_def) (simp_all add: demo_hooks_def)
  note v = process_sees [OF this m(1,2) ta]
  have pv: "app_view two_processes p = demo_hooks\<lparr>hk_shm := (hk_shm demo_hooks)\<lparr>shm_object := shm_object fresh_shm\<rparr>,
      hk_tenants := (hk_tenants demo_hooks)\<lparr>tenant_object := tenant_object ?ts\<rparr>\<rparr>" for p
    by (simp add: two_processes_def demo_system_def app_view_def view_shm_def view_tenants_def Let_def)
  have st: "system_table two_processes = tenant_state_abs ?ts"
    using v pv view_table [of two_processes 42] by simp
  have da: "tenant_attached (view_tenants two_processes (sy_daemon two_processes))"
    using ta two_tenants_attached
    by (simp add: two_processes_def demo_system_def view_tenants_def tenant_attached_def tenant_inv_def)
  show ?thesis
    using v pv st da m(3) b by (simp add: tenant_running_def MAX_PROCESSES_def)
qed

text \<open>Process 43 asks for 150 queue pairs, more than its tenant's quota, between two requests of 42.\<close>

theorem tenant_isolation_purge_witness:
  "let mine = (\<lambda>p. EHook (HCreateQp (demo_env\<lparr>he_pid := p\<rparr>) 7 \<lparr>qp_type = IBV_QPT_RC\<rparr>) :: string system_event)
   in outputs event_step event_answer (event_of {42}) ([mine 42] @ replicate 150 (mine 43) @ [mine 42]) two_processes
     = outputs event_step event_answer (event_of {42}) [mine 42, mine 42] two_processes
   \<and> members (system_table (fold event_step ([mine 42] @ replicate 150 (mine 43) @ [mine 42]) two_processes)) 1
     = members (system_table (fold event_step [mine 42, mine 42] two_processes)) 1"
proof -
  define mine where "mine p = (EHook (HCreateQp (demo_env\<lparr>he_pid := p\<rparr>) 7 \<lparr>qp_type = IBV_QPT_RC\<rparr>) :: string system_event)" for p
  let ?es = "[mine 42] @ replicate 150 (mine 43) @ [mine 42]"
  have "\<forall>e\<in>set ?es. event_legal {42, 43} 1 e" by (auto simp: mine_def)
  note iso = tenant_isolation_purge [OF two_processes_running this]
  have "filter (event_of {42}) ?es = [mine 42, mine 42]" by (simp add: mine_def)
  with iso show ?thesis unfolding Let_def mine_def by metis
qed

text \<open>A synchronisation leaves the global counts it has read.\<close>

lemma sync_table_keeps:
  "shm_wf m \<Longrightarrow> shm_get_ptr m \<noteq> None \<Longrightarrow>
   shm_wf (sync_table menv i ks m) \<and> shm_get_ptr (sync_table menv i ks m) \<noteq> None
   \<and> shm_get_global_resources True (sync_table menv i ks m) = shm_get_global_resources True m"
proof (induction menv i ks m rule: sync_table.induct)
  case (3 menv i q u ks m)
  let ?m = "snd (shm_update_process_resources (menv i) q (Some u) m)"
  note f = update_process_frame [OF 3(2,3), of "menv i" q u]
  with f 3(1) [OF shm_update_process_wf [OF 3(2)]] show ?case by simp
qed simp_all

lemma collector_publishes:
  assumes c: "sc_running c" "sc_global_fd c \<ge> 0" and m: "shm_wf (sc_shm c)" "shm_get_ptr (sc_shm c) \<noteq> None"
    and g: "me_global env = Some g"
  shows "shm_wf (sc_shm (sync_thread_turn menv env c)) \<and> shm_get_ptr (sc_shm (sync_thread_turn menv env c)) \<noteq> None
    \<and> shm_get_global_resources True (sc_shm (sync_thread_turn menv env c)) = (0, Some g)"
proof -
  obtain d where d: "shm_get_ptr (sc_shm c) = Some d" using m(2) by blast
  let ?m = "(sc_shm c)\<lparr>shm_object := Some (sync_global g d)\<rparr>"
  have s: "process_pids (sync_global g d) = process_pids d" "process_stats (sync_global g d) = process_stats d"
    "global_stats (sync_global g d) = g"
    by (simp_all add: sync_global_def Let_def shm_lock_def shm_unlock_def)
  have m1: "shm_wf ?m" "shm_get_ptr ?m = Some (sync_global g d)"
    using m(1) get_ptr_object [OF d] s by (auto simp: shm_wf_def shm_data_wf_def shm_get_ptr_def)
  have "shm_get_global_resources True ?m = (0, Some g)" using m1(2) s by (simp add: shm_get_global_resources_def)
  with sync_table_keeps [OF m1(1), of menv 0 "me_process_keys env"] m1 c d g show ?thesis
    by (auto simp: sync_thread_turn_def sync_ebpf_data_to_shared_memory_def Let_def)
qed

text \<open>
  C15 (what couples tenants). The global count is the exception: once the collector has copied a
  global QP count that reaches the configured maximum into the process table, every creation of
  every process with QP control on is refused with \<open>EPERM\<close>, whatever its tenant has used
  and whoever holds the queue pairs that were counted.
\<close>

theorem global_count_couples_tenants:
  assumes run: "tenant_running A P t sy" and p: "he_pid env \<in> P"
    and on: "enable_qp_control (st_config (hk_core (app_view sy (he_pid env))))"
    and c: "sc_running (sy_collector sy)" "sc_global_fd (sy_collector sy) \<ge> 0" "shm_mapped (sc_shm (sy_collector sy))"
    and g: "me_global maps = Some g"
      "max_global_qp (st_config (hk_core (app_view sy (he_pid env)))) \<le> qp_count g"
  shows "hook_answer (HCreateQp env pd attr) (app_view (collector_step menv maps sy) (he_pid env))
    = APtr 0 (Some EPERM)"
proof -
  let ?p = "he_pid env" and ?c = "(sy_collector sy)\<lparr>sc_shm := view_shm sy (sc_shm (sy_collector sy))\<rparr>"
  let ?sy = "collector_step menv maps sy"
  have t: "tenant_process ?p t (app_view sy ?p)" by (rule tenant_process_running [OF run p])
  then have r: "process_ready (app_view sy ?p)" by (simp add: tenant_process_def)
  note R = process_readyD [OF r]
  have o: "shm_object (sc_shm ?c) = shm_object (hk_shm (app_view sy ?p))"
    by (simp add: app_view_def view_shm_def Let_def)
  have w: "shm_wf (sc_shm ?c)" "shm_get_ptr (sc_shm ?c) \<noteq> None"
    using R(4,5) o c(3) by (auto simp: shm_wf_def shm_get_ptr_def view_shm_def split: if_splits)
  note s = collector_publishes [OF _ _ w g(1), where menv = menv]
  let ?m = "sc_shm (sync_thread_turn menv maps ?c)"
  have ta: "tenant_attached (view_tenants sy (sy_daemon sy))" using run by (simp add: tenant_running_def)
  have pv: "app_view ?sy ?p = (app_view sy ?p)\<lparr>hk_shm := (hk_shm (app_view sy ?p))\<lparr>shm_object := shm_object ?m\<rparr>,
      hk_tenants := (hk_tenants (app_view sy ?p))\<lparr>tenant_object := tenant_object (view_tenants sy (sy_daemon sy))\<rparr>\<rparr>"
    by (simp add: app_view_def collector_step_def Let_def view_shm_def view_tenants_def)
  have m: "shm_wf ?m" "shm_get_ptr ?m \<noteq> None" "shm_get_global_resources True ?m = (0, Some g)"
    using s c by simp_all
  note v = process_sees [OF r m(1,2) ta, folded pv]
  have "tenant_process ?p t (app_view ?sy ?p)"
    using t v run p by (auto simp: tenant_process_def tenant_running_def system_table_def)
  from hook_is_view_hook(1) [OF this, of "HCreateQp env pd attr"] v m(3) on g(2)
  show ?thesis by (simp add: view_qp_room_def hook_view_of_def Let_def not_less)
qed

theorem global_count_couples_tenants_witness:
  "hook_answer (HCreateQp demo_env 7 \<lparr>qp_type = IBV_QPT_RC\<rparr>)
     (app_view (collector_step (\<lambda>_. ok_shm_env)
        \<lparr>me_process_keys = [(43, Some \<lparr>qp_count = 20000, mr_count = 0, memory_used = 0\<rparr>)],
         me_global = Some \<lparr>qp_count = 20000, mr_count = 0, memory_used = 0\<rparr>, me_malloc_ok = \<lambda>_. True\<rparr> two_processes)
      (he_pid demo_env)) = APtr 0 (Some EPERM)"
proof (rule global_count_couples_tenants [OF two_processes_running])
  obtain d where "shm_get_ptr fresh_shm = Some d" using fresh_shm_ptr by blast
  then show "shm_mapped (sc_shm (sy_collector two_processes))"
    using get_ptr_object by (simp add: two_processes_def demo_system_def shm_collector_start_def)
  have "hk_core (app_view two_processes p) = hk_core demo_hooks" for p
    by (simp add: app_view_def two_processes_def demo_system_def Let_def)
  then show "enable_qp_control (st_config (hk_core (app_view two_processes (he_pid demo_env))))"
    "max_global_qp (st_config (hk_core (app_view two_processes (he_pid demo_env))))
      \<le> qp_count \<lparr>qp_count = 20000, mr_count = 0, memory_used = 0\<rparr>"
    by (simp_all add: demo_hooks_def default_config_def)
qed (simp_all add: demo_env_def two_processes_def demo_system_def shm_collector_start_def)

text \<open>
  C6 (the hooks refine a function of what the tenant sees). For a running process of a tenant, each
  of the eight hooks, with its lock-protected table operations and checks, is one function of the
  process's own counters and configuration, the row of its tenant, its slot in the process table
  and the global counts: it gives the answer, and it gives the new view.
\<close>

theorem hooks_refine_view:
  assumes "tenant_process (he_pid (op_env c)) t h" "slot_room (he_pid (op_env c)) (hk_shm h)"
  shows "(hook_answer c h, hook_view_of (he_pid (op_env c)) t (hook_exec c h))
    = view_hook c (hook_view_of (he_pid (op_env c)) t h)"
  using hook_is_view_hook [OF assms(1) refl] assms(2) by simp

lemma demo_view:
  "tenant_process 42 1 (app_view two_processes 42)" "slot_room 42 (hk_shm (app_view two_processes 42))"
  using tenant_process_running [OF two_processes_running] running_room [OF two_processes_running] by simp_all

theorem hooks_refine_view_witness:
  "hook_answer (HRegMr demo_env 7 8192 4096 1) (app_view two_processes 42)
     = fst (view_hook (HRegMr demo_env 7 8192 4096 1) (hook_view_of 42 1 (app_view two_processes 42)))"
proof -
  have p: "he_pid (op_env (HRegMr demo_env 7 8192 4096 1)) = 42" by (simp add: demo_env_def)
  from hooks_refine_view [of "HRegMr demo_env 7 8192 4096 1", unfolded p, OF demo_view]
  show ?thesis by (metis fst_conv)
qed



end
