(* ===== verification/Hook_Race.thy ===== *)
theory Hook_Race
  imports Isolation_Spec
begin

text \<open>
  Several processes of one tenant creating QPs at the same time. \<open>ibv_create_qp\<close> of
  \<open>src/rdma_hooks_tenant.c\<close> holds no lock over its whole length: its checks, the driver call
  with the update of its own counter and slot, the reading of the tenant's usage and the writing of
  the changed usage are separate uses of the shared objects, and what other processes do falls between
  them. Here the hook is cut into these four parts, which in a row are the hook, and the parts of
  several processes run on the shared objects in any order. (The parts can be cut finer; the
  interleavings of the four are among those of the program.)
\<close>

section \<open>The parts of the hook\<close>

text \<open>Where a process stands; a usage that was read is held with its tenant.\<close>

datatype create_pc =
    CIdle
  | CAdmitted
  | CCreated u64
  | CRead u64 u32 tenant_resource_usage
  | CDone u64 "i32 option"

text \<open>The prologue and the checks.\<close>

definition create_begin :: "hook_env \<Rightarrow> u64 \<Rightarrow> qp_init_attr \<Rightarrow> hook_state \<Rightarrow> create_pc \<times> hook_state" where
  "create_begin env pd attr h =
     (let h = hooks_once env h
      in if bypass ''ibv_create_qp'' h
         then (case pass_ptr env ''ibv_create_qp'' (DCreateQp pd attr) h of (qp, err, h) \<Rightarrow> (CDone qp err, h))
         else
           let (allowed, h) = check_qp_creation_restrictions env attr h
           in (if \<not> allowed then CDone 0 (Some EPERM) else CAdmitted, h))"

text \<open>The driver call, the counter of the process and its slot in the process table.\<close>

definition create_at_driver :: "hook_env \<Rightarrow> u64 \<Rightarrow> qp_init_attr \<Rightarrow> hook_state \<Rightarrow> create_pc \<times> hook_state" where
  "create_at_driver env pd attr h =
     (let h = reach_driver (DCreateQp pd attr) h; qp = he_driver_ptr env
      in if qp = 0 then (CDone 0 None, h)
         else
           let h = h\<lparr>hk_core := (hk_core h)\<lparr>st_qp_count := st_qp_count (hk_core h) + 1\<rparr>\<rparr>;
               usage = \<lparr>qp_count = st_qp_count (hk_core h),
                        mr_count = st_mr_count (hk_core h),
                        memory_used = st_memory_used (hk_core h)\<rparr>
           in (CCreated qp, h\<lparr>hk_shm := snd (shm_update_process_resources (he_shm env) (he_pid env)
                                               (Some usage) (hk_shm h))\<rparr>))"

text \<open>The tenant of the process and the reading of its usage.\<close>

definition create_read_usage :: "hook_env \<Rightarrow> u64 \<Rightarrow> hook_state \<Rightarrow> create_pc \<times> hook_state" where
  "create_read_usage env qp h =
     (let (tenant_id, h) = get_current_tenant_id (he_tenant env 4) (he_pid env) h
      in if tenant_id = 0 \<or> \<not> hk_tenant_initialized h then (CDone qp None, h)
         else case tenant_get_resource_usage (he_tenant env 5) tenant_id True (hk_tenants h) of
                ((rc, usage), ts) \<Rightarrow>
                  (case (rc = 0, usage) of
                     (True, Some u) \<Rightarrow> (CRead qp tenant_id u, h\<lparr>hk_tenants := ts\<rparr>)
                   | _ \<Rightarrow> (CDone qp None, h\<lparr>hk_tenants := ts\<rparr>)))"

text \<open>The writing of the usage that was read, with one more QP.\<close>

definition create_write_usage ::
    "hook_env \<Rightarrow> u64 \<Rightarrow> u32 \<Rightarrow> tenant_resource_usage \<Rightarrow> hook_state \<Rightarrow> create_pc \<times> hook_state" where
  "create_write_usage env qp tenant_id u h =
     (CDone qp None, h\<lparr>hk_tenants := snd (tenant_update_resource_usage (he_tenant env 6) tenant_id
                                           (Some (count_resource 0 1 u)) (hk_tenants h))\<rparr>)"

fun create_part :: "hook_env \<Rightarrow> u64 \<Rightarrow> qp_init_attr \<Rightarrow> create_pc \<Rightarrow> hook_state \<Rightarrow> create_pc \<times> hook_state" where
  "create_part env pd attr CIdle h = create_begin env pd attr h"
| "create_part env pd attr CAdmitted h = create_at_driver env pd attr h"
| "create_part env pd attr (CCreated qp) h = create_read_usage env qp h"
| "create_part env pd attr (CRead qp tenant_id u) h = create_write_usage env qp tenant_id u h"
| "create_part env pd attr (CDone qp err) h = (CDone qp err, h)"

lemmas create_part_defs = create_begin_def create_at_driver_def create_read_usage_def create_write_usage_def

text \<open>The four parts in a row are the hook, on every state and with every answer of its environment.\<close>

lemma parts_are_hook:
  "((\<lambda>(pc, h). create_part env pd attr pc h) ^^ 4) (CIdle, h)
    = (case ibv_create_qp env pd attr h of (qp, err, h') \<Rightarrow> (CDone qp err, h'))"
proof -
  obtain ok h1 where c: "check_qp_creation_restrictions env attr (hooks_once env h) = (ok, h1)" by fastforce
  obtain qp err h2 where b: "pass_ptr env ''ibv_create_qp'' (DCreateQp pd attr) (hooks_once env h) = (qp, err, h2)"
    by (metis prod_cases3)
  show ?thesis
    by (auto simp: numeral_Bit0 numeral_Bit1 create_part_defs ibv_create_qp_def count_tenant_def
        update_tenant_resource_count_def Let_def c b split: prod.splits bool.splits option.splits)
qed

section \<open>The effect of each part\<close>

lemma ready_of:
  assumes "process_ready h" "hook_keeps h h'" "shm_wf (hk_shm h')" "shm_get_ptr (hk_shm h') \<noteq> None"
  shows "process_ready h'"
  using assms by (simp add: process_ready_def hook_keeps_def hook_ready_def rdma_intercept_is_enabled_def)

lemma ready_same:
  assumes "process_ready h" "same_hook h h'"
  shows "process_ready h'" "tenant_table_of h' = tenant_table_of h"
  using ready_of [OF assms(1) same_hook_keeps [OF assms(2)]] same_hookD [OF assms(2)] process_readyD [OF assms(1)]
    same_hook_table [OF assms(2)] by auto

lemma part_begin:
  assumes r: "process_ready h" and p: "he_pid env \<noteq> 0" and ok: "qp_admissible (he_pid env) attr h"
  shows "\<exists>h'. create_part env pd attr CIdle h = (CAdmitted, h') \<and> same_hook h h'"
proof -
  note R = process_readyD [OF r]
  have "bypass ''ibv_create_qp'' h = False" using bypass_ready [OF R(1)] by simp
  then show ?thesis
    using check_restrictions [OF R(2) p, of attr] ok
    by (auto simp: create_begin_def hooks_once_ready [OF R(1) [of "''ibv_create_qp''"]] Let_def split: prod.split)
qed

lemma part_refused:
  assumes r: "process_ready h" and p: "he_pid env \<noteq> 0" and ok: "\<not> qp_admissible (he_pid env) attr h"
  shows "\<exists>h'. create_part env pd attr CIdle h = (CDone 0 (Some EPERM), h') \<and> same_hook h h'"
proof -
  note R = process_readyD [OF r]
  have "bypass ''ibv_create_qp'' h = False" using bypass_ready [OF R(1)] by simp
  then show ?thesis
    using check_restrictions [OF R(2) p, of attr] ok
    by (auto simp: create_begin_def hooks_once_ready [OF R(1) [of "''ibv_create_qp''"]] Let_def split: prod.split)
qed

lemma part_driver:
  assumes r: "process_ready h" and g: "he_driver_ptr env \<noteq> 0"
  shows "\<exists>h'. create_part env pd attr CAdmitted h = (CCreated (he_driver_ptr env), h') \<and> process_ready h'
    \<and> tenant_table_of h' = tenant_table_of h \<and> hk_trace h' = hk_trace h @ [DCreateQp pd attr]"
proof -
  note R = process_readyD [OF r]
  let ?u = "core_usage (one_more_qp (hk_core h))"
  let ?m = "snd (shm_update_process_resources (he_shm env) (he_pid env) (Some ?u) (hk_shm h))"
  define h' where "h' = (reach_driver (DCreateQp pd attr) h)\<lparr>hk_core := one_more_qp (hk_core h), hk_shm := ?m\<rparr>"
  have "create_part env pd attr CAdmitted h = (CCreated (he_driver_ptr env), h')"
    using g by (simp add: create_at_driver_def h'_def one_more_qp_def core_usage_def Let_def)
  moreover have "hook_keeps h h'" using R(2) by (simp add: h'_def hook_keeps_def one_more_qp_def hook_attached_def)
  moreover have "shm_wf ?m" "shm_get_ptr ?m \<noteq> None"
    using shm_update_process_wf [OF R(4)] update_process_frame [OF R(4) R(5)] by simp_all
  ultimately show ?thesis using ready_of [OF r, of h']
    by (intro exI [of _ h']) (simp add: h'_def tenant_table_of_def)
qed

lemma part_read:
  assumes r: "process_ready h" and p: "he_pid env \<noteq> 0" and b: "binding (tenant_table_of h) (he_pid env) = Some t" "t \<noteq> 0"
    and m: "members (tenant_table_of h) t = Some (TENANT_STATUS_ACTIVE, q, u)"
  shows "\<exists>h'. create_part env pd attr (CCreated qp) h = (CRead qp t u, h') \<and> same_hook h h'"
proof -
  note R = process_readyD [OF r]
  obtain t' h1 where g: "get_current_tenant_id (he_tenant env 4) (he_pid env) h = (t', h1)" by fastforce
  have t: "t' = t" and s: "same_hook h h1"
    using get_current_tenant [OF R(2) p, of "he_tenant env 4"] g b R(3) by (simp_all add: hook_tenant_def tenant_table_of_def)
  have i: "hk_tenant_initialized h1" and a: "tenant_attached (hk_tenants h1)"
    using R(3) same_hookD(6,8) [OF s] by (simp_all add: hook_attached_def)
  obtain rc x ts where u: "tenant_get_resource_usage (he_tenant env 5) t True (hk_tenants h1) = ((rc, x), ts)"
    by (metis surj_pair)
  have "members (tenant_state_abs (hk_tenants h1)) t = Some (TENANT_STATUS_ACTIVE, q, u)"
    using m ready_same(2) [OF r s] by (simp add: tenant_table_of_def)
  then have v: "rc = 0" "x = Some u"
    using get_usage_members [OF a, where env = "he_tenant env 5" and tid = t, unfolded u fst_conv] by simp_all
  have "same_tenants (hk_tenants h1) ts"
    using tenant_readers_same(3) [OF a, where env = "he_tenant env 5" and tid = t and b = True] u by simp
  then have "same_hook h1 (h1\<lparr>hk_tenants := ts\<rparr>)" unfolding same_hook_def by blast
  from same_hook_trans [OF s this] show ?thesis
    using b(2) i v by (intro exI [of _ "h1\<lparr>hk_tenants := ts\<rparr>"]) (simp add: create_read_usage_def g t u)
qed

lemma part_write:
  assumes r: "process_ready h" and m: "members (tenant_table_of h) t = Some (TENANT_STATUS_ACTIVE, q, x)"
  shows "\<exists>h'. create_part env pd attr (CRead qp t u) h = (CDone qp None, h') \<and> process_ready h'
    \<and> tenant_table_of h' = (tenant_table_of h)\<lparr>members := (members (tenant_table_of h))
         (t \<mapsto> (TENANT_STATUS_ACTIVE, q, count_resource 0 1 u))\<rparr>
    \<and> hk_trace h' = hk_trace h"
proof -
  note R = process_readyD [OF r]
  have a: "tenant_attached (hk_tenants h)" using R(2,3) by (simp add: hook_attached_def)
  let ?ts = "snd (tenant_update_resource_usage (he_tenant env 6) t (Some (count_resource 0 1 u)) (hk_tenants h))"
  have "tenant_state_abs ?ts = (tenant_state_abs (hk_tenants h))\<lparr>members := (members (tenant_state_abs (hk_tenants h)))
      (t \<mapsto> (TENANT_STATUS_ACTIVE, q, count_resource 0 1 u))\<rparr>"
    using arg_cong [OF update_usage_refines [OF a, of "he_tenant env 6" t "Some (count_resource 0 1 u)"], of snd] m
    by (simp add: spec_update_usage_def tenant_table_of_def)
  moreover have at: "tenant_attached ?ts"
    using exec_attached [OF a, of "TenantUpdateUsage (he_tenant env 6) t (Some (count_resource 0 1 u))"]
    by (simp add: tenant_exec_def)
  moreover have "hook_keeps h (h\<lparr>hk_tenants := ?ts\<rparr>)" using at by (simp add: hook_keeps_def hook_attached_def)
  ultimately show ?thesis using ready_of [OF r, of "h\<lparr>hk_tenants := ?ts\<rparr>"] R(4,5)
    by (simp add: create_write_usage_def tenant_table_of_def)
qed

section \<open>Parts of several processes on the shared objects\<close>

text \<open>A call of the hook: its environment, which names the process, and its arguments.\<close>

type_synonym create_call = "hook_env \<times> u64 \<times> qp_init_attr"

fun call_pid :: "create_call \<Rightarrow> pid_t" where
  "call_pid (env, pd, attr) = he_pid env"

fun race_step :: "create_call \<Rightarrow> rdma_system \<times> (pid_t \<Rightarrow> create_pc) \<Rightarrow> rdma_system \<times> (pid_t \<Rightarrow> create_pc)" where
  "race_step (env, pd, attr) (sy, pcs) =
     (let p = he_pid env; (pc, h) = create_part env pd attr (pcs p) (app_view sy p)
      in (install p h sy, pcs(p := pc)))"

text \<open>One part of each call per entry of the schedule; all processes outside of the hook.\<close>

definition race_run :: "create_call list \<Rightarrow> rdma_system \<Rightarrow> rdma_system \<times> (pid_t \<Rightarrow> create_pc)" where
  "race_run schedule sy = fold race_step schedule (sy, \<lambda>_. CIdle)"

lemma install_twice [simp]: "install p h' (install p h sy) = install p h' sy"
  by (simp add: install_def)

lemma race_alone:
  "(race_step (env, pd, attr) ^^ Suc n) (sy, pcs) =
     (case ((\<lambda>(pc, h). create_part env pd attr pc h) ^^ Suc n) (pcs (he_pid env), app_view sy (he_pid env)) of
        (pc, h) \<Rightarrow> (install (he_pid env) h sy, pcs(he_pid env := pc)))"
proof (induction n)
  case 0
  show ?case by (simp add: Let_def fun_upd_def)
next
  case (Suc n)
  then show ?case by (auto simp: install_own(1) Let_def fun_upd_def split: prod.splits)
qed

text \<open>Without another process in between, the parts are the step of the system for the hook.\<close>

lemma race_whole:
  assumes "pcs (he_pid env) = CIdle"
  shows "fold race_step (replicate 4 (env, pd, attr)) (sy, pcs) =
    (process_step (HCreateQp env pd attr) sy,
     pcs(he_pid env := case ibv_create_qp env pd attr (app_view sy (he_pid env)) of (qp, err, h) \<Rightarrow> CDone qp err))"
proof -
  have "fold race_step (replicate 4 (env, pd, attr)) (sy, pcs) = (race_step (env, pd, attr) ^^ 4) (sy, pcs)"
    by (simp add: fold_replicate)
  then show ?thesis
    using race_alone [where n = 3 and sy = sy and pcs = pcs and env = env and pd = pd and attr = attr]
      parts_are_hook [of env pd attr "app_view sy (he_pid env)"] assms
    by (simp add: process_step_install split: prod.splits)
qed

text \<open>Two running processes and the tenant table; one of them moves.\<close>

definition racing :: "pid_t \<Rightarrow> pid_t \<Rightarrow> tenant_table \<Rightarrow> rdma_system \<Rightarrow> bool" where
  "racing p q T sy \<longleftrightarrow> process_ready (app_view sy p) \<and> process_ready (app_view sy q) \<and> system_table sy = T"

lemma install_racing:
  assumes r: "racing p q T sy" and h: "process_ready h" and p: "r = p \<or> r = q"
  shows "racing p q (tenant_table_of h) (install r h sy)"
    and "x = p \<or> x = q \<Longrightarrow> hk_trace (app_view (install r h sy) x) = (if x = r then hk_trace h else hk_trace (app_view sy x))"
proof -
  have o: "process_ready (app_view (install r h sy) x)
      \<and> hk_trace (app_view (install r h sy) x) = (if x = r then hk_trace h else hk_trace (app_view sy x))"
    if "x = p \<or> x = q" for x
    using that r h install_other [OF h, of sy x r] by (cases "x = r") (auto simp: racing_def install_own)
  then show "racing p q (tenant_table_of h) (install r h sy)"
    by (auto simp: racing_def install_own)
  show "x = p \<or> x = q \<Longrightarrow> hk_trace (app_view (install r h sy) x) = (if x = r then hk_trace h else hk_trace (app_view sy x))"
    using o by blast
qed

lemma racing_swap: "racing p q T sy \<Longrightarrow> racing q p T sy"
  by (simp add: racing_def)

lemma racingD:
  "racing p q T sy \<Longrightarrow> process_ready (app_view sy p)" "racing p q T sy \<Longrightarrow> tenant_table_of (app_view sy p) = T"
  by (simp_all add: racing_def view_table)

text \<open>A part that is taken, with what it does to the table and to the calls of the driver.\<close>

lemma race_move:
  fixes pcs :: "pid_t \<Rightarrow> create_pc"
  assumes r: "racing p q T sy" and pq: "p \<noteq> q" and pid: "he_pid env = p"
    and part: "create_part env pd attr (pcs p) (app_view sy p) = (pc, h)"
    and h: "process_ready h" "tenant_table_of h = T'" "hk_trace h = hk_trace (app_view sy p) @ cs"
  obtains sy' pcs' where "race_step (env, pd, attr) (sy, pcs) = (sy', pcs')" "sy' = install p h sy"
    "pcs' p = pc" "pcs' q = pcs q" "racing p q T' sy'"
    "hk_trace (app_view sy' p) = hk_trace (app_view sy p) @ cs"
    "hk_trace (app_view sy' q) = hk_trace (app_view sy q)"
proof
  show "race_step (env, pd, attr) (sy, pcs) = (install p h sy, pcs(p := pc))"
    using part pid by (simp add: Let_def)
  show "racing p q T' (install p h sy)" using install_racing(1) [OF r h(1), of p] h(2) by simp
  show "hk_trace (app_view (install p h sy) p) = hk_trace (app_view sy p) @ cs"
    "hk_trace (app_view (install p h sy) q) = hk_trace (app_view sy q)"
    using install_racing(2) [OF r h(1), of p p] install_racing(2) [OF r h(1), of p q] h(3) pq by simp_all
qed (use pq in simp_all)

text \<open>The four parts of a process that is not refused, with another one in between.\<close>

lemma move_begin:
  assumes r: "racing p q T sy" and pq: "p \<noteq> q" and pid: "he_pid env = p" "p \<noteq> 0"
    and ok: "pcs p = CIdle" "qp_admissible p attr (app_view sy p)"
  obtains sy' pcs' h where "race_step (env, pd, attr) (sy, pcs) = (sy', pcs')" "sy' = install p h sy"
    "same_hook (app_view sy p) h" "pcs' p = CAdmitted" "pcs' q = pcs q" "racing p q T sy'"
    "hk_trace (app_view sy' p) = hk_trace (app_view sy p)" "hk_trace (app_view sy' q) = hk_trace (app_view sy q)"
proof -
  note R = racingD [OF r]
  obtain h where b: "create_part env pd attr (pcs p) (app_view sy p) = (CAdmitted, h)" and s: "same_hook (app_view sy p) h"
    using part_begin [OF R(1), of env attr pd] pid ok by auto
  have "tenant_table_of h = T" "hk_trace h = hk_trace (app_view sy p) @ []"
    using ready_same(2) [OF R(1) s] R(2) same_hookD(3) [OF s] by simp_all
  from race_move [where pcs = pcs, OF r pq pid(1) b ready_same(1) [OF R(1) s] this] that s show thesis by (metis append_Nil2)
qed

lemma move_driver:
  assumes r: "racing p q T sy" and pq: "p \<noteq> q" and pid: "he_pid env = p"
    and at: "pcs p = CAdmitted" "he_driver_ptr env \<noteq> 0"
  obtains sy' pcs' where "race_step (env, pd, attr) (sy, pcs) = (sy', pcs')"
    "pcs' p = CCreated (he_driver_ptr env)" "pcs' q = pcs q" "racing p q T sy'"
    "hk_trace (app_view sy' p) = hk_trace (app_view sy p) @ [DCreateQp pd attr]"
    "hk_trace (app_view sy' q) = hk_trace (app_view sy q)"
proof -
  note R = racingD [OF r]
  obtain h where b: "create_part env pd attr (pcs p) (app_view sy p) = (CCreated (he_driver_ptr env), h)"
    and h: "process_ready h" "tenant_table_of h = T" "hk_trace h = hk_trace (app_view sy p) @ [DCreateQp pd attr]"
    using part_driver [OF R(1) at(2), of pd attr] at(1) R(2) by auto
  from race_move [where pcs = pcs, OF r pq pid b h] that show thesis by metis
qed

lemma move_read:
  assumes r: "racing p q T sy" and pq: "p \<noteq> q" and pid: "he_pid env = p" "p \<noteq> 0"
    and at: "pcs p = CCreated qp" and b: "binding T p = Some t" "t \<noteq> 0"
    and m: "members T t = Some (TENANT_STATUS_ACTIVE, quota, u)"
  obtains sy' pcs' where "race_step (env, pd, attr) (sy, pcs) = (sy', pcs')"
    "pcs' p = CRead qp t u" "pcs' q = pcs q" "racing p q T sy'"
    "hk_trace (app_view sy' p) = hk_trace (app_view sy p)" "hk_trace (app_view sy' q) = hk_trace (app_view sy q)"
proof -
  note R = racingD [OF r]
  obtain h where h: "create_part env pd attr (pcs p) (app_view sy p) = (CRead qp t u, h)" and s: "same_hook (app_view sy p) h"
    using part_read [OF R(1), of env t quota u pd attr qp] pid at b m R(2) by auto
  have "tenant_table_of h = T" "hk_trace h = hk_trace (app_view sy p) @ []"
    using ready_same(2) [OF R(1) s] R(2) same_hookD(3) [OF s] by simp_all
  from race_move [where pcs = pcs, OF r pq pid(1) h ready_same(1) [OF R(1) s] this] that show thesis by (metis append_Nil2)
qed

lemma move_write:
  assumes r: "racing p q T sy" and pq: "p \<noteq> q" and pid: "he_pid env = p"
    and at: "pcs p = CRead qp t u" and m: "members T t = Some (TENANT_STATUS_ACTIVE, quota, x)"
    and T': "T' = T\<lparr>members := (members T)(t \<mapsto> (TENANT_STATUS_ACTIVE, quota, count_resource 0 1 u))\<rparr>"
  obtains sy' pcs' where "race_step (env, pd, attr) (sy, pcs) = (sy', pcs')"
    "pcs' p = CDone qp None" "pcs' q = pcs q" "racing p q T' sy'"
    "hk_trace (app_view sy' p) = hk_trace (app_view sy p)" "hk_trace (app_view sy' q) = hk_trace (app_view sy q)"
proof -
  note R = racingD [OF r]
  obtain h where b: "create_part env pd attr (pcs p) (app_view sy p) = (CDone qp None, h)" and h: "process_ready h"
    "tenant_table_of h = T'" "hk_trace h = hk_trace (app_view sy p) @ []"
    using part_write [OF R(1), of t quota x env pd attr qp u] at m R(2) T' by auto
  from race_move [where pcs = pcs, OF r pq pid b h] that show thesis by (metis append_Nil2)
qed

lemma admissible_kept:
  assumes r: "process_ready (app_view sy p)" and q: "tenant_process q t (app_view sy q)" "q \<noteq> p"
    and s: "same_hook (app_view sy p) h"
  shows "qp_admissible q attr (app_view (install p h sy) q) = qp_admissible q attr (app_view sy q)"
proof -
  have rq: "process_ready (app_view sy q)" using q(1) by (simp add: tenant_process_def)
  note o = install_other [OF ready_same(1) [OF r s] rq q(2)]
  have tab: "system_table (install p h sy) = system_table sy"
    using ready_same(2) [OF r s] by (simp add: install_own view_table)
  have "tenant_process q t (app_view (install p h sy) q)"
    using q(1) o tab by (simp add: tenant_process_def view_table)
  moreover have "hook_view_of q t (app_view (install p h sy) q) = hook_view_of q t (app_view sy q)"
    using o views_share [OF r rq] same_hookD(2) [OF s] tab by (simp add: hook_view_of_def view_table)
  ultimately show ?thesis using view_rooms(1) q(1) by metis
qed

section \<open>Properties\<close>

text \<open>Two processes of one tenant, with one place left in its quota; every check admits each of them.\<close>

definition last_place :: "u32 \<Rightarrow> tenant_quota \<Rightarrow> tenant_resource_usage \<Rightarrow> create_call \<Rightarrow> create_call \<Rightarrow> rdma_system \<Rightarrow> bool" where
  "last_place t quota u a b sy \<longleftrightarrow>
     call_pid a \<noteq> call_pid b
     \<and> members (system_table sy) t = Some (TENANT_STATUS_ACTIVE, quota, u)
     \<and> unat (tu_qp_count u) + 1 = unat (max_qp_per_tenant quota)
     \<and> (\<forall>(env, pd, attr)\<in>{a, b}. tenant_process (he_pid env) t (app_view sy (he_pid env))
          \<and> enable_qp_control (st_config (hk_core (app_view sy (he_pid env))))
          \<and> qp_admissible (he_pid env) attr (app_view sy (he_pid env)) \<and> he_driver_ptr env \<noteq> 0)"

lemma interleaved_both:
  fixes pa pb :: u64 and xa xb :: qp_init_attr
  assumes l: "last_place t quota u (ea, pa, xa) (eb, pb, xb) sy"
  defines "p \<equiv> he_pid ea" and "q \<equiv> he_pid eb" and "a \<equiv> (ea, pa, xa)" and "b \<equiv> (eb, pb, xb)"
  shows "\<exists>sy' pcs. race_run [a, b, a, b, a, b, a, b] sy = (sy', pcs)
    \<and> pcs p = CDone (he_driver_ptr ea) None \<and> pcs q = CDone (he_driver_ptr eb) None
    \<and> hk_trace (app_view sy' p) = hk_trace (app_view sy p) @ [DCreateQp pa xa]
    \<and> hk_trace (app_view sy' q) = hk_trace (app_view sy q) @ [DCreateQp pb xb]
    \<and> members (system_table sy') t = Some (TENANT_STATUS_ACTIVE, quota, count_resource 0 1 u)"
proof -
  let ?T = "system_table sy" and ?z = "\<lambda>_ :: pid_t. CIdle"
  have pq: "p \<noteq> q" "q \<noteq> p" and row: "members ?T t = Some (TENANT_STATUS_ACTIVE, quota, u)"
    and tp: "tenant_process p t (app_view sy p)" and tq: "tenant_process q t (app_view sy q)"
    and ad: "qp_admissible p xa (app_view sy p)" "qp_admissible q xb (app_view sy q)"
    and dr: "he_driver_ptr ea \<noteq> 0" "he_driver_ptr eb \<noteq> 0"
    using l by (auto simp: last_place_def p_def q_def)
  have nz: "p \<noteq> 0" "q \<noteq> 0" "t \<noteq> 0" and bd: "binding ?T p = Some t" "binding ?T q = Some t"
    using tp tq by (auto simp: tenant_process_def view_table)
  have pids: "he_pid ea = p" "he_pid eb = q" by (simp_all add: p_def q_def)
  have r0: "racing p q ?T sy" using tp tq by (simp add: racing_def tenant_process_def)
  obtain sy1 pcs1 h1 where 1: "race_step a (sy, ?z) = (sy1, pcs1)" "sy1 = install p h1 sy"
    "same_hook (app_view sy p) h1" "pcs1 p = CAdmitted" "pcs1 q = CIdle" "racing p q ?T sy1"
    "hk_trace (app_view sy1 p) = hk_trace (app_view sy p)" "hk_trace (app_view sy1 q) = hk_trace (app_view sy q)"
    unfolding a_def by (rule move_begin [where pcs = ?z, OF r0 pq(1) pids(1) nz(1) refl ad(1)])
  have "qp_admissible q xb (app_view sy1 q)"
    using admissible_kept [OF racingD(1) [OF r0] tq pq(2) 1(3)] ad(2) 1(2) by simp
  then obtain sy2 pcs2 where 2: "race_step b (sy1, pcs1) = (sy2, pcs2)"
    "pcs2 q = CAdmitted" "pcs2 p = CAdmitted" "racing q p ?T sy2"
    "hk_trace (app_view sy2 q) = hk_trace (app_view sy1 q)" "hk_trace (app_view sy2 p) = hk_trace (app_view sy1 p)"
    unfolding b_def using move_begin [where pcs = pcs1, OF racing_swap [OF 1(6)] pq(2) pids(2) nz(2) 1(5), of xb pb] 1(4) by metis
  obtain sy3 pcs3 where 3: "race_step a (sy2, pcs2) = (sy3, pcs3)"
    "pcs3 p = CCreated (he_driver_ptr ea)" "pcs3 q = CAdmitted" "racing p q ?T sy3"
    "hk_trace (app_view sy3 p) = hk_trace (app_view sy2 p) @ [DCreateQp pa xa]"
    "hk_trace (app_view sy3 q) = hk_trace (app_view sy2 q)"
    unfolding a_def using move_driver [where pcs = pcs2, OF racing_swap [OF 2(4)] pq(1) pids(1) 2(3) dr(1), of pa xa] 2(2) by metis
  obtain sy4 pcs4 where 4: "race_step b (sy3, pcs3) = (sy4, pcs4)"
    "pcs4 q = CCreated (he_driver_ptr eb)" "pcs4 p = CCreated (he_driver_ptr ea)" "racing q p ?T sy4"
    "hk_trace (app_view sy4 q) = hk_trace (app_view sy3 q) @ [DCreateQp pb xb]"
    "hk_trace (app_view sy4 p) = hk_trace (app_view sy3 p)"
    unfolding b_def using move_driver [where pcs = pcs3, OF racing_swap [OF 3(4)] pq(2) pids(2) 3(3) dr(2), of pb xb] 3(2) by metis
  obtain sy5 pcs5 where 5: "race_step a (sy4, pcs4) = (sy5, pcs5)"
    "pcs5 p = CRead (he_driver_ptr ea) t u" "pcs5 q = CCreated (he_driver_ptr eb)" "racing p q ?T sy5"
    "hk_trace (app_view sy5 p) = hk_trace (app_view sy4 p)" "hk_trace (app_view sy5 q) = hk_trace (app_view sy4 q)"
    unfolding a_def
    using move_read [where pcs = pcs4, OF racing_swap [OF 4(4)] pq(1) pids(1) nz(1) 4(3) bd(1) nz(3) row, of pa xa] 4(2) by metis
  obtain sy6 pcs6 where 6: "race_step b (sy5, pcs5) = (sy6, pcs6)"
    "pcs6 q = CRead (he_driver_ptr eb) t u" "pcs6 p = CRead (he_driver_ptr ea) t u" "racing q p ?T sy6"
    "hk_trace (app_view sy6 q) = hk_trace (app_view sy5 q)" "hk_trace (app_view sy6 p) = hk_trace (app_view sy5 p)"
    unfolding b_def
    using move_read [where pcs = pcs5, OF racing_swap [OF 5(4)] pq(2) pids(2) nz(2) 5(3) bd(2) nz(3) row, of pb xb] 5(2) by metis
  let ?T' = "?T\<lparr>members := (members ?T)(t \<mapsto> (TENANT_STATUS_ACTIVE, quota, count_resource 0 1 u))\<rparr>"
  obtain sy7 pcs7 where 7: "race_step a (sy6, pcs6) = (sy7, pcs7)"
    "pcs7 p = CDone (he_driver_ptr ea) None" "pcs7 q = CRead (he_driver_ptr eb) t u" "racing p q ?T' sy7"
    "hk_trace (app_view sy7 p) = hk_trace (app_view sy6 p)" "hk_trace (app_view sy7 q) = hk_trace (app_view sy6 q)"
    unfolding a_def using move_write [where pcs = pcs6, OF racing_swap [OF 6(4)] pq(1) pids(1) 6(3) row refl, of pa xa] 6(2) by metis
  have row': "members ?T' t = Some (TENANT_STATUS_ACTIVE, quota, count_resource 0 1 u)"
    and same: "?T' = ?T'\<lparr>members := (members ?T')(t \<mapsto> (TENANT_STATUS_ACTIVE, quota, count_resource 0 1 u))\<rparr>"
    by simp_all
  obtain sy8 pcs8 where 8: "race_step b (sy7, pcs7) = (sy8, pcs8)" "pcs8 q = CDone (he_driver_ptr eb) None"
    "pcs8 p = CDone (he_driver_ptr ea) None" "racing q p ?T' sy8"
    "hk_trace (app_view sy8 q) = hk_trace (app_view sy7 q)" "hk_trace (app_view sy8 p) = hk_trace (app_view sy7 p)"
    unfolding b_def
    using move_write [where pcs = pcs7, OF racing_swap [OF 7(4)] pq(2) pids(2) 7(3) row' same, of pb xb] 7(2) by metis
  have "race_run [a, b, a, b, a, b, a, b] sy = (sy8, pcs8)"
    by (simp add: race_run_def 1(1) 2(1) 3(1) 4(1) 5(1) 6(1) 7(1) 8(1))
  then show ?thesis
    using 1 2 3 4 5 6 7 8 by (simp add: racing_def)
qed

lemma in_turn_second_refused:
  fixes pa pb :: u64 and xa xb :: qp_init_attr
  assumes l: "last_place t quota u (ea, pa, xa) (eb, pb, xb) sy"
  defines "p \<equiv> he_pid ea" and "q \<equiv> he_pid eb"
  shows "\<exists>sy' pcs. race_run (replicate 4 (ea, pa, xa) @ replicate 4 (eb, pb, xb)) sy = (sy', pcs)
    \<and> pcs p = CDone (he_driver_ptr ea) None \<and> pcs q = CDone 0 (Some EPERM)
    \<and> hk_trace (app_view sy' p) = hk_trace (app_view sy p) @ [DCreateQp pa xa]
    \<and> hk_trace (app_view sy' q) = hk_trace (app_view sy q)
    \<and> members (system_table sy') t = Some (TENANT_STATUS_ACTIVE, quota, count_resource 0 1 u)"
proof -
  have pq: "p \<noteq> q" "q \<noteq> p" and row: "members (system_table sy) t = Some (TENANT_STATUS_ACTIVE, quota, u)"
    and last: "unat (tu_qp_count u) + 1 = unat (max_qp_per_tenant quota)"
    and tp: "tenant_process p t (app_view sy p)" and tq: "tenant_process q t (app_view sy q)"
    and ctl: "enable_qp_control (st_config (hk_core (app_view sy q)))"
    and ad: "qp_admissible p xa (app_view sy p)" and dr: "he_driver_ptr ea \<noteq> 0"
    using l by (auto simp: last_place_def p_def q_def)
  have r: "process_ready (app_view sy p)" "process_ready (app_view sy q)" and nz: "p \<noteq> 0" "q \<noteq> 0" "t \<noteq> 0"
    and bd: "binding (system_table sy) p = Some t" "binding (system_table sy) q = Some t"
    using tp tq by (auto simp: tenant_process_def view_table)
  note R = process_readyD [OF r(1)]
  obtain qp err h1 where c: "ibv_create_qp ea pa xa (app_view sy p) = (qp, err, h1)" by (metis prod_cases3)
  have h1: "h1 = hook_exec (HCreateQp ea pa xa) (app_view sy p)" using c by simp
  have e1: "qp = he_driver_ptr ea" "err = None" "hk_trace h1 = hk_trace (app_view sy p) @ [DCreateQp pa xa]"
    "tenant_table_of h1 = count_for p 0 1 (system_table sy)"
    using create_qp_effect [OF R(1) R(2) _ c] nz(1) ad dr R(3) by (simp_all add: p_def [symmetric] view_table)
  have r1: "process_ready h1" using hook_exec_frame [OF r(1), of "HCreateQp ea pa xa"] nz(1) by (simp add: h1 p_def)
  have row1: "members (tenant_table_of h1) t = Some (TENANT_STATUS_ACTIVE, quota, count_resource 0 1 u)"
    and bd1: "binding (tenant_table_of h1) = binding (system_table sy)"
    using count_for_row [OF bd(1) nz(3), of 0 1] row by (simp_all add: e1(4) count_for_binding)
  let ?sy1 = "install p h1 sy" and ?z = "(\<lambda>_. CIdle)(p := CDone (he_driver_ptr ea) None)"
  note o = install_other [OF r1 r(2) pq(2)]
  note Q = process_readyD [OF conjunct1 [OF o]]
  have "\<not> qp_admissible q xb (app_view ?sy1 q)"
  proof -
    have "hook_tenant q (app_view ?sy1 q) = t" "hook_members (app_view ?sy1 q) t = Some (TENANT_STATUS_ACTIVE, quota, count_resource 0 1 u)"
      using Q(3) view_table [of ?sy1 q] bd(2) bd1 row1
      by (simp_all add: hook_tenant_def hook_members_def tenant_table_of_def install_own)
    moreover have "tu_qp_count (count_resource 0 1 u) = max_qp_per_tenant quota"
      using last unat_add_one [of "tu_qp_count u" "max_qp_per_tenant quota"]
      by (simp add: count_resource_def word_unat_eq_iff word_less_nat_alt)
    ultimately show ?thesis using ctl o nz(3) Q(3) by (simp add: qp_admissible_def tenant_qp_room_def Let_def)
  qed
  moreover obtain qp2 err2 h2 where c2: "ibv_create_qp eb pb xb (app_view ?sy1 q) = (qp2, err2, h2)" by (metis prod_cases3)
  ultimately have e2: "qp2 = 0" "err2 = Some EPERM" "same_hook (app_view ?sy1 q) h2"
    using create_qp_effect [OF Q(1) Q(2) _ c2] nz(2) by (simp_all add: q_def)
  have r2: "process_ready h2" "tenant_table_of h2 = tenant_table_of h1"
    using ready_same [OF conjunct1 [OF o] e2(3)] view_table [of ?sy1 q] by (simp_all add: install_own)
  have s1: "process_step (HCreateQp ea pa xa) sy = ?sy1" by (simp add: process_step_install h1 p_def)
  have s2: "process_step (HCreateQp eb pb xb) ?sy1 = install q h2 ?sy1"
    using c2 by (simp add: process_step_install q_def)
  have "race_run (replicate 4 (ea, pa, xa) @ replicate 4 (eb, pb, xb)) sy = (install q h2 ?sy1, ?z(q := CDone 0 (Some EPERM)))"
    using race_whole [of "\<lambda>_. CIdle" ea pa xa sy] race_whole [of ?z eb pb xb ?sy1] c c2 e1 e2 pq s1 s2
    by (simp add: race_run_def p_def [symmetric] q_def [symmetric])
  moreover have "hk_trace (app_view (install q h2 ?sy1) p) = hk_trace h1"
    using install_other [OF r2(1), of ?sy1 p q] r1 pq(1) by (simp add: install_own)
  moreover have "hk_trace (app_view (install q h2 ?sy1) q) = hk_trace (app_view sy q)"
    using same_hookD(3) [OF e2(3)] o by (simp add: install_own)
  ultimately show ?thesis using pq e1 row1 r2(2) by (simp add: install_own)
qed

text \<open>
  C36 (check and update are not one step). Two running processes of an active tenant call
  \<open>ibv_create_qp\<close>, with one QP left in the tenant's quota; each of them passes every check
  (type, quota, limit of the process and global limit), and the driver grants both. One after the
  other, the first gets its QP and the second is refused with \<open>EPERM\<close>. With their parts
  interleaved both get a QP from the driver, one more than the quota; and one of the two counts is
  lost, so that the table shows exactly the quota. The parts of a call in a row are the hook
  (lemma \<open>parts_are_hook\<close>).
\<close>

theorem interleaved_hooks_exceed_quota:
  assumes "last_place t quota u (ea, pa, xa) (eb, pb, xb) sy"
  defines "a \<equiv> (ea, pa, xa)" and "b \<equiv> (eb, pb, xb)" and "p \<equiv> he_pid ea" and "q \<equiv> he_pid eb"
  shows "(case race_run [a, a, a, a, b, b, b, b] sy of (sy', pcs) \<Rightarrow>
      pcs p = CDone (he_driver_ptr ea) None \<and> pcs q = CDone 0 (Some EPERM)
      \<and> hk_trace (app_view sy' p) = hk_trace (app_view sy p) @ [DCreateQp pa xa]
      \<and> hk_trace (app_view sy' q) = hk_trace (app_view sy q)
      \<and> map_option (\<lambda>(_, _, v). tu_qp_count v) (members (system_table sy') t) = Some (max_qp_per_tenant quota))
    \<and> (case race_run [a, b, a, b, a, b, a, b] sy of (sy', pcs) \<Rightarrow>
      pcs p = CDone (he_driver_ptr ea) None \<and> pcs q = CDone (he_driver_ptr eb) None
      \<and> hk_trace (app_view sy' p) = hk_trace (app_view sy p) @ [DCreateQp pa xa]
      \<and> hk_trace (app_view sy' q) = hk_trace (app_view sy q) @ [DCreateQp pb xb]
      \<and> map_option (\<lambda>(_, _, v). tu_qp_count v) (members (system_table sy') t) = Some (max_qp_per_tenant quota))"
proof -
  have "tu_qp_count (count_resource 0 1 u) = max_qp_per_tenant quota"
    using assms(1) unat_add_one [of "tu_qp_count u" "max_qp_per_tenant quota"]
    by (simp add: last_place_def count_resource_def word_unat_eq_iff word_less_nat_alt)
  moreover have "replicate 4 a @ replicate 4 b = [a, a, a, a, b, b, b, b]"
    by (simp add: numeral_Bit0 numeral_Bit1)
  ultimately show ?thesis
    using interleaved_both [OF assms(1)] in_turn_second_refused [OF assms(1)]
    unfolding a_def b_def p_def q_def by auto
qed

text \<open>Processes 42 and 43 of tenant 1, whose quota is lowered to one QP.\<close>

definition one_place :: rdma_system where
  "one_place = demo_system\<lparr>sy_tenants := tenant_object (fold tenant_exec
     [TenantBind ok_tenant_env 43 1, TenantUpdateQuota ok_tenant_env 1 (Some (default_tenant_quota\<lparr>max_qp_per_tenant := 1\<rparr>))]
     two_tenants)\<rparr>"

definition one_place_call :: "pid_t \<Rightarrow> create_call" where
  "one_place_call p = (demo_env\<lparr>he_pid := p\<rparr>, 7, \<lparr>qp_type = IBV_QPT_RC\<rparr>)"

lemma one_place_last:
  "last_place 1 (default_tenant_quota\<lparr>max_qp_per_tenant := 1\<rparr>) zero_tenant_usage
     (one_place_call 42) (one_place_call 43) one_place"
proof -
  let ?Q = "default_tenant_quota\<lparr>max_qp_per_tenant := 1\<rparr>"
  define ts where "ts = fold tenant_exec [TenantBind ok_tenant_env 43 1, TenantUpdateQuota ok_tenant_env 1 (Some ?Q)] two_tenants"
  obtain d where d: "shm_get_ptr fresh_shm = Some d" "process_pids d = replicate 1024 0" using fresh_shm_ptr by blast
  then have m: "shm_wf fresh_shm" "shm_get_ptr fresh_shm \<noteq> None" "proc_view fresh_shm p = None" for p
    using fresh_shm_wf proc_view_dom [OF d(1)] by (auto simp: dom_def)
  have g: "shm_get_global_resources True fresh_shm = (0, Some zero_usage)"
    using fresh_shm_ptr by (auto simp: shm_get_global_resources_def zero_usage_def split: option.splits)
  have ta: "tenant_attached ts" by (simp add: ts_def exec_attached two_tenants_attached)
  have T: "tenant_state_abs ts =
     \<lparr>members = [1 \<mapsto> (TENANT_STATUS_ACTIVE, ?Q, zero_tenant_usage),
                2 \<mapsto> (TENANT_STATUS_ACTIVE, default_tenant_quota, zero_tenant_usage)],
      binding = [42 \<mapsto> 1, 43 \<mapsto> 1]\<rparr>"
    by (simp add: ts_def exec_attached two_tenants_attached exec_abs two_tenants_abs spec_bind_def
        spec_update_quota_def MAX_PROCESSES_def fun_upd_twist)
  have "process_ready demo_hooks"
    using demo_ready fresh_shm_wf fresh_shm_ptr by (auto simp: process_ready_def) (simp_all add: demo_hooks_def)
  note v = process_sees [OF this m(1,2) ta]
  have pv: "app_view one_place p = demo_hooks\<lparr>hk_shm := (hk_shm demo_hooks)\<lparr>shm_object := shm_object fresh_shm\<rparr>,
      hk_tenants := (hk_tenants demo_hooks)\<lparr>tenant_object := tenant_object ts\<rparr>\<rparr>" for p
    by (simp add: one_place_def demo_system_def ts_def app_view_def view_shm_def view_tenants_def Let_def)
  have st: "system_table one_place = tenant_state_abs ts"
    using v pv view_table [of one_place 42] by simp
  have c: "st_config (hk_core (app_view one_place p)) = default_config\<lparr>enable_qp_control := True\<rparr>" for p
    by (simp add: pv demo_hooks_def)
  have tp: "tenant_process p 1 (app_view one_place p)" if "p = 42 \<or> p = 43" for p
    using that v pv T by (auto simp: tenant_process_def)
  have "qp_admissible p \<lparr>qp_type = IBV_QPT_RC\<rparr> (app_view one_place p)" if "p = 42 \<or> p = 43" for p
    using v pv T c m(3) g unfolding view_rooms(1) [OF tp [OF that]]
    by (simp add: view_qp_room_def hook_view_of_def qp_type_allowed_def default_config_def Let_def
        zero_usage_def zero_tenant_usage_def)
  with tp c st T show ?thesis
    by (simp add: last_place_def one_place_call_def zero_tenant_usage_def) (simp add: demo_env_def)
qed

theorem interleaved_hooks_exceed_quota_witness:
  "let a = one_place_call 42; b = one_place_call 43; run = race_run [a, b, a, b, a, b, a, b] one_place
   in snd run 42 = CDone 4096 None \<and> snd run 43 = CDone 4096 None
    \<and> snd (race_run [a, a, a, a, b, b, b, b] one_place) 43 = CDone 0 (Some EPERM)"
proof -
  have "he_driver_ptr (demo_env\<lparr>he_pid := p\<rparr>) = 4096" for p by (simp add: demo_env_def)
  with interleaved_hooks_exceed_quota [OF one_place_last [unfolded one_place_call_def]] show ?thesis
    unfolding Let_def one_place_call_def by (auto split: prod.splits)
qed

end
