(* ===== verification/Perf_Opt.thy ===== *)
theory Perf_Opt
  imports Shm
begin

text \<open>
  The performance optimiser (\<open>src/performance_optimizer.c\<close>,
  \<open>include/performance_optimizer.h\<close>): a direct-mapped cache of process usage with a time
  to live, a buffer of pending updates that is flushed to the process table, statistics, and the
  adaptive change of the time to live.

  The clocks are arguments (\<open>perf_env\<close>). The operations are modelled as they run with
  their locks held; the one place where the code gives the batch lock up in the middle of an
  operation is a definition of its own (\<open>batch_retry\<close>). The two averages that
  \<open>perf_optimizer_get_stats\<close> computes in floating point are returned as the pair
  (dividend, divisor); the comparisons of the hit rate with 50 and 90 per cent are made on the
  exact quotient, which the double arithmetic of the code agrees with for counters below
  \<open>2 ^ 40\<close>.
\<close>

section \<open>State\<close>

definition CACHE_BUCKET_COUNT :: nat where "CACHE_BUCKET_COUNT = 256"

record cache_entry =
  ent_pid :: pid_t
  ent_usage :: resource_usage
  ent_last_update :: u64
  ent_valid :: bool
  ent_lock :: u32

record resource_cache =
  cache_entries :: "cache_entry list"
  cache_hit_count :: u64
  cache_miss_count :: u64
  cache_eviction_count :: u64
  ttl_ms :: u32

text \<open>The pending entries are the first \<open>bb_count\<close> of the two arrays.\<close>

record batch_buffer =
  pending_updates :: "resource_usage list"
  bb_pids :: "pid_t list"
  bb_count :: nat
  last_flush :: u64
  flush_interval_ms :: u32

record perf_optimizer_stats =
  total_operations :: u64
  intercepted_operations :: u64
  allowed_operations :: u64
  denied_operations :: u64
  total_latency_ns :: u64
  min_latency_ns :: u64
  max_latency_ns :: u64
  cache_hits :: u64
  cache_misses :: u64
  batch_flushes :: u64
  batched_updates :: u64
  stats_start_time :: u64

record perf_state =
  g_cache :: resource_cache
  g_batch_buffer :: batch_buffer
  g_stats :: perf_optimizer_stats
  perf_running :: bool
  g_cache_enabled :: bool
  g_batching_enabled :: bool
  perf_shm :: shm_state

record perf_env =
  pe_ms :: u64         \<comment> \<open>get_current_time_ms in the cache operation\<close>
  pe_flush_ms :: u64   \<comment> \<open>get_current_time_ms in the flush\<close>
  pe_start_ns :: u64
  pe_end_ns :: u64
  pe_time :: u64
  pe_thread_ok :: bool \<comment> \<open>pthread_create succeeds\<close>
  pe_shm :: "nat \<Rightarrow> shm_env"

definition zero_entry :: cache_entry where
  "zero_entry = \<lparr>ent_pid = 0, ent_usage = zero_usage, ent_last_update = 0, ent_valid = False, ent_lock = 0\<rparr>"

definition zero_stats :: perf_optimizer_stats where
  "zero_stats = \<lparr>total_operations = 0, intercepted_operations = 0, allowed_operations = 0,
     denied_operations = 0, total_latency_ns = 0, min_latency_ns = 0, max_latency_ns = 0,
     cache_hits = 0, cache_misses = 0, batch_flushes = 0, batched_updates = 0, stats_start_time = 0\<rparr>"

definition hash_pid :: "pid_t \<Rightarrow> nat" where
  "hash_pid pid = unat (pid * 2654435761) mod CACHE_BUCKET_COUNT"

section \<open>Cache\<close>

definition upd_entry :: "nat \<Rightarrow> (cache_entry \<Rightarrow> cache_entry) \<Rightarrow> perf_state \<Rightarrow> perf_state" where
  "upd_entry i f s = s\<lparr>g_cache := (g_cache s)\<lparr>cache_entries :=
     (cache_entries (g_cache s))[i := f (cache_entries (g_cache s) ! i)]\<rparr>\<rparr>"

definition count_miss :: "perf_state \<Rightarrow> perf_state" where
  "count_miss s = s\<lparr>g_stats := (g_stats s)\<lparr>cache_misses := cache_misses (g_stats s) + 1\<rparr>,
     g_cache := (g_cache s)\<lparr>cache_miss_count := cache_miss_count (g_cache s) + 1\<rparr>\<rparr>"

definition count_hit :: "perf_state \<Rightarrow> perf_state" where
  "count_hit s = s\<lparr>g_stats := (g_stats s)\<lparr>cache_hits := cache_hits (g_stats s) + 1\<rparr>,
     g_cache := (g_cache s)\<lparr>cache_hit_count := cache_hit_count (g_cache s) + 1\<rparr>\<rparr>"

text \<open>The result is the usage on a hit; the check without the lock and the one with it are one
  check when no other thread runs in between.\<close>

definition perf_optimizer_get_cached_resources ::
    "perf_env \<Rightarrow> pid_t \<Rightarrow> bool \<Rightarrow> perf_state \<Rightarrow> resource_usage option \<times> perf_state" where
  "perf_optimizer_get_cached_resources env pid has_usage s =
     (if \<not> g_cache_enabled s \<or> \<not> has_usage then (None, s)
      else
        let idx = hash_pid pid; entry = cache_entries (g_cache s) ! idx
        in if \<not> ent_valid entry \<or> ent_pid entry \<noteq> pid then (None, count_miss s)
           else if pe_ms env - ent_last_update entry > ucast (ttl_ms (g_cache s))
             then (None, count_miss (upd_entry idx (\<lambda>e. e\<lparr>ent_valid := False\<rparr>) s))
           else (Some (ent_usage entry), count_hit s))"

definition perf_optimizer_update_cached_resources ::
    "perf_env \<Rightarrow> pid_t \<Rightarrow> resource_usage option \<Rightarrow> perf_state \<Rightarrow> perf_state" where
  "perf_optimizer_update_cached_resources env pid usage s =
     (case usage of
        None \<Rightarrow> s
      | Some u \<Rightarrow>
          if \<not> g_cache_enabled s then s
          else upd_entry (hash_pid pid)
                 (\<lambda>e. e\<lparr>ent_pid := pid, ent_usage := u, ent_last_update := pe_ms env, ent_valid := True\<rparr>) s)"

definition perf_optimizer_invalidate_cache :: "pid_t \<Rightarrow> perf_state \<Rightarrow> perf_state" where
  "perf_optimizer_invalidate_cache pid s =
     upd_entry (hash_pid pid) (\<lambda>e. if ent_pid e = pid then e\<lparr>ent_valid := False\<rparr> else e) s"

definition perf_optimizer_clear_cache :: "perf_state \<Rightarrow> perf_state" where
  "perf_optimizer_clear_cache s =
     s\<lparr>g_cache := (g_cache s)\<lparr>cache_entries := map (\<lambda>e. e\<lparr>ent_valid := False\<rparr>) (cache_entries (g_cache s)),
         cache_hit_count := 0, cache_miss_count := 0\<rparr>\<rparr>"

section \<open>Batching\<close>

text \<open>The loop of the flush: one table update per pending entry.\<close>

fun flush_entries :: "(nat \<Rightarrow> shm_env) \<Rightarrow> nat \<Rightarrow> (pid_t \<times> resource_usage) list \<Rightarrow> shm_state \<Rightarrow> shm_state" where
  "flush_entries env i [] m = m"
| "flush_entries env i ((pid, u) # es) m =
     flush_entries env (Suc i) es (snd (shm_update_process_resources (env i) pid (Some u) m))"

definition pending :: "batch_buffer \<Rightarrow> (pid_t \<times> resource_usage) list" where
  "pending b = zip (take (bb_count b) (bb_pids b)) (take (bb_count b) (pending_updates b))"

definition perf_optimizer_flush_batch_buffer :: "perf_env \<Rightarrow> perf_state \<Rightarrow> perf_state" where
  "perf_optimizer_flush_batch_buffer env s =
     (if bb_count (g_batch_buffer s) = 0 then s
      else
        let s = s\<lparr>perf_shm := flush_entries (pe_shm env) 0 (pending (g_batch_buffer s)) (perf_shm s)\<rparr>;
            s = s\<lparr>g_batch_buffer := (g_batch_buffer s)\<lparr>bb_count := 0, last_flush := pe_flush_ms env\<rparr>\<rparr>
        in s\<lparr>g_stats := (g_stats s)\<lparr>batch_flushes := batch_flushes (g_stats s) + 1\<rparr>\<rparr>)"

text \<open>The part after the buffer was found full and flushed, with the lock taken again.\<close>

definition batch_retry :: "pid_t \<Rightarrow> resource_usage \<Rightarrow> batch_buffer \<Rightarrow> batch_buffer" where
  "batch_retry pid u b =
     b\<lparr>bb_pids := (bb_pids b)[0 := pid], pending_updates := (pending_updates b)[0 := u], bb_count := 1\<rparr>"

definition perf_optimizer_batch_update_resource ::
    "perf_env \<Rightarrow> pid_t \<Rightarrow> resource_usage option \<Rightarrow> perf_state \<Rightarrow> int \<times> perf_state" where
  "perf_optimizer_batch_update_resource env pid usage s =
     (case (g_batching_enabled s, usage) of
        (True, Some u) \<Rightarrow>
          let b = g_batch_buffer s;
              s = (case find_slot (\<lambda>p. p = pid) (take (bb_count b) (bb_pids b)) of
                     Some found \<Rightarrow>
                       s\<lparr>g_batch_buffer := b\<lparr>pending_updates := (pending_updates b)[found := u]\<rparr>\<rparr>
                   | None \<Rightarrow>
                       if bb_count b < CACHE_BUCKET_COUNT
                       then s\<lparr>g_batch_buffer := b\<lparr>bb_pids := (bb_pids b)[bb_count b := pid],
                                pending_updates := (pending_updates b)[bb_count b := u],
                                bb_count := bb_count b + 1\<rparr>\<rparr>
                       else
                         let s = perf_optimizer_flush_batch_buffer env s
                         in s\<lparr>g_batch_buffer := batch_retry pid u (g_batch_buffer s)\<rparr>);
              s = perf_optimizer_update_cached_resources env pid usage s
          in (0, s\<lparr>g_stats := (g_stats s)\<lparr>batched_updates := batched_updates (g_stats s) + 1\<rparr>\<rparr>)
      | _ \<Rightarrow>
          (case shm_update_process_resources (pe_shm env 0) pid usage (perf_shm s) of
             (rc, m) \<Rightarrow> (rc, s\<lparr>perf_shm := m\<rparr>)))"

section \<open>Set-up and settings\<close>

definition perf_optimizer_init :: "perf_env \<Rightarrow> perf_state \<Rightarrow> int \<times> perf_state" where
  "perf_optimizer_init env s =
     (let s = s\<lparr>g_cache := \<lparr>cache_entries = replicate CACHE_BUCKET_COUNT zero_entry, cache_hit_count = 0,
                             cache_miss_count = 0, cache_eviction_count = 0, ttl_ms = 100\<rparr>,
                g_batch_buffer := \<lparr>pending_updates = replicate CACHE_BUCKET_COUNT zero_usage,
                                   bb_pids = replicate CACHE_BUCKET_COUNT 0, bb_count = 0,
                                   last_flush = 0, flush_interval_ms = 50\<rparr>,
                g_stats := zero_stats\<lparr>stats_start_time := pe_time env, min_latency_ns := -1\<rparr>,
                perf_running := True\<rparr>
      in if \<not> pe_thread_ok env then (-1, s\<lparr>perf_running := False\<rparr>) else (0, s))"

definition perf_optimizer_cleanup :: "perf_env \<Rightarrow> perf_state \<Rightarrow> perf_state" where
  "perf_optimizer_cleanup env s = perf_optimizer_flush_batch_buffer env (s\<lparr>perf_running := False\<rparr>)"

definition perf_optimizer_set_cache_ttl :: "u32 \<Rightarrow> perf_state \<Rightarrow> perf_state" where
  "perf_optimizer_set_cache_ttl ttl s =
     (let ttl = (if ttl < 10 then 10 else ttl);
          ttl = (if ttl > 10000 then 10000 else ttl)
      in s\<lparr>g_cache := (g_cache s)\<lparr>ttl_ms := ttl\<rparr>\<rparr>)"

definition perf_optimizer_set_batch_interval :: "u32 \<Rightarrow> perf_state \<Rightarrow> perf_state" where
  "perf_optimizer_set_batch_interval interval s =
     (let interval = (if interval < 10 then 10 else interval);
          interval = (if interval > 1000 then 1000 else interval)
      in s\<lparr>g_batch_buffer := (g_batch_buffer s)\<lparr>flush_interval_ms := interval\<rparr>\<rparr>)"

definition perf_optimizer_enable_cache :: "bool \<Rightarrow> perf_state \<Rightarrow> perf_state" where
  "perf_optimizer_enable_cache enable s = s\<lparr>g_cache_enabled := enable\<rparr>"

definition perf_optimizer_enable_batching :: "bool \<Rightarrow> perf_state \<Rightarrow> perf_state" where
  "perf_optimizer_enable_batching enable s = s\<lparr>g_batching_enabled := enable\<rparr>"

section \<open>Statistics and checks\<close>

text \<open>The statistics with the two quotients: hits over look-ups, latency over operations.\<close>

definition perf_optimizer_get_stats ::
    "perf_state \<Rightarrow> perf_optimizer_stats \<times> (u64 \<times> u64) option \<times> (u64 \<times> u64) option" where
  "perf_optimizer_get_stats s =
     (let st = g_stats s; total = cache_hits st + cache_misses st
      in (st, if total > 0 then Some (cache_hits st, total) else None,
          if total_operations st > 0 then Some (total_latency_ns st, total_operations st) else None))"

definition perf_optimizer_reset_stats :: "perf_env \<Rightarrow> perf_state \<Rightarrow> perf_state" where
  "perf_optimizer_reset_stats env s =
     s\<lparr>g_stats := zero_stats\<lparr>min_latency_ns := -1, stats_start_time := pe_time env\<rparr>,
       g_cache := (g_cache s)\<lparr>cache_hit_count := 0, cache_miss_count := 0, cache_eviction_count := 0\<rparr>\<rparr>"

definition perf_optimizer_check_resource_fast ::
    "perf_env \<Rightarrow> pid_t \<Rightarrow> int \<Rightarrow> u32 \<Rightarrow> u32 \<Rightarrow> u32 \<Rightarrow> perf_state \<Rightarrow> bool \<times> perf_state" where
  "perf_optimizer_check_resource_fast env pid resource_type current requested limit s =
     (let s = s\<lparr>g_stats := (g_stats s)\<lparr>total_operations := total_operations (g_stats s) + 1\<rparr>\<rparr>;
          (cached, s) = perf_optimizer_get_cached_resources env pid True s;
          actual = (case cached of
                      None \<Rightarrow> current
                    | Some u \<Rightarrow>
                        if resource_type = 0 then qp_count u
                        else if resource_type = 1 then mr_count u
                        else if resource_type = 2 then ucast (memory_used u div (1024 * 1024))
                        else current);
          allowed = (actual + requested \<le> limit);
          latency = pe_end_ns env - pe_start_ns env;
          st = g_stats s;
          st = st\<lparr>total_latency_ns := total_latency_ns st + latency\<rparr>;
          st = (if latency < min_latency_ns st then st\<lparr>min_latency_ns := latency\<rparr> else st);
          st = (if latency > max_latency_ns st then st\<lparr>max_latency_ns := latency\<rparr> else st);
          st = (if allowed then st\<lparr>allowed_operations := allowed_operations st + 1\<rparr>
                else st\<lparr>denied_operations := denied_operations st + 1\<rparr>)
      in (allowed, s\<lparr>g_stats := st\<rparr>))"

definition perf_optimizer_prefetch_resources :: "perf_env \<Rightarrow> pid_t \<Rightarrow> perf_state \<Rightarrow> perf_state" where
  "perf_optimizer_prefetch_resources env pid s =
     (case shm_get_process_resources pid True (perf_shm s) of
        (rc, u) \<Rightarrow> if rc = 0 then perf_optimizer_update_cached_resources env pid u s else s)"

definition perf_optimizer_adaptive_adjust :: "perf_state \<Rightarrow> perf_state" where
  "perf_optimizer_adaptive_adjust s =
     (let hits = cache_hits (g_stats s); total = hits + cache_misses (g_stats s); ttl = ttl_ms (g_cache s)
      in if total < 100 then s
         else if 2 * unat hits < unat total \<and> ttl > 50
           then s\<lparr>g_cache := (g_cache s)\<lparr>ttl_ms := ttl - 10\<rparr>\<rparr>
         else if 10 * unat hits > 9 * unat total \<and> ttl < 500
           then s\<lparr>g_cache := (g_cache s)\<lparr>ttl_ms := ttl + 10\<rparr>\<rparr>
         else s)"

text \<open>One turn of the flush thread, with its counter of turns (the interval is slept first).\<close>

definition flush_thread_turn :: "perf_env \<Rightarrow> nat \<Rightarrow> perf_state \<Rightarrow> nat \<times> perf_state" where
  "flush_thread_turn env n s =
     (if \<not> perf_running s then (n, s)
      else
        let s = (if g_batching_enabled s then perf_optimizer_flush_batch_buffer env s else s)
        in if n + 1 \<ge> 100 then (0, perf_optimizer_adaptive_adjust s) else (n + 1, s))"

definition flush_interval :: "perf_state \<Rightarrow> u32" where
  "flush_interval s = (let i = flush_interval_ms (g_batch_buffer s) in if i < 10 then 10 else i)"

end
