(* ===== verification/Perf_Spec.thy ===== *)
theory Perf_Spec
  imports Perf_Opt
begin

text \<open>
  The properties of the performance optimiser: the invariant of its state under every sequence
  of calls, what a cache hit returns, the decision and the statistics of the fast check, and
  the way a batched update reaches the process table.
\<close>

section \<open>Invariant\<close>

text \<open>The pids whose updates are pending.\<close>

definition pending_pids :: "batch_buffer \<Rightarrow> pid_t list" where
  "pending_pids b = take (bb_count b) (bb_pids b)"

definition cache_wf :: "resource_cache \<Rightarrow> bool" where
  "cache_wf c \<longleftrightarrow> length (cache_entries c) = CACHE_BUCKET_COUNT
     \<and> (\<forall>i<CACHE_BUCKET_COUNT. ent_valid (cache_entries c ! i) \<longrightarrow> hash_pid (ent_pid (cache_entries c ! i)) = i)
     \<and> 10 \<le> ttl_ms c \<and> ttl_ms c \<le> 10000"

definition batch_wf :: "batch_buffer \<Rightarrow> bool" where
  "batch_wf b \<longleftrightarrow> length (bb_pids b) = CACHE_BUCKET_COUNT \<and> length (pending_updates b) = CACHE_BUCKET_COUNT
     \<and> bb_count b \<le> CACHE_BUCKET_COUNT \<and> distinct (pending_pids b)
     \<and> 10 \<le> flush_interval_ms b \<and> flush_interval_ms b \<le> 1000"

definition stats_wf :: "perf_optimizer_stats \<Rightarrow> bool" where
  "stats_wf t \<longleftrightarrow> allowed_operations t + denied_operations t = total_operations t"

definition perf_wf :: "perf_state \<Rightarrow> bool" where
  "perf_wf s \<longleftrightarrow> cache_wf (g_cache s) \<and> batch_wf (g_batch_buffer s) \<and> stats_wf (g_stats s)"

lemmas perf_wf_defs = perf_wf_def cache_wf_def batch_wf_def stats_wf_def

lemma hash_pid_less: "hash_pid pid < CACHE_BUCKET_COUNT"
  by (simp add: hash_pid_def CACHE_BUCKET_COUNT_def)

lemma cache_wf_update:
  "cache_wf c \<Longrightarrow> (ent_valid y \<longrightarrow> hash_pid (ent_pid y) = i) \<Longrightarrow>
   cache_wf (c\<lparr>cache_entries := (cache_entries c)[i := y]\<rparr>)"
  by (cases "i < CACHE_BUCKET_COUNT") (auto simp: cache_wf_def nth_list_update list_update_beyond)

lemma upd_entry_wf:
  assumes "perf_wf s"
    and "ent_valid (f (cache_entries (g_cache s) ! i)) \<longrightarrow> hash_pid (ent_pid (f (cache_entries (g_cache s) ! i))) = i"
  shows "perf_wf (upd_entry i f s)"
  using assms cache_wf_update [of "g_cache s"] by (simp add: perf_wf_def upd_entry_def)

lemma count_wf: "perf_wf s \<Longrightarrow> perf_wf (count_miss s)" "perf_wf s \<Longrightarrow> perf_wf (count_hit s)"
  by (simp_all add: perf_wf_defs count_miss_def count_hit_def)

lemma get_cached_wf: "perf_wf s \<Longrightarrow> perf_wf (snd (perf_optimizer_get_cached_resources env pid h s))"
  by (simp add: perf_optimizer_get_cached_resources_def Let_def count_wf upd_entry_wf)

lemma update_cached_wf: "perf_wf s \<Longrightarrow> perf_wf (perf_optimizer_update_cached_resources env pid u s)"
  by (simp add: perf_optimizer_update_cached_resources_def upd_entry_wf split: option.split)

lemma invalidate_wf: "perf_wf s \<Longrightarrow> perf_wf (perf_optimizer_invalidate_cache pid s)"
proof -
  assume w: "perf_wf s"
  then have "ent_valid (cache_entries (g_cache s) ! hash_pid pid) \<longrightarrow>
      hash_pid (ent_pid (cache_entries (g_cache s) ! hash_pid pid)) = hash_pid pid"
    using hash_pid_less by (simp add: perf_wf_def cache_wf_def)
  with w show ?thesis by (simp add: perf_optimizer_invalidate_cache_def upd_entry_wf)
qed

lemma clear_cache_wf: "perf_wf s \<Longrightarrow> perf_wf (perf_optimizer_clear_cache s)"
  by (simp add: perf_wf_defs perf_optimizer_clear_cache_def)

lemma flush_wf: "perf_wf s \<Longrightarrow> perf_wf (perf_optimizer_flush_batch_buffer env s)"
  by (simp add: perf_wf_defs perf_optimizer_flush_batch_buffer_def Let_def pending_pids_def)

lemma flush_empties: "bb_count (g_batch_buffer (perf_optimizer_flush_batch_buffer env s)) = 0"
  by (simp add: perf_optimizer_flush_batch_buffer_def Let_def)

text \<open>The three ways an update enters the buffer.\<close>

lemma batch_merge_wf: "batch_wf b \<Longrightarrow> batch_wf (b\<lparr>pending_updates := (pending_updates b)[i := u]\<rparr>)"
  by (simp add: batch_wf_def pending_pids_def)

lemma take_update_Suc: "n < length xs \<Longrightarrow> take (Suc n) (xs[n := x]) = take n xs @ [x]"
  by (simp add: take_Suc_conv_app_nth)

lemma batch_add_wf:
  assumes "batch_wf b" "bb_count b < CACHE_BUCKET_COUNT" "find_slot (\<lambda>p. p = pid) (pending_pids b) = None"
  shows "batch_wf (b\<lparr>bb_pids := (bb_pids b)[bb_count b := pid],
           pending_updates := (pending_updates b)[bb_count b := u], bb_count := bb_count b + 1\<rparr>)"
  using assms by (auto simp: batch_wf_def pending_pids_def take_update_Suc find_slot_None_iff)

lemma batch_retry_wf: "batch_wf b \<Longrightarrow> batch_wf (batch_retry pid u b)"
  using take_update_Suc [of 0 "bb_pids b" pid]
  by (simp add: batch_wf_def pending_pids_def batch_retry_def CACHE_BUCKET_COUNT_def)

lemma batch_update_wf:
  assumes w: "perf_wf s"
  shows "perf_wf (snd (perf_optimizer_batch_update_resource env pid u s))"
proof (cases "g_batching_enabled s \<and> u \<noteq> None")
  case False
  then have "snd (perf_optimizer_batch_update_resource env pid u s) =
      s\<lparr>perf_shm := snd (shm_update_process_resources (pe_shm env 0) pid u (perf_shm s))\<rparr>"
    by (auto simp: perf_optimizer_batch_update_resource_def split: prod.split bool.split option.split)
  with w show ?thesis by (simp add: perf_wf_def)
next
  case True
  then obtain v where v: "u = Some v" and b: "g_batching_enabled s" by auto
  let ?b = "g_batch_buffer s"
  have put: "perf_wf (s'\<lparr>g_stats := (g_stats s')\<lparr>batched_updates := n\<rparr>\<rparr>)" if "perf_wf s'" for s' n
    using that by (simp add: perf_wf_def stats_wf_def)
  have set_batch: "perf_wf (s'\<lparr>g_batch_buffer := b'\<rparr>)" if "perf_wf s'" "batch_wf b'" for s' b'
    using that by (simp add: perf_wf_def)
  from w have wb: "batch_wf ?b" by (simp add: perf_wf_def)
  from flush_wf [OF w, of env]
  have wf': "batch_wf (g_batch_buffer (perf_optimizer_flush_batch_buffer env s))" by (simp add: perf_wf_def)
  show ?thesis
  proof (cases "find_slot (\<lambda>p. p = pid) (pending_pids ?b)")
    case None
    then show ?thesis
      using b v w wb batch_add_wf [OF wb _ None, of v] flush_wf [OF w, of env] wf'
      by (simp add: perf_optimizer_batch_update_resource_def pending_pids_def Let_def put
          update_cached_wf set_batch batch_retry_wf)
  next
    case (Some i)
    then show ?thesis using b v w wb
      by (simp add: perf_optimizer_batch_update_resource_def pending_pids_def Let_def put
          update_cached_wf set_batch batch_merge_wf)
  qed
qed

lemma fast_check_allowed:
  "fst (perf_optimizer_check_resource_fast env pid t cur req lim s) \<longleftrightarrow>
     (case fst (perf_optimizer_get_cached_resources env pid True s) of
        None \<Rightarrow> cur
      | Some u \<Rightarrow> if t = 0 then qp_count u else if t = 1 then mr_count u
                  else if t = 2 then ucast (memory_used u div (1024 * 1024)) else cur) + req \<le> lim"
  by (simp add: perf_optimizer_check_resource_fast_def perf_optimizer_get_cached_resources_def Let_def
      split: option.split)

text \<open>The parts of the state a look-up leaves alone.\<close>

lemma get_cached_frame [frame_simps]:
  "g_batch_buffer (snd (perf_optimizer_get_cached_resources env pid h s)) = g_batch_buffer s"
  "total_operations (g_stats (snd (perf_optimizer_get_cached_resources env pid h s))) = total_operations (g_stats s)"
  "allowed_operations (g_stats (snd (perf_optimizer_get_cached_resources env pid h s))) = allowed_operations (g_stats s)"
  "denied_operations (g_stats (snd (perf_optimizer_get_cached_resources env pid h s))) = denied_operations (g_stats s)"
  by (simp_all add: perf_optimizer_get_cached_resources_def count_miss_def count_hit_def upd_entry_def Let_def)

lemma get_cached_cache:
  "g_cache s = g_cache s' \<Longrightarrow> g_cache_enabled s = g_cache_enabled s' \<Longrightarrow>
   g_cache (snd (perf_optimizer_get_cached_resources env pid h s)) =
   g_cache (snd (perf_optimizer_get_cached_resources env pid h s'))
   \<and> fst (perf_optimizer_get_cached_resources env pid h s) = fst (perf_optimizer_get_cached_resources env pid h s')"
  by (simp add: perf_optimizer_get_cached_resources_def count_miss_def count_hit_def upd_entry_def Let_def)

text \<open>The state after the fast check: the look-up's state with the statistics of one decision.\<close>

definition one_more :: "perf_state \<Rightarrow> perf_state" where
  "one_more s = s\<lparr>g_stats := (g_stats s)\<lparr>total_operations := total_operations (g_stats s) + 1\<rparr>\<rparr>"

lemma fast_check_stats:
  fixes env :: perf_env and pid :: pid_t and k :: int and cur req lim :: u32 and s :: perf_state
  defines "r \<equiv> perf_optimizer_check_resource_fast env pid k cur req lim s"
    and "s' \<equiv> snd (perf_optimizer_get_cached_resources env pid True (one_more s))"
    and "t \<equiv> g_stats (snd (perf_optimizer_check_resource_fast env pid k cur req lim s))"
  shows "snd r = s'\<lparr>g_stats := t\<rparr>
     \<and> total_operations t = total_operations (g_stats s')
     \<and> (if fst r then allowed_operations t = allowed_operations (g_stats s') + 1
             \<and> denied_operations t = denied_operations (g_stats s')
        else denied_operations t = denied_operations (g_stats s') + 1
             \<and> allowed_operations t = allowed_operations (g_stats s'))"
  unfolding r_def s'_def t_def perf_optimizer_check_resource_fast_def one_more_def [symmetric]
  by (cases "perf_optimizer_get_cached_resources env pid True (one_more s)")
     (simp add: Let_def)

lemma fast_check_wf:
  assumes w: "perf_wf s"
  shows "perf_wf (snd (perf_optimizer_check_resource_fast env pid r cur req lim s))"
proof -
  let ?s = "snd (perf_optimizer_get_cached_resources env pid True (one_more s))"
  let ?t = "snd (perf_optimizer_get_cached_resources env pid True s)"
  have c: "g_cache ?s = g_cache ?t"
    using get_cached_cache [of "one_more s" s env pid True] by (simp add: one_more_def)
  have b: "g_batch_buffer ?s = g_batch_buffer ?t" by (simp add: frame_simps one_more_def)
  have "perf_wf ?t" by (rule get_cached_wf [OF w])
  then have cb: "cache_wf (g_cache ?s)" "batch_wf (g_batch_buffer ?s)" by (simp_all add: c b perf_wf_def)
  obtain t where t: "snd (perf_optimizer_check_resource_fast env pid r cur req lim s) = ?s\<lparr>g_stats := t\<rparr>"
    "total_operations t = total_operations (g_stats ?s)"
    "allowed_operations t + denied_operations t =
       allowed_operations (g_stats ?s) + denied_operations (g_stats ?s) + 1"
    using fast_check_stats [of env pid r cur req lim s] that by (fastforce split: if_splits)
  have "stats_wf t"
    using w t(2,3) by (simp add: stats_wf_def perf_wf_def frame_simps one_more_def)
  with cb show ?thesis by (simp add: perf_wf_def t(1))
qed

lemma set_ttl_wf: "perf_wf s \<Longrightarrow> perf_wf (perf_optimizer_set_cache_ttl t s)"
  by (simp add: perf_wf_defs perf_optimizer_set_cache_ttl_def Let_def not_less)

lemma set_interval_wf: "perf_wf s \<Longrightarrow> perf_wf (perf_optimizer_set_batch_interval t s)"
  by (simp add: perf_wf_defs perf_optimizer_set_batch_interval_def Let_def not_less pending_pids_def)

lemma enable_wf:
  "perf_wf s \<Longrightarrow> perf_wf (perf_optimizer_enable_cache b s)"
  "perf_wf s \<Longrightarrow> perf_wf (perf_optimizer_enable_batching b s)"
  by (simp_all add: perf_wf_def perf_optimizer_enable_cache_def perf_optimizer_enable_batching_def)

lemma reset_stats_wf: "perf_wf s \<Longrightarrow> perf_wf (perf_optimizer_reset_stats env s)"
  by (simp add: perf_wf_defs perf_optimizer_reset_stats_def zero_stats_def)

lemma prefetch_wf: "perf_wf s \<Longrightarrow> perf_wf (perf_optimizer_prefetch_resources env pid s)"
  by (simp add: perf_optimizer_prefetch_resources_def update_cached_wf split: prod.split)

lemma adaptive_ttl:
  fixes t :: u32
  shows "50 < t \<Longrightarrow> t \<le> 10000 \<Longrightarrow> 10 \<le> t - 10 \<and> t - 10 \<le> 10000"
    and "10 \<le> t \<Longrightarrow> t < 500 \<Longrightarrow> 10 \<le> t + 10 \<and> t + 10 \<le> 10000"
proof -
  assume t: "50 < t" "t \<le> 10000"
  then have "unat (t - 10) = unat t - 10" by (simp add: unat_sub word_le_nat_alt word_less_nat_alt)
  with t show "10 \<le> t - 10 \<and> t - 10 \<le> 10000"
    by (simp add: word_le_nat_alt word_less_nat_alt) arith
next
  assume t: "10 \<le> t" "t < 500"
  then have "unat (t + 10) = unat t + 10" by (simp add: unat_word_ariths word_less_nat_alt)
  with t show "10 \<le> t + 10 \<and> t + 10 \<le> 10000" by (simp add: word_le_nat_alt word_less_nat_alt)
qed

lemma cache_wf_ttl: "cache_wf c \<Longrightarrow> 10 \<le> t \<Longrightarrow> t \<le> 10000 \<Longrightarrow> cache_wf (c\<lparr>ttl_ms := t\<rparr>)"
  by (simp add: cache_wf_def)

lemma adaptive_wf: "perf_wf s \<Longrightarrow> perf_wf (perf_optimizer_adaptive_adjust s)"
  by (simp add: perf_optimizer_adaptive_adjust_def Let_def perf_wf_def cache_wf_ttl adaptive_ttl
      cache_wf_def [THEN iffD1])

lemma init_wf: "perf_wf (snd (perf_optimizer_init env s))"
  by (simp add: perf_wf_defs perf_optimizer_init_def zero_entry_def zero_stats_def pending_pids_def
      CACHE_BUCKET_COUNT_def Let_def)

text \<open>A call of the interface, with the turns of the flush thread, and its effect.\<close>

datatype perf_call =
    PerfInit perf_env
  | PerfCleanup perf_env
  | PerfGet perf_env pid_t
  | PerfUpdate perf_env pid_t "resource_usage option"
  | PerfInvalidate pid_t
  | PerfClear
  | PerfBatch perf_env pid_t "resource_usage option"
  | PerfFlush perf_env
  | PerfTtl u32
  | PerfInterval u32
  | PerfCache bool
  | PerfBatching bool
  | PerfReset perf_env
  | PerfCheck perf_env pid_t int u32 u32 u32
  | PerfPrefetch perf_env pid_t
  | PerfAdaptive
  | PerfTurn perf_env nat

fun perf_exec :: "perf_call \<Rightarrow> perf_state \<Rightarrow> perf_state" where
  "perf_exec (PerfInit env) s = snd (perf_optimizer_init env s)"
| "perf_exec (PerfCleanup env) s = perf_optimizer_cleanup env s"
| "perf_exec (PerfGet env pid) s = snd (perf_optimizer_get_cached_resources env pid True s)"
| "perf_exec (PerfUpdate env pid u) s = perf_optimizer_update_cached_resources env pid u s"
| "perf_exec (PerfInvalidate pid) s = perf_optimizer_invalidate_cache pid s"
| "perf_exec PerfClear s = perf_optimizer_clear_cache s"
| "perf_exec (PerfBatch env pid u) s = snd (perf_optimizer_batch_update_resource env pid u s)"
| "perf_exec (PerfFlush env) s = perf_optimizer_flush_batch_buffer env s"
| "perf_exec (PerfTtl t) s = perf_optimizer_set_cache_ttl t s"
| "perf_exec (PerfInterval t) s = perf_optimizer_set_batch_interval t s"
| "perf_exec (PerfCache b) s = perf_optimizer_enable_cache b s"
| "perf_exec (PerfBatching b) s = perf_optimizer_enable_batching b s"
| "perf_exec (PerfReset env) s = perf_optimizer_reset_stats env s"
| "perf_exec (PerfCheck env pid t c r l) s = snd (perf_optimizer_check_resource_fast env pid t c r l s)"
| "perf_exec (PerfPrefetch env pid) s = perf_optimizer_prefetch_resources env pid s"
| "perf_exec PerfAdaptive s = perf_optimizer_adaptive_adjust s"
| "perf_exec (PerfTurn env n) s = snd (flush_thread_turn env n s)"

lemma cleanup_wf: "perf_wf s \<Longrightarrow> perf_wf (perf_optimizer_cleanup env s)"
  unfolding perf_optimizer_cleanup_def by (rule flush_wf) (simp add: perf_wf_def)

lemma turn_wf: "perf_wf s \<Longrightarrow> perf_wf (snd (flush_thread_turn env n s))"
  by (simp add: flush_thread_turn_def Let_def flush_wf adaptive_wf)

lemma perf_exec_wf: "perf_wf s \<Longrightarrow> perf_wf (perf_exec c s)"
  by (cases c) (simp_all add: init_wf cleanup_wf get_cached_wf update_cached_wf invalidate_wf clear_cache_wf
      batch_update_wf flush_wf set_ttl_wf set_interval_wf enable_wf reset_stats_wf fast_check_wf
      prefetch_wf adaptive_wf turn_wf)

text \<open>
  C20 (the invariant of the optimiser). After initialisation, whatever calls follow and whatever
  the clocks say: the cache keeps an entry only in the bucket of its process, the buffer holds at
  most 256 pending updates of distinct processes, the time to live stays between 10 and 10000
  and the flush interval between 10 and 1000 milliseconds, also under the adaptive change, and
  every fast check is counted once, as allowed or as denied.
\<close>

theorem perf_state_invariant:
  "perf_wf (fold perf_exec calls (snd (perf_optimizer_init env s)))"
  by (rule fold_invariant [where P = perf_wf]) (simp_all add: init_wf perf_exec_wf)

section \<open>Cache\<close>

text \<open>What the cache answers at time \<open>t\<close>.\<close>

definition cache_view :: "u64 \<Rightarrow> perf_state \<Rightarrow> pid_t \<Rightarrow> resource_usage option" where
  "cache_view t s pid =
     (let e = cache_entries (g_cache s) ! hash_pid pid
      in if g_cache_enabled s \<and> ent_valid e \<and> ent_pid e = pid
            \<and> t - ent_last_update e \<le> ucast (ttl_ms (g_cache s))
         then Some (ent_usage e) else None)"

lemma get_cached_view:
  "fst (perf_optimizer_get_cached_resources env pid True s) = cache_view (pe_ms env) s pid"
  by (auto simp: perf_optimizer_get_cached_resources_def cache_view_def Let_def not_less)

text \<open>
  The history of the cache: for each process the last usage that a call put in the cache and
  when, forgotten by an invalidation, a clearing or a new initialisation.
\<close>

type_synonym cache_history = "pid_t \<Rightarrow> (resource_usage \<times> u64) option"

fun record_call :: "perf_call \<Rightarrow> perf_state \<Rightarrow> cache_history \<Rightarrow> cache_history" where
  "record_call (PerfUpdate env pid (Some u)) s h =
     (if g_cache_enabled s then h(pid \<mapsto> (u, pe_ms env)) else h)"
| "record_call (PerfBatch env pid (Some u)) s h =
     (if g_batching_enabled s \<and> g_cache_enabled s then h(pid \<mapsto> (u, pe_ms env)) else h)"
| "record_call (PerfPrefetch env pid) s h =
     (case shm_get_process_resources pid True (perf_shm s) of
        (rc, Some u) \<Rightarrow> if rc = 0 \<and> g_cache_enabled s then h(pid \<mapsto> (u, pe_ms env)) else h
      | _ \<Rightarrow> h)"
| "record_call (PerfInvalidate pid) s h = h(pid := None)"
| "record_call PerfClear s h = Map.empty"
| "record_call (PerfInit env) s h = Map.empty"
| "record_call _ s h = h"

fun recorded :: "perf_call list \<Rightarrow> perf_state \<Rightarrow> cache_history \<Rightarrow> perf_state \<times> cache_history" where
  "recorded [] s h = (s, h)"
| "recorded (c # cs) s h = recorded cs (perf_exec c s) (record_call c s h)"

definition coherent :: "resource_cache \<Rightarrow> cache_history \<Rightarrow> bool" where
  "coherent c h \<longleftrightarrow> (\<forall>i<CACHE_BUCKET_COUNT. ent_valid (cache_entries c ! i) \<longrightarrow>
     h (ent_pid (cache_entries c ! i)) = Some (ent_usage (cache_entries c ! i), ent_last_update (cache_entries c ! i)))"

lemma coherentI:
  assumes "\<And>i. i < CACHE_BUCKET_COUNT \<Longrightarrow> ent_valid (cache_entries c ! i) \<Longrightarrow>
    h (ent_pid (cache_entries c ! i)) = Some (ent_usage (cache_entries c ! i), ent_last_update (cache_entries c ! i))"
  shows "coherent c h"
  using assms by (simp add: coherent_def)

lemma coherentD:
  "coherent c h \<Longrightarrow> i < CACHE_BUCKET_COUNT \<Longrightarrow> ent_valid (cache_entries c ! i) \<Longrightarrow>
   h (ent_pid (cache_entries c ! i)) = Some (ent_usage (cache_entries c ! i), ent_last_update (cache_entries c ! i))"
  by (simp add: coherent_def)

lemma coherent_put:
  assumes w: "cache_wf c" and h: "coherent c h"
    and e: "ent_pid e = pid" "ent_usage e = u" "ent_last_update e = t"
  shows "coherent (c\<lparr>cache_entries := (cache_entries c)[hash_pid pid := e]\<rparr>) (h(pid \<mapsto> (u, t)))"
proof (rule coherentI, goal_cases)
  case (1 i)
  show ?case
  proof (cases "i = hash_pid pid")
    case True
    with w e 1 show ?thesis by (simp add: cache_wf_def)
  next
    case False
    with w h 1 show ?thesis by (auto simp: cache_wf_def coherent_def)
  qed
qed

text \<open>Entries may lose their validity, and a process all of whose entries are invalid may be forgotten.\<close>

lemma coherent_drop:
  assumes h: "coherent c h" and l: "length (cache_entries c') = length (cache_entries c)"
    and k: "\<And>i. i < CACHE_BUCKET_COUNT \<Longrightarrow> ent_valid (cache_entries c' ! i) \<Longrightarrow>
      cache_entries c' ! i = cache_entries c ! i \<and> h' (ent_pid (cache_entries c ! i)) = h (ent_pid (cache_entries c ! i))"
  shows "coherent c' h'"
proof (rule coherentI, goal_cases)
  case (1 i)
  from k [OF 1] 1 h show ?case by (simp add: coherent_def)
qed

lemma coherent_expire:
  assumes w: "cache_wf c" and h: "coherent c h"
  shows "coherent (c\<lparr>cache_entries := (cache_entries c)[i := e\<lparr>ent_valid := False\<rparr>]\<rparr>) h"
proof (rule coherent_drop [OF h])
  fix j
  assume "j < CACHE_BUCKET_COUNT"
    "ent_valid (cache_entries (c\<lparr>cache_entries := (cache_entries c)[i := e\<lparr>ent_valid := False\<rparr>]\<rparr>) ! j)"
  with w show "cache_entries (c\<lparr>cache_entries := (cache_entries c)[i := e\<lparr>ent_valid := False\<rparr>]\<rparr>) ! j = cache_entries c ! j
    \<and> h (ent_pid (cache_entries c ! j)) = h (ent_pid (cache_entries c ! j))"
    by (cases "i = j") (simp_all add: cache_wf_def)
qed simp

lemma coherent_entries: "cache_entries c' = cache_entries c \<Longrightarrow> coherent c' h = coherent c h"
  by (simp add: coherent_def)

lemma get_cached_coherent:
  assumes "perf_wf s" "coherent (g_cache s) h"
  shows "coherent (g_cache (snd (perf_optimizer_get_cached_resources env pid b s))) h"
  using assms coherent_expire [of "g_cache s" h]
  by (simp add: perf_optimizer_get_cached_resources_def Let_def count_miss_def count_hit_def upd_entry_def
      perf_wf_def coherent_def)

lemma update_cached_coherent:
  assumes "perf_wf s" "coherent (g_cache s) h"
  shows "coherent (g_cache (perf_optimizer_update_cached_resources env pid (Some u) s))
           (if g_cache_enabled s then h(pid \<mapsto> (u, pe_ms env)) else h)"
  using assms coherent_put [of "g_cache s" h]
  by (simp add: perf_optimizer_update_cached_resources_def upd_entry_def perf_wf_def)

lemma update_cached_coherent_on:
  "perf_wf s \<Longrightarrow> coherent (g_cache s) h \<Longrightarrow> g_cache_enabled s \<Longrightarrow>
   coherent (g_cache (perf_optimizer_update_cached_resources env pid (Some u) s)) (h(pid \<mapsto> (u, pe_ms env)))"
  "perf_wf s \<Longrightarrow> coherent (g_cache s) h \<Longrightarrow> \<not> g_cache_enabled s \<Longrightarrow>
   coherent (g_cache (perf_optimizer_update_cached_resources env pid (Some u) s)) h"
  using update_cached_coherent [of s h env pid u] by simp_all

lemma invalidate_coherent:
  assumes w: "perf_wf s" and h: "coherent (g_cache s) h"
  shows "coherent (g_cache (perf_optimizer_invalidate_cache pid s)) (h(pid := None))"
proof (rule coherent_drop [OF h])
  show "length (cache_entries (g_cache (perf_optimizer_invalidate_cache pid s))) = length (cache_entries (g_cache s))"
    by (simp add: perf_optimizer_invalidate_cache_def upd_entry_def)
  fix i
  assume i: "i < CACHE_BUCKET_COUNT" "ent_valid (cache_entries (g_cache (perf_optimizer_invalidate_cache pid s)) ! i)"
  then show "cache_entries (g_cache (perf_optimizer_invalidate_cache pid s)) ! i = cache_entries (g_cache s) ! i
    \<and> (h(pid := None)) (ent_pid (cache_entries (g_cache s) ! i)) = h (ent_pid (cache_entries (g_cache s) ! i))"
    using w by (cases "i = hash_pid pid")
      (auto simp: perf_optimizer_invalidate_cache_def upd_entry_def perf_wf_def cache_wf_def split: if_splits)
qed

lemma flush_cache [frame_simps]:
  "g_cache (perf_optimizer_flush_batch_buffer env s) = g_cache s"
  "g_cache_enabled (perf_optimizer_flush_batch_buffer env s) = g_cache_enabled s"
  by (simp_all add: perf_optimizer_flush_batch_buffer_def Let_def)

lemma quiet_entries [frame_simps]:
  "cache_entries (g_cache (perf_optimizer_set_cache_ttl t s)) = cache_entries (g_cache s)"
  "cache_entries (g_cache (perf_optimizer_set_batch_interval t s)) = cache_entries (g_cache s)"
  "cache_entries (g_cache (perf_optimizer_enable_cache b s)) = cache_entries (g_cache s)"
  "cache_entries (g_cache (perf_optimizer_enable_batching b s)) = cache_entries (g_cache s)"
  "cache_entries (g_cache (perf_optimizer_reset_stats env s)) = cache_entries (g_cache s)"
  "cache_entries (g_cache (perf_optimizer_adaptive_adjust s)) = cache_entries (g_cache s)"
  "cache_entries (g_cache (perf_optimizer_cleanup env s)) = cache_entries (g_cache s)"
  by (simp_all add: perf_optimizer_set_cache_ttl_def perf_optimizer_set_batch_interval_def Let_def
      perf_optimizer_enable_cache_def perf_optimizer_enable_batching_def perf_optimizer_reset_stats_def
      perf_optimizer_adaptive_adjust_def perf_optimizer_cleanup_def frame_simps)

lemma turn_entries [frame_simps]:
  "cache_entries (g_cache (snd (flush_thread_turn env n s))) = cache_entries (g_cache s)"
  by (simp add: flush_thread_turn_def Let_def frame_simps)

text \<open>The cache after a batched update is the cache after the plain cache update.\<close>

lemma batch_cache:
  "g_cache (snd (perf_optimizer_batch_update_resource env pid (Some u) s)) =
     (if g_batching_enabled s then g_cache (perf_optimizer_update_cached_resources env pid (Some u) s)
      else g_cache s)"
  by (simp add: perf_optimizer_batch_update_resource_def perf_optimizer_update_cached_resources_def
      upd_entry_def Let_def frame_simps split: option.split prod.split)

lemma batch_None: "g_cache (snd (perf_optimizer_batch_update_resource env pid None s)) = g_cache s"
  by (simp add: perf_optimizer_batch_update_resource_def split: prod.split bool.split)

lemma fast_check_cache:
  "g_cache (snd (perf_optimizer_check_resource_fast env pid r c q l s)) =
   g_cache (snd (perf_optimizer_get_cached_resources env pid True s))"
proof -
  have "g_cache (snd (perf_optimizer_check_resource_fast env pid r c q l s)) =
      g_cache (snd (perf_optimizer_get_cached_resources env pid True (one_more s)))"
    by (subst conjunct1 [OF fast_check_stats]) simp
  then show ?thesis using get_cached_cache [of "one_more s" s env pid True] by (simp add: one_more_def)
qed

lemma get_process_Some:
  "fst (shm_get_process_resources pid True m) = 0 \<Longrightarrow> snd (shm_get_process_resources pid True m) \<noteq> None"
  by (auto simp: shm_get_process_resources_def split: option.splits)

lemma step_coherent:
  assumes w: "perf_wf s" and h: "coherent (g_cache s) h"
  shows "coherent (g_cache (perf_exec c s)) (record_call c s h)"
proof (cases c)
  case (PerfUpdate env pid u)
  with w h show ?thesis
    by (cases u) (simp_all add: update_cached_coherent_on, simp add: perf_optimizer_update_cached_resources_def)
next
  case (PerfBatch env pid u)
  with w h show ?thesis
    by (cases u) (simp_all add: batch_cache batch_None update_cached_coherent_on)
next
  case (PerfPrefetch env pid)
  with w h get_process_Some [of pid "perf_shm s"] show ?thesis
    by (cases "shm_get_process_resources pid True (perf_shm s)")
       (auto simp: perf_optimizer_prefetch_resources_def update_cached_coherent_on split: option.split)
next
  case (PerfInvalidate pid)
  with invalidate_coherent [OF w h] show ?thesis by simp
next
  case PerfClear
  with w show ?thesis by (simp add: perf_optimizer_clear_cache_def coherent_def perf_wf_def cache_wf_def)
next
  case (PerfInit env)
  then show ?thesis
    by (simp add: perf_optimizer_init_def coherent_def zero_entry_def CACHE_BUCKET_COUNT_def Let_def)
next
  case (PerfGet env pid)
  with get_cached_coherent [OF w h] show ?thesis by simp
next
  case (PerfCheck env pid r a q l)
  with get_cached_coherent [OF w h] show ?thesis by (simp add: fast_check_cache)
qed (use h in \<open>simp_all add: coherent_def frame_simps\<close>)

lemma recorded_coherent:
  "perf_wf s \<Longrightarrow> coherent (g_cache s) h \<Longrightarrow>
   perf_wf (fst (recorded cs s h)) \<and> coherent (g_cache (fst (recorded cs s h))) (snd (recorded cs s h))"
  by (induction cs arbitrary: s h) (simp_all add: perf_exec_wf step_coherent)

lemma init_coherent: "coherent (g_cache (snd (perf_optimizer_init env s))) Map.empty"
  by (simp add: perf_optimizer_init_def coherent_def zero_entry_def CACHE_BUCKET_COUNT_def Let_def)

text \<open>
  C18 (a cache hit is the last update). After any sequence of calls, a look-up that hits returns
  the usage that the most recent call for this process put in the cache, that nothing has
  invalidated since, and that is not older than the time to live.
\<close>

theorem cache_hit_is_last_update:
  assumes r: "recorded calls (snd (perf_optimizer_init env0 s0)) Map.empty = (s, h)"
    and hit: "fst (perf_optimizer_get_cached_resources env pid True s) = Some u"
  shows "\<exists>t. h pid = Some (u, t) \<and> pe_ms env - t \<le> ucast (ttl_ms (g_cache s)) \<and> g_cache_enabled s"
proof -
  let ?e = "cache_entries (g_cache s) ! hash_pid pid"
  have c: "coherent (g_cache s) h"
    using recorded_coherent [OF init_wf init_coherent, of calls env0 s0] r by simp
  from hit have e: "g_cache_enabled s" "ent_valid ?e" "ent_pid ?e = pid" "ent_usage ?e = u"
    "pe_ms env - ent_last_update ?e \<le> ucast (ttl_ms (g_cache s))"
    by (simp_all add: get_cached_view cache_view_def Let_def split: if_splits)
  with e have "h pid = Some (u, ent_last_update ?e)" using coherentD [OF c hash_pid_less e(2)] by simp
  with e show ?thesis by blast
qed

text \<open>
  Cache write, then read. With the cache on, a usage written to the cache is what the next
  look-up of the process returns as long as the time to live has not passed; a process of another
  bucket reads as before, and another process of the same bucket has lost its entry.
\<close>

theorem cache_update_then_get:
  fixes env :: perf_env and pid :: pid_t and u :: resource_usage and s :: perf_state
  assumes w: "perf_wf s" and on: "g_cache_enabled s"
    and ttl: "pe_ms env' - pe_ms env \<le> ucast (ttl_ms (g_cache s))"
  defines "s' \<equiv> perf_optimizer_update_cached_resources env pid (Some u) s"
  shows "fst (perf_optimizer_get_cached_resources env' pid True s') = Some u
    \<and> (\<forall>q. hash_pid q \<noteq> hash_pid pid \<longrightarrow>
         fst (perf_optimizer_get_cached_resources env' q True s') = fst (perf_optimizer_get_cached_resources env' q True s))
    \<and> (\<forall>q. q \<noteq> pid \<and> hash_pid q = hash_pid pid \<longrightarrow>
         fst (perf_optimizer_get_cached_resources env' q True s') = None)"
  using w on ttl hash_pid_less [of pid]
  by (simp add: s'_def get_cached_view cache_view_def perf_optimizer_update_cached_resources_def upd_entry_def
      Let_def perf_wf_def cache_wf_def)

text \<open>A fresh optimiser, on a table that is not attached.\<close>

definition perf_at :: "u64 \<Rightarrow> perf_env" where
  "perf_at t = \<lparr>pe_ms = t, pe_flush_ms = t, pe_start_ns = 0, pe_end_ns = 7, pe_time = 1, pe_thread_ok = True,
     pe_shm = (\<lambda>_. ok_shm_env)\<rparr>"

definition perf_zero :: "shm_state \<Rightarrow> perf_state" where
  "perf_zero m = \<lparr>g_cache = \<lparr>cache_entries = [], cache_hit_count = 0, cache_miss_count = 0, cache_eviction_count = 0, ttl_ms = 0\<rparr>,
     g_batch_buffer = \<lparr>pending_updates = [], bb_pids = [], bb_count = 0, last_flush = 0, flush_interval_ms = 0\<rparr>,
     g_stats = zero_stats, perf_running = False, g_cache_enabled = True, g_batching_enabled = True, perf_shm = m\<rparr>"

definition perf_fresh :: "shm_state \<Rightarrow> perf_state" where
  "perf_fresh m = snd (perf_optimizer_init (perf_at 0) (perf_zero m))"

lemma perf_fresh_wf: "perf_wf (perf_fresh m)"
  by (simp add: perf_fresh_def init_wf)

lemma perf_fresh_sel:
  "g_cache_enabled (perf_fresh m)" "g_batching_enabled (perf_fresh m)" "ttl_ms (g_cache (perf_fresh m)) = 100"
  "bb_count (g_batch_buffer (perf_fresh m)) = 0" "perf_shm (perf_fresh m) = m"
  by (simp_all add: perf_fresh_def perf_zero_def perf_optimizer_init_def perf_at_def Let_def)

theorem cache_update_then_get_witness:
  "fst (perf_optimizer_get_cached_resources (perf_at 1100) 42 True
     (perf_optimizer_update_cached_resources (perf_at 1000) 42 (Some \<lparr>qp_count = 3, mr_count = 1, memory_used = 4096\<rparr>)
        (perf_fresh shm_start))) = Some \<lparr>qp_count = 3, mr_count = 1, memory_used = 4096\<rparr>"
  by (rule cache_update_then_get [THEN conjunct1]) (simp_all add: perf_fresh_wf perf_fresh_sel perf_at_def)

text \<open>The run of the previous example, with its history.\<close>

lemma demo_recorded:
  "recorded [PerfUpdate (perf_at 1000) 42 (Some zero_usage)] (snd (perf_optimizer_init (perf_at 0) (perf_zero shm_start))) Map.empty
   = (perf_optimizer_update_cached_resources (perf_at 1000) 42 (Some zero_usage) (perf_fresh shm_start),
      [42 \<mapsto> (zero_usage, 1000)])"
  using perf_fresh_sel [of shm_start] by (simp add: perf_fresh_def perf_at_def)

lemma demo_hit:
  "fst (perf_optimizer_get_cached_resources (perf_at 1100) 42 True
     (perf_optimizer_update_cached_resources (perf_at 1000) 42 (Some zero_usage) (perf_fresh shm_start))) = Some zero_usage"
  using hash_pid_less [of 42] perf_fresh_wf [of shm_start]
  by (simp add: get_cached_view cache_view_def perf_optimizer_update_cached_resources_def upd_entry_def perf_at_def
      Let_def perf_fresh_sel perf_wf_def cache_wf_def)

theorem cache_hit_is_last_update_witness:
  "\<exists>t. [42 \<mapsto> (zero_usage, 1000 :: u64)] (42 :: pid_t) = Some (zero_usage, t) \<and> 1100 - t \<le> 100"
  using cache_hit_is_last_update [OF demo_recorded demo_hit] by (simp add: perf_at_def)

section \<open>The fast check\<close>

lemma unat_plus32: "unat (a :: u32) + unat b < 4294967296 \<Longrightarrow> unat (a + b) = unat a + unat b"
  by (simp add: unat_word_ariths)

text \<open>The usage the check compares: the cached one if the cache has it, else the caller's.\<close>

definition checked_usage :: "int \<Rightarrow> u32 \<Rightarrow> resource_usage option \<Rightarrow> u32" where
  "checked_usage r cur c =
     (case c of None \<Rightarrow> cur
      | Some u \<Rightarrow> if r = 0 then qp_count u else if r = 1 then mr_count u
                  else if r = 2 then ucast (memory_used u div (1024 * 1024)) else cur)"

text \<open>
  The decision of the fast check. The check admits a request exactly when the usage it
  looks at plus the request does not exceed the limit, as long as the sum fits in 32 bits; the
  usage is the cached one whenever the cache has a fresh entry, even when the caller passes
  another current value; each check counts one operation, allowed or denied.
\<close>

theorem fast_check_decision:
  fixes env :: perf_env and pid :: pid_t and k :: int and cur req lim :: u32 and s :: perf_state
  defines "r \<equiv> perf_optimizer_check_resource_fast env pid k cur req lim s"
    and "a \<equiv> checked_usage k cur (cache_view (pe_ms env) s pid)"
  assumes fits: "unat a + unat req < 4294967296"
  shows "(fst r \<longleftrightarrow> unat a + unat req \<le> unat lim)
    \<and> total_operations (g_stats (snd r)) = total_operations (g_stats s) + 1
    \<and> (if fst r then allowed_operations (g_stats (snd r)) = allowed_operations (g_stats s) + 1
                     \<and> denied_operations (g_stats (snd r)) = denied_operations (g_stats s)
          else denied_operations (g_stats (snd r)) = denied_operations (g_stats s) + 1
                     \<and> allowed_operations (g_stats (snd r)) = allowed_operations (g_stats s))"
proof -
  have d: "fst r \<longleftrightarrow> unat a + unat req \<le> unat lim"
    using unat_plus32 [OF fits]
    by (simp add: r_def fast_check_allowed get_cached_view a_def checked_usage_def word_le_nat_alt)
  note st = fast_check_stats [of env pid k cur req lim s, folded r_def]
  from st show ?thesis by (simp add: frame_simps one_more_def flip: d)
qed

text \<open>A process that has three of at most three queue pairs, by its cached usage.\<close>

theorem fast_check_decision_witness:
  "\<not> fst (perf_optimizer_check_resource_fast (perf_at 1100) 42 0 0 1 3
     (perf_optimizer_update_cached_resources (perf_at 1000) 42 (Some \<lparr>qp_count = 3, mr_count = 1, memory_used = 4096\<rparr>)
        (perf_fresh shm_start)))"
proof -
  let ?s = "perf_optimizer_update_cached_resources (perf_at 1000) 42
      (Some \<lparr>qp_count = 3, mr_count = 1, memory_used = 4096\<rparr>) (perf_fresh shm_start)"
  have v: "cache_view (pe_ms (perf_at 1100)) ?s 42 = Some \<lparr>qp_count = 3, mr_count = 1, memory_used = 4096\<rparr>"
    using hash_pid_less [of 42] perf_fresh_wf [of shm_start]
    by (simp add: cache_view_def perf_optimizer_update_cached_resources_def upd_entry_def perf_at_def
        Let_def perf_fresh_sel perf_wf_def cache_wf_def)
  show ?thesis
    using fast_check_decision [of 0 0 "perf_at 1100" ?s 42 1 3] unfolding v by (simp add: checked_usage_def)
qed

section \<open>Batched updates\<close>

lemma flush_view:
  "shm_wf m \<Longrightarrow> \<forall>p\<in>fst ` set es. 0 < sint p \<and> proc_view m p \<noteq> None \<Longrightarrow> distinct (map fst es) \<Longrightarrow>
   shm_wf (flush_entries env i es m)
   \<and> proc_view (flush_entries env i es m) = (\<lambda>p. case map_of es p of None \<Rightarrow> proc_view m p | Some u \<Rightarrow> Some u)"
proof (induction es arbitrary: i m)
  case (Cons e es)
  obtain p u where e: "e = (p, u)" by (cases e)
  from Cons.prems e have p: "0 < sint p" "proc_view m p \<noteq> None" by auto
  obtain m' where put: "shm_put (env i) p u m = Some m'"
    using shm_table.put_present [OF Cons.prems(1) p] by auto
  have m': "snd (shm_update_process_resources (env i) p (Some u) m) = m'"
    using put by (auto simp: shm_put_def split: prod.splits if_splits)
  note w = shm_table.put_wf [OF Cons.prems(1) p(1) put]
  note v = shm_table.put_view [OF Cons.prems(1) p(1) put]
  have "\<forall>p\<in>fst ` set es. 0 < sint p \<and> proc_view m' p \<noteq> None" using Cons.prems(2) by (auto simp: v)
  with Cons.IH [OF w this, of "Suc i"] Cons.prems(3) e
  have "shm_wf (flush_entries env (Suc i) es m')"
    "proc_view (flush_entries env (Suc i) es m') = (\<lambda>p. case map_of es p of None \<Rightarrow> proc_view m' p | Some u \<Rightarrow> Some u)"
    and "map_of es p = None" by (simp_all add: map_of_eq_None_iff)
  then show ?case
    by (auto simp: e m' v fun_eq_iff simp del: map_of_eq_Some_iff Some_eq_map_of_iff split: option.split)
qed simp

lemma pending_fst: "batch_wf b \<Longrightarrow> map fst (pending b) = pending_pids b"
  by (simp add: pending_def pending_pids_def batch_wf_def)

lemma pending_dom: "batch_wf b \<Longrightarrow> fst ` set (pending b) = set (pending_pids b)"
  by (simp flip: pending_fst)

text \<open>A flush publishes the pending updates, when their processes have slots in the table.\<close>

lemma flush_publishes:
  assumes b: "batch_wf (g_batch_buffer s)" and m: "shm_wf (perf_shm s)"
    and p: "\<forall>p\<in>set (pending_pids (g_batch_buffer s)). 0 < sint p \<and> proc_view (perf_shm s) p \<noteq> None"
  shows "shm_wf (perf_shm (perf_optimizer_flush_batch_buffer env s))
    \<and> proc_view (perf_shm (perf_optimizer_flush_batch_buffer env s)) =
        (\<lambda>p. case map_of (pending (g_batch_buffer s)) p of None \<Rightarrow> proc_view (perf_shm s) p | Some u \<Rightarrow> Some u)"
proof (cases "bb_count (g_batch_buffer s) = 0")
  case True
  with m show ?thesis by (simp add: perf_optimizer_flush_batch_buffer_def pending_def)
next
  case False
  from b have "distinct (pending_pids (g_batch_buffer s))" by (simp add: batch_wf_def)
  with flush_view [OF m, of "pending (g_batch_buffer s)" "pe_shm env" 0] p False pending_fst [OF b]
  show ?thesis by (simp add: perf_optimizer_flush_batch_buffer_def Let_def pending_dom [OF b])
qed

text \<open>
  The map of pending updates after an update entered the buffer: the old one with the new
  value, or, when the buffer had to be flushed, the new value only.
\<close>

lemma map_of_zip_update:
  "distinct ps \<Longrightarrow> i < length ps \<Longrightarrow> length us = length ps \<Longrightarrow>
   map_of (zip ps (us[i := u])) = (map_of (zip ps us))(ps ! i \<mapsto> u)"
proof (induction ps arbitrary: us i)
  case (Cons p ps)
  then obtain v vs where us: "us = v # vs" by (cases us) auto
  show ?case
  proof (cases i)
    case 0
    with us show ?thesis by (simp add: fun_eq_iff)
  next
    case (Suc j)
    with Cons.prems us have "p \<noteq> ps ! j" by auto
    with Cons us Suc show ?thesis by (auto simp: fun_eq_iff)
  qed
qed simp

lemma pending_merge:
  assumes b: "batch_wf b" and i: "find_slot (\<lambda>p. p = pid) (pending_pids b) = Some i"
  shows "map_of (pending (b\<lparr>pending_updates := (pending_updates b)[i := u]\<rparr>)) = (map_of (pending b))(pid \<mapsto> u)"
proof -
  let ?ps = "pending_pids b" and ?us = "take (bb_count b) (pending_updates b)"
  from i have i': "i < length ?ps" "?ps ! i = pid" by (auto dest: find_slot_SomeD)
  from b have d: "distinct ?ps" and l: "length ?ps = length ?us"
    by (simp_all add: batch_wf_def pending_pids_def)
  have "map_of (zip ?ps (?us[i := u])) = (map_of (zip ?ps ?us))(?ps ! i \<mapsto> u)"
    by (rule map_of_zip_update) (use d i' l in simp_all)
  with i' show ?thesis by (simp add: pending_def pending_pids_def take_update_swap)
qed

lemma pending_add:
  assumes b: "batch_wf b" "bb_count b < CACHE_BUCKET_COUNT" "find_slot (\<lambda>p. p = pid) (pending_pids b) = None"
  shows "map_of (pending (b\<lparr>bb_pids := (bb_pids b)[bb_count b := pid],
           pending_updates := (pending_updates b)[bb_count b := u], bb_count := bb_count b + 1\<rparr>))
         = (map_of (pending b))(pid \<mapsto> u)"
proof -
  have "map_of (pending b) pid = None"
    using b(3) by (auto simp: map_of_eq_None_iff pending_dom [OF b(1)] find_slot_None_iff)
  moreover have "pending (b\<lparr>bb_pids := (bb_pids b)[bb_count b := pid],
      pending_updates := (pending_updates b)[bb_count b := u], bb_count := bb_count b + 1\<rparr>) = pending b @ [(pid, u)]"
    using b(1,2) by (simp add: pending_def batch_wf_def take_update_Suc)
  ultimately show ?thesis by (simp add: fun_eq_iff map_add_def split: option.split)
qed

lemma pending_retry: "batch_wf b \<Longrightarrow> pending (batch_retry pid u b) = [(pid, u)]"
  using take_update_Suc [of 0 "bb_pids b" pid] take_update_Suc [of 0 "pending_updates b" u]
  by (simp add: pending_def batch_retry_def batch_wf_def CACHE_BUCKET_COUNT_def)

text \<open>The buffer and the table after a batched update: the pending map gains the new value.\<close>

lemma batch_shape:
  fixes env :: perf_env and pid :: pid_t and u :: resource_usage and s :: perf_state
  assumes w: "perf_wf s" and on: "g_batching_enabled s" and m: "shm_wf (perf_shm s)"
    and p: "\<forall>p\<in>set (pending_pids (g_batch_buffer s)). 0 < sint p \<and> proc_view (perf_shm s) p \<noteq> None"
  defines "s1 \<equiv> snd (perf_optimizer_batch_update_resource env pid (Some u) s)"
  shows "shm_wf (perf_shm s1)
    \<and> (\<lambda>q. case map_of (pending (g_batch_buffer s1)) q of None \<Rightarrow> proc_view (perf_shm s1) q | Some v \<Rightarrow> Some v)
      = (\<lambda>q. case map_of (pending (g_batch_buffer s)) q of None \<Rightarrow> proc_view (perf_shm s) q | Some v \<Rightarrow> Some v)(pid \<mapsto> u)
    \<and> set (pending_pids (g_batch_buffer s1)) \<subseteq> insert pid (set (pending_pids (g_batch_buffer s)))
    \<and> (\<forall>q. proc_view (perf_shm s) q \<noteq> None \<longrightarrow> proc_view (perf_shm s1) q \<noteq> None)"
proof -
  let ?b = "g_batch_buffer s"
  from w have b: "batch_wf ?b" by (simp add: perf_wf_def)
  have upd: "g_batch_buffer (perf_optimizer_update_cached_resources env pid u' t) = g_batch_buffer t"
    "perf_shm (perf_optimizer_update_cached_resources env pid u' t) = perf_shm t" for u' t
    by (simp_all add: perf_optimizer_update_cached_resources_def upd_entry_def split: option.split)
  consider (merge) i where "find_slot (\<lambda>p. p = pid) (pending_pids ?b) = Some i"
    | (add) "find_slot (\<lambda>p. p = pid) (pending_pids ?b) = None" "bb_count ?b < CACHE_BUCKET_COUNT"
    | (full) "find_slot (\<lambda>p. p = pid) (pending_pids ?b) = None" "\<not> bb_count ?b < CACHE_BUCKET_COUNT"
    by (cases "find_slot (\<lambda>p. p = pid) (pending_pids ?b)") auto
  then show ?thesis
  proof cases
    case (merge i)
    then have s1: "g_batch_buffer s1 = ?b\<lparr>pending_updates := (pending_updates ?b)[i := u]\<rparr>" "perf_shm s1 = perf_shm s"
      by (simp_all add: s1_def perf_optimizer_batch_update_resource_def on pending_pids_def Let_def upd)
    show ?thesis using m by (auto simp: s1 pending_merge [OF b merge] pending_pids_def fun_eq_iff cong: option.case_cong)
  next
    case add
    then have s1: "g_batch_buffer s1 = ?b\<lparr>bb_pids := (bb_pids ?b)[bb_count ?b := pid],
        pending_updates := (pending_updates ?b)[bb_count ?b := u], bb_count := bb_count ?b + 1\<rparr>" "perf_shm s1 = perf_shm s"
      by (simp_all add: s1_def perf_optimizer_batch_update_resource_def on pending_pids_def Let_def upd)
    have "pending_pids (g_batch_buffer s1) = pending_pids ?b @ [pid]"
      using b add(2) by (simp add: s1 pending_pids_def batch_wf_def take_update_Suc)
    then show ?thesis using m pending_add [OF b add(2,1), of u] by (auto simp: s1 fun_eq_iff cong: option.case_cong)
  next
    case full
    let ?f = "perf_optimizer_flush_batch_buffer env s"
    from full have s1: "g_batch_buffer s1 = batch_retry pid u (g_batch_buffer ?f)" "perf_shm s1 = perf_shm ?f"
      by (simp_all add: s1_def perf_optimizer_batch_update_resource_def on pending_pids_def Let_def upd)
    have bf: "batch_wf (g_batch_buffer ?f)" using flush_wf [OF w] by (simp add: perf_wf_def)
    have "set (pending_pids (g_batch_buffer s1)) = {pid}"
      using pending_dom [OF batch_retry_wf [OF bf, of pid u]] by (simp add: s1 pending_retry [OF bf])
    with flush_publishes [OF b m p, of env] show ?thesis
      by (auto simp: s1 pending_retry [OF bf] fun_eq_iff split: option.split)
  qed
qed

text \<open>
  C17 (a batched update reaches the table). Batching on, every process involved with a slot in
  the table: an update of a process, whether it was merged with a pending one, added to the
  buffer or stored after a flush of the full buffer, is what the table holds after the next flush;
  so are the updates that were pending before, and every other entry is as it was.
\<close>

theorem batch_update_reaches_table:
  fixes env env' :: perf_env and pid :: pid_t and u :: resource_usage and s :: perf_state
  assumes w: "perf_wf s" and on: "g_batching_enabled s" and m: "shm_wf (perf_shm s)"
    and p: "\<forall>p\<in>insert pid (set (pending_pids (g_batch_buffer s))). 0 < sint p \<and> proc_view (perf_shm s) p \<noteq> None"
  defines "s1 \<equiv> snd (perf_optimizer_batch_update_resource env pid (Some u) s)"
  defines "s2 \<equiv> perf_optimizer_flush_batch_buffer env' s1"
  shows "proc_view (perf_shm s2) =
      (\<lambda>q. if q = pid then Some u
           else case map_of (pending (g_batch_buffer s)) q of None \<Rightarrow> proc_view (perf_shm s) q | Some v \<Rightarrow> Some v)
    \<and> bb_count (g_batch_buffer s2) = 0"
proof -
  from p have "\<forall>p\<in>set (pending_pids (g_batch_buffer s)). 0 < sint p \<and> proc_view (perf_shm s) p \<noteq> None" by simp
  note sh = batch_shape [OF w on m this, of env pid u, folded s1_def]
  have b1: "batch_wf (g_batch_buffer s1)" using batch_update_wf [OF w, of env pid "Some u"] by (simp add: s1_def perf_wf_def)
  have "\<forall>p\<in>set (pending_pids (g_batch_buffer s1)). 0 < sint p \<and> proc_view (perf_shm s1) p \<noteq> None"
    using sh p by blast
  from flush_publishes [OF b1 _ this, of env'] sh
  have "proc_view (perf_shm s2) = (\<lambda>q. case map_of (pending (g_batch_buffer s)) q of
      None \<Rightarrow> proc_view (perf_shm s) q | Some v \<Rightarrow> Some v)(pid \<mapsto> u)" by (simp add: s2_def)
  then show ?thesis by (auto simp: fun_eq_iff s2_def flush_empties)
qed

text \<open>The table of a fresh optimiser in which process 42 has a slot.\<close>

definition table_42 :: shm_state where
  "table_42 = snd (shm_update_process_resources ok_shm_env 42 (Some zero_usage) fresh_shm)"

lemma table_42: "shm_wf table_42" "proc_view table_42 42 = Some zero_usage"
proof -
  have pos: "0 < sint (42 :: pid_t)" by simp
  have put: "shm_put ok_shm_env 42 zero_usage fresh_shm = Some table_42"
    unfolding table_42_def by (rule shm_update_put [OF fresh_shm_update_ok]) simp
  show "shm_wf table_42" by (rule shm_table.put_wf [OF fresh_shm_wf pos put])
  show "proc_view table_42 42 = Some zero_usage" by (simp add: shm_table.put_view [OF fresh_shm_wf pos put])
qed

lemma perf_fresh_pending: "pending_pids (g_batch_buffer (perf_fresh m)) = []"
  by (simp add: pending_pids_def perf_fresh_sel)

theorem batch_update_reaches_table_witness:
  "proc_view (perf_shm (perf_optimizer_flush_batch_buffer (perf_at 60)
     (snd (perf_optimizer_batch_update_resource (perf_at 10) 42 (Some \<lparr>qp_count = 2, mr_count = 0, memory_used = 0\<rparr>)
        (perf_fresh table_42))))) 42 = Some \<lparr>qp_count = 2, mr_count = 0, memory_used = 0\<rparr>"
  by (subst conjunct1 [OF batch_update_reaches_table])
     (simp_all add: perf_fresh_wf perf_fresh_sel table_42 perf_fresh_pending)

text \<open>
  An update can be lost when the buffer is full. The batched update gives its lock up when
  the buffer is full, flushes, and then takes the lock again and stores its entry as the only
  one. If another thread's update runs in between, that call succeeds and its value is in the
  buffer, but afterwards the buffer holds the first thread's entry alone and the table has not
  seen the second thread's value: no later flush will write it.
\<close>

theorem batch_full_race_loses_update:
  fixes env env2 :: perf_env and pid q :: pid_t and u v :: resource_usage and s :: perf_state
  assumes w: "perf_wf s" and on: "g_batching_enabled s"
    and full: "bb_count (g_batch_buffer s) = CACHE_BUCKET_COUNT"
  defines "s1 \<equiv> perf_optimizer_flush_batch_buffer env s"
  defines "r2 \<equiv> perf_optimizer_batch_update_resource env2 q (Some v) s1"
  defines "s3 \<equiv> (snd r2)\<lparr>g_batch_buffer := batch_retry pid u (g_batch_buffer (snd r2))\<rparr>"
  shows "fst r2 = 0 \<and> pending (g_batch_buffer (snd r2)) = [(q, v)]
    \<and> pending (g_batch_buffer s3) = [(pid, u)] \<and> perf_shm s3 = perf_shm s1"
proof -
  have b1: "batch_wf (g_batch_buffer s1)" using flush_wf [OF w, of env] by (simp add: s1_def perf_wf_def)
  have c1: "bb_count (g_batch_buffer s1) = 0" by (simp add: s1_def flush_empties)
  have on1: "g_batching_enabled s1"
    using on by (simp add: s1_def perf_optimizer_flush_batch_buffer_def Let_def)
  have upd: "g_batch_buffer (perf_optimizer_update_cached_resources env2 q x t) = g_batch_buffer t"
    "perf_shm (perf_optimizer_update_cached_resources env2 q x t) = perf_shm t" for x t
    by (simp_all add: perf_optimizer_update_cached_resources_def upd_entry_def split: option.split)
  have r2: "g_batch_buffer (snd r2) = (g_batch_buffer s1)\<lparr>bb_pids := (bb_pids (g_batch_buffer s1))[0 := q],
      pending_updates := (pending_updates (g_batch_buffer s1))[0 := v], bb_count := 1\<rparr>"
    "perf_shm (snd r2) = perf_shm s1" "fst r2 = 0"
    by (simp_all add: r2_def perf_optimizer_batch_update_resource_def on1 c1 CACHE_BUCKET_COUNT_def Let_def upd)
  then have same: "g_batch_buffer (snd r2) = batch_retry q v (g_batch_buffer s1)"
    by (simp add: batch_retry_def)
  have "batch_wf (g_batch_buffer (snd r2))" unfolding same by (rule batch_retry_wf [OF b1])
  then show ?thesis using pending_retry [OF b1, of q v] r2(2,3) by (simp add: s3_def same pending_retry)
qed

text \<open>A full buffer: 256 pending updates of different processes.\<close>

definition full_buffer_state :: perf_state where
  "full_buffer_state = (perf_fresh shm_start)\<lparr>g_batch_buffer := (g_batch_buffer (perf_fresh shm_start))
     \<lparr>bb_pids := map of_nat [0..<CACHE_BUCKET_COUNT], bb_count := CACHE_BUCKET_COUNT\<rparr>\<rparr>"

lemma full_buffer_wf: "perf_wf full_buffer_state"
proof -
  have "distinct (map (of_nat :: nat \<Rightarrow> pid_t) [0..<256])"
  proof -
    have "inj_on (of_nat :: nat \<Rightarrow> pid_t) {0..<256}"
      by (rule inj_on_inverseI [where g = unat], rule unat_count32) simp
    then show ?thesis by (simp add: distinct_map)
  qed
  with perf_fresh_wf [of shm_start] show ?thesis
    by (simp add: full_buffer_state_def perf_wf_def batch_wf_def pending_pids_def CACHE_BUCKET_COUNT_def)
qed

theorem batch_full_race_loses_update_witness:
  "pending (g_batch_buffer (snd (perf_optimizer_batch_update_resource (perf_at 2) 500 (Some zero_usage)
     (perf_optimizer_flush_batch_buffer (perf_at 1) full_buffer_state)))) = [(500, zero_usage)]"
  using batch_full_race_loses_update [OF full_buffer_wf, of "perf_at 2" 500 zero_usage "perf_at 1"]
  by (simp add: full_buffer_state_def perf_fresh_sel)

end
