(* ===== verification/Perf_Live.thy ===== *)
theory Perf_Live
  imports Perf_Spec
begin

text \<open>
  Liveness of the batched updates of \<open>src/performance_optimizer.c\<close>: infinite runs of
  the optimiser in which the flush thread gets its turn again and again. The argument is that of
  any write-behind buffer, so it is made once in a locale over what a step does to the table seen
  through the buffer, and the locale is interpreted on the calls of the optimiser.

  A call is one step here; that an update which finds the buffer full is not atomic, and can lose
  a value when another thread runs in between, is \<^const>\<open>batch_retry\<close> and its lemma.
\<close>

section \<open>Write-behind buffers\<close>

text \<open>The state after the first \<open>n\<close> steps of an infinite run.\<close>

primrec run_of :: "('c \<Rightarrow> 's \<Rightarrow> 's) \<Rightarrow> (nat \<Rightarrow> 'c) \<Rightarrow> 's \<Rightarrow> nat \<Rightarrow> 's" where
  "run_of step \<sigma> s 0 = s"
| "run_of step \<sigma> s (Suc n) = step (\<sigma> n) (run_of step \<sigma> s n)"

text \<open>What the writes among the first \<open>n\<close> steps make of a table.\<close>

primrec written_by :: "('c \<Rightarrow> ('k \<times> 'v) option) \<Rightarrow> (nat \<Rightarrow> 'c) \<Rightarrow> ('k \<Rightarrow> 'v option) \<Rightarrow> nat \<Rightarrow> 'k \<Rightarrow> 'v option"
  where
  "written_by w \<sigma> T 0 = T"
| "written_by w \<sigma> T (Suc n) =
     (case w (\<sigma> n) of None \<Rightarrow> written_by w \<sigma> T n | Some (k, v) \<Rightarrow> (written_by w \<sigma> T n)(k \<mapsto> v))"

locale write_behind =
  fixes good :: "'s \<Rightarrow> bool"
    and legal :: "'c \<Rightarrow> bool"
    and step :: "'c \<Rightarrow> 's \<Rightarrow> 's"
    and written :: "'c \<Rightarrow> ('k \<times> 'v) option"
    and drains :: "'c \<Rightarrow> bool"
    and table :: "'s \<Rightarrow> 'k \<Rightarrow> 'v option"
    and buffer :: "'s \<Rightarrow> 'k \<Rightarrow> 'v option"
  assumes good_step: "good s \<Longrightarrow> legal c \<Longrightarrow> good (step c s)"
    and seen_step: "good s \<Longrightarrow> legal c \<Longrightarrow> table (step c s) ++ buffer (step c s) =
      (case written c of None \<Rightarrow> table s ++ buffer s | Some (k, v) \<Rightarrow> (table s ++ buffer s)(k \<mapsto> v))"
    and drained: "good s \<Longrightarrow> legal c \<Longrightarrow> drains c \<Longrightarrow> buffer (step c s) = Map.empty"
begin

lemma run_good: "good s \<Longrightarrow> \<forall>n. legal (\<sigma> n) \<Longrightarrow> good (run_of step \<sigma> s n)"
  by (induction n) (simp_all add: good_step)

text \<open>Seen through the buffer, the table is always up to date.\<close>

lemma run_seen:
  "good s \<Longrightarrow> \<forall>n. legal (\<sigma> n) \<Longrightarrow>
   table (run_of step \<sigma> s n) ++ buffer (run_of step \<sigma> s n) = written_by written \<sigma> (table s ++ buffer s) n"
  by (induction n) (simp_all add: seen_step run_good split: option.split)

text \<open>After a drain it is up to date itself.\<close>

lemma run_drained:
  assumes "good s" "\<forall>n. legal (\<sigma> n)" "drains (\<sigma> n)"
  shows "table (run_of step \<sigma> s (Suc n)) = written_by written \<sigma> (table s ++ buffer s) (Suc n)"
proof -
  have "buffer (run_of step \<sigma> s (Suc n)) = Map.empty"
    using drained [OF run_good [OF assms(1,2), of n]] assms(2,3) by simp
  with run_seen [OF assms(1,2), of "Suc n"] show ?thesis by (simp del: run_of.simps written_by.simps)
qed

lemma run_catches_up:
  assumes "good s" "\<forall>n. legal (\<sigma> n)" "\<forall>n. \<exists>m\<ge>n. drains (\<sigma> m)"
  shows "\<exists>m>n. table (run_of step \<sigma> s m) = written_by written \<sigma> (table s ++ buffer s) m"
proof -
  obtain m where "m \<ge> n" "drains (\<sigma> m)" using assms(3) by blast
  with run_drained [OF assms(1,2)] show ?thesis by (intro exI [of _ "Suc m"]) simp
qed

end

section \<open>The optimiser as a write-behind buffer\<close>

text \<open>
  Batching on, the thread running, the table well formed; \<open>K\<close> are the processes with a slot
  in the table, and only they have pending updates.
\<close>

definition batch_live :: "pid_t set \<Rightarrow> perf_state \<Rightarrow> bool" where
  "batch_live K s \<longleftrightarrow> perf_wf s \<and> g_batching_enabled s \<and> perf_running s \<and> shm_wf (perf_shm s)
     \<and> (\<forall>p\<in>K. 0 < sint p \<and> proc_view (perf_shm s) p \<noteq> None) \<and> set (pending_pids (g_batch_buffer s)) \<subseteq> K"

text \<open>Everything but stopping the optimiser, restarting it and turning batching off.\<close>

fun live_call :: "pid_t set \<Rightarrow> perf_call \<Rightarrow> bool" where
  "live_call K (PerfInit _) = False"
| "live_call K (PerfCleanup _) = False"
| "live_call K (PerfBatching b) = b"
| "live_call K (PerfBatch _ pid _) = (pid \<in> K)"
| "live_call K _ = True"

fun batch_written :: "perf_call \<Rightarrow> (pid_t \<times> resource_usage) option" where
  "batch_written (PerfBatch _ pid (Some u)) = Some (pid, u)"
| "batch_written _ = None"

fun flush_turn :: "perf_call \<Rightarrow> bool" where
  "flush_turn (PerfTurn _ _) = True"
| "flush_turn _ = False"

definition batch_pending :: "perf_state \<Rightarrow> pid_t \<Rightarrow> resource_usage option" where
  "batch_pending s = map_of (pending (g_batch_buffer s))"

text \<open>A call that is neither a batched update nor a flush leaves buffer and table alone.\<close>

definition batch_quiet :: "perf_state \<Rightarrow> perf_state \<Rightarrow> bool" where
  "batch_quiet s s' \<longleftrightarrow> pending (g_batch_buffer s') = pending (g_batch_buffer s)
     \<and> pending_pids (g_batch_buffer s') = pending_pids (g_batch_buffer s)
     \<and> perf_shm s' = perf_shm s \<and> perf_running s' = perf_running s
     \<and> g_batching_enabled s' = g_batching_enabled s"

lemma get_cached_quiet: "batch_quiet s (snd (perf_optimizer_get_cached_resources env pid b s))"
  by (simp add: batch_quiet_def perf_optimizer_get_cached_resources_def count_miss_def count_hit_def
      upd_entry_def Let_def)

lemma update_cached_quiet: "batch_quiet s (perf_optimizer_update_cached_resources env pid u s)"
  by (simp add: batch_quiet_def perf_optimizer_update_cached_resources_def upd_entry_def split: option.split)

lemma quiet_trans: "batch_quiet a b \<Longrightarrow> batch_quiet b c \<Longrightarrow> batch_quiet a c"
  by (simp add: batch_quiet_def)

lemma settings_quiet:
  "batch_quiet s (perf_optimizer_invalidate_cache pid s)" "batch_quiet s (perf_optimizer_clear_cache s)"
  "batch_quiet s (perf_optimizer_set_cache_ttl t s)" "batch_quiet s (perf_optimizer_set_batch_interval t s)"
  "batch_quiet s (perf_optimizer_enable_cache b s)" "batch_quiet s (perf_optimizer_reset_stats env s)"
  "batch_quiet s (perf_optimizer_adaptive_adjust s)"
  by (simp_all add: batch_quiet_def pending_def pending_pids_def perf_optimizer_invalidate_cache_def upd_entry_def
      perf_optimizer_clear_cache_def perf_optimizer_set_cache_ttl_def perf_optimizer_set_batch_interval_def
      perf_optimizer_enable_cache_def perf_optimizer_reset_stats_def perf_optimizer_adaptive_adjust_def Let_def)

lemma prefetch_quiet: "batch_quiet s (perf_optimizer_prefetch_resources env pid s)"
  using update_cached_quiet
  by (auto simp: perf_optimizer_prefetch_resources_def batch_quiet_def split: prod.split option.split)

lemma fast_check_quiet: "batch_quiet s (snd (perf_optimizer_check_resource_fast env pid k cur req lim s))"
  using get_cached_quiet [of "one_more s" env pid True]
  by (subst conjunct1 [OF fast_check_stats]) (simp add: one_more_def batch_quiet_def)

lemma null_update: "snd (perf_optimizer_batch_update_resource env pid None s) = s"
  by (simp add: perf_optimizer_batch_update_resource_def shm_update_process_resources_def
      split: bool.split)

lemma quiet_call:
  assumes "live_call K c" "\<not> (\<exists>e p u. c = PerfBatch e p (Some u))" "\<not> flush_turn c" "\<not> (\<exists>e. c = PerfFlush e)"
    "g_batching_enabled s"
  shows "batch_quiet s (perf_exec c s)"
proof (cases c)
  case (PerfBatch e p u)
  with assms show ?thesis
    by (cases u) (simp_all add: batch_quiet_def null_update)
next
  case (PerfBatching b)
  with assms show ?thesis by (simp add: perf_optimizer_enable_batching_def batch_quiet_def)
qed (use assms in \<open>simp_all add: get_cached_quiet update_cached_quiet settings_quiet fast_check_quiet prefetch_quiet\<close>)

lemma quiet_live: "batch_live K s \<Longrightarrow> perf_wf s' \<Longrightarrow> batch_quiet s s' \<Longrightarrow> batch_live K s'"
  by (simp add: batch_live_def batch_quiet_def)

lemma flush_fields:
  "g_batching_enabled (perf_optimizer_flush_batch_buffer env s) = g_batching_enabled s"
  "perf_running (perf_optimizer_flush_batch_buffer env s) = perf_running s"
  by (simp_all add: perf_optimizer_flush_batch_buffer_def Let_def)

lemma empty_pending: "bb_count b = 0 \<Longrightarrow> pending b = [] \<and> pending_pids b = []"
  by (simp add: pending_def pending_pids_def)

text \<open>A flush moves the pending updates into the table.\<close>

lemma flush_live:
  fixes env :: perf_env
  assumes "batch_live K s"
  defines "s' \<equiv> perf_optimizer_flush_batch_buffer env s"
  shows "batch_live K s' \<and> batch_pending s' = Map.empty
    \<and> proc_view (perf_shm s') = proc_view (perf_shm s) ++ batch_pending s"
proof -
  have w: "perf_wf s" and m: "shm_wf (perf_shm s)" and b: "batch_wf (g_batch_buffer s)"
    and p: "\<forall>p\<in>set (pending_pids (g_batch_buffer s)). 0 < sint p \<and> proc_view (perf_shm s) p \<noteq> None"
    using assms by (auto simp: batch_live_def perf_wf_def)
  note f = flush_publishes [OF b m p, of env, folded s'_def]
  have e: "pending (g_batch_buffer s') = []" "pending_pids (g_batch_buffer s') = []"
    using empty_pending flush_empties [of env s] by (simp_all add: s'_def)
  have "perf_wf s'" by (simp add: s'_def flush_wf [OF w])
  with f e assms show ?thesis
    by (auto simp: batch_live_def s'_def flush_fields batch_pending_def map_add_def split: option.split)
qed

lemma update_live:
  fixes env :: perf_env and u :: resource_usage
  assumes "batch_live K s" "pid \<in> K"
  defines "s' \<equiv> snd (perf_optimizer_batch_update_resource env pid (Some u) s)"
  shows "batch_live K s' \<and> proc_view (perf_shm s') ++ batch_pending s' =
    (proc_view (perf_shm s) ++ batch_pending s)(pid \<mapsto> u)"
proof -
  have w: "perf_wf s" and on: "g_batching_enabled s" and m: "shm_wf (perf_shm s)"
    and p: "\<forall>p\<in>set (pending_pids (g_batch_buffer s)). 0 < sint p \<and> proc_view (perf_shm s) p \<noteq> None"
    using assms by (auto simp: batch_live_def)
  note sh = batch_shape [OF w on m p, of env pid u, folded s'_def]
  have "perf_wf s'" by (simp add: s'_def batch_update_wf [OF w])
  moreover have "g_batching_enabled s' \<and> perf_running s' = perf_running s"
    using on by (simp add: s'_def perf_optimizer_batch_update_resource_def Let_def flush_fields
        perf_optimizer_update_cached_resources_def upd_entry_def split: option.split)
  ultimately show ?thesis
    using sh assms unfolding batch_live_def batch_pending_def map_add_def by blast
qed

lemma live_step:
  assumes s: "batch_live K s" and l: "live_call K c"
  shows "batch_live K (perf_exec c s)
    \<and> proc_view (perf_shm (perf_exec c s)) ++ batch_pending (perf_exec c s) =
        (case batch_written c of
           None \<Rightarrow> proc_view (perf_shm s) ++ batch_pending s
         | Some (k, v) \<Rightarrow> (proc_view (perf_shm s) ++ batch_pending s)(k \<mapsto> v))
    \<and> (flush_turn c \<longrightarrow> batch_pending (perf_exec c s) = Map.empty)"
proof -
  have w: "perf_wf s" and on: "g_batching_enabled s" and run: "perf_running s"
    using s by (simp_all add: batch_live_def)
  consider (update) e p u where "c = PerfBatch e p (Some u)" | (flush) e where "c = PerfFlush e"
    | (turn) e n where "c = PerfTurn e n"
    | (quiet) "\<not> (\<exists>e p u. c = PerfBatch e p (Some u))" "\<not> flush_turn c" "\<not> (\<exists>e. c = PerfFlush e)"
    by (cases c) auto
  then show ?thesis
  proof cases
    case update
    with update_live [OF s, of p e u] l show ?thesis by simp
  next
    case flush
    with flush_live [OF s, of e] show ?thesis by simp
  next
    case turn
    have q: "batch_quiet (perf_optimizer_flush_batch_buffer e s) (perf_exec c s)"
      using run on by (simp add: turn flush_thread_turn_def Let_def settings_quiet) (simp add: batch_quiet_def)
    have f: "batch_live K (perf_optimizer_flush_batch_buffer e s)" using flush_live [OF s] by simp
    have "batch_live K (perf_exec c s)" using quiet_live [OF f perf_exec_wf [OF w] q] .
    with q flush_live [OF s, of e] show ?thesis by (simp add: turn batch_quiet_def batch_pending_def)
  next
    case quiet
    note q = quiet_call [OF l quiet on]
    have "batch_written c = None" using quiet(1) by (cases c rule: batch_written.cases) auto
    with quiet_live [OF s perf_exec_wf [OF w] q] q quiet(2) show ?thesis
      by (simp add: batch_quiet_def batch_pending_def)
  qed
qed

interpretation perf_batch: write_behind "batch_live K" "live_call K" perf_exec batch_written flush_turn
  "\<lambda>s. proc_view (perf_shm s)" batch_pending for K
  by unfold_locales (use live_step in blast)+

section \<open>Property\<close>

text \<open>
  C4 (every batched update is eventually published). Take an infinite run of the optimiser,
  with batching on and a slot of the attached process table for every process of the run, in which
  the flush thread gets its turn infinitely often and anything else may happen in between, short of
  starting or stopping the optimiser and switching batching off. Then after any moment there is a later one at which
  the process table holds, for every process, the most recent update made until then: no
  batched update stays in the buffer for ever, and none is overtaken by an older one.
\<close>

theorem batched_updates_eventually_published:
  assumes "batch_live K s" "\<forall>n. live_call K (\<sigma> n)" "\<forall>n. \<exists>m\<ge>n. flush_turn (\<sigma> m)"
  shows "\<exists>m>n. proc_view (perf_shm (run_of perf_exec \<sigma> s m)) =
    written_by batch_written \<sigma> (proc_view (perf_shm s) ++ batch_pending s) m"
  using assms by (rule perf_batch.run_catches_up)

text \<open>Process 42 updates at every even step and the flush thread runs at every odd one.\<close>

definition busy_run :: "nat \<Rightarrow> perf_call" where
  "busy_run n = (if even n then PerfBatch (perf_at 10) 42 (Some \<lparr>qp_count = of_nat n, mr_count = 0, memory_used = 0\<rparr>)
     else PerfTurn (perf_at 60) 0)"

lemma perf_fresh_running: "perf_running (perf_fresh m)"
  by (simp add: perf_fresh_def perf_zero_def perf_optimizer_init_def perf_at_def Let_def)

lemma perf_fresh_live: "batch_live {42} (perf_fresh table_42)"
  by (simp add: perf_fresh_running batch_live_def perf_fresh_wf perf_fresh_sel table_42 perf_fresh_pending)

theorem batched_updates_eventually_published_witness:
  "\<exists>m>100. proc_view (perf_shm (run_of perf_exec busy_run (perf_fresh table_42) m)) =
    written_by batch_written busy_run (proc_view (perf_shm (perf_fresh table_42)) ++ batch_pending (perf_fresh table_42)) m"
proof (rule batched_updates_eventually_published [OF perf_fresh_live])
  show "\<forall>n. live_call {42} (busy_run n)" by (simp add: busy_run_def)
  show "\<forall>n. \<exists>m\<ge>n. flush_turn (busy_run m)"
  proof
    fix n show "\<exists>m\<ge>n. flush_turn (busy_run m)" by (rule exI [of _ "2 * n + 1"]) (simp add: busy_run_def)
  qed
qed

end
