(* ===== verification/Tenant_Client.thy ===== *)
theory Tenant_Client
  imports Tenant_Daemon
begin

text \<open>
  The command line client of the tenant manager daemon (\<open>src/tenant_manager_client.c\<close>): the
  requests it builds from its arguments, the exchange with the daemon, what it prints of the answer
  and its exit code.

  The JSON library is the parameter of the daemon, with the functions the client calls besides. The
  connection is a function from the bytes sent to the bytes of the first read, \<^const>\<open>None\<close> when
  a socket call fails. What is printed is a text; the usage and the messages on \<open>stderr\<close> are
  left out. A NULL text is printed as \<open>(null)\<close>, as the GNU C library does.
\<close>

section \<open>The JSON library\<close>

text \<open>An array is the list that \<open>json_object_array_length\<close> and
  \<open>json_object_array_get_idx\<close> read.\<close>

record 'j json_client_lib = "'j json_lib" +
  get_boolean :: "'j option \<Rightarrow> bool"
  is_array :: "'j option \<Rightarrow> bool"
  is_object :: "'j option \<Rightarrow> bool"
  array_list :: "'j option \<Rightarrow> 'j option list"

section \<open>Requests\<close>

text \<open>The arguments are \<open>argv\<close>, the name of the program first. How an object is printed
  (\<open>json_object_to_json_string\<close>) is an argument; with the identity the request is the object.\<close>

definition memory_arg :: "string list \<Rightarrow> u64" where
  "memory_arg argv = (if length argv > 5 then atoll (argv ! 5) else 1073741824)"

definition build_create_cmd :: "(json_out \<Rightarrow> 'a) \<Rightarrow> string list \<Rightarrow> 'a option" where
  "build_create_cmd to_json argv =
     (if length argv < 5 then None
      else
        let tenant_id = atoi (argv ! 2); qp = atoi (argv ! 3); mr = atoi (argv ! 4);
            mem = memory_arg argv;
            name = (if length argv > 6 then argv ! 6 else ''unnamed'')
        in Some (to_json (JObject
             [(''cmd'', JString ''CREATE''), (''tenant'', JInt tenant_id), (''name'', JString name),
              (''qp'', JInt qp), (''mr'', JInt mr), (''memory'', JInt64 mem)])))"

definition build_delete_cmd :: "(json_out \<Rightarrow> 'a) \<Rightarrow> string list \<Rightarrow> 'a option" where
  "build_delete_cmd to_json argv =
     (if length argv < 3 then None
      else
        let tenant_id = atoi (argv ! 2)
        in Some (to_json (JObject [(''cmd'', JString ''DELETE''), (''tenant'', JInt tenant_id)])))"

definition build_update_cmd :: "(json_out \<Rightarrow> 'a) \<Rightarrow> string list \<Rightarrow> 'a option" where
  "build_update_cmd to_json argv =
     (if length argv < 5 then None
      else
        let tenant_id = atoi (argv ! 2); qp = atoi (argv ! 3); mr = atoi (argv ! 4);
            mem = memory_arg argv
        in Some (to_json (JObject
             [(''cmd'', JString ''UPDATE_QUOTA''), (''tenant'', JInt tenant_id),
              (''qp'', JInt qp), (''mr'', JInt mr), (''memory'', JInt64 mem)])))"

definition build_status_cmd :: "(json_out \<Rightarrow> 'a) \<Rightarrow> string list \<Rightarrow> 'a option" where
  "build_status_cmd to_json argv =
     Some (to_json (JObject
       ((''cmd'', JString ''STATUS'') #
        (if length argv > 2 then [(''tenant'', JInt (atoi (argv ! 2)))] else []))))"

definition build_list_cmd :: "(json_out \<Rightarrow> 'a) \<Rightarrow> 'a option" where
  "build_list_cmd to_json = Some (to_json (JObject [(''cmd'', JString ''LIST_TENANTS'')]))"

text \<open>The request of a command line; None when \<open>main\<close> returns 1 before it sends.\<close>

definition client_request :: "(json_out \<Rightarrow> 'a) \<Rightarrow> string list \<Rightarrow> 'a option" where
  "client_request to_json argv =
     (if length argv < 2 then None
      else if argv ! 1 = ''create'' then build_create_cmd to_json argv
      else if argv ! 1 = ''delete'' then build_delete_cmd to_json argv
      else if argv ! 1 = ''update'' \<or> argv ! 1 = ''set-quota'' then build_update_cmd to_json argv
      else if argv ! 1 = ''status'' then build_status_cmd to_json argv
      else if argv ! 1 = ''list'' then build_list_cmd to_json
      else None)"

section \<open>The exchange\<close>

definition send_command :: "(string \<Rightarrow> string option) \<Rightarrow> bool \<Rightarrow> string \<Rightarrow> string option" where
  "send_command ch malloc_ok json_cmd =
     (case ch json_cmd of
        None \<Rightarrow> None
      | Some bytes \<Rightarrow>
          if \<not> malloc_ok then None
          else if bytes = [] then None
          else Some (takeWhile (\<lambda>c. c \<noteq> CHR 0x00) (take (BUFFER_SIZE - 1) bytes)))"

section \<open>Printing an answer\<close>

text \<open>A field of a value that may be NULL; where it is missing the library stores NULL.\<close>

definition field_of :: "('j, 'b) json_lib_scheme \<Rightarrow> 'j option \<Rightarrow> string \<Rightarrow> 'j option option" where
  "field_of lib v key = (case v of None \<Rightarrow> None | Some j \<Rightarrow> object_get_ex lib j key)"

definition stored :: "'j option option \<Rightarrow> 'j option" where
  "stored f = (case f of None \<Rightarrow> None | Some v \<Rightarrow> v)"

definition print_int :: "('j, 'b) json_lib_scheme \<Rightarrow> 'j option \<Rightarrow> string" where
  "print_int lib v = sdec (sint (get_int lib v))"

definition print_int64 :: "('j, 'b) json_lib_scheme \<Rightarrow> 'j option \<Rightarrow> string" where
  "print_int64 lib v = dec (unat (get_int64 lib v))"

definition print_id :: "('j, 'b) json_lib_scheme \<Rightarrow> 'j option \<Rightarrow> string" where
  "print_id lib v = dec (unat (get_int lib v))"

definition print_text :: "('j, 'b) json_lib_scheme \<Rightarrow> 'j option \<Rightarrow> string" where
  "print_text lib v = (case get_string lib v of None \<Rightarrow> ''(null)'' | Some t \<Rightarrow> t)"

definition print_name :: "('j, 'b) json_lib_scheme \<Rightarrow> 'j option \<Rightarrow> string" where
  "print_name lib item = (case field_of lib item ''name'' of None \<Rightarrow> ''?'' | Some v \<Rightarrow> print_text lib v)"

text \<open>A field shown as zero when it is missing.\<close>

definition print_field :: "('j, 'b) json_lib_scheme \<Rightarrow> 'j option \<Rightarrow> string \<Rightarrow> string" where
  "print_field lib item key = (case field_of lib item key of None \<Rightarrow> ''0'' | Some v \<Rightarrow> print_int lib v)"

definition print_array_item :: "('j, 'b) json_lib_scheme \<Rightarrow> 'j option \<Rightarrow> string" where
  "print_array_item lib item =
     (case (field_of lib item ''id'', field_of lib item ''qp_used'') of
        (Some id_obj, Some qp_obj) \<Rightarrow>
          ''  Tenant '' @ print_id lib id_obj @ '' ('' @ print_name lib item @ ''): QP='' @ print_int lib qp_obj
          @ ''/'' @ print_int lib (stored (field_of lib item ''qp_limit''))
          @ (case field_of lib item ''mr_used'' of
               None \<Rightarrow> []
             | Some mr_obj \<Rightarrow> '', MR='' @ print_int lib mr_obj @ ''/''
                 @ print_int lib (stored (field_of lib item ''mr_limit'')))
          @ [CHR 0x0A]
      | _ \<Rightarrow> [])"

definition print_list_item :: "('j, 'b) json_lib_scheme \<Rightarrow> 'j option \<Rightarrow> string" where
  "print_list_item lib t =
     (case field_of lib t ''id'' of
        None \<Rightarrow> []
      | Some id_obj \<Rightarrow>
          ''    ['' @ print_id lib id_obj @ ''] '' @ print_name lib t
          @ '': QP='' @ print_field lib t ''qp_used'' @ ''/'' @ print_field lib t ''qp_limit''
          @ '', MR='' @ print_field lib t ''mr_used'' @ ''/'' @ print_field lib t ''mr_limit'' @ [CHR 0x0A])"

text \<open>A line for one field, or for a pair of fields that are both present.\<close>

definition line_for :: "'j option option \<Rightarrow> ('j option \<Rightarrow> string) \<Rightarrow> string \<Rightarrow> string" where
  "line_for f show_value label =
     (case f of None \<Rightarrow> [] | Some v \<Rightarrow> label @ show_value v @ [CHR 0x0A])"

definition pair_line ::
    "'j option option \<Rightarrow> 'j option option \<Rightarrow> ('j option \<Rightarrow> string) \<Rightarrow> string \<Rightarrow> string \<Rightarrow> string" where
  "pair_line f g show_value label unit =
     (case (f, g) of
        (Some v, Some w) \<Rightarrow> label @ show_value v @ ''/'' @ show_value w @ unit @ [CHR 0x0A]
      | _ \<Rightarrow> [])"

definition status_name :: "i32 \<Rightarrow> string" where
  "status_name status =
     (if status = 1 then ''ACTIVE'' else if status = 2 then ''SUSPENDED'' else ''INACTIVE'')"

definition print_status :: "('j, 'b) json_lib_scheme \<Rightarrow> 'j option \<Rightarrow> string" where
  "print_status lib data_obj =
     (let f = field_of lib data_obj
      in line_for (f ''id'') (print_int lib) ''  Tenant ID: ''
         @ line_for (f ''name'') (print_text lib) ''  Name: ''
         @ line_for (f ''status'') (\<lambda>v. status_name (get_int lib v)) ''  Status: ''
         @ pair_line (f ''qp_used'') (f ''qp_limit'') (print_int lib) ''  QP: '' []
         @ pair_line (f ''mr_used'') (f ''mr_limit'') (print_int lib) ''  MR: '' []
         @ pair_line (f ''memory_used'') (f ''memory_limit'') (print_int64 lib) ''  Memory: '' '' bytes''
         @ line_for (f ''total_qp_creates'') (print_int64 lib) ''  Total QP creates: ''
         @ line_for (f ''total_mr_regs'') (print_int64 lib) ''  Total MR registers: '')"

definition print_data :: "'j json_client_lib \<Rightarrow> 'j option \<Rightarrow> string" where
  "print_data lib data_obj =
     (if is_array lib data_obj then concat (map (print_array_item lib) (array_list lib data_obj))
      else if is_object lib data_obj then
        line_for (field_of lib data_obj ''count'') (print_int lib) ''  Active tenants: ''
        @ line_for (field_of lib data_obj ''version'') (print_int64 lib) ''  Policy version: ''
        @ (case field_of lib data_obj ''tenants'' of
             Some tenants_obj \<Rightarrow>
               if is_array lib tenants_obj then
                 [CHR 0x0A] @ ''  Tenants:'' @ [CHR 0x0A]
                 @ concat (map (print_list_item lib) (array_list lib tenants_obj))
               else print_status lib data_obj
           | None \<Rightarrow> print_status lib data_obj)
      else [])"

text \<open>The marks are the UTF-8 texts of a tick and a cross.\<close>

definition print_response :: "'j json_client_lib \<Rightarrow> string \<Rightarrow> string" where
  "print_response lib response =
     (case tokener_parse lib response of
        None \<Rightarrow> ''Response: '' @ response @ [CHR 0x0A]
      | Some obj \<Rightarrow>
          (case object_get_ex lib obj ''success'' of
             None \<Rightarrow> []
           | Some success_obj \<Rightarrow>
               if get_boolean lib success_obj then [CHR 0xE2, CHR 0x9C, CHR 0x93] @ '' Success'' @ [CHR 0x0A]
               else [CHR 0xE2, CHR 0x9C, CHR 0x97] @ '' Failed'' @ [CHR 0x0A])
          @ line_for (object_get_ex lib obj ''message'') (print_text lib) ''Message: ''
          @ (case object_get_ex lib obj ''data'' of
               None \<Rightarrow> []
             | Some data_obj \<Rightarrow> [CHR 0x0A] @ ''Data:'' @ [CHR 0x0A] @ print_data lib data_obj))"

section \<open>The program\<close>

text \<open>The exit code and what is printed.\<close>

definition tenant_client_main ::
    "'j json_client_lib \<Rightarrow> (string \<Rightarrow> string option) \<Rightarrow> bool \<Rightarrow> string list \<Rightarrow> int \<times> string" where
  "tenant_client_main lib ch malloc_ok argv =
     (case client_request (to_json_string lib) argv of
        None \<Rightarrow> (1, [])
      | Some json_cmd \<Rightarrow>
          let sending = ''Sending: '' @ json_cmd @ [CHR 0x0A]
          in (case send_command ch malloc_ok json_cmd of
                None \<Rightarrow> (1, sending)
              | Some response \<Rightarrow>
                  (0, sending @ [CHR 0x0A] @ ''Response:'' @ [CHR 0x0A] @ print_response lib response)))"

end
