(* ===== verification/Client_Spec.thy ===== *)
theory Client_Spec
  imports Tenant_Client Daemon_Spec
begin

text \<open>
  The client connected to the daemon: what a command line does to the tenant table, and what the
  list of the tenants shows of it. What is needed of the JSON library is that it reads back the
  texts it printed (\<open>reads_back\<close>).
\<close>

section \<open>Reading back what was printed\<close>

text \<open>The accessors see a constructed object in a parsed value.\<close>

fun represents :: "'j json_client_lib \<Rightarrow> json_out \<Rightarrow> 'j option \<Rightarrow> bool" where
  "represents lib (JBoolean b) v \<longleftrightarrow> get_boolean lib v = b"
| "represents lib (JInt n) v \<longleftrightarrow> get_int lib v = n"
| "represents lib (JInt64 n) v \<longleftrightarrow> get_int64 lib v = n"
| "represents lib (JString s) v \<longleftrightarrow> get_string lib v = Some s"
| "represents lib (JArray os) v \<longleftrightarrow> is_array lib v \<and> list_all2 (\<lambda>x w. represents lib x w) os (array_list lib v)"
| "represents lib (JObject fs) v \<longleftrightarrow> \<not> is_array lib v \<and> is_object lib v
     \<and> (\<forall>p\<in>set fs. \<exists>w. field_of lib v (fst p) = Some w \<and> represents lib (snd p) w)
     \<and> (\<forall>k. k \<notin> fst ` set fs \<longrightarrow> field_of lib v k = None)"

definition reads_back :: "'j json_client_lib \<Rightarrow> string \<Rightarrow> json_out \<Rightarrow> bool" where
  "reads_back lib text obj \<longleftrightarrow> (\<exists>j. tokener_parse lib text = Some j \<and> represents lib obj (Some j))"

text \<open>A text that one read of either program takes whole.\<close>

definition fits :: "string \<Rightarrow> bool" where
  "fits text \<longleftrightarrow> text \<noteq> [] \<and> length text < BUFFER_SIZE \<and> CHR 0x00 \<notin> set text"

lemma fits_whole: "fits text \<Longrightarrow> takeWhile (\<lambda>c. c \<noteq> CHR 0x00) (take (BUFFER_SIZE - 1) text) = text"
  by (auto simp: fits_def intro!: takeWhile_eq_all_conv [THEN iffD2])

lemma handle_client_whole:
  "fits text \<Longrightarrow> process_command lib env text s = Some (reply, s') \<Longrightarrow>
   handle_client lib env (Some text) s = Some (reply @ [CHR 0x0A], s')"
  using fits_whole [of "text"] by (cases "text") (simp_all add: handle_client_def fits_def)

lemma represents_field:
  "represents lib (JObject fs) v \<Longrightarrow> (k, x) \<in> set fs \<Longrightarrow> \<exists>w. field_of lib v k = Some w \<and> represents lib x w"
  by auto

section \<open>What a command line does\<close>

definition client_effect :: "string list \<Rightarrow> tenant_table \<Rightarrow> int \<times> tenant_table" where
  "client_effect argv T =
     (let tid = atoi (argv ! 2);
          q = daemon_quota (atoi (argv ! 3)) (atoi (argv ! 4)) (memory_arg argv)
      in if argv ! 1 = ''create'' then spec_create tid (Some q) T
         else if argv ! 1 = ''delete'' then spec_delete tid T
         else if argv ! 1 = ''update'' \<or> argv ! 1 = ''set-quota'' then spec_update_quota tid (Some q) T
         else if argv ! 1 = ''status'' \<and> length argv > 2 \<and> members T tid = None then (-1, T)
         else (0, T))"

lemma request_print: "client_request f argv = map_option f (client_request (\<lambda>x. x) argv)"
  by (simp add: client_request_def build_create_cmd_def build_delete_cmd_def build_update_cmd_def
      build_status_cmd_def build_list_cmd_def Let_def)

definition daemon_lib :: "'j json_client_lib \<Rightarrow> 'j json_lib" where
  "daemon_lib lib = json_lib.truncate lib"

lemma daemon_lib_sel [simp]:
  "tokener_parse (daemon_lib lib) = tokener_parse lib" "object_get_ex (daemon_lib lib) = object_get_ex lib"
  "get_int (daemon_lib lib) = get_int lib" "get_int64 (daemon_lib lib) = get_int64 lib"
  "get_string (daemon_lib lib) = get_string lib" "to_json_string (daemon_lib lib) = to_json_string lib"
  by (simp_all add: daemon_lib_def json_lib.truncate_def)

lemmas client_defs = client_request_def build_create_cmd_def build_delete_cmd_def build_update_cmd_def
  build_status_cmd_def build_list_cmd_def Let_def

lemma client_request_effect:
  assumes r: "client_request (\<lambda>x. x) argv = Some obj"
    and p: "tokener_parse lib text = Some j" "represents lib obj (Some j)"
  shows "\<exists>c. command_of (daemon_lib lib) text = Some c"
    and "daemon_effect (daemon_lib lib) text T = client_effect argv T"
proof -
  consider "argv ! 1 = ''create''" | "argv ! 1 = ''delete''" | "argv ! 1 = ''update'' \<or> argv ! 1 = ''set-quota''"
    | "argv ! 1 = ''status''" | "argv ! 1 = ''list''"
    using r by (auto simp: client_request_def split: if_splits)
  then have "(\<exists>c. command_of (daemon_lib lib) text = Some c)
    \<and> daemon_effect (daemon_lib lib) text T = client_effect argv T"
  proof cases
    case 1
    with r p show ?thesis
      by (auto simp: client_defs field_of_def command_of_def daemon_effect_def client_effect_def
          request_quota_def int_field_def memory_field_def split: if_splits)
  next
    case 2
    with r p show ?thesis
      by (auto simp: client_defs field_of_def command_of_def daemon_effect_def client_effect_def split: if_splits)
  next
    case 3
    with r p show ?thesis
      by (auto simp: client_defs field_of_def command_of_def daemon_effect_def client_effect_def
          request_quota_def int_field_def memory_field_def split: if_splits)
  next
    case 4
    with r p show ?thesis
      by (auto simp: client_defs field_of_def command_of_def daemon_effect_def client_effect_def split: if_splits)
  next
    case 5
    with r p show ?thesis
      by (auto simp: client_defs field_of_def command_of_def daemon_effect_def client_effect_def split: if_splits)
  qed
  then show "\<exists>c. command_of (daemon_lib lib) text = Some c"
    and "daemon_effect (daemon_lib lib) text T = client_effect argv T" by blast+
qed

text \<open>
  C26 (what a command line does). On an attached table, with a library that reads back the request
  it printed, and a request that fits one read, the daemon answers the request of every accepted
  command line; the abstract table changes as the command line says, with the numbers of its
  arguments, and the answer reports success exactly when the operation succeeded.
\<close>

theorem client_command_effect:
  assumes a: "tenant_attached s" and r: "client_request (\<lambda>x. x) argv = Some obj"
    and t: "fits (to_json_string lib obj)" "reads_back lib (to_json_string lib obj) obj"
  shows "\<exists>s' m d. client_request (to_json_string lib) argv = Some (to_json_string lib obj)
    \<and> handle_client (daemon_lib lib) env (Some (to_json_string lib obj)) s =
        Some (build_response (daemon_lib lib) (fst (client_effect argv (tenant_state_abs s)) = 0) m d @ [CHR 0x0A], s')
    \<and> tenant_attached s' \<and> tenant_state_abs s' = snd (client_effect argv (tenant_state_abs s))"
proof -
  let ?t = "to_json_string lib obj"
  obtain j where j: "tokener_parse lib ?t = Some j" "represents lib obj (Some j)"
    using t(2) by (auto simp: reads_back_def)
  obtain cmd x where c: "command_of (daemon_lib lib) ?t = Some (cmd, x)"
    using client_request_effect(1) [OF r j] by auto
  obtain reply s' where q: "run_command (daemon_lib lib) env cmd x s = (reply, s')" by fastforce
  have h: "handled (daemon_lib lib) (client_effect argv (tenant_state_abs s)) (reply, s')"
    using run_command_handled [OF a c, of env] q client_request_effect(2) [OF r j] by simp
  have p: "process_command (daemon_lib lib) env ?t s = Some (reply, s')"
    by (simp add: process_command_eq c q)
  have "handle_client (daemon_lib lib) env (Some ?t) s = Some (reply @ [CHR 0x0A], s')"
    by (rule handle_client_whole [OF t(1) p])
  then show ?thesis using h r by (subst request_print) (auto simp: handled_def)
qed

section \<open>What the list shows\<close>

definition tenant_line :: "tenant_info \<Rightarrow> string" where
  "tenant_line t =
     ''    ['' @ dec (unat (ti_tenant_id t)) @ ''] '' @ ti_tenant_name t
     @ '': QP='' @ sdec (sint (tu_qp_count (ti_usage t))) @ ''/'' @ sdec (sint (max_qp_per_tenant (ti_quota t)))
     @ '', MR='' @ sdec (sint (tu_mr_count (ti_usage t))) @ ''/'' @ sdec (sint (max_mr_per_tenant (ti_quota t)))
     @ [CHR 0x0A]"

definition list_answer :: "tenant_shared_memory \<Rightarrow> json_out" where
  "list_answer d =
     (let ts = map (\<lambda>t. JObject (list_entry t)) (tenants_in_use (Some d))
      in response_object True (Some ''Tenant list'')
           (Some (JObject [(''count'', JInt (of_nat (length ts))), (''version'', JInt64 (tenant_version d)),
                           (''tenants'', JArray ts)])))"

definition list_text :: "tenant_shared_memory \<Rightarrow> string" where
  "list_text d =
     [CHR 0xE2, CHR 0x9C, CHR 0x93] @ '' Success'' @ [CHR 0x0A] @ ''Message: Tenant list'' @ [CHR 0x0A]
     @ [CHR 0x0A] @ ''Data:'' @ [CHR 0x0A]
     @ ''  Active tenants: '' @ dec (length (tenants_in_use (Some d))) @ [CHR 0x0A]
     @ ''  Policy version: '' @ dec (unat (tenant_version d)) @ [CHR 0x0A]
     @ [CHR 0x0A] @ ''  Tenants:'' @ [CHR 0x0A] @ concat (map tenant_line (tenants_in_use (Some d)))"

lemma list_item_line:
  assumes "represents lib (JObject (list_entry t)) w"
  shows "print_list_item lib w = tenant_line t"
proof -
  note f = represents_field [OF assms]
  obtain i where i: "field_of lib w ''id'' = Some i" "get_int lib i = ti_tenant_id t"
    using f [of "''id''" "JInt (ti_tenant_id t)"] by (auto simp: list_entry_def)
  obtain n where n: "field_of lib w ''name'' = Some n" "get_string lib n = Some (ti_tenant_name t)"
    using f [of "''name''" "JString (ti_tenant_name t)"] by (auto simp: list_entry_def)
  have nums: "\<exists>v. field_of lib w k = Some v \<and> get_int lib v = m" if "(k, JInt m) \<in> set (list_entry t)" for k m
    using f [OF that] by auto
  obtain q ql m ml where "field_of lib w ''qp_used'' = Some q" "get_int lib q = tu_qp_count (ti_usage t)"
      "field_of lib w ''qp_limit'' = Some ql" "get_int lib ql = max_qp_per_tenant (ti_quota t)"
      "field_of lib w ''mr_used'' = Some m" "get_int lib m = tu_mr_count (ti_usage t)"
      "field_of lib w ''mr_limit'' = Some ml" "get_int lib ml = max_mr_per_tenant (ti_quota t)"
    using nums [of "''qp_used''" "tu_qp_count (ti_usage t)"] nums [of "''qp_limit''" "max_qp_per_tenant (ti_quota t)"]
      nums [of "''mr_used''" "tu_mr_count (ti_usage t)"] nums [of "''mr_limit''" "max_mr_per_tenant (ti_quota t)"]
    unfolding list_entry_def by (simp (no_asm_use)) blast
  with i n show ?thesis
    by (simp add: print_list_item_def tenant_line_def print_id_def print_name_def print_text_def print_field_def
        print_int_def)
qed

lemma list_items_lines:
  "list_all2 (\<lambda>x w. represents lib x w) (map (\<lambda>t. JObject (list_entry t)) ts) ws \<Longrightarrow>
   concat (map (print_list_item lib) ws) = concat (map tenant_line ts)"
  by (induction ts arbitrary: ws) (auto simp: list_all2_Cons1 list_item_line simp del: represents.simps)

lemma in_use_length: "length (tenants_in_use (Some d)) \<le> 64"
  using length_filter_le [of "\<lambda>t. ti_status t \<noteq> TENANT_STATUS_INACTIVE" "take 64 (tenants d)"]
  by (simp add: tenants_in_use_def MAX_TENANTS_def)

lemma sint_small: "n \<le> 64 \<Longrightarrow> sdec (sint (of_nat n :: i32)) = dec n"
  by (simp add: sdec_def signed_of_nat signed_take_bit_int_eq_self)

lemma print_list:
  assumes p: "tokener_parse lib response = Some j" and r: "represents lib (list_answer d) (Some j)"
  shows "print_response lib response = list_text d"
proof -
  let ?ts = "tenants_in_use (Some d)"
  obtain sv mv dv where f: "object_get_ex lib j ''success'' = Some sv" "get_boolean lib sv"
      "object_get_ex lib j ''message'' = Some mv" "get_string lib mv = Some ''Tenant list''"
      "object_get_ex lib j ''data'' = Some dv"
    and dv: "represents lib (JObject [(''count'', JInt (of_nat (length ?ts))), (''version'', JInt64 (tenant_version d)),
       (''tenants'', JArray (map (\<lambda>t. JObject (list_entry t)) ?ts))]) dv"
    using r by (auto simp: list_answer_def response_object_def field_of_def Let_def)
  obtain cv vv tv where g: "field_of lib dv ''count'' = Some cv" "get_int lib cv = of_nat (length ?ts)"
      "field_of lib dv ''version'' = Some vv" "get_int64 lib vv = tenant_version d"
      "field_of lib dv ''tenants'' = Some tv" "is_array lib tv"
      "list_all2 (\<lambda>x w. represents lib x w) (map (\<lambda>t. JObject (list_entry t)) ?ts) (array_list lib tv)"
      "\<not> is_array lib dv" "is_object lib dv"
    using dv by auto
  show ?thesis
    using list_items_lines [OF g(7)] sint_small [OF in_use_length, of d]
    by (simp add: print_response_def p f line_for_def print_text_def print_data_def g print_int_def print_int64_def
        list_text_def)
qed

definition list_request :: json_out where
  "list_request = JObject [(''cmd'', JString ''LIST_TENANTS'')]"

text \<open>The daemon at the other end of the connection; a daemon that crashes sends nothing.\<close>

definition daemon_channel :: "'j json_client_lib \<Rightarrow> daemon_env \<Rightarrow> tenant_state \<Rightarrow> string \<Rightarrow> string option" where
  "daemon_channel lib env s = (\<lambda>bytes. map_option fst (handle_client (daemon_lib lib) env (Some bytes) s))"

lemma daemon_lists:
  assumes a: "tenant_attached s" and d: "tenant_object s = Some d"
    and t: "fits text" "reads_back lib text list_request"
  shows "daemon_channel lib env s text = Some (to_json_string lib (list_answer d) @ [CHR 0x0A])"
proof -
  obtain j where j: "tokener_parse lib text = Some j" "represents lib list_request (Some j)"
    using t(2) by (auto simp: reads_back_def)
  have c: "command_of (daemon_lib lib) text = Some (''LIST_TENANTS'', j)"
    using j by (auto simp: command_of_def list_request_def field_of_def)
  have p: "tenant_shm_get_ptr (de_tenant env 0) s = (Some d, s)"
    using attachedD [OF a] d by fastforce
  have "handle_list_tenants (daemon_lib lib) env s = (to_json_string lib (list_answer d), s)"
    by (simp add: handle_list_tenants_def p Let_def build_response_def list_answer_def)
  then have "process_command (daemon_lib lib) env text s = Some (to_json_string lib (list_answer d), s)"
    by (simp add: process_command_eq c run_command_def)
  from handle_client_whole [OF t(1) this] show ?thesis by (simp add: daemon_channel_def)
qed

text \<open>
  C29 (the list shows the table). When request and answer fit one read and the library reads back
  what it printed, \<open>tenant_manager_client list\<close> connected to the daemon exits with 0 and
  prints the number of the tenants in use, the version of the table, and one line for each tenant in
  use, in the order of the table, with its number, name, counts and limits.
\<close>

theorem client_list_shows_table:
  assumes s: "tenant_attached s" "tenant_object s = Some d"
    and request: "fits (to_json_string lib list_request)"
      "reads_back lib (to_json_string lib list_request) list_request"
    and answer: "fits (to_json_string lib (list_answer d) @ [CHR 0x0A])"
      "reads_back lib (to_json_string lib (list_answer d) @ [CHR 0x0A]) (list_answer d)"
  shows "tenant_client_main lib (daemon_channel lib env s) True [prog, ''list''] =
    (0, ''Sending: '' @ to_json_string lib list_request @ [CHR 0x0A] @ [CHR 0x0A] @ ''Response:'' @ [CHR 0x0A]
        @ list_text d)"
proof -
  have "client_request (to_json_string lib) [prog, ''list''] = Some (to_json_string lib list_request)"
    by (simp add: client_request_def build_list_cmd_def list_request_def)
  moreover have "send_command (daemon_channel lib env s) True (to_json_string lib list_request)
      = Some (to_json_string lib (list_answer d) @ [CHR 0x0A])"
    using fits_whole [OF answer(1)] by (simp add: send_command_def daemon_lists [OF s request])
  moreover have "print_response lib (to_json_string lib (list_answer d) @ [CHR 0x0A]) = list_text d"
    using answer(2) print_list by (auto simp: reads_back_def)
  ultimately show ?thesis by (simp add: tenant_client_main_def)
qed

text \<open>A library for the examples, whose values are the constructed trees; it knows two texts.\<close>

definition tree_json :: "json_out \<Rightarrow> json_out \<Rightarrow> json_out json_client_lib" where
  "tree_json request answer =
     \<lparr>tokener_parse = (\<lambda>t. if t = ''request'' then Some request else Some answer),
      object_get_ex = (\<lambda>j key. case j of JObject fs \<Rightarrow> map_option Some (map_of fs key) | _ \<Rightarrow> None),
      get_int = (\<lambda>v. case v of Some (JInt n) \<Rightarrow> n | _ \<Rightarrow> 0),
      get_int64 = (\<lambda>v. case v of Some (JInt64 n) \<Rightarrow> n | _ \<Rightarrow> 0),
      get_string = (\<lambda>v. case v of Some (JString t) \<Rightarrow> Some t | _ \<Rightarrow> None),
      to_json_string = (\<lambda>x. if x = request then ''request'' else ''answer''),
      get_boolean = (\<lambda>v. case v of Some (JBoolean b) \<Rightarrow> b | _ \<Rightarrow> False),
      is_array = (\<lambda>v. case v of Some (JArray _) \<Rightarrow> True | _ \<Rightarrow> False),
      is_object = (\<lambda>v. case v of Some (JObject _) \<Rightarrow> True | _ \<Rightarrow> False),
      array_list = (\<lambda>v. case v of Some (JArray xs) \<Rightarrow> map Some xs | _ \<Rightarrow> [])\<rparr>"

fun tree_wf :: "json_out \<Rightarrow> bool" where
  "tree_wf (JArray xs) \<longleftrightarrow> (\<forall>x\<in>set xs. tree_wf x)"
| "tree_wf (JObject fs) \<longleftrightarrow> distinct (map fst fs) \<and> (\<forall>p\<in>set fs. tree_wf (snd p))"
| "tree_wf _ \<longleftrightarrow> True"

lemma tree_represents: "tree_wf x \<Longrightarrow> represents (tree_json r a) x (Some x)"
proof (induction x)
  case (JArray xs)
  then show ?case by (simp add: tree_json_def list_all2_conv_all_nth)
next
  case (JObject fs)
  have "\<exists>w. field_of (tree_json r a) (Some (JObject fs)) (fst p) = Some w \<and> represents (tree_json r a) (snd p) w"
    if "p \<in> set fs" for p
  proof -
    have "map_of fs (fst p) = Some (snd p)" using JObject.prems that by (simp add: map_of_is_SomeI)
    moreover have "represents (tree_json r a) (snd p) (Some (snd p))"
      using JObject that by (cases p) (auto intro: snds.intros)
    ultimately show ?thesis by (simp add: field_of_def tree_json_def)
  qed
  moreover have "k \<notin> fst ` set fs \<Longrightarrow> field_of (tree_json r a) (Some (JObject fs)) k = None" for k
    by (simp add: field_of_def tree_json_def map_of_eq_None_iff)
  ultimately show ?case by (simp add: tree_json_def)
qed (simp_all add: tree_json_def)

lemma tree_fits: "fits ''request''" "fits (''answer'' @ [CHR 0x0A])"
  by (simp_all add: fits_def BUFFER_SIZE_def)

lemma tree_reads:
  "tree_wf r \<Longrightarrow> reads_back (tree_json r a) ''request'' r"
  "tree_wf a \<Longrightarrow> reads_back (tree_json r a) (''answer'' @ [CHR 0x0A]) a"
  using tree_represents [of r r a] tree_represents [of a r a] by (simp_all add: reads_back_def) (simp_all add: tree_json_def)

lemma tree_prints: "to_json_string (tree_json r a) r = ''request''" "x \<noteq> r \<Longrightarrow> to_json_string (tree_json r a) x = ''answer''"
  by (simp_all add: tree_json_def)

lemma list_answer_tree: "tree_wf (list_answer d)" "list_answer d \<noteq> list_request"
  by (auto simp: list_answer_def response_object_def Let_def list_entry_def list_request_def)

definition demo_update :: json_out where
  "demo_update = JObject [(''cmd'', JString ''UPDATE_QUOTA''), (''tenant'', JInt 1), (''qp'', JInt 7), (''mr'', JInt 7),
     (''memory'', JInt64 1073741824)]"

theorem client_command_effect_witness:
  "\<exists>reply s'. handle_client (daemon_lib (tree_json demo_update demo_update)) demo_daemon_env (Some ''request'') two_tenants
       = Some (reply, s')
     \<and> members (tenant_state_abs s') 1 = Some (TENANT_STATUS_ACTIVE, daemon_quota 7 7 1073741824, zero_tenant_usage)"
proof -
  let ?argv = "[''client'', ''update'', ''1'', ''7'', ''7'']" and ?lib = "tree_json demo_update demo_update"
  have r: "client_request (\<lambda>x. x) ?argv = Some demo_update"
    by (simp add: client_defs demo_update_def demo_numbers memory_arg_def)
  have w: "tree_wf demo_update" by (simp add: demo_update_def)
  have e: "client_effect ?argv T = spec_update_quota 1 (Some (daemon_quota 7 7 1073741824)) T" for T
    by (simp add: client_effect_def demo_numbers memory_arg_def)
  show ?thesis
    using client_command_effect [OF two_tenants_attached r, of ?lib demo_daemon_env] tree_fits(1)
      tree_reads(1) [OF w, of demo_update] tree_prints(1) [of demo_update demo_update]
    by (auto simp: e spec_update_quota_def two_tenants_abs)
qed

theorem client_list_shows_table_witness:
  "\<exists>d. tenant_object two_tenants = Some d
     \<and> fst (tenant_client_main (tree_json list_request (list_answer d))
         (daemon_channel (tree_json list_request (list_answer d)) demo_daemon_env two_tenants) True [''client'', ''list'']) = 0"
proof -
  obtain d where d: "tenant_object two_tenants = Some d" using attachedD [OF two_tenants_attached] by blast
  have w: "tree_wf list_request" by (simp add: list_request_def)
  show ?thesis
    using d client_list_shows_table [OF two_tenants_attached d, of "tree_json list_request (list_answer d)" demo_daemon_env "''client''"]
      tree_fits tree_reads(1) [OF w, of "list_answer d"] tree_reads(2) [OF list_answer_tree(1), of list_request d]
      tree_prints(1) [of list_request "list_answer d"] tree_prints(2) [OF list_answer_tree(2), of "list_answer d" d]
    by auto
qed

end
