(* ===== verification/Hooks_Basic.thy ===== *)
theory Hooks_Basic
  imports Intercept_Core Shm Collector_Client
begin

text \<open>
  The basic verbs hooks (\<open>src/rdma_hooks.c\<close>): the file without tenants, in place of which
  the build links the tenant hooks. The restriction checks with their fall-back from the process
  table to the eBPF monitor and to the local counters, the hooks of queue pairs and memory regions,
  and the hooks that only pass on (address handles, shared receive queues, completion queues,
  protection domains).

  As in the tenant hooks the driver's answer is in the environment and the calls that reach it are
  recorded; a pointer is a 64-bit word. What the eBPF monitor answers, and the connection to the
  collector, are arguments too. The log and the local policy limit, which no hook of this file
  reads, are left out.
\<close>

section \<open>State and environment\<close>

record basic_qp_attr =
  bq_type :: i32
  bq_max_send_wr :: u32
  bq_max_recv_wr :: u32

datatype basic_call =
    BCreateQp u64 basic_qp_attr
  | BDestroyQp u64
  | BCreateAh u64 u64
  | BModifyAh u64 u64
  | BDestroyAh u64
  | BCreateSrq u64 u64
  | BModifySrq u64 u64 i32
  | BQuerySrq u64 u64
  | BDestroySrq u64
  | BDeregMr u64
  | BDestroyMr u64
  | BCreateCq u64 i32 u64 u64 i32
  | BDestroyCq u64
  | BAllocPd u64
  | BDeallocPd u64
  | BRegMr u64 u64 u64 i32

record basic_hooks =
  bh_core :: intercept_state
  bh_shm :: shm_state
  bh_init_done :: bool
  bh_ptrs :: "string \<Rightarrow> bool"
  bh_ebpf_initialized :: bool
  bh_trace :: "basic_call list"

record basic_env =
  be_core :: core_env
  be_shm :: shm_env
  be_pid :: pid_t
  be_dlopen_ok :: bool
  be_dlsym :: "string \<Rightarrow> bool"
  be_ebpf_init :: i32
  be_ebpf_attach :: "shm_state \<Rightarrow> shm_state"
  be_ebpf_usage :: "resource_usage option" \<comment> \<open>\<open>ebpf_get_process_resources\<close>, None on error\<close>
  be_collector :: channel
  be_driver_ptr :: u64
  be_driver_rc :: i32

section \<open>Resources\<close>

definition basic_process_resources :: "pid_t \<Rightarrow> basic_hooks \<Rightarrow> int \<times> resource_usage" where
  "basic_process_resources pid h =
     (case shm_get_process_resources pid True (bh_shm h) of
        (rc, Some u) \<Rightarrow> (rc, u)
      | (rc, None) \<Rightarrow> (rc, zero_usage))"

definition basic_global_resources :: "basic_hooks \<Rightarrow> int \<times> resource_usage" where
  "basic_global_resources h =
     (case shm_get_global_resources True (bh_shm h) of
        (rc, Some u) \<Rightarrow> (rc, u)
      | (rc, None) \<Rightarrow> (rc, zero_usage))"

definition basic_init_function_pointers :: "basic_env \<Rightarrow> basic_hooks \<Rightarrow> basic_hooks" where
  "basic_init_function_pointers env h =
     (let h = h\<lparr>bh_core := init_if_needed (be_core env) (bh_core h)\<rparr>
      in if \<not> be_dlopen_ok env then h
         else h\<lparr>bh_ptrs := be_dlsym env, bh_shm := be_ebpf_attach env (bh_shm h),
                bh_ebpf_initialized := (be_ebpf_init env = 0)\<rparr>)"

definition basic_once :: "basic_env \<Rightarrow> basic_hooks \<Rightarrow> basic_hooks" where
  "basic_once env h =
     (if bh_init_done h then h else (basic_init_function_pointers env h)\<lparr>bh_init_done := True\<rparr>)"

section \<open>Checks\<close>

definition basic_type_allowed :: "intercept_config \<Rightarrow> basic_qp_attr \<Rightarrow> bool" where
  "basic_type_allowed c attr =
     (if bq_type attr = 2 then allow_rc_qp c
      else if bq_type attr = 3 then allow_uc_qp c
      else if bq_type attr = 4 then allow_ud_qp c
      else True)"

text \<open>The count the per-process limit is compared with: from the process table, else from the
  eBPF monitor (where a zero is replaced by the local count), else the local count.\<close>

definition effective_qp_count :: "basic_env \<Rightarrow> basic_hooks \<Rightarrow> u32" where
  "effective_qp_count env h =
     (case basic_process_resources (be_pid env) h of
        (rc, u) \<Rightarrow>
          if rc = 0 then qp_count u
          else if bh_ebpf_initialized h then
            (case be_ebpf_usage env of
               Some e \<Rightarrow> if qp_count e = 0 \<and> st_qp_count (bh_core h) > 0 then st_qp_count (bh_core h)
                         else qp_count e
             | None \<Rightarrow> st_qp_count (bh_core h))
          else st_qp_count (bh_core h))"

definition basic_qp_restrictions :: "basic_env \<Rightarrow> basic_qp_attr \<Rightarrow> basic_hooks \<Rightarrow> bool" where
  "basic_qp_restrictions env attr h =
     (let c = st_config (bh_core h)
      in if \<not> enable_qp_control c then True
         else if \<not> basic_type_allowed c attr then False
         else if \<not> effective_qp_count env h + 1 \<le> max_qp_per_process c then False
         else
           let (glob_rc, glob) = basic_global_resources h
           in if glob_rc = 0 \<and> qp_count glob \<ge> max_global_qp c then False
              else if bq_max_send_wr attr > max_send_wr_limit c then False
              else if bq_max_recv_wr attr > max_recv_wr_limit c then False
              else True)"

text \<open>The process limits of a registration, against one source of the usage.\<close>

definition mr_within :: "intercept_config \<Rightarrow> u32 \<Rightarrow> u64 \<Rightarrow> u64 \<Rightarrow> bool" where
  "mr_within c count memory len =
     (if count \<ge> max_mr_per_process c then False
      else if memory + len > max_memory_per_process c then False
      else True)"

definition basic_mr_restrictions :: "basic_env \<Rightarrow> u64 \<Rightarrow> basic_hooks \<Rightarrow> bool" where
  "basic_mr_restrictions env len h =
     (let c = st_config (bh_core h); core = bh_core h
      in if \<not> enable_mr_control c then True
         else
           (case basic_process_resources (be_pid env) h of
              (rc, u) \<Rightarrow>
                if rc = 0 then mr_within c (mr_count u) (memory_used u) len
                else if bh_ebpf_initialized h then
                  (case be_ebpf_usage env of
                     Some e \<Rightarrow> mr_within c (mr_count e) (memory_used e) len
                   | None \<Rightarrow> mr_within c (st_mr_count core) (st_memory_used core) len)
                else mr_within c (st_mr_count core) (st_memory_used core) len))"

section \<open>Hooks\<close>

definition basic_reach :: "basic_call \<Rightarrow> basic_hooks \<Rightarrow> basic_hooks" where
  "basic_reach c h = h\<lparr>bh_trace := bh_trace h @ [c]\<rparr>"

definition basic_bypass :: "string \<Rightarrow> basic_hooks \<Rightarrow> bool" where
  "basic_bypass name h \<longleftrightarrow> \<not> rdma_intercept_is_enabled (bh_core h) \<or> \<not> bh_ptrs h name"

definition basic_pass_ptr ::
    "basic_env \<Rightarrow> string \<Rightarrow> basic_call \<Rightarrow> basic_hooks \<Rightarrow> u64 \<times> i32 option \<times> basic_hooks" where
  "basic_pass_ptr env name c h =
     (if bh_ptrs h name then (be_driver_ptr env, None, basic_reach c h) else (0, Some ENOSYS, h))"

definition basic_pass_rc ::
    "basic_env \<Rightarrow> string \<Rightarrow> basic_call \<Rightarrow> basic_hooks \<Rightarrow> i32 \<times> i32 option \<times> basic_hooks" where
  "basic_pass_rc env name c h =
     (if bh_ptrs h name then (be_driver_rc env, None, basic_reach c h) else (-1, Some ENOSYS, h))"

definition basic_create_qp ::
    "basic_env \<Rightarrow> u64 \<Rightarrow> basic_qp_attr \<Rightarrow> basic_hooks \<Rightarrow> u64 \<times> i32 option \<times> basic_hooks" where
  "basic_create_qp env pd attr h =
     (let h = basic_once env h
      in if basic_bypass ''ibv_create_qp'' h then basic_pass_ptr env ''ibv_create_qp'' (BCreateQp pd attr) h
         else if \<not> basic_qp_restrictions env attr h then (0, Some EPERM, h)
         else
           let h = basic_reach (BCreateQp pd attr) h; qp = be_driver_ptr env
           in if qp = 0 then (0, None, h)
              else
                let h = h\<lparr>bh_core := (bh_core h)\<lparr>st_qp_count := st_qp_count (bh_core h) + 1\<rparr>\<rparr>;
                    usage = \<lparr>qp_count = st_qp_count (bh_core h),
                             mr_count = st_mr_count (bh_core h),
                             memory_used = st_memory_used (bh_core h)\<rparr>
                in (qp, None, h\<lparr>bh_shm := snd (shm_update_process_resources (be_shm env) (be_pid env)
                                                 (Some usage) (bh_shm h))\<rparr>))"

definition basic_destroy_qp ::
    "basic_env \<Rightarrow> u64 \<Rightarrow> basic_hooks \<Rightarrow> i32 \<times> i32 option \<times> basic_hooks" where
  "basic_destroy_qp env qp h =
     (let h = basic_once env h
      in if basic_bypass ''ibv_destroy_qp'' h then basic_pass_rc env ''ibv_destroy_qp'' (BDestroyQp qp) h
         else
           let h = basic_reach (BDestroyQp qp) h; result = be_driver_rc env
           in (result, None,
               if result = 0 \<and> st_qp_count (bh_core h) > 0
               then h\<lparr>bh_core := (bh_core h)\<lparr>st_qp_count := st_qp_count (bh_core h) - 1\<rparr>\<rparr>
               else h))"

definition basic_reg_mr ::
    "basic_env \<Rightarrow> u64 \<Rightarrow> u64 \<Rightarrow> u64 \<Rightarrow> i32 \<Rightarrow> basic_hooks \<Rightarrow> u64 \<times> i32 option \<times> basic_hooks" where
  "basic_reg_mr env pd addr len access h =
     (let h = basic_once env h
      in if basic_bypass ''ibv_reg_mr'' h then basic_pass_ptr env ''ibv_reg_mr'' (BRegMr pd addr len access) h
         else if \<not> basic_mr_restrictions env len h then (0, Some EPERM, h)
         else if collector_check_global_memory_limit (be_collector env) len then (0, Some EPERM, h)
         else
           let h = basic_reach (BRegMr pd addr len access) h; mr = be_driver_ptr env
           in if mr = 0 then (0, None, h)
              else (mr, None, h\<lparr>bh_core := (bh_core h)
                      \<lparr>st_mr_count := st_mr_count (bh_core h) + 1,
                       st_memory_used := st_memory_used (bh_core h) + len\<rparr>\<rparr>))"

text \<open>A memory region is its handle with the length field the hook reads; None is NULL.\<close>

definition basic_dereg_mr ::
    "basic_env \<Rightarrow> (u64 \<times> u64) option \<Rightarrow> basic_hooks \<Rightarrow> i32 \<times> i32 option \<times> basic_hooks" where
  "basic_dereg_mr env mr h =
     (let h = basic_once env h; handle = (case mr of None \<Rightarrow> 0 | Some (p, _) \<Rightarrow> p)
      in if basic_bypass ''ibv_dereg_mr'' h then basic_pass_rc env ''ibv_dereg_mr'' (BDeregMr handle) h
         else
           let mr_length = (case mr of None \<Rightarrow> 0 | Some (_, l) \<Rightarrow> l);
               h = basic_reach (BDeregMr handle) h; result = be_driver_rc env
           in if result \<noteq> 0 then (result, None, h)
              else
                let core = bh_core h;
                    core = (if st_mr_count core > 0 then core\<lparr>st_mr_count := st_mr_count core - 1\<rparr> else core);
                    core = (if st_memory_used core \<ge> mr_length
                            then core\<lparr>st_memory_used := st_memory_used core - mr_length\<rparr> else core)
                in (result, None, h\<lparr>bh_core := core\<rparr>))"

text \<open>The hooks that only pass on: the driver is called once, whether or not the layer is enabled.\<close>

definition passing_ptr ::
    "string \<Rightarrow> basic_env \<Rightarrow> basic_call \<Rightarrow> basic_hooks \<Rightarrow> u64 \<times> i32 option \<times> basic_hooks" where
  "passing_ptr name env c h =
     (let h = basic_once env h
      in if basic_bypass name h then basic_pass_ptr env name c h
         else (be_driver_ptr env, None, basic_reach c h))"

definition passing_rc ::
    "string \<Rightarrow> basic_env \<Rightarrow> basic_call \<Rightarrow> basic_hooks \<Rightarrow> i32 \<times> i32 option \<times> basic_hooks" where
  "passing_rc name env c h =
     (let h = basic_once env h
      in if basic_bypass name h then basic_pass_rc env name c h
         else (be_driver_rc env, None, basic_reach c h))"

definition basic_create_ah :: "basic_env \<Rightarrow> u64 \<Rightarrow> u64 \<Rightarrow> basic_hooks \<Rightarrow> u64 \<times> i32 option \<times> basic_hooks" where
  "basic_create_ah env pd attr h = passing_ptr ''ibv_create_ah'' env (BCreateAh pd attr) h"

definition basic_modify_ah :: "basic_env \<Rightarrow> u64 \<Rightarrow> u64 \<Rightarrow> basic_hooks \<Rightarrow> i32 \<times> i32 option \<times> basic_hooks" where
  "basic_modify_ah env ah attr h = passing_rc ''ibv_modify_ah'' env (BModifyAh ah attr) h"

definition basic_destroy_ah :: "basic_env \<Rightarrow> u64 \<Rightarrow> basic_hooks \<Rightarrow> i32 \<times> i32 option \<times> basic_hooks" where
  "basic_destroy_ah env ah h = passing_rc ''ibv_destroy_ah'' env (BDestroyAh ah) h"

definition basic_create_srq :: "basic_env \<Rightarrow> u64 \<Rightarrow> u64 \<Rightarrow> basic_hooks \<Rightarrow> u64 \<times> i32 option \<times> basic_hooks" where
  "basic_create_srq env pd attr h = passing_ptr ''ibv_create_srq'' env (BCreateSrq pd attr) h"

definition basic_modify_srq ::
    "basic_env \<Rightarrow> u64 \<Rightarrow> u64 \<Rightarrow> i32 \<Rightarrow> basic_hooks \<Rightarrow> i32 \<times> i32 option \<times> basic_hooks" where
  "basic_modify_srq env srq attr attr_mask h = passing_rc ''ibv_modify_srq'' env (BModifySrq srq attr attr_mask) h"

definition basic_query_srq :: "basic_env \<Rightarrow> u64 \<Rightarrow> u64 \<Rightarrow> basic_hooks \<Rightarrow> i32 \<times> i32 option \<times> basic_hooks" where
  "basic_query_srq env srq attr h = passing_rc ''ibv_query_srq'' env (BQuerySrq srq attr) h"

definition basic_destroy_srq :: "basic_env \<Rightarrow> u64 \<Rightarrow> basic_hooks \<Rightarrow> i32 \<times> i32 option \<times> basic_hooks" where
  "basic_destroy_srq env srq h = passing_rc ''ibv_destroy_srq'' env (BDestroySrq srq) h"

definition basic_destroy_mr :: "basic_env \<Rightarrow> u64 \<Rightarrow> basic_hooks \<Rightarrow> i32 \<times> i32 option \<times> basic_hooks" where
  "basic_destroy_mr env mr h = passing_rc ''ibv_destroy_mr'' env (BDestroyMr mr) h"

definition basic_create_cq ::
    "basic_env \<Rightarrow> u64 \<Rightarrow> i32 \<Rightarrow> u64 \<Rightarrow> u64 \<Rightarrow> i32 \<Rightarrow> basic_hooks \<Rightarrow> u64 \<times> i32 option \<times> basic_hooks" where
  "basic_create_cq env ctx cqe cq_ctx channel vec h =
     passing_ptr ''ibv_create_cq'' env (BCreateCq ctx cqe cq_ctx channel vec) h"

definition basic_destroy_cq :: "basic_env \<Rightarrow> u64 \<Rightarrow> basic_hooks \<Rightarrow> i32 \<times> i32 option \<times> basic_hooks" where
  "basic_destroy_cq env cq h = passing_rc ''ibv_destroy_cq'' env (BDestroyCq cq) h"

definition basic_alloc_pd :: "basic_env \<Rightarrow> u64 \<Rightarrow> basic_hooks \<Rightarrow> u64 \<times> i32 option \<times> basic_hooks" where
  "basic_alloc_pd env ctx h = passing_ptr ''ibv_alloc_pd'' env (BAllocPd ctx) h"

definition basic_dealloc_pd :: "basic_env \<Rightarrow> u64 \<Rightarrow> basic_hooks \<Rightarrow> i32 \<times> i32 option \<times> basic_hooks" where
  "basic_dealloc_pd env pd h = passing_rc ''ibv_dealloc_pd'' env (BDeallocPd pd) h"

end
