(* ===== verification/Basic_Spec.thy ===== *)
theory Basic_Spec
  imports Hooks_Basic Collector_Spec
begin

text \<open>
  What the basic hooks promise: the per-process limit under any sequence of hooks, the hooks that
  only pass on, and the admission of a registration by the collector service.
\<close>

section \<open>The per-process limit\<close>

text \<open>The count recorded for a process in the table, and room for its entry.\<close>

definition recorded_qps :: "pid_t \<Rightarrow> basic_hooks \<Rightarrow> u32" where
  "recorded_qps p h = (case proc_view (bh_shm h) p of None \<Rightarrow> 0 | Some u \<Rightarrow> qp_count u)"

definition has_slot :: "pid_t \<Rightarrow> shm_state \<Rightarrow> bool" where
  "has_slot p m \<longleftrightarrow> (\<exists>d. shm_get_ptr m = Some d \<and> update_slot p (process_pids d) 0 None \<noteq> None)"

lemma has_slot_put: "has_slot p m \<Longrightarrow> 0 < sint p \<Longrightarrow> shm_put env p u m \<noteq> None"
  by (auto simp: has_slot_def shm_put_def shm_update_cases)

lemma view_has_slot: "shm_wf m \<Longrightarrow> 0 < sint p \<Longrightarrow> proc_view m p \<noteq> None \<Longrightarrow> has_slot p m"
proof -
  assume w: "shm_wf m" and p: "0 < sint p" and v: "proc_view m p \<noteq> None"
  obtain m' where "shm_put ok_shm_env p zero_usage m = Some m'"
    using shm_table.put_present [OF w p v] by blast
  from this p show ?thesis by (rule shm_put_Some) (auto simp: has_slot_def)
qed

text \<open>The state of a process under QP control, once initialised.\<close>

definition limit_wf :: "pid_t \<Rightarrow> basic_hooks \<Rightarrow> bool" where
  "limit_wf p h \<longleftrightarrow> bh_init_done h \<and> enable_qp_control (st_config (bh_core h)) \<and> 0 < sint p
     \<and> shm_wf (bh_shm h) \<and> has_slot p (bh_shm h)
     \<and> rdma_intercept_is_enabled (bh_core h)
     \<and> st_qp_count (bh_core h) \<le> recorded_qps p h
     \<and> recorded_qps p h \<le> max_qp_per_process (st_config (bh_core h))"

lemma once_done [simp]: "bh_init_done h \<Longrightarrow> basic_once env h = h"
  by (simp add: basic_once_def)

lemma effective_recorded:
  "limit_wf (be_pid env) h \<Longrightarrow> effective_qp_count env h = recorded_qps (be_pid env) h"
proof -
  assume w: "limit_wf (be_pid env) h"
  then have "shm_get_ptr (bh_shm h) \<noteq> None" "0 < sint (be_pid env)" by (auto simp: limit_wf_def has_slot_def)
  from get_process_view [OF this] show ?thesis
    by (simp add: effective_qp_count_def basic_process_resources_def recorded_qps_def zero_usage_def split: option.split)
qed

datatype basic_op =
    OpCreateQp basic_env u64 basic_qp_attr
  | OpDestroyQp basic_env u64
  | OpRegMr basic_env u64 u64 u64 i32
  | OpDeregMr basic_env "(u64 \<times> u64) option"

fun basic_exec :: "basic_op \<Rightarrow> basic_hooks \<Rightarrow> basic_hooks" where
  "basic_exec (OpCreateQp env pd attr) h = snd (snd (basic_create_qp env pd attr h))"
| "basic_exec (OpDestroyQp env qp) h = snd (snd (basic_destroy_qp env qp h))"
| "basic_exec (OpRegMr env pd addr len access) h = snd (snd (basic_reg_mr env pd addr len access h))"
| "basic_exec (OpDeregMr env mr) h = snd (snd (basic_dereg_mr env mr h))"

fun op_pid :: "basic_op \<Rightarrow> pid_t" where
  "op_pid (OpCreateQp env _ _) = be_pid env"
| "op_pid (OpDestroyQp env _) = be_pid env"
| "op_pid (OpRegMr env _ _ _ _) = be_pid env"
| "op_pid (OpDeregMr env _) = be_pid env"

lemma count_step:
  assumes "(a :: u32) \<le> r" "r \<le> m" "r + 1 \<le> m"
  shows "a + 1 \<le> m"
proof (cases "unat r + 1 < 2 ^ 32")
  case True
  then have "unat (r + 1) = unat r + 1" by (simp add: unat_word_ariths)
  moreover have "unat (a + 1) = unat a + 1"
    using True assms(1) by (simp add: unat_word_ariths word_le_nat_alt)
  ultimately show ?thesis using assms by (simp add: word_le_nat_alt)
next
  case False
  have "unat (a + 1) < 2 ^ 32" by (rule order_less_le_trans [OF unsigned_less]) simp
  with False assms(2) show ?thesis by (simp add: word_le_nat_alt)
qed

text \<open>A creation that is admitted records one more QP in both places.\<close>

lemma create_counts:
  fixes env :: basic_env and pd :: u64 and attr :: basic_qp_attr
  assumes w: "limit_wf (be_pid env) h" and a: "basic_qp_restrictions env attr h" "be_driver_ptr env \<noteq> 0"
    "\<not> basic_bypass ''ibv_create_qp'' h"
  defines "h' \<equiv> snd (snd (basic_create_qp env pd attr h))"
  shows "limit_wf (be_pid env) h' \<and> st_config (bh_core h') = st_config (bh_core h)"
proof -
  let ?p = "be_pid env" and ?n = "st_qp_count (bh_core h) + 1"
  let ?u = "\<lparr>qp_count = ?n, mr_count = st_mr_count (bh_core h), memory_used = st_memory_used (bh_core h)\<rparr>"
  have i: "bh_init_done h" and p: "0 < sint ?p" and sw: "shm_wf (bh_shm h)" and sl: "has_slot ?p (bh_shm h)"
    and c: "enable_qp_control (st_config (bh_core h))"
    and le: "st_qp_count (bh_core h) \<le> recorded_qps ?p h"
      "recorded_qps ?p h \<le> max_qp_per_process (st_config (bh_core h))"
    using w by (simp_all add: limit_wf_def)
  have adm: "recorded_qps ?p h + 1 \<le> max_qp_per_process (st_config (bh_core h))"
    using a(1) c effective_recorded [OF w] by (simp add: basic_qp_restrictions_def Let_def split: if_splits)
  obtain m' where put: "shm_put (be_shm env) ?p ?u (bh_shm h) = Some m'" using has_slot_put [OF sl p] by blast
  have m': "snd (shm_update_process_resources (be_shm env) ?p (Some ?u) (bh_shm h)) = m'"
    using put by (auto simp: shm_put_def split: prod.splits if_splits)
  have v: "proc_view m' = (proc_view (bh_shm h))(?p \<mapsto> ?u)" by (rule shm_table.put_view [OF sw p put])
  have w': "shm_wf m'" by (rule shm_table.put_wf [OF sw p put])
  have "has_slot ?p m'" by (rule view_has_slot [OF w' p]) (simp add: v)
  moreover have "h' = (basic_reach (BCreateQp pd attr) h)
      \<lparr>bh_core := (bh_core h)\<lparr>st_qp_count := ?n\<rparr>, bh_shm := m'\<rparr>"
    using i a m' by (simp add: h'_def basic_create_qp_def Let_def basic_reach_def)
  moreover have "?n \<le> max_qp_per_process (st_config (bh_core h))" by (rule count_step [OF le adm])
  ultimately show ?thesis
    using w w' by (simp add: limit_wf_def recorded_qps_def v basic_reach_def rdma_intercept_is_enabled_def)
qed

lemma create_keeps_limit:
  assumes w: "limit_wf (be_pid env) h"
  shows "limit_wf (be_pid env) (basic_exec (OpCreateQp env pd attr) h)
    \<and> st_config (bh_core (basic_exec (OpCreateQp env pd attr) h)) = st_config (bh_core h)"
proof (cases "basic_qp_restrictions env attr h \<and> be_driver_ptr env \<noteq> 0 \<and> \<not> basic_bypass ''ibv_create_qp'' h")
  case True
  then show ?thesis using create_counts [OF w] by simp
next
  case False
  have "bh_core (basic_exec (OpCreateQp env pd attr) h) = bh_core h
      \<and> bh_shm (basic_exec (OpCreateQp env pd attr) h) = bh_shm h \<and> bh_init_done (basic_exec (OpCreateQp env pd attr) h)"
    using w False
    by (auto simp: limit_wf_def basic_create_qp_def basic_pass_ptr_def basic_reach_def Let_def)
  with w show ?thesis by (simp add: limit_wf_def recorded_qps_def)
qed

lemma others_keep_limit:
  assumes w: "limit_wf p h"
  shows "limit_wf p (basic_exec (OpDestroyQp env qp) h)
      \<and> st_config (bh_core (basic_exec (OpDestroyQp env qp) h)) = st_config (bh_core h)"
    and "limit_wf p (basic_exec (OpRegMr env pd addr len access) h)
      \<and> st_config (bh_core (basic_exec (OpRegMr env pd addr len access) h)) = st_config (bh_core h)"
    and "limit_wf p (basic_exec (OpDeregMr env mr) h)
      \<and> st_config (bh_core (basic_exec (OpDeregMr env mr) h)) = st_config (bh_core h)"
proof -
  have le: "st_qp_count (bh_core h) > 0 \<Longrightarrow> st_qp_count (bh_core h) \<le> recorded_qps p h \<Longrightarrow>
      st_qp_count (bh_core h) - 1 \<le> recorded_qps p h"
    by (simp add: word_le_nat_alt word_gt_0 unat_minus_one)
  show "limit_wf p (basic_exec (OpDestroyQp env qp) h)
      \<and> st_config (bh_core (basic_exec (OpDestroyQp env qp) h)) = st_config (bh_core h)"
    using w le
    by (auto simp: limit_wf_def recorded_qps_def basic_destroy_qp_def basic_pass_rc_def basic_reach_def
        rdma_intercept_is_enabled_def Let_def)
  show "limit_wf p (basic_exec (OpRegMr env pd addr len access) h)
      \<and> st_config (bh_core (basic_exec (OpRegMr env pd addr len access) h)) = st_config (bh_core h)"
    using w
    by (auto simp: limit_wf_def recorded_qps_def basic_reg_mr_def basic_pass_ptr_def basic_reach_def
        rdma_intercept_is_enabled_def Let_def)
  show "limit_wf p (basic_exec (OpDeregMr env mr) h)
      \<and> st_config (bh_core (basic_exec (OpDeregMr env mr) h)) = st_config (bh_core h)"
    using w
    by (auto simp: limit_wf_def recorded_qps_def basic_dereg_mr_def basic_pass_rc_def basic_reach_def
        rdma_intercept_is_enabled_def Let_def)
qed

lemma basic_step:
  "limit_wf p h \<Longrightarrow> op_pid c = p \<Longrightarrow>
   limit_wf p (basic_exec c h) \<and> st_config (bh_core (basic_exec c h)) = st_config (bh_core h)"
  using create_keeps_limit others_keep_limit by (cases c) (auto simp del: basic_exec.simps)

interpretation basic_qps: admission "limit_wf p" "\<lambda>h. unat (st_qp_count (bh_core h))"
    "\<lambda>h. unat (max_qp_per_process (st_config (bh_core h)))" "\<lambda>c _. op_pid c = p" basic_exec
  for p
proof unfold_locales
  fix h c
  assume w: "limit_wf p h" "op_pid c = p"
  note s = basic_step [OF w]
  then show "limit_wf p (basic_exec c h)" by simp
  from s show "unat (max_qp_per_process (st_config (bh_core (basic_exec c h)))) =
      unat (max_qp_per_process (st_config (bh_core h)))" by simp
  from s show "unat (st_qp_count (bh_core (basic_exec c h))) \<le> unat (st_qp_count (bh_core h))
    \<or> unat (st_qp_count (bh_core (basic_exec c h))) \<le> unat (max_qp_per_process (st_config (bh_core h)))"
    by (auto simp: limit_wf_def word_le_nat_alt)
qed

lemma legal_run_same: "\<forall>c\<in>set cs. P c \<Longrightarrow> legal_run (\<lambda>c _. P c) step cs s"
  by (induction cs arbitrary: s) simp_all

section \<open>Properties\<close>

text \<open>
  C33 (the per-process limit). A process under QP control that has an entry in the process table
  or room for one, and starts with its own count within the recorded one and that within the limit,
  never holds more QPs, by its own count, than the process table records for it,
  nor does the record pass the limit, whatever sequence of creations, destructions, registrations
  and deregistrations it makes; the limit stays what it is.
\<close>

theorem basic_process_limit:
  assumes "limit_wf p h" "\<forall>c\<in>set cs. op_pid c = p"
  shows "st_qp_count (bh_core (fold basic_exec cs h)) \<le> recorded_qps p (fold basic_exec cs h)
    \<and> recorded_qps p (fold basic_exec cs h) \<le> max_qp_per_process (st_config (bh_core h))
    \<and> max_qp_per_process (st_config (bh_core (fold basic_exec cs h))) = max_qp_per_process (st_config (bh_core h))"
proof -
  have "unat (st_qp_count (bh_core h)) \<le> unat (max_qp_per_process (st_config (bh_core h)))"
    using assms(1) by (auto simp: limit_wf_def word_le_nat_alt)
  from basic_qps.run_within [OF assms(1) this legal_run_same [OF assms(2)]]
  show ?thesis by (simp add: limit_wf_def word_le_nat_alt word_unat_eq_iff)
qed

definition basic_demo_env :: basic_env where
  "basic_demo_env = \<lparr>be_core = core_env0, be_shm = ok_shm_env, be_pid = 42, be_dlopen_ok = True,
     be_dlsym = (\<lambda>_. True), be_ebpf_init = 0, be_ebpf_attach = (\<lambda>m. m), be_ebpf_usage = None,
     be_collector = (\<lambda>_. None), be_driver_ptr = 4096, be_driver_rc = 0\<rparr>"

definition basic_demo :: basic_hooks where
  "basic_demo = \<lparr>bh_core = g_intercept_state\<lparr>st_initialized := True,
       st_config := default_config\<lparr>enable_qp_control := True\<rparr>\<rparr>,
     bh_shm = fresh_shm, bh_init_done = True, bh_ptrs = (\<lambda>_. True), bh_ebpf_initialized = True, bh_trace = []\<rparr>"

lemma basic_demo_wf: "limit_wf 42 basic_demo"
proof -
  obtain d where d: "shm_get_ptr fresh_shm = Some d" "process_pids d = replicate 1024 0" using fresh_shm_ptr by blast
  have "recorded_qps 42 basic_demo = 0"
    using d by (simp add: recorded_qps_def proc_view_def basic_demo_def find_slot_replicate)
  moreover have "has_slot 42 fresh_shm"
    using d by (auto simp: has_slot_def update_slot_eq find_slot_replicate split: option.split)
  ultimately show ?thesis
    by (simp add: limit_wf_def basic_demo_def fresh_shm_wf default_config_def g_intercept_state_def
        rdma_intercept_is_enabled_def)
qed

theorem basic_process_limit_witness:
  "let h = fold basic_exec
     [OpCreateQp basic_demo_env 1 \<lparr>bq_type = 2, bq_max_send_wr = 16, bq_max_recv_wr = 16\<rparr>,
      OpDestroyQp basic_demo_env 4096] basic_demo
   in st_qp_count (bh_core h) \<le> recorded_qps 42 h \<and> recorded_qps 42 h \<le> 100"
proof -
  have m: "max_qp_per_process (st_config (bh_core basic_demo)) = 100"
    by (simp add: basic_demo_def default_config_def)
  have "\<forall>c\<in>set [OpCreateQp basic_demo_env 1 \<lparr>bq_type = 2, bq_max_send_wr = 16, bq_max_recv_wr = 16\<rparr>,
      OpDestroyQp basic_demo_env 4096]. op_pid c = 42"
    by (simp add: basic_demo_env_def)
  from basic_process_limit [OF basic_demo_wf this] show ?thesis unfolding Let_def m by blast
qed

text \<open>The verbs that are only passed on.\<close>

datatype passing_verb =
    VCreateAh u64 u64
  | VModifyAh u64 u64
  | VDestroyAh u64
  | VCreateSrq u64 u64
  | VModifySrq u64 u64 i32
  | VQuerySrq u64 u64
  | VDestroySrq u64
  | VDestroyMr u64
  | VCreateCq u64 i32 u64 u64 i32
  | VDestroyCq u64
  | VAllocPd u64
  | VDeallocPd u64

fun verb_name :: "passing_verb \<Rightarrow> string" where
  "verb_name (VCreateAh _ _) = ''ibv_create_ah''"
| "verb_name (VModifyAh _ _) = ''ibv_modify_ah''"
| "verb_name (VDestroyAh _) = ''ibv_destroy_ah''"
| "verb_name (VCreateSrq _ _) = ''ibv_create_srq''"
| "verb_name (VModifySrq _ _ _) = ''ibv_modify_srq''"
| "verb_name (VQuerySrq _ _) = ''ibv_query_srq''"
| "verb_name (VDestroySrq _) = ''ibv_destroy_srq''"
| "verb_name (VDestroyMr _) = ''ibv_destroy_mr''"
| "verb_name (VCreateCq _ _ _ _ _) = ''ibv_create_cq''"
| "verb_name (VDestroyCq _) = ''ibv_destroy_cq''"
| "verb_name (VAllocPd _) = ''ibv_alloc_pd''"
| "verb_name (VDeallocPd _) = ''ibv_dealloc_pd''"

fun verb_call :: "passing_verb \<Rightarrow> basic_call" where
  "verb_call (VCreateAh pd a) = BCreateAh pd a"
| "verb_call (VModifyAh ah a) = BModifyAh ah a"
| "verb_call (VDestroyAh ah) = BDestroyAh ah"
| "verb_call (VCreateSrq pd a) = BCreateSrq pd a"
| "verb_call (VModifySrq s a m) = BModifySrq s a m"
| "verb_call (VQuerySrq s a) = BQuerySrq s a"
| "verb_call (VDestroySrq s) = BDestroySrq s"
| "verb_call (VDestroyMr m) = BDestroyMr m"
| "verb_call (VCreateCq c n x ch v) = BCreateCq c n x ch v"
| "verb_call (VDestroyCq c) = BDestroyCq c"
| "verb_call (VAllocPd c) = BAllocPd c"
| "verb_call (VDeallocPd pd) = BDeallocPd pd"

text \<open>The result is a pointer (\<open>Inl\<close>) or a return code (\<open>Inr\<close>).\<close>

fun run_verb :: "basic_env \<Rightarrow> passing_verb \<Rightarrow> basic_hooks \<Rightarrow> (u64 + i32) \<times> i32 option \<times> basic_hooks" where
  "run_verb e (VCreateAh pd a) h = map_prod Inl id (basic_create_ah e pd a h)"
| "run_verb e (VModifyAh ah a) h = map_prod Inr id (basic_modify_ah e ah a h)"
| "run_verb e (VDestroyAh ah) h = map_prod Inr id (basic_destroy_ah e ah h)"
| "run_verb e (VCreateSrq pd a) h = map_prod Inl id (basic_create_srq e pd a h)"
| "run_verb e (VModifySrq s a m) h = map_prod Inr id (basic_modify_srq e s a m h)"
| "run_verb e (VQuerySrq s a) h = map_prod Inr id (basic_query_srq e s a h)"
| "run_verb e (VDestroySrq s) h = map_prod Inr id (basic_destroy_srq e s h)"
| "run_verb e (VDestroyMr m) h = map_prod Inr id (basic_destroy_mr e m h)"
| "run_verb e (VCreateCq c n x ch v) h = map_prod Inl id (basic_create_cq e c n x ch v h)"
| "run_verb e (VDestroyCq c) h = map_prod Inr id (basic_destroy_cq e c h)"
| "run_verb e (VAllocPd c) h = map_prod Inl id (basic_alloc_pd e c h)"
| "run_verb e (VDeallocPd pd) h = map_prod Inr id (basic_dealloc_pd e pd h)"

fun returns_ptr :: "passing_verb \<Rightarrow> bool" where
  "returns_ptr (VCreateAh _ _) = True"
| "returns_ptr (VCreateSrq _ _) = True"
| "returns_ptr (VCreateCq _ _ _ _ _) = True"
| "returns_ptr (VAllocPd _) = True"
| "returns_ptr _ = False"

lemmas verb_defs = basic_create_ah_def basic_modify_ah_def basic_destroy_ah_def basic_create_srq_def
  basic_modify_srq_def basic_query_srq_def basic_destroy_srq_def basic_destroy_mr_def basic_create_cq_def
  basic_destroy_cq_def basic_alloc_pd_def basic_dealloc_pd_def

text \<open>
  Hooks that pass on. Whatever the configuration, the hooks of address handles, shared
  receive queues, completion queues, protection domains and \<open>ibv_destroy_mr\<close> make exactly
  the driver call of their verb with its arguments and return its answer, and change nothing else;
  without the symbol they fail with \<open>ENOSYS\<close> and call nothing.
\<close>

theorem basic_passing:
  "run_verb env v h =
    (let h = basic_once env h
     in if bh_ptrs h (verb_name v)
        then (if returns_ptr v then Inl (be_driver_ptr env) else Inr (be_driver_rc env),
              None, basic_reach (verb_call v) h)
        else (if returns_ptr v then Inl 0 else Inr (-1), Some ENOSYS, h))"
  by (cases v)
     (simp_all add: verb_defs passing_ptr_def passing_rc_def basic_bypass_def basic_pass_ptr_def
        basic_pass_rc_def Let_def)

text \<open>
  Registration and the collector. With the layer in force and no process limit on
  registrations, over a working connection to the collector service, a registration reaches the
  driver exactly when it fits the memory limit of the service, and is otherwise refused with
  \<open>EPERM\<close> without touching the driver; the service's counters are the same afterwards, so
  the registrations of the hooks do not add up there.
\<close>

theorem basic_reg_collector:
  assumes h: "bh_init_done h" "\<not> basic_bypass ''ibv_reg_mr'' h" "\<not> enable_mr_control (st_config (bh_core h))"
    and c: "be_collector env = served menv s"
  shows "(if max_global_memory s < global_memory_used s + len
      then basic_reg_mr env pd addr len access h = (0, Some EPERM, h)
      else fst (basic_reg_mr env pd addr len access h) = be_driver_ptr env
         \<and> bh_trace (snd (snd (basic_reg_mr env pd addr len access h))) = bh_trace h @ [BRegMr pd addr len access]
         \<and> (be_driver_ptr env \<noteq> 0 \<longrightarrow>
            st_memory_used (bh_core (snd (snd (basic_reg_mr env pd addr len access h)))) = st_memory_used (bh_core h) + len))
    \<and> after_request menv (''CHECK_MEMORY '' @ dec (unat len)) s = s"
proof -
  have "collector_check_global_memory_limit (be_collector env) len = (max_global_memory s < global_memory_used s + len)"
    unfolding c by (rule check_memory_exact)
  with h check_memory_keeps [of menv len s] show ?thesis
    by (simp add: basic_reg_mr_def basic_mr_restrictions_def Let_def basic_reach_def del: append.simps)
qed

theorem basic_reg_collector_witness:
  "basic_reg_mr (basic_demo_env\<lparr>be_collector := served \<lparr>me_process_keys = [], me_global = None, me_malloc_ok = \<lambda>_. True\<rparr>
       (collector_start\<lparr>max_global_memory := 4096\<rparr>)\<rparr>) 1 2 8192 7 basic_demo
   = (0, Some EPERM, basic_demo)"
  using basic_reg_collector [of basic_demo "basic_demo_env\<lparr>be_collector := served
       \<lparr>me_process_keys = [], me_global = None, me_malloc_ok = \<lambda>_. True\<rparr>
       (collector_start\<lparr>max_global_memory := 4096\<rparr>)\<rparr>"
      "\<lparr>me_process_keys = [], me_global = None, me_malloc_ok = \<lambda>_. True\<rparr>"
      "collector_start\<lparr>max_global_memory := 4096\<rparr>" 8192 1 2 7]
  by (simp add: collector_start_def basic_demo_def basic_bypass_def rdma_intercept_is_enabled_def
      default_config_def g_intercept_state_def)

end
