(* ===== verification/C_Double.thy ===== *)
theory C_Double
  imports C_Float C_Text
begin

text \<open>
  Double precision as the experiment programs use it (times in microseconds, sums and averages of
  latencies), and the text of \<open>printf\<close> with a fixed number of decimals. A \<open>double\<close> is the
  rational it denotes; the values here are far from the limits of the exponent.
\<close>

section \<open>Double precision\<close>

fun double_ulp :: "nat \<Rightarrow> rat \<Rightarrow> rat \<Rightarrow> rat" where
  "double_ulp 0 x u = u"
| "double_ulp (Suc n) x u =
     (if x \<ge> 9007199254740992 * u then double_ulp n x (2 * u)
      else if x < 4503599627370496 * u then double_ulp n x (u / 2)
      else u)"

definition round_double :: "rat \<Rightarrow> rat" where
  "round_double x =
     (if x = 0 then 0 else let u = double_ulp 256 \<bar>x\<bar> 1 in of_int (round_even (x / u)) * u)"

definition double_add :: "rat \<Rightarrow> rat \<Rightarrow> rat" where "double_add a b = round_double (a + b)"
definition double_sub :: "rat \<Rightarrow> rat \<Rightarrow> rat" where "double_sub a b = round_double (a - b)"
definition double_mul :: "rat \<Rightarrow> rat \<Rightarrow> rat" where "double_mul a b = round_double (a * b)"
definition double_div :: "rat \<Rightarrow> rat \<Rightarrow> rat" where "double_div a b = round_double (a / b)"

text \<open>\<open>ts.tv_sec * 1e6 + ts.tv_nsec / 1e3\<close>\<close>

definition get_time_us :: "u64 \<times> u64 \<Rightarrow> rat" where
  "get_time_us ts =
     double_add (double_mul (round_double (of_int (sint (fst ts)))) 1000000)
                (double_div (round_double (of_int (sint (snd ts)))) 1000)"

section \<open>Text\<close>

text \<open>\<open>%.kf\<close>: the value is rounded to \<open>k\<close> decimals, to the even digit in the middle.\<close>

definition zero_padded :: "nat \<Rightarrow> nat \<Rightarrow> string" where
  "zero_padded k n = replicate (k - length (dec n)) CHR ''0'' @ dec n"

definition fixed_text :: "nat \<Rightarrow> rat \<Rightarrow> string" where
  "fixed_text k x =
     (let n = nat (round_even (\<bar>x\<bar> * 10 ^ k))
      in (if x < 0 then ''-'' else []) @ dec (n div 10 ^ k) @ ''.'' @ zero_padded k (n mod 10 ^ k))"

section \<open>Whole numbers are exact\<close>

lemma round_even_int [simp]: "round_even (of_int n) = n"
  by (simp add: round_even_def)

text \<open>Below \<open>2 ^ 53\<close> the distance of neighbours divides 1.\<close>

lemma double_ulp_divides:
  "0 < u \<Longrightarrow> x < 9007199254740992 * u \<Longrightarrow> \<exists>k. u = 1 / 2 ^ k \<Longrightarrow> \<exists>k. double_ulp n x u = 1 / 2 ^ k"
proof (induction n arbitrary: u)
  case (Suc n)
  show ?case
  proof (cases "x < 4503599627370496 * u")
    case True
    obtain k where "u = 1 / 2 ^ k" using Suc.prems(3) by blast
    then have "u / 2 = 1 / 2 ^ Suc k" by simp
    then have "\<exists>k. u / 2 = 1 / 2 ^ k" by blast
    with Suc.IH [of "u / 2"] Suc.prems True show ?thesis by simp
  next
    case False
    with Suc.prems show ?thesis by simp
  qed
qed simp

lemma round_double_int:
  assumes "\<bar>n\<bar> < 9007199254740992"
  shows "round_double (of_int n) = of_int n"
proof (cases "n = 0")
  case False
  have "\<bar>of_int n :: rat\<bar> < 9007199254740992 * 1" using assms by (metis mult.right_neutral of_int_abs of_int_less_numeral_iff)
  then obtain k where k: "double_ulp 256 \<bar>of_int n\<bar> 1 = 1 / 2 ^ k"
    using double_ulp_divides [of 1 "\<bar>of_int n\<bar>" 256] by (metis div_by_1 power_0 zero_less_one)
  have "(of_int n :: rat) / (1 / 2 ^ k) = of_int (n * 2 ^ k)" by simp
  then have "round_even (of_int n / (1 / 2 ^ k)) = n * 2 ^ k" by (metis round_even_int)
  with False k show ?thesis by (simp add: round_double_def Let_def)
qed (simp add: round_double_def)

lemma round_double_0 [simp]: "round_double 0 = 0"
  by (simp add: round_double_def)

lemma round_even_nonneg: "0 \<le> x \<Longrightarrow> 0 \<le> round_even x"
  by (simp add: round_even_def Let_def)

lemma double_ulp_pos: "0 < u \<Longrightarrow> 0 < double_ulp n x u"
  by (induction n arbitrary: u) simp_all

lemma round_double_nonneg: "0 \<le> x \<Longrightarrow> 0 \<le> round_double x"
  using double_ulp_pos [of 1 256 "\<bar>x\<bar>"] by (simp add: round_double_def Let_def round_even_nonneg)

end
