(* ===== verification/Exp_Common.thy ===== *)
theory Exp_Common
  imports Isolation_Spec C_Double
begin

text \<open>
  What the experiment programs under \<open>experiments/\<close> share: they are ordinary applications that
  run under the interception layer and try to create more resources than their tenant may have. A
  loop of attempts against a meter is studied once, in a locale, and the locale is interpreted on the
  hooks: on \<open>ibv_create_qp\<close> against the budget of queue pairs of a process, and on
  \<open>ibv_reg_mr\<close> against the budget of memory regions.
\<close>

section \<open>Loops of attempts\<close>

fun attempts :: "(nat \<Rightarrow> 's \<Rightarrow> bool \<times> 's) \<Rightarrow> nat \<Rightarrow> nat \<Rightarrow> 's \<Rightarrow> bool list \<times> 's" where
  "attempts attempt i 0 s = ([], s)"
| "attempts attempt i (Suc n) s =
     (let (b, s) = attempt i s; (bs, s) = attempts attempt (Suc i) n s in (b # bs, s))"

locale metered =
  fixes ok :: "'s \<Rightarrow> bool"
    and room :: "'s \<Rightarrow> nat"
    and used :: "'s \<Rightarrow> nat"
    and attempt :: "nat \<Rightarrow> 's \<Rightarrow> bool \<times> 's"
  assumes ok_attempt: "ok s \<Longrightarrow> ok (snd (attempt i s))"
    and granted: "ok s \<Longrightarrow> 0 < room s \<Longrightarrow>
      fst (attempt i s) \<and> room (snd (attempt i s)) = room s - 1 \<and> used (snd (attempt i s)) = Suc (used s)"
    and refused: "ok s \<Longrightarrow> room s = 0 \<Longrightarrow>
      \<not> fst (attempt i s) \<and> room (snd (attempt i s)) = 0 \<and> used (snd (attempt i s)) = used s"
begin

text \<open>The first attempts succeed, as many as there is room for, and all others fail.\<close>

lemma attempts_result:
  "ok s \<Longrightarrow>
   fst (attempts attempt i n s) = replicate (min n (room s)) True @ replicate (n - room s) False
   \<and> ok (snd (attempts attempt i n s))
   \<and> used (snd (attempts attempt i n s)) = used s + min n (room s)
   \<and> room (snd (attempts attempt i n s)) = room s - n"
proof (induction n arbitrary: i s)
  case (Suc n)
  obtain b s' where a: "attempt i s = (b, s')" by fastforce
  have ok: "ok s'" using ok_attempt [OF Suc.prems, of i] a by simp
  note IH = Suc.IH [OF ok, of "Suc i"]
  show ?case
  proof (cases "room s")
    case 0
    with refused [OF Suc.prems 0, of i] a IH show ?thesis by (simp add: split_beta)
  next
    case (Suc r)
    with granted [OF Suc.prems, of i] a IH show ?thesis by (simp add: split_beta)
  qed
qed simp

end

section \<open>A process of a tenant in its view\<close>

definition tenant_app :: "pid_t \<Rightarrow> u32 \<Rightarrow> hook_state \<Rightarrow> bool" where
  "tenant_app p t h \<longleftrightarrow> tenant_process p t h \<and> slot_room p (hk_shm h)"

abbreviation app_row :: "pid_t \<Rightarrow> u32 \<Rightarrow> hook_state \<Rightarrow>
    (tenant_status \<times> tenant_quota \<times> tenant_resource_usage) option" where
  "app_row p t h \<equiv> hv_row (hook_view_of p t h)"

lemma finite_slots: "shm_get_ptr m \<noteq> None \<Longrightarrow> finite (dom (proc_view m))"
  by (auto simp: proc_view_dom)

lemma tenant_app_step:
  assumes a: "tenant_app p t h" and p: "he_pid (op_env c) = p"
  shows "tenant_app p t (hook_exec c h)" and "hook_answer c h = fst (view_hook c (hook_view_of p t h))"
    and "hook_view_of p t (hook_exec c h) = snd (view_hook c (hook_view_of p t h))"
proof -
  have t: "tenant_process p t h" and r: "process_ready h" and nz: "p \<noteq> 0"
    using a by (auto simp: tenant_app_def tenant_process_def)
  show "hook_answer c h = fst (view_hook c (hook_view_of p t h))"
    "hook_view_of p t (hook_exec c h) = snd (view_hook c (hook_view_of p t h))"
    using hook_is_view_hook [OF t p] a by (simp_all add: tenant_app_def)
  have "he_pid (op_env c) \<noteq> 0" using p nz by simp
  note f = hook_exec_frame [OF r this]
  let ?m = "hk_shm h" and ?m' = "hk_shm (hook_exec c h)"
  have "insert p (dom (proc_view ?m')) \<subseteq> insert p (dom (proc_view ?m))" using f p by auto
  moreover have "finite (insert p (dom (proc_view ?m)))" using finite_slots process_readyD(5) [OF r] by simp
  ultimately have "slot_room p ?m'" using a card_mono unfolding tenant_app_def slot_room_def by (meson le_trans)
  moreover have "tenant_process p t (hook_exec c h)" using t f p by (simp add: tenant_process_def)
  ultimately show "tenant_app p t (hook_exec c h)" by (simp add: tenant_app_def)
qed

text \<open>An active tenant, control on, and the slot of the process at most one step behind: the
  recorded count is the process's own.\<close>

definition usage_of :: "pid_t \<Rightarrow> u32 \<Rightarrow> hook_state \<Rightarrow> tenant_quota \<times> tenant_resource_usage" where
  "usage_of p t h = (case app_row p t h of Some (st, q, u) \<Rightarrow> (q, u) | None \<Rightarrow> (default_tenant_quota, zero_tenant_usage))"

definition active_app :: "pid_t \<Rightarrow> u32 \<Rightarrow> hook_state \<Rightarrow> bool" where
  "active_app p t h \<longleftrightarrow> tenant_app p t h \<and> (\<exists>q u. app_row p t h = Some (TENANT_STATUS_ACTIVE, q, u))"

lemma active_app_usage:
  "active_app p t h \<Longrightarrow> app_row p t h = Some (TENANT_STATUS_ACTIVE, fst (usage_of p t h), snd (usage_of p t h))"
  by (auto simp: active_app_def usage_of_def)

lemma usage_of_row: "app_row p t h = Some (st, q, u) \<Longrightarrow> usage_of p t h = (q, u)"
  by (simp add: usage_of_def)

section \<open>The meter of queue pairs\<close>

definition create_attempt :: "(nat \<Rightarrow> hook_env) \<Rightarrow> u64 \<Rightarrow> qp_init_attr \<Rightarrow> nat \<Rightarrow> hook_state \<Rightarrow> bool \<times> hook_state" where
  "create_attempt env pd attr i h = (case ibv_create_qp (env i) pd attr h of (qp, err, h) \<Rightarrow> (qp \<noteq> 0, h))"

definition qp_in_use :: "pid_t \<Rightarrow> u32 \<Rightarrow> hook_state \<Rightarrow> nat" where
  "qp_in_use p t h = unat (tu_qp_count (snd (usage_of p t h)))"

text \<open>How many queue pairs the process may still create: by its tenant's quota, by the process limit,
  and none at all when the type is not allowed or the global count has reached its maximum.\<close>

definition qp_budget :: "qp_init_attr \<Rightarrow> pid_t \<Rightarrow> u32 \<Rightarrow> hook_state \<Rightarrow> nat" where
  "qp_budget attr p t h =
     (let c = st_config (hk_core h); (rc, g) = shm_get_global_resources True (hk_shm h)
      in if qp_type_allowed c attr
            \<and> (rc = 0 \<longrightarrow> (case g of None \<Rightarrow> True | Some g \<Rightarrow> qp_count g < max_global_qp c))
         then min (unat (max_qp_per_tenant (fst (usage_of p t h))) - qp_in_use p t h)
                  (unat (max_qp_per_process c) - unat (st_qp_count (hk_core h)))
         else 0)"

text \<open>The driver grants every request of the process; QP control is on; the slot of the process
  holds its own count, which is within the process limit (and that is not the largest word, for
  which the test \<open>count + 1 > limit\<close> wraps).\<close>

definition driver_grants :: "pid_t \<Rightarrow> (nat \<Rightarrow> hook_env) \<Rightarrow> bool" where
  "driver_grants p env \<longleftrightarrow> (\<forall>i. he_pid (env i) = p \<and> he_driver_ptr (env i) \<noteq> 0)"

definition slot_current :: "pid_t \<Rightarrow> hook_state \<Rightarrow> bool" where
  "slot_current p h \<longleftrightarrow>
     (case proc_view (hk_shm h) p of None \<Rightarrow> st_qp_count (hk_core h) = 0 | Some u \<Rightarrow> qp_count u = st_qp_count (hk_core h))"

definition qp_app :: "(nat \<Rightarrow> hook_env) \<Rightarrow> pid_t \<Rightarrow> u32 \<Rightarrow> hook_state \<Rightarrow> bool" where
  "qp_app env p t h \<longleftrightarrow> active_app p t h \<and> driver_grants p env \<and> enable_qp_control (st_config (hk_core h))
     \<and> slot_current p h \<and> st_qp_count (hk_core h) \<le> max_qp_per_process (st_config (hk_core h))
     \<and> max_qp_per_process (st_config (hk_core h)) \<noteq> -1"

lemma below_max: "u \<le> m \<Longrightarrow> m \<noteq> -1 \<Longrightarrow> unat ((u :: u32) + 1) = Suc (unat u)"
  by (metis unat_add_one word_order.not_eq_extremum order_le_less_trans)

lemma next_le: "u \<le> m \<Longrightarrow> m \<noteq> -1 \<Longrightarrow> ((u :: u32) + 1 \<le> m) = (unat u < unat m)"
  by (simp add: word_le_nat_alt below_max Suc_le_eq)

text \<open>The decision of the check is whether the budget is used up.\<close>

lemma qp_room_budget:
  assumes a: "qp_app env p t h"
  shows "view_qp_room attr (hook_view_of p t h) = (0 < qp_budget attr p t h)"
proof -
  note row = active_app_usage [of p t h]
  have "view_qp_room attr (hook_view_of p t h) \<longleftrightarrow>
      qp_type_allowed (st_config (hk_core h)) attr
      \<and> tu_qp_count (snd (usage_of p t h)) < max_qp_per_tenant (fst (usage_of p t h))
      \<and> st_qp_count (hk_core h) + 1 \<le> max_qp_per_process (st_config (hk_core h))
      \<and> (case shm_get_global_resources True (hk_shm h) of (rc, g) \<Rightarrow>
          rc = 0 \<longrightarrow> (case g of None \<Rightarrow> True | Some g \<Rightarrow> qp_count g < max_global_qp (st_config (hk_core h))))"
    using a row by (auto simp: qp_app_def view_qp_room_def slot_current_def hook_view_of_def Let_def split: option.splits)
  with a next_le [of "st_qp_count (hk_core h)" "max_qp_per_process (st_config (hk_core h))"] show ?thesis
    by (auto simp: qp_app_def qp_budget_def qp_in_use_def word_less_nat_alt Let_def split: prod.splits)
qed

lemma create_attempt_exec:
  "create_attempt env pd attr i h = (b, h') \<Longrightarrow>
   h' = hook_exec (HCreateQp (env i) pd attr) h
   \<and> (\<exists>qp err. hook_answer (HCreateQp (env i) pd attr) h = APtr qp err \<and> b = (qp \<noteq> 0))"
  by (auto simp: create_attempt_def split: prod.splits)

lemma count_row_active [simp]:
  "count_row ty d (Some (TENANT_STATUS_ACTIVE, q, u)) = Some (TENANT_STATUS_ACTIVE, q, count_resource ty d u)"
  by simp

lemma view_selectors:
  "hv_core (hook_view_of p t h) = hk_core h" "hv_slot (hook_view_of p t h) = proc_view (hk_shm h) p"
  "hv_global (hook_view_of p t h) = shm_get_global_resources True (hk_shm h)"
  by (simp_all add: hook_view_of_def)

lemma create_attempt_step:
  assumes a: "qp_app env p t h" and r: "create_attempt env pd attr i h = (b, h')"
  shows "qp_app env p t h' \<and> b = (0 < qp_budget attr p t h)
    \<and> (if b then qp_budget attr p t h' = qp_budget attr p t h - 1 \<and> qp_in_use p t h' = Suc (qp_in_use p t h)
       else qp_budget attr p t h' = qp_budget attr p t h \<and> qp_in_use p t h' = qp_in_use p t h)"
proof -
  let ?c = "HCreateQp (env i) pd attr" and ?v = "hook_view_of p t h"
  obtain q u where row: "hv_row ?v = Some (TENANT_STATUS_ACTIVE, q, u)" and app: "tenant_app p t h"
    using a by (auto simp: qp_app_def active_app_def)
  have p: "he_pid (op_env ?c) = p" and d: "he_driver_ptr (env i) \<noteq> 0" using a by (simp_all add: qp_app_def driver_grants_def)
  note s = tenant_app_step [OF app p]
  have h': "h' = hook_exec ?c h" and b: "b = (0 < qp_budget attr p t h)"
    using create_attempt_exec [OF r] s(2) d qp_room_budget [OF a, of attr] by (auto split: if_splits)
  have uq: "usage_of p t h = (q, u)" using usage_of_row row by blast
  show ?thesis
  proof (cases b)
    case False
    then have v: "hook_view_of p t h' = ?v" using s(3) b h' qp_room_budget [OF a, of attr] by simp
    then have same: "hk_core h' = hk_core h" "proc_view (hk_shm h') p = proc_view (hk_shm h) p"
      "shm_get_global_resources True (hk_shm h') = shm_get_global_resources True (hk_shm h)" "usage_of p t h' = usage_of p t h"
      by (metis view_selectors, metis view_selectors, metis view_selectors, simp add: usage_of_def)
    have "slot_current p h' = slot_current p h" unfolding slot_current_def same ..
    moreover have "tenant_app p t h'" using s(1) h' by simp
    ultimately have "qp_app env p t h'" using a v row by (simp add: qp_app_def active_app_def same)
    moreover have "qp_budget attr p t h' = qp_budget attr p t h" "qp_in_use p t h' = qp_in_use p t h"
      unfolding qp_budget_def qp_in_use_def same by simp_all
    ultimately show ?thesis using False b by simp
  next
    case True
    let ?core = "one_more_qp (hk_core h)"
    have v: "hook_view_of p t h' = (count_view 0 1 ?v)\<lparr>hv_core := ?core, hv_slot := Some (core_usage ?core)\<rparr>"
      using s(3) True b h' d qp_room_budget [OF a, of attr] by (simp add: view_selectors)
    then have row': "hv_row (hook_view_of p t h') = Some (TENANT_STATUS_ACTIVE, q, count_resource 0 1 u)"
      using row by (simp add: count_view_def)
    have same: "hk_core h' = ?core" "proc_view (hk_shm h') p = Some (core_usage ?core)"
      "shm_get_global_resources True (hk_shm h') = shm_get_global_resources True (hk_shm h)"
      using v view_selectors [of p t h'] by (simp_all add: count_view_def view_selectors)
    have uq': "usage_of p t h' = (q, count_resource 0 1 u)" using usage_of_row row' by blast
    have lt: "unat (tu_qp_count u) < unat (max_qp_per_tenant q)"
      "unat (st_qp_count (hk_core h)) < unat (max_qp_per_process (st_config (hk_core h)))"
      using True b uq by (auto simp: qp_budget_def qp_in_use_def Let_def split: prod.splits if_splits)
    have n: "unat (tu_qp_count u + 1) = Suc (unat (tu_qp_count u))"
      "unat (st_qp_count (hk_core h) + 1) = Suc (unat (st_qp_count (hk_core h)))"
      using lt by (simp_all add: unat_add_one word_less_nat_alt)
    have "qp_app env p t h'"
      using a s(1) row' h' same n lt
      by (auto simp: qp_app_def active_app_def slot_current_def one_more_qp_def core_usage_def word_le_nat_alt)
    moreover have use': "qp_in_use p t h' = Suc (qp_in_use p t h)" by (simp add: qp_in_use_def uq uq' n)
    moreover have "qp_budget attr p t h' = qp_budget attr p t h - 1"
      using True b use' n uq uq' by (auto simp: qp_budget_def same one_more_qp_def Let_def min_def split: prod.splits if_splits)
    ultimately show ?thesis using True b by simp
  qed
qed

interpretation qp_meter: metered "qp_app env p t" "qp_budget attr p t" "qp_in_use p t" "create_attempt env pd attr"
  for env p t attr pd
  by unfold_locales (use create_attempt_step in \<open>metis prod.collapse not_gr0\<close>)+

section \<open>The meter of memory regions\<close>

definition reg_attempt ::
    "(nat \<Rightarrow> hook_env) \<Rightarrow> u64 \<Rightarrow> (nat \<Rightarrow> u64) \<Rightarrow> u64 \<Rightarrow> i32 \<Rightarrow> nat \<Rightarrow> hook_state \<Rightarrow> bool \<times> hook_state" where
  "reg_attempt env pd addr len acc i h = (case ibv_reg_mr (env i) pd (addr i) len acc h of (mr, err, h) \<Rightarrow> (mr \<noteq> 0, h))"

definition mr_in_use :: "pid_t \<Rightarrow> u32 \<Rightarrow> hook_state \<Rightarrow> nat" where
  "mr_in_use p t h = unat (tu_mr_count (snd (usage_of p t h)))"

text \<open>The tenant's quota of regions, and none when one region does not fit the memory quota.\<close>

definition mr_budget :: "u64 \<Rightarrow> pid_t \<Rightarrow> u32 \<Rightarrow> hook_state \<Rightarrow> nat" where
  "mr_budget len p t h =
     (let (q, u) = usage_of p t h
      in if max_memory_per_tenant q = 0 \<or> tu_memory_used u + len \<le> max_memory_per_tenant q
         then unat (max_mr_per_tenant q) - mr_in_use p t h else 0)"

definition mr_app :: "(nat \<Rightarrow> hook_env) \<Rightarrow> pid_t \<Rightarrow> u32 \<Rightarrow> hook_state \<Rightarrow> bool" where
  "mr_app env p t h \<longleftrightarrow> active_app p t h \<and> driver_grants p env"

lemma reg_attempt_exec:
  "reg_attempt env pd addr len acc i h = (b, h') \<Longrightarrow>
   h' = hook_exec (HRegMr (env i) pd (addr i) len acc) h
   \<and> (\<exists>mr err. hook_answer (HRegMr (env i) pd (addr i) len acc) h = APtr mr err \<and> b = (mr \<noteq> 0))"
  by (auto simp: reg_attempt_def split: prod.splits)

lemma reg_attempt_step:
  assumes a: "mr_app env p t h" and r: "reg_attempt env pd addr len acc i h = (b, h')"
  shows "mr_app env p t h' \<and> b = (0 < mr_budget len p t h)
    \<and> (if b then mr_budget len p t h' = mr_budget len p t h - 1 \<and> mr_in_use p t h' = Suc (mr_in_use p t h)
       else mr_budget len p t h' = mr_budget len p t h \<and> mr_in_use p t h' = mr_in_use p t h)"
proof -
  let ?c = "HRegMr (env i) pd (addr i) len acc" and ?v = "hook_view_of p t h"
  obtain q u where row: "hv_row ?v = Some (TENANT_STATUS_ACTIVE, q, u)" and app: "tenant_app p t h"
    using a by (auto simp: mr_app_def active_app_def)
  have p: "he_pid (op_env ?c) = p" and d: "he_driver_ptr (env i) \<noteq> 0" using a by (simp_all add: mr_app_def driver_grants_def)
  note s = tenant_app_step [OF app p]
  have uq: "usage_of p t h = (q, u)" using usage_of_row row by blast
  have room: "view_mr_room len ?v = (0 < mr_budget len p t h)"
    using row uq by (auto simp: view_mr_room_def mr_budget_def mr_in_use_def word_less_nat_alt)
  have h': "h' = hook_exec ?c h" and b: "b = (0 < mr_budget len p t h)"
    using reg_attempt_exec [OF r] s(2) d room by (auto split: if_splits)
  show ?thesis
  proof (cases b)
    case False
    then have v: "hook_view_of p t h' = ?v" using s(3) b h' room by simp
    then have same: "usage_of p t h' = usage_of p t h" by (simp add: usage_of_def)
    have "mr_budget len p t h' = mr_budget len p t h" "mr_in_use p t h' = mr_in_use p t h"
      unfolding mr_budget_def mr_in_use_def same by simp_all
    moreover have "mr_app env p t h'" using a s(1) v h' by (simp add: mr_app_def active_app_def)
    ultimately show ?thesis using False b by simp
  next
    case True
    have v: "hook_view_of p t h' = (count_view 1 1 ?v)\<lparr>hv_core := one_more_mr len (hv_core ?v)\<rparr>"
      using s(3) True b h' d room by simp
    then have row': "hv_row (hook_view_of p t h') = Some (TENANT_STATUS_ACTIVE, q, count_resource 1 1 u)"
      using row by (simp add: count_view_def)
    have uq': "usage_of p t h' = (q, count_resource 1 1 u)" using usage_of_row row' by blast
    have "unat (tu_mr_count u) < unat (max_mr_per_tenant q)"
      using True b uq by (auto simp: mr_budget_def mr_in_use_def split: if_splits)
    then have n: "unat (tu_mr_count u + 1) = Suc (unat (tu_mr_count u))" by (simp add: unat_add_one word_less_nat_alt)
    have "mr_app env p t h'" using a s(1) row' h' by (simp add: mr_app_def active_app_def)
    moreover have "mr_in_use p t h' = Suc (mr_in_use p t h)" using n by (simp add: mr_in_use_def uq uq' count_resource_def)
    ultimately show ?thesis
      using True b by (auto simp: mr_budget_def uq uq' count_resource_def)
  qed
qed

interpretation mr_meter: metered "mr_app env p t" "mr_budget len p t" "mr_in_use p t" "reg_attempt env pd addr len acc"
  for env p t len pd addr acc
  by unfold_locales (use reg_attempt_step in \<open>metis prod.collapse not_gr0\<close>)+

section \<open>What the hooks of an application add up to\<close>

text \<open>The four counters of a tenant by resource type.\<close>

definition counter :: "int \<Rightarrow> tenant_resource_usage \<Rightarrow> i32" where
  "counter ty u = (if ty = 0 then tu_qp_count u else if ty = 1 then tu_mr_count u
     else if ty = 3 then tu_cq_count u else tu_pd_count u)"

fun op_kind :: "hook_op \<Rightarrow> int" where
  "op_kind (HCreateQp _ _ _) = 0" | "op_kind (HDestroyQp _ _) = 0"
| "op_kind (HRegMr _ _ _ _ _) = 1" | "op_kind (HDeregMr _ _ _) = 1"
| "op_kind (HCreateCq _ _ _ _ _ _) = 3" | "op_kind (HDestroyCq _ _) = 3"
| "op_kind (HAllocPd _ _) = 4" | "op_kind (HDeallocPd _ _) = 4"

fun answer_count :: "answer \<Rightarrow> i32" where
  "answer_count (APtr p _) = (if p = 0 then 0 else 1)"
| "answer_count (ACode rc _) = (if rc = 0 then -1 else 0)"

lemma counter_count:
  "ty \<in> {0, 1, 3, 4} \<Longrightarrow> ty' \<in> {0, 1, 3, 4} \<Longrightarrow>
   counter ty (count_resource ty' d u) = counter ty u + (if ty = ty' then d else 0)"
  by (auto simp: counter_def count_resource_def)

lemma op_kind_range: "op_kind c \<in> {0, 1, 3, 4}"
  by (cases c) simp_all

text \<open>A hook counts what it grants or releases, and nothing else.\<close>

lemma app_counts:
  assumes a: "active_app p t h" and p: "he_pid (op_env c) = p"
  shows "active_app p t (hook_exec c h)" and "fst (usage_of p t (hook_exec c h)) = fst (usage_of p t h)"
    and "ty \<in> {0, 1, 3, 4} \<Longrightarrow> counter ty (snd (usage_of p t (hook_exec c h))) =
      counter ty (snd (usage_of p t h)) + (if ty = op_kind c then answer_count (hook_answer c h) else 0)"
proof -
  obtain q u where row: "app_row p t h = Some (TENANT_STATUS_ACTIVE, q, u)" and app: "tenant_app p t h"
    using a by (auto simp: active_app_def)
  note s = tenant_app_step [OF app p]
  have "app_row p t (hook_exec c h) = Some (TENANT_STATUS_ACTIVE, q, u) \<and> answer_count (hook_answer c h) = 0
    \<or> app_row p t (hook_exec c h) =
        Some (TENANT_STATUS_ACTIVE, q, count_resource (op_kind c) (answer_count (hook_answer c h)) u)"
    unfolding s(2,3) using row
    by (cases c) (simp_all add: view_create_def view_destroy_def count_view_def)
  moreover have "usage_of p t h = (q, u)" using usage_of_row row by blast
  ultimately show "active_app p t (hook_exec c h)" "fst (usage_of p t (hook_exec c h)) = fst (usage_of p t h)"
    "ty \<in> {0, 1, 3, 4} \<Longrightarrow> counter ty (snd (usage_of p t (hook_exec c h))) =
      counter ty (snd (usage_of p t h)) + (if ty = op_kind c then answer_count (hook_answer c h) else 0)"
    using s(1) counter_count [OF _ op_kind_range [of c], of ty]
    by (auto simp: active_app_def usage_of_def)
qed

text \<open>Hooks on completion queues and protection domains do not touch the budgets.\<close>

lemma quiet_op:
  assumes a: "qp_app env p t h" and p: "he_pid (op_env c) = p" and k: "op_kind c \<in> {3, 4}"
  shows "qp_app env p t (hook_exec c h)" and "qp_budget attr p t (hook_exec c h) = qp_budget attr p t h"
proof -
  have act: "active_app p t h" and app: "tenant_app p t h" using a by (simp_all add: qp_app_def active_app_def)
  note s = tenant_app_step [OF app p]
  have "hook_view_of p t (hook_exec c h) = hook_view_of p t h
    \<or> (\<exists>d. hook_view_of p t (hook_exec c h) = count_view (op_kind c) d (hook_view_of p t h))"
    unfolding s(3) using k by (cases c) (auto simp: view_create_def view_destroy_def)
  then have v: "hv_core (hook_view_of p t (hook_exec c h)) = hv_core (hook_view_of p t h)"
    "hv_slot (hook_view_of p t (hook_exec c h)) = hv_slot (hook_view_of p t h)"
    "hv_global (hook_view_of p t (hook_exec c h)) = hv_global (hook_view_of p t h)"
    by (auto simp: count_view_def)
  then have same: "hk_core (hook_exec c h) = hk_core h" "proc_view (hk_shm (hook_exec c h)) p = proc_view (hk_shm h) p"
    "shm_get_global_resources True (hk_shm (hook_exec c h)) = shm_get_global_resources True (hk_shm h)"
    by (simp_all add: view_selectors)
  note ct = app_counts [OF act p]
  have use': "qp_in_use p t (hook_exec c h) = qp_in_use p t h"
    using ct(3) [of 0] k by (auto simp: qp_in_use_def counter_def split: if_splits)
  show "qp_budget attr p t (hook_exec c h) = qp_budget attr p t h"
    unfolding qp_budget_def same use' ct(2) ..
  have "slot_current p (hook_exec c h) = slot_current p h" unfolding slot_current_def same ..
  with a ct(1) show "qp_app env p t (hook_exec c h)" by (simp add: qp_app_def same)
qed

text \<open>A refused creation carries \<open>EPERM\<close> when the driver grants everything.\<close>

lemma refused_eperm:
  assumes a: "tenant_app p t h" and d: "driver_grants p env"
  shows "hook_answer (HCreateQp (env i) pd attr) h = APtr 0 err \<Longrightarrow> err = Some EPERM"
    and "hook_answer (HRegMr (env i) pd addr len acc) h = APtr 0 err \<Longrightarrow> err = Some EPERM"
  using tenant_app_step(2) [OF a, of "HCreateQp (env i) pd attr"]
    tenant_app_step(2) [OF a, of "HRegMr (env i) pd addr len acc"] d
  by (auto simp: driver_grants_def split: if_splits)

text \<open>Process 42 of tenant 1 of the two processes, whose tenant may have 100 queue pairs.\<close>

lemma demo_app:
  "active_app 42 1 (app_view two_processes 42)"
  "usage_of 42 1 (app_view two_processes 42) = (default_tenant_quota, zero_tenant_usage)"
  "hk_core (app_view two_processes 42) = hk_core demo_hooks"
  "proc_view (hk_shm (app_view two_processes 42)) = Map.empty"
  "shm_get_global_resources True (hk_shm (app_view two_processes 42)) = (0, Some zero_usage)"
proof -
  obtain d where d: "shm_get_ptr fresh_shm = Some d" "process_pids d = replicate 1024 0" "global_stats d = zero_usage"
    using fresh_shm_ptr by blast
  have "members (tenant_state_abs (snd (tenant_bind_process ok_tenant_env 43 2 two_tenants))) 1 =
      Some (TENANT_STATUS_ACTIVE, default_tenant_quota, zero_tenant_usage)"
    using arg_cong [OF bind_refines [OF two_tenants_attached, of 43 ok_tenant_env 2], of snd]
    by (simp add: spec_bind_def two_tenants_abs MAX_PROCESSES_def)
  moreover have "tenant_table_of (app_view two_processes 42) = tenant_state_abs (snd (tenant_bind_process ok_tenant_env 43 2 two_tenants))"
    by (simp add: app_view_def two_processes_def demo_system_def view_tenants_def tenant_table_of_def tenant_state_abs_def Let_def)
  ultimately have row: "app_row 42 1 (app_view two_processes 42) = Some (TENANT_STATUS_ACTIVE, default_tenant_quota, zero_tenant_usage)"
    by (simp add: hook_view_of_def)
  with demo_view show "active_app 42 1 (app_view two_processes 42)" by (simp add: active_app_def tenant_app_def)
  show "usage_of 42 1 (app_view two_processes 42) = (default_tenant_quota, zero_tenant_usage)" using usage_of_row [OF row] .
  show "hk_core (app_view two_processes 42) = hk_core demo_hooks"
    by (simp add: app_view_def two_processes_def demo_system_def Let_def)
  have m: "hk_shm (app_view two_processes 42) = fresh_shm"
    by (simp add: app_view_def two_processes_def demo_system_def view_shm_def demo_hooks_def Let_def)
  have "dom (proc_view fresh_shm) = {}" using d by (simp add: proc_view_dom)
  then show "proc_view (hk_shm (app_view two_processes 42)) = Map.empty" by (simp add: m)
  show "shm_get_global_resources True (hk_shm (app_view two_processes 42)) = (0, Some zero_usage)"
    using d by (simp add: m shm_get_global_resources_def)
qed

section \<open>The loops of the isolation experiments\<close>

text \<open>
  The environment of a run: the device, the hooks of the calls in program order, the value of
  \<open>errno\<close> when the driver itself fails, and the readings of the clock.
\<close>

record attempt_record =
  ar_start :: rat
  ar_end :: rat
  ar_success :: bool
  ar_error :: i32

definition zero_record :: attempt_record where
  "zero_record = \<lparr>ar_start = 0, ar_end = 0, ar_success = False, ar_error = 0\<rparr>"

record exp_env =
  ee_devices :: bool
  ee_ctx :: u64
  ee_pd :: hook_env
  ee_cq :: hook_env
  ee_create :: "nat \<Rightarrow> hook_env"
  ee_destroy :: "nat \<Rightarrow> hook_env"
  ee_destroy_cq :: hook_env
  ee_dealloc_pd :: hook_env
  ee_errno :: "nat \<Rightarrow> i32"
  ee_clock :: "nat \<Rightarrow> u64 \<times> u64"

definition attempt_at :: "exp_env \<Rightarrow> nat \<Rightarrow> u64 \<Rightarrow> i32 option \<Rightarrow> attempt_record" where
  "attempt_at env i handle err =
     \<lparr>ar_start = get_time_us (ee_clock env (2 * i)), ar_end = get_time_us (ee_clock env (2 * i + 1)),
      ar_success = (handle \<noteq> 0),
      ar_error = (if handle \<noteq> 0 then 0 else case err of Some e \<Rightarrow> e | None \<Rightarrow> ee_errno env i)\<rparr>"

text \<open>
  \<open>for (i = 0; i < n; i++)\<close> create one object, timed and recorded with its handle; and the
  loop that releases every handle that is not NULL.
\<close>

fun attempt_loop ::
    "exp_env \<Rightarrow> (nat \<Rightarrow> hook_state \<Rightarrow> u64 \<times> i32 option \<times> hook_state) \<Rightarrow> nat \<Rightarrow> nat \<Rightarrow> hook_state \<Rightarrow>
     (attempt_record \<times> u64) list \<times> hook_state" where
  "attempt_loop env create i 0 h = ([], h)"
| "attempt_loop env create i (Suc n) h =
     (let (handle, err, h) = create i h; (rs, h) = attempt_loop env create (Suc i) n h
      in ((attempt_at env i handle err, handle) # rs, h))"

fun release_loop :: "(nat \<Rightarrow> u64 \<Rightarrow> hook_state \<Rightarrow> hook_state) \<Rightarrow> nat \<Rightarrow> u64 list \<Rightarrow> hook_state \<Rightarrow> hook_state" where
  "release_loop release i [] h = h"
| "release_loop release i (x # xs) h =
     release_loop release (Suc i) xs (if x \<noteq> 0 then release i x h else h)"

definition granted_at :: "(nat \<Rightarrow> hook_state \<Rightarrow> u64 \<times> i32 option \<times> hook_state) \<Rightarrow> nat \<Rightarrow> hook_state \<Rightarrow> bool \<times> hook_state"
  where
  "granted_at create i h = (case create i h of (handle, err, h) \<Rightarrow> (handle \<noteq> 0, h))"

lemma attempt_loop_attempts:
  "map (\<lambda>r. ar_success (fst r)) (fst (attempt_loop env create i n h)) = fst (attempts (granted_at create) i n h)
   \<and> map (\<lambda>r. snd r \<noteq> 0) (fst (attempt_loop env create i n h)) = fst (attempts (granted_at create) i n h)
   \<and> snd (attempt_loop env create i n h) = snd (attempts (granted_at create) i n h)"
proof (induction n arbitrary: i h)
  case (Suc n)
  obtain x err h1 where "create i h = (x, err, h1)" by (metis prod_cases3)
  with Suc [of "Suc i" h1] show ?case by (simp add: split_beta granted_at_def attempt_at_def)
qed simp

text \<open>A creation that is the hook \<open>c i\<close> of the process, refused only with \<open>EPERM\<close>; and a
  release that is the hook \<open>d i x\<close>, which the driver always grants.\<close>

definition creates_by :: "pid_t \<Rightarrow> u32 \<Rightarrow> (nat \<Rightarrow> hook_op) \<Rightarrow> (nat \<Rightarrow> hook_state \<Rightarrow> u64 \<times> i32 option \<times> hook_state) \<Rightarrow> bool"
  where
  "creates_by p t c create \<longleftrightarrow> (\<forall>i h x err h'. create i h = (x, err, h') \<longrightarrow>
     he_pid (op_env (c i)) = p \<and> h' = hook_exec (c i) h \<and> hook_answer (c i) h = APtr x err
     \<and> (tenant_app p t h \<and> x = 0 \<longrightarrow> err = Some EPERM))"

definition releases_by :: "pid_t \<Rightarrow> u32 \<Rightarrow> (nat \<Rightarrow> u64 \<Rightarrow> hook_op) \<Rightarrow> (nat \<Rightarrow> u64 \<Rightarrow> hook_state \<Rightarrow> hook_state) \<Rightarrow> bool"
  where
  "releases_by p t d release \<longleftrightarrow> (\<forall>i x h. he_pid (op_env (d i x)) = p \<and> release i x h = hook_exec (d i x) h
     \<and> (tenant_app p t h \<longrightarrow> hook_answer (d i x) h = ACode 0 None))"

lemma attempt_loop_counts:
  assumes b: "creates_by p t c create" and k: "\<forall>i. op_kind (c i) = kind"
  shows "active_app p t h \<Longrightarrow> active_app p t (snd (attempt_loop env create i n h))
    \<and> (\<forall>r\<in>set (fst (attempt_loop env create i n h)). ar_error (fst r) = (if ar_success (fst r) then 0 else EPERM))
    \<and> (ty \<in> {0, 1, 3, 4} \<longrightarrow> counter ty (snd (usage_of p t (snd (attempt_loop env create i n h)))) =
        counter ty (snd (usage_of p t h))
        + (if ty = kind then of_nat (length (filter (\<lambda>x. x \<noteq> 0) (map snd (fst (attempt_loop env create i n h))))) else 0))"
proof (induction n arbitrary: i h)
  case (Suc n)
  obtain x err h1 where r: "create i h = (x, err, h1)" by (metis prod_cases3)
  have app: "tenant_app p t h" using Suc.prems by (simp add: active_app_def)
  have s: "he_pid (op_env (c i)) = p" "h1 = hook_exec (c i) h" "hook_answer (c i) h = APtr x err" "x = 0 \<longrightarrow> err = Some EPERM"
    using b r app unfolding creates_by_def by blast+
  note ct = app_counts [OF Suc.prems s(1), folded s(2)]
  from Suc.IH [OF ct(1), of "Suc i"] ct(3) [of ty] s(3,4) r k show ?case
    by (auto simp: split_beta attempt_at_def)
qed simp

lemma release_loop_counts:
  assumes b: "releases_by p t d release" and k: "\<forall>i x. op_kind (d i x) = kind"
  shows "active_app p t h \<Longrightarrow> active_app p t (release_loop release i xs h)
    \<and> (ty \<in> {0, 1, 3, 4} \<longrightarrow> counter ty (snd (usage_of p t (release_loop release i xs h))) =
        counter ty (snd (usage_of p t h)) - (if ty = kind then of_nat (length (filter (\<lambda>x. x \<noteq> 0) xs)) else 0))"
proof (induction xs arbitrary: i h)
  case (Cons x xs)
  have app: "tenant_app p t h" using Cons.prems by (simp add: active_app_def)
  have s: "he_pid (op_env (d i x)) = p" "release i x h = hook_exec (d i x) h" "hook_answer (d i x) h = ACode 0 None"
    using b app unfolding releases_by_def by blast+
  note ct = app_counts [OF Cons.prems s(1), folded s(2)]
  show ?case
  proof (cases "x = 0")
    case True
    with Cons.IH [OF Cons.prems, of "Suc i"] show ?thesis by simp
  next
    case False
    with Cons.IH [OF ct(1), of "Suc i"] ct(3) [of ty] s(3) k show ?thesis by (simp add: diff_diff_eq)
  qed
qed simp

text \<open>Creating and then releasing: the counters are as before.\<close>

lemma create_release_restores:
  assumes "creates_by p t c create" "\<forall>i. op_kind (c i) = kind" "releases_by p t d release" "\<forall>i x. op_kind (d i x) = kind"
    and "active_app p t h" "attempt_loop env create i n h = (rs, h')"
  shows "active_app p t (release_loop release j (map snd rs) h')
    \<and> (\<forall>r\<in>set rs. ar_error (fst r) = (if ar_success (fst r) then 0 else EPERM))
    \<and> (ty \<in> {0, 1, 3, 4} \<longrightarrow>
        counter ty (snd (usage_of p t (release_loop release j (map snd rs) h'))) = counter ty (snd (usage_of p t h)))"
  using attempt_loop_counts [OF assms(1,2,5), of env i n ty] release_loop_counts [OF assms(3,4), of h' j "map snd rs" ty] assms(6)
  by auto

lemma count_true: "map P xs = replicate k True @ replicate m False \<Longrightarrow> length (filter P xs) = k"
proof -
  assume "map P xs = replicate k True @ replicate m False"
  from arg_cong [OF this, of "\<lambda>bs. length (filter id bs)"] show ?thesis by (simp add: filter_map comp_def)
qed

section \<open>Statistics and rows of the reports\<close>

text \<open>Total, smallest and largest latency of the successful creations, and their number.\<close>

fun latency_stats :: "attempt_record list \<Rightarrow> rat \<times> rat \<times> rat \<times> nat \<Rightarrow> rat \<times> rat \<times> rat \<times> nat" where
  "latency_stats [] s = s"
| "latency_stats (r # rs) (tot, lo, hi, n) =
     (if ar_success r
      then let lat = double_sub (ar_end r) (ar_start r)
           in latency_stats rs (double_add tot lat, if lat < lo then lat else lo, if lat > hi then lat else hi, n + 1)
      else latency_stats rs (tot, lo, hi, n))"

definition avg_latency :: "attempt_record list \<Rightarrow> rat" where
  "avg_latency rs = (case latency_stats rs (0, 1000000000, 0, 0) of
     (tot, _, _, n) \<Rightarrow> if n > 0 then double_div tot (of_nat n) else 0)"

definition percent_of :: "int \<Rightarrow> int \<Rightarrow> rat" where
  "percent_of k n = (if n > 0 then double_div (double_mul 100 (of_int k)) (of_int n) else 0)"

fun record_rows :: "nat \<Rightarrow> attempt_record list \<Rightarrow> string" where
  "record_rows i [] = []"
| "record_rows i (r # rs) =
     dec i @ '','' @ (if ar_success r then ''1'' else ''0'') @ '','' @ fixed_text 2 (double_sub (ar_end r) (ar_start r))
     @ '','' @ sdec (sint (ar_error r)) @ newline @ record_rows (Suc i) rs"

definition demo_exp :: exp_env where
  "demo_exp = \<lparr>ee_devices = True, ee_ctx = 1, ee_pd = demo_env, ee_cq = demo_env, ee_create = (\<lambda>_. demo_env),
     ee_destroy = (\<lambda>_. demo_env), ee_destroy_cq = demo_env, ee_dealloc_pd = demo_env, ee_errno = (\<lambda>_. 12),
     ee_clock = (\<lambda>i. (1, of_nat i * 1000))\<rparr>"

end
