(* ===== verification/Exp_Mr.thy ===== *)
theory Exp_Mr
  imports Exp_Common
begin

text \<open>
  The memory region isolation experiment
  (\<open>experiments/exp9_mr_isolation/src/exp9_mr_isolation.c\<close>): buffers, registrations under the
  interception layer, and the report. Environment and loops are those of the queue pair experiment;
  what \<open>malloc\<close> returns for the buffers is a further argument. \<open>ee_create\<close> and
  \<open>ee_destroy\<close> are the environments of the registrations and of their release.
\<close>

section \<open>Options\<close>

definition MAX_MR :: int where "MAX_MR = 256"

record mr_config =
  mc_tenant_id :: u32
  mc_num_mr :: i32
  mc_mr_size :: u64
  mc_output :: "string option"
  mc_verbose :: bool

fun exp9_options :: "(char \<times> string) list \<Rightarrow> mr_config \<Rightarrow> int + mr_config" where
  "exp9_options [] c = Inr c"
| "exp9_options ((o', optarg) # opts) c =
     (if o' = CHR ''t'' then exp9_options opts (c\<lparr>mc_tenant_id := atoi optarg\<rparr>)
      else if o' = CHR ''n'' then exp9_options opts (c\<lparr>mc_num_mr := atoi optarg\<rparr>)
      else if o' = CHR ''s'' then exp9_options opts (c\<lparr>mc_mr_size := of_int (strtol optarg)\<rparr>)
      else if o' = CHR ''o'' then exp9_options opts (c\<lparr>mc_output := Some optarg\<rparr>)
      else if o' = CHR ''v'' then exp9_options opts (c\<lparr>mc_verbose := True\<rparr>)
      else if o' = CHR ''h'' then Inl 0
      else Inl 1)"

definition exp9_parse_args :: "(char \<times> string) list \<Rightarrow> int + mr_config" where
  "exp9_parse_args opts =
     (case exp9_options opts \<lparr>mc_tenant_id = 10, mc_num_mr = 10, mc_mr_size = 4096, mc_output = None, mc_verbose = False\<rparr> of
        Inl code \<Rightarrow> Inl code
      | Inr c \<Rightarrow> if sint (mc_num_mr c) > MAX_MR then Inl 1 else Inr c)"

section \<open>The run\<close>

definition IBV_ACCESS_LOCAL_WRITE :: i32 where "IBV_ACCESS_LOCAL_WRITE = 1"

definition register_mrs ::
    "exp_env \<Rightarrow> (nat \<Rightarrow> u64) \<Rightarrow> u64 \<Rightarrow> u64 \<Rightarrow> nat \<Rightarrow> hook_state \<Rightarrow> (attempt_record \<times> u64) list \<times> hook_state" where
  "register_mrs env buf pd len n h =
     attempt_loop env (\<lambda>i. ibv_reg_mr (ee_create env i) pd (buf i) len IBV_ACCESS_LOCAL_WRITE) 0 n h"

text \<open>A region carries the length it was registered with.\<close>

definition deregister_mrs :: "exp_env \<Rightarrow> u64 \<Rightarrow> u64 list \<Rightarrow> hook_state \<Rightarrow> hook_state" where
  "deregister_mrs env len mrs h =
     release_loop (\<lambda>i mr h. snd (snd (ibv_dereg_mr (ee_destroy env i) (Some (mr, len)) h))) 0 mrs h"

definition exp9_cleanup :: "exp_env \<Rightarrow> u64 \<Rightarrow> hook_state \<Rightarrow> hook_state" where
  "exp9_cleanup env pd h = (if pd \<noteq> 0 then snd (snd (ibv_dealloc_pd (ee_dealloc_pd env) pd h)) else h)"

definition run_mr_isolation_test ::
    "exp_env \<Rightarrow> (nat \<Rightarrow> u64) \<Rightarrow> mr_config \<Rightarrow> hook_state \<Rightarrow> int \<times> attempt_record list \<times> hook_state" where
  "run_mr_isolation_test env buf c h =
     (let n = nat (sint (mc_num_mr c)); none = replicate n zero_record
      in if list_ex (\<lambda>i. buf i = 0) [0..<n] then (-1, none, h)
         else if \<not> ee_devices env then (0, none, h)
         else if ee_ctx env = 0 then (0, none, h)
         else
           let (pd, _, h) = ibv_alloc_pd (ee_pd env) (ee_ctx env) h
           in if pd = 0 then (0, none, h)
              else
                let (rs, h) = register_mrs env buf pd (mc_mr_size c) n h;
                    success_count = length (filter (\<lambda>r. ar_success (fst r)) rs);
                    h = deregister_mrs env (mc_mr_size c) (map snd rs) h
                in (int success_count, map fst rs, exp9_cleanup env pd h))"

section \<open>The report\<close>

definition exp9_report :: "mr_config \<Rightarrow> attempt_record list \<Rightarrow> int \<Rightarrow> int \<Rightarrow> string" where
  "exp9_report c rs success_count total_count =
     (let (_, lo, hi, n) = latency_stats rs (0, 1000000000, 0, 0)
      in ''# EXP-9: MR Resource Isolation Test Results'' @ newline
         @ ''# Tenant ID: '' @ dec (unat (mc_tenant_id c)) @ newline
         @ ''# MR Size: '' @ dec (unat (mc_mr_size c)) @ '' bytes'' @ newline
         @ ''# Requested MRs: '' @ sdec total_count @ newline
         @ ''# Successful: '' @ sdec success_count @ newline
         @ ''# Failed: '' @ sdec (total_count - success_count) @ newline
         @ ''# Success Rate: '' @ fixed_text 1 (percent_of success_count total_count) @ ''%'' @ newline
         @ ''#'' @ newline
         @ ''# Latency Statistics (successful registrations only):'' @ newline
         @ ''#   Average: '' @ fixed_text 2 (avg_latency rs) @ '' us'' @ newline
         @ ''#   Min: '' @ fixed_text 2 (if n > 0 then lo else 0) @ '' us'' @ newline
         @ ''#   Max: '' @ fixed_text 2 (if n > 0 then hi else 0) @ '' us'' @ newline
         @ ''#'' @ newline
         @ ''# Per-MR Details:'' @ newline
         @ ''# MR_ID,SUCCESS,LATENCY_US,ERROR_CODE'' @ newline
         @ record_rows 0 rs)"

definition exp9_summary :: "mr_config \<Rightarrow> attempt_record list \<Rightarrow> int \<Rightarrow> int \<Rightarrow> string" where
  "exp9_summary c rs success_count total_count =
     newline @ ''[Tenant '' @ dec (unat (mc_tenant_id c)) @ ''] Summary:'' @ newline
     @ ''  MR Size:   '' @ dec (unat (mc_mr_size c)) @ '' bytes'' @ newline
     @ ''  Requested: '' @ sdec total_count @ '' MRs'' @ newline
     @ ''  Success:   '' @ sdec success_count @ '' MRs ('' @ fixed_text 1 (percent_of success_count total_count) @ ''%)'' @ newline
     @ ''  Failed:    '' @ sdec (total_count - success_count) @ '' MRs (''
       @ fixed_text 1 (percent_of (total_count - success_count) total_count) @ ''%)'' @ newline
     @ ''  Avg Latency: '' @ fixed_text 2 (avg_latency rs) @ '' us'' @ newline"

definition exp9_main ::
    "exp_env \<Rightarrow> (nat \<Rightarrow> u64) \<Rightarrow> (char \<times> string) list \<Rightarrow> hook_state \<Rightarrow> int \<times> (string \<times> string) option \<times> hook_state" where
  "exp9_main env buf opts h =
     (case exp9_parse_args opts of
        Inl code \<Rightarrow> (code, None, h)
      | Inr c \<Rightarrow>
          let (success_count, rs, h) = run_mr_isolation_test env buf c h
          in if success_count < 0 then (1, None, h)
             else (0, Some (exp9_report c rs success_count (sint (mc_num_mr c)),
                            exp9_summary c rs success_count (sint (mc_num_mr c))), h))"

section \<open>Property\<close>

definition mr_driver_ok :: "pid_t \<Rightarrow> exp_env \<Rightarrow> bool" where
  "mr_driver_ok p env \<longleftrightarrow> ee_devices env \<and> ee_ctx env \<noteq> 0
     \<and> he_pid (ee_pd env) = p \<and> he_driver_ptr (ee_pd env) \<noteq> 0
     \<and> driver_grants p (ee_create env) \<and> (\<forall>i. he_pid (ee_destroy env i) = p \<and> he_driver_rc (ee_destroy env i) = 0)
     \<and> he_pid (ee_dealloc_pd env) = p \<and> he_driver_rc (ee_dealloc_pd env) = 0"

lemma mr_hooks:
  assumes d: "mr_driver_ok p env"
  shows "creates_by p t (\<lambda>i. HRegMr (ee_create env i) pd (buf i) len acc) (\<lambda>i. ibv_reg_mr (ee_create env i) pd (buf i) len acc)"
    and "releases_by p t (\<lambda>i mr. HDeregMr (ee_destroy env i) mr len)
      (\<lambda>i mr h. snd (snd (ibv_dereg_mr (ee_destroy env i) (Some (mr, len)) h)))"
    and "granted_at (\<lambda>i. ibv_reg_mr (ee_create env i) pd (buf i) len acc) = reg_attempt (ee_create env) pd buf len acc"
proof -
  have ids: "he_pid (ee_create env i) = p" "he_pid (ee_destroy env i) = p" "he_driver_rc (ee_destroy env i) = 0" for i
    using d by (simp_all add: mr_driver_ok_def driver_grants_def)
  have e: "err = Some EPERM" if "ibv_reg_mr (ee_create env i) pd (buf i) len acc h = (0, err, h')" "tenant_app p t h" for i h err h'
    using refused_eperm(2) [OF that(2), of "ee_create env" i pd "buf i" len acc err] that(1) d by (simp add: mr_driver_ok_def)
  have r: "hook_answer (HDeregMr (ee_destroy env i) mr len) h = ACode 0 None" if "tenant_app p t h" for i mr h
    using tenant_app_step(2) [OF that, of "HDeregMr (ee_destroy env i) mr len"] ids by simp
  show "creates_by p t (\<lambda>i. HRegMr (ee_create env i) pd (buf i) len acc) (\<lambda>i. ibv_reg_mr (ee_create env i) pd (buf i) len acc)"
    using ids e by (auto simp: creates_by_def)
  show "releases_by p t (\<lambda>i mr. HDeregMr (ee_destroy env i) mr len)
      (\<lambda>i mr h. snd (snd (ibv_dereg_mr (ee_destroy env i) (Some (mr, len)) h)))"
    using ids r by (simp add: releases_by_def)
qed (simp add: fun_eq_iff granted_at_def reg_attempt_def)

lemma mr_loop_result:
  fixes env :: exp_env
  assumes d: "mr_driver_ok p env" and a: "active_app p t h"
    and r: "register_mrs env buf pd len n h = (rs, h')"
  defines "k \<equiv> min n (mr_budget len p t h)"
  shows "map ar_success (map fst rs) = replicate k True @ replicate (n - k) False
    \<and> length (filter (\<lambda>r. ar_success (fst r)) rs) = k
    \<and> (\<forall>r\<in>set (map fst rs). ar_error r = (if ar_success r then 0 else EPERM))
    \<and> active_app p t (deregister_mrs env len (map snd rs) h')
    \<and> (ty \<in> {0, 1, 3, 4} \<longrightarrow>
        counter ty (snd (usage_of p t (deregister_mrs env len (map snd rs) h'))) = counter ty (snd (usage_of p t h)))"
proof -
  note q = mr_hooks [OF d]
  have "mr_app (ee_create env) p t h" using a d by (simp add: mr_app_def mr_driver_ok_def)
  from mr_meter.attempts_result [OF this, where len = len and pd = pd and addr = buf and acc = IBV_ACCESS_LOCAL_WRITE and i = 0 and n = n]
  have at: "map (\<lambda>r. ar_success (fst r)) rs = replicate k True @ replicate (n - k) False"
    using attempt_loop_attempts [of env "\<lambda>i. ibv_reg_mr (ee_create env i) pd (buf i) len IBV_ACCESS_LOCAL_WRITE" 0 n h] r
    by (auto simp: q(3) register_mrs_def k_def min_def)
  from create_release_restores [OF q(1) _ q(2) _ a r [unfolded register_mrs_def], where kind = 1 and j = 0 and ty = ty]
    at count_true [OF at]
  show ?thesis by (simp add: deregister_mrs_def comp_def)
qed

lemma alloc_pd_budget:
  assumes a: "active_app p t h" and p: "he_pid env = p"
  shows "mr_budget len p t (hook_exec (HAllocPd env ctx) h) = mr_budget len p t h"
proof -
  obtain q u where row: "app_row p t h = Some (TENANT_STATUS_ACTIVE, q, u)" and app: "tenant_app p t h"
    using a by (auto simp: active_app_def)
  have pid: "he_pid (op_env (HAllocPd env ctx)) = p" using p by simp
  have "app_row p t (hook_exec (HAllocPd env ctx) h) =
      Some (TENANT_STATUS_ACTIVE, q, if he_driver_ptr env = 0 then u else count_resource 4 1 u)"
    unfolding tenant_app_step(3) [OF app pid] using row by (simp add: view_create_def count_view_def)
  from usage_of_row [OF this] usage_of_row [OF row] show ?thesis
    by (simp add: mr_budget_def mr_in_use_def count_resource_def)
qed

text \<open>
  C39 (the memory region experiment and the quota). Run by a process of an active tenant under the layer, with the
  buffers allocated and a driver that grants everything, the program reports as successful exactly
  the number of regions the tenant's quota still allows (none when one region alone exceeds the
  memory quota), or all requested ones when there are fewer; they are the first attempts, every
  later one failed with \<open>EPERM\<close>; and afterwards the tenant's counters are what they were.
\<close>

theorem exp9_reports_budget:
  assumes d: "mr_driver_ok p env" and a: "active_app p t h" and c: "exp9_parse_args opts = Inr c"
    and b: "\<forall>i. buf i \<noteq> 0"
  shows "\<exists>rs h'. let n = nat (sint (mc_num_mr c)); k = min n (mr_budget (mc_mr_size c) p t h) in
    exp9_main env buf opts h = (0, Some (exp9_report c rs (int k) (sint (mc_num_mr c)),
                                         exp9_summary c rs (int k) (sint (mc_num_mr c))), h')
    \<and> map ar_success rs = replicate k True @ replicate (n - k) False
    \<and> (\<forall>r\<in>set rs. ar_error r = (if ar_success r then 0 else EPERM))
    \<and> (\<forall>ty\<in>{0, 1, 3, 4}. counter ty (snd (usage_of p t h')) = counter ty (snd (usage_of p t h)))"
proof -
  let ?n = "nat (sint (mc_num_mr c))" and ?len = "mc_mr_size c" and ?pd = "he_driver_ptr (ee_pd env)"
  let ?alloc = "HAllocPd (ee_pd env) (ee_ctx env)" and ?dpd = "HDeallocPd (ee_dealloc_pd env) ?pd"
  have ids: "he_pid (op_env ?alloc) = p" "?pd \<noteq> 0" "he_pid (op_env ?dpd) = p" using d by (simp_all add: mr_driver_ok_def)
  have ans: "active_app p t g \<Longrightarrow> hook_answer ?alloc g = APtr ?pd None" "active_app p t g \<Longrightarrow> hook_answer ?dpd g = ACode 0 None" for g
    using tenant_app_step(2) [of p t g ?alloc] tenant_app_step(2) [of p t g ?dpd] d
    by (auto simp: active_app_def mr_driver_ok_def view_create_def view_destroy_def)
  define h1 where "h1 = hook_exec ?alloc h"
  note c1 = app_counts [OF a ids(1), folded h1_def]
  have bud: "mr_budget ?len p t h1 = mr_budget ?len p t h" using alloc_pd_budget [OF a] ids(1) by (simp add: h1_def)
  obtain rs h2 where r: "register_mrs env buf ?pd ?len ?n h1 = (rs, h2)" by fastforce
  define h3 where "h3 = deregister_mrs env ?len (map snd rs) h2"
  note l = mr_loop_result [OF d c1(1) r, folded h3_def, unfolded bud]
  have a3: "active_app p t h3" using l by simp
  define h4 where "h4 = hook_exec ?dpd h3"
  note c4 = app_counts [OF a3 ids(3), folded h4_def]
  have fin: "counter ty (snd (usage_of p t h4)) = counter ty (snd (usage_of p t h))" if "ty \<in> {0, 1, 3, 4}" for ty
    using c4(3) [OF that] l [of ty] c1(3) [OF that] ids(2) that ans(1) [OF a] ans(2) [OF a3] by (auto split: if_splits)
  obtain e where "ibv_alloc_pd (ee_pd env) (ee_ctx env) h = (?pd, e, h1)"
    using ans(1) [OF a] h1_def by (cases "ibv_alloc_pd (ee_pd env) (ee_ctx env) h") simp
  then have "run_mr_isolation_test env buf c h = (int (min ?n (mr_budget ?len p t h)), map fst rs, h4)"
    using d b r l ids(2)
    by (simp add: run_mr_isolation_test_def mr_driver_ok_def Let_def list_ex_iff exp9_cleanup_def h3_def [symmetric] h4_def)
  then show ?thesis using fin l c
    by (intro exI [of _ "map fst rs"] exI [of _ h4]) (simp add: exp9_main_def Let_def comp_def)
qed

text \<open>Tenant 1 may have 1000 regions; of the 20 that are requested all are registered.\<close>

theorem exp9_reports_budget_witness:
  "\<exists>c rs h'. exp9_parse_args [(CHR ''n'', ''20'')] = Inr c
    \<and> exp9_main demo_exp (\<lambda>i. 4096) [(CHR ''n'', ''20'')] (app_view two_processes 42) =
        (0, Some (exp9_report c rs 20 20, exp9_summary c rs 20 20), h')
    \<and> map ar_success rs = replicate 20 True"
proof -
  have "atoi ''20'' = 20"
    by (simp add: atoi_def strtol_def signed_prefix_def skip_space_def leading_digits_def is_space_def
        is_digit_def digits_value_def digit_value_def)
  then have c: "exp9_parse_args [(CHR ''n'', ''20'')] =
      Inr \<lparr>mc_tenant_id = 10, mc_num_mr = 20, mc_mr_size = 4096, mc_output = None, mc_verbose = False\<rparr>"
    by (simp add: exp9_parse_args_def MAX_MR_def)
  have d: "mr_driver_ok 42 demo_exp"
    by (simp add: mr_driver_ok_def demo_exp_def driver_grants_def demo_env_def)
  have "min 20 (mr_budget 4096 42 1 (app_view two_processes 42)) = 20"
    using demo_app by (simp add: mr_budget_def mr_in_use_def default_tenant_quota_def zero_tenant_usage_def)
  with exp9_reports_budget [OF d demo_app(1) c, of "\<lambda>i. 4096"] c show ?thesis by (auto simp: Let_def)
qed

end
