(* ===== verification/Exp_Qp.thy ===== *)
theory Exp_Qp
  imports Exp_Common
begin

text \<open>
  The queue pair isolation experiment
  (\<open>experiments/exp8_qp_isolation/src/exp8_qp_isolation.c\<close>): options, the run under the
  interception layer, and the report it writes. The options are what \<open>getopt_long\<close> yields;
  the handles and codes of the driver, the clock, and \<open>errno\<close> after a failure of the driver
  are arguments. Progress messages are left out.
\<close>

section \<open>Options\<close>

definition MAX_QP :: int where "MAX_QP = 256"

record qp_config =
  qc_tenant_id :: u32
  qc_num_qp :: i32
  qc_output :: "string option"
  qc_verbose :: bool

fun exp8_options :: "(char \<times> string) list \<Rightarrow> qp_config \<Rightarrow> int + qp_config" where
  "exp8_options [] c = Inr c"
| "exp8_options ((o', optarg) # opts) c =
     (if o' = CHR ''t'' then exp8_options opts (c\<lparr>qc_tenant_id := atoi optarg\<rparr>)
      else if o' = CHR ''n'' then exp8_options opts (c\<lparr>qc_num_qp := atoi optarg\<rparr>)
      else if o' = CHR ''o'' then exp8_options opts (c\<lparr>qc_output := Some optarg\<rparr>)
      else if o' = CHR ''v'' then exp8_options opts (c\<lparr>qc_verbose := True\<rparr>)
      else if o' = CHR ''h'' then Inl 0
      else Inl 1)"

text \<open>\<open>Inl\<close> is the exit code of the program.\<close>

definition exp8_parse_args :: "(char \<times> string) list \<Rightarrow> int + qp_config" where
  "exp8_parse_args opts =
     (case exp8_options opts \<lparr>qc_tenant_id = 10, qc_num_qp = 10, qc_output = None, qc_verbose = False\<rparr> of
        Inl code \<Rightarrow> Inl code
      | Inr c \<Rightarrow> if sint (qc_num_qp c) > MAX_QP then Inl 1 else Inr c)"

section \<open>The run\<close>

definition create_qps ::
    "exp_env \<Rightarrow> u64 \<Rightarrow> qp_init_attr \<Rightarrow> nat \<Rightarrow> hook_state \<Rightarrow> (attempt_record \<times> u64) list \<times> hook_state" where
  "create_qps env pd attr n h = attempt_loop env (\<lambda>i. ibv_create_qp (ee_create env i) pd attr) 0 n h"

definition destroy_qps :: "exp_env \<Rightarrow> u64 list \<Rightarrow> hook_state \<Rightarrow> hook_state" where
  "destroy_qps env qps h = release_loop (\<lambda>i qp h. snd (snd (ibv_destroy_qp (ee_destroy env i) qp h))) 0 qps h"

text \<open>The label \<open>cleanup\<close>; closing the device is no call of this layer.\<close>

definition exp8_cleanup :: "exp_env \<Rightarrow> u64 \<Rightarrow> u64 \<Rightarrow> hook_state \<Rightarrow> hook_state" where
  "exp8_cleanup env cq pd h =
     (let h = (if cq \<noteq> 0 then snd (snd (ibv_destroy_cq (ee_destroy_cq env) cq h)) else h)
      in if pd \<noteq> 0 then snd (snd (ibv_dealloc_pd (ee_dealloc_pd env) pd h)) else h)"

definition run_qp_isolation_test ::
    "exp_env \<Rightarrow> qp_config \<Rightarrow> hook_state \<Rightarrow> int \<times> attempt_record list \<times> hook_state" where
  "run_qp_isolation_test env c h =
     (let n = nat (sint (qc_num_qp c)); none = replicate n zero_record
      in if \<not> ee_devices env then (-1, none, h)
         else if ee_ctx env = 0 then (0, none, h)
         else
           let (pd, _, h) = ibv_alloc_pd (ee_pd env) (ee_ctx env) h
           in if pd = 0 then (0, none, h)
              else
                let (cq, _, h) = ibv_create_cq (ee_cq env) (ee_ctx env) 16 0 0 0 h
                in if cq = 0 then (0, none, exp8_cleanup env 0 pd h)
                   else
                     let (rs, h) = create_qps env pd \<lparr>qp_type = IBV_QPT_RC\<rparr> n h;
                         success_count = length (filter (\<lambda>r. ar_success (fst r)) rs);
                         h = destroy_qps env (map snd rs) h
                     in (int success_count, map fst rs, exp8_cleanup env cq pd h))"

section \<open>The report\<close>

definition exp8_report :: "qp_config \<Rightarrow> attempt_record list \<Rightarrow> int \<Rightarrow> int \<Rightarrow> string" where
  "exp8_report c rs success_count total_count =
     (let (_, lo, hi, n) = latency_stats rs (0, 1000000000, 0, 0)
      in ''# EXP-8: QP Resource Isolation Test Results'' @ newline
         @ ''# Tenant ID: '' @ dec (unat (qc_tenant_id c)) @ newline
         @ ''# Requested QPs: '' @ sdec total_count @ newline
         @ ''# Successful: '' @ sdec success_count @ newline
         @ ''# Failed: '' @ sdec (total_count - success_count) @ newline
         @ ''# Success Rate: '' @ fixed_text 1 (percent_of success_count total_count) @ ''%'' @ newline
         @ ''#'' @ newline
         @ ''# Latency Statistics (successful creations only):'' @ newline
         @ ''#   Average: '' @ fixed_text 2 (avg_latency rs) @ '' us'' @ newline
         @ ''#   Min: '' @ fixed_text 2 (if n > 0 then lo else 0) @ '' us'' @ newline
         @ ''#   Max: '' @ fixed_text 2 (if n > 0 then hi else 0) @ '' us'' @ newline
         @ ''#'' @ newline
         @ ''# Per-QP Details:'' @ newline
         @ ''# QP_ID,SUCCESS,LATENCY_US,ERROR_CODE'' @ newline
         @ record_rows 0 rs)"

definition exp8_summary :: "qp_config \<Rightarrow> attempt_record list \<Rightarrow> int \<Rightarrow> int \<Rightarrow> string" where
  "exp8_summary c rs success_count total_count =
     newline @ ''[Tenant '' @ dec (unat (qc_tenant_id c)) @ ''] Summary:'' @ newline
     @ ''  Requested: '' @ sdec total_count @ '' QPs'' @ newline
     @ ''  Success:   '' @ sdec success_count @ '' QPs ('' @ fixed_text 1 (percent_of success_count total_count) @ ''%)'' @ newline
     @ ''  Failed:    '' @ sdec (total_count - success_count) @ '' QPs (''
       @ fixed_text 1 (percent_of (total_count - success_count) total_count) @ ''%)'' @ newline
     @ ''  Avg Latency: '' @ fixed_text 2 (avg_latency rs) @ '' us'' @ newline"

text \<open>Exit code, report and summary if they are written, and the state left behind.\<close>

definition exp8_main ::
    "exp_env \<Rightarrow> (char \<times> string) list \<Rightarrow> hook_state \<Rightarrow> int \<times> (string \<times> string) option \<times> hook_state" where
  "exp8_main env opts h =
     (case exp8_parse_args opts of
        Inl code \<Rightarrow> (code, None, h)
      | Inr c \<Rightarrow>
          let (success_count, rs, h) = run_qp_isolation_test env c h
          in if success_count < 0 then (1, None, h)
             else (0, Some (exp8_report c rs success_count (sint (qc_num_qp c)),
                            exp8_summary c rs success_count (sint (qc_num_qp c))), h))"

section \<open>Property\<close>

text \<open>The device is there, and the driver grants and releases everything, for process \<open>p\<close>.\<close>

definition exp_driver_ok :: "pid_t \<Rightarrow> exp_env \<Rightarrow> bool" where
  "exp_driver_ok p env \<longleftrightarrow> ee_devices env \<and> ee_ctx env \<noteq> 0
     \<and> he_pid (ee_pd env) = p \<and> he_driver_ptr (ee_pd env) \<noteq> 0 \<and> he_pid (ee_cq env) = p \<and> he_driver_ptr (ee_cq env) \<noteq> 0
     \<and> driver_grants p (ee_create env) \<and> (\<forall>i. he_pid (ee_destroy env i) = p \<and> he_driver_rc (ee_destroy env i) = 0)
     \<and> he_pid (ee_destroy_cq env) = p \<and> he_driver_rc (ee_destroy_cq env) = 0
     \<and> he_pid (ee_dealloc_pd env) = p \<and> he_driver_rc (ee_dealloc_pd env) = 0"

lemma qp_hooks:
  assumes d: "exp_driver_ok p env"
  shows "creates_by p t (\<lambda>i. HCreateQp (ee_create env i) pd attr) (\<lambda>i. ibv_create_qp (ee_create env i) pd attr)"
    and "releases_by p t (\<lambda>i qp. HDestroyQp (ee_destroy env i) qp) (\<lambda>i qp h. snd (snd (ibv_destroy_qp (ee_destroy env i) qp h)))"
    and "granted_at (\<lambda>i. ibv_create_qp (ee_create env i) pd attr) = create_attempt (ee_create env) pd attr"
proof -
  have ids: "he_pid (ee_create env i) = p" "he_pid (ee_destroy env i) = p" "he_driver_rc (ee_destroy env i) = 0" for i
    using d by (simp_all add: exp_driver_ok_def driver_grants_def)
  have e: "err = Some EPERM" if "ibv_create_qp (ee_create env i) pd attr h = (0, err, h')" "tenant_app p t h" for i h err h'
    using refused_eperm(1) [OF that(2), of "ee_create env" i pd attr err] that(1) d by (simp add: exp_driver_ok_def)
  have r: "hook_answer (HDestroyQp (ee_destroy env i) qp) h = ACode 0 None" if "tenant_app p t h" for i qp h
    using tenant_app_step(2) [OF that, of "HDestroyQp (ee_destroy env i) qp"] ids by simp
  show "creates_by p t (\<lambda>i. HCreateQp (ee_create env i) pd attr) (\<lambda>i. ibv_create_qp (ee_create env i) pd attr)"
    using ids e by (auto simp: creates_by_def)
  show "releases_by p t (\<lambda>i qp. HDestroyQp (ee_destroy env i) qp) (\<lambda>i qp h. snd (snd (ibv_destroy_qp (ee_destroy env i) qp h)))"
    using ids r by (simp add: releases_by_def)
qed (simp add: fun_eq_iff granted_at_def create_attempt_def)

text \<open>Creating and destroying \<open>n\<close> queue pairs.\<close>

lemma qp_loop_result:
  fixes env :: exp_env
  assumes d: "exp_driver_ok p env" and a: "qp_app (ee_create env) p t h"
    and r: "create_qps env pd attr n h = (rs, h')"
  defines "k \<equiv> min n (qp_budget attr p t h)"
  shows "map ar_success (map fst rs) = replicate k True @ replicate (n - k) False
    \<and> length (filter (\<lambda>r. ar_success (fst r)) rs) = k
    \<and> (\<forall>r\<in>set (map fst rs). ar_error r = (if ar_success r then 0 else EPERM))
    \<and> active_app p t (destroy_qps env (map snd rs) h')
    \<and> (ty \<in> {0, 1, 3, 4} \<longrightarrow>
        counter ty (snd (usage_of p t (destroy_qps env (map snd rs) h'))) = counter ty (snd (usage_of p t h)))"
proof -
  note q = qp_hooks [OF d]
  have act: "active_app p t h" using a by (simp add: qp_app_def)
  have at: "map (\<lambda>r. ar_success (fst r)) rs = replicate k True @ replicate (n - k) False"
    using attempt_loop_attempts [of env "\<lambda>i. ibv_create_qp (ee_create env i) pd attr" 0 n h]
      qp_meter.attempts_result [OF a, of pd attr 0 n] r
    by (auto simp: q(3) create_qps_def k_def min_def)
  from create_release_restores [OF q(1) _ q(2) _ act r [unfolded create_qps_def], where kind = 0 and j = 0 and ty = ty] at count_true [OF at]
  show ?thesis by (simp add: destroy_qps_def comp_def)
qed

text \<open>Opening the protection domain and the completion queue, and releasing them.\<close>

lemma device_setup:
  fixes env :: exp_env and cqe :: i32
  assumes d: "exp_driver_ok p env" and a: "qp_app (ee_create env) p t h"
  obtains e1 e2 h1 h2 where "ibv_alloc_pd (ee_pd env) (ee_ctx env) h = (he_driver_ptr (ee_pd env), e1, h1)"
    "ibv_create_cq (ee_cq env) (ee_ctx env) cqe 0 0 0 h1 = (he_driver_ptr (ee_cq env), e2, h2)"
    "qp_app (ee_create env) p t h2" "\<forall>attr. qp_budget attr p t h2 = qp_budget attr p t h"
    "\<forall>ty\<in>{0, 1, 3, 4}. counter ty (snd (usage_of p t h2)) =
      counter ty (snd (usage_of p t h)) + (if ty = 4 then 1 else 0) + (if ty = 3 then 1 else 0)"
    "fst (usage_of p t h2) = fst (usage_of p t h)" "hk_core h2 = hk_core h"
    "shm_get_global_resources True (hk_shm h2) = shm_get_global_resources True (hk_shm h)"
proof -
  let ?alloc = "HAllocPd (ee_pd env) (ee_ctx env)" and ?mkcq = "HCreateCq (ee_cq env) (ee_ctx env) cqe 0 0 0"
  have ids: "he_pid (op_env ?alloc) = p" "he_pid (op_env ?mkcq) = p" "he_driver_ptr (ee_pd env) \<noteq> 0" "he_driver_ptr (ee_cq env) \<noteq> 0"
    using d by (simp_all add: exp_driver_ok_def)
  have act: "active_app p t h" using a by (simp add: qp_app_def)
  have ans: "active_app p t g \<Longrightarrow> hook_answer ?alloc g = APtr (he_driver_ptr (ee_pd env)) None"
    "active_app p t g \<Longrightarrow> hook_answer ?mkcq g = APtr (he_driver_ptr (ee_cq env)) None" for g
    using tenant_app_step(2) [of p t g ?alloc] tenant_app_step(2) [of p t g ?mkcq] d
    by (auto simp: active_app_def exp_driver_ok_def view_create_def)
  define h1 where "h1 = hook_exec ?alloc h"
  define h2 where "h2 = hook_exec ?mkcq h1"
  note c1 = app_counts [OF act ids(1), folded h1_def]
  note c2 = app_counts [OF c1(1) ids(2), folded h2_def]
  note q1 = quiet_op [OF a ids(1), folded h1_def]
  have k: "op_kind ?alloc \<in> {3, 4}" "op_kind ?mkcq \<in> {3, 4}" by simp_all
  note q1 = q1 [OF k(1)]
  note q2 = quiet_op [OF q1(1) ids(2) k(2), folded h2_def]
  obtain e1 e2 where "ibv_alloc_pd (ee_pd env) (ee_ctx env) h = (he_driver_ptr (ee_pd env), e1, h1)"
    "ibv_create_cq (ee_cq env) (ee_ctx env) cqe 0 0 0 h1 = (he_driver_ptr (ee_cq env), e2, h2)"
    using ans(1) [OF act] ans(2) [OF c1(1)] h1_def h2_def
    by (cases "ibv_alloc_pd (ee_pd env) (ee_ctx env) h"; cases "ibv_create_cq (ee_cq env) (ee_ctx env) cqe 0 0 0 h1") simp
  then show ?thesis
  proof (rule that)
    show "qp_app (ee_create env) p t h2" "\<forall>attr. qp_budget attr p t h2 = qp_budget attr p t h" using q1 q2 by simp_all
    show "\<forall>ty\<in>{0, 1, 3, 4}. counter ty (snd (usage_of p t h2)) =
        counter ty (snd (usage_of p t h)) + (if ty = 4 then 1 else 0) + (if ty = 3 then 1 else 0)"
      using c2(3) c1(3) ids(3,4) ans(1) [OF act] ans(2) [OF c1(1)] by auto
    show "fst (usage_of p t h2) = fst (usage_of p t h)" using c1(2) c2(2) by simp
    have "hv_core (hook_view_of p t g') = hv_core (hook_view_of p t g)
        \<and> hv_global (hook_view_of p t g') = hv_global (hook_view_of p t g)" if "g' = hook_exec c g" "tenant_app p t g"
      "he_pid (op_env c) = p" "op_kind c \<in> {3, 4}" for c g g'
      using tenant_app_step(3) [OF that(2,3)] that(1,4) by (cases c) (auto simp: view_create_def view_destroy_def count_view_def)
    from this [OF h1_def _ ids(1) k(1)] this [OF h2_def _ ids(2) k(2)] act c1(1)
    show "hk_core h2 = hk_core h"
      "shm_get_global_resources True (hk_shm h2) = shm_get_global_resources True (hk_shm h)"
      by (simp_all add: active_app_def view_selectors)
  qed
qed

lemma device_teardown:
  fixes env :: exp_env
  assumes d: "exp_driver_ok p env" and a: "active_app p t h" and ty: "ty \<in> {0, 1, 3, 4}"
  defines "h' \<equiv> snd (snd (ibv_dealloc_pd (ee_dealloc_pd env) (he_driver_ptr (ee_pd env))
    (snd (snd (ibv_destroy_cq (ee_destroy_cq env) (he_driver_ptr (ee_cq env)) h)))))"
  shows "counter ty (snd (usage_of p t h')) =
    counter ty (snd (usage_of p t h)) - (if ty = 4 then 1 else 0) - (if ty = 3 then 1 else 0)"
proof -
  let ?dcq = "HDestroyCq (ee_destroy_cq env) (he_driver_ptr (ee_cq env))"
    and ?dpd = "HDeallocPd (ee_dealloc_pd env) (he_driver_ptr (ee_pd env))"
  have ids: "he_pid (op_env ?dcq) = p" "he_pid (op_env ?dpd) = p" using d by (simp_all add: exp_driver_ok_def)
  have ans: "active_app p t g \<Longrightarrow> hook_answer ?dcq g = ACode 0 None" "active_app p t g \<Longrightarrow> hook_answer ?dpd g = ACode 0 None" for g
    using tenant_app_step(2) [of p t g ?dcq] tenant_app_step(2) [of p t g ?dpd] d
    by (auto simp: active_app_def exp_driver_ok_def view_destroy_def)
  note c1 = app_counts [OF a ids(1)]
  note c2 = app_counts [OF c1(1) ids(2)]
  have "h' = hook_exec ?dpd (hook_exec ?dcq h)" by (simp add: h'_def)
  with c2(3) [OF ty] c1(3) [OF ty] ans(1) [OF a] ans(2) [OF c1(1)] show ?thesis by auto
qed

lemma run_isolation_result:
  fixes env :: exp_env and c :: qp_config
  assumes d: "exp_driver_ok p env" and a: "qp_app (ee_create env) p t h"
  defines "n \<equiv> nat (sint (qc_num_qp c))"
  defines "k \<equiv> min n (qp_budget \<lparr>qp_type = IBV_QPT_RC\<rparr> p t h)"
  shows "\<exists>rs h'. run_qp_isolation_test env c h = (int k, rs, h')
    \<and> map ar_success rs = replicate k True @ replicate (n - k) False
    \<and> (\<forall>r\<in>set rs. ar_error r = (if ar_success r then 0 else EPERM))
    \<and> (\<forall>ty\<in>{0, 1, 3, 4}. counter ty (snd (usage_of p t h')) = counter ty (snd (usage_of p t h)))"
proof -
  let ?attr = "\<lparr>qp_type = IBV_QPT_RC\<rparr>" and ?pd = "he_driver_ptr (ee_pd env)" and ?cq = "he_driver_ptr (ee_cq env)"
  have nz: "?pd \<noteq> 0" "?cq \<noteq> 0" using d by (simp_all add: exp_driver_ok_def)
  obtain e1 e2 h1 h2 where set: "ibv_alloc_pd (ee_pd env) (ee_ctx env) h = (?pd, e1, h1)"
    "ibv_create_cq (ee_cq env) (ee_ctx env) 16 0 0 0 h1 = (?cq, e2, h2)"
    and s: "qp_app (ee_create env) p t h2" "\<forall>attr. qp_budget attr p t h2 = qp_budget attr p t h"
      "\<forall>ty\<in>{0, 1, 3, 4}. counter ty (snd (usage_of p t h2)) =
        counter ty (snd (usage_of p t h)) + (if ty = 4 then 1 else 0) + (if ty = 3 then 1 else 0)"
    using device_setup [OF d a] by metis
  note b = s(2) [rule_format, of ?attr]
  obtain rs h3 where r: "create_qps env ?pd ?attr n h2 = (rs, h3)" by fastforce
  define h4 where "h4 = destroy_qps env (map snd rs) h3"
  note l = qp_loop_result [OF d s(1) r, folded h4_def, unfolded b, folded k_def]
  have a4: "active_app p t h4" using l by simp
  define h6 where "h6 = exp8_cleanup env ?cq ?pd h4"
  have h6: "h6 = snd (snd (ibv_dealloc_pd (ee_dealloc_pd env) ?pd (snd (snd (ibv_destroy_cq (ee_destroy_cq env) ?cq h4)))))"
    using nz by (simp add: h6_def exp8_cleanup_def)
  have fin: "counter ty (snd (usage_of p t h6)) = counter ty (snd (usage_of p t h))" if "ty \<in> {0, 1, 3, 4}" for ty
    using device_teardown [OF d a4 that, folded h6] l [of ty] s(3) that by auto
  have "run_qp_isolation_test env c h = (int k, map fst rs, h6)"
    using d r l nz set
    by (simp add: run_qp_isolation_test_def n_def [symmetric] exp_driver_ok_def Let_def h4_def [symmetric] h6_def [symmetric])
  then show ?thesis using fin l by (intro exI [of _ "map fst rs"] exI [of _ h6]) (simp add: comp_def)
qed

text \<open>
  C8 (the queue pair experiment). Run by a process of an active tenant under the layer, with a
  driver that grants everything, the program reports as successful exactly the number of queue pairs
  the tenant's quota and the process limit still allow, or all requested ones when there are fewer;
  they are the first attempts, every later one failed with \<open>EPERM\<close>; and afterwards the
  tenant's four counters are what they were before.
\<close>

theorem exp8_reports_budget:
  assumes "exp_driver_ok p env" "qp_app (ee_create env) p t h" "exp8_parse_args opts = Inr c"
  shows "\<exists>rs h'. let n = nat (sint (qc_num_qp c)); k = min n (qp_budget \<lparr>qp_type = IBV_QPT_RC\<rparr> p t h) in
    exp8_main env opts h = (0, Some (exp8_report c rs (int k) (sint (qc_num_qp c)),
                                     exp8_summary c rs (int k) (sint (qc_num_qp c))), h')
    \<and> map ar_success rs = replicate k True @ replicate (n - k) False
    \<and> (\<forall>r\<in>set rs. ar_error r = (if ar_success r then 0 else EPERM))
    \<and> (\<forall>ty\<in>{0, 1, 3, 4}. counter ty (snd (usage_of p t h')) = counter ty (snd (usage_of p t h)))"
proof -
  let ?n = "nat (sint (qc_num_qp c))"
  obtain rs h' where "run_qp_isolation_test env c h = (int (min ?n (qp_budget \<lparr>qp_type = IBV_QPT_RC\<rparr> p t h)), rs, h')"
    and r: "map ar_success rs = replicate (min ?n (qp_budget \<lparr>qp_type = IBV_QPT_RC\<rparr> p t h)) True
        @ replicate (?n - min ?n (qp_budget \<lparr>qp_type = IBV_QPT_RC\<rparr> p t h)) False"
      "\<forall>r\<in>set rs. ar_error r = (if ar_success r then 0 else EPERM)"
      "\<forall>ty\<in>{0, 1, 3, 4}. counter ty (snd (usage_of p t h')) = counter ty (snd (usage_of p t h))"
    using run_isolation_result [OF assms(1,2), of c] by blast
  then show ?thesis
    using assms(3) by (intro exI [of _ rs] exI [of _ h']) (simp add: exp8_main_def Let_def)
qed

text \<open>Tenant 1 may have 100 queue pairs, and process 42 asks for 200.\<close>

lemma demo_qp_app:
  "exp_driver_ok 42 demo_exp" "qp_app (ee_create demo_exp) 42 1 (app_view two_processes 42)"
  "qp_budget \<lparr>qp_type = IBV_QPT_RC\<rparr> 42 1 (app_view two_processes 42) = 100"
proof -
  show "exp_driver_ok 42 demo_exp"
    by (simp add: exp_driver_ok_def demo_exp_def driver_grants_def demo_env_def)
  show "qp_app (ee_create demo_exp) 42 1 (app_view two_processes 42)"
    using demo_app by (simp add: qp_app_def driver_grants_def slot_current_def demo_exp_def demo_env_def demo_hooks_def
        default_config_def g_intercept_state_def)
  show "qp_budget \<lparr>qp_type = IBV_QPT_RC\<rparr> 42 1 (app_view two_processes 42) = 100"
    using demo_app by (simp add: qp_budget_def qp_in_use_def demo_hooks_def default_config_def g_intercept_state_def
        qp_type_allowed_def default_tenant_quota_def zero_tenant_usage_def zero_usage_def Let_def)
qed

theorem exp8_reports_budget_witness:
  "\<exists>c rs h'. exp8_parse_args [(CHR ''n'', ''200'')] = Inr c
    \<and> exp8_main demo_exp [(CHR ''n'', ''200'')] (app_view two_processes 42) =
        (0, Some (exp8_report c rs 100 200, exp8_summary c rs 100 200), h')
    \<and> map ar_success rs = replicate 100 True @ replicate 100 False"
proof -
  have "atoi ''200'' = 200"
    by (simp add: atoi_def strtol_def signed_prefix_def skip_space_def leading_digits_def is_space_def
        is_digit_def digits_value_def digit_value_def)
  then have c: "exp8_parse_args [(CHR ''n'', ''200'')] =
      Inr \<lparr>qc_tenant_id = 10, qc_num_qp = 200, qc_output = None, qc_verbose = False\<rparr>"
    by (simp add: exp8_parse_args_def MAX_QP_def)
  from exp8_reports_budget [OF demo_qp_app(1,2) c] c demo_qp_app(3) show ?thesis by (auto simp: Let_def)
qed

end
