(* ===== verification/Exp_Tenants.thy ===== *)
theory Exp_Tenants
  imports Exp_Qp
begin

text \<open>
  The multi-tenant isolation experiment
  (\<open>experiments/exp2_multi_tenant_isolation/src/exp2_multi_tenant_isolation.c\<close>): a process
  tries to create more queue pairs than the quota it is told, and reports how many it got. It checks
  no result of the driver but those of the creations. \<open>t0\<close> and \<open>t1\<close> are the readings of
  the clock before and after the loop.
\<close>

section \<open>Options\<close>

definition EXP2_MAX_QP :: i32 where "EXP2_MAX_QP = 200"

record exp2_config =
  c2_tenant_id :: i32
  c2_quota :: i32
  c2_extra_attempts :: i32
  c2_output :: "string option"

fun exp2_options :: "(char \<times> string) list \<Rightarrow> exp2_config \<Rightarrow> int + exp2_config" where
  "exp2_options [] c = Inr c"
| "exp2_options ((o', optarg) # opts) c =
     (if o' = CHR ''t'' then exp2_options opts (c\<lparr>c2_tenant_id := atoi optarg\<rparr>)
      else if o' = CHR ''q'' then exp2_options opts (c\<lparr>c2_quota := atoi optarg\<rparr>)
      else if o' = CHR ''e'' then exp2_options opts (c\<lparr>c2_extra_attempts := atoi optarg\<rparr>)
      else if o' = CHR ''o'' then exp2_options opts (c\<lparr>c2_output := Some optarg\<rparr>)
      else if o' = CHR ''h'' then Inl 0
      else Inl 1)"

definition exp2_parse_args :: "(char \<times> string) list \<Rightarrow> int + exp2_config" where
  "exp2_parse_args opts =
     (case exp2_options opts \<lparr>c2_tenant_id = -1, c2_quota = 0, c2_extra_attempts = 10, c2_output = None\<rparr> of
        Inl code \<Rightarrow> Inl code
      | Inr c \<Rightarrow> if sint (c2_tenant_id c) < 0 then Inl 1 else Inr c)"

definition total_attempts :: "exp2_config \<Rightarrow> i32" where
  "total_attempts c =
     (let n = c2_quota c + c2_extra_attempts c in if sint n > sint EXP2_MAX_QP then EXP2_MAX_QP else n)"

section \<open>The report\<close>

definition latency_of :: "attempt_record \<Rightarrow> rat" where
  "latency_of r = double_sub (ar_end r) (ar_start r)"

text \<open>The time from the start to the first denial, 0 when there is none.\<close>

fun first_denial :: "rat \<Rightarrow> attempt_record list \<Rightarrow> rat" where
  "first_denial start [] = 0"
| "first_denial start (r # rs) = (if ar_success r then first_denial start rs else double_sub (ar_end r) start)"

text \<open>The average sums the first \<open>created\<close> latencies, of whatever attempts these are; so does the
  success column of the rows.\<close>

definition exp2_average :: "attempt_record list \<Rightarrow> nat \<Rightarrow> rat" where
  "exp2_average rs created =
     (if created > 0
      then double_div (foldl double_add 0 (map latency_of (take created rs))) (of_nat created) else 0)"

fun exp2_rows :: "nat \<Rightarrow> nat \<Rightarrow> attempt_record list \<Rightarrow> string" where
  "exp2_rows created i [] = []"
| "exp2_rows created i (r # rs) =
     dec i @ '','' @ fixed_text 2 (latency_of r) @ '','' @ (if i < created then ''1'' else ''0'') @ newline
     @ exp2_rows created (Suc i) rs"

definition quota_compliance :: "i32 \<Rightarrow> nat \<Rightarrow> rat" where
  "quota_compliance quota created =
     (if int created \<le> sint quota then 100
      else double_mul (double_div (of_int (sint quota)) (of_nat created)) 100)"

definition exp2_report ::
    "exp2_config \<Rightarrow> rat \<Rightarrow> rat \<Rightarrow> attempt_record list \<Rightarrow> nat \<Rightarrow> nat \<Rightarrow> string" where
  "exp2_report c start stop rs created denied =
     ''# EXP-2: Multi-Tenant Isolation Test'' @ newline
     @ ''TENANT_ID: '' @ sdec (sint (c2_tenant_id c)) @ newline
     @ ''QUOTA: '' @ sdec (sint (c2_quota c)) @ newline
     @ ''ATTEMPTS: '' @ sdec (sint (total_attempts c)) @ newline
     @ ''CREATED: '' @ dec created @ newline
     @ ''DENIED: '' @ dec denied @ newline
     @ ''QUOTA_COMPLIANCE: '' @ fixed_text 1 (quota_compliance (c2_quota c) created) @ ''%'' @ newline
     @ ''FIRST_DENIAL_MS: '' @ fixed_text 2 (double_div (first_denial start rs) 1000) @ newline
     @ ''TOTAL_TIME_MS: '' @ fixed_text 2 (double_div (double_sub stop start) 1000) @ newline
     @ ''AVG_LATENCY_US: '' @ fixed_text 2 (exp2_average rs created) @ newline
     @ newline @ ''# Raw latency data (first 50)'' @ newline
     @ ''# QP_ID,LATENCY_US,SUCCESS'' @ newline
     @ exp2_rows created 0 (take 50 rs)"

section \<open>The program\<close>

text \<open>The created queue pairs are destroyed in the order of their creation; the completion queue and
  the protection domain are released without a test.\<close>

definition exp2_run :: "exp_env \<Rightarrow> nat \<Rightarrow> hook_state \<Rightarrow> attempt_record list \<times> nat \<times> nat \<times> hook_state" where
  "exp2_run env n h =
     (let (pd, _, h) = ibv_alloc_pd (ee_pd env) (ee_ctx env) h;
          (cq, _, h) = ibv_create_cq (ee_cq env) (ee_ctx env) 16 0 0 0 h;
          (rs, h) = create_qps env pd \<lparr>qp_type = IBV_QPT_RC\<rparr> n h;
          qps = filter (\<lambda>qp. qp \<noteq> 0) (map snd rs);
          h = destroy_qps env qps h;
          h = snd (snd (ibv_destroy_cq (ee_destroy_cq env) cq h));
          h = snd (snd (ibv_dealloc_pd (ee_dealloc_pd env) pd h))
      in (map fst rs, length qps, length rs - length qps, h))"

text \<open>Exit code, the report unless its file cannot be opened, and the state left behind.\<close>

definition exp2_main ::
    "exp_env \<Rightarrow> u64 \<times> u64 \<Rightarrow> u64 \<times> u64 \<Rightarrow> bool \<Rightarrow> (char \<times> string) list \<Rightarrow> hook_state \<Rightarrow> int \<times> string option \<times> hook_state" where
  "exp2_main env t0 t1 opened opts h =
     (case exp2_parse_args opts of
        Inl code \<Rightarrow> (code, None, h)
      | Inr c \<Rightarrow>
          if \<not> ee_devices env then (1, None, h)
          else
            let (rs, created, denied, h) = exp2_run env (nat (sint (total_attempts c))) h
            in (0, if c2_output c = None \<or> opened
                   then Some (exp2_report c (get_time_us t0) (get_time_us t1) rs created denied) else None, h))"

section \<open>Property\<close>

text \<open>Only the created queue pairs are released here; the counters come out the same.\<close>

lemma exp2_run_result:
  fixes env :: exp_env and n :: nat
  assumes d: "exp_driver_ok p env" and a: "qp_app (ee_create env) p t h"
  defines "k \<equiv> min n (qp_budget \<lparr>qp_type = IBV_QPT_RC\<rparr> p t h)"
  shows "\<exists>rs h'. exp2_run env n h = (rs, k, n - k, h')
    \<and> map ar_success rs = replicate k True @ replicate (n - k) False
    \<and> (\<forall>ty\<in>{0, 1, 3, 4}. counter ty (snd (usage_of p t h')) = counter ty (snd (usage_of p t h)))"
proof -
  let ?attr = "\<lparr>qp_type = IBV_QPT_RC\<rparr>" and ?pd = "he_driver_ptr (ee_pd env)" and ?cq = "he_driver_ptr (ee_cq env)"
  obtain e1 e2 h1 h2 where set: "ibv_alloc_pd (ee_pd env) (ee_ctx env) h = (?pd, e1, h1)"
    "ibv_create_cq (ee_cq env) (ee_ctx env) 16 0 0 0 h1 = (?cq, e2, h2)"
    and s: "qp_app (ee_create env) p t h2" "\<forall>attr. qp_budget attr p t h2 = qp_budget attr p t h"
      "\<forall>ty\<in>{0, 1, 3, 4}. counter ty (snd (usage_of p t h2)) =
        counter ty (snd (usage_of p t h)) + (if ty = 4 then 1 else 0) + (if ty = 3 then 1 else 0)"
    using device_setup [OF d a] by metis
  note b = s(2) [rule_format, of ?attr]
  obtain rs h3 where r: "create_qps env ?pd ?attr n h2 = (rs, h3)" by fastforce
  define qps where "qps = filter (\<lambda>qp. qp \<noteq> 0) (map snd rs)"
  define h4 where "h4 = destroy_qps env qps h3"
  note l = qp_loop_result [OF d s(1) r, unfolded b, folded k_def]
  note q = qp_hooks(1) [OF d, where t = t and pd = ?pd and attr = ?attr] qp_hooks(2) [OF d, where t = t]
  have act: "active_app p t h2" using s(1) by (simp add: qp_app_def)
  have ok: "map (\<lambda>r. snd r \<noteq> 0) rs = map (\<lambda>r. ar_success (fst r)) rs"
    using attempt_loop_attempts [of env "\<lambda>i. ibv_create_qp (ee_create env i) ?pd ?attr" 0 n h2] r by (simp add: create_qps_def)
  have at: "map (\<lambda>r. snd r \<noteq> 0) rs = replicate k True @ replicate (n - k) False"
    unfolding ok using l by (simp add: comp_def)
  have len: "length qps = k" "length rs = n"
    using count_true [OF at] arg_cong [OF at, of length] by (simp_all add: qps_def filter_map comp_def k_def)
  note c3 = attempt_loop_counts [OF q(1) _ act, of 0 env 0 n]
  have a3: "active_app p t h3" using c3 r by (simp add: create_qps_def)
  note c4 = release_loop_counts [OF q(2) _ a3, of 0 0 qps]
  have h4: "active_app p t h4" using c4 by (simp add: h4_def destroy_qps_def)
  have fin: "counter ty (snd (usage_of p t h4)) = counter ty (snd (usage_of p t h2))" if "ty \<in> {0, 1, 3, 4}" for ty
    using c3 [of ty] c4 [of ty] r that by (auto simp: create_qps_def h4_def destroy_qps_def qps_def)
  define h6 where "h6 = snd (snd (ibv_dealloc_pd (ee_dealloc_pd env) ?pd (snd (snd (ibv_destroy_cq (ee_destroy_cq env) ?cq h4)))))"
  have "counter ty (snd (usage_of p t h6)) = counter ty (snd (usage_of p t h))" if "ty \<in> {0, 1, 3, 4}" for ty
    using device_teardown [OF d h4 that, folded h6_def] fin [OF that] s(3) that by auto
  moreover have "exp2_run env n h = (map fst rs, k, n - k, h6)"
    using set r len count_true [OF at]
    by (simp add: exp2_run_def Let_def qps_def [symmetric] h4_def [symmetric] h6_def [symmetric] comp_def)
  ultimately show ?thesis using l by (intro exI [of _ "map fst rs"] exI [of _ h6]) (simp add: comp_def)
qed

text \<open>
  The multi-tenant experiment. Run by a process of an active tenant under the layer, with a
  driver that grants everything, the program reports as created exactly the queue pairs the tenant
  and the process may still have, or all attempts when these are fewer, and as denied all others;
  the created ones are the first attempts, so the average it prints and its success column, which go
  by position, are right; and the tenant's counters are restored.
\<close>

theorem exp2_reports_budget:
  assumes "exp_driver_ok p env" "qp_app (ee_create env) p t h" "exp2_parse_args opts = Inr c"
  shows "\<exists>rs h'. let n = nat (sint (total_attempts c)); k = min n (qp_budget \<lparr>qp_type = IBV_QPT_RC\<rparr> p t h) in
    exp2_main env t0 t1 True opts h =
      (0, Some (exp2_report c (get_time_us t0) (get_time_us t1) rs k (n - k)), h')
    \<and> map ar_success rs = map (\<lambda>i. i < k) [0..<n]
    \<and> (\<forall>ty\<in>{0, 1, 3, 4}. counter ty (snd (usage_of p t h')) = counter ty (snd (usage_of p t h)))"
proof -
  let ?n = "nat (sint (total_attempts c))"
  define k where "k = min ?n (qp_budget \<lparr>qp_type = IBV_QPT_RC\<rparr> p t h)"
  obtain rs h' where r: "exp2_run env ?n h = (rs, k, ?n - k, h')"
      "map ar_success rs = replicate k True @ replicate (?n - k) False"
      "\<forall>ty\<in>{0, 1, 3, 4}. counter ty (snd (usage_of p t h')) = counter ty (snd (usage_of p t h))"
    using exp2_run_result [OF assms(1,2), of ?n] by (auto simp: k_def)
  have "k \<le> ?n" by (simp add: k_def)
  then have "map (\<lambda>i. i < k) [0..<?n] = replicate k True @ replicate (?n - k) False"
    by (intro nth_equalityI) (auto simp: nth_append)
  with r assms(1,3) show ?thesis unfolding Let_def k_def [symmetric]
    by (intro exI [of _ rs] exI [of _ h']) (simp add: exp2_main_def exp_driver_ok_def)
qed

text \<open>Tenant 1 may have 100 queue pairs; its process tries 100 and 20 more.\<close>

theorem exp2_reports_budget_witness:
  "\<exists>c rs h'. exp2_parse_args [(CHR ''t'', ''1''), (CHR ''q'', ''100''), (CHR ''e'', ''20'')] = Inr c
    \<and> exp2_main demo_exp (1, 0) (2, 0) True [(CHR ''t'', ''1''), (CHR ''q'', ''100''), (CHR ''e'', ''20'')] (app_view two_processes 42) =
        (0, Some (exp2_report c (get_time_us (1, 0)) (get_time_us (2, 0)) rs 100 20), h')"
proof -
  have n: "atoi ''1'' = 1" "atoi ''100'' = 100" "atoi ''20'' = 20"
    by (simp_all add: atoi_def strtol_def signed_prefix_def skip_space_def leading_digits_def is_space_def
        is_digit_def digits_value_def digit_value_def)
  then have c: "exp2_parse_args [(CHR ''t'', ''1''), (CHR ''q'', ''100''), (CHR ''e'', ''20'')] =
      Inr \<lparr>c2_tenant_id = 1, c2_quota = 100, c2_extra_attempts = 20, c2_output = None\<rparr>"
    by (simp add: exp2_parse_args_def)
  note w = exp2_reports_budget [OF demo_qp_app(1,2) c, of "(1, 0)" "(2, 0)"]
  then show ?thesis using c demo_qp_app(3) by (auto simp: total_attempts_def EXP2_MAX_QP_def Let_def)
qed

end
