(* ===== verification/Exp_Effect.thy ===== *)
theory Exp_Effect
  imports Exp_Qp
begin

text \<open>
  The experiment on the effect of a policy update
  (\<open>experiments/exp5_dynamic_policy/src/exp5_dynamic_policy_effect.c\<close>): an application tries to
  create a queue pair twenty times, and while it waits before the seventh attempt the quota of its
  tenant is updated from outside. What other processes do to the shared objects before attempt
  \<open>i\<close> is \<open>ef_other env i\<close>; \<open>ef_stop\<close> is the number of attempts until the signal, 20
  without one; \<open>ef_junk\<close> is what the array of attempts held before, which the program reads when
  it was stopped. The lines of the report that are comments, and the messages, are left out.
\<close>

section \<open>The run\<close>

definition EFFECT_ATTEMPTS :: nat where "EFFECT_ATTEMPTS = 20"
definition update_at_qp :: nat where "update_at_qp = 7"

record effect_attempt =
  ea_qp_id :: i32
  ea_timestamp_ms :: rat
  ea_success :: bool
  ea_latency_us :: rat

record effect_env =
  ef_exp :: exp_env
  ef_start :: "u64 \<times> u64"
  ef_time :: "nat \<Rightarrow> u64 \<times> u64"
  ef_stop :: nat
  ef_junk :: "effect_attempt list"
  ef_other :: "nat \<Rightarrow> hook_state \<Rightarrow> hook_state"

text \<open>\<open>ts.tv_sec * 1000.0 + ts.tv_nsec / 1e6\<close>\<close>

definition get_time_ms :: "u64 \<times> u64 \<Rightarrow> rat" where
  "get_time_ms ts =
     double_add (double_mul (round_double (of_int (sint (fst ts)))) 1000)
                (double_div (round_double (of_int (sint (snd ts)))) 1000000)"

definition effect_attempt_of :: "effect_env \<Rightarrow> nat \<Rightarrow> attempt_record \<Rightarrow> effect_attempt" where
  "effect_attempt_of env i r =
     \<lparr>ea_qp_id = of_nat i, ea_timestamp_ms = double_sub (get_time_ms (ef_time env i)) (get_time_ms (ef_start env)),
      ea_success = ar_success r, ea_latency_us = double_sub (ar_end r) (ar_start r)\<rparr>"

text \<open>The attempts with the array after the loop, and the state before the created queue pairs are
  destroyed.\<close>

definition effect_loop :: "effect_env \<Rightarrow> u64 \<Rightarrow> hook_state \<Rightarrow> u64 list \<times> effect_attempt list \<times> hook_state" where
  "effect_loop env pd h =
     (let (rs, h) = attempt_loop (ef_exp env)
                      (\<lambda>i h. ibv_create_qp (ee_create (ef_exp env) i) pd \<lparr>qp_type = IBV_QPT_RC\<rparr> (ef_other env i h))
                      0 (min (ef_stop env) EFFECT_ATTEMPTS) h;
          made = map (\<lambda>i. effect_attempt_of env i (fst (rs ! i))) [0..<length rs]
      in (filter (\<lambda>qp. qp \<noteq> 0) (map snd rs), made @ drop (length made) (ef_junk env), h))"

section \<open>The evaluation\<close>

definition success_before :: "effect_attempt list \<Rightarrow> nat" where
  "success_before as = length (filter ea_success (take (update_at_qp - 1) as))"

definition success_after :: "effect_attempt list \<Rightarrow> nat" where
  "success_after as = length (filter ea_success (drop (update_at_qp - 1) as))"

text \<open>The first success from the update on: its number, counted from 1, and its time.\<close>

fun first_success :: "nat \<Rightarrow> effect_attempt list \<Rightarrow> (nat \<times> rat) option" where
  "first_success i [] = None"
| "first_success i (a # as) = (if ea_success a then Some (i + 1, ea_timestamp_ms a) else first_success (Suc i) as)"

definition first_success_after_update :: "effect_attempt list \<Rightarrow> (nat \<times> rat) option" where
  "first_success_after_update as = first_success (update_at_qp - 1) (drop (update_at_qp - 1) as)"

definition policy_update_time :: "effect_attempt list \<Rightarrow> rat" where
  "policy_update_time as = ea_timestamp_ms (as ! (update_at_qp - 2))"

fun effect_rows :: "effect_attempt list \<Rightarrow> string" where
  "effect_rows [] = []"
| "effect_rows (a # as) =
     sdec (sint (ea_qp_id a + 1)) @ '','' @ fixed_text 3 (ea_timestamp_ms a) @ '','' @ (if ea_success a then ''1'' else ''0'')
     @ '','' @ fixed_text 3 (ea_latency_us a) @ newline @ effect_rows as"

definition effect_report :: "effect_attempt list \<Rightarrow> nat \<Rightarrow> string" where
  "effect_report as created =
     ''ATTEMPT_ID,TIMESTAMP_MS,SUCCESS,LATENCY_US'' @ newline
     @ effect_rows as @ newline
     @ ''TOTAL_ATTEMPTS: '' @ dec EFFECT_ATTEMPTS @ newline
     @ ''TOTAL_SUCCESS: '' @ dec created @ newline
     @ ''TOTAL_FAILED: '' @ sdec (int EFFECT_ATTEMPTS - int created) @ newline
     @ ''SUCCESS_RATE: '' @ fixed_text 1 (double_div (double_mul 100 (of_nat created)) (of_nat EFFECT_ATTEMPTS)) @ ''%'' @ newline
     @ newline
     @ ''BEFORE_UPDATE_ATTEMPTS: '' @ dec (update_at_qp - 1) @ newline
     @ ''BEFORE_UPDATE_SUCCESS: '' @ dec (success_before as) @ newline
     @ ''AFTER_UPDATE_ATTEMPTS: '' @ dec (EFFECT_ATTEMPTS - update_at_qp + 1) @ newline
     @ ''AFTER_UPDATE_SUCCESS: '' @ dec (success_after as) @ newline
     @ newline
     @ ''POLICY_UPDATE_TIME_MS: '' @ fixed_text 3 (policy_update_time as) @ newline
     @ (case first_success_after_update as of
          Some (k, tm) \<Rightarrow>
            if tm > 0
            then ''POLICY_EFFECTIVE_TIME_MS: '' @ fixed_text 3 tm @ newline
                 @ ''POLICY_DELAY_MS: '' @ fixed_text 3 (double_sub tm (policy_update_time as)) @ newline
                 @ ''FIRST_SUCCESS_AFTER_UPDATE: '' @ dec k @ newline
            else ''POLICY_EFFECTIVE_TIME_MS: N/A'' @ newline @ ''POLICY_DELAY_MS: N/A'' @ newline
                 @ ''FIRST_SUCCESS_AFTER_UPDATE: N/A'' @ newline
        | None \<Rightarrow>
            ''POLICY_EFFECTIVE_TIME_MS: N/A'' @ newline @ ''POLICY_DELAY_MS: N/A'' @ newline
            @ ''FIRST_SUCCESS_AFTER_UPDATE: N/A'' @ newline)"

text \<open>The program: exit code, the attempts with the report if its file can be opened, and the
  state left behind. No result of the driver but those of the creations is checked.\<close>

definition effect_main ::
    "effect_env \<Rightarrow> bool \<Rightarrow> hook_state \<Rightarrow> int \<times> (effect_attempt list \<times> string option) option \<times> hook_state" where
  "effect_main env opened h =
     (if \<not> ee_devices (ef_exp env) then (1, None, h)
      else
        let e = ef_exp env;
            (pd, _, h) = ibv_alloc_pd (ee_pd e) (ee_ctx e) h;
            (cq, _, h) = ibv_create_cq (ee_cq e) (ee_ctx e) 16 0 0 0 h;
            (qps, as, h) = effect_loop env pd h;
            report = (if opened then Some (effect_report as (length qps)) else None);
            h = destroy_qps e qps h;
            h = snd (snd (ibv_destroy_cq (ee_destroy_cq e) cq h));
            h = snd (snd (ibv_dealloc_pd (ee_dealloc_pd e) pd h))
        in (0, Some (as, report), h))"

section \<open>Two stretches of attempts\<close>

lemma attempt_loop_append:
  "attempt_loop env c i (m + n) h =
     (let (r1, h1) = attempt_loop env c i m h; (r2, h2) = attempt_loop env c (i + m) n h1 in (r1 @ r2, h2))"
  by (induction m arbitrary: i h) (simp_all add: split_beta)

lemma attempt_loop_cong:
  "(\<And>j. i \<le> j \<Longrightarrow> j < i + n \<Longrightarrow> c j = c' j) \<Longrightarrow> attempt_loop env c i n h = attempt_loop env c' i n h"
  by (induction n arbitrary: i h) (simp_all add: split_beta)

text \<open>A step of others before the first attempt of a stretch is a step before the stretch.\<close>

lemma attempt_loop_other:
  assumes "\<And>j. i < j \<Longrightarrow> f j = id"
  shows "attempt_loop env (\<lambda>j h. c j (f j h)) i (Suc n) h = attempt_loop env c i (Suc n) (f i h)"
proof -
  have "attempt_loop env (\<lambda>j h. c j (f j h)) (Suc i) n h' = attempt_loop env c (Suc i) n h'" for h'
    by (rule attempt_loop_cong) (use assms in simp)
  then show ?thesis by simp
qed

text \<open>What an attempt leaves alone, and the own count of the process.\<close>

lemma create_attempt_core:
  assumes a: "qp_app env p t h" and r: "create_attempt env pd attr i h = (b, h')"
  shows "st_config (hk_core h') = st_config (hk_core h)"
    "st_qp_count (hk_core h') = st_qp_count (hk_core h) + (if b then 1 else 0)"
    "shm_get_global_resources True (hk_shm h') = shm_get_global_resources True (hk_shm h)"
    "fst (usage_of p t h') = fst (usage_of p t h)"
proof -
  let ?c = "HCreateQp (env i) pd attr" and ?v = "hook_view_of p t h"
  have act: "active_app p t h" and app: "tenant_app p t h" using a by (simp_all add: qp_app_def active_app_def)
  have p: "he_pid (op_env ?c) = p" using a by (simp add: qp_app_def driver_grants_def)
  note s = tenant_app_step [OF app p]
  obtain qp err where h': "h' = hook_exec ?c h" and b: "hook_answer ?c h = APtr qp err" "b = (qp \<noteq> 0)"
    using create_attempt_exec [OF r] by blast
  have v: "hook_view_of p t h' = snd (view_hook ?c ?v)" using s(3) h' by simp
  have "b = (view_qp_room attr ?v \<and> he_driver_ptr (env i) \<noteq> 0)" using s(2) b by (auto split: if_splits)
  with v have "hv_core (hook_view_of p t h') = (if b then one_more_qp (hk_core h) else hk_core h)"
    "hv_global (hook_view_of p t h') = shm_get_global_resources True (hk_shm h)"
    by (auto simp: view_selectors count_view_def)
  then show "st_config (hk_core h') = st_config (hk_core h)"
    "st_qp_count (hk_core h') = st_qp_count (hk_core h) + (if b then 1 else 0)"
    "shm_get_global_resources True (hk_shm h') = shm_get_global_resources True (hk_shm h)"
    by (simp_all add: view_selectors one_more_qp_def)
  show "fst (usage_of p t h') = fst (usage_of p t h)" using app_counts(2) [OF act p] h' by simp
qed

lemma attempts_core:
  "qp_app env p t h \<Longrightarrow> attempts (create_attempt env pd attr) i n h = (bs, h') \<Longrightarrow>
   st_config (hk_core h') = st_config (hk_core h)
   \<and> st_qp_count (hk_core h') = st_qp_count (hk_core h) + of_nat (length (filter id bs))
   \<and> shm_get_global_resources True (hk_shm h') = shm_get_global_resources True (hk_shm h)
   \<and> fst (usage_of p t h') = fst (usage_of p t h)"
proof (induction n arbitrary: i h bs)
  case (Suc n)
  obtain b h1 where c: "create_attempt env pd attr i h = (b, h1)" by fastforce
  obtain bs1 where r: "attempts (create_attempt env pd attr) (Suc i) n h1 = (bs1, h')" "bs = b # bs1"
    using Suc.prems(2) c by (auto split: prod.splits)
  have "qp_app env p t h1" using create_attempt_step [OF Suc.prems(1) c] by blast
  from Suc.IH [OF this r(1)] create_attempt_core [OF Suc.prems(1) c] r(2) show ?case by simp
qed simp

text \<open>The budget by quota, process limit and the conditions that do not depend on counts of the process.\<close>

definition qp_open :: "qp_init_attr \<Rightarrow> hook_state \<Rightarrow> bool" where
  "qp_open attr h \<longleftrightarrow> qp_type_allowed (st_config (hk_core h)) attr
     \<and> (case shm_get_global_resources True (hk_shm h) of
          (rc, g) \<Rightarrow> rc = 0 \<longrightarrow> (case g of None \<Rightarrow> True | Some g \<Rightarrow> qp_count g < max_global_qp (st_config (hk_core h))))"

lemma qp_budget_open:
  "qp_budget attr p t h =
     (if qp_open attr h
      then min (unat (max_qp_per_tenant (fst (usage_of p t h))) - qp_in_use p t h)
               (unat (max_qp_per_process (st_config (hk_core h))) - unat (st_qp_count (hk_core h)))
      else 0)"
  by (simp add: qp_budget_def qp_open_def Let_def split: prod.split)

section \<open>The update from outside\<close>

text \<open>The daemon handles a request; the process sees the new contents of the tenant table.\<close>

definition daemon_updates :: "'j json_lib \<Rightarrow> daemon_env \<Rightarrow> string \<Rightarrow> hook_state \<Rightarrow> hook_state" where
  "daemon_updates lib denv req h =
     (case process_command lib denv req (hk_tenants h) of
        None \<Rightarrow> h
      | Some (reply, s) \<Rightarrow> h\<lparr>hk_tenants := (hk_tenants h)\<lparr>tenant_object := tenant_object s\<rparr>\<rparr>)"

definition quota_request :: "'j json_lib \<Rightarrow> string \<Rightarrow> u32 \<Rightarrow> u32 \<Rightarrow> bool" where
  "quota_request lib req t limit \<longleftrightarrow>
     (\<exists>j a b. command_of lib req = Some (''UPDATE_QUOTA'', j)
        \<and> object_get_ex lib j ''tenant'' = Some a \<and> get_int lib a = t
        \<and> object_get_ex lib j ''qp'' = Some b \<and> get_int lib b = limit)"

lemma quota_updated_app:
  fixes denv :: daemon_env
  assumes a: "active_app p t h" and q: "quota_request lib req t limit"
  defines "h' \<equiv> daemon_updates lib denv req h"
  shows "active_app p t h'" "hk_core h' = hk_core h" "hk_shm h' = hk_shm h"
    "max_qp_per_tenant (fst (usage_of p t h')) = limit" "snd (usage_of p t h') = snd (usage_of p t h)"
proof -
  obtain j x y where c: "command_of lib req = Some (''UPDATE_QUOTA'', j)"
    "object_get_ex lib j ''tenant'' = Some x" "get_int lib x = t"
    "object_get_ex lib j ''qp'' = Some y" "get_int lib y = limit"
    using q by (auto simp: quota_request_def)
  obtain quota u where row: "app_row p t h = Some (TENANT_STATUS_ACTIVE, quota, u)" and tp: "tenant_process p t h"
      and room: "slot_room p (hk_shm h)"
    using a by (auto simp: active_app_def tenant_app_def)
  have r: "process_ready h" using tp by (simp add: tenant_process_def)
  note R = process_readyD [OF r]
  have ta: "tenant_attached (hk_tenants h)" using R(2,3) by (simp add: hook_attached_def)
  obtain reply s where s: "process_command lib denv req (hk_tenants h) = Some (reply, s)"
      "run_command lib denv ''UPDATE_QUOTA'' j (hk_tenants h) = (reply, s)"
    using process_command_eq [of lib denv req "hk_tenants h"] c(1) by fastforce
  let ?q = "request_quota lib j limit limit"
  have e: "daemon_effect lib req (tenant_table_of h) = spec_update_quota t (Some ?q) (tenant_table_of h)"
    using c by (simp add: daemon_effect_def)
  have m: "members (tenant_table_of h) t = Some (TENANT_STATUS_ACTIVE, quota, u)" using row by (simp add: hook_view_of_def)
  have s': "tenant_attached s" "tenant_state_abs s = (tenant_table_of h)\<lparr>members := (members (tenant_table_of h))(t \<mapsto> (TENANT_STATUS_ACTIVE, ?q, u))\<rparr>"
    using run_command_handled [OF ta c(1), of denv] s(2) e m
    by (simp_all add: handled_def tenant_table_of_def [symmetric] spec_update_quota_def)
  have h': "h' = h\<lparr>hk_shm := (hk_shm h)\<lparr>shm_object := shm_object (hk_shm h)\<rparr>,
      hk_tenants := (hk_tenants h)\<lparr>tenant_object := tenant_object s\<rparr>\<rparr>"
    by (simp add: h'_def daemon_updates_def s(1))
  note v = process_sees [OF r R(4,5) s'(1), folded h']
  show shm: "hk_shm h' = hk_shm h" by (simp add: h')
  have row': "app_row p t h' = Some (TENANT_STATUS_ACTIVE, ?q, u)" using v s'(2) by (simp add: hook_view_of_def)
  show "hk_core h' = hk_core h" using v by simp
  have "tenant_process p t h'" using tp v s'(2) by (simp add: tenant_process_def)
  then show "active_app p t h'" using row' room shm by (simp add: active_app_def tenant_app_def)
  show "max_qp_per_tenant (fst (usage_of p t h')) = limit" "snd (usage_of p t h') = snd (usage_of p t h)"
    using usage_of_row [OF row] usage_of_row [OF row'] by (simp_all add: request_quota_def daemon_quota_def)
qed

lemma quota_updated:
  fixes denv :: daemon_env
  assumes a: "qp_app env p t h" and q: "quota_request lib req t limit"
  defines "h' \<equiv> daemon_updates lib denv req h"
  shows "qp_app env p t h'" "hk_core h' = hk_core h" "qp_open attr h' = qp_open attr h"
    "max_qp_per_tenant (fst (usage_of p t h')) = limit" "snd (usage_of p t h') = snd (usage_of p t h)"
proof -
  have "active_app p t h" using a by (simp add: qp_app_def)
  note u = quota_updated_app [OF this q, where denv = denv, folded h'_def]
  have "slot_current p h' = slot_current p h" unfolding slot_current_def u(2,3) ..
  then show "qp_app env p t h'" using a u(1,2) by (simp add: qp_app_def)
  show "hk_core h' = hk_core h" "max_qp_per_tenant (fst (usage_of p t h')) = limit" "snd (usage_of p t h') = snd (usage_of p t h)"
    using u by simp_all
  show "qp_open attr h' = qp_open attr h" unfolding qp_open_def u(2,3) ..
qed

section \<open>Property\<close>

lemma count_map: "length (filter f (take n xs)) = length (filter id (take n (map f xs)))"
  "length (filter f (drop n xs)) = length (filter id (drop n (map f xs)))"
  by (simp_all add: take_map drop_map filter_map comp_def)

lemma first_success_none: "list_all (\<lambda>a. \<not> ea_success a) as \<Longrightarrow> first_success i as = None"
  by (induction as arbitrary: i) simp_all

lemma effect_stats:
  assumes "map ea_success as = (replicate k1 True @ replicate (6 - k1) False) @ replicate k2 True @ replicate m False" "k1 \<le> 6"
  shows "success_before as = k1" "success_after as = k2"
    "map_option fst (first_success_after_update as) = (if k2 > 0 then Some 7 else None)"
proof -
  show "success_before as = k1" "success_after as = k2"
    using assms(2) unfolding success_before_def success_after_def count_map [of ea_success _ as] assms(1) by (simp_all add: update_at_qp_def)
  have d: "map ea_success (drop 6 as) = replicate k2 True @ replicate m False"
    using assms by (simp flip: drop_map)
  show "map_option fst (first_success_after_update as) = (if k2 > 0 then Some 7 else None)"
  proof (cases k2)
    case 0
    then have "\<forall>b\<in>set (map ea_success (drop 6 as)). \<not> b" unfolding d by simp
    then have "list_all (\<lambda>a. \<not> ea_success a) (drop 6 as)" by (simp add: list_all_iff)
    then show ?thesis using 0 by (simp add: first_success_after_update_def update_at_qp_def first_success_none)
  next
    case (Suc j)
    with d obtain a rest where "drop 6 as = a # rest" "ea_success a" by (cases "drop 6 as") auto
    then show ?thesis using Suc by (simp add: first_success_after_update_def update_at_qp_def)
  qed
qed

lemma effect_loop_result:
  fixes env :: effect_env
  assumes d: "exp_driver_ok p (ef_exp env)" and a: "qp_app (ee_create (ef_exp env)) p t h"
    and stop: "20 \<le> ef_stop env" "length (ef_junk env) = 20"
    and other: "\<And>i. i \<noteq> 6 \<Longrightarrow> ef_other env i = id" "ef_other env 6 = daemon_updates lib denv req"
    and q: "quota_request lib req t limit"
  defines "attr \<equiv> \<lparr>qp_type = IBV_QPT_RC\<rparr>"
  defines "k1 \<equiv> min 6 (qp_budget attr p t h)"
  defines "k2 \<equiv> (if qp_open attr h
      then min 14 (min (unat limit - (qp_in_use p t h + k1))
        (unat (max_qp_per_process (st_config (hk_core h))) - (unat (st_qp_count (hk_core h)) + k1))) else 0)"
  shows "\<exists>qps as h'. effect_loop env pd h = (qps, as, h') \<and> length qps = k1 + k2
    \<and> map ea_success as = (replicate k1 True @ replicate (6 - k1) False) @ replicate k2 True @ replicate (14 - k2) False"
proof -
  let ?c = "\<lambda>i. ibv_create_qp (ee_create (ef_exp env) i) pd attr" and ?e = "ef_exp env"
  let ?at = "create_attempt (ee_create ?e) pd attr"
  note g = qp_hooks(3) [OF d, of pd attr]
  obtain r1 h3 where l1: "attempt_loop ?e ?c 0 6 h = (r1, h3)" by fastforce
  define h4 where "h4 = daemon_updates lib denv req h3"
  obtain r2 h5 where l2: "attempt_loop ?e ?c 6 14 h4 = (r2, h5)" by fastforce
  let ?c' = "\<lambda>i h. ?c i (ef_other env i h)"
  have "attempt_loop ?e ?c' 0 6 h = (r1, h3)"
    using attempt_loop_cong [of 0 6 ?c' ?c ?e h] other(1) l1 by simp
  moreover have "attempt_loop ?e ?c' 6 14 h3 = (r2, h5)"
    using attempt_loop_other [where f = "ef_other env" and c = ?c and i = 6 and n = 13 and env = ?e and h = h3] other l2 h4_def by simp
  ultimately have loop: "attempt_loop ?e ?c' 0 20 h = (r1 @ r2, h5)"
    using attempt_loop_append [of ?e ?c' 0 6 14 h] by simp
  obtain bs1 where b1: "attempts ?at 0 6 h = (bs1, h3)" "map (\<lambda>r. ar_success (fst r)) r1 = bs1" "map (\<lambda>r. snd r \<noteq> 0) r1 = bs1"
    using attempt_loop_attempts [of ?e ?c 0 6 h] l1 g by (cases "attempts ?at 0 6 h") simp
  note m1 = qp_meter.attempts_result [OF a, of pd attr 0 6]
  have k1: "bs1 = replicate k1 True @ replicate (6 - k1) False" "qp_app (ee_create ?e) p t h3" "qp_in_use p t h3 = qp_in_use p t h + k1"
    using m1 b1(1) by (auto simp: k1_def min_def)
  note core = attempts_core [OF a b1(1)]
  note u = quota_updated [OF k1(2) q, where denv = denv, folded h4_def]
  obtain bs2 where b2: "attempts ?at 6 14 h4 = (bs2, h5)" "map (\<lambda>r. ar_success (fst r)) r2 = bs2" "map (\<lambda>r. snd r \<noteq> 0) r2 = bs2"
    using attempt_loop_attempts [of ?e ?c 6 14 h4] l2 g by (cases "attempts ?at 6 14 h4") simp
  have own: "unat (st_qp_count (hk_core h3)) = unat (st_qp_count (hk_core h)) + k1" if o: "qp_open attr h"
  proof -
    have "k1 \<le> unat (max_qp_per_process (st_config (hk_core h))) - unat (st_qp_count (hk_core h))"
      using o by (simp add: k1_def qp_budget_open)
    moreover have "unat (st_qp_count (hk_core h)) \<le> unat (max_qp_per_process (st_config (hk_core h)))"
      using a by (simp add: qp_app_def word_le_nat_alt)
    ultimately have "unat (st_qp_count (hk_core h)) + k1 < 4294967296"
      using unsigned_less [where 'a = nat, of "max_qp_per_process (st_config (hk_core h))"] by simp
    moreover have "st_qp_count (hk_core h3) = st_qp_count (hk_core h) + of_nat k1" using core k1(1) by simp
    ultimately show ?thesis by (simp add: unat_word_ariths unat_of_nat)
  qed
  have same: "st_config (hk_core h3) = st_config (hk_core h)"
    "shm_get_global_resources True (hk_shm h3) = shm_get_global_resources True (hk_shm h)" using core by simp_all
  have op: "qp_open attr h3 = qp_open attr h" unfolding qp_open_def same ..
  have "min 14 (qp_budget attr p t h4) = k2"
    using own op core k1(3) u by (simp add: qp_budget_open k2_def qp_in_use_def)
  then have k2: "bs2 = replicate k2 True @ replicate (14 - k2) False"
    using qp_meter.attempts_result [OF u(1), of pd attr 6 14] b2(1) by (auto simp: min_def)
  have len: "length (r1 @ r2) = 20" "length r1 = 6" "length r2 = 14"
    using arg_cong [OF b1(2), of length] arg_cong [OF b2(2), of length] k1(1) k2 by (auto simp: k1_def k2_def min_def)
  define as where "as = map (\<lambda>i. effect_attempt_of env i (fst ((r1 @ r2) ! i))) [0..<20]"
  have "effect_loop env pd h = (filter (\<lambda>qp. qp \<noteq> 0) (map snd (r1 @ r2)), as, h5)"
    using loop len(1) stop by (simp add: effect_loop_def EFFECT_ATTEMPTS_def attr_def as_def min_def Let_def del: upt_rec_numeral)
  moreover have "length (filter (\<lambda>qp. qp \<noteq> 0) (map snd (r1 @ r2))) = k1 + k2"
    using b1(3) b2(3) count_true [of "\<lambda>r. snd r \<noteq> 0" r1 k1] count_true [of "\<lambda>r. snd r \<noteq> 0" r2 k2] k1(1) k2
    by (simp add: filter_map comp_def)
  moreover have "map ea_success as = map (\<lambda>r. ar_success (fst r)) (r1 @ r2)"
    using len(1) by (intro nth_equalityI) (simp_all add: as_def effect_attempt_of_def nth_append del: upt_rec_numeral)
  ultimately show ?thesis using b1(2) b2(2) k1(1) k2 by simp
qed

text \<open>
  C9 (the effect of a policy update). An application of an active tenant runs the experiment under
  the layer, with a driver that grants everything and nobody interrupting it; while it waits before
  its seventh attempt the daemon handles a request that sets the QP quota of its tenant to
  \<open>limit\<close>, and others do nothing. Then the first six attempts succeed as far as the budget at the
  start goes, the fourteen later ones as far as the new quota and the process limit go beyond what
  is in use by then, and the program reports exactly these numbers; when the new quota leaves any
  room, the first success after the update is attempt 7.
\<close>

theorem effect_reports_update:
  assumes d: "exp_driver_ok p (ef_exp env)" and a: "qp_app (ee_create (ef_exp env)) p t h"
    and stop: "20 \<le> ef_stop env" "length (ef_junk env) = 20"
    and other: "\<And>i. i \<noteq> 6 \<Longrightarrow> ef_other env i = id" "ef_other env 6 = daemon_updates lib denv req"
    and q: "quota_request lib req t limit"
  shows "\<exists>as h'.
    let k1 = min 6 (qp_budget \<lparr>qp_type = IBV_QPT_RC\<rparr> p t h);
        k2 = (if qp_open \<lparr>qp_type = IBV_QPT_RC\<rparr> h
              then min 14 (min (unat limit - (qp_in_use p t h + k1))
                (unat (max_qp_per_process (st_config (hk_core h))) - (unat (st_qp_count (hk_core h)) + k1))) else 0)
    in effect_main env True h = (0, Some (as, Some (effect_report as (k1 + k2))), h')
      \<and> success_before as = k1 \<and> success_after as = k2
      \<and> map_option fst (first_success_after_update as) = (if k2 > 0 then Some 7 else None)"
proof -
  let ?e = "ef_exp env" and ?attr = "\<lparr>qp_type = IBV_QPT_RC\<rparr>"
  obtain e1 e2 h1 h2 where set: "ibv_alloc_pd (ee_pd ?e) (ee_ctx ?e) h = (he_driver_ptr (ee_pd ?e), e1, h1)"
    "ibv_create_cq (ee_cq ?e) (ee_ctx ?e) 16 0 0 0 h1 = (he_driver_ptr (ee_cq ?e), e2, h2)"
    and s: "qp_app (ee_create ?e) p t h2" "\<forall>attr. qp_budget attr p t h2 = qp_budget attr p t h"
      "\<forall>ty\<in>{0, 1, 3, 4}. counter ty (snd (usage_of p t h2)) =
        counter ty (snd (usage_of p t h)) + (if ty = 4 then 1 else 0) + (if ty = 3 then 1 else 0)" "hk_core h2 = hk_core h"
      "shm_get_global_resources True (hk_shm h2) = shm_get_global_resources True (hk_shm h)"
    by (rule device_setup [OF d a], rule that)
  have use: "qp_in_use p t h2 = qp_in_use p t h" using s(3) by (simp add: qp_in_use_def counter_def)
  have op: "qp_open ?attr h2 = qp_open ?attr h" unfolding qp_open_def s(4,5) ..
  define k1 where "k1 = min 6 (qp_budget ?attr p t h)"
  define k2 where "k2 = (if qp_open ?attr h
              then min 14 (min (unat limit - (qp_in_use p t h + k1))
                (unat (max_qp_per_process (st_config (hk_core h))) - (unat (st_qp_count (hk_core h)) + k1))) else 0)"
  have k1: "min 6 (qp_budget ?attr p t h2) = k1" using s(2) by (simp only: k1_def)
  have k2: "(if qp_open ?attr h2
      then min 14 (min (unat limit - (qp_in_use p t h2 + k1))
        (unat (max_qp_per_process (st_config (hk_core h2))) - (unat (st_qp_count (hk_core h2)) + k1))) else 0) = k2"
    by (simp only: k2_def op use s(4))
  obtain qps as h3 where l: "effect_loop env (he_driver_ptr (ee_pd ?e)) h2 = (qps, as, h3)" "length qps = k1 + k2"
    and b: "map ea_success as = (replicate k1 True @ replicate (6 - k1) False) @ replicate k2 True @ replicate (14 - k2) False"
    using effect_loop_result [OF d s(1) stop other q, of "he_driver_ptr (ee_pd ?e)", unfolded k1, unfolded k2] by blast
  have "k1 \<le> 6" by (simp add: k1_def)
  note st = effect_stats [OF b this]
  have dev: "ee_devices ?e" using d by (simp add: exp_driver_ok_def)
  obtain h' where "effect_main env True h = (0, Some (as, Some (effect_report as (k1 + k2))), h')"
    unfolding effect_main_def Let_def set l(1) prod.case l(2) using dev by simp
  with st show ?thesis unfolding Let_def k1_def [symmetric] k2_def [symmetric] by blast
qed

text \<open>
  Tenant 1, allowed 100 queue pairs and using none, is cut down to 7 by the daemon: the six attempts
  before succeed, and one of the fourteen after.
\<close>

theorem effect_reports_update_witness:
  "\<exists>env req as h'. ef_other env 6 = daemon_updates demo_json demo_daemon_env req
    \<and> effect_main env True (app_view two_processes 42) = (0, Some (as, Some (effect_report as 7)), h')
    \<and> success_before as = 6 \<and> success_after as = 1
    \<and> map_option fst (first_success_after_update as) = Some 7"
proof -
  let ?f = "daemon_updates demo_json demo_daemon_env ''UPDATE_QUOTA''"
  let ?env = "\<lparr>ef_exp = demo_exp, ef_start = (0, 0), ef_time = (\<lambda>i. (of_nat i, 0)), ef_stop = 20,
    ef_junk = replicate 20 \<lparr>ea_qp_id = 0, ea_timestamp_ms = 0, ea_success = False, ea_latency_us = 0\<rparr>,
    ef_other = (\<lambda>i. if i = 6 then ?f else id)\<rparr>"
  let ?h = "app_view two_processes 42"
  have q: "quota_request demo_json ''UPDATE_QUOTA'' 1 7"
    using demo_command demo_fields by (auto simp: quota_request_def)
  have "qp_open \<lparr>qp_type = IBV_QPT_RC\<rparr> ?h" "qp_in_use 42 1 ?h = 0" "st_qp_count (hk_core ?h) = 0"
    "unat (max_qp_per_process (st_config (hk_core ?h))) = 100"
    using demo_app by (simp_all add: qp_open_def qp_in_use_def demo_hooks_def default_config_def g_intercept_state_def
        qp_type_allowed_def zero_tenant_usage_def zero_usage_def)
  note h = this
  have "exp_driver_ok 42 (ef_exp ?env)" "qp_app (ee_create (ef_exp ?env)) 42 1 ?h" using demo_qp_app by simp_all
  note r = effect_reports_update [OF this, of demo_json demo_daemon_env "''UPDATE_QUOTA''" 7]
  have "\<exists>as h'. effect_main ?env True ?h = (0, Some (as, Some (effect_report as 7)), h')
    \<and> success_before as = 6 \<and> success_after as = 1 \<and> map_option fst (first_success_after_update as) = Some 7"
    using r q h demo_qp_app(3) by (simp add: Let_def)
  then show ?thesis by (intro exI [of _ ?env] exI [of _ "''UPDATE_QUOTA''"]) simp
qed

end
