(* ===== verification/Exp_Tools.thy ===== *)
theory Exp_Tools
  imports Cli_Spec
begin

text \<open>
  The small tools of the experiments that work on the tenant table directly
  (\<open>experiments/exp9_mr_isolation/create_tenant.c\<close>,
  \<open>experiments/exp2_multi_tenant_isolation/update_tenant.c\<close> and \<open>check_tenants.c\<close>,
  \<open>experiments/exp5_dynamic_policy/check_tenant50.c\<close>, \<open>delete_tenant50.c\<close> and
  \<open>reset_tenant50.c\<close>), and the operation of the abstract table each of them is. The answers of
  the operating system for the calls in program order are \<open>env\<close>; \<open>junk\<close> are the values the
  fields \<open>max_cq_per_tenant\<close> and \<open>max_pd_per_tenant\<close> of a local quota happen to have:
  \<open>create_tenant.c\<close> and \<open>update_tenant.c\<close> set the other three fields only. A tool returns its
  exit code, the text it prints about tenants, and the table; other messages are left out.
\<close>

section \<open>The tools\<close>

definition create_tenant_main ::
    "(nat \<Rightarrow> tenant_env) \<Rightarrow> u32 \<times> u32 \<Rightarrow> string list \<Rightarrow> tenant_state \<Rightarrow> int \<times> string \<times> tenant_state" where
  "create_tenant_main env junk args s =
     (if length args < 4 then (1, [], s)
      else
        let tenant_id = atoi (args ! 0); max_qp = atoi (args ! 1); max_mr = atoi (args ! 2);
            max_memory = strtoull (args ! 3);
            name = (if length args > 4 then args ! 4 else ''TestTenant'');
            (rc, s) = tenant_shm_init (env 0) s
        in if rc \<noteq> 0 then (1, [], s)
           else
             let quota = \<lparr>max_qp_per_tenant = max_qp, max_mr_per_tenant = max_mr, max_memory_per_tenant = max_memory,
                           max_cq_per_tenant = fst junk, max_pd_per_tenant = snd junk\<rparr>;
                 (ret, s) = tenant_create (env 1) tenant_id (Some name) (Some quota) s
             in if ret \<noteq> 0 then (1, [], s)
                else
                  (case tenant_get_info (env 2) tenant_id True s of
                     ((rc, info), s) \<Rightarrow>
                       (case (rc = 0, info) of
                          (True, Some t) \<Rightarrow>
                            (0, ''  Current QP: '' @ sdec (sint (tu_qp_count (ti_usage t))) @ ''/''
                                @ sdec (sint (max_qp_per_tenant (ti_quota t))) @ newline
                                @ ''  Current MR: '' @ sdec (sint (tu_mr_count (ti_usage t))) @ ''/''
                                @ sdec (sint (max_mr_per_tenant (ti_quota t))) @ newline, s)
                        | _ \<Rightarrow> (0, [], s))))"

definition update_tenant_main ::
    "(nat \<Rightarrow> tenant_env) \<Rightarrow> u32 \<times> u32 \<Rightarrow> string list \<Rightarrow> tenant_state \<Rightarrow> int \<times> string \<times> tenant_state" where
  "update_tenant_main env junk args s =
     (if length args < 4 then (1, [], s)
      else
        let tenant_id = atoi (args ! 0); qp_limit = atoi (args ! 1); mr_limit = atoi (args ! 2);
            memory_limit = atoll (args ! 3);
            (rc, s) = tenant_shm_init (env 0) s
        in if rc \<noteq> 0 then (1, [], s)
           else
             let ((rc, info), s) = tenant_get_info (env 1) tenant_id True s
             in if rc \<noteq> 0 then (1, [], s)
                else
                  let new_quota = \<lparr>max_qp_per_tenant = qp_limit, max_mr_per_tenant = mr_limit,
                                    max_memory_per_tenant = memory_limit,
                                    max_cq_per_tenant = fst junk, max_pd_per_tenant = snd junk\<rparr>;
                      (rc, s) = tenant_update_quota (env 2) tenant_id (Some new_quota) s
                  in if rc = 0
                     then (0, ''Tenant '' @ dec (unat tenant_id) @ '' updated successfully'' @ newline
                              @ ''  New QP limit: '' @ sdec (sint qp_limit) @ newline
                              @ ''  New MR limit: '' @ sdec (sint mr_limit) @ newline
                              @ ''  New Memory limit: '' @ dec (unat memory_limit) @ newline, s)
                     else (1, [], s))"

definition delete_tenant50_main :: "(nat \<Rightarrow> tenant_env) \<Rightarrow> tenant_state \<Rightarrow> int \<times> string \<times> tenant_state" where
  "delete_tenant50_main env s =
     (let (rc, s) = tenant_shm_init (env 0) s
      in if rc \<noteq> 0 then (1, [], s)
         else
           let (rc, s) = tenant_delete (env 1) 50 s
           in (0, if rc = 0 then ''Tenant 50 deleted successfully'' @ newline
                  else ''Failed to delete tenant 50 (may not exist)'' @ newline, s))"

fun status_number :: "tenant_status \<Rightarrow> nat" where
  "status_number TENANT_STATUS_INACTIVE = 0"
| "status_number TENANT_STATUS_ACTIVE = 1"
| "status_number TENANT_STATUS_SUSPENDED = 2"

definition check_tenant50_main :: "(nat \<Rightarrow> tenant_env) \<Rightarrow> tenant_state \<Rightarrow> int \<times> string \<times> tenant_state" where
  "check_tenant50_main env s =
     (let (rc, s) = tenant_shm_init (env 0) s
      in if rc \<noteq> 0 then (1, [], s)
         else
           (case tenant_get_info (env 1) 50 True s of
              ((rc, info), s) \<Rightarrow>
                (case (rc = 0, info) of
                   (True, Some t) \<Rightarrow>
                     (0, ''Tenant 50 Status:'' @ newline
                         @ ''  Name: '' @ ti_tenant_name t @ newline
                         @ ''  Status: '' @ dec (status_number (ti_status t)) @ newline
                         @ ''  QP Quota: '' @ sdec (sint (max_qp_per_tenant (ti_quota t))) @ newline
                         @ ''  QP Usage: '' @ sdec (sint (tu_qp_count (ti_usage t))) @ newline
                         @ ''  MR Quota: '' @ sdec (sint (max_mr_per_tenant (ti_quota t))) @ newline
                         @ ''  MR Usage: '' @ sdec (sint (tu_mr_count (ti_usage t))) @ newline, s)
                 | _ \<Rightarrow> (0, ''Tenant 50 not found'' @ newline, s))))"

definition usage_line :: "string \<Rightarrow> tenant_info option \<Rightarrow> string" where
  "usage_line label info = label @ newline @ ''  QP Usage: ''
     @ (case info of Some t \<Rightarrow> dec (unat (tu_qp_count (ti_usage t))) | None \<Rightarrow> []) @ newline"

definition reset_tenant50_main :: "(nat \<Rightarrow> tenant_env) \<Rightarrow> tenant_state \<Rightarrow> int \<times> string \<times> tenant_state" where
  "reset_tenant50_main env s =
     (let (rc, s) = tenant_shm_init (env 0) s
      in if rc \<noteq> 0 then (1, [], s)
         else
           let ((rc, info), s) = tenant_get_info (env 1) 50 True s
           in if rc \<noteq> 0 then (1, [], s)
              else
                let before = usage_line ''Before reset:'' info;
                    (rc, s) = tenant_update_resource_usage (env 2) 50 (Some zero_tenant_usage) s
                in if rc \<noteq> 0 then (1, before, s)
                   else
                     let ((rc, info), s) = tenant_get_info (env 3) 50 True s
                     in if rc \<noteq> 0 then (1, before, s)
                        else (0, before @ usage_line ''After reset:'' info, s))"

text \<open>The loop of \<open>check_tenants.c\<close> over its five tenants.\<close>

fun checked_status :: "tenant_status \<Rightarrow> string" where
  "checked_status TENANT_STATUS_INACTIVE = ''Inactive''"
| "checked_status TENANT_STATUS_ACTIVE = ''Active''"
| "checked_status TENANT_STATUS_SUSPENDED = ''Suspended''"

definition checked_row :: "u32 \<Rightarrow> tenant_info option \<Rightarrow> string" where
  "checked_row tid info =
     (case info of
        Some t \<Rightarrow>
          pad 10 (dec (unat (ti_tenant_id t))) @ '' '' @ pad 20 (ti_tenant_name t) @ '' ''
          @ sdec (sint (tu_qp_count (ti_usage t))) @ ''/'' @ pad 8 (sdec (sint (max_qp_per_tenant (ti_quota t)))) @ '' ''
          @ sdec (sint (tu_mr_count (ti_usage t))) @ ''/'' @ pad 8 (sdec (sint (max_mr_per_tenant (ti_quota t)))) @ '' ''
          @ checked_status (ti_status t) @ newline
      | None \<Rightarrow>
          pad 10 (dec (unat tid)) @ '' '' @ pad 20 ''NOT FOUND'' @ '' '' @ pad 10 ''-'' @ '' '' @ pad 10 ''-'' @ '' ''
          @ pad 10 ''-'' @ newline)"

fun check_rows :: "(nat \<Rightarrow> tenant_env) \<Rightarrow> nat \<Rightarrow> u32 list \<Rightarrow> tenant_state \<Rightarrow> string \<times> tenant_state" where
  "check_rows env i [] s = ([], s)"
| "check_rows env i (tid # tids) s =
     (let ((rc, info), s) = tenant_get_info (env i) tid True s;
          (rows, s) = check_rows env (Suc i) tids s
      in (checked_row tid (if rc = 0 then info else None) @ rows, s))"

definition check_tenants_main :: "(nat \<Rightarrow> tenant_env) \<Rightarrow> tenant_state \<Rightarrow> int \<times> string \<times> tenant_state" where
  "check_tenants_main env s =
     (let (rc, s) = tenant_shm_init (env 0) s
      in if rc \<noteq> 0 then (1, [], s)
         else let (rows, s) = check_rows env 1 [1, 100, 200, 300, 400] s in (0, rows, s))"

section \<open>Their effects\<close>

datatype tenant_tool = CreateTenant "string list" | UpdateTenant "string list" | DeleteTenant50 | CheckTenant50
  | ResetTenant50 | CheckTenants

fun run_tool :: "(nat \<Rightarrow> tenant_env) \<Rightarrow> u32 \<times> u32 \<Rightarrow> tenant_tool \<Rightarrow> tenant_state \<Rightarrow> int \<times> string \<times> tenant_state" where
  "run_tool env junk (CreateTenant args) s = create_tenant_main env junk args s"
| "run_tool env junk (UpdateTenant args) s = update_tenant_main env junk args s"
| "run_tool env junk DeleteTenant50 s = delete_tenant50_main env s"
| "run_tool env junk CheckTenant50 s = check_tenant50_main env s"
| "run_tool env junk ResetTenant50 s = reset_tenant50_main env s"
| "run_tool env junk CheckTenants s = check_tenants_main env s"

text \<open>Exit code and operation of the abstract table.\<close>

definition exit_of :: "int \<times> tenant_table \<Rightarrow> int \<times> tenant_table" where
  "exit_of r = (if fst r = 0 then 0 else 1, snd r)"

fun tool_effect :: "u32 \<times> u32 \<Rightarrow> tenant_tool \<Rightarrow> tenant_table \<Rightarrow> int \<times> tenant_table" where
  "tool_effect junk (CreateTenant args) T =
     (if length args < 4 then (1, T)
      else exit_of (spec_create (atoi (args ! 0)) (Some \<lparr>max_qp_per_tenant = atoi (args ! 1), max_mr_per_tenant = atoi (args ! 2),
             max_memory_per_tenant = strtoull (args ! 3), max_cq_per_tenant = fst junk, max_pd_per_tenant = snd junk\<rparr>) T))"
| "tool_effect junk (UpdateTenant args) T =
     (if length args < 4 then (1, T)
      else exit_of (spec_update_quota (atoi (args ! 0)) (Some \<lparr>max_qp_per_tenant = atoi (args ! 1), max_mr_per_tenant = atoi (args ! 2),
             max_memory_per_tenant = atoll (args ! 3), max_cq_per_tenant = fst junk, max_pd_per_tenant = snd junk\<rparr>) T))"
| "tool_effect junk DeleteTenant50 T = (0, snd (spec_delete 50 T))"
| "tool_effect junk CheckTenant50 T = (0, T)"
| "tool_effect junk ResetTenant50 T = exit_of (spec_update_usage 50 (Some zero_tenant_usage) T)"
| "tool_effect junk CheckTenants T = (0, T)"

text \<open>A tool starts in a new process on an existing table, and attaches it.\<close>

definition tool_start :: "tenant_shared_memory \<Rightarrow> tenant_state" where
  "tool_start d = \<lparr>g_tenant_shm_fd = -1, g_tenant_shm_mapped = False, tenant_object = Some d\<rparr>"

definition attach_env :: "tenant_env \<Rightarrow> bool" where
  "attach_env env \<longleftrightarrow> tenv_shm_open env \<ge> 0 \<and> tenv_ftruncate env \<ge> 0 \<and> tenv_mmap_ok env"

lemma tool_attaches:
  assumes "attach_env env" "tenant_safe d" "tenant_version d \<noteq> 0"
  shows "\<exists>s. tenant_shm_init env (tool_start d) = (0, s) \<and> tenant_attached s \<and> tenant_state_abs s = tenant_abs d"
  using assms by (simp add: tenant_shm_init_def tool_start_def attach_env_def Let_def tenant_attached_def tenant_inv_def
      tenant_state_abs_def)

lemma read_info:
  assumes "tenant_attached s" "tenant_state_abs s = T"
  obtains info s' where "tenant_get_info env tid True s = ((if members T tid = None then -1 else 0, info), s')"
    "tenant_attached s'" "tenant_state_abs s' = T" "members T tid \<noteq> None \<longrightarrow> info \<noteq> None"
proof -
  obtain rc info s' where r: "tenant_get_info env tid True s = ((rc, info), s')" by (metis surj_pair)
  have "same_tenants s s'" using tenant_readers_same(2) [OF assms(1), where env = env and tid = tid and b = True] r by simp
  moreover have "rc = (if members T tid = None then -1 else 0)" "members T tid \<noteq> None \<longrightarrow> info \<noteq> None"
    using get_info_members [OF assms(1), where env = env and tid = tid] r assms(2) by (auto split: option.splits)
  ultimately show ?thesis using that r assms by (simp add: same_tenants_def)
qed

lemma mutate:
  assumes "tenant_attached s" "tenant_state_abs s = T" "tenant_mutator c"
  obtains s' where "tenant_run c s = (fst (spec_run c T), s')" "tenant_attached s'" "tenant_state_abs s' = snd (spec_run c T)"
proof -
  obtain rc s' where r: "tenant_run c s = (rc, s')" by fastforce
  have "tenant_attached s'"
    using exec_attached [OF assms(1), of c] assms(3) r by (cases c) (simp_all add: tenant_exec_def)
  moreover have "rc = fst (spec_run c T)" "tenant_state_abs s' = snd (spec_run c T)"
    using arg_cong [OF run_refines [OF assms(1,3)], of fst] arg_cong [OF run_refines [OF assms(1,3)], of snd] assms(2) r by simp_all
  ultimately show ?thesis using that r by simp
qed

lemma check_rows_same:
  "tenant_attached s \<Longrightarrow> tenant_attached (snd (check_rows env i tids s))
    \<and> tenant_state_abs (snd (check_rows env i tids s)) = tenant_state_abs s"
proof (induction tids arbitrary: i s)
  case (Cons tid tids)
  obtain info s' where r: "tenant_get_info (env i) tid True s = ((if members (tenant_state_abs s) tid = None then -1 else 0, info), s')"
    "tenant_attached s'" "tenant_state_abs s' = tenant_state_abs s"
    using read_info [OF Cons.prems refl, of "env i" tid] by metis
  with Cons.IH [OF r(2), of "Suc i"] show ?case by (simp add: split_beta)
qed simp

text \<open>The tenants \<open>check_tenants.c\<close> asks for, apart from the first, are beyond the table.\<close>

lemma check_tenants_rows:
  assumes "tenant_attached s"
  shows "\<exists>row. fst (check_rows env 1 [1, 100, 200, 300, 400] s)
    = row @ checked_row 100 None @ checked_row 200 None @ checked_row 300 None @ checked_row 400 None"
  by (simp add: split_beta tenant_get_info_def MAX_TENANTS_def)

text \<open>
  C10 (the tools of the experiments). Started on an existing table, each tool exits with the code
  and leaves the table of the abstract operation it stands for: creation and quota update with the
  quota of its arguments, where the limits of completion queues and protection domains are whatever
  the uninitialised fields held; deletion, which exits with 0 also when it failed; the reset of the
  usage; and nothing for the two that only look.
\<close>

theorem tools_effect:
  assumes "\<forall>i. attach_env (env i)" "tenant_safe d" "tenant_version d \<noteq> 0"
  shows "\<exists>out s'. run_tool env junk t (tool_start d) = (fst (tool_effect junk t (tenant_abs d)), out, s')
    \<and> tenant_state_abs s' = snd (tool_effect junk t (tenant_abs d))"
proof -
  let ?T = "tenant_abs d"
  obtain s where i: "tenant_shm_init (env 0) (tool_start d) = (0, s)" and s: "tenant_attached s" "tenant_state_abs s = ?T"
    using tool_attaches assms by blast
  show ?thesis
  proof (cases t)
    case (CreateTenant args)
    let ?q = "\<lparr>max_qp_per_tenant = atoi (args ! 1), max_mr_per_tenant = atoi (args ! 2),
      max_memory_per_tenant = strtoull (args ! 3), max_cq_per_tenant = fst junk, max_pd_per_tenant = snd junk\<rparr>"
    let ?id = "atoi (args ! 0)" and ?name = "if length args > 4 then args ! 4 else ''TestTenant''"
    obtain s1 where c: "tenant_create (env 1) ?id (Some ?name) (Some ?q) s = (fst (spec_create ?id (Some ?q) ?T), s1)"
      "tenant_attached s1" "tenant_state_abs s1 = snd (spec_create ?id (Some ?q) ?T)"
      using mutate [OF s, of "TenantCreate (env 1) ?id (Some ?name) (Some ?q)"] by auto
    obtain info s2 where g: "tenant_get_info (env 2) ?id True s1
        = ((if members (snd (spec_create ?id (Some ?q) ?T)) ?id = None then -1 else 0, info), s2)"
      "tenant_state_abs s2 = snd (spec_create ?id (Some ?q) ?T)"
      using read_info [OF c(2,3), of "env 2" ?id] by metis
    show ?thesis
    proof (cases "length args < 4")
      case True
      then show ?thesis by (simp add: CreateTenant create_tenant_main_def tool_start_def tenant_state_abs_def)
    next
      case False
      with i c(1) g show ?thesis
        by (auto simp: CreateTenant create_tenant_main_def exit_of_def c(3) Let_def split: option.splits bool.splits)
    qed
  next
    case (UpdateTenant args)
    let ?q = "\<lparr>max_qp_per_tenant = atoi (args ! 1), max_mr_per_tenant = atoi (args ! 2),
      max_memory_per_tenant = atoll (args ! 3), max_cq_per_tenant = fst junk, max_pd_per_tenant = snd junk\<rparr>"
    let ?id = "atoi (args ! 0)"
    obtain info s1 where g: "tenant_get_info (env 1) ?id True s = ((if members ?T ?id = None then -1 else 0, info), s1)"
      "tenant_attached s1" "tenant_state_abs s1 = ?T"
      using read_info [OF s, of "env 1" ?id] by metis
    obtain s2 where u: "tenant_update_quota (env 2) ?id (Some ?q) s1 = (fst (spec_update_quota ?id (Some ?q) ?T), s2)"
      "tenant_state_abs s2 = snd (spec_update_quota ?id (Some ?q) ?T)"
      using mutate [OF g(2,3), of "TenantUpdateQuota (env 2) ?id (Some ?q)"] by auto
    show ?thesis
    proof (cases "length args < 4")
      case True
      then show ?thesis by (simp add: UpdateTenant update_tenant_main_def tool_start_def tenant_state_abs_def)
    next
      case False
      with i g u show ?thesis
        by (auto simp: UpdateTenant update_tenant_main_def exit_of_def spec_update_quota_def Let_def split: option.splits)
    qed
  next
    case DeleteTenant50
    obtain s1 where "tenant_delete (env 1) 50 s = (fst (spec_delete 50 ?T), s1)" "tenant_state_abs s1 = snd (spec_delete 50 ?T)"
      using mutate [OF s, of "TenantDelete (env 1) 50"] by auto
    with i show ?thesis by (simp add: DeleteTenant50 delete_tenant50_main_def)
  next
    case CheckTenant50
    obtain info s1 where "tenant_get_info (env 1) 50 True s = ((if members ?T 50 = None then -1 else 0, info), s1)"
      "tenant_state_abs s1 = ?T"
      using read_info [OF s, of "env 1" 50] by metis
    with i show ?thesis by (auto simp: CheckTenant50 check_tenant50_main_def split: option.splits bool.splits)
  next
    case ResetTenant50
    obtain info s1 where g: "tenant_get_info (env 1) 50 True s = ((if members ?T 50 = None then -1 else 0, info), s1)"
      "tenant_attached s1" "tenant_state_abs s1 = ?T"
      using read_info [OF s, of "env 1" 50] by metis
    let ?E = "spec_update_usage 50 (Some zero_tenant_usage) ?T"
    obtain s2 where u: "tenant_update_resource_usage (env 2) 50 (Some zero_tenant_usage) s1 = (fst ?E, s2)"
      "tenant_attached s2" "tenant_state_abs s2 = snd ?E"
      using mutate [OF g(2,3), of "TenantUpdateUsage (env 2) 50 (Some zero_tenant_usage)"] by auto
    obtain info' s3 where "tenant_get_info (env 3) 50 True s2 = ((if members (snd ?E) 50 = None then -1 else 0, info'), s3)"
      "tenant_state_abs s3 = snd ?E"
      using read_info [OF u(2,3), of "env 3" 50] by metis
    with i g u show ?thesis
      by (auto simp: ResetTenant50 reset_tenant50_main_def exit_of_def spec_update_usage_def split: option.splits if_splits)
  next
    case CheckTenants
    with i check_rows_same [OF s(1), of env 1 "[1, 100, 200, 300, 400]"] s(2) show ?thesis
      by (simp add: check_tenants_main_def split_beta)
  qed
qed

theorem tools_effect_witness:
  "\<exists>out s'. run_tool (\<lambda>_. ok_tenant_env) (3, 4) (CreateTenant [''5'', ''10'', ''20'', ''4096''])
      (tool_start (zero_tenant_data\<lparr>tenant_version := 1\<rparr>)) = (0, out, s')
    \<and> members (tenant_state_abs s') 5 = Some (TENANT_STATUS_ACTIVE,
        \<lparr>max_qp_per_tenant = 10, max_mr_per_tenant = 20, max_memory_per_tenant = 4096,
         max_cq_per_tenant = 3, max_pd_per_tenant = 4\<rparr>, zero_tenant_usage)"
proof -
  let ?d = "zero_tenant_data\<lparr>tenant_version := 1\<rparr>"
  have n: "atoi ''5'' = 5" "atoi ''10'' = 10" "atoi ''20'' = 20" "strtoull ''4096'' = 4096"
    by (simp_all add: atoi_def strtoull_def strtol_def signed_prefix_def skip_space_def leading_digits_def is_space_def
        is_digit_def digits_value_def digit_value_def)
  have d: "tenant_safe ?d" "tenant_version ?d \<noteq> 0" "tenant_abs ?d = empty_table"
    using tenant_safe_zero [where v = 1 and t = 0] zero_abs [where v = 1 and t = 0] by (simp_all add: zero_tenant_data_def)
  have "\<forall>i::nat. attach_env ok_tenant_env" by (simp add: attach_env_def ok_tenant_env_def)
  from tools_effect [where env = "\<lambda>_. ok_tenant_env", OF this d(1,2), of "(3, 4)" "CreateTenant [''5'', ''10'', ''20'', ''4096'']"]
  show ?thesis by (auto simp: n d(3) exit_of_def spec_create_def empty_table_def MAX_TENANTS_def)
qed

end
