(* ===== verification/Exp_Stats.thy ===== *)
theory Exp_Stats
  imports C_Double "HOL-Library.Multiset"
begin

text \<open>
  The statistics of the cache experiment (\<open>calculate_stats\<close> in
  \<open>experiments/exp4_cache/src/exp4_cache.c\<close>): the latencies are sorted by exchanging, the
  percentiles are read off, and average and standard deviation are computed in double precision.
\<close>

section \<open>Square root\<close>

text \<open>
  The correctly rounded root of \<open>math.h\<close>. \<open>root_ulp\<close> finds the distance of doubles at
  the root; \<open>root_digits\<close> the largest multiple of it whose square does not exceed \<open>x\<close>.
\<close>

fun root_ulp :: "nat \<Rightarrow> rat \<Rightarrow> rat \<Rightarrow> rat" where
  "root_ulp 0 x u = u"
| "root_ulp (Suc n) x u =
     (if x \<ge> (9007199254740992 * u)\<^sup>2 then root_ulp n x (2 * u)
      else if x < (4503599627370496 * u)\<^sup>2 then root_ulp n x (u / 2)
      else u)"

fun root_digits :: "nat \<Rightarrow> rat \<Rightarrow> nat \<Rightarrow> nat" where
  "root_digits 0 y m = m"
| "root_digits (Suc b) y m = root_digits b y (if of_nat ((m + 2 ^ b)\<^sup>2) \<le> y then m + 2 ^ b else m)"

definition sqrt_double :: "rat \<Rightarrow> rat" where
  "sqrt_double x =
     (if x = 0 then 0
      else let u = root_ulp 256 x 1; m = root_digits 54 (x / u\<^sup>2) 0
           in if (of_nat m + 1 / 2)\<^sup>2 \<le> x / u\<^sup>2 then of_nat (m + 1) * u else of_nat m * u)"

lemma root_digits_bounds:
  "of_nat (m\<^sup>2) \<le> y \<Longrightarrow> y < of_nat ((m + 2 ^ b)\<^sup>2) \<Longrightarrow>
   of_nat ((root_digits b y m)\<^sup>2) \<le> y \<and> y < of_nat ((root_digits b y m + 1)\<^sup>2)"
proof (induction b arbitrary: m)
  case (Suc b)
  have "m + 2 ^ Suc b = m + 2 ^ b + 2 ^ b" by simp
  with Suc show ?case by (auto simp: not_le add.assoc)
qed simp

section \<open>The sort\<close>

definition exchange_step :: "nat \<Rightarrow> nat \<Rightarrow> u64 list \<Rightarrow> u64 list" where
  "exchange_step i j xs = (if xs ! i > xs ! j then xs[i := xs ! j, j := xs ! i] else xs)"

definition exchange_row :: "nat \<Rightarrow> u64 list \<Rightarrow> u64 list" where
  "exchange_row i xs = fold (exchange_step i) [i + 1..<length xs] xs"

definition exchange_sort :: "u64 list \<Rightarrow> u64 list" where
  "exchange_sort xs = fold exchange_row [0..<length xs - 1] xs"

text \<open>A row brings the least of the remaining elements to its place.\<close>

lemma exchange_step_facts:
  assumes "i < j" "j < length xs"
  shows "length (exchange_step i j xs) = length xs" "mset (exchange_step i j xs) = mset xs"
    "exchange_step i j xs ! i = min (xs ! i) (xs ! j)" "k \<noteq> i \<Longrightarrow> k \<noteq> j \<Longrightarrow> exchange_step i j xs ! k = xs ! k"
    "exchange_step i j xs ! j = max (xs ! i) (xs ! j)"
  using assms by (auto simp: exchange_step_def mset_swap min_def max_def)

lemma row_prefix:
  assumes i: "i < m" "m \<le> length xs"
  defines "ys \<equiv> fold (exchange_step i) [i + 1..<m] xs"
  shows "length ys = length xs \<and> mset ys = mset xs \<and> (\<forall>k. k < i \<or> m \<le> k \<longrightarrow> ys ! k = xs ! k)
    \<and> (\<forall>k. i \<le> k \<and> k < m \<longrightarrow> ys ! i \<le> ys ! k)"
  using i unfolding ys_def
proof (induction m)
  case (Suc m)
  show ?case
  proof (cases "i = m")
    case False
    let ?y = "fold (exchange_step i) [i + 1..<m] xs"
    have IH: "length ?y = length xs" "mset ?y = mset xs" "\<And>k. k < i \<or> m \<le> k \<Longrightarrow> ?y ! k = xs ! k"
        "\<And>k. i \<le> k \<Longrightarrow> k < m \<Longrightarrow> ?y ! i \<le> ?y ! k"
      using Suc.IH Suc.prems False by auto
    have im: "i < m" "m < length ?y" using Suc.prems False IH(1) by auto
    note e = exchange_step_facts [OF im]
    have "fold (exchange_step i) [i + 1..<Suc m] xs = exchange_step i m ?y" using im(1) by simp
    moreover have "exchange_step i m ?y ! i \<le> exchange_step i m ?y ! k" if "i \<le> k" "k < Suc m" for k
      using that IH(4) [of k] e(3,5) e(4) [of k] by (cases "k = i"; cases "k = m") (auto simp: min_le_iff_disj)
    moreover have "exchange_step i m ?y ! k = xs ! k" if "k < i \<or> Suc m \<le> k" for k
      using that im(1) e(4) [of k] IH(3) [of k] by auto
    ultimately show ?thesis using e(1,2) IH(1,2) by simp
  qed (auto simp: le_less_Suc_eq)
qed simp

lemma exchange_row_facts:
  assumes "i < length xs"
  shows "length (exchange_row i xs) = length xs" "mset (exchange_row i xs) = mset xs"
    "k < i \<Longrightarrow> exchange_row i xs ! k = xs ! k"
    "i \<le> k \<Longrightarrow> k < length xs \<Longrightarrow> exchange_row i xs ! i \<le> exchange_row i xs ! k"
  using row_prefix [of i "length xs" xs] assms by (auto simp: exchange_row_def)

lemma in_drop_iff: "x \<in> set (drop i xs) \<longleftrightarrow> (\<exists>l\<ge>i. l < length xs \<and> x = xs ! l)"
proof -
  have "x \<in> set (drop i xs) \<longleftrightarrow> (\<exists>n. n < length xs - i \<and> x = xs ! (i + n))"
    by (auto simp: in_set_conv_nth)
  also have "\<dots> \<longleftrightarrow> (\<exists>l\<ge>i. l < length xs \<and> x = xs ! l)"
    by (metis add.commute le_add1 le_add_diff_inverse less_diff_conv)
  finally show ?thesis .
qed

lemma row_set_from:
  assumes "i < length xs" "i \<le> k" "k < length xs"
  shows "\<exists>l\<ge>i. l < length xs \<and> exchange_row i xs ! k = xs ! l"
proof -
  note r = exchange_row_facts [OF assms(1)]
  have "take i (exchange_row i xs) = take i xs" using r(1,3) by (intro nth_equalityI) auto
  moreover have "mset (take i (exchange_row i xs)) + mset (drop i (exchange_row i xs)) = mset (take i xs) + mset (drop i xs)"
    using r(2) by (metis append_take_drop_id mset_append)
  ultimately have "set (drop i (exchange_row i xs)) = set (drop i xs)" by (metis add_left_cancel set_mset_mset)
  moreover have "exchange_row i xs ! k \<in> set (drop i (exchange_row i xs))"
    using assms r(1) by (auto simp: in_drop_iff)
  ultimately show ?thesis by (auto simp: in_drop_iff)
qed

lemma rows_sorted:
  assumes "m \<le> length xs"
  defines "ys \<equiv> fold exchange_row [0..<m] xs"
  shows "length ys = length xs \<and> mset ys = mset xs \<and> (\<forall>i k. i < m \<and> i \<le> k \<and> k < length xs \<longrightarrow> ys ! i \<le> ys ! k)"
  using assms(1) unfolding ys_def
proof (induction m)
  case (Suc m)
  let ?y = "fold exchange_row [0..<m] xs"
  have IH: "length ?y = length xs" "mset ?y = mset xs" "\<And>i k. i < m \<Longrightarrow> i \<le> k \<Longrightarrow> k < length xs \<Longrightarrow> ?y ! i \<le> ?y ! k"
    using Suc.IH Suc.prems by auto
  have m: "m < length ?y" using Suc.prems IH(1) by simp
  note r = exchange_row_facts [OF m]
  have "exchange_row m ?y ! i \<le> exchange_row m ?y ! k" if i: "i < Suc m" "i \<le> k" "k < length xs" for i k
  proof (cases "i = m")
    case False
    then have im: "i < m" using i by simp
    show ?thesis
    proof (cases "k < m")
      case False
      then obtain l where "m \<le> l" "l < length ?y" "exchange_row m ?y ! k = ?y ! l"
        using row_set_from [OF m, of k] i IH(1) by auto
      with im IH(1,3) r(3) [OF im] show ?thesis by simp
    qed (use im i IH r(3) in simp)
  qed (use i r(4) IH(1) in simp)
  with r(1,2) IH(1,2) show ?case by simp
qed simp

lemma exchange_sort_sort: "exchange_sort xs = sort xs"
proof -
  have r: "length (exchange_sort xs) = length xs" "mset (exchange_sort xs) = mset xs"
    "\<And>i k. i < length xs - 1 \<Longrightarrow> i \<le> k \<Longrightarrow> k < length xs \<Longrightarrow> exchange_sort xs ! i \<le> exchange_sort xs ! k"
    using rows_sorted [of "length xs - 1" xs] by (auto simp: exchange_sort_def)
  have "sorted (exchange_sort xs)" unfolding sorted_iff_nth_Suc
    using r(1,3) by simp
  with r(2) show ?thesis by (metis properties_for_sort)
qed

section \<open>The statistics\<close>

record latency_summary =
  ls_avg :: rat
  ls_min :: rat
  ls_max :: rat
  ls_p50 :: rat
  ls_p99 :: rat
  ls_std :: rat

definition double_of_u64 :: "u64 \<Rightarrow> rat" where "double_of_u64 x = round_double (of_nat (unat x))"

fun sum_latencies :: "rat \<Rightarrow> u64 list \<Rightarrow> rat" where
  "sum_latencies acc [] = acc"
| "sum_latencies acc (x # xs) = sum_latencies (double_add acc (double_of_u64 x)) xs"

fun sum_squares :: "rat \<Rightarrow> rat \<Rightarrow> u64 list \<Rightarrow> rat" where
  "sum_squares avg acc [] = acc"
| "sum_squares avg acc (x # xs) =
     (let diff = double_sub (double_of_u64 x) avg
      in sum_squares avg (double_add acc (double_mul diff diff)) xs)"

text \<open>
  \<^const>\<open>None\<close>: the count is not positive and nothing is written. The products \<open>count * 50\<close>
  and \<open>count * 99\<close> are of type \<open>int\<close> in the code; they leave its range from 21691755 samples
  on, of which every caller passes at most 100000.
\<close>

definition calculate_stats :: "u64 list \<Rightarrow> latency_summary option" where
  "calculate_stats latencies =
     (let count = length latencies
      in if count = 0 then None
         else
           let xs = exchange_sort latencies;
               avg = double_div (sum_latencies 0 xs) (of_nat count)
           in Some \<lparr>ls_avg = avg, ls_min = double_of_u64 (xs ! 0), ls_max = double_of_u64 (xs ! (count - 1)),
                     ls_p50 = double_of_u64 (xs ! (count * 50 div 100)),
                     ls_p99 = double_of_u64 (xs ! (count * 99 div 100)),
                     ls_std = sqrt_double (double_div (sum_squares avg 0 xs) (of_nat count))\<rparr>)"

lemma round_double_nat: "n < 9007199254740992 \<Longrightarrow> round_double (of_nat n) = of_nat n"
  using round_double_int [of "int n"] by simp

lemma sum_latencies_exact:
  "a + sum_list (map unat xs) < 9007199254740992 \<Longrightarrow>
   sum_latencies (of_nat a) xs = of_nat (a + sum_list (map unat xs))"
proof (induction xs arbitrary: a)
  case (Cons x xs)
  have "double_of_u64 x = of_nat (unat x)"
    unfolding double_of_u64_def by (rule round_double_nat) (use Cons.prems in simp)
  moreover have "round_double (of_nat (a + unat x)) = of_nat (a + unat x)"
    by (rule round_double_nat) (use Cons.prems in simp)
  ultimately have "double_add (of_nat a) (double_of_u64 x) = of_nat (a + unat x)"
    by (simp only: double_add_def of_nat_add)
  with Cons.IH [of "a + unat x"] Cons.prems show ?case by (simp add: add.assoc)
qed simp

lemma sort_ends:
  fixes xs :: "u64 list"
  assumes "xs \<noteq> []"
  shows "sort xs ! 0 = Min (set xs)" "sort xs ! (length xs - 1) = Max (set xs)"
proof -
  define ys where "ys = sort xs"
  have ys: "sorted ys" "set ys = set xs" "length ys = length xs" unfolding ys_def by simp_all
  have ne: "ys \<noteq> []" using ys(3) assms by auto
  have le: "hd ys \<le> y \<and> y \<le> last ys" if "y \<in> set ys" for y
    using that ys(1) by (induction ys) (auto simp: last_ConsR split: if_splits)
  have "hd ys = Min (set ys)" "last ys = Max (set ys)"
    using le ne by (auto intro!: Min_eqI [symmetric] Max_eqI [symmetric])
  then show "sort xs ! 0 = Min (set xs)" "sort xs ! (length xs - 1) = Max (set xs)"
    using ys ne by (simp_all add: hd_conv_nth last_conv_nth flip: ys_def)
qed

text \<open>
  C7 (the latency statistics). The statistics the experiment reports are the textbook ones:
  the quadratic exchange loop computes the sorted list of the samples, so minimum, maximum and
  percentiles are its order statistics, and the average is the exact sum, rounded once, over the
  number of samples, as long as the sum is below \<open>2 ^ 53\<close> nanoseconds.
\<close>

theorem calculate_stats_exact:
  assumes "xs \<noteq> []" "sum_list (map unat xs) < 9007199254740992"
  defines "n \<equiv> length xs"
  shows "calculate_stats xs = Some
    \<lparr>ls_avg = double_div (of_nat (sum_list (map unat xs))) (of_nat n),
     ls_min = double_of_u64 (Min (set xs)), ls_max = double_of_u64 (Max (set xs)),
     ls_p50 = double_of_u64 (sort xs ! (n * 50 div 100)), ls_p99 = double_of_u64 (sort xs ! (n * 99 div 100)),
     ls_std = sqrt_double (double_div (sum_squares (double_div (of_nat (sum_list (map unat xs))) (of_nat n)) 0 (sort xs)) (of_nat n))\<rparr>"
proof -
  have "mset (map unat (sort xs)) = mset (map unat xs)" by simp
  then have "sum_list (map unat (sort xs)) = sum_list (map unat xs)" by (metis sum_mset_sum_list)
  then have "sum_latencies 0 (sort xs) = of_nat (sum_list (map unat xs))"
    using sum_latencies_exact [of 0 "sort xs"] assms(2) by simp
  then show ?thesis using sort_ends [OF assms(1)] assms(1)
    by (simp add: calculate_stats_def exchange_sort_sort n_def Let_def)
qed

theorem calculate_stats_exact_witness:
  "map_option (\<lambda>s. (ls_avg s, ls_min s, ls_max s, ls_p50 s)) (calculate_stats [30, 10, 20]) = Some (20, 10, 30, 20)"
proof -
  have i: "double_div 60 3 = 20" "round_double 10 = 10" "round_double 20 = 20" "round_double 30 = 30"
    using round_double_int [of 20] round_double_int [of 10] round_double_int [of 30] by (simp_all add: double_div_def)
  show ?thesis using i by (simp add: calculate_stats_exact [of "[30, 10, 20]"] double_of_u64_def)
qed

end
