(* ===== verification/Exp_Cache.thy ===== *)
theory Exp_Cache
  imports Perf_Spec Exp_Stats
begin

text \<open>
  The cache experiment (\<open>experiments/exp4_cache/src/exp4_cache.c\<close>) over the performance
  optimiser: the three tests, the printed results and the program. Clocks, random numbers, the
  answers of the operating system and the uninitialised bytes of a local variable are arguments.
  The flush thread that the optimiser starts may make a turn before any operation (\<open>xe_turn\<close>:
  its counter and clock when it does).
\<close>

section \<open>State of a run\<close>

definition NUM_WARMUP_OPS :: nat where "NUM_WARMUP_OPS = 1000"
definition NUM_MEASURE_OPS :: nat where "NUM_MEASURE_OPS = 100000"

record cache_config =
  xc_test_type :: i32
  xc_workload_type :: i32
  xc_num_processes :: i32
  xc_use_cache :: i32
  xc_enable_adaptive :: i32
  xc_ttl_ms :: u32
  xc_output_file :: string

record cache_result =
  xr_hit_rate :: rat
  xr_latency :: latency_summary
  xr_total_ops :: u64
  xr_duration_sec :: rat

record cache_exp_env =
  xe_shm_init :: shm_env
  xe_init :: perf_env
  xe_reset :: "nat \<Rightarrow> perf_env"
  xe_warm :: "nat \<Rightarrow> perf_env"
  xe_pre :: "nat \<Rightarrow> perf_env"
  xe_get :: "nat \<Rightarrow> perf_env"
  xe_put :: "nat \<Rightarrow> perf_env"
  xe_cleanup :: perf_env
  xe_turn :: "nat \<Rightarrow> (nat \<times> perf_env) option"
  xe_rand :: "nat \<Rightarrow> nat"
  xe_junk :: "nat \<Rightarrow> u64"
  xe_malloc :: bool
  xe_clock :: "nat \<Rightarrow> u64"

definition thread_turn :: "cache_exp_env \<Rightarrow> nat \<Rightarrow> perf_state \<Rightarrow> perf_state" where
  "thread_turn env i s = (case xe_turn env i of None \<Rightarrow> s | Some (n, e) \<Rightarrow> snd (flush_thread_turn e n s))"

text \<open>The two quotients of \<open>perf_optimizer_get_stats\<close> as doubles.\<close>

definition stats_hit_rate :: "perf_state \<Rightarrow> rat" where
  "stats_hit_rate s = (case fst (snd (perf_optimizer_get_stats s)) of
     None \<Rightarrow> 0
   | Some (hits, looks) \<Rightarrow> double_mul (double_div (double_of_u64 hits) (double_of_u64 looks)) 100)"

definition stats_avg_latency :: "perf_state \<Rightarrow> rat" where
  "stats_avg_latency s = (case snd (snd (perf_optimizer_get_stats s)) of
     None \<Rightarrow> 0
   | Some (latency, ops) \<Rightarrow> double_div (double_of_u64 latency) (double_of_u64 ops))"

section \<open>Hit rate\<close>

text \<open>\<open>i % n\<close> for \<open>i\<close> not negative.\<close>

definition c_rem :: "nat \<Rightarrow> i32 \<Rightarrow> nat" where "c_rem i n = i mod nat \<bar>sint n\<bar>"

definition warm_step :: "cache_exp_env \<Rightarrow> cache_config \<Rightarrow> nat \<Rightarrow> perf_state \<Rightarrow> perf_state" where
  "warm_step env c i s =
     (let s = thread_turn env i s;
          pid = 1000 + of_nat (c_rem i (xc_num_processes c));
          usage = \<lparr>qp_count = of_nat (i mod 100), mr_count = of_nat (i mod 50),
                   memory_used = of_nat (i mod 1000) * 1024 * 1024\<rparr>;
          s = s\<lparr>perf_shm := snd (shm_update_process_resources (pe_shm (xe_warm env i) 0) pid (Some usage) (perf_shm s))\<rparr>
      in perf_optimizer_update_cached_resources (xe_warm env i) pid (Some usage) s)"

definition workload_pid :: "cache_exp_env \<Rightarrow> cache_config \<Rightarrow> nat \<Rightarrow> pid_t" where
  "workload_pid env c i =
     (let n = xc_num_processes c; w = xc_workload_type c
      in 1000 + of_nat (if w = 0 then c_rem (i div 1000) n
                        else if w = 1 then c_rem (xe_rand env i) n
                        else if w = 2 then c_rem (i div 100) n
                        else c_rem i n))"

definition measure_step :: "cache_exp_env \<Rightarrow> cache_config \<Rightarrow> nat \<Rightarrow> perf_state \<Rightarrow> perf_state" where
  "measure_step env c i s =
     (let s = thread_turn env (NUM_WARMUP_OPS + i) s;
          pid = workload_pid env c i;
          (cached, s) = perf_optimizer_get_cached_resources (xe_get env i) pid True s
      in case cached of
           Some u \<Rightarrow> s
         | None \<Rightarrow>
             (case shm_get_process_resources pid True (perf_shm s) of
                (rc, usage) \<Rightarrow> if rc = 0 then perf_optimizer_update_cached_resources (xe_put env i) pid usage s else s))"

text \<open>\<^const>\<open>None\<close>: the remainder by zero of the first iteration kills the program.\<close>

definition test_hit_rate :: "cache_exp_env \<Rightarrow> cache_config \<Rightarrow> cache_result \<Rightarrow> perf_state \<Rightarrow> (cache_result \<times> perf_state) option"
  where
  "test_hit_rate env c r s =
     (let s = snd (perf_optimizer_init (xe_init env) s);
          s = perf_optimizer_enable_cache True s;
          s = perf_optimizer_set_cache_ttl (xc_ttl_ms c) s;
          s = perf_optimizer_reset_stats (xe_reset env 0) s
      in if xc_num_processes c = 0 then None
         else
           let s = fold (warm_step env c) [0..<NUM_WARMUP_OPS] s;
               s = perf_optimizer_reset_stats (xe_reset env 1) s;
               s = fold (measure_step env c) [0..<NUM_MEASURE_OPS] s;
               r = r\<lparr>xr_hit_rate := stats_hit_rate s, xr_total_ops := of_nat NUM_MEASURE_OPS,
                     xr_duration_sec := double_div (double_of_u64 (xe_clock env 1 - xe_clock env 0)) 1000000000,
                     xr_latency := (xr_latency r)\<lparr>ls_avg := stats_avg_latency s\<rparr>\<rparr>
           in Some (r, perf_optimizer_cleanup (xe_cleanup env) s))"

section \<open>Latency\<close>

definition latency_pid :: "nat \<Rightarrow> pid_t" where "latency_pid i = 2000 + of_nat (i mod 256)"

definition prepare_step :: "cache_exp_env \<Rightarrow> bool \<Rightarrow> nat \<Rightarrow> perf_state \<Rightarrow> perf_state" where
  "prepare_step env use_cache i s =
     (let s = thread_turn env i s;
          pid = 2000 + of_nat i;
          usage = \<lparr>qp_count = of_nat (i mod 50), mr_count = of_nat (i mod 20), memory_used = of_nat (i mod 100) * 1024 * 1024\<rparr>;
          s = s\<lparr>perf_shm := snd (shm_update_process_resources (pe_shm (xe_warm env i) 0) pid (Some usage) (perf_shm s))\<rparr>
      in if use_cache then perf_optimizer_update_cached_resources (xe_warm env i) pid (Some usage) s else s)"

text \<open>One read of a process; the usage it yields is discarded.\<close>

definition latency_read :: "perf_env \<Rightarrow> bool \<Rightarrow> pid_t \<Rightarrow> perf_state \<Rightarrow> resource_usage option \<times> perf_state" where
  "latency_read e use_cache pid s =
     (if use_cache then
        case perf_optimizer_get_cached_resources e pid True s of
          (Some u, s) \<Rightarrow> (Some u, s)
        | (None, s) \<Rightarrow> (snd (shm_get_process_resources pid True (perf_shm s)), s)
      else (snd (shm_get_process_resources pid True (perf_shm s)), s))"

definition test_latency :: "cache_exp_env \<Rightarrow> cache_config \<Rightarrow> cache_result \<Rightarrow> perf_state \<Rightarrow> cache_result \<times> perf_state" where
  "test_latency env c r s =
     (let use_cache = (xc_use_cache c \<noteq> 0);
          (rc, m) = shm_init (xe_shm_init env) (perf_shm s);
          s = s\<lparr>perf_shm := m\<rparr>
      in if rc \<noteq> 0 then (r, s)
         else
           let s = (if use_cache
                    then perf_optimizer_set_cache_ttl (xc_ttl_ms c)
                           (perf_optimizer_enable_cache True (snd (perf_optimizer_init (xe_init env) s)))
                    else s);
               s = fold (prepare_step env use_cache) [0..<256] s;
               s = fold (\<lambda>i s. snd (latency_read (xe_pre env i) use_cache (latency_pid i) (thread_turn env (256 + i) s)))
                     [0..<NUM_WARMUP_OPS] s
           in if \<not> xe_malloc env then (r, s)
              else
                let s = fold (\<lambda>i s. snd (latency_read (xe_get env i) use_cache (latency_pid i)
                                            (thread_turn env (256 + NUM_WARMUP_OPS + i) s))) [0..<NUM_MEASURE_OPS] s;
                    latencies = map (\<lambda>i. xe_clock env (2 * i + 1) - xe_clock env (2 * i)) [0..<NUM_MEASURE_OPS];
                    r = (case calculate_stats latencies of None \<Rightarrow> r | Some l \<Rightarrow> r\<lparr>xr_latency := l\<rparr>);
                    r = r\<lparr>xr_total_ops := of_nat NUM_MEASURE_OPS, xr_hit_rate := (if use_cache then 100 else 0)\<rparr>
                in (r, if use_cache then perf_optimizer_cleanup (xe_cleanup env) s else s))"

section \<open>Adaptive time to live\<close>

definition adaptive_pid :: "cache_exp_env \<Rightarrow> nat \<Rightarrow> nat \<Rightarrow> pid_t" where
  "adaptive_pid env rd i =
     (let local_batch = 100 + rd * 10
      in if i mod local_batch < 80 then 3000 + of_nat (i mod 10)
         else 3000 + 10 + of_nat (xe_rand env (rd * 10000 + i) mod 50))"

text \<open>After a miss the field \<open>memory_used\<close> of the local variable is written to table and
  cache without ever having been set.\<close>

definition adaptive_op :: "cache_exp_env \<Rightarrow> nat \<Rightarrow> nat \<Rightarrow> perf_state \<Rightarrow> perf_state" where
  "adaptive_op env rd i s =
     (let k = rd * 10000 + i; s = thread_turn env k s; pid = adaptive_pid env rd i;
          (cached, s) = perf_optimizer_get_cached_resources (xe_get env k) pid True s
      in case cached of
           Some u \<Rightarrow> s
         | None \<Rightarrow>
             let usage = \<lparr>qp_count = pid mod 50, mr_count = pid mod 20, memory_used = xe_junk env k\<rparr>;
                 s = s\<lparr>perf_shm := snd (shm_update_process_resources (pe_shm (xe_put env k) 0) pid (Some usage) (perf_shm s))\<rparr>
             in perf_optimizer_update_cached_resources (xe_put env k) pid (Some usage) s)"

text \<open>One round: its hit rate and the state; the times to live it notes down are not used.\<close>

definition adaptive_round :: "cache_exp_env \<Rightarrow> (perf_state \<Rightarrow> perf_state) \<Rightarrow> nat \<Rightarrow> perf_state \<Rightarrow> rat \<times> perf_state" where
  "adaptive_round env change rd s =
     (let s = perf_optimizer_reset_stats (xe_reset env rd) s;
          s = fold (adaptive_op env rd) [0..<10000] s
      in (stats_hit_rate s, change s))"

fun adaptive_rounds ::
    "cache_exp_env \<Rightarrow> (perf_state \<Rightarrow> perf_state) \<Rightarrow> nat list \<Rightarrow> perf_state \<Rightarrow> rat list \<times> perf_state" where
  "adaptive_rounds env change [] s = ([], s)"
| "adaptive_rounds env change (k # ks) s =
     (let (rate, s) = adaptive_round env change k s; (rates, s) = adaptive_rounds env change ks s
      in (rate # rates, s))"

definition ttl_change :: "cache_config \<Rightarrow> perf_state \<Rightarrow> perf_state" where
  "ttl_change c s =
     (if xc_enable_adaptive c = 0 then s else perf_optimizer_set_cache_ttl 0 (perf_optimizer_adaptive_adjust s))"

definition test_adaptive_ttl :: "cache_exp_env \<Rightarrow> cache_config \<Rightarrow> cache_result \<Rightarrow> perf_state \<Rightarrow> cache_result \<times> perf_state" where
  "test_adaptive_ttl env c r s =
     (let s = snd (perf_optimizer_init (xe_init env) s);
          s = perf_optimizer_enable_cache True s;
          s = perf_optimizer_set_cache_ttl 50 s;
          (rates, s) = adaptive_rounds env (ttl_change c) [0..<20] s
      in (r\<lparr>xr_hit_rate := double_div (foldl double_add 0 rates) 20, xr_total_ops := 200000\<rparr>,
          perf_optimizer_cleanup (xe_cleanup env) s))"

section \<open>Results\<close>

definition csv_text :: "cache_config \<Rightarrow> cache_result \<Rightarrow> string" where
  "csv_text c r =
     (let l = xr_latency r; int_text = (\<lambda>n :: i32. sdec (sint n))
      in ''test_type,workload_type,use_cache,adaptive_ttl,num_processes,ttl_ms,'' @ newline
         @ int_text (xc_test_type c) @ '','' @ int_text (xc_workload_type c) @ '','' @ int_text (xc_use_cache c) @ '',''
         @ int_text (xc_enable_adaptive c) @ '','' @ int_text (xc_num_processes c) @ '','' @ dec (unat (xc_ttl_ms c)) @ '','' @ newline
         @ newline
         @ ''metric,value,unit'' @ newline
         @ ''hit_rate,'' @ fixed_text 4 (xr_hit_rate r) @ '',%'' @ newline
         @ ''avg_latency_ns,'' @ fixed_text 2 (ls_avg l) @ '',ns'' @ newline
         @ ''min_latency_ns,'' @ fixed_text 2 (ls_min l) @ '',ns'' @ newline
         @ ''max_latency_ns,'' @ fixed_text 2 (ls_max l) @ '',ns'' @ newline
         @ ''p50_latency_ns,'' @ fixed_text 2 (ls_p50 l) @ '',ns'' @ newline
         @ ''p99_latency_ns,'' @ fixed_text 2 (ls_p99 l) @ '',ns'' @ newline
         @ ''std_dev_ns,'' @ fixed_text 2 (ls_std l) @ '',ns'' @ newline
         @ ''total_ops,'' @ dec (unat (xr_total_ops r)) @ '',ops'' @ newline
         @ ''duration_sec,'' @ fixed_text 6 (xr_duration_sec r) @ '',sec'' @ newline)"

text \<open>The file is written when it can be opened.\<close>

definition save_result_csv :: "bool \<Rightarrow> cache_config \<Rightarrow> cache_result \<Rightarrow> (string \<times> string) option" where
  "save_result_csv opened c r = (if opened then Some (xc_output_file c, csv_text c r) else None)"

definition summary_text :: "cache_result \<Rightarrow> string" where
  "summary_text r =
     (let l = xr_latency r
      in ''Hit Rate:        '' @ fixed_text 2 (xr_hit_rate r) @ ''%'' @ newline
         @ (if ls_avg l > 0 then
              ''Avg Latency:     '' @ fixed_text 2 (ls_avg l) @ '' ns'' @ newline
              @ ''Min Latency:     '' @ fixed_text 2 (ls_min l) @ '' ns'' @ newline
              @ ''Max Latency:     '' @ fixed_text 2 (ls_max l) @ '' ns'' @ newline
              @ ''P50 Latency:     '' @ fixed_text 2 (ls_p50 l) @ '' ns'' @ newline
              @ ''P99 Latency:     '' @ fixed_text 2 (ls_p99 l) @ '' ns'' @ newline
              @ ''Std Dev:         '' @ fixed_text 2 (ls_std l) @ '' ns'' @ newline
            else [])
         @ ''Total Ops:       '' @ dec (unat (xr_total_ops r)) @ newline
         @ ''Duration:        '' @ fixed_text 4 (xr_duration_sec r) @ '' sec'' @ newline)"

section \<open>The program\<close>

definition exp4_defaults :: cache_config where
  "exp4_defaults = \<lparr>xc_test_type = 0, xc_workload_type = 0, xc_num_processes = 10, xc_use_cache = 1,
     xc_enable_adaptive = 0, xc_ttl_ms = 100, xc_output_file = ''results/exp4_result.csv''\<rparr>"

fun exp4_options :: "(char \<times> string) list \<Rightarrow> cache_config \<Rightarrow> int + cache_config" where
  "exp4_options [] c = Inr c"
| "exp4_options ((o', optarg) # opts) c =
     (if o' = CHR ''t'' then exp4_options opts (c\<lparr>xc_test_type := atoi optarg\<rparr>)
      else if o' = CHR ''w'' then exp4_options opts (c\<lparr>xc_workload_type := atoi optarg\<rparr>)
      else if o' = CHR ''p'' then exp4_options opts (c\<lparr>xc_num_processes := atoi optarg\<rparr>)
      else if o' = CHR ''c'' then exp4_options opts (c\<lparr>xc_use_cache := atoi optarg\<rparr>)
      else if o' = CHR ''a'' then exp4_options opts (c\<lparr>xc_enable_adaptive := atoi optarg\<rparr>)
      else if o' = CHR ''l'' then exp4_options opts (c\<lparr>xc_ttl_ms := atoi optarg\<rparr>)
      else if o' = CHR ''o'' then exp4_options opts (c\<lparr>xc_output_file := optarg\<rparr>)
      else if o' = CHR ''h'' then Inl 0
      else Inl 1)"

definition zero_result :: cache_result where
  "zero_result = \<lparr>xr_hit_rate = 0,
     xr_latency = \<lparr>ls_avg = 0, ls_min = 0, ls_max = 0, ls_p50 = 0, ls_p99 = 0, ls_std = 0\<rparr>,
     xr_total_ops = 0, xr_duration_sec = 0\<rparr>"

text \<open>Exit code, the printed summary with the file written, and the state; \<^const>\<open>None\<close>
  when the program is killed.\<close>

definition exp4_main ::
    "cache_exp_env \<Rightarrow> bool \<Rightarrow> (char \<times> string) list \<Rightarrow> perf_state \<Rightarrow>
     (int \<times> (string \<times> (string \<times> string) option) option \<times> perf_state) option" where
  "exp4_main env opened opts s =
     (case exp4_options opts exp4_defaults of
        Inl code \<Rightarrow> Some (code, None, s)
      | Inr c \<Rightarrow>
          let finish = (\<lambda>(r, s). Some (0, Some (summary_text r, save_result_csv opened c r), s))
          in if xc_test_type c = 0
             then (case test_hit_rate env c zero_result s of None \<Rightarrow> None | Some rs \<Rightarrow> finish rs)
             else if xc_test_type c = 1 then finish (test_latency env c zero_result s)
             else if xc_test_type c = 2 then finish (test_adaptive_ttl env c zero_result s)
             else Some (1, None, s))"

end
