(* ===== verification/Exp_Cache_Spec.thy ===== *)
theory Exp_Cache_Spec
  imports Exp_Cache
begin

text \<open>
  What the cache experiment measures: with at most as many processes as the cache has buckets, and
  within the time to live, every look-up is a hit, and the adaptive test never measures an adapted
  time to live.
\<close>

section \<open>Distinct buckets\<close>

text \<open>The multiplier of the hash is odd: 81 is its inverse modulo 256.\<close>

lemma hash_pid_mod: "hash_pid p * 81 mod 256 = unat p mod 256"
proof -
  have "hash_pid p = unat p * 2654435761 mod 256"
    by (simp add: hash_pid_def CACHE_BUCKET_COUNT_def unat_word_ariths mod_mod_cancel)
  then have "hash_pid p * 81 mod 256 = unat p * (2654435761 * 81) mod 256" by (simp add: mod_mult_left_eq mult.assoc)
  also have "\<dots> = unat p * ((2654435761 * 81) mod 256) mod 256" by (simp only: mod_mult_right_eq)
  finally show ?thesis by simp
qed

lemma hash_neighbours:
  assumes "j < 256" "k < 256" "hash_pid (1000 + of_nat j) = hash_pid (1000 + of_nat k)"
  shows "j = k"
proof -
  have u: "unat (1000 + of_nat i :: pid_t) = 1000 + i" if "i < 256" for i
    using that by (simp add: unat_word_ariths unat_of_nat)
  have "unat (1000 + of_nat j :: pid_t) mod 256 = unat (1000 + of_nat k :: pid_t) mod 256"
    by (metis hash_pid_mod assms(3))
  then have "(1000 + j) mod 256 = (1000 + k) mod 256" by (simp only: u [OF assms(1)] u [OF assms(2)])
  moreover have "((1000 + i) mod 256 + 24) mod 256 = i" if "i < 256" for i :: nat
  proof -
    have "((1000 + i) mod 256 + 24) mod 256 = (i + 256 * 4) mod 256" by (simp only: mod_add_left_eq) (simp add: add.commute)
    also have "\<dots> = i mod 256" by (rule mod_mult_self2)
    finally show ?thesis using that by simp
  qed
  ultimately show ?thesis using assms(1,2) by metis
qed

section \<open>The invariant of the hit rate test\<close>

text \<open>\<open>h\<close> hits and no miss since the statistics were reset; the time to live has not fallen below \<open>T\<close>.\<close>

definition only_hits :: "u32 \<Rightarrow> nat \<Rightarrow> perf_state \<Rightarrow> bool" where
  "only_hits T h s \<longleftrightarrow> g_cache_enabled s \<and> bb_count (g_batch_buffer s) = 0
     \<and> length (cache_entries (g_cache s)) = CACHE_BUCKET_COUNT
     \<and> cache_misses (g_stats s) = 0 \<and> cache_hits (g_stats s) = of_nat h \<and> total_operations (g_stats s) = 0
     \<and> T \<le> ttl_ms (g_cache s)"

definition cached_at :: "u64 set \<Rightarrow> perf_state \<Rightarrow> pid_t \<Rightarrow> bool" where
  "cached_at W s pid \<longleftrightarrow>
     (let e = cache_entries (g_cache s) ! hash_pid pid
      in ent_valid e \<and> ent_pid e = pid \<and> ent_last_update e \<in> W)"

lemma only_hits_adjust:
  assumes "only_hits T h s" "h \<le> NUM_MEASURE_OPS"
  shows "only_hits T h (perf_optimizer_adaptive_adjust s)"
proof -
  let ?t = "ttl_ms (g_cache s)"
  have "unat (of_nat h :: u64) = h" using assms(2) by (simp add: unat_of_nat NUM_MEASURE_OPS_def)
  moreover have "?t \<le> ?t + 10" if "?t < 500"
    using that by (simp add: word_le_nat_alt word_less_nat_alt unat_word_ariths)
  ultimately show ?thesis using assms(1)
    by (auto simp: only_hits_def perf_optimizer_adaptive_adjust_def Let_def)
qed

lemma thread_turn_cases:
  "bb_count (g_batch_buffer s) = 0 \<Longrightarrow> thread_turn env i s = s \<or> thread_turn env i s = perf_optimizer_adaptive_adjust s"
  by (auto simp: thread_turn_def flush_thread_turn_def perf_optimizer_flush_batch_buffer_def split: option.split prod.split)

lemma only_hits_turn:
  assumes "only_hits T h s" "h \<le> NUM_MEASURE_OPS"
  shows "only_hits T h (thread_turn env i s)" "cached_at W (thread_turn env i s) p = cached_at W s p"
proof -
  from assms(1) have "bb_count (g_batch_buffer s) = 0" by (simp add: only_hits_def)
  from thread_turn_cases [OF this, of env i] only_hits_adjust [OF assms] assms(1)
  show "only_hits T h (thread_turn env i s)" by auto
  have "cache_entries (g_cache (thread_turn env i s)) = cache_entries (g_cache s)"
    by (simp add: thread_turn_def frame_simps split: option.split prod.split)
  then show "cached_at W (thread_turn env i s) p = cached_at W s p" by (simp add: cached_at_def)
qed

lemma only_hits_put:
  fixes e :: perf_env and p :: pid_t and u :: resource_usage and m :: shm_state
  assumes "only_hits T h s"
  defines "s' \<equiv> perf_optimizer_update_cached_resources e p (Some u) (s\<lparr>perf_shm := m\<rparr>)"
  shows "only_hits T h s'" "pe_ms e \<in> W \<Longrightarrow> cached_at W s' p"
    "hash_pid q \<noteq> hash_pid p \<Longrightarrow> cached_at W s q \<Longrightarrow> cached_at W s' q"
    "pe_ms e \<in> W \<Longrightarrow> q = p \<Longrightarrow> cached_at W s' q"
  using assms(1) hash_pid_less [of p]
  by (auto simp: only_hits_def cached_at_def s'_def perf_optimizer_update_cached_resources_def upd_entry_def Let_def)

lemma only_hits_look:
  assumes "only_hits T h s" "cached_at W s p" "\<forall>w\<in>W. pe_ms e - w \<le> ucast T"
  shows "\<exists>u s'. perf_optimizer_get_cached_resources e p True s = (Some u, s') \<and> only_hits T (Suc h) s'
    \<and> g_cache s' = (g_cache s)\<lparr>cache_hit_count := cache_hit_count (g_cache s) + 1\<rparr>"
proof -
  let ?e = "cache_entries (g_cache s) ! hash_pid p"
  have "(ucast T :: u64) \<le> ucast (ttl_ms (g_cache s))"
    using assms(1) by (simp add: only_hits_def word_le_nat_alt unat_ucast_u64)
  moreover have "pe_ms e - ent_last_update ?e \<le> ucast T" using assms(2,3) by (auto simp: cached_at_def Let_def)
  ultimately have "\<not> pe_ms e - ent_last_update ?e > ucast (ttl_ms (g_cache s))" by (simp add: not_less order.trans)
  with assms(1,2) show ?thesis
    by (simp add: perf_optimizer_get_cached_resources_def only_hits_def cached_at_def count_hit_def Let_def add.commute)
qed

section \<open>The runs of the hit rate test\<close>

text \<open>After \<open>i\<close> steps of the warm-up the first \<open>i\<close> processes are cached, with times of the warm-up.\<close>

definition warm_times :: "cache_exp_env \<Rightarrow> u64 set" where
  "warm_times env = (\<lambda>j. pe_ms (xe_warm env j)) ` {0..<NUM_WARMUP_OPS}"

lemma c_rem_less: "0 < sint n \<Longrightarrow> c_rem i n < nat (sint n)"
  by (simp add: c_rem_def)

lemma warm_loop:
  assumes s: "only_hits T 0 s" and n: "0 < sint (xc_num_processes c)" "sint (xc_num_processes c) \<le> 256"
  shows "m \<le> NUM_WARMUP_OPS \<Longrightarrow> only_hits T 0 (fold (warm_step env c) [0..<m] s)
    \<and> (\<forall>k<min m (nat (sint (xc_num_processes c))). cached_at (warm_times env) (fold (warm_step env c) [0..<m] s) (1000 + of_nat k))"
proof (induction m)
  case (Suc m)
  let ?n = "nat (sint (xc_num_processes c))" and ?W = "warm_times env"
  let ?s = "fold (warm_step env c) [0..<m] s" and ?e = "xe_warm env m"
  define k where "k = c_rem m (xc_num_processes c)"
  define t where "t = thread_turn env m ?s"
  have IH: "only_hits T 0 ?s" "\<And>j. j < min m ?n \<Longrightarrow> cached_at ?W ?s (1000 + of_nat j)" using Suc by auto
  have t: "only_hits T 0 t" "cached_at ?W t p = cached_at ?W ?s p" for p
    using only_hits_turn [OF IH(1), where env = env and i = m] by (simp_all add: t_def)
  have k: "k < ?n" "?n \<le> 256" using c_rem_less [OF n(1)] n by (auto simp: k_def)
  have m: "m < ?n \<Longrightarrow> k = m" using n by (simp add: k_def c_rem_def)
  have w: "pe_ms ?e \<in> ?W" using Suc.prems by (auto simp: warm_times_def)
  obtain u m' where step: "warm_step env c m ?s =
      perf_optimizer_update_cached_resources ?e (1000 + of_nat k) (Some u) (t\<lparr>perf_shm := m'\<rparr>)"
    by (auto simp: warm_step_def k_def t_def Let_def)
  note put = only_hits_put [OF t(1), where e = ?e and p = "1000 + of_nat k" and u = u and m = m', folded step]
  have "cached_at ?W (warm_step env c m ?s) (1000 + of_nat j)" if j: "j < min (Suc m) ?n" for j
  proof (cases "j = k")
    case False
    then have "j < min m ?n" using j m by (cases "j = m") auto
    moreover have "hash_pid (1000 + of_nat j) \<noteq> hash_pid (1000 + of_nat k)"
      using hash_neighbours [of j k] False k j by auto
    ultimately show ?thesis using put(3) IH(2) t(2) by blast
  qed (use put(2) w in simp)
  with put(1) show ?case by simp
qed (use s in simp)

lemma workload_process:
  assumes "0 < sint (xc_num_processes c)"
  shows "\<exists>k<nat (sint (xc_num_processes c)). workload_pid env c i = 1000 + of_nat k"
  using assms
  by (intro exI [of _ "let n = xc_num_processes c; w = xc_workload_type c in
      if w = 0 then c_rem (i div 1000) n else if w = 1 then c_rem (xe_rand env i) n
      else if w = 2 then c_rem (i div 100) n else c_rem i n"])
    (simp add: workload_pid_def Let_def c_rem_less)

lemma measure_loop:
  assumes s: "only_hits T 0 s" and n: "0 < sint (xc_num_processes c)"
    and warm: "\<And>k. k < nat (sint (xc_num_processes c)) \<Longrightarrow> cached_at W s (1000 + of_nat k)"
    and time: "\<And>i w. i < NUM_MEASURE_OPS \<Longrightarrow> w \<in> W \<Longrightarrow> pe_ms (xe_get env i) - w \<le> ucast T"
  shows "m \<le> NUM_MEASURE_OPS \<Longrightarrow> only_hits T m (fold (measure_step env c) [0..<m] s)
    \<and> (\<forall>k<nat (sint (xc_num_processes c)). cached_at W (fold (measure_step env c) [0..<m] s) (1000 + of_nat k))"
proof (induction m)
  case (Suc m)
  let ?s = "fold (measure_step env c) [0..<m] s"
  define t where "t = thread_turn env (NUM_WARMUP_OPS + m) ?s"
  have IH: "only_hits T m ?s" "\<And>k. k < nat (sint (xc_num_processes c)) \<Longrightarrow> cached_at W ?s (1000 + of_nat k)"
    using Suc by auto
  have t: "only_hits T m t" "cached_at W t p = cached_at W ?s p" for p
    using only_hits_turn [OF IH(1), where env = env and i = "NUM_WARMUP_OPS + m"] Suc.prems by (simp_all add: t_def)
  obtain k where k: "k < nat (sint (xc_num_processes c))" "workload_pid env c m = 1000 + of_nat k"
    using workload_process [OF n] by blast
  have "cached_at W t (1000 + of_nat k)" using IH(2) [OF k(1)] t(2) by simp
  from only_hits_look [OF t(1) this] time [of m] Suc.prems obtain u s' where
    look: "perf_optimizer_get_cached_resources (xe_get env m) (1000 + of_nat k) True t = (Some u, s')" "only_hits T (Suc m) s'"
      "cache_entries (g_cache s') = cache_entries (g_cache t)" by fastforce
  have "measure_step env c m ?s = s'" using look(1) k(2) by (simp add: measure_step_def t_def [symmetric] Let_def)
  with look(2,3) IH(2) t(2) show ?case by (simp add: cached_at_def)
qed (use s warm in simp)

definition clamped_ttl :: "u32 \<Rightarrow> u32" where
  "clamped_ttl ttl = (if ttl < 10 then 10 else if ttl > 10000 then 10000 else ttl)"

text \<open>
  The hit rate of a warm cache. With between 1 and 256 processes, whatever the workload, and
  a run no longer than the time to live, every one of the 100000 look-ups is served from the cache,
  also when the flush thread adjusts the time to live in between: there is no miss, the reported
  rate is exactly 100 per cent and the reported latency of the optimiser 0.
\<close>

theorem warm_cache_hit_rate:
  assumes "0 < sint (xc_num_processes c)" "sint (xc_num_processes c) \<le> 256"
    and "\<And>i w. i < NUM_MEASURE_OPS \<Longrightarrow> w \<in> warm_times env \<Longrightarrow> pe_ms (xe_get env i) - w \<le> ucast (clamped_ttl (xc_ttl_ms c))"
  shows "\<exists>r' s'. test_hit_rate env c r s = Some (r', s') \<and> xr_hit_rate r' = 100 \<and> ls_avg (xr_latency r') = 0
    \<and> cache_misses (g_stats s') = 0 \<and> cache_hits (g_stats s') = of_nat NUM_MEASURE_OPS"
proof -
  let ?T = "clamped_ttl (xc_ttl_ms c)"
  define s1 where "s1 = perf_optimizer_reset_stats (xe_reset env 0) (perf_optimizer_set_cache_ttl (xc_ttl_ms c)
    (perf_optimizer_enable_cache True (snd (perf_optimizer_init (xe_init env) s))))"
  define s2 where "s2 = fold (warm_step env c) [0..<NUM_WARMUP_OPS] s1"
  define s3 where "s3 = perf_optimizer_reset_stats (xe_reset env 1) s2"
  define s4 where "s4 = fold (measure_step env c) [0..<NUM_MEASURE_OPS] s3"
  have "only_hits ?T 0 s1"
    by (simp add: s1_def only_hits_def perf_optimizer_init_def perf_optimizer_enable_cache_def Let_def zero_stats_def
        perf_optimizer_set_cache_ttl_def perf_optimizer_reset_stats_def clamped_ttl_def)
  note warm = warm_loop [OF this assms(1,2), of NUM_WARMUP_OPS env, folded s2_def]
  have s3: "only_hits ?T 0 s3" "cached_at W s3 p = cached_at W s2 p" for W p
    using warm by (simp_all add: s3_def only_hits_def cached_at_def perf_optimizer_reset_stats_def zero_stats_def)
  have c3: "cached_at (warm_times env) s3 (1000 + of_nat k)" if "k < nat (sint (xc_num_processes c))" for k
    using warm assms(2) that by (simp add: s3(2) NUM_WARMUP_OPS_def)
  from measure_loop [OF s3(1) assms(1) c3 assms(3), of NUM_MEASURE_OPS, folded s4_def]
  have s4: "only_hits ?T NUM_MEASURE_OPS s4" by blast
  have "double_of_u64 (of_nat NUM_MEASURE_OPS) = 100000"
    using round_double_nat [of 100000] by (simp add: double_of_u64_def NUM_MEASURE_OPS_def)
  then have rate: "stats_hit_rate s4 = 100" "stats_avg_latency s4 = 0"
    using s4 round_double_int [of 1] round_double_int [of 100]
    by (simp_all add: stats_hit_rate_def stats_avg_latency_def perf_optimizer_get_stats_def only_hits_def Let_def
        double_div_def double_mul_def NUM_MEASURE_OPS_def)
  have fin: "g_stats (perf_optimizer_cleanup (xe_cleanup env) s4) = g_stats s4"
    using s4 by (simp add: perf_optimizer_cleanup_def perf_optimizer_flush_batch_buffer_def only_hits_def)
  have "xc_num_processes c \<noteq> 0" using assms(1) by auto
  then obtain r' where "test_hit_rate env c r s = Some (r', perf_optimizer_cleanup (xe_cleanup env) s4)"
      "xr_hit_rate r' = stats_hit_rate s4" "ls_avg (xr_latency r') = stats_avg_latency s4"
    unfolding test_hit_rate_def s4_def s3_def s2_def s1_def Let_def by simp
  with rate fin s4 show ?thesis by (auto simp: only_hits_def)
qed

text \<open>Ten processes and the default time to live, with a clock that stands still.\<close>

definition demo_cache :: cache_exp_env where
  "demo_cache = \<lparr>xe_shm_init = ok_shm_env, xe_init = perf_at 5, xe_reset = (\<lambda>_. perf_at 5), xe_warm = (\<lambda>_. perf_at 5),
     xe_pre = (\<lambda>_. perf_at 5), xe_get = (\<lambda>_. perf_at 5), xe_put = (\<lambda>_. perf_at 5), xe_cleanup = perf_at 5,
     xe_turn = (\<lambda>i. if i mod 500 = 0 then Some (i, perf_at 5) else None), xe_rand = (\<lambda>i. i * i),
     xe_junk = (\<lambda>_. 7), xe_malloc = True, xe_clock = (\<lambda>i. of_nat i)\<rparr>"

theorem warm_cache_hit_rate_witness:
  "\<exists>r' s'. test_hit_rate demo_cache exp4_defaults zero_result (perf_zero shm_start) = Some (r', s')
    \<and> xr_hit_rate r' = 100 \<and> cache_hits (g_stats s') = 100000"
proof -
  have "pe_ms (xe_get demo_cache i) = 5" "pe_ms (xe_warm demo_cache i) = 5" for i
    by (simp_all add: demo_cache_def perf_at_def)
  moreover have "sint (xc_num_processes exp4_defaults) = 10" by (simp add: exp4_defaults_def)
  moreover have "w = 5" if "w \<in> warm_times demo_cache" for w using that calculation by (auto simp: warm_times_def)
  ultimately obtain r' s' where "test_hit_rate demo_cache exp4_defaults zero_result (perf_zero shm_start) = Some (r', s')"
      "xr_hit_rate r' = 100" "cache_hits (g_stats s') = of_nat NUM_MEASURE_OPS"
    using warm_cache_hit_rate [of exp4_defaults demo_cache zero_result "perf_zero shm_start"] by force
  then show ?thesis by (simp add: NUM_MEASURE_OPS_def)
qed

section \<open>The adaptive test\<close>

text \<open>
  The adaptive test does not adapt. With the adjustment enabled, the test computes exactly
  what a test computes that never adjusts and puts the time to live to 10 ms after each round: the
  call \<open>perf_optimizer_set_cache_ttl(0)\<close>, meant to print the value, replaces whatever the
  adjustment chose.
\<close>

theorem adaptive_test_is_fixed:
  assumes "xc_enable_adaptive c \<noteq> 0"
  shows "test_adaptive_ttl env c r s =
    (let s = perf_optimizer_set_cache_ttl 50 (perf_optimizer_enable_cache True (snd (perf_optimizer_init (xe_init env) s)));
         (rates, s) = adaptive_rounds env (perf_optimizer_set_cache_ttl 10) [0..<20] s
     in (r\<lparr>xr_hit_rate := double_div (foldl double_add 0 rates) 20, xr_total_ops := 200000\<rparr>,
         perf_optimizer_cleanup (xe_cleanup env) s))"
proof -
  have "ttl_change c = perf_optimizer_set_cache_ttl 10"
    using assms by (simp add: fun_eq_iff ttl_change_def perf_optimizer_set_cache_ttl_def perf_optimizer_adaptive_adjust_def Let_def)
  then show ?thesis by (simp add: test_adaptive_ttl_def Let_def)
qed

theorem adaptive_test_is_fixed_witness:
  "\<exists>rates s'. test_adaptive_ttl demo_cache (exp4_defaults\<lparr>xc_enable_adaptive := 1\<rparr>) zero_result (perf_zero shm_start) =
     (zero_result\<lparr>xr_hit_rate := double_div (foldl double_add 0 rates) 20, xr_total_ops := 200000\<rparr>, s')
     \<and> rates = fst (adaptive_rounds demo_cache (perf_optimizer_set_cache_ttl 10) [0..<20]
         (perf_optimizer_set_cache_ttl 50 (perf_optimizer_enable_cache True (snd (perf_optimizer_init (perf_at 5) (perf_zero shm_start))))))"
  by (subst adaptive_test_is_fixed) (simp_all add: exp4_defaults_def split_beta Let_def demo_cache_def)

end
