(* ===== verification/Exp_Attack.thy ===== *)
theory Exp_Attack
  imports Exp_Mr "HOL-Library.Signed_Division"
begin

text \<open>
  The attacker that abuses the registration of memory: it registers many regions, and then for a given
  time releases a batch of them and registers it again
  (\<open>experiments/exp_mr_dereg/src/attacker.c\<close>); and what it shares with the C++ variant. \<open>ab_hook env j\<close> is the
  environment of the \<open>j\<close>-th hook on a region, \<open>ab_buf env i\<close> the buffer with index
  \<open>i\<close>, \<open>ab_clock env\<close> the readings of the clock at the heads of the loop, \<open>ab_timing env j\<close>
  those before and after hook \<open>j\<close>. The loops end by the clock only, so a program that does not
  return is the value \<open>None\<close>. The arrays themselves are allocated; messages are left out.
\<close>

section \<open>Regions\<close>

record abuse_env =
  ab_devices :: "string list"
  ab_ctx :: u64
  ab_pd :: hook_env
  ab_hook :: "nat \<Rightarrow> hook_env"
  ab_dealloc_pd :: hook_env
  ab_buf :: "nat \<Rightarrow> u64"
  ab_clock :: "nat \<Rightarrow> u64 \<times> u64"
  ab_timing :: "nat \<Rightarrow> (u64 \<times> u64) \<times> (u64 \<times> u64)"

text \<open>The array of regions, where 0 is \<open>NULL\<close>, the number of hooks called so far and the state
  the hooks work on.\<close>

record abuse =
  ab_mrs :: "u64 list"
  ab_calls :: nat
  ab_state :: hook_state

text \<open>\<open>mrs[i] = ibv_reg_mr(...)\<close>, and the call of \<open>ibv_dereg_mr\<close>, which leaves the array
  alone.\<close>

definition register_region :: "abuse_env \<Rightarrow> u64 \<Rightarrow> u64 \<Rightarrow> i32 \<Rightarrow> nat \<Rightarrow> abuse \<Rightarrow> abuse" where
  "register_region env pd len acc i st =
     (case ibv_reg_mr (ab_hook env (ab_calls st)) pd (ab_buf env i) len acc (ab_state st) of
        (mr, err, h) \<Rightarrow> st\<lparr>ab_mrs := (ab_mrs st)[i := mr], ab_calls := Suc (ab_calls st), ab_state := h\<rparr>)"

definition release_region :: "abuse_env \<Rightarrow> u64 \<Rightarrow> nat \<Rightarrow> abuse \<Rightarrow> i32 \<times> abuse" where
  "release_region env len i st =
     (case ibv_dereg_mr (ab_hook env (ab_calls st)) (Some (ab_mrs st ! i, len)) (ab_state st) of
        (rc, err, h) \<Rightarrow> (rc, st\<lparr>ab_calls := Suc (ab_calls st), ab_state := h\<rparr>))"

section \<open>The attacker in C\<close>

definition MR_SIZE :: u64 where "MR_SIZE = 4 * 1024 * 1024"

record attack_config =
  at_delay_ms :: i32
  at_duration_ms :: i32
  at_num_mrs :: i32
  at_batch_size :: i32

fun attack_options :: "(char \<times> string) list \<Rightarrow> attack_config \<Rightarrow> int + attack_config" where
  "attack_options [] c = Inr c"
| "attack_options ((o', optarg) # opts) c =
     (if o' = CHR ''d'' then attack_options opts (c\<lparr>at_delay_ms := atoi optarg\<rparr>)
      else if o' = CHR ''t'' then attack_options opts (c\<lparr>at_duration_ms := atoi optarg\<rparr>)
      else if o' = CHR ''n'' then attack_options opts (c\<lparr>at_num_mrs := atoi optarg\<rparr>)
      else if o' = CHR ''b'' then attack_options opts (c\<lparr>at_batch_size := atoi optarg\<rparr>)
      else if o' = CHR ''h'' then Inl 0
      else Inl 1)"

definition attack_defaults :: attack_config where
  "attack_defaults = \<lparr>at_delay_ms = 5000, at_duration_ms = 25000, at_num_mrs = 50, at_batch_size = 10\<rparr>"

fun register_all :: "abuse_env \<Rightarrow> u64 \<Rightarrow> nat list \<Rightarrow> abuse \<Rightarrow> abuse" where
  "register_all env pd [] st = st"
| "register_all env pd (i # is) st = register_all env pd is (register_region env pd MR_SIZE IBV_ACCESS_LOCAL_WRITE i st)"

text \<open>One turn of the loop: the batch is released and, at once, registered again; a registration
  that fails is tried once more.\<close>

fun deregister_batch :: "abuse_env \<Rightarrow> u64 \<Rightarrow> nat list \<Rightarrow> abuse \<Rightarrow> abuse" where
  "deregister_batch env len [] st = st"
| "deregister_batch env len (i # is) st =
     deregister_batch env len is
       (if ab_mrs st ! i \<noteq> 0 then let (_, st) = release_region env len i st in st\<lparr>ab_mrs := (ab_mrs st)[i := 0]\<rparr>
        else st)"

fun reregister_batch :: "abuse_env \<Rightarrow> u64 \<Rightarrow> nat list \<Rightarrow> abuse \<Rightarrow> abuse" where
  "reregister_batch env pd [] st = st"
| "reregister_batch env pd (i # is) st =
     (let st = register_region env pd MR_SIZE IBV_ACCESS_LOCAL_WRITE i st
      in reregister_batch env pd is
           (if ab_mrs st ! i = 0 then register_region env pd MR_SIZE IBV_ACCESS_LOCAL_WRITE i st else st))"

definition attack_cycle :: "abuse_env \<Rightarrow> u64 \<Rightarrow> nat \<Rightarrow> abuse \<Rightarrow> abuse" where
  "attack_cycle env pd b st = reregister_batch env pd [0..<b] (deregister_batch env MR_SIZE [0..<b] st)"

text \<open>Milliseconds since the start at the \<open>k\<close>-th reading of the clock.\<close>

definition attack_elapsed :: "abuse_env \<Rightarrow> nat \<Rightarrow> int" where
  "attack_elapsed env k =
     (sint (fst (ab_clock env k)) - sint (fst (ab_clock env 0))) * 1000
     + (sint (snd (ab_clock env k)) - sint (snd (ab_clock env 0))) sdiv 1000000"

partial_function (option) attack_loop ::
    "abuse_env \<Rightarrow> u64 \<Rightarrow> nat \<Rightarrow> int \<Rightarrow> nat \<Rightarrow> abuse \<Rightarrow> (nat \<times> abuse) option" where
  "attack_loop env pd b duration k st =
     (if attack_elapsed env (Suc k) \<ge> duration then Some (k, st)
      else attack_loop env pd b duration (Suc k) (attack_cycle env pd b st))"

fun release_all :: "abuse_env \<Rightarrow> u64 \<Rightarrow> nat list \<Rightarrow> abuse \<Rightarrow> abuse" where
  "release_all env len [] st = st"
| "release_all env len (i # is) st =
     release_all env len is (if ab_mrs st ! i \<noteq> 0 then snd (release_region env len i st) else st)"

definition attack_cleanup :: "abuse_env \<Rightarrow> u64 \<Rightarrow> nat \<Rightarrow> abuse \<Rightarrow> hook_state" where
  "attack_cleanup env pd n st = snd (snd (ibv_dealloc_pd (ab_dealloc_pd env) pd (ab_state (release_all env MR_SIZE [0..<n] st))))"

text \<open>How the run ends: with too few regions for the batch, or with the number of regions, cycles and
  milliseconds.\<close>

datatype attack_end = NotEnough nat | Completed nat nat int

definition cycles_per_second :: "nat \<Rightarrow> int \<Rightarrow> rat option" where
  "cycles_per_second cycles ms =
     (if ms = 0 then None else Some (double_div (double_mul (round_double (of_nat cycles)) 1000) (round_double (of_int ms))))"

definition held :: "abuse \<Rightarrow> nat" where
  "held st = length (filter (\<lambda>mr. mr \<noteq> 0) (ab_mrs st))"

definition attack_start :: "abuse_env \<Rightarrow> u64 \<Rightarrow> nat \<Rightarrow> hook_state \<Rightarrow> abuse" where
  "attack_start env pd n h =
     register_all env pd [0..<n] \<lparr>ab_mrs = replicate n 0, ab_calls = 0, ab_state = h\<rparr>"

definition attack_main ::
    "abuse_env \<Rightarrow> (char \<times> string) list \<Rightarrow> hook_state \<Rightarrow> (int \<times> attack_end option \<times> hook_state) option" where
  "attack_main env opts h =
     (case attack_options opts attack_defaults of
        Inl code \<Rightarrow> Some (code, None, h)
      | Inr c \<Rightarrow>
          if ab_devices env = [] then Some (1, None, h)
          else
            let n = nat (sint (at_num_mrs c)); b = nat (sint (at_batch_size c));
                (pd, _, h) = ibv_alloc_pd (ab_pd env) (ab_ctx env) h;
                st = attack_start env pd n h;
                registered = held st
            in if int registered < sint (at_batch_size c)
               then Some (0, Some (NotEnough registered), attack_cleanup env pd n st)
               else
                 (case attack_loop env pd b (sint (at_duration_ms c)) 0 st of
                    None \<Rightarrow> None
                  | Some (cycles, st) \<Rightarrow>
                      Some (0, Some (Completed registered cycles (attack_elapsed env (cycles + 2))),
                            attack_cleanup env pd n st)))"

section \<open>What a region costs\<close>

lemma count_update:
  "i < length xs \<Longrightarrow> length (filter (\<lambda>x. x \<noteq> 0) (xs[i := v])) + (if xs ! i \<noteq> 0 then 1 else 0)
    = length (filter (\<lambda>x. x \<noteq> 0) xs) + (if v \<noteq> (0 :: u64) then 1 else 0)"
  using arg_cong [OF id_take_nth_drop [of i xs], of "\<lambda>xs. length (filter (\<lambda>x. x \<noteq> 0) xs)"]
  by (simp add: upd_conv_take_nth_drop)

text \<open>No hook on a region touches the recorded memory of the tenant.\<close>

lemma app_memory:
  assumes a: "active_app p t h" and p: "he_pid (op_env c) = p"
  shows "tu_memory_used (snd (usage_of p t (hook_exec c h))) = tu_memory_used (snd (usage_of p t h))"
proof -
  obtain q u where row: "app_row p t h = Some (TENANT_STATUS_ACTIVE, q, u)" and app: "tenant_app p t h"
    using a by (auto simp: active_app_def)
  note s = tenant_app_step [OF app p]
  have "app_row p t (hook_exec c h) = Some (TENANT_STATUS_ACTIVE, q, u)
    \<or> (\<exists>d. app_row p t (hook_exec c h) = Some (TENANT_STATUS_ACTIVE, q, count_resource (op_kind c) d u))"
    unfolding s(3) using row by (cases c) (auto simp: view_create_def view_destroy_def count_view_def)
  then show ?thesis using usage_of_row [OF row]
    by (auto simp: usage_of_def count_resource_def)
qed

text \<open>The regions that fit besides \<open>base\<close> ones.\<close>

definition region_room :: "tenant_quota \<Rightarrow> u64 \<Rightarrow> nat \<Rightarrow> u64 \<Rightarrow> nat" where
  "region_room q m base len =
     (if max_memory_per_tenant q = 0 \<or> m + len \<le> max_memory_per_tenant q then unat (max_mr_per_tenant q) - base else 0)"

text \<open>The tenant has \<open>base\<close> regions besides those of the program.\<close>

definition holding :: "pid_t \<Rightarrow> u32 \<Rightarrow> tenant_quota \<Rightarrow> u64 \<Rightarrow> nat \<Rightarrow> u64 \<Rightarrow> abuse \<Rightarrow> bool" where
  "holding p t q m base len st \<longleftrightarrow>
     active_app p t (ab_state st) \<and> fst (usage_of p t (ab_state st)) = q
     \<and> tu_memory_used (snd (usage_of p t (ab_state st))) = m
     \<and> mr_in_use p t (ab_state st) = base + held st \<and> held st \<le> region_room q m base len"

lemma holding_budget: "holding p t q m base len st \<Longrightarrow> mr_budget len p t (ab_state st) = region_room q m base len - held st"
  by (auto simp: holding_def mr_budget_def region_room_def split: prod.split)

text \<open>The driver grants and releases every region.\<close>

definition abuse_driver_ok :: "pid_t \<Rightarrow> abuse_env \<Rightarrow> bool" where
  "abuse_driver_ok p env \<longleftrightarrow> driver_grants p (ab_hook env) \<and> (\<forall>j. he_driver_rc (ab_hook env j) = 0)
     \<and> he_pid (ab_pd env) = p \<and> he_driver_ptr (ab_pd env) \<noteq> 0
     \<and> he_pid (ab_dealloc_pd env) = p \<and> he_driver_rc (ab_dealloc_pd env) = 0"

lemma register_region_step:
  fixes pd :: u64 and acc :: i32
  assumes d: "abuse_driver_ok p env" and g: "holding p t q m base len st" and i: "i < length (ab_mrs st)" "ab_mrs st ! i = 0"
  defines "st' \<equiv> register_region env pd len acc i st" and "B \<equiv> region_room q m base len"
  shows "holding p t q m base len st'" "length (ab_mrs st') = length (ab_mrs st)"
    "\<And>j. j \<noteq> i \<Longrightarrow> ab_mrs st' ! j = ab_mrs st ! j" "ab_mrs st' ! i \<noteq> 0 \<longleftrightarrow> held st < B"
    "held st' = (if held st < B then Suc (held st) else held st)" "ab_calls st' = Suc (ab_calls st)"
proof -
  let ?e = "ab_hook env (ab_calls st)" and ?h = "ab_state st"
  let ?c = "HRegMr ?e pd (ab_buf env i) len acc"
  obtain mr err h' where r: "ibv_reg_mr ?e pd (ab_buf env i) len acc ?h = (mr, err, h')" by (metis prod_cases3)
  have st': "st' = st\<lparr>ab_mrs := (ab_mrs st)[i := mr], ab_calls := Suc (ab_calls st), ab_state := h'\<rparr>"
    by (simp add: st'_def register_region_def r)
  have act: "active_app p t ?h" and app: "mr_app (ab_hook env) p t ?h"
    using g d by (simp_all add: holding_def mr_app_def abuse_driver_ok_def)
  have pid: "he_pid (op_env ?c) = p" using d by (simp add: abuse_driver_ok_def driver_grants_def)
  have h': "h' = hook_exec ?c ?h" using r by simp
  have "reg_attempt (ab_hook env) pd (\<lambda>_. ab_buf env i) len acc (ab_calls st) ?h = (mr \<noteq> 0, h')"
    by (simp add: reg_attempt_def r)
  note step = reg_attempt_step [OF app this, unfolded holding_budget [OF g]]
  have ok: "mr \<noteq> 0 \<longleftrightarrow> held st < B" using step by (auto simp: B_def)
  have n: "held st' = (if mr \<noteq> 0 then Suc (held st) else held st)"
    using count_update [OF i(1), of mr] i(2) by (simp add: held_def st' split: if_splits)
  have "mr_in_use p t h' = base + held st'" using step g n by (auto simp: holding_def split: if_splits)
  moreover have "held st' \<le> B" using n ok g by (auto simp: holding_def B_def)
  ultimately show "holding p t q m base len st'"
    using g app_counts(1,2) [OF act pid, folded h'] app_memory [OF act pid, folded h'] by (simp add: holding_def st' B_def)
  show "length (ab_mrs st') = length (ab_mrs st)" "\<And>j. j \<noteq> i \<Longrightarrow> ab_mrs st' ! j = ab_mrs st ! j"
    "ab_mrs st' ! i \<noteq> 0 \<longleftrightarrow> held st < B" "ab_calls st' = Suc (ab_calls st)"
    using i(1) ok by (simp_all add: st')
  show "held st' = (if held st < B then Suc (held st) else held st)" using n ok by simp
qed

lemma release_region_step:
  assumes d: "abuse_driver_ok p env" and g: "holding p t q m base len st" and i: "i < length (ab_mrs st)" "ab_mrs st ! i \<noteq> 0"
    and r: "release_region env len i st = (rc, st1)"
  defines "st' \<equiv> st1\<lparr>ab_mrs := (ab_mrs st1)[i := 0]\<rparr>"
  shows "rc = 0" "holding p t q m base len st'" "ab_mrs st' = (ab_mrs st)[i := 0]" "Suc (held st') = held st"
    "ab_calls st1 = Suc (ab_calls st)" "ab_mrs st1 = ab_mrs st"
proof -
  let ?e = "ab_hook env (ab_calls st)" and ?h = "ab_state st"
  let ?c = "HDeregMr ?e (ab_mrs st ! i) len"
  obtain rc' err h' where e: "ibv_dereg_mr ?e (Some (ab_mrs st ! i, len)) ?h = (rc', err, h')" by (metis prod_cases3)
  have st1: "rc = rc'" "st1 = st\<lparr>ab_calls := Suc (ab_calls st), ab_state := h'\<rparr>" using r e by (simp_all add: release_region_def)
  have act: "active_app p t ?h" using g by (simp add: holding_def)
  have pid: "he_pid (op_env ?c) = p" using d by (simp add: abuse_driver_ok_def driver_grants_def)
  have h': "h' = hook_exec ?c ?h" using e by simp
  have ans: "hook_answer ?c ?h = ACode 0 None"
    using tenant_app_step(2) [of p t ?h ?c] pid act d by (simp add: active_app_def abuse_driver_ok_def)
  then show "rc = 0" using e st1(1) by simp
  show m: "ab_mrs st' = (ab_mrs st)[i := 0]" by (simp add: st'_def st1(2))
  show n: "Suc (held st') = held st"
    using count_update [OF i(1), of 0] i(2) by (simp add: held_def m)
  have "tu_mr_count (snd (usage_of p t h')) = tu_mr_count (snd (usage_of p t ?h)) - 1"
    using app_counts(3) [OF act pid, of 1, folded h'] ans by (simp add: counter_def)
  moreover have u: "mr_in_use p t ?h = Suc (base + held st')" using g n by (simp add: holding_def)
  moreover have "tu_mr_count (snd (usage_of p t ?h)) \<noteq> 0" using u by (auto simp: mr_in_use_def)
  ultimately have "mr_in_use p t h' = base + held st'" by (simp add: mr_in_use_def unat_minus_one)
  then show "holding p t q m base len st'"
    using g n app_counts(1,2) [OF act pid, folded h'] app_memory [OF act pid, folded h']
    by (simp add: holding_def st'_def st1(2) held_def)
  show "ab_calls st1 = Suc (ab_calls st)" "ab_mrs st1 = ab_mrs st" by (simp_all add: st1(2))
qed

section \<open>The cycles of the attacker\<close>

lemma upt_Suc_add: "[i..<i + Suc m] = i # [Suc i..<Suc i + m]"
  using upt_conv_Cons [of i "i + Suc m"] by simp

lemma register_range:
  fixes q :: tenant_quota and m :: u64 and base :: nat
  assumes d: "abuse_driver_ok p env"
  defines "B \<equiv> region_room q m base MR_SIZE"
  shows "holding p t q m base MR_SIZE st \<Longrightarrow> i + n \<le> length (ab_mrs st) \<Longrightarrow> (\<forall>j. i \<le> j \<and> j < i + n \<longrightarrow> ab_mrs st ! j = 0) \<Longrightarrow>
    holding p t q m base MR_SIZE (register_all env pd [i..<i + n] st)
    \<and> length (ab_mrs (register_all env pd [i..<i + n] st)) = length (ab_mrs st)
    \<and> ab_calls (register_all env pd [i..<i + n] st) = ab_calls st + n
    \<and> (\<forall>j<length (ab_mrs st). ab_mrs (register_all env pd [i..<i + n] st) ! j \<noteq> 0
        \<longleftrightarrow> (if i \<le> j \<and> j < i + n then j - i < B - held st else ab_mrs st ! j \<noteq> 0))"
proof (induction n arbitrary: i st)
  case (Suc n)
  define st1 where "st1 = register_region env pd MR_SIZE IBV_ACCESS_LOCAL_WRITE i st"
  have i: "i < length (ab_mrs st)" "ab_mrs st ! i = 0" using Suc.prems by simp_all
  note s = register_region_step [OF d Suc.prems(1) i, where pd = pd and acc = IBV_ACCESS_LOCAL_WRITE, folded st1_def B_def]
  have r: "register_all env pd [i..<i + Suc n] st = register_all env pd [Suc i..<Suc i + n] st1"
    unfolding upt_Suc_add by (simp add: st1_def)
  have "Suc i + n \<le> length (ab_mrs st1)" "\<forall>j. Suc i \<le> j \<and> j < Suc i + n \<longrightarrow> ab_mrs st1 ! j = 0"
    using Suc.prems s(2,3) by auto
  note IH = Suc.IH [OF s(1) this]
  have "ab_mrs (register_all env pd [i..<i + Suc n] st) ! j \<noteq> 0
      \<longleftrightarrow> (if i \<le> j \<and> j < i + Suc n then j - i < B - held st else ab_mrs st ! j \<noteq> 0)" if "j < length (ab_mrs st)" for j
    unfolding r using IH that s(2,3,4,5) by (cases "j = i") auto
  then show ?case unfolding r using IH s(2,6) by (simp add: r)
qed simp

lemma reregister_register:
  fixes q :: tenant_quota and m :: u64 and base :: nat
  assumes d: "abuse_driver_ok p env"
  shows "holding p t q m base MR_SIZE st \<Longrightarrow> i + n \<le> length (ab_mrs st) \<Longrightarrow> (\<forall>j. i \<le> j \<and> j < i + n \<longrightarrow> ab_mrs st ! j = 0) \<Longrightarrow>
    held st + n \<le> region_room q m base MR_SIZE \<Longrightarrow>
    reregister_batch env pd [i..<i + n] st = register_all env pd [i..<i + n] st"
proof (induction n arbitrary: i st)
  case (Suc n)
  define st1 where "st1 = register_region env pd MR_SIZE IBV_ACCESS_LOCAL_WRITE i st"
  have i: "i < length (ab_mrs st)" "ab_mrs st ! i = 0" using Suc.prems by simp_all
  note s = register_region_step [OF d Suc.prems(1) i, where pd = pd and acc = IBV_ACCESS_LOCAL_WRITE, folded st1_def]
  have "ab_mrs st1 ! i \<noteq> 0" using s(4) Suc.prems(4) by simp
  moreover have "reregister_batch env pd [Suc i..<Suc i + n] st1 = register_all env pd [Suc i..<Suc i + n] st1"
    using Suc.prems s(2,3,5) by (intro Suc.IH [OF s(1)]) auto
  ultimately show ?case unfolding upt_Suc_add by (simp add: st1_def [symmetric] Let_def)
qed simp

lemma deregister_range:
  fixes q :: tenant_quota and m :: u64 and base :: nat
  assumes d: "abuse_driver_ok p env"
  shows "holding p t q m base len st \<Longrightarrow> i + n \<le> length (ab_mrs st) \<Longrightarrow> (\<forall>j. i \<le> j \<and> j < i + n \<longrightarrow> ab_mrs st ! j \<noteq> 0) \<Longrightarrow>
    holding p t q m base len (deregister_batch env len [i..<i + n] st)
    \<and> length (ab_mrs (deregister_batch env len [i..<i + n] st)) = length (ab_mrs st)
    \<and> held (deregister_batch env len [i..<i + n] st) + n = held st
    \<and> ab_calls (deregister_batch env len [i..<i + n] st) = ab_calls st + n
    \<and> (\<forall>j. ab_mrs (deregister_batch env len [i..<i + n] st) ! j = (if i \<le> j \<and> j < i + n then 0 else ab_mrs st ! j))"
proof (induction n arbitrary: i st)
  case (Suc n)
  have i: "i < length (ab_mrs st)" "ab_mrs st ! i \<noteq> 0" using Suc.prems by simp_all
  obtain rc st1 where r: "release_region env len i st = (rc, st1)" by fastforce
  note s = release_region_step [OF d Suc.prems(1) i r]
  define st2 where "st2 = st1\<lparr>ab_mrs := (ab_mrs st1)[i := 0]\<rparr>"
  note s = s [folded st2_def]
  have e: "deregister_batch env len [i..<i + Suc n] st = deregister_batch env len [Suc i..<Suc i + n] st2"
    unfolding upt_Suc_add using i r s(6) by (simp add: st2_def)
  have c: "ab_calls st2 = Suc (ab_calls st)" using s(5) by (simp add: st2_def)
  have "Suc i + n \<le> length (ab_mrs st2)" "\<forall>j. Suc i \<le> j \<and> j < Suc i + n \<longrightarrow> ab_mrs st2 ! j \<noteq> 0"
    using Suc.prems s(3) by auto
  note IH = Suc.IH [OF s(2) this]
  have "ab_mrs (deregister_batch env len [i..<i + Suc n] st) ! j = (if i \<le> j \<and> j < i + Suc n then 0 else ab_mrs st ! j)" for j
    unfolding e using IH s(3) i(1) by (cases "j = i") auto
  then show ?case unfolding e using IH s(3,4) c by (simp add: e)
qed simp

text \<open>The first \<open>k\<close> places hold a region and the others do not.\<close>

definition prefix_held :: "nat \<Rightarrow> nat \<Rightarrow> abuse \<Rightarrow> bool" where
  "prefix_held n k st \<longleftrightarrow> length (ab_mrs st) = n \<and> k \<le> n \<and> (\<forall>j<n. ab_mrs st ! j \<noteq> 0 \<longleftrightarrow> j < k)"

lemma prefix_held_count: "prefix_held n k st \<Longrightarrow> held st = k"
proof -
  assume p: "prefix_held n k st"
  have "{j. j < length (ab_mrs st) \<and> ab_mrs st ! j \<noteq> 0} = {..<k}"
    using p unfolding prefix_held_def by (metis (mono_tags, lifting) lessThan_def Collect_cong order_less_le_trans)
  then show ?thesis by (simp add: held_def length_filter_conv_card)
qed

lemma attack_cycle_step:
  fixes q :: tenant_quota and m :: u64 and base :: nat
  assumes d: "abuse_driver_ok p env" and g: "holding p t q m base MR_SIZE st" and k: "prefix_held n k st" and b: "b \<le> k"
  shows "holding p t q m base MR_SIZE (attack_cycle env pd b st) \<and> prefix_held n k (attack_cycle env pd b st)
    \<and> ab_calls (attack_cycle env pd b st) = ab_calls st + 2 * b"
proof -
  define st1 where "st1 = deregister_batch env MR_SIZE [0..<b] st"
  have "0 + b \<le> length (ab_mrs st)" "\<forall>j. 0 \<le> j \<and> j < 0 + b \<longrightarrow> ab_mrs st ! j \<noteq> 0"
    using k b by (auto simp: prefix_held_def)
  note s1 = deregister_range [OF d g this, simplified, folded st1_def]
  have h: "held st = k" using prefix_held_count k by blast
  have room: "held st1 + b \<le> region_room q m base MR_SIZE" using s1 g by (simp add: holding_def)
  have z: "0 + b \<le> length (ab_mrs st1)" "\<forall>j. 0 \<le> j \<and> j < 0 + b \<longrightarrow> ab_mrs st1 ! j = 0"
    using s1 k b by (auto simp: prefix_held_def)
  have g1: "holding p t q m base MR_SIZE st1" using s1 by simp
  have e: "attack_cycle env pd b st = register_all env pd [0..<b] st1"
    using reregister_register [OF d g1 z room] by (simp add: attack_cycle_def st1_def)
  have f: "ab_mrs (register_all env pd [0..<b] st1) ! j \<noteq> 0 \<longleftrightarrow> j < k" if "j < n" for j
    using register_range [OF d g1 z, where pd = pd] s1 k that room b by (auto simp: prefix_held_def)
  show ?thesis unfolding e using register_range [OF d g1 z, where pd = pd] s1 k f by (auto simp: prefix_held_def)
qed

lemma attack_cycles:
  fixes q :: tenant_quota and m :: u64 and base :: nat
  assumes d: "abuse_driver_ok p env" and g: "holding p t q m base MR_SIZE st" and k: "prefix_held n k st" and b: "b \<le> k"
  shows "holding p t q m base MR_SIZE ((attack_cycle env pd b ^^ j) st) \<and> prefix_held n k ((attack_cycle env pd b ^^ j) st)
    \<and> ab_calls ((attack_cycle env pd b ^^ j) st) = ab_calls st + 2 * b * j"
proof (induction j)
  case (Suc j)
  then have "holding p t q m base MR_SIZE ((attack_cycle env pd b ^^ j) st)" "prefix_held n k ((attack_cycle env pd b ^^ j) st)"
    by simp_all
  from attack_cycle_step [OF d this b, of pd] Suc show ?case by simp
qed (use g k in simp)

text \<open>The loop runs until the first reading of the clock past the deadline.\<close>

lemma attack_loop_result:
  "attack_elapsed env (Suc (k + n)) \<ge> dur \<Longrightarrow> (\<forall>j<n. attack_elapsed env (Suc (k + j)) < dur) \<Longrightarrow>
   attack_loop env pd b dur k st = Some (k + n, (attack_cycle env pd b ^^ n) st)"
proof (induction n arbitrary: k st)
  case 0
  then show ?case by (simp add: attack_loop.simps)
next
  case (Suc n)
  have "attack_loop env pd b dur (Suc k) (attack_cycle env pd b st)
      = Some (Suc k + n, (attack_cycle env pd b ^^ n) (attack_cycle env pd b st))"
    using Suc.prems by (intro Suc.IH) force+
  moreover have "attack_elapsed env (Suc k) < dur" using Suc.prems(2) by force
  ultimately show ?case by (simp add: attack_loop.simps [of env pd b dur k] funpow_swap1)
qed

lemma attack_start_held:
  fixes n :: nat
  assumes d: "abuse_driver_ok p env" and a: "active_app p t h"
  defines "q \<equiv> fst (usage_of p t h)" and "m \<equiv> tu_memory_used (snd (usage_of p t h))" and "base \<equiv> mr_in_use p t h"
    and "k \<equiv> min n (mr_budget MR_SIZE p t h)"
  shows "holding p t q m base MR_SIZE (attack_start env pd n h) \<and> prefix_held n k (attack_start env pd n h)
    \<and> ab_calls (attack_start env pd n h) = n"
proof -
  let ?st = "\<lparr>ab_mrs = replicate n 0, ab_calls = 0, ab_state = h\<rparr>"
  have z: "held ?st = 0" by (simp add: held_def)
  have g: "holding p t q m base MR_SIZE ?st" using a by (simp add: holding_def q_def m_def base_def z)
  have "0 + n \<le> length (ab_mrs ?st)" "\<forall>j. 0 \<le> j \<and> j < 0 + n \<longrightarrow> ab_mrs ?st ! j = 0" by simp_all
  note r = register_range [OF d g this, where pd = pd]
  have "region_room q m base MR_SIZE = mr_budget MR_SIZE p t h" using holding_budget [OF g] by (simp add: z)
  with r z show ?thesis by (auto simp: attack_start_def prefix_held_def k_def)
qed

lemma release_all_counts:
  assumes d: "abuse_driver_ok p env"
  shows "active_app p t (ab_state st) \<Longrightarrow> active_app p t (ab_state (release_all env len is st))
    \<and> tu_mr_count (snd (usage_of p t (ab_state (release_all env len is st)))) =
      tu_mr_count (snd (usage_of p t (ab_state st))) - of_nat (length (filter (\<lambda>i. ab_mrs st ! i \<noteq> 0) is))"
proof (induction "is" arbitrary: st)
  case (Cons i "is")
  show ?case
  proof (cases "ab_mrs st ! i = 0")
    case True
    with Cons show ?thesis by simp
  next
    case False
    let ?e = "ab_hook env (ab_calls st)" and ?h = "ab_state st"
    let ?c = "HDeregMr ?e (ab_mrs st ! i) len"
    obtain rc err h' where e: "ibv_dereg_mr ?e (Some (ab_mrs st ! i, len)) ?h = (rc, err, h')" by (metis prod_cases3)
    have pid: "he_pid (op_env ?c) = p" using d by (simp add: abuse_driver_ok_def driver_grants_def)
    have h': "h' = hook_exec ?c ?h" using e by simp
    have "hook_answer ?c ?h = ACode 0 None"
      using tenant_app_step(2) [of p t ?h ?c] pid Cons.prems d by (simp add: active_app_def abuse_driver_ok_def)
    note c = app_counts(1,3) [OF Cons.prems pid, folded h'] this
    define st1 where "st1 = snd (release_region env len i st)"
    have st1: "ab_mrs st1 = ab_mrs st" "ab_state st1 = h'" by (simp_all add: st1_def release_region_def e)
    have "tu_mr_count (snd (usage_of p t (ab_state st1))) = tu_mr_count (snd (usage_of p t ?h)) - 1"
      using c(2) [of 1] c(3) by (simp add: counter_def st1)
    moreover have "active_app p t (ab_state st1)" using c(1) by (simp add: st1)
    ultimately show ?thesis using False Cons.IH [of st1] by (simp add: st1(1) flip: st1_def)
  qed
qed simp

lemma count_indices: "length (filter (\<lambda>i. xs ! i \<noteq> 0) [0..<length xs]) = length (filter (\<lambda>x. x \<noteq> (0 :: u64)) xs)"
  by (metis (no_types, lifting) comp_def filter_map length_map map_nth filter_cong)

lemma attack_cleanup_restores:
  fixes q :: tenant_quota and m :: u64
  assumes d: "abuse_driver_ok p env" and g: "holding p t q m base MR_SIZE st" and n: "length (ab_mrs st) = n"
    and base: "base = unat x"
  shows "tu_mr_count (snd (usage_of p t (attack_cleanup env pd n st))) = x"
proof -
  have act: "active_app p t (ab_state st)" using g by (simp add: holding_def)
  note r = release_all_counts [OF d act, where len = MR_SIZE, of "[0..<n]"]
  let ?h = "ab_state (release_all env MR_SIZE [0..<n] st)" and ?c = "HDeallocPd (ab_dealloc_pd env) pd"
  have pid: "he_pid (op_env ?c) = p" using d by (simp add: abuse_driver_ok_def)
  have "tu_mr_count (snd (usage_of p t (hook_exec ?c ?h))) = tu_mr_count (snd (usage_of p t ?h))"
    using app_counts(3) [OF conjunct1 [OF r] pid, of 1] by (simp add: counter_def)
  moreover have "unat (tu_mr_count (snd (usage_of p t (ab_state st)))) = base + held st"
    using g by (simp add: holding_def mr_in_use_def)
  then have "tu_mr_count (snd (usage_of p t (ab_state st))) = of_nat (base + held st)"
    by (metis of_nat_unat ucast_id)
  moreover have "length (filter (\<lambda>i. ab_mrs st ! i \<noteq> 0) [0..<n]) = held st"
    using count_indices [of "ab_mrs st"] n by (simp add: held_def)
  ultimately show ?thesis using r by (simp add: attack_cleanup_def base)
qed

section \<open>Property of the attacker\<close>

text \<open>
  C11 (the attack stays within the quota, and the quota does not slow it down). A process of an active
  tenant runs the attacker under the layer, with a driver that grants everything and a clock that
  passes the deadline first at the head of cycle \<open>K\<close>. Then the program returns; it holds as many
  regions as the quota still allows, or all it wants; when these are fewer than the batch it gives
  up. Otherwise its loop makes \<open>K\<close> cycles from the state after the first registrations; after
  every one of them it holds exactly as many regions, and every registration of it succeeded at the
  first try (\<open>2 b\<close> hooks a cycle). The program ends with the clean-up of the state its loop left,
  and afterwards the tenant's number of regions is what it was.
\<close>

theorem attack_within_quota:
  assumes d: "abuse_driver_ok p env" and dev: "ab_devices env \<noteq> []" and a: "active_app p t h"
    and o: "attack_options opts attack_defaults = Inr c"
    and time: "sint (at_duration_ms c) \<le> attack_elapsed env (Suc K)"
      "\<forall>j<K. attack_elapsed env (Suc j) < sint (at_duration_ms c)"
  shows "case ibv_alloc_pd (ab_pd env) (ab_ctx env) h of (pd, _, h1) \<Rightarrow>
    let n = nat (sint (at_num_mrs c)); b = nat (sint (at_batch_size c)); k = min n (mr_budget MR_SIZE p t h);
        st = (\<lambda>j. (attack_cycle env pd b ^^ j) (attack_start env pd n h1));
        final = (if int k < sint (at_batch_size c) then st 0 else st K)
    in attack_main env opts h =
         Some (0, Some (if int k < sint (at_batch_size c) then NotEnough k
                        else Completed k K (attack_elapsed env (K + 2))), attack_cleanup env pd n final)
     \<and> (b \<le> k \<longrightarrow> attack_loop env pd b (sint (at_duration_ms c)) 0 (st 0) = Some (K, st K)
         \<and> (\<forall>j. held (st j) = k \<and> mr_in_use p t (ab_state (st j)) = mr_in_use p t h + k
              \<and> ab_calls (st j) = n + 2 * b * j))
     \<and> mr_in_use p t (attack_cleanup env pd n final) = mr_in_use p t h"
proof -
  let ?pd = "he_driver_ptr (ab_pd env)" and ?alloc = "HAllocPd (ab_pd env) (ab_ctx env)"
  let ?n = "nat (sint (at_num_mrs c))" and ?b = "nat (sint (at_batch_size c))"
  define h1 where "h1 = hook_exec ?alloc h"
  have pid: "he_pid (op_env ?alloc) = p" using d by (simp add: abuse_driver_ok_def)
  note c1 = app_counts [OF a pid, folded h1_def]
  have use1: "tu_mr_count (snd (usage_of p t h1)) = tu_mr_count (snd (usage_of p t h))"
    using c1(3) [of 1] by (simp add: counter_def)
  have bud: "mr_budget MR_SIZE p t h1 = mr_budget MR_SIZE p t h" using alloc_pd_budget [OF a] pid by (simp add: h1_def)
  have "hook_answer ?alloc h = APtr ?pd None"
    using tenant_app_step(2) [of p t h ?alloc] pid a d by (simp add: active_app_def abuse_driver_ok_def view_create_def)
  then obtain e where set: "ibv_alloc_pd (ab_pd env) (ab_ctx env) h = (?pd, e, h1)"
    using h1_def by (cases "ibv_alloc_pd (ab_pd env) (ab_ctx env) h") simp
  define k where "k = min ?n (mr_budget MR_SIZE p t h)"
  define st where "st = attack_start env ?pd ?n h1"
  define q m where "q = fst (usage_of p t h1)" and "m = tu_memory_used (snd (usage_of p t h1))"
  have g: "holding p t q m (mr_in_use p t h1) MR_SIZE st" and pre: "prefix_held ?n k st" and calls: "ab_calls st = ?n"
    using attack_start_held [OF d c1(1), where n = ?n and pd = ?pd] by (simp_all add: st_def q_def m_def bud k_def)
  have held: "held st = k" using prefix_held_count pre by blast
  have inuse: "mr_in_use p t h1 = mr_in_use p t h" by (simp add: mr_in_use_def use1)
  have fin: "mr_in_use p t (attack_cleanup env ?pd ?n st') = mr_in_use p t h"
    if "holding p t q m (mr_in_use p t h1) MR_SIZE st'" "prefix_held ?n k st'" for st'
    using attack_cleanup_restores [OF d that(1) _ mr_in_use_def, where n = ?n and pd = ?pd] that(2) use1
    by (simp add: prefix_held_def mr_in_use_def)
  show ?thesis
  proof (cases "int k < sint (at_batch_size c)")
    case True
    then have "attack_main env opts h = Some (0, Some (NotEnough k), attack_cleanup env ?pd ?n st)"
      using dev o set held by (simp add: attack_main_def Let_def st_def)
    moreover have "\<not> ?b \<le> k" using True by linarith
    ultimately show ?thesis using True fin [OF g pre]
      unfolding set prod.case Let_def k_def [symmetric] st_def [symmetric] by simp
  next
    case False
    then have b: "?b \<le> k" by linarith
    note cy = attack_cycles [OF d g pre b, where pd = ?pd]
    let ?st = "(attack_cycle env ?pd ?b ^^ K) st"
    have loop: "attack_loop env ?pd ?b (sint (at_duration_ms c)) 0 st = Some (K, ?st)"
      using attack_loop_result [of "sint (at_duration_ms c)" env 0 K ?pd ?b st] time by simp
    then have main: "attack_main env opts h
        = Some (0, Some (Completed k K (attack_elapsed env (K + 2))), attack_cleanup env ?pd ?n ?st)"
      using dev o set held False by (simp add: attack_main_def Let_def st_def)
    have "held ((attack_cycle env ?pd ?b ^^ j) st) = k" for j using cy prefix_held_count by blast
    moreover have "mr_in_use p t (ab_state ((attack_cycle env ?pd ?b ^^ j) st)) = mr_in_use p t h + k" for j
      using cy [of j] inuse calculation by (simp add: holding_def)
    ultimately show ?thesis using main loop False cy [of K] fin [of ?st] cy calls
      unfolding set prod.case Let_def k_def [symmetric] st_def [symmetric] by simp
  qed
qed

text \<open>Tenant 1 may have 1000 regions: the attacker gets the 50 it asks for, and cycles 10 of them for
  25 seconds, with a clock that advances 10 seconds a cycle.\<close>

definition demo_abuse :: abuse_env where
  "demo_abuse = \<lparr>ab_devices = [''mlx5_0''], ab_ctx = 1, ab_pd = demo_env, ab_hook = (\<lambda>_. demo_env),
     ab_dealloc_pd = demo_env, ab_buf = (\<lambda>_. 4096), ab_clock = (\<lambda>i. (of_nat (10 * i), 0)),
     ab_timing = (\<lambda>_. ((0, 0), (0, 0)))\<rparr>"

lemma demo_abuse_driver: "abuse_driver_ok 42 demo_abuse" "mr_budget MR_SIZE 42 1 (app_view two_processes 42) = 1000"
proof -
  show "abuse_driver_ok 42 demo_abuse"
    by (simp add: abuse_driver_ok_def demo_abuse_def driver_grants_def demo_env_def)
  show "mr_budget MR_SIZE 42 1 (app_view two_processes 42) = 1000"
    using demo_app by (simp add: mr_budget_def mr_in_use_def default_tenant_quota_def zero_tenant_usage_def MR_SIZE_def)
qed

theorem attack_within_quota_witness:
  "\<exists>h'. attack_main demo_abuse [] (app_view two_processes 42) = Some (0, Some (Completed 50 2 40000), h')
    \<and> mr_in_use 42 1 h' = mr_in_use 42 1 (app_view two_processes 42)"
proof -
  have e: "attack_elapsed demo_abuse 1 = 10000" "attack_elapsed demo_abuse 2 = 20000" "attack_elapsed demo_abuse 3 = 30000"
    "attack_elapsed demo_abuse 4 = 40000"
    by (simp_all add: attack_elapsed_def demo_abuse_def)
  have o: "attack_options [] attack_defaults = Inr attack_defaults" by simp
  have "\<forall>j<2. attack_elapsed demo_abuse (Suc j) < 25000"
    using e by (auto simp: less_Suc_eq numeral_2_eq_2)
  then show ?thesis
    using attack_within_quota [OF demo_abuse_driver(1) _ demo_app(1) o, of 2] demo_abuse_driver(2) e
    by (auto simp: attack_defaults_def demo_abuse_def [THEN arg_cong, of ab_devices] Let_def)
qed

end
