(* ===== verification/Exp_Abuse.thy ===== *)
theory Exp_Abuse
  imports Exp_Attack
begin

text \<open>
  The test of the abuse of registrations in C++
  (\<open>paper_results/exp_mr_dereg/src/exp_mr_dereg_abuse.cpp\<close>), over the regions and the
  environment of \<open>Exp_Attack\<close>. It refuses to start without its device, stops the first phase at the first region it does not get,
  and rotates the batch over all places, also those that hold no region. \<open>None\<close> is also the result
  where the program has none: a negative number of regions (\<open>resize\<close> throws), a remainder by zero,
  or an index computed beyond the range of \<open>int\<close>.
\<close>

section \<open>The test\<close>

definition ABUSE_ACCESS :: i32 where "ABUSE_ACCESS = 7"

record abuse_config =
  tc_dev_name :: string
  tc_duration_sec :: i32
  tc_num_mrs :: i32
  tc_mr_size :: u64
  tc_batch_size :: i32

definition abuse_defaults :: abuse_config where
  "abuse_defaults = \<lparr>tc_dev_name = ''mlx5_0'', tc_duration_sec = 30, tc_num_mrs = 100, tc_mr_size = MR_SIZE,
     tc_batch_size = 10\<rparr>"

text \<open>\<open>None\<close> is the help; an option without its value, and an unknown one, is passed over.\<close>

fun abuse_args :: "string list \<Rightarrow> abuse_config \<Rightarrow> abuse_config option" where
  "abuse_args [] c = Some c"
| "abuse_args [a] c = (if a = ''-h'' \<or> a = ''--help'' then None else Some c)"
| "abuse_args (a # v # as) c =
     (if a = ''-d'' \<or> a = ''--device'' then abuse_args as (c\<lparr>tc_dev_name := v\<rparr>)
      else if a = ''-t'' \<or> a = ''--time'' then abuse_args as (c\<lparr>tc_duration_sec := atoi v\<rparr>)
      else if a = ''-n'' \<or> a = ''--num-mrs'' then abuse_args as (c\<lparr>tc_num_mrs := atoi v\<rparr>)
      else if a = ''-s'' \<or> a = ''--size'' then abuse_args as (c\<lparr>tc_mr_size := of_int (strtol v)\<rparr>)
      else if a = ''-b'' \<or> a = ''--batch'' then abuse_args as (c\<lparr>tc_batch_size := atoi v\<rparr>)
      else if a = ''-h'' \<or> a = ''--help'' then None
      else abuse_args (v # as) c)"

definition GetTimeUs :: "u64 \<times> u64 \<Rightarrow> u64" where
  "GetTimeUs tv = fst tv * 1000000 + snd tv"

text \<open>Whether the start succeeds, the protection domain (0 is \<open>nullptr\<close>) and the state.\<close>

definition abuse_init :: "abuse_env \<Rightarrow> abuse_config \<Rightarrow> hook_state \<Rightarrow> (bool \<times> u64 \<times> hook_state) option" where
  "abuse_init env c h =
     (if tc_dev_name c \<notin> set (ab_devices env) \<or> ab_ctx env = 0 then Some (False, 0, h)
      else
        let (pd, _, h) = ibv_alloc_pd (ab_pd env) (ab_ctx env) h
        in if pd = 0 then Some (False, 0, h)
           else if sint (tc_num_mrs c) < 0 then None
           else Some (list_all (\<lambda>i. ab_buf env i \<noteq> 0) [0..<nat (sint (tc_num_mrs c))], pd, h))"

fun AllocPhase :: "abuse_env \<Rightarrow> u64 \<Rightarrow> u64 \<Rightarrow> nat list \<Rightarrow> abuse \<Rightarrow> abuse" where
  "AllocPhase env pd len [] st = st"
| "AllocPhase env pd len (i # is) st =
     (let st = register_region env pd len ABUSE_ACCESS i st
      in if ab_mrs st ! i = 0 then st else AllocPhase env pd len is st)"

record abuse_stats =
  as_total_ops :: u64
  as_dereg_lat_total :: u64
  as_reg_lat_total :: u64

definition call_latency :: "abuse_env \<Rightarrow> nat \<Rightarrow> u64" where
  "call_latency env j = GetTimeUs (snd (ab_timing env j)) - GetTimeUs (fst (ab_timing env j))"

fun abuse_deregister :: "abuse_env \<Rightarrow> u64 \<Rightarrow> nat list \<Rightarrow> abuse \<times> abuse_stats \<Rightarrow> abuse \<times> abuse_stats" where
  "abuse_deregister env len [] x = x"
| "abuse_deregister env len (i # is) (st, s) =
     (if ab_mrs st ! i \<noteq> 0
      then let lat = call_latency env (ab_calls st); (rc, st) = release_region env len i st
           in abuse_deregister env len is
                (if rc \<noteq> 0 then (st, s)
                 else (st\<lparr>ab_mrs := (ab_mrs st)[i := 0]\<rparr>, s\<lparr>as_dereg_lat_total := as_dereg_lat_total s + lat\<rparr>))
      else abuse_deregister env len is (st, s))"

fun abuse_reregister :: "abuse_env \<Rightarrow> u64 \<Rightarrow> u64 \<Rightarrow> nat list \<Rightarrow> abuse \<times> abuse_stats \<Rightarrow> abuse \<times> abuse_stats" where
  "abuse_reregister env pd len [] x = x"
| "abuse_reregister env pd len (i # is) (st, s) =
     (if ab_mrs st ! i = 0
      then let lat = call_latency env (ab_calls st); st = register_region env pd len ABUSE_ACCESS i st
           in abuse_reregister env pd len is
                (if ab_mrs st ! i = 0 then (st, s)
                 else (st, s\<lparr>as_reg_lat_total := as_reg_lat_total s + lat, as_total_ops := as_total_ops s + 1\<rparr>))
      else abuse_reregister env pd len is (st, s))"

definition batch_indices :: "int \<Rightarrow> int \<Rightarrow> nat \<Rightarrow> nat list option" where
  "batch_indices n b k =
     (if n = 0 \<or> \<bar>int k * b\<bar> \<ge> 2 ^ 31 \<or> b > 0 \<and> (int k * b) mod n + b > 2 ^ 31 then None
      else Some (map (\<lambda>i. nat (((int k * b) mod n + int i) mod n)) [0..<nat b]))"

partial_function (option) AbusePhase ::
    "abuse_env \<Rightarrow> u64 \<Rightarrow> abuse_config \<Rightarrow> u64 \<Rightarrow> nat \<Rightarrow> abuse \<times> abuse_stats \<Rightarrow> (nat \<times> abuse \<times> abuse_stats) option" where
  "AbusePhase env pd c end_time k x =
     (if \<not> GetTimeUs (ab_clock env (Suc k)) < end_time then Some (k, x)
      else
        (case batch_indices (sint (tc_num_mrs c)) (sint (tc_batch_size c)) k of
           None \<Rightarrow> None
         | Some is \<Rightarrow>
             AbusePhase env pd c end_time (Suc k)
               (abuse_reregister env pd (tc_mr_size c) is (abuse_deregister env (tc_mr_size c) is x))))"

text \<open>The destructor: regions left over, then the protection domain.\<close>

definition Cleanup :: "abuse_env \<Rightarrow> u64 \<Rightarrow> u64 \<Rightarrow> abuse \<Rightarrow> hook_state" where
  "Cleanup env pd len st =
     (let h = ab_state (release_all env len [0..<length (ab_mrs st)] st)
      in if pd \<noteq> 0 then snd (snd (ibv_dealloc_pd (ab_dealloc_pd env) pd h)) else h)"

text \<open>Cycles, registrations, the two averages and the number of regions released at the end.\<close>

record abuse_summary =
  sm_cycles :: nat
  sm_ops :: u64
  sm_averages :: "(u64 \<times> u64) option"
  sm_released :: nat

definition DeallocPhase :: "abuse_env \<Rightarrow> u64 \<Rightarrow> nat \<Rightarrow> abuse \<Rightarrow> nat \<times> abuse" where
  "DeallocPhase env len n st = (held st, deregister_batch env len [0..<n] st)"

definition Run :: "abuse_env \<Rightarrow> abuse_config \<Rightarrow> hook_state \<Rightarrow> (abuse_summary option \<times> u64 \<times> abuse) option" where
  "Run env c h =
     (case abuse_init env c h of
        None \<Rightarrow> None
      | Some (ok, pd, h) \<Rightarrow>
          if \<not> ok then Some (None, pd, \<lparr>ab_mrs = [], ab_calls = 0, ab_state = h\<rparr>)
          else
            let n = nat (sint (tc_num_mrs c)); len = tc_mr_size c;
                st = AllocPhase env pd len [0..<n] \<lparr>ab_mrs = replicate n 0, ab_calls = 0, ab_state = h\<rparr>;
                end_time = GetTimeUs (ab_clock env 0) + scast (tc_duration_sec c * 1000000)
            in (case AbusePhase env pd c end_time 0
                       (st, \<lparr>as_total_ops = 0, as_dereg_lat_total = 0, as_reg_lat_total = 0\<rparr>) of
                  None \<Rightarrow> None
                | Some (cycles, st, s) \<Rightarrow>
                    let (count, st) = DeallocPhase env len n st
                    in Some (Some \<lparr>sm_cycles = cycles, sm_ops = as_total_ops s,
                          sm_averages = (if as_total_ops s > 0
                            then Some (as_dereg_lat_total s div as_total_ops s, as_reg_lat_total s div as_total_ops s) else None),
                          sm_released = count\<rparr>, pd, st)))"

text \<open>The exit code is 0 however the run went.\<close>

definition abuse_main ::
    "abuse_env \<Rightarrow> string list \<Rightarrow> hook_state \<Rightarrow> (int \<times> abuse_summary option \<times> hook_state) option" where
  "abuse_main env args h =
     (case abuse_args args abuse_defaults of
        None \<Rightarrow> Some (0, None, h)
      | Some c \<Rightarrow>
          (case Run env c h of
             None \<Rightarrow> None
           | Some (sm, pd, st) \<Rightarrow> Some (0, sm, Cleanup env pd (tc_mr_size c) st)))"

section \<open>The cycles of the abuse test\<close>

lemma held_card: "held st = card {j. j < length (ab_mrs st) \<and> ab_mrs st ! j \<noteq> 0}"
  by (simp add: held_def length_filter_conv_card)

lemma held_mono:
  assumes "length (ab_mrs st') = length (ab_mrs st)" "\<And>j. j < length (ab_mrs st) \<Longrightarrow> ab_mrs st ! j \<noteq> 0 \<Longrightarrow> ab_mrs st' ! j \<noteq> 0"
  shows "held st \<le> held st'"
  unfolding held_card by (rule card_mono) (use assms in auto)

lemma held_length: "held st \<le> length (ab_mrs st)"
  by (simp add: held_def)

lemma alloc_phase_held:
  fixes q :: tenant_quota and m :: u64 and base :: nat and len :: u64
  assumes d: "abuse_driver_ok p env"
  defines "B \<equiv> region_room q m base len"
  shows "holding p t q m base len st \<Longrightarrow> i + n \<le> length (ab_mrs st) \<Longrightarrow> (\<forall>j. i \<le> j \<and> j < i + n \<longrightarrow> ab_mrs st ! j = 0) \<Longrightarrow>
    holding p t q m base len (AllocPhase env pd len [i..<i + n] st)
    \<and> length (ab_mrs (AllocPhase env pd len [i..<i + n] st)) = length (ab_mrs st)
    \<and> held (AllocPhase env pd len [i..<i + n] st) = held st + min n (B - held st)"
proof (induction n arbitrary: i st)
  case (Suc n)
  define st1 where "st1 = register_region env pd len ABUSE_ACCESS i st"
  have i: "i < length (ab_mrs st)" "ab_mrs st ! i = 0" using Suc.prems by simp_all
  note s = register_region_step [OF d Suc.prems(1) i, where pd = pd and acc = ABUSE_ACCESS, folded st1_def B_def]
  have r: "AllocPhase env pd len [i..<i + Suc n] st = (if ab_mrs st1 ! i = 0 then st1 else AllocPhase env pd len [Suc i..<Suc i + n] st1)"
    unfolding upt_Suc_add by (simp add: st1_def Let_def)
  have "Suc i + n \<le> length (ab_mrs st1)" "\<forall>j. Suc i \<le> j \<and> j < Suc i + n \<longrightarrow> ab_mrs st1 ! j = 0"
    using Suc.prems s(2,3) by auto
  note IH = Suc.IH [OF s(1) this]
  show ?case
  proof (cases "held st < B")
    case True
    then have "ab_mrs st1 ! i \<noteq> 0" using s(4) by simp
    then show ?thesis unfolding r using IH s(2,5) True by (auto simp: min_def)
  next
    case False
    then have "ab_mrs st1 ! i = 0" using s(4) by simp
    then show ?thesis unfolding r using s(1,2,5) False by simp
  qed
qed simp

lemma abuse_deregister_step:
  fixes q :: tenant_quota and m :: u64 and base :: nat
  assumes d: "abuse_driver_ok p env"
  shows "holding p t q m base len st \<Longrightarrow> \<forall>i\<in>set is. i < length (ab_mrs st) \<Longrightarrow> abuse_deregister env len is (st, s) = (st', s') \<Longrightarrow>
    holding p t q m base len st' \<and> length (ab_mrs st') = length (ab_mrs st)
    \<and> (\<forall>j. ab_mrs st' ! j = (if j \<in> set is then 0 else ab_mrs st ! j))"
proof (induction "is" arbitrary: st s)
  case (Cons i "is")
  show ?case
  proof (cases "ab_mrs st ! i = 0")
    case True
    with Cons.IH [of st s] Cons.prems show ?thesis by auto
  next
    case False
    obtain rc st1 where r: "release_region env len i st = (rc, st1)" by fastforce
    have i: "i < length (ab_mrs st)" using Cons.prems(2) by simp
    note x = release_region_step [OF d Cons.prems(1) i False r]
    define st2 where "st2 = st1\<lparr>ab_mrs := (ab_mrs st1)[i := 0]\<rparr>"
    note x = x [folded st2_def]
    have "abuse_deregister env len is (st2, s\<lparr>as_dereg_lat_total := as_dereg_lat_total s + call_latency env (ab_calls st)\<rparr>) = (st', s')"
      using Cons.prems(3) False r x(1) by (simp add: st2_def Let_def)
    from Cons.IH [OF x(2) _ this] Cons.prems(2) x(3) i show ?thesis by (auto simp: nth_list_update)
  qed
qed simp

lemma abuse_reregister_step:
  fixes q :: tenant_quota and m :: u64 and base :: nat
  assumes d: "abuse_driver_ok p env"
  shows "holding p t q m base len st \<Longrightarrow> \<forall>i\<in>set is. i < length (ab_mrs st) \<Longrightarrow> abuse_reregister env pd len is (st, s) = (st', s') \<Longrightarrow>
    holding p t q m base len st' \<and> length (ab_mrs st') = length (ab_mrs st)
    \<and> (\<forall>j<length (ab_mrs st). ab_mrs st ! j \<noteq> 0 \<longrightarrow> ab_mrs st' ! j \<noteq> 0)
    \<and> (held st' = region_room q m base len \<or> (\<forall>i\<in>set is. ab_mrs st' ! i \<noteq> 0))"
proof (induction "is" arbitrary: st s)
  case (Cons i "is")
  have i: "i < length (ab_mrs st)" using Cons.prems(2) by simp
  show ?case
  proof (cases "ab_mrs st ! i = 0")
    case False
    with Cons.IH [of st s] Cons.prems show ?thesis by auto
  next
    case True
    define st1 where "st1 = register_region env pd len ABUSE_ACCESS i st"
    note x = register_region_step [OF d Cons.prems(1) i True, where pd = pd and acc = ABUSE_ACCESS, folded st1_def]
    obtain s1 where r: "abuse_reregister env pd len is (st1, s1) = (st', s')"
      using Cons.prems(3) True by (auto simp: st1_def Let_def split: if_splits)
    have "\<forall>i\<in>set is. i < length (ab_mrs st1)" using Cons.prems(2) x(2) by simp
    note IH = Cons.IH [OF x(1) this r]
    have keep: "ab_mrs st' ! j \<noteq> 0" if "j < length (ab_mrs st)" "ab_mrs st ! j \<noteq> 0" for j
      using IH that x(2,3) True by (metis)
    have "ab_mrs st' ! i \<noteq> 0 \<or> held st' = region_room q m base len"
    proof (cases "held st < region_room q m base len")
      case True
      then show ?thesis using IH x(2,4) i by auto
    next
      case False
      then have "region_room q m base len \<le> held st1" using x(5) by simp
      moreover have "held st1 \<le> held st'" using IH by (intro held_mono) auto
      ultimately show ?thesis using IH by (auto simp: holding_def)
    qed
    then show ?thesis using IH keep x(2) by auto
  qed
qed simp

lemma abuse_cycle_step:
  fixes q :: tenant_quota and m :: u64 and base :: nat
  assumes d: "abuse_driver_ok p env" and g: "holding p t q m base len st" and n: "length (ab_mrs st) = n"
    and k: "held st = min n (region_room q m base len)" and i: "\<forall>i\<in>set is. i < n"
    and r: "abuse_reregister env pd len is (abuse_deregister env len is (st, s)) = (st', s')"
  shows "holding p t q m base len st' \<and> length (ab_mrs st') = n \<and> held st' = min n (region_room q m base len)"
proof -
  obtain st1 s1 where r1: "abuse_deregister env len is (st, s) = (st1, s1)" by fastforce
  have r2: "abuse_reregister env pd len is (st1, s1) = (st', s')" using r r1 by simp
  note x = abuse_deregister_step [OF d g _ r1] and y = abuse_reregister_step [OF d _ _ r2]
  have x: "holding p t q m base len st1" "length (ab_mrs st1) = n" "\<And>j. ab_mrs st1 ! j = (if j \<in> set is then 0 else ab_mrs st ! j)"
    using x i n by auto
  have y: "holding p t q m base len st'" "length (ab_mrs st') = n"
    "\<forall>j<n. ab_mrs st1 ! j \<noteq> 0 \<longrightarrow> ab_mrs st' ! j \<noteq> 0"
    "held st' = region_room q m base len \<or> (\<forall>i\<in>set is. ab_mrs st' ! i \<noteq> 0)"
    using y [OF x(1)] i x(2) by auto
  have up: "held st' \<le> min n (region_room q m base len)" using y(1,2) held_length [of st'] by (simp add: holding_def)
  have "held st' = region_room q m base len \<or> held st \<le> held st'"
  proof (cases "held st' = region_room q m base len")
    case False
    have "ab_mrs st' ! j \<noteq> 0" if "j < length (ab_mrs st)" "ab_mrs st ! j \<noteq> 0" for j
      using that x(3) [of j] y(3,4) n False by (cases "j \<in> set is") simp_all
    with held_mono [of st' st] y(2) n show ?thesis by simp
  qed simp
  then show ?thesis using up y(1,2) k by auto
qed

text \<open>The loop keeps the number of regions, as long as the clock ends it before an index overflows.\<close>

lemma batch_indices_range:
  assumes "0 < n" "batch_indices n b k = Some is"
  shows "\<forall>i\<in>set is. i < nat n"
  using assms by (auto simp: batch_indices_def nat_less_iff split: if_splits)

lemma batch_indices_some:
  assumes "0 < n" "0 \<le> b" "int k * b < 2 ^ 31" "n + b \<le> 2 ^ 31"
  shows "\<exists>is. batch_indices n b k = Some is"
proof -
  have "(int k * b) mod n < n" using assms(1) by simp
  then have "\<not> (int k * b) mod n + b > 2 ^ 31" using assms(4) by linarith
  moreover have "\<bar>int k * b\<bar> = int k * b" using assms(2) by simp
  ultimately show ?thesis using assms(1,3) unfolding batch_indices_def by (metis linorder_not_less order_less_irrefl)
qed

lemma abuse_phase_result:
  fixes q :: tenant_quota and m :: u64 and base :: nat and c :: abuse_config
  assumes d: "abuse_driver_ok p env"
  defines "n \<equiv> sint (tc_num_mrs c)" and "b \<equiv> sint (tc_batch_size c)"
  assumes c: "0 < n" "0 \<le> b" "n + b \<le> 2 ^ 31"
  shows "holding p t q m base (tc_mr_size c) st \<Longrightarrow> length (ab_mrs st) = nat n \<Longrightarrow>
    held st = min (nat n) (region_room q m base (tc_mr_size c)) \<Longrightarrow>
    int (k + K) * b < 2 ^ 31 \<Longrightarrow> \<not> GetTimeUs (ab_clock env (Suc (k + K))) < end_time \<Longrightarrow>
    (\<forall>j<K. GetTimeUs (ab_clock env (Suc (k + j))) < end_time) \<Longrightarrow>
    \<exists>st' s'. AbusePhase env pd c end_time k (st, s) = Some (k + K, st', s')
      \<and> holding p t q m base (tc_mr_size c) st' \<and> length (ab_mrs st') = nat n
      \<and> held st' = min (nat n) (region_room q m base (tc_mr_size c))"
proof (induction K arbitrary: k st s)
  case 0
  then show ?case by (simp add: AbusePhase.simps)
next
  case (Suc K)
  have "int k * b \<le> int (k + Suc K) * b" using c(2) by (intro mult_right_mono) auto
  then obtain "is" where i: "batch_indices n b k = Some is" using batch_indices_some [OF c(1,2) _ c(3), of k] Suc.prems(4) by auto
  obtain st1 s1 where r: "abuse_reregister env pd (tc_mr_size c) is (abuse_deregister env (tc_mr_size c) is (st, s)) = (st1, s1)"
    by fastforce
  note x = abuse_cycle_step [OF d Suc.prems(1-3) batch_indices_range [OF c(1) i] r]
  have "GetTimeUs (ab_clock env (Suc k)) < end_time" using Suc.prems(6) by force
  then have "AbusePhase env pd c end_time k (st, s) = AbusePhase env pd c end_time (Suc k) (st1, s1)"
    using i r by (simp add: AbusePhase.simps [of env pd c end_time k] n_def b_def)
  moreover have "\<exists>st' s'. AbusePhase env pd c end_time (Suc k) (st1, s1) = Some (Suc k + K, st', s')
      \<and> holding p t q m base (tc_mr_size c) st' \<and> length (ab_mrs st') = nat n
      \<and> held st' = min (nat n) (region_room q m base (tc_mr_size c))"
    using x Suc.prems(4-6) by (intro Suc.IH) force+
  ultimately show ?case by simp
qed

text \<open>The last phase and the destructor give everything back.\<close>

lemma deregister_all:
  fixes q :: tenant_quota and m :: u64 and base :: nat
  assumes d: "abuse_driver_ok p env"
  shows "holding p t q m base len st \<Longrightarrow> \<forall>i\<in>set is. i < length (ab_mrs st) \<Longrightarrow>
    holding p t q m base len (deregister_batch env len is st)
    \<and> length (ab_mrs (deregister_batch env len is st)) = length (ab_mrs st)
    \<and> (\<forall>j. ab_mrs (deregister_batch env len is st) ! j = (if j \<in> set is then 0 else ab_mrs st ! j))"
proof (induction "is" arbitrary: st)
  case (Cons i "is")
  show ?case
  proof (cases "ab_mrs st ! i = 0")
    case True
    with Cons.IH [of st] Cons.prems show ?thesis by auto
  next
    case False
    obtain rc st1 where r: "release_region env len i st = (rc, st1)" by fastforce
    have i: "i < length (ab_mrs st)" using Cons.prems(2) by simp
    note x = release_region_step [OF d Cons.prems(1) i False r]
    define st2 where "st2 = st1\<lparr>ab_mrs := (ab_mrs st1)[i := 0]\<rparr>"
    note x = x [folded st2_def]
    have "deregister_batch env len (i # is) st = deregister_batch env len is st2"
      using False r x(6) by (simp add: st2_def)
    with Cons.IH [OF x(2)] Cons.prems(2) x(3) i show ?thesis by (auto simp: nth_list_update)
  qed
qed simp

lemma cleanup_restores:
  fixes q :: tenant_quota and m :: u64
  assumes d: "abuse_driver_ok p env" and g: "holding p t q m base len st" and z: "\<forall>j<length (ab_mrs st). ab_mrs st ! j = 0"
    and pd: "pd \<noteq> 0"
  shows "mr_in_use p t (Cleanup env pd len st) = base"
proof -
  have act: "active_app p t (ab_state st)" using g by (simp add: holding_def)
  have "held st = 0" using z by (simp add: held_card)
  then have b: "mr_in_use p t (ab_state st) = base" using g by (simp add: holding_def)
  let ?h = "ab_state (release_all env len [0..<length (ab_mrs st)] st)" and ?c = "HDeallocPd (ab_dealloc_pd env) pd"
  have "release_all env len is st = st" if "\<forall>i\<in>set is. i < length (ab_mrs st)" for "is"
    using that z by (induction "is") auto
  then have h: "?h = ab_state st" by simp
  have pid: "he_pid (op_env ?c) = p" using d by (simp add: abuse_driver_ok_def)
  have "mr_in_use p t (hook_exec ?c (ab_state st)) = base"
    using app_counts(3) [OF act pid, of 1] b by (simp add: mr_in_use_def counter_def)
  then show ?thesis using pd by (simp add: Cleanup_def h)
qed

text \<open>
  The abuse test holds exactly what the quota allows, whatever it rotates. Under the layer, with
  its device, its buffers, a driver that grants everything and a clock that passes the end first at
  the head of cycle \<open>K\<close>, before an index leaves the range of \<open>int\<close>, the program
  returns; it has made \<open>K\<close> cycles and then releases as many regions as the quota allowed at the
  start, or all its places; and the tenant's number of regions is what it was.
\<close>

theorem abuse_keeps_count:
  assumes d: "abuse_driver_ok p env" and dev: "tc_dev_name c \<in> set (ab_devices env)" "ab_ctx env \<noteq> 0" "\<forall>i. ab_buf env i \<noteq> 0"
    and a: "active_app p t h" and o: "abuse_args args abuse_defaults = Some c"
    and c: "0 < sint (tc_num_mrs c)" "0 \<le> sint (tc_batch_size c)" "sint (tc_num_mrs c) + sint (tc_batch_size c) \<le> 2 ^ 31"
      "int K * sint (tc_batch_size c) < 2 ^ 31"
    and time: "end_time = GetTimeUs (ab_clock env 0) + scast (tc_duration_sec c * 1000000)"
      "\<not> GetTimeUs (ab_clock env (Suc K)) < end_time" "\<forall>j<K. GetTimeUs (ab_clock env (Suc j)) < end_time"
  shows "\<exists>sm h'. abuse_main env args h = Some (0, Some sm, h') \<and> sm_cycles sm = K
    \<and> sm_released sm = min (nat (sint (tc_num_mrs c))) (mr_budget (tc_mr_size c) p t h)
    \<and> mr_in_use p t h' = mr_in_use p t h"
proof -
  let ?pd = "he_driver_ptr (ab_pd env)" and ?alloc = "HAllocPd (ab_pd env) (ab_ctx env)"
  let ?n = "nat (sint (tc_num_mrs c))" and ?len = "tc_mr_size c"
  define h1 where "h1 = hook_exec ?alloc h"
  have pid: "he_pid (op_env ?alloc) = p" "?pd \<noteq> 0" using d by (simp_all add: abuse_driver_ok_def)
  note c1 = app_counts [OF a pid(1), folded h1_def]
  have bud: "mr_budget ?len p t h1 = mr_budget ?len p t h" using alloc_pd_budget [OF a] pid(1) by (simp add: h1_def)
  have use1: "mr_in_use p t h1 = mr_in_use p t h" using c1(3) [of 1] by (simp add: counter_def mr_in_use_def)
  have "hook_answer ?alloc h = APtr ?pd None"
    using tenant_app_step(2) [of p t h ?alloc] pid a d by (simp add: active_app_def abuse_driver_ok_def view_create_def)
  then obtain e where set: "ibv_alloc_pd (ab_pd env) (ab_ctx env) h = (?pd, e, h1)"
    using h1_def by (cases "ibv_alloc_pd (ab_pd env) (ab_ctx env) h") simp
  have init: "abuse_init env c h = Some (True, ?pd, h1)"
    using dev c(1) pid(2) by (simp add: abuse_init_def set list_all_iff)
  let ?st0 = "\<lparr>ab_mrs = replicate ?n 0, ab_calls = 0, ab_state = h1\<rparr>"
  define q m where "q = fst (usage_of p t h1)" and "m = tu_memory_used (snd (usage_of p t h1))"
  define B where "B = region_room q m (mr_in_use p t h1) ?len"
  define st where "st = AllocPhase env ?pd ?len [0..<?n] ?st0"
  have z: "held ?st0 = 0" by (simp add: held_def)
  have g0: "holding p t q m (mr_in_use p t h1) ?len ?st0" using c1(1) by (simp add: holding_def q_def m_def z)
  have B: "B = mr_budget ?len p t h" using holding_budget [OF g0] z bud by (simp add: B_def)
  have "0 + ?n \<le> length (ab_mrs ?st0)" "\<forall>j. 0 \<le> j \<and> j < 0 + ?n \<longrightarrow> ab_mrs ?st0 ! j = 0" by simp_all
  note st = alloc_phase_held [OF d g0 this, where pd = ?pd, simplified, folded st_def B_def, unfolded z, simplified]
  have st: "holding p t q m (mr_in_use p t h1) ?len st" "length (ab_mrs st) = ?n" "held st = min ?n B" using st z by simp_all
  let ?s0 = "\<lparr>as_total_ops = 0, as_dereg_lat_total = 0, as_reg_lat_total = 0\<rparr>"
  obtain st1 s1 where r: "AbusePhase env ?pd c end_time 0 (st, ?s0) = Some (K, st1, s1)"
    and st1: "holding p t q m (mr_in_use p t h1) ?len st1" "length (ab_mrs st1) = ?n" "held st1 = min ?n B"
    using abuse_phase_result [OF d c(1-3) st [unfolded B_def], of 0 K end_time ?pd ?s0] c(4) time by (auto simp: B_def)
  define st2 where "st2 = deregister_batch env ?len [0..<?n] st1"
  have "\<forall>i\<in>set [0..<?n]. i < length (ab_mrs st1)" using st1(2) by simp
  from deregister_all [OF d st1(1) this, folded st2_def] st1(2)
  have st2: "holding p t q m (mr_in_use p t h1) ?len st2" "\<forall>j<length (ab_mrs st2). ab_mrs st2 ! j = 0" by auto
  show ?thesis
    using cleanup_restores [OF d st2 pid(2)] o init r st1(3) use1 time(1) B
    by (simp add: abuse_main_def Run_def DeallocPhase_def Let_def st_def [symmetric] st2_def [symmetric])
qed

text \<open>Three places, a batch of two and a region limit of the tenant of 1000; the clock passes the end
  of the two seconds at the third reading.\<close>

theorem abuse_keeps_count_witness:
  "\<exists>sm h'. abuse_main (demo_abuse\<lparr>ab_clock := (\<lambda>i. (of_nat i, 0))\<rparr>) [''-n'', ''3'', ''-b'', ''2'', ''-t'', ''2'']
      (app_view two_processes 42) = Some (0, Some sm, h')
    \<and> sm_cycles sm = 1 \<and> sm_released sm = 3"
proof -
  let ?env = "demo_abuse\<lparr>ab_clock := (\<lambda>i. (of_nat i, 0))\<rparr>" and ?args = "[''-n'', ''3'', ''-b'', ''2'', ''-t'', ''2'']"
  let ?c = "\<lparr>tc_dev_name = ''mlx5_0'', tc_duration_sec = 2, tc_num_mrs = 3, tc_mr_size = MR_SIZE, tc_batch_size = 2\<rparr>"
  have "atoi ''3'' = 3" "atoi ''2'' = 2"
    by (simp_all add: atoi_def strtol_def signed_prefix_def skip_space_def leading_digits_def is_space_def
        is_digit_def digits_value_def digit_value_def)
  then have o: "abuse_args ?args abuse_defaults = Some ?c" by (simp add: abuse_defaults_def)
  have d: "abuse_driver_ok 42 ?env" using demo_abuse_driver(1) by (simp add: abuse_driver_ok_def)
  have time: "\<not> GetTimeUs (ab_clock ?env (Suc 1)) < GetTimeUs (ab_clock ?env 0) + scast (tc_duration_sec ?c * 1000000)"
    "\<forall>j<1. GetTimeUs (ab_clock ?env (Suc j)) < GetTimeUs (ab_clock ?env 0) + scast (tc_duration_sec ?c * 1000000)"
    by (simp_all add: GetTimeUs_def)
  from abuse_keeps_count [OF d _ _ _ demo_app(1) o _ _ _ _ refl time] demo_abuse_driver(2) show ?thesis
    by (auto simp: demo_abuse_def)
qed

end
