(* ===== verification/Exp_Cycle.thy ===== *)
theory Exp_Cycle
  imports Exp_Effect
begin

text \<open>
  Programs that create a queue pair and destroy it at once, again and again: the test whether the
  interception works (\<open>experiments/exp2_multi_tenant_isolation/test_intercept.c\<close>) and the
  measurement of quota updates (\<open>experiments/exp5_dynamic_policy/src/exp5_hot_update_latency.c\<close>).
  What such a cycle does under the layer is studied once: it never has more than one queue pair, but
  destroying one does not take it out of the slot of the process, which therefore stays one ahead.
\<close>

section \<open>The cycle\<close>

definition create_destroy :: "hook_env \<Rightarrow> hook_env \<Rightarrow> u64 \<Rightarrow> qp_init_attr \<Rightarrow> hook_state \<Rightarrow> u64 \<times> i32 option \<times> hook_state" where
  "create_destroy c d pd attr h =
     (let (qp, err, h) = ibv_create_qp c pd attr h
      in (qp, err, if qp \<noteq> 0 then snd (snd (ibv_destroy_qp d qp h)) else h))"

text \<open>An application between two cycles; \<open>used\<close> when one has succeeded.\<close>

definition cycle_app :: "pid_t \<Rightarrow> u32 \<Rightarrow> bool \<Rightarrow> hook_state \<Rightarrow> bool" where
  "cycle_app p t used h \<longleftrightarrow> active_app p t h \<and> enable_qp_control (st_config (hk_core h))
     \<and> st_qp_count (hk_core h) \<le> max_qp_per_process (st_config (hk_core h)) \<and> max_qp_per_process (st_config (hk_core h)) \<noteq> -1
     \<and> (if used then st_qp_count (hk_core h) < max_qp_per_process (st_config (hk_core h))
          \<and> (\<exists>u. proc_view (hk_shm h) p = Some u \<and> qp_count u = st_qp_count (hk_core h) + 1)
        else slot_current p h)"

lemma qp_app_cycle: "qp_app env p t h \<Longrightarrow> cycle_app p t False h"
  by (simp add: qp_app_def cycle_app_def)

text \<open>Room for one more by the quota, the type and the global count; and by the slot.\<close>

definition cycle_room :: "qp_init_attr \<Rightarrow> pid_t \<Rightarrow> u32 \<Rightarrow> bool \<Rightarrow> hook_state \<Rightarrow> bool" where
  "cycle_room attr p t used h \<longleftrightarrow> 0 < qp_budget attr p t h
     \<and> (used \<longrightarrow> Suc (unat (st_qp_count (hk_core h))) < unat (max_qp_per_process (st_config (hk_core h))))"

lemma cycle_room_view:
  assumes a: "cycle_app p t used h"
  shows "view_qp_room attr (hook_view_of p t h) = cycle_room attr p t used h"
proof (cases used)
  case False
  let ?env = "\<lambda>i :: nat. (undefined :: hook_env)\<lparr>he_pid := p, he_driver_ptr := 1\<rparr>"
  have "qp_app ?env p t h" using a False by (simp add: cycle_app_def qp_app_def driver_grants_def)
  from qp_room_budget [OF this, of attr] False show ?thesis by (simp add: cycle_room_def)
next
  case True
  let ?n = "st_qp_count (hk_core h)" and ?m = "max_qp_per_process (st_config (hk_core h))"
  obtain u where u: "proc_view (hk_shm h) p = Some u" "qp_count u = ?n + 1" and lt: "?n < ?m" and max: "?m \<noteq> -1"
    using a True by (auto simp: cycle_app_def)
  have one: "unat (?n + 1) = Suc (unat ?n)" using lt by (simp add: unat_add_one word_less_nat_alt)
  have "?n + 1 \<le> ?m" using lt one by (simp add: word_le_nat_alt word_less_nat_alt)
  then have room: "?n + 1 + 1 \<le> ?m \<longleftrightarrow> Suc (unat ?n) < unat ?m" using next_le [of "?n + 1" ?m] max one by simp
  have "view_qp_room attr (hook_view_of p t h) \<longleftrightarrow>
      qp_type_allowed (st_config (hk_core h)) attr
      \<and> tu_qp_count (snd (usage_of p t h)) < max_qp_per_tenant (fst (usage_of p t h))
      \<and> ?n + 1 + 1 \<le> ?m
      \<and> (case shm_get_global_resources True (hk_shm h) of (rc, g) \<Rightarrow>
          rc = 0 \<longrightarrow> (case g of None \<Rightarrow> True | Some g \<Rightarrow> qp_count g < max_global_qp (st_config (hk_core h))))"
    using a active_app_usage [of p t h] u
    by (auto simp: cycle_app_def view_qp_room_def hook_view_of_def Let_def split: option.splits)
  with room lt True show ?thesis
    by (auto simp: cycle_room_def qp_budget_def qp_in_use_def word_less_nat_alt Let_def split: prod.splits)
qed

section \<open>One cycle\<close>

text \<open>A cycle succeeds when there is room, and leaves all but the slot as it was.\<close>

lemma cycle_step:
  assumes a: "cycle_app p t used h" and c: "he_pid c = p" "he_driver_ptr c \<noteq> 0" and d: "he_pid d = p" "he_driver_rc d = 0"
    and r: "create_destroy c d pd attr h = (qp, err, h')"
  shows "qp \<noteq> 0 \<longleftrightarrow> cycle_room attr p t used h" "cycle_app p t (used \<or> qp \<noteq> 0) h'" "qp = 0 \<longrightarrow> err = Some EPERM"
    "hk_core h' = hk_core h" "fst (usage_of p t h') = fst (usage_of p t h)"
    "\<forall>ty\<in>{0, 1, 3, 4}. counter ty (snd (usage_of p t h')) = counter ty (snd (usage_of p t h))"
    "shm_get_global_resources True (hk_shm h') = shm_get_global_resources True (hk_shm h)"
proof -
  let ?c = "HCreateQp c pd attr"
  obtain h1 where cr: "ibv_create_qp c pd attr h = (qp, err, h1)" using r by (auto simp: create_destroy_def split: prod.splits if_splits)
  have act: "active_app p t h" and app: "tenant_app p t h" using a by (simp_all add: cycle_app_def active_app_def)
  have pid: "he_pid (op_env ?c) = p" using c by simp
  note s = tenant_app_step [OF app pid]
  have h1: "h1 = hook_exec ?c h" using cr by simp
  note room = cycle_room_view [OF a, of attr]
  show ok: "qp \<noteq> 0 \<longleftrightarrow> cycle_room attr p t used h" and "qp = 0 \<longrightarrow> err = Some EPERM"
    using s(2) cr c(2) room by (auto split: if_splits)
  note c1 = app_counts [OF act pid, folded h1]
  have "cycle_app p t (used \<or> qp \<noteq> 0) h' \<and> hk_core h' = hk_core h \<and> fst (usage_of p t h') = fst (usage_of p t h)
      \<and> (\<forall>ty\<in>{0, 1, 3, 4}. counter ty (snd (usage_of p t h')) = counter ty (snd (usage_of p t h)))
      \<and> shm_get_global_resources True (hk_shm h') = shm_get_global_resources True (hk_shm h)"
  proof (cases "qp = 0")
    case True
    then have h': "h' = h1" using r cr by (simp add: create_destroy_def)
    have v: "hook_view_of p t h' = hook_view_of p t h" using s(3) True ok room h1 h' by simp
    then have same: "hk_core h' = hk_core h" "proc_view (hk_shm h') p = proc_view (hk_shm h) p"
      "shm_get_global_resources True (hk_shm h') = shm_get_global_resources True (hk_shm h)" "usage_of p t h' = usage_of p t h"
      by (metis view_selectors, metis view_selectors, metis view_selectors, simp add: usage_of_def)
    have "slot_current p h' = slot_current p h" unfolding slot_current_def same ..
    moreover have "active_app p t h'" using c1(1) h' by simp
    ultimately have "cycle_app p t used h'" using a unfolding cycle_app_def same by simp
    then show ?thesis
      using True by (simp add: same)
  next
    case False
    let ?d = "HDestroyQp d qp" and ?v = "hook_view_of p t h" and ?core = "one_more_qp (hk_core h)"
    have h': "h' = hook_exec ?d h1" using r cr False by (simp add: create_destroy_def)
    have pid2: "he_pid (op_env ?d) = p" using d by simp
    have app1: "tenant_app p t h1" using c1(1) by (simp add: active_app_def)
    note s2 = tenant_app_step [OF app1 pid2, folded h']
    note c2 = app_counts [OF c1(1) pid2, folded h']
    have v1: "hook_view_of p t h1 = (count_view 0 1 ?v)\<lparr>hv_core := ?core, hv_slot := Some (core_usage ?core)\<rparr>"
      using s(3) False ok room c(2) h1 by (simp add: view_selectors)
    have n: "unat (st_qp_count (hk_core h)) < unat (max_qp_per_process (st_config (hk_core h)))"
      using False ok by (auto simp: cycle_room_def qp_budget_def Let_def split: prod.splits if_splits)
    have pos: "st_qp_count (hk_core h) + 1 \<noteq> 0" using n by (metis unat_add_one word_less_nat_alt nat.distinct(1) unsigned_0)
    have v2: "hook_view_of p t h' = (count_view 0 (-1) (hook_view_of p t h1))\<lparr>hv_core := less_one_qp (hv_core (hook_view_of p t h1))\<rparr>"
      using s2(3) d(2) by simp
    have core: "hk_core h' = hk_core h"
      using v2 v1 view_selectors(1) [of p t h'] pos
      by (simp add: count_view_def less_one_qp_def one_more_qp_def word_greater_zero_iff)
    have slot: "proc_view (hk_shm h') p = Some (core_usage ?core)"
      using v2 v1 view_selectors(2) [of p t h'] by (simp add: count_view_def)
    have glob: "shm_get_global_resources True (hk_shm h') = shm_get_global_resources True (hk_shm h)"
      using v2 v1 view_selectors(3) [of p t h'] by (simp add: count_view_def view_selectors)
    have cnt: "counter ty (snd (usage_of p t h')) = counter ty (snd (usage_of p t h))" if "ty \<in> {0, 1, 3, 4}" for ty
    proof -
      have "hook_answer ?c h = APtr qp err" using cr by simp
      moreover have "hook_answer ?d h1 = ACode 0 None" using s2(2) d(2) by simp
      ultimately show ?thesis using c1(3) [OF that] c2(3) [OF that] False by auto
    qed
    have "cycle_app p t True h'"
      using a c2(1) core slot n by (auto simp: cycle_app_def core_usage_def one_more_qp_def word_less_nat_alt)
    then show ?thesis
      using False core glob cnt c1(2) c2(2) by simp
  qed
  then show "cycle_app p t (used \<or> qp \<noteq> 0) h'" "hk_core h' = hk_core h" "fst (usage_of p t h') = fst (usage_of p t h)"
    "\<forall>ty\<in>{0, 1, 3, 4}. counter ty (snd (usage_of p t h')) = counter ty (snd (usage_of p t h))"
    "shm_get_global_resources True (hk_shm h') = shm_get_global_resources True (hk_shm h)"
    by simp_all
qed

section \<open>Loops of cycles\<close>

definition cycle_loop :: "exp_env \<Rightarrow> (nat \<Rightarrow> hook_state \<Rightarrow> hook_state) \<Rightarrow> u64 \<Rightarrow> nat \<Rightarrow> nat \<Rightarrow> hook_state \<Rightarrow>
    (attempt_record \<times> u64) list \<times> hook_state" where
  "cycle_loop env other pd i n h =
     attempt_loop env (\<lambda>i h. create_destroy (ee_create env i) (ee_destroy env i) pd \<lparr>qp_type = IBV_QPT_RC\<rparr> (other i h)) i n h"

text \<open>What a cycle leaves alone, and what it needs of the driver.\<close>

definition same_counts :: "pid_t \<Rightarrow> u32 \<Rightarrow> hook_state \<Rightarrow> hook_state \<Rightarrow> bool" where
  "same_counts p t h h' \<longleftrightarrow> hk_core h' = hk_core h
     \<and> (\<forall>ty\<in>{0, 1, 3, 4}. counter ty (snd (usage_of p t h')) = counter ty (snd (usage_of p t h)))
     \<and> shm_get_global_resources True (hk_shm h') = shm_get_global_resources True (hk_shm h)"

lemma same_counts_refl: "same_counts p t h h"
  by (simp add: same_counts_def)

lemma same_counts_trans: "same_counts p t h1 h2 \<Longrightarrow> same_counts p t h2 h3 \<Longrightarrow> same_counts p t h1 h3"
  by (simp add: same_counts_def)

lemma same_counts_use: "same_counts p t h h' \<Longrightarrow> qp_in_use p t h' = qp_in_use p t h"
  by (auto simp: same_counts_def qp_in_use_def counter_def)

lemma same_counts_room:
  assumes "same_counts p t h h'" "fst (usage_of p t h') = fst (usage_of p t h)"
  shows "cycle_room attr p t used h' = cycle_room attr p t used h"
proof -
  have e: "hk_core h' = hk_core h" "shm_get_global_resources True (hk_shm h') = shm_get_global_resources True (hk_shm h)"
    using assms(1) by (simp_all add: same_counts_def)
  show ?thesis unfolding cycle_room_def qp_budget_def e same_counts_use [OF assms(1)] assms(2) ..
qed

definition phase_driver_ok :: "pid_t \<Rightarrow> (nat \<Rightarrow> hook_env \<times> hook_env) \<Rightarrow> bool" where
  "phase_driver_ok p hooks \<longleftrightarrow> (\<forall>i. he_pid (fst (hooks i)) = p \<and> he_driver_ptr (fst (hooks i)) \<noteq> 0
     \<and> he_pid (snd (hooks i)) = p \<and> he_driver_rc (snd (hooks i)) = 0)"

definition cycle_driver_ok :: "pid_t \<Rightarrow> exp_env \<Rightarrow> bool" where
  "cycle_driver_ok p env \<longleftrightarrow> driver_grants p (ee_create env) \<and> (\<forall>i. he_pid (ee_destroy env i) = p \<and> he_driver_rc (ee_destroy env i) = 0)"

lemma cycle_at:
  assumes d: "cycle_driver_ok p env" and a: "cycle_app p t used h"
    and r: "create_destroy (ee_create env i) (ee_destroy env i) pd attr h = (qp, err, h')"
  shows "qp \<noteq> 0 \<longleftrightarrow> cycle_room attr p t used h" "cycle_app p t (used \<or> qp \<noteq> 0) h'" "qp = 0 \<longrightarrow> err = Some EPERM"
    "same_counts p t h h'" "fst (usage_of p t h') = fst (usage_of p t h)"
  using cycle_step [OF a _ _ _ _ r] d by (simp_all add: cycle_driver_ok_def driver_grants_def same_counts_def)

text \<open>Undisturbed, the first cycle needs room for one and every later one what the slot asks for.\<close>

lemma cycle_loop_result:
  fixes env :: exp_env and pd :: u64
  assumes d: "cycle_driver_ok p env"
  defines "attr \<equiv> \<lparr>qp_type = IBV_QPT_RC\<rparr>"
  shows "cycle_app p t used h \<Longrightarrow> cycle_loop env (\<lambda>_. id) pd i n h = (rs, h') \<Longrightarrow>
    map (\<lambda>r. ar_success (fst r)) rs = map (\<lambda>j. cycle_room attr p t (used \<or> 0 < j) h) [0..<n]
    \<and> (\<forall>r\<in>set rs. ar_error (fst r) = (if ar_success (fst r) then 0 else EPERM))
    \<and> (\<exists>used'. cycle_app p t used' h') \<and> same_counts p t h h' \<and> fst (usage_of p t h') = fst (usage_of p t h)"
proof (induction n arbitrary: i used h rs)
  case 0
  then show ?case by (auto simp: cycle_loop_def same_counts_refl)
next
  case (Suc n)
  obtain qp err h1 where c: "create_destroy (ee_create env i) (ee_destroy env i) pd attr h = (qp, err, h1)" by (metis prod_cases3)
  obtain rs1 where r: "cycle_loop env (\<lambda>_. id) pd (Suc i) n h1 = (rs1, h')" "rs = (attempt_at env i qp err, qp) # rs1"
    using Suc.prems(2) c by (auto simp: cycle_loop_def attr_def split: prod.splits)
  note s = cycle_at [OF d Suc.prems(1) c]
  note IH = Suc.IH [OF s(2) r(1)]
  have "cycle_room attr p t (used \<or> qp \<noteq> 0 \<or> 0 < j) h1 = cycle_room attr p t (used \<or> 0 < Suc j) h" for j
    unfolding same_counts_room [OF s(4,5)] using s(1) by (auto simp: cycle_room_def)
  then have "map (\<lambda>r. ar_success (fst r)) rs1 = map (\<lambda>j. cycle_room attr p t (used \<or> 0 < Suc j) h) [0..<n]"
    using IH by (simp add: disj_assoc)
  moreover have "map f [0..<Suc n] = f 0 # map (\<lambda>j. f (Suc j)) [0..<n]" for f :: "nat \<Rightarrow> bool"
    by (simp add: upt_conv_Cons map_Suc_upt [symmetric] del: upt_Suc map_Suc_upt)
  ultimately have "map (\<lambda>r. ar_success (fst r)) rs = map (\<lambda>j. cycle_room attr p t (used \<or> 0 < j) h) [0..<Suc n]"
    using r(2) s(1) by (simp add: attempt_at_def del: upt_Suc)
  then show ?case using IH s(3,4,5) r(2) same_counts_trans by (auto simp: attempt_at_def)
qed

lemma demo_cycle_room: "cycle_room \<lparr>qp_type = IBV_QPT_RC\<rparr> 42 1 u (app_view two_processes 42)"
proof -
  let ?h = "app_view two_processes 42"
  have "st_qp_count (hk_core ?h) = 0" "unat (max_qp_per_process (st_config (hk_core ?h))) = 100"
    using demo_app by (simp_all add: demo_hooks_def default_config_def g_intercept_state_def)
  then show ?thesis using demo_qp_app(3) by (simp add: cycle_room_def)
qed

lemma demo_phase: "phase_driver_ok 42 (\<lambda>_. (demo_env, demo_env))"
  by (simp add: phase_driver_ok_def demo_env_def)

section \<open>The test of the interception\<close>

fun intercept_rows :: "nat \<Rightarrow> attempt_record list \<Rightarrow> string" where
  "intercept_rows i [] = []"
| "intercept_rows i (r # rs) =
     (if ar_success r then ''  QP '' @ dec (i + 1) @ '': CREATED'' @ newline
      else ''  QP '' @ dec (i + 1) @ '': FAILED (errno='' @ sdec (sint (ar_error r)) @ '')'' @ newline)
     @ intercept_rows (Suc i) rs"

text \<open>Exit code, output and the state left behind. No result of the driver but those of the creations
  is checked.\<close>

definition test_intercept_main :: "exp_env \<Rightarrow> string list \<Rightarrow> hook_state \<Rightarrow> int \<times> string \<times> hook_state" where
  "test_intercept_main env args h =
     (let tenant_id = (case args of [] \<Rightarrow> 1 | a # _ \<Rightarrow> atoi a);
          heading = ''Test: Creating 5 QPs as tenant '' @ sdec (sint (tenant_id :: i32)) @ newline
      in if \<not> ee_devices env then (1, heading, h)
         else
           let (pd, _, h) = ibv_alloc_pd (ee_pd env) (ee_ctx env) h;
               (cq, _, h) = ibv_create_cq (ee_cq env) (ee_ctx env) 16 0 0 0 h;
               (rs, h) = cycle_loop env (\<lambda>_. id) pd 0 5 h;
               rs = map fst rs; success = length (filter ar_success rs);
               h = snd (snd (ibv_destroy_cq (ee_destroy_cq env) cq h));
               h = snd (snd (ibv_dealloc_pd (ee_dealloc_pd env) pd h))
           in (0, heading @ intercept_rows 0 rs @ newline @ ''Result: Success='' @ dec success
                  @ '', Failed='' @ dec (length rs - success) @ newline, h))"

section \<open>The measurement of quota updates\<close>

definition hot_report :: "rat \<Rightarrow> rat \<Rightarrow> nat \<Rightarrow> nat \<Rightarrow> string" where
  "hot_report test_start test_end success_count fail_count =
     ''UPDATE_NUM,NEW_QP_LIMIT,START_TIME_MS,END_TIME_MS,LATENCY_MS'' @ newline @ newline
     @ ''TOTAL_TIME_MS: '' @ fixed_text 2 (double_sub test_end test_start) @ newline
     @ ''SUCCESS_COUNT: '' @ dec success_count @ newline
     @ ''FAIL_COUNT: '' @ dec fail_count @ newline"

text \<open>The file is opened after the protection domain and the completion queue are there; comments of
  the report and messages are left out. \<open>other i\<close> is what others do before attempt \<open>i\<close>.\<close>

definition hot_update_main ::
    "exp_env \<Rightarrow> (nat \<Rightarrow> hook_state \<Rightarrow> hook_state) \<Rightarrow> u64 \<times> u64 \<Rightarrow> u64 \<times> u64 \<Rightarrow> bool \<Rightarrow> hook_state \<Rightarrow>
     int \<times> string option \<times> hook_state" where
  "hot_update_main env other t0 t1 opened h =
     (if \<not> ee_devices env then (1, None, h)
      else
        let (pd, _, h) = ibv_alloc_pd (ee_pd env) (ee_ctx env) h;
            (cq, _, h) = ibv_create_cq (ee_cq env) (ee_ctx env) 16 0 0 0 h
        in if \<not> opened then (1, None, h)
           else
             let (rs, h) = cycle_loop env other pd 0 100 h;
                 success_count = length (filter (\<lambda>r. ar_success (fst r)) rs);
                 h = snd (snd (ibv_destroy_cq (ee_destroy_cq env) cq h));
                 h = snd (snd (ibv_dealloc_pd (ee_dealloc_pd env) pd h))
             in (0, Some (hot_report (get_time_ms t0) (get_time_ms t1) success_count (length rs - success_count)), h))"

section \<open>Property\<close>

text \<open>Before an attempt nothing happens, or the daemon sets a quota above what the tenant uses.\<close>

definition quota_updates :: "'j json_lib \<Rightarrow> u32 \<Rightarrow> nat \<Rightarrow> (hook_state \<Rightarrow> hook_state) \<Rightarrow> bool" where
  "quota_updates lib t used f \<longleftrightarrow> f = id
     \<or> (\<exists>denv req limit. f = daemon_updates lib denv req \<and> quota_request lib req t limit \<and> used < unat limit)"

lemma quota_updates_step:
  assumes f: "quota_updates lib t n f" and a: "cycle_app p t used h" and b: "qp_in_use p t h < unat (max_qp_per_tenant (fst (usage_of p t h)))"
    and n: "qp_in_use p t h = n"
  shows "cycle_app p t used (f h)" "same_counts p t h (f h)" "n < unat (max_qp_per_tenant (fst (usage_of p t (f h))))"
proof (atomize (full), cases "f = id")
  case True
  then show "cycle_app p t used (f h) \<and> same_counts p t h (f h) \<and> n < unat (max_qp_per_tenant (fst (usage_of p t (f h))))"
    using a b n by (simp add: same_counts_refl)
next
  case False
  then obtain denv req limit where g: "f = daemon_updates lib denv req" "quota_request lib req t limit" "n < unat limit"
    using f by (auto simp: quota_updates_def)
  have "active_app p t h" using a by (simp add: cycle_app_def)
  note u = quota_updated_app [OF this g(2), of denv, folded g(1)]
  have "slot_current p (f h) = slot_current p h" unfolding slot_current_def u(2,3) ..
  then have "cycle_app p t used (f h)" using a u(1) unfolding cycle_app_def u(2,3) by simp
  then show "cycle_app p t used (f h) \<and> same_counts p t h (f h) \<and> n < unat (max_qp_per_tenant (fst (usage_of p t (f h))))"
    using u g(3) by (simp add: same_counts_def)
qed

lemma updated_cycles:
  fixes env :: exp_env and pd :: u64
  assumes d: "cycle_driver_ok p env" and f: "\<And>i. quota_updates lib t n (other i)"
  defines "attr \<equiv> \<lparr>qp_type = IBV_QPT_RC\<rparr>"
  shows "cycle_app p t used h \<Longrightarrow> n = qp_in_use p t h \<Longrightarrow> n < unat (max_qp_per_tenant (fst (usage_of p t h))) \<Longrightarrow>
    qp_open attr h \<Longrightarrow> Suc (unat (st_qp_count (hk_core h))) < unat (max_qp_per_process (st_config (hk_core h))) \<Longrightarrow>
    cycle_loop env other pd i m h = (rs, h') \<Longrightarrow>
    map (\<lambda>r. ar_success (fst r)) rs = replicate m True \<and> active_app p t h' \<and> same_counts p t h h'"
proof (induction m arbitrary: i used h rs)
  case 0
  then show ?case by (simp add: cycle_loop_def cycle_app_def same_counts_refl)
next
  case (Suc m)
  obtain qp err h1 where c: "create_destroy (ee_create env i) (ee_destroy env i) pd attr (other i h) = (qp, err, h1)" by (metis prod_cases3)
  obtain rs1 where r: "cycle_loop env other pd (Suc i) m h1 = (rs1, h')" "rs = (attempt_at env i qp err, qp) # rs1"
    using Suc.prems(6) c by (auto simp: cycle_loop_def attr_def split: prod.splits)
  have "qp_in_use p t h < unat (max_qp_per_tenant (fst (usage_of p t h)))" using Suc.prems(2,3) by simp
  note q = quota_updates_step [OF f Suc.prems(1) this Suc.prems(2) [symmetric], of i]
  note s = cycle_at [OF d q(1) c]
  have core: "hk_core (other i h) = hk_core h" and glob: "shm_get_global_resources True (hk_shm (other i h)) = shm_get_global_resources True (hk_shm h)"
    using q(2) by (simp_all add: same_counts_def)
  have op: "qp_open attr (other i h)" using Suc.prems(4) unfolding qp_open_def core glob .
  have ok: "qp \<noteq> 0"
    using s(1) op q(2,3) Suc.prems(2,5) by (simp add: cycle_room_def qp_budget_open same_counts_use core)
  have same: "same_counts p t h h1" using q(2) s(4) same_counts_trans by blast
  then have core1: "hk_core h1 = hk_core h" and glob1: "shm_get_global_resources True (hk_shm h1) = shm_get_global_resources True (hk_shm h)"
    by (simp_all add: same_counts_def)
  have op1: "qp_open attr h1" using Suc.prems(4) unfolding qp_open_def core1 glob1 .
  have "n = qp_in_use p t h1" "n < unat (max_qp_per_tenant (fst (usage_of p t h1)))"
    using same_counts_use [OF same] Suc.prems(2) q(3) s(5) by simp_all
  note IH = Suc.IH [OF s(2) this op1 _ r(1)]
  show ?case using IH Suc.prems(5) ok r(2) same same_counts_trans by (auto simp: core1 attempt_at_def)
qed

lemma exp_driver_cycle: "exp_driver_ok p env \<Longrightarrow> cycle_driver_ok p env"
  by (simp add: exp_driver_ok_def cycle_driver_ok_def)

text \<open>
  C13 (quota updates cannot be seen by cycles). An application of an active tenant measures quota
  updates under the layer, with a driver that grants everything and room for two by the process
  limit; before any of its attempts the daemon may set a new QP quota for the tenant, above what the
  tenant has in use. Then all hundred attempts succeed whatever the quotas were, the report says so,
  and the counters are restored. When the file of the report cannot be opened the program ends with
  a completion queue and a protection domain that stay counted.
\<close>

theorem hot_updates_invisible:
  assumes d: "exp_driver_ok p env" and a: "qp_app (ee_create env) p t h"
    and f: "\<And>i. quota_updates lib t (qp_in_use p t h) (other i)"
    and room: "0 < qp_budget \<lparr>qp_type = IBV_QPT_RC\<rparr> p t h"
      "Suc (unat (st_qp_count (hk_core h))) < unat (max_qp_per_process (st_config (hk_core h)))"
  shows "\<exists>h' h''. hot_update_main env other t0 t1 True h = (0, Some (hot_report (get_time_ms t0) (get_time_ms t1) 100 0), h')
    \<and> (\<forall>ty\<in>{0, 1, 3, 4}. counter ty (snd (usage_of p t h')) = counter ty (snd (usage_of p t h)))
    \<and> hot_update_main env other t0 t1 False h = (1, None, h'')
    \<and> (\<forall>ty\<in>{3, 4}. counter ty (snd (usage_of p t h'')) = counter ty (snd (usage_of p t h)) + 1)"
proof -
  let ?attr = "\<lparr>qp_type = IBV_QPT_RC\<rparr>" and ?pd = "he_driver_ptr (ee_pd env)" and ?cq = "he_driver_ptr (ee_cq env)"
  obtain e1 e2 h1 h2 where set: "ibv_alloc_pd (ee_pd env) (ee_ctx env) h = (?pd, e1, h1)"
    "ibv_create_cq (ee_cq env) (ee_ctx env) 16 0 0 0 h1 = (?cq, e2, h2)"
    and s: "qp_app (ee_create env) p t h2" "\<forall>attr. qp_budget attr p t h2 = qp_budget attr p t h"
      "\<forall>ty\<in>{0, 1, 3, 4}. counter ty (snd (usage_of p t h2)) =
        counter ty (snd (usage_of p t h)) + (if ty = 4 then 1 else 0) + (if ty = 3 then 1 else 0)"
      "hk_core h2 = hk_core h"
    by (rule device_setup [OF d a], rule that)
  have use: "qp_in_use p t h2 = qp_in_use p t h" using s(3) by (simp add: qp_in_use_def counter_def)
  have "0 < qp_budget ?attr p t h2" using room(1) s(2) by simp
  then have op: "qp_open ?attr h2" and quota: "qp_in_use p t h < unat (max_qp_per_tenant (fst (usage_of p t h2)))"
    unfolding qp_budget_open use by (auto split: if_splits)
  obtain rs h3 where r: "cycle_loop env other ?pd 0 100 h2 = (rs, h3)" by fastforce
  have "Suc (unat (st_qp_count (hk_core h2))) < unat (max_qp_per_process (st_config (hk_core h2)))"
    unfolding s(4) by (rule room(2))
  note l = updated_cycles [OF exp_driver_cycle [OF d] f qp_app_cycle [OF s(1)] use [symmetric] quota op this r]
  have n: "length rs = 100" "length (filter (\<lambda>r. ar_success (fst r)) rs) = 100"
    using count_true [of "\<lambda>r. ar_success (fst r)" rs 100 0] l by (metis length_map length_replicate, simp)
  have act: "active_app p t h3" using l by simp
  define h5 where "h5 = snd (snd (ibv_dealloc_pd (ee_dealloc_pd env) ?pd (snd (snd (ibv_destroy_cq (ee_destroy_cq env) ?cq h3)))))"
  have fin: "counter ty (snd (usage_of p t h5)) = counter ty (snd (usage_of p t h))" if "ty \<in> {0, 1, 3, 4}" for ty
  proof -
    have "counter ty (snd (usage_of p t h3)) = counter ty (snd (usage_of p t h2))" using l that unfolding same_counts_def by blast
    with device_teardown [OF d act that, folded h5_def] s(3) that show ?thesis by auto
  qed
  have dev: "ee_devices env" using d by (simp add: exp_driver_ok_def)
  have "hot_update_main env other t0 t1 True h = (0, Some (hot_report (get_time_ms t0) (get_time_ms t1) 100 0), h5)"
    unfolding hot_update_main_def Let_def set prod.case r n h5_def using dev by simp
  moreover have "hot_update_main env other t0 t1 False h = (1, None, h2)"
    unfolding hot_update_main_def Let_def set prod.case using dev by simp
  moreover have "\<forall>ty\<in>{3, 4}. counter ty (snd (usage_of p t h2)) = counter ty (snd (usage_of p t h)) + 1" using s(3) by simp
  ultimately show ?thesis using fin by (rule_tac x = h5 in exI, rule_tac x = h2 in exI) simp
qed

text \<open>While process 42 of tenant 1 runs, the daemon sets the quota to 7 before its fiftieth attempt.\<close>

theorem hot_updates_invisible_witness:
  "\<exists>h'. hot_update_main demo_exp (\<lambda>i. if i = 49 then daemon_updates demo_json demo_daemon_env ''UPDATE_QUOTA'' else id)
      (0, 0) (10, 0) True (app_view two_processes 42)
    = (0, Some (hot_report (get_time_ms (0, 0)) (get_time_ms (10, 0)) 100 0), h')"
proof -
  let ?other = "\<lambda>i :: nat. if i = 49 then daemon_updates demo_json demo_daemon_env ''UPDATE_QUOTA'' else id"
  let ?h = "app_view two_processes 42"
  have q: "quota_request demo_json ''UPDATE_QUOTA'' 1 7"
    using demo_command demo_fields by (auto simp: quota_request_def)
  have "qp_in_use 42 1 ?h = 0" "st_qp_count (hk_core ?h) = 0" "unat (max_qp_per_process (st_config (hk_core ?h))) = 100"
    using demo_app by (simp_all add: qp_in_use_def demo_hooks_def default_config_def g_intercept_state_def
        zero_tenant_usage_def zero_usage_def)
  note n = this
  have "\<exists>denv req limit. daemon_updates demo_json demo_daemon_env ''UPDATE_QUOTA'' = daemon_updates demo_json denv req
      \<and> quota_request demo_json req 1 limit \<and> qp_in_use 42 1 ?h < unat limit"
    by (rule exI [of _ demo_daemon_env], rule exI [of _ "''UPDATE_QUOTA''"], rule exI [of _ 7]) (use q n(1) in simp)
  then have f: "quota_updates demo_json 1 (qp_in_use 42 1 ?h) (?other i)" for i
    by (simp add: quota_updates_def)
  have "0 < qp_budget \<lparr>qp_type = IBV_QPT_RC\<rparr> 42 1 ?h" using demo_qp_app(3) by simp
  moreover have "Suc (unat (st_qp_count (hk_core ?h))) < unat (max_qp_per_process (st_config (hk_core ?h)))" using n by simp
  ultimately show ?thesis
    using hot_updates_invisible [OF demo_qp_app(1,2), where other = ?other and lib = demo_json, OF f]
    by blast
qed

text \<open>
  The test of the interception. The five cycles of the test succeed as the slot of the process
  allows: all of them with room for two by the process limit, the first only with room for one,
  since the destroyed queue pair stays in the slot, and none without room; the failures carry
  \<open>EPERM\<close>, and the counters are restored.
\<close>

theorem intercept_test_result:
  assumes d: "exp_driver_ok p env" and a: "qp_app (ee_create env) p t h"
  shows "\<exists>h' out rs. test_intercept_main env args h =
      (0, out @ intercept_rows 0 rs @ newline @ ''Result: Success=''
        @ dec (if cycle_room \<lparr>qp_type = IBV_QPT_RC\<rparr> p t True h then 5 else if cycle_room \<lparr>qp_type = IBV_QPT_RC\<rparr> p t False h then 1 else 0)
        @ '', Failed=''
        @ dec (if cycle_room \<lparr>qp_type = IBV_QPT_RC\<rparr> p t True h then 0 else if cycle_room \<lparr>qp_type = IBV_QPT_RC\<rparr> p t False h then 4 else 5)
        @ newline, h')
    \<and> map ar_success rs = map (\<lambda>j. cycle_room \<lparr>qp_type = IBV_QPT_RC\<rparr> p t (0 < j) h) [0..<5]
    \<and> (\<forall>r\<in>set rs. ar_error r = (if ar_success r then 0 else EPERM))
    \<and> (\<forall>ty\<in>{0, 1, 3, 4}. counter ty (snd (usage_of p t h')) = counter ty (snd (usage_of p t h)))"
proof -
  let ?attr = "\<lparr>qp_type = IBV_QPT_RC\<rparr>" and ?pd = "he_driver_ptr (ee_pd env)" and ?cq = "he_driver_ptr (ee_cq env)"
  obtain e1 e2 h1 h2 where set: "ibv_alloc_pd (ee_pd env) (ee_ctx env) h = (?pd, e1, h1)"
    "ibv_create_cq (ee_cq env) (ee_ctx env) 16 0 0 0 h1 = (?cq, e2, h2)"
    and s: "qp_app (ee_create env) p t h2" "\<forall>attr. qp_budget attr p t h2 = qp_budget attr p t h"
      "\<forall>ty\<in>{0, 1, 3, 4}. counter ty (snd (usage_of p t h2)) =
        counter ty (snd (usage_of p t h)) + (if ty = 4 then 1 else 0) + (if ty = 3 then 1 else 0)"
      "hk_core h2 = hk_core h"
    by (rule device_setup [OF d a], rule that)
  have room: "cycle_room ?attr p t u h2 = cycle_room ?attr p t u h" for u
    using s(2,4) by (simp add: cycle_room_def)
  have sub: "cycle_room ?attr p t True h \<Longrightarrow> cycle_room ?attr p t False h" by (simp add: cycle_room_def)
  obtain rs h3 where r: "cycle_loop env (\<lambda>_. id) ?pd 0 5 h2 = (rs, h3)" by fastforce
  note l = cycle_loop_result [OF exp_driver_cycle [OF d] qp_app_cycle [OF s(1)] r]
  have five: "[0..<5] = [0, 1, 2, 3, 4]" by (simp add: upt_rec)
  have m: "map (\<lambda>r. ar_success (fst r)) rs = map (\<lambda>j. cycle_room ?attr p t (0 < j) h) [0, 1, 2, 3, 4 :: nat]"
    using l unfolding room five by simp
  have n: "length (filter ar_success (map fst rs)) =
      (if cycle_room ?attr p t True h then 5 else if cycle_room ?attr p t False h then 1 else 0)" "length rs = 5"
    using arg_cong [OF m, of "\<lambda>bs. length (filter id bs)"] arg_cong [OF m, of length] sub by (simp_all add: filter_map comp_def)
  have act: "active_app p t h3" using l by (auto simp: cycle_app_def)
  define h5 where "h5 = snd (snd (ibv_dealloc_pd (ee_dealloc_pd env) ?pd (snd (snd (ibv_destroy_cq (ee_destroy_cq env) ?cq h3)))))"
  have fin: "counter ty (snd (usage_of p t h5)) = counter ty (snd (usage_of p t h))" if "ty \<in> {0, 1, 3, 4}" for ty
  proof -
    have "counter ty (snd (usage_of p t h3)) = counter ty (snd (usage_of p t h2))" using l that unfolding same_counts_def by blast
    with device_teardown [OF d act that, folded h5_def] s(3) that show ?thesis by auto
  qed
  have dev: "ee_devices env" using d by (simp add: exp_driver_ok_def)
  have "test_intercept_main env args h =
      (0, (''Test: Creating 5 QPs as tenant '' @ sdec (sint ((case args of [] \<Rightarrow> 1 | a # _ \<Rightarrow> atoi a) :: i32)) @ newline)
        @ intercept_rows 0 (map fst rs) @ newline @ ''Result: Success=''
        @ dec (if cycle_room ?attr p t True h then 5 else if cycle_room ?attr p t False h then 1 else 0)
        @ '', Failed='' @ dec (5 - (if cycle_room ?attr p t True h then 5 else if cycle_room ?attr p t False h then 1 else 0)) @ newline, h5)"
    unfolding test_intercept_main_def Let_def set prod.case r n length_map h5_def using dev by simp
  moreover have "5 - (if cycle_room ?attr p t True h then 5 else if cycle_room ?attr p t False h then 1 else 0) =
      (if cycle_room ?attr p t True h then 0 else if cycle_room ?attr p t False h then 4 else (5 :: nat))" by simp
  moreover have "map ar_success (map fst rs) = map (\<lambda>j. cycle_room ?attr p t (0 < j) h) [0..<5]"
    unfolding five using m by (simp add: comp_def)
  moreover have "\<forall>r\<in>set (map fst rs). ar_error r = (if ar_success r then 0 else EPERM)" using l by simp
  ultimately show ?thesis using fin
    by (intro exI [of _ h5] exI [of _ "map fst rs"]
        exI [of _ "''Test: Creating 5 QPs as tenant '' @ sdec (sint ((case args of [] \<Rightarrow> 1 | a # _ \<Rightarrow> atoi a) :: i32)) @ newline"]) simp
qed

theorem intercept_test_result_witness:
  "\<exists>h' out rs. test_intercept_main demo_exp [] (app_view two_processes 42) =
      (0, out @ intercept_rows 0 rs @ newline @ ''Result: Success='' @ dec 5 @ '', Failed='' @ dec 0 @ newline, h')
    \<and> map ar_success rs = [True, True, True, True, True]"
proof -
  let ?h = "app_view two_processes 42"
  have r: "cycle_room \<lparr>qp_type = IBV_QPT_RC\<rparr> 42 1 u ?h = True" for u using demo_cycle_room by blast
  have five: "[0..<5] = [0, 1, 2, 3, 4]" by (simp add: upt_rec)
  show ?thesis using intercept_test_result [OF demo_qp_app(1,2), of "[]"] unfolding r five list.map if_True
    by (elim exE conjE, intro exI conjI)
qed

end
