(* ===== verification/C_Percent.thy ===== *)
theory C_Percent
  imports C_Double
begin

text \<open>
  The index of a percentile as the experiments compute it: the number of samples times a decimal
  fraction, in double precision, cut to an integer. The fractions 0.95 and 0.99 are no doubles; the
  index is nevertheless the one of the exact product.
\<close>

section \<open>Rounding a product\<close>

lemma double_ulp_range:
  "0 < u \<Longrightarrow> 4503599627370496 * u / 2 ^ n \<le> x \<Longrightarrow> x < 9007199254740992 * u \<Longrightarrow>
   0 < double_ulp n x u \<and> 4503599627370496 * double_ulp n x u \<le> x"
proof (induction n arbitrary: u)
  case (Suc n)
  show ?case
  proof (cases "x < 4503599627370496 * u")
    case True
    have "4503599627370496 * (u / 2) / 2 ^ n \<le> x" using Suc.prems(2) by (simp add: field_simps)
    with Suc.IH [of "u / 2"] Suc.prems True show ?thesis by simp
  next
    case False
    with Suc.prems show ?thesis by simp
  qed
qed simp

lemma double_ulp_upper: "0 < u \<Longrightarrow> x < 9007199254740992 * u \<Longrightarrow> x < 9007199254740992 * double_ulp n x u"
  by (induction n arbitrary: u) simp_all

lemma round_even_near: "\<bar>y - of_int z\<bar> < 1 / 2 \<Longrightarrow> round_even y = z"
proof -
  assume a: "\<bar>y - of_int z\<bar> < 1 / 2"
  then have "\<lfloor>y\<rfloor> = z \<or> \<lfloor>y\<rfloor> = z - 1" by linarith
  then show ?thesis
  proof
    assume f: "\<lfloor>y\<rfloor> = z"
    have "y - of_int z < 1 / 2" using a by linarith
    then show ?thesis by (simp add: round_even_def f Let_def)
  next
    assume f: "\<lfloor>y\<rfloor> = z - 1"
    have "\<not> (y - of_int (z - 1) < 1 / 2)" "y - of_int (z - 1) \<noteq> 1 / 2" using a by (auto simp: abs_if split: if_splits)
    then show ?thesis by (simp add: round_even_def f Let_def)
  qed
qed

text \<open>For the numbers of this program: the rounding error, and integers that are met.\<close>

lemma round_double_props:
  assumes "1 / 2 \<le> x" "x < 9007199254740992"
  shows "\<bar>round_double x - x\<bar> \<le> x / 9007199254740992"
    and "\<bar>x - of_int m\<bar> < x / 18014398509481984 \<Longrightarrow> round_double x = of_int m"
proof -
  have xp: "\<bar>x\<bar> = x" "x \<noteq> 0" using assms(1) by auto
  define u where "u = double_ulp 256 x 1"
  have "4503599627370496 * 1 / 2 ^ 256 \<le> x" using assms(1) by (rule order_trans [rotated]) simp
  with double_ulp_range [of 1 256 x] assms(2) have u: "0 < u" "4503599627370496 * u \<le> x" by (simp_all add: u_def)
  obtain k where k: "u = 1 / 2 ^ k"
    using double_ulp_divides [of 1 x 256] assms(2) unfolding u_def by (metis div_by_1 mult.right_neutral power_0 zero_less_one)
  have r: "round_double x = of_int (round_even (x / u)) * u" using xp by (simp add: round_double_def u_def Let_def)
  then have "round_double x - x = (of_int (round_even (x / u)) - x / u) * u" using u(1) by (simp add: field_simps)
  then have "\<bar>round_double x - x\<bar> \<le> 1 / 2 * u" using round_even_error [of "x / u"] u(1) by (simp add: abs_mult)
  also have "\<dots> \<le> x / 9007199254740992" using u(2) by simp
  finally show "\<bar>round_double x - x\<bar> \<le> x / 9007199254740992" .
  show "round_double x = of_int m" if m: "\<bar>x - of_int m\<bar> < x / 18014398509481984"
  proof -
    have lt: "x < 9007199254740992 * u"
      using double_ulp_upper [of 1 x 256] assms(2) by (simp add: u_def)
    have "\<bar>x / u - of_int (m * 2 ^ k)\<bar> = \<bar>x - of_int m\<bar> / u"
      using u(1) by (simp add: k abs_mult flip: left_diff_distrib)
    also have "\<dots> < (x / 18014398509481984) / u" by (rule divide_strict_right_mono [OF m u(1)])
    also have "\<dots> \<le> 1 / 2" using lt u(1) by (simp add: field_simps)
    finally have "round_even (x / u) = m * 2 ^ k" by (rule round_even_near)
    then show ?thesis unfolding r by (simp add: k)
  qed
qed

section \<open>The index of a percentile\<close>

text \<open>\<open>(int)(n * 0.q)\<close>\<close>

definition percent_index :: "nat \<Rightarrow> nat \<Rightarrow> nat" where
  "percent_index q n = nat \<lfloor>double_mul (round_double (of_nat n)) (round_double (of_nat q / 100))\<rfloor>"

lemma percent_index_exact:
  fixes c :: rat
  assumes q: "round_double (of_nat q / 100) = c" "0 \<le> of_nat q / 100 - c" "(of_nat q / 100 - c) * 18014398509481984 < c"
    "1 / 2 \<le> c" "c \<le> 1"
  assumes n: "0 < n" "n < 1000000000"
  shows "percent_index q n = n * q div 100"
proof -
  define x :: rat where "x = of_nat n * c"
  have r: "round_double (of_nat n) = of_nat n" using round_double_int [of "int n"] n(2) by simp
  have p: "percent_index q n = nat \<lfloor>round_double x\<rfloor>" by (simp add: percent_index_def double_mul_def r q(1) x_def)
  have n1: "(1 :: rat) \<le> of_nat n" "of_nat n < (1000000000 :: rat)" using n by simp_all
  have xn: "x \<le> of_nat n" using n1(1) q(5) by (simp add: x_def mult_left_le)
  have "1 * (1 / 2) \<le> x" unfolding x_def using n1(1) q(4) by (intro mult_mono) auto
  then have lo: "1 / 2 \<le> x" by simp
  have hi: "x < 9007199254740992" and big: "x < 1000000000" using xn n1(2) by linarith+
  note r = round_double_props [OF lo hi]
  define m k where "m = n * q div 100" and "k = n * q mod 100"
  have mk: "n * q = 100 * m + k" "k < 100" by (simp_all add: m_def k_def)
  have mk': "(of_nat n :: rat) * (of_nat q / 100) = of_nat m + of_nat k / 100"
    using arg_cong [OF mk(1), of "of_nat :: nat \<Rightarrow> rat"] by simp
  have diff: "of_nat m + of_nat k / 100 - x = of_nat n * (of_nat q / 100 - c)"
    unfolding mk' [symmetric] x_def by (simp add: algebra_simps)
  have close: "0 \<le> of_nat m + of_nat k / 100 - x" "(of_nat m + of_nat k / 100 - x) * 18014398509481984 < x"
    unfolding diff using q(2,3) n1(1) by (auto simp: x_def)
  show ?thesis
  proof (cases "k = 0")
    case True
    then have "\<bar>x - of_int (int m)\<bar> < x / 18014398509481984" using close by (simp add: abs_if field_simps)
    then have "round_double x = of_int (int m)" by (rule r(2))
    then show ?thesis by (simp add: p m_def)
  next
    case False
    have "1 \<le> k" "k \<le> 99" using False mk(2) by simp_all
    then have k: "(1 :: rat) \<le> of_nat k" "of_nat k \<le> (99 :: rat)" by (metis of_nat_1 of_nat_le_iff, metis of_nat_numeral of_nat_le_iff)
    have "\<bar>round_double x - x\<bar> \<le> 1 / 1000" using r(1) big by linarith
    moreover have "e \<le> 1 / 1000" if "e * 18014398509481984 < x" for e using that big by simp
    note this [OF close(2)]
    ultimately have "of_nat m \<le> round_double x" "round_double x < of_nat m + 1" using close(1) k by linarith+
    then have "\<lfloor>round_double x\<rfloor> = int m" by (simp add: floor_eq_iff)
    then show ?thesis by (simp add: p m_def)
  qed
qed

lemma double_percents:
  "round_double (99 / 100) = 8917127262193582 / 9007199254740992"
  "round_double (95 / 100) = 8556839292003942 / 9007199254740992"
  "round_double (50 / 100) = 1 / 2"
  by code_simp+

lemma percent_index_99: "0 < n \<Longrightarrow> n < 1000000000 \<Longrightarrow> percent_index 99 n = n * 99 div 100"
  by (rule percent_index_exact [of 99 "8917127262193582 / 9007199254740992"]) (simp_all add: double_percents(1) [simplified])

lemma percent_index_95: "0 < n \<Longrightarrow> n < 1000000000 \<Longrightarrow> percent_index 95 n = n * 95 div 100"
  by (rule percent_index_exact [of 95 "8556839292003942 / 9007199254740992"]) (simp_all add: double_percents(2) [simplified])

lemma percent_index_50: "0 < n \<Longrightarrow> n < 1000000000 \<Longrightarrow> percent_index 50 n = n div 2"
  using percent_index_exact [of 50 "1 / 2" n] by (simp add: double_percents(3) [simplified])

text \<open>An index is in range, and the index of a larger percentile is not smaller.\<close>

lemma percent_index_less: "0 < n \<Longrightarrow> q < 100 \<Longrightarrow> n * q div 100 < (n :: nat)"
  by (simp add: less_mult_imp_div_less)

end
