(* ===== verification/Exp_Scale.thy ===== *)
theory Exp_Scale
  imports Exp_Cycle C_Percent
begin

text \<open>
  The scalability experiment (\<open>experiments/exp3_scalability/src/exp3_scalability.c\<close>): a number
  of processes each create and destroy ten queue pairs, and the parent collects their results over
  pipes. What it has in \<open>results[i]\<close> after reading from pipe \<open>i\<close> is an argument, as are the
  clock, the driver and whether pipe and process could be made. \<open>qsort\<close> is the sorted list; the
  percentile of 99 is read at the index that a double multiplication yields.
\<close>

section \<open>A process of the experiment\<close>

definition QP_PER_TENANT :: nat where "QP_PER_TENANT = 10"
definition SCALE_MAX_TENANTS :: i32 where "SCALE_MAX_TENANTS = 200"

record tenant_result =
  tr_tenant_id :: i32
  tr_num_qp :: nat
  tr_success :: nat
  tr_total_time_us :: rat
  tr_avg_latency_us :: rat
  tr_p50_latency_us :: rat
  tr_p99_latency_us :: rat
  tr_latencies :: "rat list"

text \<open>\<open>tv.tv_sec * 1000000.0 + tv.tv_usec\<close>\<close>

definition timeval_us :: "u64 \<times> u64 \<Rightarrow> rat" where
  "timeval_us tv =
     double_add (double_mul (round_double (of_int (sint (fst tv)))) 1000000) (round_double (of_int (sint (snd tv))))"

text \<open>The hooks of the cycles before the measurement.\<close>

fun warm_up :: "(nat \<Rightarrow> hook_env \<times> hook_env) \<Rightarrow> u64 \<Rightarrow> nat \<Rightarrow> nat \<Rightarrow> hook_state \<Rightarrow> hook_state" where
  "warm_up warm pd i 0 h = h"
| "warm_up warm pd i (Suc n) h =
     warm_up warm pd (Suc i) n
       (snd (snd (create_destroy (fst (warm i)) (snd (warm i)) pd \<lparr>qp_type = IBV_QPT_RC\<rparr> h)))"

text \<open>The measured cycles: the latencies of the creations that succeed. The clock is read before the
  loop, around every creation, and after the loop.\<close>

fun timed_cycles :: "exp_env \<Rightarrow> u64 \<Rightarrow> nat \<Rightarrow> nat \<Rightarrow> hook_state \<Rightarrow> rat list \<times> hook_state" where
  "timed_cycles env pd i 0 h = ([], h)"
| "timed_cycles env pd i (Suc n) h =
     (let (qp, _, h) = create_destroy (ee_create env i) (ee_destroy env i) pd \<lparr>qp_type = IBV_QPT_RC\<rparr> h;
          latency = double_sub (timeval_us (ee_clock env (2 * i + 2))) (timeval_us (ee_clock env (2 * i + 1)));
          (ls, h) = timed_cycles env pd (Suc i) n h
      in (if qp \<noteq> 0 then latency # ls else ls, h))"

text \<open>The result a process writes, from the latencies of its successes.\<close>

definition process_result :: "i32 \<Rightarrow> nat \<Rightarrow> rat \<Rightarrow> rat list \<Rightarrow> tenant_result" where
  "process_result tenant_id num_qp took ls =
     (let success = length ls; xs = sort ls
      in \<lparr>tr_tenant_id = tenant_id, tr_num_qp = num_qp, tr_success = success, tr_total_time_us = took,
           tr_avg_latency_us = (if success > 0 then double_div took (of_nat success) else 0),
           tr_p50_latency_us = (if success > 0 then xs ! (success div 2) else 0),
           tr_p99_latency_us = (if success > 0 then xs ! percent_index 99 success else 0),
           tr_latencies = xs @ replicate (QP_PER_TENANT - success) 0\<rparr>)"

text \<open>Exit code, result and the state left behind.\<close>

definition tenant_process ::
    "exp_env \<Rightarrow> (nat \<Rightarrow> hook_env \<times> hook_env) \<Rightarrow> i32 \<Rightarrow> nat \<Rightarrow> i32 \<Rightarrow> hook_state \<Rightarrow> int \<times> tenant_result option \<times> hook_state"
  where
  "tenant_process env warm tenant_id num_qp warmup h =
     (if \<not> ee_devices env then (1, None, h)
      else
        let (pd, _, h) = ibv_alloc_pd (ee_pd env) (ee_ctx env) h;
            (cq, _, h) = ibv_create_cq (ee_cq env) (ee_ctx env) (of_nat num_qp + 10) 0 0 0 h;
            h = warm_up warm pd 0 (nat (sint warmup)) h;
            (ls, h) = timed_cycles env pd 0 num_qp h;
            took = double_sub (timeval_us (ee_clock env (2 * num_qp + 1))) (timeval_us (ee_clock env 0));
            h = snd (snd (ibv_destroy_cq (ee_destroy_cq env) cq h));
            h = snd (snd (ibv_dealloc_pd (ee_dealloc_pd env) pd h))
        in (0, Some (process_result tenant_id num_qp took ls), h))"

section \<open>The parent\<close>

record scale_config =
  sc_num_tenants :: i32
  sc_warmup :: i32
  sc_output :: string

fun scale_options :: "(char \<times> string) list \<Rightarrow> scale_config \<Rightarrow> int + scale_config" where
  "scale_options [] c = Inr c"
| "scale_options ((o', optarg) # opts) c =
     (if o' = CHR ''t'' then scale_options opts (c\<lparr>sc_num_tenants := atoi optarg\<rparr>)
      else if o' = CHR ''w'' then scale_options opts (c\<lparr>sc_warmup := atoi optarg\<rparr>)
      else if o' = CHR ''o'' then scale_options opts (c\<lparr>sc_output := optarg\<rparr>)
      else if o' = CHR ''h'' then Inl 0
      else Inl 1)"

definition scale_defaults :: scale_config where
  "scale_defaults = \<lparr>sc_num_tenants = 10, sc_warmup = 1, sc_output = ''results.csv''\<rparr>"

text \<open>All latencies, up to the size of the array.\<close>

fun collect_latencies :: "rat list \<Rightarrow> tenant_result list \<Rightarrow> rat list" where
  "collect_latencies acc [] = acc"
| "collect_latencies acc (r # rs) =
     collect_latencies (acc @ take (unat SCALE_MAX_TENANTS * QP_PER_TENANT - length acc) (take (tr_success r) (tr_latencies r))) rs"

fun csv_rows :: "tenant_result list \<Rightarrow> string" where
  "csv_rows [] = []"
| "csv_rows (r # rs) =
     sdec (sint (tr_tenant_id r)) @ '','' @ dec (tr_num_qp r) @ '','' @ dec (tr_success r) @ '',''
     @ fixed_text 1 (tr_total_time_us r) @ '','' @ fixed_text 1 (tr_avg_latency_us r) @ '',''
     @ fixed_text 1 (tr_p50_latency_us r) @ '','' @ fixed_text 1 (tr_p99_latency_us r) @ newline @ csv_rows rs"

text \<open>The summary; without a success the program divides by zero and reads an element of the array
  that was never written, and so it does with the duration when that is zero.\<close>

record scale_summary =
  ss_success :: nat
  ss_requested :: int
  ss_duration :: rat
  ss_throughput :: "rat option"
  ss_latency :: "(rat \<times> rat \<times> rat) option"

definition scale_statistics :: "rat \<Rightarrow> tenant_result list \<Rightarrow> scale_summary" where
  "scale_statistics elapsed rs =
     (let total_success = sum_list (map tr_success rs);
          total_time = foldl double_add 0 (map tr_total_time_us rs);
          all = sort (collect_latencies [] rs); lat_count = length all;
          duration = double_div elapsed 1000000
      in \<lparr>ss_success = total_success, ss_requested = int (length rs * QP_PER_TENANT), ss_duration = duration,
           ss_throughput = (if duration = 0 then None else Some (double_div (of_nat total_success) duration)),
           ss_latency = (if total_success = 0 then None
             else Some (double_div total_time (of_nat total_success), all ! (lat_count div 2), all ! percent_index 99 lat_count))\<rparr>)"

text \<open>Exit code, summary and text of the file. \<open>started i\<close>: pipe and process \<open>i\<close> could be made.\<close>

definition scale_main ::
    "(nat \<Rightarrow> bool) \<Rightarrow> (nat \<Rightarrow> tenant_result) \<Rightarrow> u64 \<times> u64 \<Rightarrow> u64 \<times> u64 \<Rightarrow> bool \<Rightarrow> (char \<times> string) list \<Rightarrow>
     int \<times> scale_summary option \<times> string option" where
  "scale_main started results t0 t1 opened opts =
     (case scale_options opts scale_defaults of
        Inl code \<Rightarrow> (code, None, None)
      | Inr c \<Rightarrow>
          let n = nat (sint (sc_num_tenants c))
          in if sint (sc_num_tenants c) > sint SCALE_MAX_TENANTS then (1, None, None)
             else if \<not> list_all started [0..<n] then (1, None, None)
             else
               let rs = map results [0..<n]
               in (0, Some (scale_statistics (double_sub (timeval_us t1) (timeval_us t0)) rs),
                   if opened
                   then Some (''tenant_id,num_qp,success,total_time_us,avg_latency_us,p50_latency_us,p99_latency_us''
                              @ newline @ csv_rows rs)
                   else None))"

section \<open>Property of a process\<close>

lemma cycle_room_later: "cycle_room attr p t (used \<or> cycle_room attr p t used h) h = cycle_room attr p t True h \<or> \<not> cycle_room attr p t used h"
  by (auto simp: cycle_room_def)

lemma warm_up_result:
  fixes pd :: u64
  assumes w: "phase_driver_ok p warm"
  defines "attr \<equiv> \<lparr>qp_type = IBV_QPT_RC\<rparr>"
  shows "cycle_app p t used h \<Longrightarrow>
    cycle_app p t (used \<or> 0 < m \<and> cycle_room attr p t used h) (warm_up warm pd i m h)
    \<and> same_counts p t h (warm_up warm pd i m h) \<and> fst (usage_of p t (warm_up warm pd i m h)) = fst (usage_of p t h)"
proof (induction m arbitrary: i used h)
  case 0
  then show ?case by (simp add: same_counts_refl)
next
  case (Suc m)
  obtain qp err h1 where c: "create_destroy (fst (warm i)) (snd (warm i)) pd attr h = (qp, err, h1)" by (metis prod_cases3)
  have d: "he_pid (fst (warm i)) = p" "he_driver_ptr (fst (warm i)) \<noteq> 0" "he_pid (snd (warm i)) = p" "he_driver_rc (snd (warm i)) = 0"
    using w by (simp_all add: phase_driver_ok_def)
  note s = cycle_step [OF Suc.prems d c]
  have same: "same_counts p t h h1" using s(4,6,7) by (simp add: same_counts_def)
  have e: "warm_up warm pd i (Suc m) h = warm_up warm pd (Suc i) m h1" using c by (simp add: attr_def)
  have "(used \<or> qp \<noteq> 0) \<or> 0 < m \<and> cycle_room attr p t (used \<or> qp \<noteq> 0) h1 \<longleftrightarrow> used \<or> cycle_room attr p t used h"
    unfolding same_counts_room [OF same s(5)] using s(1) by (auto simp: cycle_room_def)
  with Suc.IH [OF s(2), of "Suc i"] show ?case unfolding e using same s(5) same_counts_trans by auto
qed

lemma timed_cycles_loop:
  "cycle_loop env (\<lambda>_. id) pd i n h = (rs, h') \<Longrightarrow>
   snd (timed_cycles env pd i n h) = h' \<and> length (fst (timed_cycles env pd i n h)) = length (filter (\<lambda>r. ar_success (fst r)) rs)"
proof (induction n arbitrary: i h rs)
  case 0
  then show ?case by (simp add: cycle_loop_def)
next
  case (Suc n)
  obtain qp err h1 where c: "create_destroy (ee_create env i) (ee_destroy env i) pd \<lparr>qp_type = IBV_QPT_RC\<rparr> h = (qp, err, h1)"
    by (metis prod_cases3)
  obtain rs1 where r: "cycle_loop env (\<lambda>_. id) pd (Suc i) n h1 = (rs1, h')" "rs = (attempt_at env i qp err, qp) # rs1"
    using Suc.prems c by (auto simp: cycle_loop_def split: prod.splits)
  from Suc.IH [OF r(1)] r(2) c show ?case by (simp add: split_beta attempt_at_def)
qed

lemma later_count:
  "length (filter id (map (\<lambda>j. P (used \<or> 0 < j)) [0..<n])) =
    (if used then (if P True then n else 0) else (if n = 0 then 0 else (if P False then 1 else 0) + (if P True then n - 1 else 0)))"
proof (cases n)
  case (Suc m)
  have "map (\<lambda>j. P (used \<or> 0 < j)) [0..<Suc m] = P used # map (\<lambda>j. P True) [0..<m]"
    by (simp add: upt_conv_Cons map_Suc_upt [symmetric] comp_def del: upt_Suc map_Suc_upt)
  moreover have "map (\<lambda>j. P True) [0..<m] = replicate m (P True)" by (simp add: map_replicate_const)
  ultimately show ?thesis using Suc by (cases "P True") (auto simp del: upt_Suc)
qed simp

text \<open>The successes of a process: all with room for two by the slot, at most the first otherwise, and
  that only without warming up.\<close>

definition scale_successes :: "pid_t \<Rightarrow> u32 \<Rightarrow> nat \<Rightarrow> nat \<Rightarrow> hook_state \<Rightarrow> nat" where
  "scale_successes p t warmup n h =
     (if cycle_room \<lparr>qp_type = IBV_QPT_RC\<rparr> p t True h then n
      else if cycle_room \<lparr>qp_type = IBV_QPT_RC\<rparr> p t False h \<and> warmup = 0 then min 1 n else 0)"

lemma sorted_le_last: "sorted (xs :: rat list) \<Longrightarrow> y \<in> set xs \<Longrightarrow> y \<le> last xs"
  by (induction xs) (auto simp: last_ConsR split: if_splits)

lemma process_result_percentiles:
  assumes "length ls \<le> 100"
  shows "tr_success (process_result tid n took ls) = length ls"
    "ls \<noteq> [] \<Longrightarrow> tr_p99_latency_us (process_result tid n took ls) = Max (set ls)"
    "ls \<noteq> [] \<Longrightarrow> tr_p50_latency_us (process_result tid n took ls) = sort ls ! (length ls div 2) \<and> length ls div 2 < length ls"
proof -
  show "tr_success (process_result tid n took ls) = length ls" by (simp add: process_result_def Let_def)
  assume ne: "ls \<noteq> []"
  have l: "0 < length ls" "length ls < 1000000000" using ne assms by auto
  have i: "percent_index 99 (length ls) = length ls - 1"
  proof -
    have "length ls * 99 div 100 = length ls - 1" using assms l(1) by (simp add: div_nat_eqI)
    then show ?thesis using percent_index_99 [OF l] by simp
  qed
  have ne': "sort ls \<noteq> []" using ne by (metis length_0_conv length_sort)
  then have "sort ls ! (length ls - 1) = last (sort ls)" by (simp add: last_conv_nth)
  moreover have "last (sort ls) = Max (set (sort ls))"
    using sorted_le_last [OF sorted_sort] last_in_set [OF ne'] by (intro Max_eqI [symmetric]) auto
  ultimately show "tr_p99_latency_us (process_result tid n took ls) = Max (set ls)"
    using l by (simp add: process_result_def Let_def i)
  show "tr_p50_latency_us (process_result tid n took ls) = sort ls ! (length ls div 2) \<and> length ls div 2 < length ls"
    using l by (simp add: process_result_def Let_def)
qed

text \<open>
  A process of the scalability test. Run by a process of an active tenant under the layer, with a
  driver that grants everything, a process reports as successful all its creations when the slot
  leaves room for two, and otherwise at most the first, and not even that after warming up; the 99th
  percentile it reports is its largest latency, and the counters of the tenant are restored.
\<close>

theorem scale_process_result:
  assumes d: "exp_driver_ok p env" and w: "phase_driver_ok p warm" and a: "qp_app (ee_create env) p t h"
  shows "\<exists>r ls h'. tenant_process env warm tid QP_PER_TENANT warmup h = (0, Some r, h')
    \<and> tr_success r = scale_successes p t (nat (sint warmup)) QP_PER_TENANT h
    \<and> tr_latencies r = sort ls @ replicate (QP_PER_TENANT - tr_success r) 0 \<and> length ls = tr_success r
    \<and> (ls \<noteq> [] \<longrightarrow> tr_p99_latency_us r = Max (set ls))
    \<and> (\<forall>ty\<in>{0, 1, 3, 4}. counter ty (snd (usage_of p t h')) = counter ty (snd (usage_of p t h)))"
proof -
  let ?attr = "\<lparr>qp_type = IBV_QPT_RC\<rparr>" and ?pd = "he_driver_ptr (ee_pd env)" and ?cq = "he_driver_ptr (ee_cq env)"
    and ?w = "nat (sint warmup)" and ?n = QP_PER_TENANT
  obtain e1 e2 h1 h2 where set: "ibv_alloc_pd (ee_pd env) (ee_ctx env) h = (?pd, e1, h1)"
    "ibv_create_cq (ee_cq env) (ee_ctx env) (of_nat ?n + 10) 0 0 0 h1 = (?cq, e2, h2)"
    and s: "qp_app (ee_create env) p t h2" "\<forall>attr. qp_budget attr p t h2 = qp_budget attr p t h"
      "\<forall>ty\<in>{0, 1, 3, 4}. counter ty (snd (usage_of p t h2)) =
        counter ty (snd (usage_of p t h)) + (if ty = 4 then 1 else 0) + (if ty = 3 then 1 else 0)"
      "hk_core h2 = hk_core h"
    by (rule device_setup [OF d a], rule that)
  have room: "cycle_room ?attr p t u h2 = cycle_room ?attr p t u h" for u
    using s(2,4) by (simp add: cycle_room_def)
  have sub: "cycle_room ?attr p t True h \<Longrightarrow> cycle_room ?attr p t False h" by (simp add: cycle_room_def)
  define h3 where "h3 = warm_up warm ?pd 0 ?w h2"
  define used where "used \<longleftrightarrow> 0 < ?w \<and> cycle_room ?attr p t False h"
  have w3: "cycle_app p t used h3" "same_counts p t h2 h3" "fst (usage_of p t h3) = fst (usage_of p t h2)"
    using warm_up_result [OF w qp_app_cycle [OF s(1)], of ?w ?pd 0] by (simp_all add: h3_def used_def room)
  obtain rs h4 where r: "cycle_loop env (\<lambda>_. id) ?pd 0 ?n h3 = (rs, h4)" by fastforce
  note l = cycle_loop_result [OF exp_driver_cycle [OF d] w3(1) r, unfolded same_counts_room [OF w3(2,3)] room]
  obtain ls where t: "timed_cycles env ?pd 0 ?n h3 = (ls, h4)" "length ls = length (filter (\<lambda>r. ar_success (fst r)) rs)"
    using timed_cycles_loop [OF r] by (metis prod.collapse)
  have "length ls = length (filter id (map (\<lambda>j. cycle_room ?attr p t (used \<or> 0 < j) h) [0..<?n]))"
    using t(2) arg_cong [OF conjunct1 [OF l], of "\<lambda>bs. length (filter id bs)"] by (simp add: filter_map comp_def)
  then have n: "length ls = scale_successes p t ?w ?n h"
    using later_count [of "\<lambda>u. cycle_room ?attr p t u h" used ?n] sub
    by (auto simp: scale_successes_def used_def QP_PER_TENANT_def simp del: filter_map map_map)
  have act: "active_app p t h4" using l by (auto simp: cycle_app_def)
  define h6 where "h6 = snd (snd (ibv_dealloc_pd (ee_dealloc_pd env) ?pd (snd (snd (ibv_destroy_cq (ee_destroy_cq env) ?cq h4)))))"
  have fin: "counter ty (snd (usage_of p t h6)) = counter ty (snd (usage_of p t h))" if "ty \<in> {0, 1, 3, 4}" for ty
  proof -
    have "counter ty (snd (usage_of p t h4)) = counter ty (snd (usage_of p t h2))"
      using l w3(2) that unfolding same_counts_def by metis
    with device_teardown [OF d act that, folded h6_def] s(3) that show ?thesis by auto
  qed
  define took where "took = double_sub (timeval_us (ee_clock env (2 * ?n + 1))) (timeval_us (ee_clock env 0))"
  let ?r = "process_result tid ?n took ls"
  have dev: "ee_devices env" using d by (simp add: exp_driver_ok_def)
  have main: "tenant_process env warm tid ?n warmup h = (0, Some ?r, h6)"
    unfolding tenant_process_def Let_def set prod.case h3_def [symmetric] t(1) h6_def took_def using dev by simp
  have "length ls \<le> 100" using n by (auto simp: scale_successes_def QP_PER_TENANT_def)
  note pr = process_result_percentiles [OF this, of tid ?n took]
  have "tr_latencies ?r = sort ls @ replicate (?n - length ls) 0" by (simp add: process_result_def Let_def)
  then show ?thesis using main n pr fin by (intro exI [of _ ?r] exI [of _ ls] exI [of _ h6]) simp
qed

text \<open>Process 42 of tenant 1, after warming up once.\<close>

theorem scale_process_result_witness:
  "\<exists>r h'. tenant_process demo_exp (\<lambda>_. (demo_env, demo_env)) 1 QP_PER_TENANT 1 (app_view two_processes 42) = (0, Some r, h')
    \<and> tr_success r = 10"
proof -
  let ?h = "app_view two_processes 42"
  have "scale_successes 42 1 (nat (sint (1 :: i32))) QP_PER_TENANT ?h = 10"
    using demo_cycle_room by (simp add: scale_successes_def QP_PER_TENANT_def)
  then show ?thesis using scale_process_result [OF demo_qp_app(1) demo_phase demo_qp_app(2), of 1 1] by auto
qed

section \<open>Property of the parent\<close>

lemma collect_latencies_all:
  "\<forall>r\<in>set rs. tr_success r \<le> length (tr_latencies r) \<Longrightarrow> length acc + sum_list (map tr_success rs) \<le> 2000 \<Longrightarrow>
   collect_latencies acc rs = acc @ concat (map (\<lambda>r. take (tr_success r) (tr_latencies r)) rs)"
proof (induction rs arbitrary: acc)
  case (Cons r rs)
  have "unat SCALE_MAX_TENANTS * QP_PER_TENANT = 2000" by (simp add: SCALE_MAX_TENANTS_def QP_PER_TENANT_def)
  moreover have "take (2000 - length acc) (take (tr_success r) (tr_latencies r)) = take (tr_success r) (tr_latencies r)"
    using Cons.prems by (intro take_all) simp
  ultimately have "collect_latencies acc (r # rs) = collect_latencies (acc @ take (tr_success r) (tr_latencies r)) rs"
    by (simp only: collect_latencies.simps)
  with Cons.IH [of "acc @ take (tr_success r) (tr_latencies r)"] Cons.prems show ?case by simp
qed simp

lemma concat_successes:
  "\<forall>r\<in>set rs. tr_success r \<le> length (tr_latencies r) \<Longrightarrow>
   length (concat (map (\<lambda>r. take (tr_success r) (tr_latencies r)) rs)) = sum_list (map tr_success rs)"
  by (induction rs) simp_all

text \<open>
  The percentiles of the parent. When the processes have written results of the shape they
  write, at most 200 of them, the parent keeps every latency, and with at least one success its
  median and 99th percentile are elements of the sorted array, the latter at the place
  \<open>99 n div 100\<close> that the double product is meant to give; without a success there are none.
\<close>

theorem scale_percentiles_in_bounds:
  assumes o: "scale_options opts scale_defaults = Inr c" and n: "sint (sc_num_tenants c) \<le> 200" and s: "\<forall>i. started i"
    and r: "\<forall>i. tr_success (results i) \<le> QP_PER_TENANT \<and> length (tr_latencies (results i)) = QP_PER_TENANT"
  shows "\<exists>sm. let rs = map results [0..<nat (sint (sc_num_tenants c))];
        all = concat (map (\<lambda>r. take (tr_success r) (tr_latencies r)) rs); k = length all in
    scale_main started results t0 t1 False opts = (0, Some sm, None) \<and> ss_success sm = k
    \<and> (k = 0 \<longrightarrow> ss_latency sm = None)
    \<and> (0 < k \<longrightarrow> k * 99 div 100 < k \<and> k div 2 < k \<and>
        ss_latency sm = Some (double_div (foldl double_add 0 (map tr_total_time_us rs)) (of_nat k),
          sort all ! (k div 2), sort all ! (k * 99 div 100)))"
proof -
  let ?n = "nat (sint (sc_num_tenants c))"
  define rs where "rs = map results [0..<?n]"
  define all where "all = concat (map (\<lambda>r. take (tr_success r) (tr_latencies r)) rs)"
  have le: "\<forall>r\<in>set rs. tr_success r \<le> length (tr_latencies r)" using r by (auto simp: rs_def)
  have k: "length all = sum_list (map tr_success rs)" unfolding all_def by (rule concat_successes [OF le])
  have "sum_list (map tr_success rs) \<le> sum_list (map (\<lambda>_. 10) rs)"
    by (rule sum_list_mono) (use r in \<open>auto simp: rs_def QP_PER_TENANT_def\<close>)
  also have "\<dots> = length rs * 10" by (simp add: sum_list_triv)
  also have "\<dots> \<le> 2000" using n by (simp add: rs_def)
  finally have b: "sum_list (map tr_success rs) \<le> 2000" .
  have c: "collect_latencies [] rs = all" using collect_latencies_all [OF le, of "[]"] b by (simp add: all_def)
  let ?sm = "scale_statistics (double_sub (timeval_us t1) (timeval_us t0)) rs"
  have main: "scale_main started results t0 t1 False opts = (0, Some ?sm, None)"
    using o n s by (simp add: scale_main_def SCALE_MAX_TENANTS_def list_all_iff rs_def Let_def)
  have p: "percent_index 99 (length all) = length all * 99 div 100" if "0 < length all"
    using percent_index_99 [OF that] b k by simp
  have i: "length all * 99 div 100 < length all" if "0 < length all" using that by (simp add: less_mult_imp_div_less)
  have "ss_success ?sm = length all" "length all = 0 \<longrightarrow> ss_latency ?sm = None"
    "0 < length all \<longrightarrow> ss_latency ?sm = Some (double_div (foldl double_add 0 (map tr_total_time_us rs)) (of_nat (length all)),
      sort all ! (length all div 2), sort all ! (length all * 99 div 100))"
    using p by (simp_all add: scale_statistics_def Let_def c k [symmetric])
  then show ?thesis using main i unfolding Let_def rs_def [symmetric] all_def [symmetric] by (intro exI [of _ ?sm]) simp
qed

theorem scale_percentiles_in_bounds_witness:
  "\<exists>sm. scale_main (\<lambda>_. True) (\<lambda>_. process_result 1 10 0 [3, 1, 2]) (0, 0) (1, 0) False [(CHR ''t'', ''1'')] = (0, Some sm, None)
    \<and> ss_success sm = 3"
proof -
  have "atoi ''1'' = 1" by (rule demo_numbers)
  then have o: "scale_options [(CHR ''t'', ''1'')] scale_defaults = Inr (scale_defaults\<lparr>sc_num_tenants := 1\<rparr>)" by simp
  have r: "\<forall>i :: nat. tr_success (process_result 1 10 0 [3, 1, 2]) \<le> QP_PER_TENANT
      \<and> length (tr_latencies (process_result 1 10 0 [3, 1, 2])) = QP_PER_TENANT"
    by (simp add: process_result_def QP_PER_TENANT_def)
  have k: "length (concat (map (\<lambda>r. take (tr_success r) (tr_latencies r)) (map (\<lambda>i :: nat. process_result 1 10 0 [3, 1, 2]) [0..<1]))) = 3"
    by (simp add: process_result_def)
  have one: "nat (sint (sc_num_tenants (scale_defaults\<lparr>sc_num_tenants := 1\<rparr>))) = 1" by simp
  obtain sm where sm: "scale_main (\<lambda>_. True) (\<lambda>_. process_result 1 10 0 [3, 1, 2]) (0, 0) (1, 0) False [(CHR ''t'', ''1'')] = (0, Some sm, None)"
    "ss_success sm = length (concat (map (\<lambda>r. take (tr_success r) (tr_latencies r))
      (map (\<lambda>_ :: nat. process_result 1 10 0 [3, 1, 2]) [0..<nat (sint (sc_num_tenants (scale_defaults\<lparr>sc_num_tenants := 1\<rparr>)))])))"
    using scale_percentiles_in_bounds [OF o _ _ r, of "\<lambda>_. True"] unfolding Let_def by fastforce
  show ?thesis using sm(1) sm(2) [unfolded one k] by blast
qed

end
