(* ===== verification/Exp_Micro.thy ===== *)
theory Exp_Micro
  imports Exp_Cycle Exp_Mr Exp_Stats C_Percent
begin

text \<open>
  The microbenchmark (\<open>experiments/exp1_microbenchmark/src/exp1_microbenchmark.c\<close>): the latencies
  of creating and of destroying a queue pair and of registering a memory region, a thousand of each,
  and their statistics. The hooks of each phase, the clock, the buffer, and the text the library
  prints for a value that is no number are arguments. \<open>qsort\<close> is the sorted list. Messages, and
  the lines of the report above the first section, are left out.
\<close>

section \<open>Statistics\<close>

record micro_stats =
  ms_mean :: "rat option"
  ms_std :: "rat option"
  ms_min :: rat
  ms_max :: rat
  ms_p50 :: rat
  ms_p95 :: rat
  ms_p99 :: rat

text \<open>Sum, sum of squares, least, largest and number of the positive values.\<close>

fun accumulate :: "rat list \<Rightarrow> rat \<times> rat \<times> rat \<times> rat \<times> nat \<Rightarrow> rat \<times> rat \<times> rat \<times> rat \<times> nat" where
  "accumulate [] s = s"
| "accumulate (x # xs) (tot, sum_sq, lo, hi, n) =
     accumulate xs
       (if x > 0
        then (double_add tot x, double_add sum_sq (double_mul x x), if x < lo then x else lo, if x > hi then x else hi, n + 1)
        else (tot, sum_sq, lo, hi, n))"

text \<open>\<open>sqrt(sum_sq / n - mean * mean)\<close>; the argument may come out negative by rounding.\<close>

definition deviation :: "rat \<Rightarrow> rat \<Rightarrow> nat \<Rightarrow> rat option" where
  "deviation sum_sq mean n =
     (let x = double_sub (double_div sum_sq (of_nat n)) (double_mul mean mean)
      in if x < 0 then None else Some (sqrt_double x))"

text \<open>
  The positive samples are copied to an array of 1000 places; every caller passes 1000 samples, so
  the list of them needs no bound here.
\<close>

definition micro_calculate_stats :: "rat list \<Rightarrow> micro_stats" where
  "micro_calculate_stats data =
     (case accumulate data (0, 0, 1000000000, 0, 0) of
        (tot, sum_sq, lo, hi, valid_count) \<Rightarrow>
          if valid_count = 0
          then \<lparr>ms_mean = Some 0, ms_std = Some 0, ms_min = 0, ms_max = 0, ms_p50 = 0, ms_p95 = 0, ms_p99 = 0\<rparr>
          else
            let mean = double_div tot (of_nat valid_count);
                sorted_valid = filter (\<lambda>x. x > 0) (sort data); valid_idx = length sorted_valid
            in \<lparr>ms_mean = Some mean, ms_std = deviation sum_sq mean valid_count, ms_min = lo, ms_max = hi,
                 ms_p50 = sorted_valid ! percent_index 50 valid_idx,
                 ms_p95 = sorted_valid ! percent_index 95 valid_idx,
                 ms_p99 = sorted_valid ! percent_index 99 valid_idx\<rparr>)"

section \<open>The run\<close>

definition NUM_ITERATIONS :: nat where "NUM_ITERATIONS = 1000"
definition NUM_WARMUP :: nat where "NUM_WARMUP = 100"

record micro_env =
  me_exp :: exp_env
  me_warmup :: "nat \<Rightarrow> hook_env \<times> hook_env"
  me_create :: "nat \<Rightarrow> hook_env \<times> hook_env"
  me_destroy :: "nat \<Rightarrow> hook_env \<times> hook_env"
  me_regs :: "nat \<Rightarrow> hook_env \<times> hook_env"
  me_create_clock :: "nat \<Rightarrow> (u64 \<times> u64) \<times> (u64 \<times> u64)"
  me_destroy_clock :: "nat \<Rightarrow> (u64 \<times> u64) \<times> (u64 \<times> u64)"
  me_reg_clock :: "nat \<Rightarrow> (u64 \<times> u64) \<times> (u64 \<times> u64)"
  me_buf :: u64
  me_nan :: string

definition timed :: "(u64 \<times> u64) \<times> (u64 \<times> u64) \<Rightarrow> rat" where
  "timed c = double_sub (get_time_us (snd c)) (get_time_us (fst c))"

text \<open>Cycles on queue pairs: the array has \<open>bad\<close> where the creation failed.\<close>

fun measure_qps :: "(nat \<Rightarrow> hook_env \<times> hook_env) \<Rightarrow> (nat \<Rightarrow> (u64 \<times> u64) \<times> (u64 \<times> u64)) \<Rightarrow> rat \<Rightarrow> u64 \<Rightarrow> nat \<Rightarrow> nat \<Rightarrow> hook_state \<Rightarrow>
    rat list \<times> hook_state" where
  "measure_qps hooks clock bad pd i 0 h = ([], h)"
| "measure_qps hooks clock bad pd i (Suc n) h =
     (let (qp, _, h) = create_destroy (fst (hooks i)) (snd (hooks i)) pd \<lparr>qp_type = IBV_QPT_RC\<rparr> h;
          (xs, h) = measure_qps hooks clock bad pd (Suc i) n h
      in ((if qp \<noteq> 0 then timed (clock i) else bad) # xs, h))"

definition reg_dereg :: "hook_env \<Rightarrow> hook_env \<Rightarrow> u64 \<Rightarrow> u64 \<Rightarrow> u64 \<Rightarrow> hook_state \<Rightarrow> u64 \<times> hook_state" where
  "reg_dereg c d pd buf len h =
     (let (mr, _, h) = ibv_reg_mr c pd buf len IBV_ACCESS_LOCAL_WRITE h
      in (mr, if mr \<noteq> 0 then snd (snd (ibv_dereg_mr d (Some (mr, len)) h)) else h))"

fun measure_regs :: "(nat \<Rightarrow> hook_env \<times> hook_env) \<Rightarrow> (nat \<Rightarrow> (u64 \<times> u64) \<times> (u64 \<times> u64)) \<Rightarrow> u64 \<Rightarrow> u64 \<Rightarrow> nat \<Rightarrow> nat \<Rightarrow> hook_state \<Rightarrow>
    rat list \<times> hook_state" where
  "measure_regs hooks clock pd buf i 0 h = ([], h)"
| "measure_regs hooks clock pd buf i (Suc n) h =
     (let (mr, h) = reg_dereg (fst (hooks i)) (snd (hooks i)) pd buf 4096 h;
          (xs, h) = measure_regs hooks clock pd buf (Suc i) n h
      in ((if mr \<noteq> 0 then timed (clock i) else -1) # xs, h))"

section \<open>The report\<close>

definition stat_line :: "string \<Rightarrow> string \<Rightarrow> rat option \<Rightarrow> string" where
  "stat_line nan name v = name @ '': '' @ (case v of Some x \<Rightarrow> fixed_text 3 x | None \<Rightarrow> nan) @ newline"

definition full_stats :: "string \<Rightarrow> micro_stats \<Rightarrow> string" where
  "full_stats nan s =
     stat_line nan ''MEAN'' (ms_mean s) @ stat_line nan ''STD'' (ms_std s) @ stat_line nan ''MIN'' (Some (ms_min s))
     @ stat_line nan ''MAX'' (Some (ms_max s)) @ stat_line nan ''P50'' (Some (ms_p50 s))
     @ stat_line nan ''P95'' (Some (ms_p95 s)) @ stat_line nan ''P99'' (Some (ms_p99 s))"

definition micro_report :: "string \<Rightarrow> micro_stats \<Rightarrow> micro_stats \<Rightarrow> micro_stats \<Rightarrow> string" where
  "micro_report nan qp_create qp_destroy mr_reg =
     ''## QP_CREATE_LATENCY (us)'' @ newline @ full_stats nan qp_create
     @ newline @ ''## QP_DESTROY_LATENCY (us)'' @ newline
     @ stat_line nan ''MEAN'' (ms_mean qp_destroy) @ stat_line nan ''P50'' (Some (ms_p50 qp_destroy))
     @ stat_line nan ''P95'' (Some (ms_p95 qp_destroy))
     @ newline @ ''## MR_REG_LATENCY (us)'' @ newline
     @ stat_line nan ''MEAN'' (ms_mean mr_reg) @ stat_line nan ''STD'' (ms_std mr_reg) @ stat_line nan ''P50'' (Some (ms_p50 mr_reg))
     @ stat_line nan ''P95'' (Some (ms_p95 mr_reg)) @ stat_line nan ''P99'' (Some (ms_p99 mr_reg))"

text \<open>Exit code, the three arrays with the report, and the state left behind. When the file of the
  report cannot be opened the program ends without releasing anything.\<close>

definition micro_main :: "micro_env \<Rightarrow> bool \<Rightarrow> hook_state \<Rightarrow> int \<times> ((rat list \<times> rat list \<times> rat list) \<times> string) option \<times> hook_state" where
  "micro_main env opened h =
     (let e = me_exp env in
      if \<not> ee_devices e then (1, None, h)
      else
        let (pd, _, h) = ibv_alloc_pd (ee_pd e) (ee_ctx e) h;
            (cq, _, h) = ibv_create_cq (ee_cq e) (ee_ctx e) 16 0 0 0 h;
            (_, h) = measure_qps (me_warmup env) (\<lambda>_. ((0, 0), (0, 0))) 0 pd 0 NUM_WARMUP h;
            (qp_create, h) = measure_qps (me_create env) (me_create_clock env) (-1) pd 0 NUM_ITERATIONS h;
            (qp_destroy, h) = measure_qps (me_destroy env) (me_destroy_clock env) 0 pd 0 NUM_ITERATIONS h;
            (mr_reg, h) = measure_regs (me_regs env) (me_reg_clock env) pd (me_buf env) 0 NUM_ITERATIONS h
        in if \<not> opened then (1, None, h)
           else
             let h = snd (snd (ibv_destroy_cq (ee_destroy_cq e) cq h));
                 h = snd (snd (ibv_dealloc_pd (ee_dealloc_pd e) pd h))
             in (0, Some ((qp_create, qp_destroy, mr_reg),
                   micro_report (me_nan env) (micro_calculate_stats qp_create) (micro_calculate_stats qp_destroy)
                     (micro_calculate_stats mr_reg)), h))"

section \<open>The statistics are those of the valid samples\<close>

lemma accumulate_valid: "accumulate data s = accumulate (filter (\<lambda>x. x > 0) data) s"
  by (induction data s rule: accumulate.induct) simp_all

lemma accumulate_ends:
  "\<forall>x\<in>set xs. 0 < x \<Longrightarrow> accumulate xs (a, b, lo, hi, n) =
    (foldl double_add a xs, foldl double_add b (map (\<lambda>x. double_mul x x) xs), fold min xs lo, fold max xs hi, n + length xs)"
  by (induction xs arbitrary: a b lo hi n) (simp_all add: min_def max_def not_less order.strict_iff_order)

lemma fold_min_Min: "xs \<noteq> [] \<Longrightarrow> \<forall>x\<in>set xs. x \<le> (lo :: rat) \<Longrightarrow> fold min xs lo = Min (set xs)"
proof -
  assume a: "xs \<noteq> []" "\<forall>x\<in>set xs. x \<le> lo"
  have "fold min xs lo = Min (insert lo (set xs))" by (simp add: Min.set_eq_fold [of lo xs, simplified])
  then show ?thesis using a by (simp add: Min_insert min_absorb2)
qed

lemma fold_max_Max: "xs \<noteq> [] \<Longrightarrow> \<forall>x\<in>set xs. (hi :: rat) \<le> x \<Longrightarrow> fold max xs hi = Max (set xs)"
proof -
  assume a: "xs \<noteq> []" "\<forall>x\<in>set xs. hi \<le> x"
  have "fold max xs hi = Max (insert hi (set xs))" by (simp add: Max.set_eq_fold [of hi xs, simplified])
  then show ?thesis using a by (simp add: Max_insert max_absorb2)
qed

text \<open>C14 (equivalence): the statistics of the samples are those of the positive samples alone, whatever the
  number and the order of the failed ones: least and largest are the minimum and the maximum, the
  percentiles are the order statistics at the exact positions \<open>n / 2\<close>, \<open>95 n / 100\<close> and
  \<open>99 n / 100\<close> (the factors 0.95 and 0.99 are no doubles), all of them within the array, and the mean is
  the rounded sum in the order of measurement over the number of positive samples.\<close>

theorem micro_stats_of_valid:
  assumes "valid = filter (\<lambda>x. x > 0) data" "valid \<noteq> []" "length data < 1000000000" "\<forall>x\<in>set valid. x \<le> 1000000000"
  shows "micro_calculate_stats data =
      \<lparr>ms_mean = Some (double_div (foldl double_add 0 valid) (of_nat (length valid))),
       ms_std = deviation (foldl double_add 0 (map (\<lambda>x. double_mul x x) valid))
                  (double_div (foldl double_add 0 valid) (of_nat (length valid))) (length valid),
       ms_min = Min (set valid), ms_max = Max (set valid),
       ms_p50 = sort valid ! (length valid div 2), ms_p95 = sort valid ! (length valid * 95 div 100),
       ms_p99 = sort valid ! (length valid * 99 div 100)\<rparr>
    \<and> length valid * 99 div 100 < length (sort valid)"
proof -
  have pos: "\<forall>x\<in>set valid. 0 < x" using assms(1) by simp
  have n: "0 < length valid" using assms(2) by simp
  have l: "length valid < 1000000000" unfolding assms(1) using assms(3) length_filter_le order_le_less_trans by blast
  have s: "filter (\<lambda>x. x > 0) (sort data) = sort valid" unfolding assms(1) by (rule filter_sort)
  have f: "fold min valid 1000000000 = Min (set valid)" by (rule fold_min_Min [OF assms(2,4)])
  have g: "fold max valid 0 = Max (set valid)" using pos by (intro fold_max_Max [OF assms(2)]) auto
  have a: "accumulate data (0, 0, 1000000000, 0, 0) = (foldl double_add 0 valid,
      foldl double_add 0 (map (\<lambda>x. double_mul x x) valid), Min (set valid), Max (set valid), length valid)"
    unfolding accumulate_valid [of data] assms(1) [symmetric] accumulate_ends [OF pos] f g by simp
  show ?thesis
    using n percent_index_less [OF n, of 99]
    by (simp add: micro_calculate_stats_def a s Let_def percent_index_50 [OF n l] percent_index_95 [OF n l] percent_index_99 [OF n l])
qed

theorem micro_stats_of_valid_witness:
  "ms_mean (micro_calculate_stats [3, -1, 1, 0, 2]) = Some 2 \<and> ms_p50 (micro_calculate_stats [3, -1, 1, 0, 2]) = 2
    \<and> ms_min (micro_calculate_stats [3, -1, 1, 0, 2]) = 1 \<and> ms_max (micro_calculate_stats [3, -1, 1, 0, 2]) = 3"
proof -
  have v: "filter (\<lambda>x. x > 0) [3, -1, 1, 0, 2 :: rat] = [3, 1, 2]" by simp
  have m: "double_div (foldl double_add 0 [3, 1, 2]) (of_nat (length [3, 1, 2 :: rat])) = 2" by code_simp
  have s: "sort [3, 1, 2 :: rat] ! (length [3, 1, 2 :: rat] div 2) = 2" by code_simp
  have e: "Min (set [3, 1, 2 :: rat]) = 1" "Max (set [3, 1, 2 :: rat]) = 3" by simp_all
  show ?thesis
    using micro_stats_of_valid [OF v [symmetric]] m s e by simp
qed

section \<open>The measured phases\<close>

text \<open>Under the layer, the samples of a phase are the times of its cycles while there is room, with the
  mark of a failure elsewhere; the phase leaves the counters and the limits as they were.\<close>

theorem measure_qps_result:
  fixes pd :: u64
  assumes d: "phase_driver_ok p hooks"
  shows "cycle_app p t used h \<Longrightarrow> measure_qps hooks clock bad pd i n h = (xs, h') \<Longrightarrow>
    xs = map (\<lambda>j. if cycle_room \<lparr>qp_type = IBV_QPT_RC\<rparr> p t (used \<or> 0 < j) h then timed (clock (i + j)) else bad) [0..<n]
    \<and> (\<exists>used'. cycle_app p t used' h') \<and> same_counts p t h h' \<and> fst (usage_of p t h') = fst (usage_of p t h)"
proof (induction n arbitrary: i used h xs)
  case 0
  then show ?case by (auto simp: same_counts_refl)
next
  case (Suc n)
  let ?attr = "\<lparr>qp_type = IBV_QPT_RC\<rparr>"
  obtain qp err h1 where c: "create_destroy (fst (hooks i)) (snd (hooks i)) pd ?attr h = (qp, err, h1)" by (metis prod_cases3)
  obtain ys where r: "measure_qps hooks clock bad pd (Suc i) n h1 = (ys, h')" "xs = (if qp \<noteq> 0 then timed (clock i) else bad) # ys"
    using Suc.prems(2) c by (auto split: prod.splits)
  have e: "he_pid (fst (hooks i)) = p" "he_driver_ptr (fst (hooks i)) \<noteq> 0" "he_pid (snd (hooks i)) = p" "he_driver_rc (snd (hooks i)) = 0"
    using d by (simp_all add: phase_driver_ok_def)
  note s = cycle_step [OF Suc.prems(1) e c]
  have same: "same_counts p t h h1" using s(4,6,7) by (simp add: same_counts_def)
  note IH = Suc.IH [OF s(2) r(1), unfolded same_counts_room [OF same s(5)]]
  have later: "cycle_room ?attr p t ((used \<or> qp \<noteq> 0) \<or> 0 < j) h = cycle_room ?attr p t True h" for j :: nat
    using s(1) by (auto simp: cycle_room_def)
  have "ys = map (\<lambda>j. if cycle_room ?attr p t True h then timed (clock (Suc i + j)) else bad) [0..<n]"
    by (rule conjunct1 [OF IH, unfolded later])
  then have "xs = (if cycle_room ?attr p t used h then timed (clock i) else bad)
      # map (\<lambda>j. if cycle_room ?attr p t True h then timed (clock (i + Suc j)) else bad) [0..<n]"
    using r(2) s(1) by simp
  also have "\<dots> = map (\<lambda>j. if cycle_room ?attr p t (used \<or> 0 < j) h then timed (clock (i + j)) else bad) [0..<Suc n]"
    by (simp add: upt_conv_Cons map_Suc_upt [symmetric] comp_def del: upt_Suc map_Suc_upt)
  finally show ?case using IH same s(5) same_counts_trans by auto
qed

theorem measure_qps_result_witness:
  "\<exists>h'. measure_qps (\<lambda>_. (demo_env, demo_env)) (\<lambda>_. ((0, 0), (0, 5000))) (-1) 1 0 3 (app_view two_processes 42) = ([5, 5, 5], h')
    \<and> same_counts 42 1 (app_view two_processes 42) h'"
proof -
  let ?h = "app_view two_processes 42"
  obtain xs h' where r: "measure_qps (\<lambda>_. (demo_env, demo_env)) (\<lambda>_. ((0, 0), (0, 5000))) (-1) 1 0 3 ?h = (xs, h')" by fastforce
  have t: "timed ((0, 0), (0, 5000)) = 5" by code_simp
  from measure_qps_result [OF demo_phase qp_app_cycle [OF demo_qp_app(2)] r] demo_cycle_room t r show ?thesis
    by (auto simp: upt_rec numeral_3_eq_3)
qed

end
