(* ===== verification/Exp_Micro_Hot.thy ===== *)
theory Exp_Micro_Hot
  imports Exp_Micro Exp_Attack
begin

text \<open>
  The second version of the microbenchmark
  (\<open>experiments/exp1_microbenchmark/src/exp1_microbenchmark_v2.c\<close>): ten queue pairs are created and kept,
  then up to a thousand more are created and kept, and regions are registered and released. Clock,
  hooks, buffer and the text for a value that is no number are arguments, as before; messages and the
  lines of the report above the first section are left out.
\<close>

section \<open>Statistics\<close>

text \<open>Here all values count. Without any, the mean is \<open>0 / 0\<close>, and what is read as percentiles
  is the zero the array was filled with.\<close>

fun accumulate_all :: "rat list \<Rightarrow> rat \<times> rat \<times> rat \<times> rat \<Rightarrow> rat \<times> rat \<times> rat \<times> rat" where
  "accumulate_all [] s = s"
| "accumulate_all (x # xs) (tot, sum_sq, lo, hi) =
     accumulate_all xs (double_add tot x, double_add sum_sq (double_mul x x), if x < lo then x else lo, if x > hi then x else hi)"

definition hot_calculate_stats :: "rat list \<Rightarrow> micro_stats \<times> rat list" where
  "hot_calculate_stats data =
     (case accumulate_all data (0, 0, 1000000000, 0) of
        (tot, sum_sq, lo, hi) \<Rightarrow>
          if data = []
          then (\<lparr>ms_mean = None, ms_std = None, ms_min = lo, ms_max = hi, ms_p50 = 0, ms_p95 = 0, ms_p99 = 0\<rparr>, [])
          else
            let count = length data; mean = double_div tot (of_nat count); sorted_data = sort data
            in (\<lparr>ms_mean = Some mean, ms_std = deviation sum_sq mean count, ms_min = lo, ms_max = hi,
                  ms_p50 = sorted_data ! percent_index 50 count, ms_p95 = sorted_data ! percent_index 95 count,
                  ms_p99 = sorted_data ! percent_index 99 count\<rparr>, sorted_data))"

section \<open>The run\<close>

definition NUM_HOT_QPS :: nat where "NUM_HOT_QPS = 10"
definition TEST_MR_SIZE :: u64 where "TEST_MR_SIZE = 4096"

text \<open>Creations until one fails; the second component tells whether none did.\<close>

fun create_until :: "(nat \<Rightarrow> hook_env) \<Rightarrow> (nat \<Rightarrow> (u64 \<times> u64) \<times> (u64 \<times> u64)) \<Rightarrow> u64 \<Rightarrow> nat \<Rightarrow> nat \<Rightarrow> hook_state \<Rightarrow>
    (u64 \<times> rat) list \<times> bool \<times> hook_state" where
  "create_until hooks clock pd i 0 h = ([], True, h)"
| "create_until hooks clock pd i (Suc n) h =
     (let (qp, _, h) = ibv_create_qp (hooks i) pd \<lparr>qp_type = IBV_QPT_RC\<rparr> h
      in if qp = 0 then ([], False, h)
         else let (qs, all, h) = create_until hooks clock pd (Suc i) n h in ((qp, timed (clock i)) # qs, all, h))"

fun register_until :: "(nat \<Rightarrow> hook_env \<times> hook_env) \<Rightarrow> (nat \<Rightarrow> (u64 \<times> u64) \<times> (u64 \<times> u64)) \<Rightarrow> u64 \<Rightarrow> u64 \<Rightarrow> nat \<Rightarrow> nat \<Rightarrow> hook_state \<Rightarrow>
    rat list \<times> hook_state" where
  "register_until hooks clock pd buf i 0 h = ([], h)"
| "register_until hooks clock pd buf i (Suc n) h =
     (let (mr, h) = reg_dereg (fst (hooks i)) (snd (hooks i)) pd buf TEST_MR_SIZE h
      in if mr = 0 then ([], h)
         else let (xs, h) = register_until hooks clock pd buf (Suc i) n h in (timed (clock i) # xs, h))"

text \<open>\<open>hm_hot\<close>, \<open>hm_test\<close> and \<open>hm_regs\<close> are the hooks of the three phases, with the hooks that
  destroy what the first two created.\<close>

record hot_env =
  hm_exp :: exp_env
  hm_hot :: "nat \<Rightarrow> hook_env \<times> hook_env"
  hm_test :: "nat \<Rightarrow> hook_env \<times> hook_env"
  hm_regs :: "nat \<Rightarrow> hook_env \<times> hook_env"
  hm_hot_clock :: "nat \<Rightarrow> (u64 \<times> u64) \<times> (u64 \<times> u64)"
  hm_test_clock :: "nat \<Rightarrow> (u64 \<times> u64) \<times> (u64 \<times> u64)"
  hm_reg_clock :: "nat \<Rightarrow> (u64 \<times> u64) \<times> (u64 \<times> u64)"
  hm_buf :: u64
  hm_nan :: string

fun destroy_created :: "(nat \<Rightarrow> hook_env) \<Rightarrow> nat \<Rightarrow> u64 list \<Rightarrow> hook_state \<Rightarrow> hook_state" where
  "destroy_created hooks i [] h = h"
| "destroy_created hooks i (qp # qs) h =
     destroy_created hooks (Suc i) qs (if qp \<noteq> 0 then snd (snd (ibv_destroy_qp (hooks i) qp h)) else h)"

section \<open>The report\<close>

fun raw_rows :: "nat \<Rightarrow> rat list \<Rightarrow> string" where
  "raw_rows i [] = ''''"
| "raw_rows i (x # xs) = dec i @ '','' @ fixed_text 3 x @ newline @ raw_rows (Suc i) xs"

definition micro_hot_report :: "string \<Rightarrow> rat list \<Rightarrow> micro_stats \<times> rat list \<Rightarrow> micro_stats \<times> rat list \<Rightarrow> string" where
  "micro_hot_report nan cold qp mr =
     ''## COLD_START_QP_LATENCY (us)'' @ newline
     @ ''1ST: '' @ fixed_text 3 (cold ! 0) @ newline @ ''10TH: '' @ fixed_text 3 (cold ! 9) @ newline
     @ newline @ ''## NORMAL_QP_CREATE_LATENCY (us)'' @ newline @ full_stats nan (fst qp)
     @ newline @ ''## MR_REG_LATENCY (us)'' @ newline @ full_stats nan (fst mr)
     @ newline @ ''## RAW_QP_CREATE_DATA'' @ newline @ raw_rows 0 (take 100 (snd qp))
     @ newline @ ''## RAW_MR_REG_DATA'' @ newline @ raw_rows 0 (take 100 (snd mr))"

text \<open>Exit code, the three arrays with the report, and the state left behind. A failed creation in the
  first phase, and a report that cannot be opened, end the program at once.\<close>

definition micro_hot_main :: "hot_env \<Rightarrow> bool \<Rightarrow> hook_state \<Rightarrow> int \<times> ((rat list \<times> rat list \<times> rat list) \<times> string) option \<times> hook_state" where
  "micro_hot_main env opened h =
     (let e = hm_exp env in
      if \<not> ee_devices e then (1, None, h)
      else
        let (pd, _, h) = ibv_alloc_pd (ee_pd e) (ee_ctx e) h;
            (cq, _, h) = ibv_create_cq (ee_cq e) (ee_ctx e) 16 0 0 0 h;
            (hot, all_hot, h) = create_until (\<lambda>i. fst (hm_hot env i)) (hm_hot_clock env) pd 0 NUM_HOT_QPS h
        in if \<not> all_hot then (1, None, h)
           else
             let (test, _, h) = create_until (\<lambda>i. fst (hm_test env i)) (hm_test_clock env) pd 0 NUM_ITERATIONS h;
                 (regs, h) = register_until (hm_regs env) (hm_reg_clock env) pd (hm_buf env) 0 NUM_ITERATIONS h
             in if \<not> opened then (1, None, h)
                else
                  let h = destroy_created (\<lambda>i. snd (hm_hot env i)) 0 (map fst hot) h;
                      h = destroy_created (\<lambda>i. snd (hm_test env i)) 0 (map fst test) h;
                      h = snd (snd (ibv_destroy_cq (ee_destroy_cq e) cq h));
                      h = snd (snd (ibv_dealloc_pd (ee_dealloc_pd e) pd h))
                  in (0, Some ((map snd hot, map snd test, regs),
                        micro_hot_report (hm_nan env) (map snd hot) (hot_calculate_stats (map snd test)) (hot_calculate_stats regs)), h))"

section \<open>The two versions agree on valid samples\<close>

lemma accumulate_all_valid:
  "\<forall>x\<in>set xs. 0 < x \<Longrightarrow> accumulate xs (a, b, lo, hi, n) =
    (case accumulate_all xs (a, b, lo, hi) of (a, b, lo, hi) \<Rightarrow> (a, b, lo, hi, n + length xs))"
  by (induction xs arbitrary: a b lo hi n) (auto split: prod.splits)

text \<open>C0 (equivalence): on samples that are all positive the statistics of the two versions of the
  microbenchmark are the same.\<close>

theorem micro_versions_agree:
  assumes "\<forall>x\<in>set data. 0 < x" "data \<noteq> []"
  shows "fst (hot_calculate_stats data) = micro_calculate_stats data"
proof -
  have f: "filter (\<lambda>x. x > 0) (sort data) = sort data" using assms(1) by (simp add: filter_id_conv)
  show ?thesis using assms
    by (simp add: hot_calculate_stats_def micro_calculate_stats_def accumulate_all_valid f Let_def split: prod.split)
qed

section \<open>The phases under the layer\<close>

text \<open>The tenant's counters have moved by \<open>f\<close>; its limits and its memory are what they were.\<close>

definition moved :: "pid_t \<Rightarrow> u32 \<Rightarrow> (int \<Rightarrow> i32) \<Rightarrow> hook_state \<Rightarrow> hook_state \<Rightarrow> bool" where
  "moved p t f h h' \<longleftrightarrow> active_app p t h' \<and> fst (usage_of p t h') = fst (usage_of p t h)
     \<and> tu_memory_used (snd (usage_of p t h')) = tu_memory_used (snd (usage_of p t h))
     \<and> (\<forall>ty\<in>{0, 1, 3, 4}. counter ty (snd (usage_of p t h')) = counter ty (snd (usage_of p t h)) + f ty)"

lemma moved_refl: "active_app p t h \<Longrightarrow> moved p t (\<lambda>_. 0) h h"
  by (simp add: moved_def)

lemma moved_trans: "moved p t f h h1 \<Longrightarrow> moved p t g h1 h2 \<Longrightarrow> \<forall>ty. k ty = f ty + g ty \<Longrightarrow> moved p t k h h2"
  by (simp add: moved_def add.assoc)

lemma moved_active: "moved p t f h h' \<Longrightarrow> active_app p t h'"
  by (simp add: moved_def)

lemma hook_moved:
  assumes "active_app p t h" "he_pid (op_env c) = p"
  shows "moved p t (\<lambda>ty. if ty = op_kind c then answer_count (hook_answer c h) else 0) h (hook_exec c h)"
  using app_counts [OF assms] app_memory [OF assms] by (simp add: moved_def)

lemma moved_mr_budget:
  assumes "moved p t f h h'" "f 1 = 0"
  shows "mr_budget len p t h' = mr_budget len p t h"
proof -
  have "tu_mr_count (snd (usage_of p t h')) = tu_mr_count (snd (usage_of p t h))"
    using assms by (auto simp: moved_def counter_def)
  then show ?thesis using assms(1) by (simp add: moved_def mr_budget_def mr_in_use_def split_beta)
qed

lemma qp_app_env: "qp_app env p t h \<Longrightarrow> driver_grants p env' \<Longrightarrow> qp_app env' p t h"
  by (simp add: qp_app_def)

lemma create_until_result:
  fixes pd :: u64
  defines "attr \<equiv> \<lparr>qp_type = IBV_QPT_RC\<rparr>"
  shows "qp_app hooks p t h \<Longrightarrow> create_until hooks clock pd i n h = (qs, all, h') \<Longrightarrow>
    qp_app hooks p t h' \<and> length qs = min n (qp_budget attr p t h) \<and> all = (n \<le> qp_budget attr p t h)
    \<and> (\<forall>q\<in>set qs. fst q \<noteq> 0) \<and> qp_budget attr p t h' = qp_budget attr p t h - length qs
    \<and> qp_in_use p t h' = qp_in_use p t h + length qs
    \<and> moved p t (\<lambda>ty. if ty = 0 then of_nat (length qs) else 0) h h'"
proof (induction n arbitrary: i h qs)
  case 0
  then show ?case by (auto simp: qp_app_def moved_def)
next
  case (Suc n)
  let ?c = "HCreateQp (hooks i) pd attr"
  obtain qp err h1 where c: "ibv_create_qp (hooks i) pd attr h = (qp, err, h1)" by (metis prod_cases3)
  have act: "active_app p t h" and pid: "he_pid (op_env ?c) = p"
    using Suc.prems(1) by (simp_all add: qp_app_def driver_grants_def)
  have "create_attempt hooks pd attr i h = (qp \<noteq> 0, h1)" by (simp add: create_attempt_def c)
  note s = create_attempt_step [OF Suc.prems(1) this]
  have "moved p t (\<lambda>ty. if ty = 0 then if qp = 0 then 0 else 1 else 0) h h1"
    using hook_moved [OF act pid] c by (simp cong: if_cong)
  note m = this
  show ?case
  proof (cases "qp = 0")
    case True
    then have "qs = []" "\<not> all" "h' = h1" using Suc.prems(2) c by (simp_all add: attr_def)
    with True s m show ?thesis by (simp cong: if_cong)
  next
    case False
    obtain qs1 where r: "create_until hooks clock pd (Suc i) n h1 = (qs1, all, h')" "qs = (qp, timed (clock i)) # qs1"
      using Suc.prems(2) c False by (auto simp: attr_def split: prod.splits)
    have "qp_app hooks p t h1" using s by simp
    note IH = Suc.IH [OF this r(1)]
    have "moved p t (\<lambda>ty. if ty = 0 then of_nat (length qs1) else 0) h1 h'" using IH by simp
    with m have "moved p t (\<lambda>ty. if ty = 0 then of_nat (length qs) else 0) h h'"
      by (rule moved_trans) (simp add: False r(2))
    moreover have "0 < qp_budget attr p t h" "qp_budget attr p t h1 = qp_budget attr p t h - 1"
      "qp_in_use p t h1 = Suc (qp_in_use p t h)" using s False by simp_all
    moreover have "min (Suc n) b = Suc (min n (b - 1))" "(Suc n \<le> b) = (n \<le> b - 1)" if "0 < b" for b
      using that by auto
    ultimately show ?thesis using IH False by (simp add: r(2))
  qed
qed

text \<open>Registering and releasing one region at a time never runs out of regions.\<close>

lemma reg_dereg_step:
  assumes a: "active_app p t h" and c: "he_pid c = p" "he_driver_ptr c \<noteq> 0" and d: "he_pid d = p" "he_driver_rc d = 0"
    and r: "reg_dereg c d pd buf len h = (mr, h')"
  shows "mr \<noteq> 0 \<longleftrightarrow> 0 < mr_budget len p t h" "moved p t (\<lambda>_. 0) h h'"
proof -
  let ?c = "HRegMr c pd buf len IBV_ACCESS_LOCAL_WRITE" and ?d = "HDeregMr d mr len"
  obtain err h1 where g: "ibv_reg_mr c pd buf len IBV_ACCESS_LOCAL_WRITE h = (mr, err, h1)"
    using r by (auto simp: reg_dereg_def split: prod.splits)
  have h': "h' = (if mr \<noteq> 0 then hook_exec ?d h1 else h1)" using r g by (auto simp: reg_dereg_def)
  have app: "mr_app (\<lambda>_. c) p t h" using a c by (simp add: mr_app_def driver_grants_def)
  have "reg_attempt (\<lambda>_. c) pd (\<lambda>_. buf) len IBV_ACCESS_LOCAL_WRITE 0 h = (mr \<noteq> 0, h1)" by (simp add: reg_attempt_def g)
  from reg_attempt_step [OF app this] show "mr \<noteq> 0 \<longleftrightarrow> 0 < mr_budget len p t h" by simp
  have m1: "moved p t (\<lambda>ty. if ty = 1 then if mr = 0 then 0 else 1 else 0) h h1"
    using hook_moved [OF a, of ?c] c(1) g by (simp cong: if_cong)
  show "moved p t (\<lambda>_. 0) h h'"
  proof (cases "mr = 0")
    case True
    with m1 h' show ?thesis by (simp cong: if_cong)
  next
    case False
    note a1 = moved_active [OF m1]
    have "hook_answer ?d h1 = ACode 0 None"
      using tenant_app_step(2) [of p t h1 ?d] a1 d by (simp add: active_app_def)
    then have "moved p t (\<lambda>ty. if ty = 1 then -1 else 0) h1 h'"
      using hook_moved [OF a1, of ?d] d(1) h' False by (simp cong: if_cong)
    with m1 show ?thesis by (rule moved_trans) (simp add: False)
  qed
qed

lemma register_until_result:
  assumes d: "phase_driver_ok p hooks"
  shows "active_app p t h \<Longrightarrow> register_until hooks clock pd buf i n h = (xs, h') \<Longrightarrow>
    xs = map (\<lambda>j. timed (clock (i + j))) [0..<if 0 < mr_budget TEST_MR_SIZE p t h then n else 0] \<and> moved p t (\<lambda>_. 0) h h'"
proof (induction n arbitrary: i h xs)
  case 0
  then show ?case by (simp add: moved_refl)
next
  case (Suc n)
  obtain mr h1 where r: "reg_dereg (fst (hooks i)) (snd (hooks i)) pd buf TEST_MR_SIZE h = (mr, h1)" by fastforce
  have "he_pid (fst (hooks i)) = p" "he_driver_ptr (fst (hooks i)) \<noteq> 0" "he_pid (snd (hooks i)) = p" "he_driver_rc (snd (hooks i)) = 0"
    using d by (simp_all add: phase_driver_ok_def)
  note s = reg_dereg_step [OF Suc.prems(1) this r]
  show ?case
  proof (cases "mr = 0")
    case True
    with Suc.prems(2) r s show ?thesis by simp
  next
    case False
    obtain ys where y: "register_until hooks clock pd buf (Suc i) n h1 = (ys, h')" "xs = timed (clock i) # ys"
      using Suc.prems(2) r False by (auto split: prod.splits)
    note IH = Suc.IH [OF moved_active [OF s(2)] y(1), unfolded moved_mr_budget [OF s(2) refl]]
    have "moved p t (\<lambda>_. 0) h h'" using s(2) conjunct2 [OF IH] by (rule moved_trans) simp
    moreover have "xs = map (\<lambda>j. timed (clock (i + j))) [0..<Suc n]"
      using IH s(1) False y(2) by (simp add: upt_conv_Cons map_Suc_upt [symmetric] comp_def del: upt_Suc map_Suc_upt)
    ultimately show ?thesis using s(1) False by (simp del: upt_Suc)
  qed
qed

lemma destroy_created_result:
  assumes d: "\<forall>i. he_pid (hooks i) = p \<and> he_driver_rc (hooks i) = 0"
  shows "active_app p t h \<Longrightarrow> \<forall>q\<in>set qs. q \<noteq> 0 \<Longrightarrow>
    moved p t (\<lambda>ty. if ty = 0 then - of_nat (length qs) else 0) h (destroy_created hooks i qs h)"
proof (induction qs arbitrary: i h)
  case Nil
  then show ?case by (simp add: moved_refl cong: if_cong)
next
  case (Cons q qs)
  let ?d = "HDestroyQp (hooks i) q"
  have pid: "he_pid (op_env ?d) = p" using d by simp
  have "hook_answer ?d h = ACode 0 None"
    using tenant_app_step(2) [of p t h ?d] Cons.prems(1) d by (simp add: active_app_def)
  then have m: "moved p t (\<lambda>ty. if ty = 0 then -1 else 0) h (hook_exec ?d h)"
    using hook_moved [OF Cons.prems(1) pid] by (simp cong: if_cong)
  have "moved p t (\<lambda>ty. if ty = 0 then - of_nat (length qs) else 0) (hook_exec ?d h) (destroy_created hooks (Suc i) qs (hook_exec ?d h))"
    using Cons.IH [OF moved_active [OF m]] Cons.prems(2) by simp
  with m have "moved p t (\<lambda>ty. if ty = 0 then - of_nat (length (q # qs)) else 0) h
      (destroy_created hooks (Suc i) qs (hook_exec ?d h))" by (rule moved_trans) simp
  then show ?case using Cons.prems(2) by simp
qed

lemma device_moved:
  assumes d: "exp_driver_ok p e" and a: "active_app p t h"
    and "ibv_alloc_pd (ee_pd e) ctx h = (pd, e1, h1)" "ibv_create_cq (ee_cq e) ctx' cqe 0 0 0 h1 = (cq, e2, h2)"
  shows "active_app p t h2" "fst (usage_of p t h2) = fst (usage_of p t h)"
    "tu_memory_used (snd (usage_of p t h2)) = tu_memory_used (snd (usage_of p t h))"
proof -
  let ?alloc = "HAllocPd (ee_pd e) ctx" and ?mkcq = "HCreateCq (ee_cq e) ctx' cqe 0 0 0"
  have "h1 = hook_exec ?alloc h" "h2 = hook_exec ?mkcq h1" using assms(3,4) by simp_all
  moreover have "he_pid (op_env ?alloc) = p" "he_pid (op_env ?mkcq) = p" using d by (simp_all add: exp_driver_ok_def)
  ultimately show "active_app p t h2" "fst (usage_of p t h2) = fst (usage_of p t h)"
    "tu_memory_used (snd (usage_of p t h2)) = tu_memory_used (snd (usage_of p t h))"
    using hook_moved [of p t h ?alloc] hook_moved [of p t h1 ?mkcq] a by (simp_all add: moved_def)
qed

section \<open>Property of a run\<close>

definition hot_driver_ok :: "pid_t \<Rightarrow> hot_env \<Rightarrow> bool" where
  "hot_driver_ok p env \<longleftrightarrow> exp_driver_ok p (hm_exp env) \<and> phase_driver_ok p (hm_hot env)
     \<and> phase_driver_ok p (hm_test env) \<and> phase_driver_ok p (hm_regs env)"

text \<open>
  The second microbenchmark and the quota. Run by a process of an active tenant under the layer,
  with a driver that grants everything: with room for fewer than the ten queue pairs it keeps, the
  program gives up with exit code 1, and what it created stays counted, the tenant's whole remaining
  budget of queue pairs, the completion queue and the protection domain. Otherwise it measures as many
  creations as the budget leaves, at most a thousand, and all thousand registrations, or none without
  room for a region; when its report can be written it then gives everything back.
\<close>

theorem hot_run_budget:
  assumes d: "hot_driver_ok p env" and a: "qp_app (ee_create (hm_exp env)) p t h"
  shows "\<exists>cold test regs report h'. let b = qp_budget \<lparr>qp_type = IBV_QPT_RC\<rparr> p t h in
    if b < NUM_HOT_QPS
    then micro_hot_main env opened h = (1, None, h') \<and> qp_in_use p t h' = qp_in_use p t h + b
      \<and> (\<forall>ty\<in>{3, 4}. counter ty (snd (usage_of p t h')) = counter ty (snd (usage_of p t h)) + 1)
    else micro_hot_main env True h = (0, Some ((cold, test, regs), report), h') \<and> length cold = NUM_HOT_QPS
      \<and> length test = min NUM_ITERATIONS (b - NUM_HOT_QPS)
      \<and> length regs = (if 0 < mr_budget TEST_MR_SIZE p t h then NUM_ITERATIONS else 0)
      \<and> (\<forall>ty\<in>{0, 1, 3, 4}. counter ty (snd (usage_of p t h')) = counter ty (snd (usage_of p t h)))"
proof -
  let ?e = "hm_exp env"
  let ?pd = "he_driver_ptr (ee_pd ?e)" and ?cq = "he_driver_ptr (ee_cq ?e)" and ?attr = "\<lparr>qp_type = IBV_QPT_RC\<rparr>"
  have x: "exp_driver_ok p ?e" and ph: "phase_driver_ok p (hm_hot env)" "phase_driver_ok p (hm_test env)" "phase_driver_ok p (hm_regs env)"
    using d by (simp_all add: hot_driver_ok_def)
  have dev: "ee_devices ?e" using x by (simp add: exp_driver_ok_def)
  have gr: "driver_grants p (\<lambda>i. fst (hm_hot env i))" "driver_grants p (\<lambda>i. fst (hm_test env i))"
    "\<forall>i. he_pid (snd (hm_hot env i)) = p \<and> he_driver_rc (snd (hm_hot env i)) = 0"
    "\<forall>i. he_pid (snd (hm_test env i)) = p \<and> he_driver_rc (snd (hm_test env i)) = 0"
    using ph by (simp_all add: phase_driver_ok_def driver_grants_def)
  obtain e1 e2 h1 h2 where set: "ibv_alloc_pd (ee_pd ?e) (ee_ctx ?e) h = (?pd, e1, h1)"
    "ibv_create_cq (ee_cq ?e) (ee_ctx ?e) 16 0 0 0 h1 = (?cq, e2, h2)"
    and s: "qp_app (ee_create ?e) p t h2" "\<forall>attr. qp_budget attr p t h2 = qp_budget attr p t h"
    and cnt: "\<forall>ty\<in>{0, 1, 3, 4}. counter ty (snd (usage_of p t h2)) =
        counter ty (snd (usage_of p t h)) + (if ty = 4 then 1 else 0) + (if ty = 3 then 1 else 0)"
    using device_setup [OF x a] by metis
  have m0: "moved p t (\<lambda>ty. (if ty = 4 then 1 else 0) + (if ty = 3 then 1 else 0)) h h2"
    using device_moved [OF x _ set] a cnt by (simp add: qp_app_def moved_def add.assoc)
  note b = s(2) [rule_format, of ?attr]
  have use2: "qp_in_use p t h2 = qp_in_use p t h" using cnt by (simp add: qp_in_use_def counter_def)
  obtain hot all h3 where r1: "create_until (\<lambda>i. fst (hm_hot env i)) (hm_hot_clock env) ?pd 0 NUM_HOT_QPS h2 = (hot, all, h3)"
    by (metis prod_cases3)
  note c1 = create_until_result [OF qp_app_env [OF s(1) gr(1)] r1, unfolded b use2]
  have m1: "moved p t (\<lambda>ty. if ty = 0 then of_nat (length hot) else 0) h2 h3" using c1 by simp
  show ?thesis
  proof (cases "qp_budget ?attr p t h < NUM_HOT_QPS")
    case True
    then have "micro_hot_main env opened h = (1, None, h3)"
      using c1 unfolding micro_hot_main_def Let_def set prod.case r1 using dev by simp
    moreover have "counter ty (snd (usage_of p t h3)) = counter ty (snd (usage_of p t h)) + 1" if "ty \<in> {3, 4}" for ty
      using that m1 cnt by (auto simp: moved_def)
    ultimately show ?thesis using True c1 by (simp add: min_absorb2)
  next
    case False
    then have ok: "all" "length hot = NUM_HOT_QPS" using c1 by simp_all
    obtain test all2 h4 where r2: "create_until (\<lambda>i. fst (hm_test env i)) (hm_test_clock env) ?pd 0 NUM_ITERATIONS h3 = (test, all2, h4)"
      by (metis prod_cases3)
    have "qp_app (\<lambda>i. fst (hm_hot env i)) p t h3" using c1 by simp
    note c2 = create_until_result [OF qp_app_env [OF this gr(2)] r2]
    have m2: "moved p t (\<lambda>ty. if ty = 0 then of_nat (length test) else 0) h3 h4" using c2 by simp
    obtain regs h5 where r3: "register_until (hm_regs env) (hm_reg_clock env) ?pd (hm_buf env) 0 NUM_ITERATIONS h4 = (regs, h5)"
      by fastforce
    note c3 = register_until_result [OF ph(3) moved_active [OF m2] r3]
    define h6 where "h6 = destroy_created (\<lambda>i. snd (hm_hot env i)) 0 (map fst hot) h5"
    define h7 where "h7 = destroy_created (\<lambda>i. snd (hm_test env i)) 0 (map fst test) h6"
    have nz: "\<forall>q\<in>set (map fst hot). q \<noteq> 0" "\<forall>q\<in>set (map fst test). q \<noteq> 0" using c1 c2 by auto
    note m3 = conjunct2 [OF c3]
    note m4 = destroy_created_result [OF gr(3) moved_active [OF m3] nz(1), where i = 0, folded h6_def]
    note m5 = destroy_created_result [OF gr(4) moved_active [OF m4] nz(2), where i = 0, folded h7_def]
    have bud: "mr_budget TEST_MR_SIZE p t h4 = mr_budget TEST_MR_SIZE p t h"
      using moved_mr_budget [OF m2] moved_mr_budget [OF m1] moved_mr_budget [OF m0] by simp
    have m: "moved p t (\<lambda>_. 0) h2 h7"
      by (rule moved_trans [OF m1 moved_trans [OF m2 moved_trans [OF m3 moved_trans [OF m4 m5 allI [OF refl]] allI [OF refl]]
          allI [OF refl]]]) simp
    define h9 where "h9 = snd (snd (ibv_dealloc_pd (ee_dealloc_pd ?e) ?pd (snd (snd (ibv_destroy_cq (ee_destroy_cq ?e) ?cq h7)))))"
    have fin: "counter ty (snd (usage_of p t h9)) = counter ty (snd (usage_of p t h))" if "ty \<in> {0, 1, 3, 4}" for ty
      using device_teardown [OF x moved_active [OF m] that, folded h9_def] m cnt that by (auto simp: moved_def)
    have main: "micro_hot_main env True h = (0, Some ((map snd hot, map snd test, regs),
        micro_hot_report (hm_nan env) (map snd hot) (hot_calculate_stats (map snd test)) (hot_calculate_stats regs)), h9)"
      unfolding micro_hot_main_def Let_def set prod.case r1 r2 r3 h6_def [symmetric] h7_def [symmetric] h9_def using dev ok(1) by simp
    have "length test = min NUM_ITERATIONS (qp_budget ?attr p t h - NUM_HOT_QPS)" using c1 c2 ok(2) by simp
    moreover have "length regs = (if 0 < mr_budget TEST_MR_SIZE p t h then NUM_ITERATIONS else 0)" using c3 bud by simp
    ultimately show ?thesis unfolding Let_def using False main fin ok(2)
      by (rule_tac x = "map snd hot" in exI, rule_tac x = "map snd test" in exI, rule_tac x = regs in exI,
          rule_tac x = "micro_hot_report (hm_nan env) (map snd hot) (hot_calculate_stats (map snd test)) (hot_calculate_stats regs)" in exI,
          rule_tac x = h9 in exI) simp
  qed
qed

text \<open>Process 42 of tenant 1, whose budget is 100: it keeps 10 and measures 90.\<close>

definition demo_hot :: hot_env where
  "demo_hot = \<lparr>hm_exp = demo_exp, hm_hot = \<lambda>_. (demo_env, demo_env), hm_test = \<lambda>_. (demo_env, demo_env),
     hm_regs = \<lambda>_. (demo_env, demo_env), hm_hot_clock = \<lambda>_. ((0, 0), (0, 5000)), hm_test_clock = \<lambda>_. ((0, 0), (0, 3000)),
     hm_reg_clock = \<lambda>_. ((0, 0), (0, 2000)), hm_buf = 4096, hm_nan = ''-nan''\<rparr>"

theorem hot_run_budget_witness:
  "\<exists>cold test regs report h'. micro_hot_main demo_hot True (app_view two_processes 42) = (0, Some ((cold, test, regs), report), h')
    \<and> length test = 90 \<and> length regs = 1000"
proof -
  have d: "hot_driver_ok 42 demo_hot"
    using demo_qp_app(1) demo_phase by (simp add: hot_driver_ok_def demo_hot_def)
  have a: "qp_app (ee_create (hm_exp demo_hot)) 42 1 (app_view two_processes 42)"
    using demo_qp_app(2) by (simp add: demo_hot_def)
  have "0 < mr_budget TEST_MR_SIZE 42 1 (app_view two_processes 42)"
    using demo_app by (simp add: mr_budget_def mr_in_use_def default_tenant_quota_def zero_tenant_usage_def zero_usage_def TEST_MR_SIZE_def)
  with hot_run_budget [OF d a] demo_qp_app(3) show ?thesis
    by (auto simp: NUM_HOT_QPS_def NUM_ITERATIONS_def)
qed

theorem micro_versions_agree_witness:
  "fst (hot_calculate_stats [3, 1, 2]) = micro_calculate_stats [3, 1, 2]"
  by (rule micro_versions_agree) simp_all

end
