(* ===== verification/Exp_Measure.thy ===== *)
theory Exp_Measure
  imports Client_Spec Exp_Cycle
begin

text \<open>
  The measurement of how long the daemon takes to update a quota
  (\<open>experiments/exp5_dynamic_policy/src/exp5_measure_latency.c\<close>): ten updates of the quota of
  tenant 30. The connection is a function from the bytes sent to the bytes of the first read,
  \<^const>\<open>None\<close> when a socket call fails, with the state of what is at the other end; the JSON library
  and the clock are arguments. Releasing the same parsed answer twice is undefined, so a run that does
  it has no result. Messages and the heading of the report are left out.
\<close>

section \<open>One update\<close>

definition measure_request :: "u32 \<Rightarrow> u32 \<Rightarrow> json_out" where
  "measure_request tenant_id new_qp_limit =
     JObject [(''cmd'', JString ''UPDATE_QUOTA''), (''tenant'', JInt tenant_id), (''qp'', JInt new_qp_limit), (''mr'', JInt 100)]"

datatype measured = Latency rat | DoubleFree

text \<open>When the answer has the field \<open>success\<close> it is released right after the field was read; when
  the field is false, a second time at the end.\<close>

definition measure_update_latency :: "'j json_client_lib \<Rightarrow> (string \<Rightarrow> 's \<Rightarrow> string option \<times> 's) \<Rightarrow>
    (u64 \<times> u64) \<times> (u64 \<times> u64) \<Rightarrow> u32 \<Rightarrow> u32 \<Rightarrow> 's \<Rightarrow> measured \<times> 's" where
  "measure_update_latency lib ch clock tenant_id new_qp_limit s =
     (let (answer, s) = ch (to_json_string lib (measure_request tenant_id new_qp_limit)) s
      in (case answer of
            None \<Rightarrow> Latency (-1)
          | Some bytes \<Rightarrow>
              if bytes = [] then Latency (-1)
              else
                (case tokener_parse lib (takeWhile (\<lambda>c. c \<noteq> CHR 0x00) (take 1023 bytes)) of
                   None \<Rightarrow> Latency (-1)
                 | Some resp \<Rightarrow>
                     (case object_get_ex lib resp ''success'' of
                        None \<Rightarrow> Latency (-1)
                      | Some success_obj \<Rightarrow>
                          if get_boolean lib success_obj
                          then Latency (double_sub (get_time_ms (snd clock)) (get_time_ms (fst clock)))
                          else DoubleFree)), s))"

section \<open>The run\<close>

fun measure_rounds :: "'j json_client_lib \<Rightarrow> (nat \<Rightarrow> string \<Rightarrow> 's \<Rightarrow> string option \<times> 's) \<Rightarrow>
    (nat \<Rightarrow> (u64 \<times> u64) \<times> (u64 \<times> u64)) \<Rightarrow> u32 \<Rightarrow> nat \<Rightarrow> nat \<Rightarrow> 's \<Rightarrow> (rat list \<times> 's) option" where
  "measure_rounds lib ch clock tid i 0 s = Some ([], s)"
| "measure_rounds lib ch clock tid i (Suc n) s =
     (case measure_update_latency lib (ch i) (clock i) tid (of_nat (5 + i + 1)) s of
        (DoubleFree, s) \<Rightarrow> None
      | (Latency x, s) \<Rightarrow>
          (case measure_rounds lib ch clock tid (Suc i) n s of None \<Rightarrow> None | Some (xs, s) \<Rightarrow> Some (x # xs, s)))"

fun measure_rows :: "nat \<Rightarrow> rat list \<Rightarrow> string" where
  "measure_rows i [] = []"
| "measure_rows i (x # xs) =
     (if x > 0 then dec (i + 1) @ '','' @ fixed_text 3 x @ '',OK'' @ newline else dec (i + 1) @ '',-1,FAILED'' @ newline)
     @ measure_rows (Suc i) xs"

text \<open>The heading of the summary, in UTF-8.\<close>

definition summary_heading :: string where
  "summary_heading = [CHR 0xE6, CHR 0xB1, CHR 0x87, CHR 0xE6, CHR 0x80, CHR 0xBB, CHR 0xE7, CHR 0xBB, CHR 0x9F, CHR 0xE8, CHR 0xAE, CHR 0xA1]"

definition measure_report :: "rat list \<Rightarrow> string" where
  "measure_report xs =
     (let latencies = filter (\<lambda>x. x > 0) xs; valid_count = length latencies;
          sum_latency = foldl double_add 0 latencies;
          avg_latency = (if valid_count > 0 then double_div sum_latency (of_nat valid_count) else sum_latency);
          min_latency = foldl (\<lambda>m x. if x < m then x else m) 1000000000 latencies;
          max_latency = foldl (\<lambda>m x. if x > m then x else m) 0 latencies
      in ''TEST_ROUND,API_LATENCY_MS,NOTES'' @ newline @ measure_rows 0 xs
         @ newline @ ''# '' @ summary_heading @ newline
         @ ''VALID_MEASUREMENTS: '' @ dec valid_count @ newline
         @ ''AVERAGE_LATENCY_MS: '' @ fixed_text 3 avg_latency @ newline
         @ ''MIN_LATENCY_MS: '' @ fixed_text 3 min_latency @ newline
         @ ''MAX_LATENCY_MS: '' @ fixed_text 3 max_latency @ newline)"

definition NUM_MEASUREMENTS :: nat where "NUM_MEASUREMENTS = 10"

definition measure_main :: "'j json_client_lib \<Rightarrow> exp_env \<Rightarrow> (nat \<Rightarrow> string \<Rightarrow> hook_state \<Rightarrow> string option \<times> hook_state) \<Rightarrow>
    (nat \<Rightarrow> (u64 \<times> u64) \<times> (u64 \<times> u64)) \<Rightarrow> bool \<Rightarrow> hook_state \<Rightarrow> (int \<times> string option \<times> hook_state) option" where
  "measure_main lib env ch clock opened h =
     (if \<not> ee_devices env then Some (1, None, h)
      else
        let (pd, _, h) = ibv_alloc_pd (ee_pd env) (ee_ctx env) h;
            (cq, _, h) = ibv_create_cq (ee_cq env) (ee_ctx env) 16 0 0 0 h
        in if \<not> opened then Some (1, None, h)
           else
             (case measure_rounds lib ch clock 30 0 NUM_MEASUREMENTS h of
                None \<Rightarrow> None
              | Some (xs, h) \<Rightarrow>
                  let h = snd (snd (ibv_destroy_cq (ee_destroy_cq env) cq h));
                      h = snd (snd (ibv_dealloc_pd (ee_dealloc_pd env) pd h))
                  in Some (0, Some (measure_report xs), h)))"

section \<open>With the daemon at the other end\<close>

definition daemon_exchange :: "'j json_client_lib \<Rightarrow> daemon_env \<Rightarrow> string \<Rightarrow> tenant_state \<Rightarrow> string option \<times> tenant_state" where
  "daemon_exchange lib denv bytes s =
     (case handle_client (daemon_lib lib) denv (Some bytes) s of
        None \<Rightarrow> (None, s)
      | Some (reply, s) \<Rightarrow> (Some reply, s))"

text \<open>What the daemon answers to an update, and what the program needs to read of it.\<close>

definition update_answer :: "u32 \<Rightarrow> bool \<Rightarrow> json_out" where
  "update_answer tid ok =
     response_object ok (Some (if ok then ''Quota updated for tenant '' @ dec (unat tid) else ''Failed to update quota'')) None"

definition reads_success :: "'j json_client_lib \<Rightarrow> string \<Rightarrow> bool \<Rightarrow> bool" where
  "reads_success lib text ok \<longleftrightarrow> text \<noteq> [] \<and> length text < 1024 \<and> CHR 0x00 \<notin> set text
     \<and> (\<exists>j v. tokener_parse lib text = Some j \<and> object_get_ex lib j ''success'' = Some v \<and> get_boolean lib v = ok)"

lemma daemon_update_reply:
  assumes a: "tenant_attached s" and r: "fits (to_json_string lib (measure_request tid limit))"
      "reads_back lib (to_json_string lib (measure_request tid limit)) (measure_request tid limit)"
  shows "\<exists>s'. daemon_exchange lib denv (to_json_string lib (measure_request tid limit)) s =
      (Some (to_json_string lib (update_answer tid (members (tenant_state_abs s) tid \<noteq> None)) @ [CHR 0x0A]), s')
    \<and> tenant_attached s'
    \<and> tenant_state_abs s' = snd (spec_update_quota tid (Some (daemon_quota limit 100 1073741824)) (tenant_state_abs s))"
proof -
  let ?text = "to_json_string lib (measure_request tid limit)" and ?dl = "daemon_lib lib"
  let ?q = "daemon_quota limit 100 1073741824"
  obtain j where j: "tokener_parse lib ?text = Some j" "represents lib (measure_request tid limit) (Some j)"
    using r(2) by (auto simp: reads_back_def)
  obtain c t q m where f: "object_get_ex lib j ''cmd'' = Some c" "get_string lib c = Some ''UPDATE_QUOTA''"
      "object_get_ex lib j ''tenant'' = Some t" "get_int lib t = tid" "object_get_ex lib j ''qp'' = Some q" "get_int lib q = limit"
      "object_get_ex lib j ''mr'' = Some m" "get_int lib m = 100" "object_get_ex lib j ''memory'' = None"
    using j(2) by (auto simp: measure_request_def field_of_def)
  have cmd: "command_of ?dl ?text = Some (''UPDATE_QUOTA'', j)" using j(1) f by (simp add: command_of_def)
  have quota: "request_quota ?dl j limit limit = ?q"
    using f by (simp add: request_quota_def int_field_def memory_field_def)
  have e: "daemon_effect ?dl ?text T = spec_update_quota tid (Some ?q) T" for T
    using cmd f quota by (simp add: daemon_effect_def)
  obtain reply s' where u: "handle_update_quota ?dl denv j s = (reply, s')" by fastforce
  have h: "handled ?dl (spec_update_quota tid (Some ?q) (tenant_state_abs s)) (reply, s')"
    using run_command_handled [OF a cmd, of denv] u by (simp add: run_command_def e)
  obtain rc s1 where rc: "tenant_update_quota (de_tenant denv 0) tid (Some ?q) s = (rc, s1)" by fastforce
  have "rc = fst (spec_update_quota tid (Some ?q) (tenant_state_abs s))"
    using update_quota_refines [OF a, of "de_tenant denv 0" tid "Some ?q"] rc by (metis fst_conv fst_map_prod id_apply)
  then have ok: "rc = 0 \<longleftrightarrow> members (tenant_state_abs s) tid \<noteq> None"
    by (auto simp: spec_update_quota_def split: option.splits)
  have "reply = to_json_string lib (update_answer tid (rc = 0))"
    using u rc f by (auto simp: handle_update_quota_def int_field_def memory_field_def Let_def build_response_def
        update_answer_def split: prod.splits if_splits)
  moreover have "process_command ?dl denv ?text s = Some (reply, s')" by (simp add: process_command_eq cmd run_command_def u)
  from handle_client_whole [OF r(1) this] have "daemon_exchange lib denv ?text s = (Some (reply @ [CHR 0x0A]), s')"
    by (simp add: daemon_exchange_def)
  ultimately show ?thesis using h ok by (auto simp: handled_def)
qed

lemma reads_whole: "reads_success lib text ok \<Longrightarrow> takeWhile (\<lambda>c. c \<noteq> CHR 0x00) (take 1023 text) = text"
  by (auto simp: reads_success_def intro!: takeWhile_eq_all_conv [THEN iffD2])

lemma measure_update_result:
  assumes a: "tenant_attached s" and r: "fits (to_json_string lib (measure_request tid limit))"
      "reads_back lib (to_json_string lib (measure_request tid limit)) (measure_request tid limit)"
    and b: "reads_success lib (to_json_string lib (update_answer tid ok) @ [CHR 0x0A]) ok"
    and ok: "ok = (members (tenant_state_abs s) tid \<noteq> None)"
  shows "\<exists>s'. measure_update_latency lib (daemon_exchange lib denv) clock tid limit s =
      (if ok then Latency (double_sub (get_time_ms (snd clock)) (get_time_ms (fst clock))) else DoubleFree, s')
    \<and> tenant_attached s'
    \<and> tenant_state_abs s' = snd (spec_update_quota tid (Some (daemon_quota limit 100 1073741824)) (tenant_state_abs s))"
proof -
  define rt where "rt = to_json_string lib (update_answer tid ok) @ [CHR 0x0A]"
  note b = b [folded rt_def]
  obtain j v where j: "tokener_parse lib rt = Some j" "object_get_ex lib j ''success'' = Some v" "get_boolean lib v = ok"
    and ne: "rt \<noteq> []"
    using b by (auto simp: reads_success_def)
  obtain s' where x: "daemon_exchange lib denv (to_json_string lib (measure_request tid limit)) s = (Some rt, s')"
    and s': "tenant_attached s'"
      "tenant_state_abs s' = snd (spec_update_quota tid (Some (daemon_quota limit 100 1073741824)) (tenant_state_abs s))"
    using daemon_update_reply [OF a r, of denv] unfolding ok [symmetric] rt_def [symmetric] by blast
  have "measure_update_latency lib (daemon_exchange lib denv) clock tid limit s =
      (if ok then Latency (double_sub (get_time_ms (snd clock)) (get_time_ms (fst clock))) else DoubleFree, s')"
    by (simp add: measure_update_latency_def x ne reads_whole [OF b] j)
  with s' show ?thesis by blast
qed

section \<open>Property\<close>

text \<open>
  C12 (the measurement and the daemon). Connected to the daemon with an attached table, and with a
  library that reads back the requests and the field \<open>success\<close> of the answers, every update of a
  tenant of the table succeeds and its time is measured; afterwards the tenant may have \<open>5 + n\<close> queue
  pairs after \<open>n\<close> rounds, 100 regions, and one gigabyte of memory, whatever it had before, since the
  request does not name the memory. For a tenant that is not in the table the first round releases the
  answer twice.
\<close>

theorem measure_rounds_effect:
  assumes r: "\<And>limit. fits (to_json_string lib (measure_request tid limit))"
      "\<And>limit. reads_back lib (to_json_string lib (measure_request tid limit)) (measure_request tid limit)"
    and b: "\<And>ok. reads_success lib (to_json_string lib (update_answer tid ok) @ [CHR 0x0A]) ok"
  shows "tenant_attached s \<Longrightarrow>
    (case members (tenant_state_abs s) tid of
       None \<Rightarrow> 0 < n \<longrightarrow> measure_rounds lib (\<lambda>i. daemon_exchange lib (denv i)) clock tid i n s = None
     | Some (st, q, u) \<Rightarrow>
         \<exists>s'. measure_rounds lib (\<lambda>i. daemon_exchange lib (denv i)) clock tid i n s =
           Some (map (\<lambda>j. double_sub (get_time_ms (snd (clock j))) (get_time_ms (fst (clock j)))) [i..<i + n], s')
         \<and> tenant_attached s'
         \<and> members (tenant_state_abs s') tid =
             Some (st, if n = 0 then q else daemon_quota (of_nat (5 + i + n)) 100 1073741824, u))"
proof (induction n arbitrary: i s)
  case 0
  then show ?case by (auto split: option.split)
next
  case (Suc n)
  let ?ok = "members (tenant_state_abs s) tid \<noteq> None" and ?l = "of_nat (5 + i + 1) :: u32"
  obtain s1 where m: "measure_update_latency lib (daemon_exchange lib (denv i)) (clock i) tid ?l s =
      (if ?ok then Latency (double_sub (get_time_ms (snd (clock i))) (get_time_ms (fst (clock i)))) else DoubleFree, s1)"
    and s1: "tenant_attached s1"
      "tenant_state_abs s1 = snd (spec_update_quota tid (Some (daemon_quota ?l 100 1073741824)) (tenant_state_abs s))"
    using measure_update_result [OF Suc.prems r b refl, of "denv i" "clock i" ?l] by blast
  show ?case
  proof (cases "members (tenant_state_abs s) tid")
    case None
    with m show ?thesis by (simp del: of_nat_add of_nat_Suc)
  next
    case (Some row)
    obtain st q u where row: "row = (st, q, u)" by (cases row)
    have "members (tenant_state_abs s1) tid = Some (st, daemon_quota ?l 100 1073741824, u)"
      using s1(2) Some row by (simp add: spec_update_quota_def)
    with Suc.IH [OF s1(1), of "Suc i"] m Some row show ?thesis
      by (auto simp: upt_conv_Cons add.assoc simp del: upt_Suc of_nat_add of_nat_Suc)
  qed
qed

text \<open>A library that prints a request as its limit in binary, and an answer as one letter.\<close>

definition letter_json :: "u32 \<Rightarrow> json_out json_client_lib" where
  "letter_json tid = (tree_json (JBoolean True) (JBoolean True))
     \<lparr>tokener_parse := (\<lambda>text. case text of
         c # cs \<Rightarrow>
           if c = CHR ''r'' then Some (measure_request tid (horner_sum of_bool 2 (map (\<lambda>c. c = CHR ''1'') cs)))
           else Some (update_answer tid (c = CHR ''y''))
       | [] \<Rightarrow> None),
      to_json_string := (\<lambda>x. case x of
         JObject fs \<Rightarrow>
           (case map_of fs ''qp'' of
              Some (JInt w) \<Rightarrow> CHR ''r'' # map (\<lambda>i. if bit w i then CHR ''1'' else CHR ''0'') [0..<32]
            | _ \<Rightarrow> if map_of fs ''success'' = Some (JBoolean True) then ''y'' else ''n'')
       | _ \<Rightarrow> [])\<rparr>"

lemma represents_accessors: "represents (lib\<lparr>tokener_parse := f, to_json_string := g\<rparr>) x v = represents lib x v"
proof (induction x arbitrary: v)
  case (JArray xs)
  then show ?case by (auto simp: list_all2_conv_all_nth)
next
  case (JObject fs)
  then have "p \<in> set fs \<Longrightarrow> represents (lib\<lparr>tokener_parse := f, to_json_string := g\<rparr>) (snd p) w = represents lib (snd p) w" for p w
    by (cases p) (auto intro: snds.intros)
  then show ?case by (auto simp: field_of_def split: option.splits)
qed simp_all

lemma letter_reads:
  "fits (to_json_string (letter_json tid) (measure_request tid limit))"
  "reads_back (letter_json tid) (to_json_string (letter_json tid) (measure_request tid limit)) (measure_request tid limit)"
  "reads_success (letter_json tid) (to_json_string (letter_json tid) (update_answer tid ok) @ [CHR 0x0A]) ok"
proof -
  have p: "to_json_string (letter_json tid) (measure_request tid limit)
      = CHR ''r'' # map (\<lambda>i. if bit limit i then CHR ''1'' else CHR ''0'') [0..<32]"
    by (simp add: letter_json_def measure_request_def)
  show "fits (to_json_string (letter_json tid) (measure_request tid limit))"
    unfolding p by (auto simp: fits_def BUFFER_SIZE_def)
  have bits: "map ((\<lambda>c. c = CHR ''1'') \<circ> (\<lambda>i. if bit limit i then CHR ''1'' else CHR ''0'')) [0..<32] = map (bit limit) [0..<32]"
    by (intro map_cong) auto
  have "tokener_parse (letter_json tid) (to_json_string (letter_json tid) (measure_request tid limit)) =
      Some (measure_request tid (horner_sum of_bool 2 (map (bit limit) [0..<32])))"
    unfolding p by (simp add: letter_json_def bits)
  also have "horner_sum of_bool 2 (map (bit limit) [0..<32]) = limit"
    by (simp add: horner_sum_bit_eq_take_bit take_bit_word_eq_self)
  finally show "reads_back (letter_json tid) (to_json_string (letter_json tid) (measure_request tid limit)) (measure_request tid limit)"
    using tree_represents [of "measure_request tid limit" "JBoolean True" "JBoolean True"]
    by (simp add: reads_back_def represents_accessors letter_json_def) (simp add: measure_request_def)
  show "reads_success (letter_json tid) (to_json_string (letter_json tid) (update_answer tid ok) @ [CHR 0x0A]) ok"
    by (cases ok) (simp_all add: reads_success_def letter_json_def update_answer_def response_object_def tree_json_def)
qed

theorem measure_rounds_effect_witness:
  "\<exists>xs s'. measure_rounds (letter_json 1) (\<lambda>_. daemon_exchange (letter_json 1) demo_daemon_env) (\<lambda>_. ((0, 0), (1, 0))) 1 0
      NUM_MEASUREMENTS two_tenants = Some (xs, s')
    \<and> members (tenant_state_abs s') 1 = Some (TENANT_STATUS_ACTIVE, daemon_quota 15 100 1073741824, zero_tenant_usage)"
  using measure_rounds_effect [OF letter_reads two_tenants_attached, where tid = 1 and n = NUM_MEASUREMENTS and denv = "\<lambda>_. demo_daemon_env"
      and clock = "\<lambda>_. ((0, 0), (1, 0))" and i = 0]
  by (auto simp: two_tenants_abs NUM_MEASUREMENTS_def)

end
