(* ===== verification/Local_Policy.thy ===== *)
theory Local_Policy
  imports Intercept_Log Collector_Client C_Float
begin

text \<open>
  The local QP policy (\<open>src/dynamic_policy.c\<close>): the limit of this process follows the
  share of the QPs that all processes use, which the code computes in \<open>float\<close>. The
  connections to the collector and the time are arguments.
\<close>

section \<open>Thresholds\<close>

text \<open>The doubles nearest to 0.3 and 0.7.\<close>

definition double_0_3 :: rat where "double_0_3 = 5404319552844595 / 18014398509481984"
definition double_0_7 :: rat where "double_0_7 = 6305039478318694 / 9007199254740992"

section \<open>The policy\<close>

record local_policy =
  last_adjust_time :: u32
  local_qp_limit :: u32
  lp_client :: collector_client

record local_policy_env =
  lpe_time :: u32
  lpe_count :: channel
  lpe_max :: channel
  lpe_check_count :: channel
  lpe_check_max :: channel
  lpe_stack :: u32
  lpe_limit :: "string option" \<comment> \<open>RDMA_INTERCEPT_LOCAL_QP_LIMIT\<close>

definition local_policy_start :: local_policy where
  "local_policy_start = \<lparr>last_adjust_time = 0, local_qp_limit = 100, lp_client = client_start\<rparr>"

definition limit_for_usage :: "rat \<Rightarrow> u32" where
  "limit_for_usage global_usage =
     (if global_usage < double_0_3 then 200
      else if global_usage < double_0_7 then 100
      else 50)"

definition adjust_local_qp_limit :: "local_policy_env \<Rightarrow> local_policy \<Rightarrow> local_policy" where
  "adjust_local_qp_limit env s =
     (if lpe_time env - last_adjust_time s < 5 then s
      else
        let s = s\<lparr>last_adjust_time := lpe_time env\<rparr>;
            (global_count, c) = collector_get_global_qp_count (lpe_count env) (lpe_stack env) (lp_client s);
            (max_global, c) = collector_get_max_global_qp (lpe_max env) (lpe_stack env) c;
            s = s\<lparr>lp_client := c\<rparr>;
            global_usage = (if max_global > 0 then float_div (float_of_u32 global_count) (float_of_u32 max_global)
                            else 0);
            s = s\<lparr>local_qp_limit := limit_for_usage global_usage\<rparr>
        in (case lpe_limit env of
              None \<Rightarrow> s
            | Some v \<Rightarrow> s\<lparr>local_qp_limit := atoi v\<rparr>))"

text \<open>The count of this process is \<open>g_intercept_state.qp_count\<close>; true admits the creation.\<close>

definition check_dynamic_qp_policy ::
    "local_policy_env \<Rightarrow> intercept_state \<Rightarrow> local_policy \<Rightarrow> bool \<times> local_policy" where
  "check_dynamic_qp_policy env core s =
     (let s = adjust_local_qp_limit env s;
          (reached, c) = collector_check_global_qp_limit (lpe_check_count env) (lpe_check_max env)
                           (lpe_stack env) (lp_client s);
          s = s\<lparr>lp_client := c\<rparr>
      in if reached then (False, s)
         else if st_qp_count core \<ge> local_qp_limit s then (False, s)
         else (True, s))"

definition get_current_local_qp_limit :: "local_policy_env \<Rightarrow> local_policy \<Rightarrow> u32 \<times> local_policy" where
  "get_current_local_qp_limit env s =
     (let s = adjust_local_qp_limit env s in (local_qp_limit s, s))"

definition init_dynamic_policy :: "local_policy_env \<Rightarrow> local_policy \<Rightarrow> local_policy" where
  "init_dynamic_policy env s = adjust_local_qp_limit env s"

section \<open>The thresholds in integers\<close>

text \<open>At the thresholds themselves the float is above 0.3 and below 0.7.\<close>

lemma round_at_thresholds: "round_float (3 / 10) = 10066330 / 33554432" "round_float (7 / 10) = 11744051 / 16777216"
proof -
  have "\<lfloor>50331648 / 5 :: rat\<rfloor> = 10066329" "\<lfloor>58720256 / 5 :: rat\<rfloor> = 11744051"
    by (rule floor_unique; simp)+
  then show "round_float (3 / 10) = 10066330 / 33554432" "round_float (7 / 10) = 11744051 / 16777216"
    by (simp_all add: round_float_def round_even_def eval_nat_numeral Let_def)
qed

lemma ratio_cases:
  fixes c m k :: nat
  assumes m: "0 < m" "m \<le> 1048576"
  defines "x \<equiv> (of_nat c / of_nat m :: rat)"
  shows "10 * c < k * m \<Longrightarrow> x \<le> of_nat k / 10 - 1 / 10485760"
    and "10 * c = k * m \<Longrightarrow> x = of_nat k / 10"
    and "10 * c > k * m \<Longrightarrow> x \<ge> of_nat k / 10 + 1 / 10485760"
proof -
  have mp: "(0 :: rat) < of_nat m" using m by simp
  have s: "1 / 10485760 \<le> (1 / (10 * of_nat m) :: rat)"
    using m by (simp add: field_simps)
  {
    assume "10 * c < k * m"
    then have "(of_nat (10 * c + 1) :: rat) \<le> of_nat (k * m)" by (simp only: of_nat_le_iff)
    then have "x \<le> of_nat k / 10 - 1 / (10 * of_nat m)" using mp by (simp add: x_def field_simps)
    with s show "x \<le> of_nat k / 10 - 1 / 10485760" by linarith
  }
  {
    assume "10 * c = k * m"
    then have "(of_nat (10 * c) :: rat) = of_nat (k * m)" by simp
    then show "x = of_nat k / 10" using mp by (simp add: x_def field_simps)
  }
  {
    assume "10 * c > k * m"
    then have "(of_nat (k * m + 1) :: rat) \<le> of_nat (10 * c)" by (simp only: of_nat_le_iff)
    then have "(of_nat (k * m + 1) :: rat) / (10 * of_nat m) \<le> of_nat (10 * c) / (10 * of_nat m)"
      using mp by (intro divide_right_mono) simp_all
    moreover have "(of_nat (k * m + 1) :: rat) / (10 * of_nat m) = of_nat k / 10 + 1 / (10 * of_nat m)"
      "(of_nat (10 * c) :: rat) / (10 * of_nat m) = x" using mp by (simp_all add: x_def field_simps)
    ultimately have "x \<ge> of_nat k / 10 + 1 / (10 * of_nat m)" by simp
    with s show "x \<ge> of_nat k / 10 + 1 / 10485760" by linarith
  }
qed

lemma limit_for_ratio:
  fixes c m :: nat
  assumes m: "0 < m" "m \<le> 1048576" and c: "c \<le> 1048576"
  shows "limit_for_usage (round_float (of_nat c / of_nat m)) =
    (if 10 * c < 3 * m then 200 else if 10 * c \<le> 7 * m then 100 else 50)"
proof (cases "c = 0")
  case True
  then show ?thesis using m by (simp add: round_float_def limit_for_usage_def double_0_3_def)
next
  case False
  let ?x = "of_nat c / of_nat m :: rat"
  have mp: "(0 :: rat) < of_nat m" and mb: "(of_nat m :: rat) \<le> 1048576"
    and cp: "(1 :: rat) \<le> of_nat c" and cb: "(of_nat c :: rat) \<le> 1048576"
    using m c False by (simp_all add: of_nat_le_iff [of _ 1048576, where 'a = rat, simplified] Suc_le_eq)
  have "(1 :: rat) / 1048576 \<le> ?x" using mp mb cp by (simp add: field_simps)
  moreover have "?x < 16777216"
  proof -
    have "(1 :: rat) \<le> of_nat m" using m by simp
    then have "?x \<le> of_nat c" using cp by (simp add: field_simps)
    with cb show ?thesis by linarith
  qed
  ultimately have e: "\<bar>round_float ?x - ?x\<bar> \<le> ?x / 16777216" by (rule round_float_error)
  note r = ratio_cases [OF m, where c = c]
  consider "10 * c < 3 * m" | "10 * c = 3 * m" | "3 * m < 10 * c" "10 * c < 7 * m" | "10 * c = 7 * m" | "7 * m < 10 * c"
    by linarith
  then show ?thesis
  proof cases
    case 1
    with r(1) [where k = 3] e have "round_float ?x < double_0_3" unfolding double_0_3_def by ((simp; fail) | (simp, linarith))
    with 1 show ?thesis by (simp add: limit_for_usage_def)
  next
    case 2
    have "?x = 3 / 10" using r(2) [OF 2] by (simp only: of_nat_numeral)
    then have "round_float ?x = 10066330 / 33554432" by (simp only: round_at_thresholds)
    with 2 m show ?thesis by (simp add: limit_for_usage_def double_0_3_def double_0_7_def)
  next
    case 3
    with r(3) [where k = 3] e have "double_0_3 \<le> round_float ?x" unfolding double_0_3_def by ((simp; fail) | (simp, linarith))
    moreover from 3 r(1) [where k = 7] e have "round_float ?x < double_0_7" unfolding double_0_7_def by ((simp; fail) | (simp, linarith))
    ultimately show ?thesis using 3 by (simp add: limit_for_usage_def)
  next
    case 4
    have "?x = 7 / 10" using r(2) [OF 4] by (simp only: of_nat_numeral)
    then have "round_float ?x = 11744051 / 16777216" by (simp only: round_at_thresholds)
    with 4 m show ?thesis by (simp add: limit_for_usage_def double_0_3_def double_0_7_def)
  next
    case 5
    with r(3) [where k = 7] e have "double_0_7 \<le> round_float ?x" unfolding double_0_7_def by ((simp; fail) | (simp, linarith))
    moreover then have "double_0_3 \<le> round_float ?x" by (simp add: double_0_3_def double_0_7_def)
    ultimately show ?thesis using 5 by (simp add: limit_for_usage_def)
  qed
qed

end
