(* ===== verification/Local_Spec.thy ===== *)
theory Local_Spec
  imports Local_Policy Collector_Spec
begin

text \<open>
  What the local policy decides when its process is connected to the collector service: the
  \<open>float\<close> computation of the limit, compared in integers, and the admission of a creation.
\<close>

definition usage_limit :: "nat \<Rightarrow> nat \<Rightarrow> u32" where
  "usage_limit c m = (if 10 * c < 3 * m then 200 else if 10 * c \<le> 7 * m then 100 else 50)"

lemma float_of_small: "unat n \<le> 1048576 \<Longrightarrow> float_of_u32 n = of_nat (unat n)"
  by (simp add: float_of_u32_def)

text \<open>
  The limit in force: within five seconds of the last adjustment the old one; otherwise that of the
  environment, and without it the one the usage gives.
\<close>

definition limit_in_force :: "local_policy_env \<Rightarrow> local_policy \<Rightarrow> nat \<Rightarrow> nat \<Rightarrow> u32" where
  "limit_in_force env p c m =
     (if lpe_time env - last_adjust_time p < 5 then local_qp_limit p
      else case lpe_limit env of Some v \<Rightarrow> atoi v | None \<Rightarrow> usage_limit c m)"

lemma adjusted_limit:
  assumes env: "lpe_count env = served menv s" "lpe_max env = served menv (sync_ebpf_data menv s)"
    and lim: "col_max_global_qp s > 0" "unat (col_max_global_qp s) \<le> 1048576"
      "unat (global_qp_count (sync_ebpf_data menv s)) \<le> 1048576"
  shows "local_qp_limit (adjust_local_qp_limit env p) =
      limit_in_force env p (unat (global_qp_count (sync_ebpf_data menv s))) (unat (col_max_global_qp s))"
    and "last_adjust_time (adjust_local_qp_limit env p) =
      (if lpe_time env - last_adjust_time p < 5 then last_adjust_time p else lpe_time env)"
proof -
  let ?c = "unat (global_qp_count (sync_ebpf_data menv s))" and ?m = "unat (col_max_global_qp s)"
  have mp: "0 < ?m" "col_max_global_qp s \<noteq> 0" using lim(1) by (simp_all add: word_gt_0 unat_gt_0)
  have "limit_for_usage (float_div (float_of_u32 (global_qp_count (sync_ebpf_data menv s)))
      (float_of_u32 (col_max_global_qp s))) = usage_limit ?c ?m"
    using limit_for_ratio [OF mp(1) lim(2,3)] float_of_small [OF lim(2)] float_of_small [OF lim(3)]
    by (simp only: float_div_def usage_limit_def)
  then show "local_qp_limit (adjust_local_qp_limit env p) = limit_in_force env p ?c ?m"
    using mp lim(1)
    by (simp add: adjust_local_qp_limit_def limit_in_force_def env collector_get_global_qp_count_def
        collector_get_max_global_qp_def query_stats Let_def split: option.split del: sync_keeps(5))
  show "last_adjust_time (adjust_local_qp_limit env p) =
      (if lpe_time env - last_adjust_time p < 5 then last_adjust_time p else lpe_time env)"
    by (simp add: adjust_local_qp_limit_def Let_def split: option.split prod.split)
qed

text \<open>
  C34 (the local policy). For a process connected to the service, with a global limit between one
  and a million QPs and at most a million in use, a creation is admitted exactly when the service's
  global count is below its limit and the count of this process is below the limit in force. Within
  five seconds of the last adjustment this is the limit that adjustment left; otherwise it is the
  one of the environment when that sets it, and else 200 when less than three tenths of the global
  limit are in use, 50 when more than seven tenths are and 100 between. The code asks for a usage
  below 0.7 for 100; in \<open>float\<close> exactly seven tenths still count as below. The limit
  decided on is kept, and a new adjustment is dated.
\<close>

theorem local_policy_exact:
  fixes p :: local_policy
  assumes env: "lpe_count env = served menv s" "lpe_max env = served menv (sync_ebpf_data menv s)"
    "lpe_check_count env = served menv s" "lpe_check_max env = served menv (sync_ebpf_data menv s)"
    and lim: "col_max_global_qp s > 0" "unat (col_max_global_qp s) \<le> 1048576"
      "unat (global_qp_count (sync_ebpf_data menv s)) \<le> 1048576"
  defines "limit \<equiv> limit_in_force env p (unat (global_qp_count (sync_ebpf_data menv s))) (unat (col_max_global_qp s))"
  shows "case check_dynamic_qp_policy env core p of (admitted, p') \<Rightarrow>
      (admitted \<longleftrightarrow> global_qp_count (sync_ebpf_data menv s) < col_max_global_qp s \<and> st_qp_count core < limit)
      \<and> local_qp_limit p' = limit
      \<and> last_adjust_time p' = (if lpe_time env - last_adjust_time p < 5 then last_adjust_time p else lpe_time env)"
proof -
  obtain reached c where r: "collector_check_global_qp_limit (lpe_check_count env) (lpe_check_max env)
      (lpe_stack env) (lp_client (adjust_local_qp_limit env p)) = (reached, c)" by fastforce
  then have "reached \<longleftrightarrow> \<not> global_qp_count (sync_ebpf_data menv s) < col_max_global_qp s"
    using check_reached [OF lim(1), of menv] env by (metis fst_conv not_less)
  then show ?thesis
    using adjusted_limit [OF env(1,2) lim, of p] r
    by (auto simp: check_dynamic_qp_policy_def limit_def Let_def not_le simp del: sync_keeps)
qed

definition local_demo_service :: collector_state where
  "local_demo_service = collector_start\<lparr>global_qp_count := 7, col_max_global_qp := 10\<rparr>"

definition local_demo_maps :: map_env where
  "local_demo_maps = \<lparr>me_process_keys = [], me_global = None, me_malloc_ok = \<lambda>_. True\<rparr>"

definition local_demo_env :: local_policy_env where
  "local_demo_env = \<lparr>lpe_time = 100,
     lpe_count = served local_demo_maps local_demo_service,
     lpe_max = served local_demo_maps (sync_ebpf_data local_demo_maps local_demo_service),
     lpe_check_count = served local_demo_maps local_demo_service,
     lpe_check_max = served local_demo_maps (sync_ebpf_data local_demo_maps local_demo_service),
     lpe_stack = 0, lpe_limit = None\<rparr>"

lemma local_policy_exact_witness:
  "fst (check_dynamic_qp_policy local_demo_env (g_intercept_state\<lparr>st_qp_count := 99\<rparr>) local_policy_start)
   \<and> \<not> fst (check_dynamic_qp_policy (local_demo_env\<lparr>lpe_time := 3, lpe_limit := Some ''500''\<rparr>)
        (g_intercept_state\<lparr>st_qp_count := 100\<rparr>) local_policy_start)
   \<and> fst (check_dynamic_qp_policy (local_demo_env\<lparr>lpe_limit := Some ''500''\<rparr>)
        (g_intercept_state\<lparr>st_qp_count := 100\<rparr>) local_policy_start)"
proof -
  have a: "atoi ''500'' = (500 :: u32)" by code_simp
  show ?thesis
    using local_policy_exact [where p = local_policy_start and env = local_demo_env
          and menv = local_demo_maps and s = local_demo_service
          and core = "g_intercept_state\<lparr>st_qp_count := 99\<rparr>"]
      local_policy_exact [where p = local_policy_start
          and env = "local_demo_env\<lparr>lpe_time := 3, lpe_limit := Some ''500''\<rparr>"
          and menv = local_demo_maps and s = local_demo_service
          and core = "g_intercept_state\<lparr>st_qp_count := 100\<rparr>"]
      local_policy_exact [where p = local_policy_start
          and env = "local_demo_env\<lparr>lpe_limit := Some ''500''\<rparr>"
          and menv = local_demo_maps and s = local_demo_service
          and core = "g_intercept_state\<lparr>st_qp_count := 100\<rparr>"]
    by (simp add: local_demo_env_def local_demo_service_def local_demo_maps_def collector_start_def
        local_policy_start_def usage_limit_def limit_in_force_def a split_beta)
qed

end
