(* ===== verification/Spec2Isabelle.thy ===== *)
theory Spec2Isabelle
  imports Config Intercept_Core Hook_Race Perf_Live Policy_Spec Client_Spec Basic_Spec Isolation_Spec Exp_Mr Exp_Tenants Exp_Effect
    Exp_Tools Exp_Cache_Spec Exp_Abuse Exp_Scale Exp_Micro_Hot Exp_Measure Local_Spec
begin

text \<open>
  A verification development for the RDMA interception layer.

  The program. A library that is preloaded into an RDMA application replaces the verbs that create
  and destroy queue pairs, memory regions, completion queues and protection domains. A hook asks
  whether the tenant of the process, the process and the machine have room, calls the driver's
  function and counts the resource. The counts and limits are in two shared memory objects: the
  process table and the tenant table. Around them stand the configuration, the log, a cache with
  a batch buffer in front of the process table, a policy manager that keeps the limits and
  publishes them in the process table, and a collector service that counts for all processes and
  answers over a socket. A daemon changes the tenant table while applications run.

  Conventions (\<open>Prelude\<close>, \<open>C_Text\<close>, \<open>C_Scan\<close>, \<open>C_Float\<close>). A C struct is a record, an
  enumeration a datatype or named constants, \<open>uint32_t\<close> and \<open>int\<close> are words of 32
  bits (\<open>u32\<close>, \<open>i32\<close>), \<open>uint64_t\<close>, \<open>size_t\<close> and \<open>time_t\<close>
  words of 64. A function that changes state takes the state last and returns its result with the
  new state; a call that may not return has an option result. What the operating system, the
  driver and the eBPF programs answer is an argument (\<open>shm_env\<close>, \<open>tenant_env\<close>,
  \<open>hook_env\<close>, \<open>policy_env\<close>, \<open>map_env\<close> and others). The texts are lists of
  characters, read with the scanning functions of \<open>C_Text\<close> and \<open>C_Scan\<close>.

  The parts.

  \<^bold>\<open>Process table\<close> (\<open>Shm\<close>: \<open>src/shm/shared_memory.c\<close>, \<open>shared_memory.h\<close>).
  One definition per function. \<open>shm_wf\<close> is its invariant, kept by every sequence of calls;
  an update is read back, and refused exactly when the table is full. \<open>keyed_table\<close> of the
  prelude is the interface its clients use; it is interpreted here and for the tenant bindings.

  \<^bold>\<open>Spin locks\<close> (\<open>Spin_Locks\<close>: the lock functions of both shared memory files) as
  interleavings of attempts by any number of threads; locale \<open>lock_word\<close>, interpreted for both.

  \<^bold>\<open>Tenant table\<close> (\<open>Tenant_Shm\<close>, \<open>Tenant_Spec\<close>: \<open>src/shm/shared_memory_tenant.c\<close>
  and its header). The operations, two invariants through the locale \<open>tenant_invariant\<close> (no call
  leaves the arrays; under legal calls the counters are exact), an abstract table of tenants and
  bindings with the refinement.

  \<^bold>\<open>Log, configuration, core\<close> (\<open>Intercept_Log\<close>: \<open>src/logger.c\<close>,
  \<open>include/rdma_intercept.h\<close>; \<open>Config\<close>: \<open>src/config.c\<close>; \<open>Intercept_Core\<close>:
  \<open>src/intercept_core.c\<close>). The setters and parsers, the round trip of printed numbers, the
  positivity of all limits after loading, the precedence of the file, the outcome of start-up.

  \<^bold>\<open>Hooks\<close> (\<open>Hooks_Tenant\<close>, \<open>Hooks_Spec\<close>, \<open>Hook_Race\<close>:
  \<open>src/rdma_hooks_tenant.c\<close>). Each hook with its checks, the driver call and the counting;
  the driver's answers are part of the environment and its calls are recorded. The exact admission
  condition and the quota under any sequence of hooks of a process (locale \<open>admission\<close>). In
  \<open>Hook_Race\<close> the creation of a queue pair is cut into the parts between which other processes
  come; in a row they are the hook, and interleaved with those of a second process they give the last
  place of a quota twice.

  \<^bold>\<open>Performance optimiser\<close> (\<open>Perf_Opt\<close>, \<open>Perf_Spec\<close>:
  \<open>src/performance_optimizer.c\<close> and its header). Cache, batch buffer, statistics, the fast
  check and the adaptive adjustment; what a hit returns, how a batched update reaches the table,
  and the update that is lost when two threads meet at a full buffer. \<open>Perf_Live\<close>: over every
  infinite run in which the flush thread keeps making turns, each batched update reaches the table
  (locale \<open>write_behind\<close>).

  \<^bold>\<open>Policy manager\<close> (\<open>Dyn_Policy\<close>, \<open>Policy_Spec\<close>:
  \<open>src/dynamic_policy_manager.c\<close>, \<open>include/dynamic_policy.h\<close>). Both mutexes are flags; locking
  a held mutex does not return. The adjustment thread is a place in the state: which calls return,
  the clean-up that waits for the thread included. A watermark is
  the rational its float denotes (no value for a NaN); the adjustment compares it with the float
  quotient of count and limit (\<open>C_Float\<close>) and only advises.

  \<^bold>\<open>Collector\<close> (\<open>Collector\<close>: \<open>src/collector_server.c\<close>; \<open>Collector_Client\<close>:
  \<open>src/collector_client.c\<close>; \<open>Collector_Spec\<close>). The service as a function from the bytes of a
  request to the bytes of a reply and the new state; the client over a channel of bytes. Connected
  to each other they agree on every event, on the statistics and on the checks; under any sequence
  of requests the service admits nothing past its limits, and only a total read from the eBPF maps
  takes its counters higher.

  \<^bold>\<open>Collector over shared memory\<close> (\<open>Collector_Shm\<close>: \<open>src/collector_server_shm.c\<close>).
  The variant without requests: it copies the eBPF maps into the process table. What the table
  holds after a synchronisation, over the \<open>keyed_table\<close> interface of \<open>Shm\<close>.

  \<^bold>\<open>Tenant daemon\<close> (\<open>Tenant_Daemon\<close>, \<open>Daemon_Spec\<close>:
  \<open>src/tenant_manager_daemon.c\<close>). The commands over the JSON library, which is a parameter
  (\<open>json_lib\<close>: parser, accessors and printer). Each request implements one operation of the
  abstract tenant table; a quota it updates is the one the hooks of running applications check.

  \<^bold>\<open>Client of the daemon\<close> (\<open>Tenant_Client\<close>, \<open>Client_Spec\<close>:
  \<open>src/tenant_manager_client.c\<close>). Requests, exchange and printed answers. Connected to the daemon,
  over a library that reads back what it printed (\<open>reads_back\<close>), each command line is one operation
  of the abstract tenant table, and the list shows the tenants in use.

  \<^bold>\<open>Command line\<close> (\<open>Tenant_Cli\<close>, \<open>Cli_Spec\<close>: \<open>src/tenant_manager.c\<close>). Options,
  commands and printed texts over the tenant table and the policy manager of the tool's own process;
  the commands as operations of the abstract table, and what every start does to the process table.

  \<^bold>\<open>Basic hooks\<close> (\<open>Hooks_Basic\<close>, \<open>Basic_Spec\<close>: \<open>src/rdma_hooks.c\<close>), in place of
  which the build links the tenant hooks: the checks fall back from the process table to the eBPF monitor and to the
  local counters; registrations also ask the collector. The per-process limit under any sequence of
  hooks (\<open>admission\<close>), the hooks that only pass on, and the connection with the collector service.

  \<^bold>\<open>Local policy\<close> (\<open>Local_Policy\<close>, \<open>Local_Spec\<close>: \<open>src/dynamic_policy.c\<close>). The
  limit of a process by the share of the global limit in use, with the rounding of the \<open>float\<close>
  quotient, compared with the exact thresholds.

  \<^bold>\<open>The system\<close> (\<open>Rdma_System\<close>, \<open>Isolation_Spec\<close>). The two shared objects with
  the processes, the daemon, the command line tool and the collector that act on them, each step with
  the functions of its part. Every step keeps the shape of both objects; each hook is a function of
  what its tenant sees; without the layer in force it is the driver call alone; and the hooks of other
  tenants and the requests about them can be deleted from a run without changing an answer a tenant
  gets or its row (locale \<open>noninterference\<close>), while the shared global count does couple tenants.

  \<^bold>\<open>Isolation experiments\<close> (\<open>Exp_Common\<close>, \<open>Exp_Qp\<close>, \<open>Exp_Mr\<close>:
  \<open>experiments/exp8_qp_isolation\<close>, \<open>experiments/exp9_mr_isolation\<close>). The programs that
  create many queue pairs or memory regions under the layer, with their reports in double precision
  (\<open>C_Double\<close>): they report exactly what the quota allows (locale \<open>metered\<close>, interpreted
  for both resources) and leave the counters as they were.

  \<^bold>\<open>Cache experiment\<close> (\<open>Exp_Stats\<close>, \<open>Exp_Cache\<close>, \<open>Exp_Cache_Spec\<close>:
  \<open>experiments/exp4_cache\<close>). Its statistics are the order statistics and the mean of the samples;
  a warm cache hits always; and the adaptive test never measures an adapted time to live.

  \<^bold>\<open>Tenant experiments\<close> (\<open>Exp_Tenants\<close>: \<open>experiments/exp2_multi_tenant_isolation\<close>;
  \<open>Exp_Effect\<close>: \<open>experiments/exp5_dynamic_policy\<close>; \<open>Exp_Tools\<close>: the tools of the
  experiments). A process that asks for more than its quota; one whose quota the daemon changes while
  it runs, with the exact number of successes before and after; and the small programs that work on
  the tenant table, each as one operation of the abstract table.

  \<^bold>\<open>Abuse of registrations\<close> (\<open>Exp_Attack\<close>: \<open>experiments/exp_mr_dereg\<close>;
  \<open>Exp_Abuse\<close>: \<open>paper_results/exp_mr_dereg\<close>). Two programs that release and register memory
  regions for a given time. They never hold more regions than the quota allows, and always as many;
  the quota does not slow them down. The loops end by the clock only and are partial functions; that
  they return is part of the theorems.

  \<^bold>\<open>Cycles\<close> (\<open>Exp_Cycle\<close>, \<open>Exp_Scale\<close>: the test of the interception, the
  measurement of quota updates, \<open>experiments/exp3_scalability\<close>). What creating and destroying a
  queue pair again and again does under the layer, where the slot of the process stays one ahead; and
  the percentiles of the reports, whose index is exact in spite of the rounding (\<open>C_Percent\<close>).

  \<^bold>\<open>Measurements\<close> (\<open>Exp_Micro\<close>, \<open>Exp_Micro_Hot\<close>:
  \<open>experiments/exp1_microbenchmark\<close>; \<open>Exp_Measure\<close>:
  \<open>experiments/exp5_dynamic_policy/src/exp5_measure_latency.c\<close>). The two microbenchmarks compute the
  same statistics of valid samples, the order statistics; what they create under the layer is what the
  quota leaves, and the second one leaves its part counted when it gives up. The measurement of the
  daemon sets the quotas it names, and one it does not name, and it releases an answer twice when the
  tenant does not exist.

  Bounds. The arrays have the sizes of the code (1024 processes, 64 tenants, 1024 buckets of the
  hash table, 256 of the cache). All loops of the code are bounded by these arrays, by the text
  they read or by the number of repetitions, apart from the loops of the two abuse programs and the
  wait for the adjustment thread, which are partial functions; every other definition is total and no
  fuel is used. The only other results that may be missing are those of a call that waits for a mutex
  its own thread holds, and of a program with undefined behaviour.

  Not modelled. Printing functions that change no state; the socket, signal and process calls of
  the services; the eBPF programs, whose sources are not in the repository; the tests, the
  shell and plotting scripts, a monitor that only reads the output of another program
  (\<open>victim_monitor.c\<close>), and the copies of the experiments in the backup directories.
\<close>

end
